(* ===== verification/Prelude.thy ===== *)
theory Prelude
  imports "HOL-Library.Word" "HOL-Library.Product_Lexorder" "HOL-Library.Char_ord" Complex_Main
begin

text \<open>
  Shared vocabulary of the development: exceptions as values and their sequencing, database
  tables as lists of rows with the SQL statements the code issues, UUIDs and the keys the
  code builds from them with f-strings, and JSON values.
\<close>

section \<open>Collections\<close>

named_theorems table_simps \<open>what a statement leaves in a table\<close>
named_theorems key_simps \<open>equality of the keys built from UUIDs and counters\<close>

section \<open>Evaluation\<close>

text \<open>Equality of lists, strings among them, stops at the first difference when it is evaluated.\<close>

fun eq_rest :: "bool \<Rightarrow> 'a list \<Rightarrow> 'a list \<Rightarrow> bool" where
  "eq_rest True xs ys = HOL.equal xs ys"
| "eq_rest False xs ys = False"

lemma equal_list_code [code]:
  "HOL.equal [] [] \<longleftrightarrow> True"
  "HOL.equal [] (y # ys) \<longleftrightarrow> False"
  "HOL.equal (x # xs) [] \<longleftrightarrow> False"
  "HOL.equal (x # xs) (y # ys) \<longleftrightarrow> eq_rest (HOL.equal x y) xs ys"
  by (simp_all add: equal) (cases "x = y"; simp add: equal)

section \<open>Exceptions\<close>

text \<open>
  Every raise of the source is a value. An \<open>ApiError\<close> carries its HTTP status and code (its
  message is a display text and not modelled). \<open>IntegrityError\<close> is the database refusing a
  row: a unique or check constraint, which it names.
\<close>

datatype error =
    ApiError nat string
  | ValueError string
  | RuntimeError string
  | LookupError string
  | IntegrityError string

text \<open>\<open>not_found(resource)\<close> of errors.py; \<open>upper()\<close> is applied to the literal at the call.\<close>

definition not_found :: "string \<Rightarrow> error" where
  "not_found resource = ApiError 404 (resource @ ''_NOT_FOUND'')"

text \<open>Sequencing: the first raise ends the computation.\<close>

definition and_then :: "error + 'a \<Rightarrow> ('a \<Rightarrow> error + 'b) \<Rightarrow> error + 'b" where
  "and_then m f = (case m of Inl e \<Rightarrow> Inl e | Inr x \<Rightarrow> f x)"

lemma and_then_simps [simp]:
  "and_then (Inl e) f = Inl e"
  "and_then (Inr x) f = f x"
  by (simp_all add: and_then_def)

lemma and_then_Inr_iff: "and_then m f = Inr y \<longleftrightarrow> (\<exists>x. m = Inr x \<and> f x = Inr y)"
  by (cases m) simp_all

lemma and_then_Inl_iff:
  "and_then m f = Inl e \<longleftrightarrow> m = Inl e \<or> (\<exists>x. m = Inr x \<and> f x = Inl e)"
  by (cases m) auto

lemma and_then_InrE:
  assumes "and_then m f = Inr y"
  obtains x where "m = Inr x" and "f x = Inr y"
  using assms by (auto simp: and_then_Inr_iff)

lemma case2_Inr_iff:
  "(case p of (a, b) \<Rightarrow> f a b) = Inr y \<longleftrightarrow> (\<exists>a b. p = (a, b) \<and> f a b = Inr y)"
  by (cases p) auto

lemma case3_Inr_iff:
  "(case p of (a, b, c) \<Rightarrow> f a b c) = Inr y \<longleftrightarrow> (\<exists>a b c. p = (a, b, c) \<and> f a b c = Inr y)"
  by (cases p) auto

lemma changed_Inr_iff:
  "(case p of (False, _, _) \<Rightarrow> Inl e | (True, a, b) \<Rightarrow> f a b) = Inr y \<longleftrightarrow>
   (\<exists>a b. p = (True, a, b) \<and> f a b = Inr y)"
  by (cases p) (auto split: bool.split)

text \<open>A list of operations, one after the other.\<close>

fun run_all :: "('s \<Rightarrow> 'op \<Rightarrow> error + 's) \<Rightarrow> 's \<Rightarrow> 'op list \<Rightarrow> error + 's" where
  "run_all exec s [] = Inr s"
| "run_all exec s (op # ops) = and_then (exec s op) (\<lambda>s'. run_all exec s' ops)"

definition is_ok :: "error + 'a \<Rightarrow> bool" where
  "is_ok m = (case m of Inl _ \<Rightarrow> False | Inr _ \<Rightarrow> True)"

lemma is_ok_simps [simp]: "is_ok (Inl e) = False" "is_ok (Inr x) = True"
  by (simp_all add: is_ok_def)

section \<open>Tables\<close>

text \<open>
  A table is the list of its rows in insertion order. \<open>select_where\<close> is a \<open>SELECT\<close>,
  \<open>first_where\<close> is \<open>db.scalar\<close> of one (its first row, or None), \<open>update_where\<close> an \<open>UPDATE\<close>,
  \<open>row_count\<close> the \<open>rowcount\<close> of that update, \<open>exists_where\<close> an \<open>EXISTS\<close>.
\<close>

definition select_where :: "('r \<Rightarrow> bool) \<Rightarrow> 'r list \<Rightarrow> 'r list" where
  "select_where p t = filter p t"

definition first_where :: "('r \<Rightarrow> bool) \<Rightarrow> 'r list \<Rightarrow> 'r option" where
  "first_where p t = List.find p t"

definition exists_where :: "('r \<Rightarrow> bool) \<Rightarrow> 'r list \<Rightarrow> bool" where
  "exists_where p t = list_ex p t"

definition update_where :: "('r \<Rightarrow> bool) \<Rightarrow> ('r \<Rightarrow> 'r) \<Rightarrow> 'r list \<Rightarrow> 'r list" where
  "update_where p f t = map (\<lambda>r. if p r then f r else r) t"

definition row_count :: "('r \<Rightarrow> bool) \<Rightarrow> 'r list \<Rightarrow> nat" where
  "row_count p t = length (filter p t)"

lemma first_where_None [simp]: "first_where p t = None \<longleftrightarrow> (\<forall>r \<in> set t. \<not> p r)"
  by (auto simp: first_where_def find_None_iff)

lemma first_where_Some: "first_where p t = Some r \<Longrightarrow> r \<in> set t \<and> p r"
  by (auto simp: first_where_def find_Some_iff)

lemma first_where_Nil: "first_where p [] = None"
  by (simp add: first_where_def)

lemma first_where_Cons: "first_where p (r # t) = (if p r then Some r else first_where p t)"
  by (simp add: first_where_def)

lemma first_where_append:
  "first_where p (s @ t) = (case first_where p s of None \<Rightarrow> first_where p t | Some r \<Rightarrow> Some r)"
  by (induction s) (auto simp: first_where_def)

lemma exists_where_iff [simp]: "exists_where p t \<longleftrightarrow> (\<exists>r \<in> set t. p r)"
  by (simp add: exists_where_def list_ex_iff)

lemma update_where_Nil [table_simps]: "update_where p f [] = []"
  by (simp add: update_where_def)

lemma update_where_Cons [table_simps]:
  "update_where p f (r # t) = (if p r then f r else r) # update_where p f t"
  by (simp add: update_where_def)

lemma length_update_where [simp]: "length (update_where p f t) = length t"
  by (simp add: update_where_def)

lemma update_where_append [table_simps]:
  "update_where p f (s @ t) = update_where p f s @ update_where p f t"
  by (simp add: update_where_def)

lemma set_update_where:
  "r \<in> set (update_where p f t) \<longleftrightarrow> (\<exists>x \<in> set t. r = (if p x then f x else x))"
  by (auto simp: update_where_def)

lemma map_update_where_cong:
  "(\<And>r. r \<in> set t \<Longrightarrow> p r \<Longrightarrow> k (f r) = k r) \<Longrightarrow> map k (update_where p f t) = map k t"
  by (auto simp: update_where_def)

lemma update_where_none: "(\<And>r. r \<in> set t \<Longrightarrow> \<not> p r) \<Longrightarrow> update_where p f t = t"
  by (auto simp: update_where_def intro: map_idI)

lemma filter_update_where_cong:
  "(\<And>r. r \<in> set t \<Longrightarrow> p r \<Longrightarrow> q (f r) = q r) \<Longrightarrow>
   filter q (update_where p f t) = update_where p f (filter q t)"
  by (induction t) (auto simp: update_where_def)

lemma row_count_0: "row_count p t = 0 \<longleftrightarrow> (\<forall>r \<in> set t. \<not> p r)"
  by (simp add: row_count_def filter_empty_conv)

lemma row_count_le_1:
  assumes "distinct (map k t)" and "\<And>r s. p r \<Longrightarrow> p s \<Longrightarrow> k r = k s"
  shows "row_count p t \<le> 1"
  using assms(1)
proof (induction t)
  case Nil
  then show ?case by (simp add: row_count_def)
next
  case (Cons r t)
  show ?case
  proof (cases "p r")
    case True
    have "\<not> p s" if "s \<in> set t" for s
      using Cons.prems assms(2) [OF True, of s] that by auto
    with True show ?thesis by (simp add: row_count_def filter_empty_conv)
  next
    case False
    with Cons show ?thesis by (simp add: row_count_def)
  qed
qed

lemma row_count_1_iff:
  assumes "distinct (map k t)" and "\<And>r s. p r \<Longrightarrow> p s \<Longrightarrow> k r = k s"
  shows "row_count p t = 1 \<longleftrightarrow> (\<exists>r \<in> set t. p r)"
proof -
  have le: "row_count p t \<le> 1" using assms by (rule row_count_le_1)
  have "row_count p t = 0 \<longleftrightarrow> (\<forall>r \<in> set t. \<not> p r)" by (rule row_count_0)
  with le show ?thesis by (cases "row_count p t = 0") auto
qed

text \<open>A lookup by a unique key finds exactly the row that has the key.\<close>

lemma first_where_key:
  assumes "distinct (map k t)" and "r \<in> set t"
  shows "first_where (\<lambda>x. k x = k r) t = Some r"
  using assms
proof (induction t)
  case Nil
  then show ?case by simp
next
  case (Cons x t)
  then show ?case by (cases "r = x") (auto simp: first_where_Cons rev_image_eqI)
qed

lemma first_where_key_eq:
  assumes "distinct (map k t)" and "r \<in> set t" and "k r = i"
  shows "first_where (\<lambda>x. k x = i) t = Some r"
  using first_where_key [OF assms(1,2)] assms(3) by simp

lemma key_unique:
  "distinct (map k t) \<Longrightarrow> r \<in> set t \<Longrightarrow> s \<in> set t \<Longrightarrow> k r = k s \<Longrightarrow> r = s"
  by (induction t) (auto simp: rev_image_eqI)

lemma first_where_update_same:
  assumes "\<And>r. k (f r) = k r"
  shows "first_where (\<lambda>x. k x = i) (update_where (\<lambda>x. k x = i) f t) =
         map_option f (first_where (\<lambda>x. k x = i) t)"
  by (induction t) (auto simp: first_where_def table_simps assms)

lemma first_where_update_other:
  assumes "\<And>r. p r \<Longrightarrow> \<not> q r \<and> \<not> q (f r)"
  shows "first_where q (update_where p f t) = first_where q t"
  by (induction t) (auto simp: first_where_def table_simps assms)

text \<open>Sums over a table, when one keyed row changes.\<close>

lemma sum_list_update_key:
  fixes w :: "'r \<Rightarrow> int"
  assumes "distinct (map k t)" and "r \<in> set t"
  shows "sum_list (map w (update_where (\<lambda>x. k x = k r) f t)) =
         sum_list (map w t) - w r + w (f r)"
  using assms
proof (induction t)
  case Nil
  then show ?case by simp
next
  case (Cons x t)
  show ?case
  proof (cases "x = r")
    case True
    with Cons.prems have "update_where (\<lambda>x. k x = k r) f t = t"
      by (intro update_where_none) (auto simp: rev_image_eqI)
    with True show ?thesis by (simp add: table_simps)
  next
    case False
    with Cons.prems have "r \<in> set t" and "k x \<noteq> k r" by (auto simp: rev_image_eqI)
    with Cons show ?thesis by (simp add: table_simps)
  qed
qed

section \<open>Time\<close>

text \<open>
  An instant is a number of microseconds since the epoch (UTC), a \<open>timedelta\<close> a number of
  microseconds. Naive datetimes, which the code reads as UTC (\<open>aware\<close> in ledger.py), are the
  same instants.
\<close>

type_synonym time = int
type_synonym timedelta = int

definition seconds :: "int \<Rightarrow> timedelta" where
  "seconds n = n * 1000000"

definition minutes :: "int \<Rightarrow> timedelta" where
  "minutes n = seconds (60 * n)"

section \<open>Case of texts\<close>

text \<open>\<^verbatim>\<open>str.lower\<close> and \<^verbatim>\<open>str.upper\<close> on ASCII.\<close>

definition lower_text :: "string \<Rightarrow> string" where
  "lower_text = map (\<lambda>c. if CHR ''A'' \<le> c \<and> c \<le> CHR ''Z'' then char_of (of_char c + (32::nat)) else c)"

definition upper_text :: "string \<Rightarrow> string" where
  "upper_text = map (\<lambda>c. if CHR ''a'' \<le> c \<and> c \<le> CHR ''z'' then char_of (of_char c - (32::nat)) else c)"

section \<open>UUIDs and decimal numbers as text\<close>

type_synonym uuid = "128 word"

definition hex_digit :: "nat \<Rightarrow> char" where
  "hex_digit d = ''0123456789abcdef'' ! d"

fun hex_pad :: "nat \<Rightarrow> nat \<Rightarrow> string" where
  "hex_pad 0 n = []"
| "hex_pad (Suc k) n = hex_pad k (n div 16) @ [hex_digit (n mod 16)]"

text \<open>\<open>uuid.hex\<close> and \<open>str(uuid)\<close>: 32 lowercase digits, and the same in groups of 8-4-4-4-12.\<close>

definition uuid_hex :: "uuid \<Rightarrow> string" where
  "uuid_hex u = hex_pad 32 (unat u)"

definition uuid_str :: "uuid \<Rightarrow> string" where
  "uuid_str u =
     (let h = uuid_hex u in
      take 8 h @ ''-'' @ take 4 (drop 8 h) @ ''-'' @ take 4 (drop 12 h) @ ''-'' @
      take 4 (drop 16 h) @ ''-'' @ drop 20 h)"

fun nat_str :: "nat \<Rightarrow> string" where
  "nat_str n = (if n < 10 then [hex_digit n] else nat_str (n div 10) @ [hex_digit (n mod 10)])"

declare nat_str.simps [simp del]

lemma nth_distinct_eq: "distinct xs \<Longrightarrow> i < length xs \<Longrightarrow> j < length xs \<Longrightarrow> xs ! i = xs ! j \<longleftrightarrow> i = j"
  by (simp add: nth_eq_iff_index_eq)

lemma hex_digit_inj: "a < 16 \<Longrightarrow> b < 16 \<Longrightarrow> hex_digit a = hex_digit b \<longleftrightarrow> a = b"
  unfolding hex_digit_def by (rule nth_distinct_eq) simp_all

lemma length_hex_pad [simp]: "length (hex_pad k n) = k"
  by (induction k n rule: hex_pad.induct) simp_all

lemma hex_pad_inj: "a < 16 ^ k \<Longrightarrow> b < 16 ^ k \<Longrightarrow> hex_pad k a = hex_pad k b \<longleftrightarrow> a = b"
proof (induction k arbitrary: a b)
  case 0
  then show ?case by simp
next
  case (Suc k)
  have "a div 16 < 16 ^ k" and "b div 16 < 16 ^ k"
    using Suc.prems by (auto simp: less_mult_imp_div_less mult.commute)
  then have "hex_pad k (a div 16) = hex_pad k (b div 16) \<longleftrightarrow> a div 16 = b div 16"
    by (rule Suc.IH)
  moreover have "hex_digit (a mod 16) = hex_digit (b mod 16) \<longleftrightarrow> a mod 16 = b mod 16"
    by (rule hex_digit_inj) simp_all
  moreover have "a = b \<longleftrightarrow> a div 16 = b div 16 \<and> a mod 16 = b mod 16"
    by (metis div_mult_mod_eq)
  ultimately show ?case by simp
qed

lemma length_uuid_hex [simp]: "length (uuid_hex u) = 32"
  by (simp add: uuid_hex_def)

lemma uuid_hex_inj [key_simps]: "uuid_hex u = uuid_hex v \<longleftrightarrow> u = v"
proof -
  have "unat w < 16 ^ 32" for w :: uuid
    using unsigned_less [of w, where 'a = nat] by simp
  then show ?thesis
    unfolding uuid_hex_def by (simp add: hex_pad_inj word_unat_eq_iff)
qed

lemma length_uuid_str [simp]: "length (uuid_str u) = 36"
  by (simp add: uuid_str_def Let_def)

text \<open>Removing the dashes gives the 32 digits back, so the text determines the UUID.\<close>

definition uuid_undash :: "string \<Rightarrow> string" where
  "uuid_undash s =
     take 8 s @ take 4 (drop 9 s) @ take 4 (drop 14 s) @ take 4 (drop 19 s) @ drop 24 s"

lemma uuid_undash_str: "uuid_undash (uuid_str u) = uuid_hex u"
proof -
  obtain a b c d e where h: "uuid_hex u = a @ b @ c @ d @ e"
    and len: "length a = 8" "length b = 4" "length c = 4" "length d = 4"
  proof
    let ?h = "uuid_hex u"
    have step: "take n (drop m ?h) @ drop (n + m) ?h = drop m ?h" for m n
      by (metis append_take_drop_id drop_drop)
    show "?h = take 8 ?h @ take 4 (drop 8 ?h) @ take 4 (drop 12 ?h) @ take 4 (drop 16 ?h) @ drop 20 ?h"
      using step [of 8 0] step [of 4 8] step [of 4 12] step [of 4 16] by simp
  qed simp_all
  show ?thesis
    by (simp add: uuid_str_def uuid_undash_def h len Let_def)
qed

lemma uuid_str_inj [key_simps]: "uuid_str u = uuid_str v \<longleftrightarrow> u = v"
  by (metis uuid_undash_str uuid_hex_inj)

lemma uuid_str_append [key_simps]: "uuid_str u @ s = uuid_str v @ t \<longleftrightarrow> u = v \<and> s = t"
  by (simp add: append_eq_append_conv key_simps)

lemma nat_str_inj [key_simps]: "nat_str a = nat_str b \<longleftrightarrow> a = b"
proof
  show "nat_str a = nat_str b \<Longrightarrow> a = b"
  proof (induction a arbitrary: b rule: nat_str.induct)
    case (1 a)
    have ne: "nat_str n \<noteq> []" for n by (subst nat_str.simps) simp
    show ?case
    proof (cases "a < 10"; cases "b < 10")
      assume "a < 10" "b < 10"
      with "1.prems" show ?thesis by (simp add: nat_str.simps hex_digit_inj)
    next
      assume "a < 10" "\<not> b < 10"
      with "1.prems" ne [of "b div 10"] show ?thesis
        by (simp add: nat_str.simps [of a] nat_str.simps [of b])
    next
      assume "\<not> a < 10" "b < 10"
      with "1.prems" ne [of "a div 10"] show ?thesis
        by (simp add: nat_str.simps [of a] nat_str.simps [of b])
    next
      assume big: "\<not> a < 10" "\<not> b < 10"
      with "1.prems" have "nat_str (a div 10) = nat_str (b div 10)"
        and d: "hex_digit (a mod 10) = hex_digit (b mod 10)"
        by (simp_all add: nat_str.simps [of a] nat_str.simps [of b])
      from "1.IH" [OF big(1) this(1)] have "a div 10 = b div 10" .
      moreover from d have "a mod 10 = b mod 10" by (subst (asm) hex_digit_inj) simp_all
      ultimately show ?thesis by (metis div_mult_mod_eq)
    qed
  qed
qed simp

text \<open>\<open>str(i)\<close> of an integer.\<close>

definition int_str :: "int \<Rightarrow> string" where
  "int_str i = (if i < 0 then CHR ''-'' # nat_str (nat (- i)) else nat_str (nat i))"

definition int_char :: "char \<Rightarrow> bool" where
  "int_char c \<longleftrightarrow> c \<in> set ''0123456789-''"

lemma nat_str_digits: "nat_str n \<noteq> [] \<and> set (nat_str n) \<subseteq> set ''0123456789''"
proof (induction n rule: nat_str.induct)
  case (1 n)
  have digit: "hex_digit d \<in> set ''0123456789''" if "d < 10" for d
    using that by (auto simp: hex_digit_def less_Suc_eq numeral_eq_Suc)
  show ?case
  proof (cases "n < 10")
    case True
    then show ?thesis using digit [of n] by (simp add: nat_str.simps [of n])
  next
    case False
    then show ?thesis
      using "1.IH" digit [of "n mod 10"] by (subst (1 2) nat_str.simps) simp
  qed
qed

lemma nat_str_char:
  assumes "c \<in> set (nat_str n)"
  shows "int_char c \<and> c \<noteq> CHR ''-''"
proof -
  have "c \<in> set ''0123456789''" using nat_str_digits [of n] assms by blast
  then have "c \<in> set ''0123456789-''" and "c \<noteq> CHR ''-''" by (simp, auto)
  then show ?thesis by (simp add: int_char_def)
qed

lemma int_str_chars: "int_str i \<noteq> [] \<and> (\<forall>c \<in> set (int_str i). int_char c)"
  using nat_str_char nat_str_digits by (simp add: int_str_def) (simp add: int_char_def)

lemma int_str_inj [key_simps]: "int_str i = int_str j \<longleftrightarrow> i = j"
proof -
  have hd: "hd (nat_str n) \<noteq> CHR ''-''" for n
    using nat_str_digits [of n] nat_str_char [OF hd_in_set, of n] by blast
  have "CHR ''-'' # nat_str m \<noteq> nat_str n" for m n
    using hd [of n] by (metis list.sel(1))
  then show ?thesis by (cases "i < 0"; cases "j < 0") (auto simp: int_str_def key_simps dest: sym)
qed

section \<open>JSON\<close>

text \<open>Values of the JSON columns; an object is the list of its members.\<close>

datatype json =
    JNull
  | JBool bool
  | JInt int
  | JStr string
  | JList "json list"
  | JObj "(string \<times> json) list"

end
