(* ===== verification/Models.thy ===== *)
theory Models
  imports Prelude
begin

text \<open>
  The persistent state (apps/api/app/models.py): the enumerations, one record per table with
  its columns, the check and unique constraints the database enforces on inserted rows, and
  the database itself. Relationships, foreign keys and indexes that do not constrain values
  are not modelled (every operation reads the rows it references before it writes them), nor
  are the display names of the quality tiers.
\<close>

section \<open>Enumerations\<close>

datatype job_status =
    JOB_CREATED | JOB_RESERVED | JOB_QUEUED | JOB_ROUTING | JOB_SUBMITTED | JOB_RUNNING
  | JOB_CANCEL_REQUESTED | JOB_POSTPROCESSING | JOB_VALIDATING | JOB_SUCCEEDED
  | JOB_FAILED_FINAL | JOB_CANCELLED | JOB_EXPIRED | JOB_REJECTED_POLICY

datatype attempt_status =
    ATT_CREATED | ATT_SUBMITTING | ATT_SUBMITTED | ATT_RUNNING | ATT_SUCCEEDED
  | ATT_FAILED_RETRYABLE | ATT_FAILED_FINAL | ATT_CANCELLED | ATT_TIMED_OUT

datatype quote_status = QUOTE_OPEN | QUOTE_USED | QUOTE_EXPIRED

datatype settlement_status = SET_RESERVED | SET_SETTLED | SET_RELEASED

datatype batch_status =
  BATCH_QUEUED | BATCH_RUNNING | BATCH_SUCCEEDED | BATCH_PARTIAL | BATCH_FAILED_FINAL

datatype api_idempotency_status = IDEM_IN_PROGRESS | IDEM_COMPLETED

datatype outbox_status = OB_PENDING | OB_PROCESSING | OB_PUBLISHED | OB_DEAD_LETTER

datatype inbox_status = IN_RECEIVED | IN_PROCESSING | IN_PROCESSED | IN_IGNORED

datatype dead_letter_source = DL_OUTBOX | DL_STORAGE_CLEANUP

datatype dead_letter_status = DL_OPEN | DL_REPLAYED

datatype asset_status = ASSET_READY | ASSET_DELETED

datatype project_status = PROJECT_ACTIVE | PROJECT_DELETED

datatype cleanup_object_kind = KIND_PROVIDER | KIND_ASSET | KIND_OUTPUT

datatype cleanup_object_status = CO_PENDING | CO_DELETED

datatype output_validation_status = OUT_PENDING | OUT_VALID | OUT_INVALID

text \<open>The \<open>.value\<close> of the two status enumerations, which the event log stores.\<close>

fun job_status_value :: "job_status \<Rightarrow> string" where
  "job_status_value JOB_CREATED = ''CREATED''"
| "job_status_value JOB_RESERVED = ''RESERVED''"
| "job_status_value JOB_QUEUED = ''QUEUED''"
| "job_status_value JOB_ROUTING = ''ROUTING''"
| "job_status_value JOB_SUBMITTED = ''SUBMITTED''"
| "job_status_value JOB_RUNNING = ''RUNNING''"
| "job_status_value JOB_CANCEL_REQUESTED = ''CANCEL_REQUESTED''"
| "job_status_value JOB_POSTPROCESSING = ''POSTPROCESSING''"
| "job_status_value JOB_VALIDATING = ''VALIDATING''"
| "job_status_value JOB_SUCCEEDED = ''SUCCEEDED''"
| "job_status_value JOB_FAILED_FINAL = ''FAILED_FINAL''"
| "job_status_value JOB_CANCELLED = ''CANCELLED''"
| "job_status_value JOB_EXPIRED = ''EXPIRED''"
| "job_status_value JOB_REJECTED_POLICY = ''REJECTED_POLICY''"

fun attempt_status_value :: "attempt_status \<Rightarrow> string" where
  "attempt_status_value ATT_CREATED = ''CREATED''"
| "attempt_status_value ATT_SUBMITTING = ''SUBMITTING''"
| "attempt_status_value ATT_SUBMITTED = ''SUBMITTED''"
| "attempt_status_value ATT_RUNNING = ''RUNNING''"
| "attempt_status_value ATT_SUCCEEDED = ''SUCCEEDED''"
| "attempt_status_value ATT_FAILED_RETRYABLE = ''FAILED_RETRYABLE''"
| "attempt_status_value ATT_FAILED_FINAL = ''FAILED_FINAL''"
| "attempt_status_value ATT_CANCELLED = ''CANCELLED''"
| "attempt_status_value ATT_TIMED_OUT = ''TIMED_OUT''"

lemma job_status_value_inj [simp]: "job_status_value a = job_status_value b \<longleftrightarrow> a = b"
  by (cases a; cases b) simp_all

lemma attempt_status_value_inj [simp]: "attempt_status_value a = attempt_status_value b \<longleftrightarrow> a = b"
  by (cases a; cases b) simp_all

section \<open>Rows: users, projects, shots, assets\<close>

record app_user =
  user_id :: uuid
  user_auth_subject :: string

record project =
  pr_id :: uuid
  pr_owner_id :: uuid
  pr_name :: string
  pr_description :: "string option"
  pr_status :: project_status
  pr_deleted_at :: "time option"
  pr_route_binding_status :: string
  pr_route_candidate_id :: "uuid option"
  pr_route_binding_source :: "string option"
  pr_route_bound_at :: "time option"
  pr_created_at :: time

record shot =
  sh_id :: uuid
  sh_project_id :: uuid
  sh_title :: string
  sh_prompt :: string
  sh_duration_seconds :: int
  sh_aspect_ratio :: string
  sh_created_at :: time

record project_asset =
  as_id :: uuid
  as_project_id :: uuid
  as_owner_id :: uuid
  as_object_key :: string
  as_original_filename :: string
  as_media_type :: string
  as_size_bytes :: int
  as_sha256 :: "string option"
  as_status :: asset_status
  as_created_at :: time

record shot_reference =
  sr_id :: uuid
  sr_project_id :: uuid
  sr_shot_id :: uuid
  sr_asset_id :: uuid
  sr_reference_role :: string

record route_definition =
  rd_provider_code :: string
  rd_workflow_id :: string
  rd_durations_ms :: "int list"
  rd_resolutions :: "string list"
  rd_aspect_ratios :: "string list"
  rd_requires_input_claim :: bool

record generation_route_version =
  rv_candidate_id :: uuid
  rv_key :: string
  rv_definition :: route_definition

record route_admission =
  ra_candidate_id :: uuid
  ra_enabled :: bool

section \<open>Rows: catalog, quotes, ledger\<close>

record quality_tier =
  qt_code :: string
  qt_billing_unit :: string
  qt_enabled :: bool

record price_version =
  pv_id :: uuid
  pv_tier_code :: string
  pv_version :: int
  pv_resolution :: string
  pv_charge_numerator :: int
  pv_charge_denominator :: int
  pv_enabled :: bool
  pv_effective_from :: time
  pv_effective_until :: "time option"

record quote =
  qu_id :: uuid
  qu_user_id :: uuid
  qu_project_id :: uuid
  qu_shot_id :: uuid
  qu_price_version_id :: uuid
  qu_tier_code :: string
  qu_billing_unit :: string
  qu_duration_ms :: int
  qu_variant_count :: int
  qu_resolution :: string
  qu_aspect_ratio :: string
  qu_reserved_ms :: int
  qu_status :: quote_status
  qu_expires_at :: time
  qu_used_at :: "time option"
  qu_created_at :: time

text \<open>\<open>QuoteSnapshot\<close>: the keys of the dictionary \<open>_quote_snapshot\<close> builds.\<close>

record quote_snapshot =
  qs_quote_id :: string
  qs_tier_code :: string
  qs_billing_unit :: string
  qs_price_version_id :: string
  qs_price_version :: int
  qs_charge_numerator :: int
  qs_charge_denominator :: int
  qs_duration_ms :: int
  qs_variant_count :: int
  qs_resolution :: string
  qs_aspect_ratio :: string
  qs_reserved_ms :: int
  qs_quoted_at :: time
  qs_expires_at :: time

record ledger_account =
  la_id :: uuid
  la_scope_key :: string
  la_owner_type :: string
  la_owner_id :: "uuid option"
  la_account_type :: string
  la_unit :: string

text \<open>The dictionary under \<open>metadata_json["transfer"]\<close>.\<close>

record transfer_signature =
  ts_debit_account_id :: string
  ts_credit_account_id :: string
  ts_amount_ms :: int
  ts_reason :: "string option"

record ledger_transaction =
  lt_id :: uuid
  lt_tx_type :: string
  lt_idempotency_key :: string
  lt_reference_type :: string
  lt_reference_id :: string
  lt_unit :: string
  lt_transfer :: transfer_signature
  lt_created_at :: time

record wallet_balance =
  wb_account_id :: uuid
  wb_balance_ms :: int
  wb_version :: int
  wb_updated_at :: time

record ledger_posting =
  lp_transaction_id :: uuid
  lp_account_id :: uuid
  lp_unit :: string
  lp_amount_ms :: int

section \<open>Rows: jobs, attempts, outputs, events\<close>

record generation_batch =
  gb_id :: uuid
  gb_user_id :: uuid
  gb_project_id :: uuid
  gb_status :: batch_status
  gb_ledger_unit :: string
  gb_reserved_amount_ms :: int
  gb_reserved_tx_id :: uuid

record input_reference =
  ir_asset_id :: uuid
  ir_object_key :: string
  ir_reference_role :: string

record job_input_snapshot =
  js_version :: int
  js_prompt :: string
  js_negative_prompt :: "string option"
  js_references :: "input_reference list"
  js_duration_ms :: int
  js_resolution :: string
  js_aspect_ratio :: string
  js_mode :: string

record generation_job =
  job_id :: uuid
  job_user_id :: uuid
  job_project_id :: uuid
  job_shot_id :: uuid
  job_batch_id :: "uuid option"
  job_tier_code :: string
  job_duration_ms :: int
  job_resolution :: string
  job_aspect_ratio :: string
  job_variant_index :: int
  job_quote_id :: "uuid option"
  job_quote_snapshot :: "quote_snapshot option"
  job_input_snapshot :: "job_input_snapshot option"
  job_status :: job_status
  job_ledger_unit :: "string option"
  job_reserved_amount_ms :: "int option"
  job_settlement_status :: "settlement_status option"
  job_reserved_tx_id :: "uuid option"
  job_selected_route_candidate_id :: "uuid option"
  job_final_output_id :: "uuid option"
  job_failure_code :: "string option"
  job_error_message :: "string option"
  job_mock_mode :: string
  job_started_at :: "time option"
  job_finished_at :: "time option"
  job_created_at :: time
  job_updated_at :: time

record generation_attempt =
  at_id :: uuid
  at_job_id :: uuid
  at_attempt_no :: int
  at_provider_endpoint_id :: "uuid option"
  at_provider_code :: string
  at_provider_job_id :: "string option"
  at_workflow_version :: string
  at_worker_version :: "string option"
  at_image_digest :: "string option"
  at_worker_commit :: "string option"
  at_comfyui_version :: "string option"
  at_comfyui_commit :: "string option"
  at_workflow_hash :: "string option"
  at_model_hashes :: "(string \<times> string) list option"
  at_gpu_type :: "string option"
  at_queue_ms :: "int option"
  at_cold_start_ms :: "int option"
  at_runtime_ms :: "int option"
  at_billable_ms :: "int option"
  at_status :: attempt_status
  at_failure_code :: "string option"
  at_started_at :: "time option"
  at_finished_at :: "time option"
  at_cost_minor :: "int option"
  at_cost_currency :: "string option"
  at_cost_source :: "string option"
  at_raw_metrics :: "json option"
  at_created_at :: time
  at_updated_at :: time

record generation_output =
  go_id :: uuid
  go_job_id :: uuid
  go_attempt_id :: uuid
  go_object_key :: string
  go_media_type :: string
  go_duration_ms :: "int option"
  go_width :: "int option"
  go_height :: "int option"
  go_fps :: "rat option"
  go_codec :: "string option"
  go_size_bytes :: int
  go_sha256 :: "string option"
  go_validation_status :: output_validation_status

record job_event =
  ev_job_id :: uuid
  ev_attempt_id :: "uuid option"
  ev_event_type :: string
  ev_from_status :: "string option"
  ev_to_status :: string
  ev_dedup_key :: string
  ev_payload :: json

section \<open>Rows: outboxes, inbox, dead letters, idempotency, artifacts\<close>

record outbox_event =
  ob_id :: uuid
  ob_job_id :: uuid
  ob_attempt_id :: "uuid option"
  ob_event_type :: string
  ob_idempotency_key :: string
  ob_payload :: json
  ob_status :: outbox_status
  ob_attempt_count :: int
  ob_next_attempt_at :: time
  ob_locked_at :: "time option"
  ob_lock_token :: "string option"
  ob_published_at :: "time option"
  ob_workflow_id :: "string option"
  ob_last_error :: "string option"
  ob_created_at :: time

record storage_cleanup_event =
  ce_id :: uuid
  ce_project_id :: uuid
  ce_idempotency_key :: string
  ce_status :: outbox_status
  ce_attempt_count :: int
  ce_next_attempt_at :: time
  ce_locked_at :: "time option"
  ce_lock_token :: "string option"
  ce_published_at :: "time option"
  ce_last_error :: "string option"
  ce_created_at :: time

record storage_cleanup_object =
  co_id :: uuid
  co_event_id :: uuid
  co_object_key :: string
  co_object_kind :: cleanup_object_kind
  co_status :: cleanup_object_status
  co_attempt_count :: int
  co_cleaned_at :: "time option"
  co_not_before :: time
  co_last_error :: "string option"

record provider_artifact =
  pa_id :: uuid
  pa_project_id :: uuid
  pa_job_id :: uuid
  pa_attempt_id :: uuid
  pa_object_key :: string
  pa_kind :: string
  pa_retain_until :: time
  pa_status :: outbox_status
  pa_attempt_count :: int
  pa_next_attempt_at :: time
  pa_locked_at :: "time option"
  pa_lock_token :: "string option"
  pa_cleaned_at :: "time option"
  pa_last_error :: "string option"
  pa_created_at :: time

record provider_event_inbox =
  pi_id :: uuid
  pi_provider_code :: string
  pi_external_event_id :: string
  pi_provider_job_id :: string
  pi_provider_status :: string
  pi_payload_hash :: string
  pi_failure_code :: "string option"
  pi_status :: inbox_status
  pi_attempt_id :: "uuid option"
  pi_job_id :: "uuid option"
  pi_locked_at :: "time option"
  pi_lock_token :: "string option"
  pi_processed_at :: "time option"

record dead_letter_event =
  dl_id :: uuid
  dl_source_type :: dead_letter_source
  dl_source_id :: uuid
  dl_event_type :: string
  dl_payload :: json
  dl_attempt_count :: int
  dl_cycle_count :: int
  dl_last_error :: string
  dl_status :: dead_letter_status
  dl_replayed_at :: "time option"
  dl_created_at :: time

record admin_operation_audit =
  aa_actor_user_id :: uuid
  aa_operation_type :: string
  aa_operation_key :: string
  aa_target_type :: string
  aa_target_id :: uuid
  aa_details :: json
  aa_created_at :: time

record api_idempotency_record =
  idr_id :: uuid
  idr_user_id :: uuid
  idr_scope :: string
  idr_idempotency_key :: string
  idr_request_hash :: string
  idr_status :: api_idempotency_status
  idr_result_type :: "string option"
  idr_result_id :: "uuid option"
  idr_response_status :: "int option"

section \<open>The database\<close>

text \<open>
  \<open>db_now\<close> is the database's \<open>now()\<close>, fixed within a transaction: the server default and
  \<open>onupdate\<close> of the timestamp columns. \<open>uuid4()\<close> draws from \<open>uuid_supply\<close>, an arbitrary
  function of the environment; \<open>uuid_next\<close> counts the draws.
\<close>

record database =
  db_now :: time
  uuid_supply :: "nat \<Rightarrow> uuid"
  uuid_next :: nat
  t_users :: "app_user list"
  t_projects :: "project list"
  t_shots :: "shot list"
  t_assets :: "project_asset list"
  t_shot_references :: "shot_reference list"
  t_route_versions :: "generation_route_version list"
  t_route_admissions :: "route_admission list"
  t_tiers :: "quality_tier list"
  t_prices :: "price_version list"
  t_quotes :: "quote list"
  t_accounts :: "ledger_account list"
  t_transactions :: "ledger_transaction list"
  t_balances :: "wallet_balance list"
  t_postings :: "ledger_posting list"
  t_batches :: "generation_batch list"
  t_jobs :: "generation_job list"
  t_attempts :: "generation_attempt list"
  t_outputs :: "generation_output list"
  t_events :: "job_event list"
  t_outbox :: "outbox_event list"
  t_cleanup_events :: "storage_cleanup_event list"
  t_cleanup_objects :: "storage_cleanup_object list"
  t_artifacts :: "provider_artifact list"
  t_inbox :: "provider_event_inbox list"
  t_dead_letters :: "dead_letter_event list"
  t_audits :: "admin_operation_audit list"
  t_idempotency :: "api_idempotency_record list"

definition uuid4 :: "database \<Rightarrow> uuid \<times> database" where
  "uuid4 db = (uuid_supply db (uuid_next db), db\<lparr>uuid_next := Suc (uuid_next db)\<rparr>)"

definition empty_database :: "time \<Rightarrow> database" where
  "empty_database now = \<lparr>db_now = now, uuid_supply = of_nat, uuid_next = 1,
     t_users = [], t_projects = [], t_shots = [], t_assets = [], t_shot_references = [],
     t_route_versions = [], t_route_admissions = [], t_tiers = [], t_prices = [],
     t_quotes = [], t_accounts = [], t_transactions = [], t_balances = [], t_postings = [],
     t_batches = [], t_jobs = [], t_attempts = [], t_outputs = [], t_events = [],
     t_outbox = [], t_cleanup_events = [], t_cleanup_objects = [], t_artifacts = [],
     t_inbox = [], t_dead_letters = [], t_audits = [], t_idempotency = []\<rparr>"

section \<open>Row access and column updates\<close>

text \<open>
  \<open>db.get(Model, id)\<close> and the flush of changed columns of one object: an \<open>UPDATE\<close> of the row
  with that id, which also moves \<open>updated_at\<close> (\<open>onupdate=func.now()\<close>).
\<close>

definition get_job :: "database \<Rightarrow> uuid \<Rightarrow> generation_job option" where
  "get_job db i = first_where (\<lambda>r. job_id r = i) (t_jobs db)"

definition get_attempt :: "database \<Rightarrow> uuid \<Rightarrow> generation_attempt option" where
  "get_attempt db i = first_where (\<lambda>r. at_id r = i) (t_attempts db)"

definition get_project :: "database \<Rightarrow> uuid \<Rightarrow> project option" where
  "get_project db i = first_where (\<lambda>r. pr_id r = i) (t_projects db)"

definition get_shot :: "database \<Rightarrow> uuid \<Rightarrow> shot option" where
  "get_shot db i = first_where (\<lambda>r. sh_id r = i) (t_shots db)"

definition get_quote :: "database \<Rightarrow> uuid \<Rightarrow> quote option" where
  "get_quote db i = first_where (\<lambda>r. qu_id r = i) (t_quotes db)"

definition assign_job ::
  "database \<Rightarrow> uuid \<Rightarrow> (generation_job \<Rightarrow> generation_job) \<Rightarrow> database" where
  "assign_job db i f = db\<lparr>t_jobs :=
     update_where (\<lambda>r. job_id r = i) (\<lambda>r. (f r)\<lparr>job_updated_at := db_now db\<rparr>) (t_jobs db)\<rparr>"

definition assign_attempt ::
  "database \<Rightarrow> uuid \<Rightarrow> (generation_attempt \<Rightarrow> generation_attempt) \<Rightarrow> database" where
  "assign_attempt db i f = db\<lparr>t_attempts :=
     update_where (\<lambda>r. at_id r = i) (\<lambda>r. (f r)\<lparr>at_updated_at := db_now db\<rparr>) (t_attempts db)\<rparr>"

section \<open>Constraints the database checks on insert\<close>

definition aspect_ratio_ok :: "string \<Rightarrow> bool" where
  "aspect_ratio_ok a \<longleftrightarrow> a = ''16:9'' \<or> a = ''9:16''"

definition resolution_ok :: "string \<Rightarrow> bool" where
  "resolution_ok r \<longleftrightarrow> r = ''720P'' \<or> r = ''1080P''"

definition quote_checks :: "quote \<Rightarrow> bool" where
  "quote_checks q \<longleftrightarrow> qu_duration_ms q > 0 \<and> qu_variant_count q = 1 \<and> qu_reserved_ms q > 0 \<and>
     resolution_ok (qu_resolution q) \<and> aspect_ratio_ok (qu_aspect_ratio q)"

definition price_checks :: "price_version \<Rightarrow> bool" where
  "price_checks p \<longleftrightarrow> pv_version p > 0 \<and> pv_charge_numerator p > 0 \<and>
     pv_charge_denominator p > 0 \<and> resolution_ok (pv_resolution p)"

definition shot_checks :: "shot \<Rightarrow> bool" where
  "shot_checks s \<longleftrightarrow> 1 \<le> sh_duration_seconds s \<and> sh_duration_seconds s \<le> 10 \<and>
     aspect_ratio_ok (sh_aspect_ratio s)"

definition job_checks :: "generation_job \<Rightarrow> bool" where
  "job_checks j \<longleftrightarrow> job_duration_ms j > 0 \<and> resolution_ok (job_resolution j) \<and>
     aspect_ratio_ok (job_aspect_ratio j) \<and> job_variant_index j \<ge> 0"

definition account_checks :: "ledger_account \<Rightarrow> bool" where
  "account_checks a \<longleftrightarrow> la_owner_type a \<in> {''USER'', ''PLATFORM''} \<and>
     la_account_type a \<in> {''USER_AVAILABLE'', ''USER_RESERVED'', ''PLATFORM_ISSUED'',
       ''PLATFORM_CONSUMED'', ''PLATFORM_EXPIRED''}"

text \<open>The row checks of the leased queues: a row in processing holds a lease, a published
  row has its time, attempts are not negative.\<close>

definition outbox_checks :: "outbox_event \<Rightarrow> bool" where
  "outbox_checks e \<longleftrightarrow> ob_attempt_count e \<ge> 0 \<and>
     (ob_event_type e = ''provider.cancel.requested'' \<longrightarrow> ob_attempt_id e \<noteq> None) \<and>
     (ob_status e = OB_PROCESSING \<longrightarrow> ob_locked_at e \<noteq> None \<and> ob_lock_token e \<noteq> None) \<and>
     (ob_status e = OB_PUBLISHED \<longrightarrow> ob_published_at e \<noteq> None)"

definition cleanup_event_checks :: "storage_cleanup_event \<Rightarrow> bool" where
  "cleanup_event_checks e \<longleftrightarrow> ce_attempt_count e \<ge> 0 \<and>
     (ce_status e = OB_PROCESSING \<longrightarrow> ce_locked_at e \<noteq> None \<and> ce_lock_token e \<noteq> None) \<and>
     (ce_status e = OB_PUBLISHED \<longrightarrow> ce_published_at e \<noteq> None)"

lemma assign_job_simps [simp]:
  "t_jobs (assign_job db i f) =
     update_where (\<lambda>r. job_id r = i) (\<lambda>r. (f r)\<lparr>job_updated_at := db_now db\<rparr>) (t_jobs db)"
  "t_attempts (assign_job db i f) = t_attempts db"
  "t_events (assign_job db i f) = t_events db"
  "db_now (assign_job db i f) = db_now db"
  by (simp_all add: assign_job_def)

lemma assign_attempt_simps [simp]:
  "t_attempts (assign_attempt db i f) =
     update_where (\<lambda>r. at_id r = i) (\<lambda>r. (f r)\<lparr>at_updated_at := db_now db\<rparr>) (t_attempts db)"
  "t_jobs (assign_attempt db i f) = t_jobs db"
  "t_events (assign_attempt db i f) = t_events db"
  "db_now (assign_attempt db i f) = db_now db"
  by (simp_all add: assign_attempt_def)

end
