(* ===== verification/Samples.thy ===== *)
theory Samples
  imports Models
begin

text \<open>
  Concrete rows the witnesses of the properties evaluate on: one user with a project, a shot,
  a job with a reservation, and an attempt of it.
\<close>

definition sample_user :: app_user where
  "sample_user = \<lparr>user_id = 101, user_auth_subject = ''subject''\<rparr>"

definition sample_project :: project where
  "sample_project = \<lparr>pr_id = 102, pr_owner_id = 101, pr_name = ''demo'', pr_description = None,
     pr_status = PROJECT_ACTIVE, pr_deleted_at = None, pr_route_binding_status = ''UNBOUND'',
     pr_route_candidate_id = None, pr_route_binding_source = None, pr_route_bound_at = None,
     pr_created_at = 0\<rparr>"

definition sample_shot :: shot where
  "sample_shot = \<lparr>sh_id = 103, sh_project_id = 102, sh_title = ''opening'',
     sh_prompt = ''a quiet street'', sh_duration_seconds = 5, sh_aspect_ratio = ''16:9'',
     sh_created_at = 0\<rparr>"

definition sample_job :: "uuid \<Rightarrow> job_status \<Rightarrow> generation_job" where
  "sample_job i status = \<lparr>job_id = i, job_user_id = 101, job_project_id = 102,
     job_shot_id = 103, job_batch_id = None, job_tier_code = ''FAST'', job_duration_ms = 5000,
     job_resolution = ''720P'', job_aspect_ratio = ''16:9'', job_variant_index = 0,
     job_quote_id = None, job_quote_snapshot = None, job_input_snapshot = None,
     job_status = status, job_ledger_unit = Some ''FAST_MS'', job_reserved_amount_ms = Some 5000,
     job_settlement_status = Some SET_RESERVED, job_reserved_tx_id = None,
     job_selected_route_candidate_id = None, job_final_output_id = None,
     job_failure_code = None, job_error_message = None, job_mock_mode = ''success'',
     job_started_at = None, job_finished_at = None, job_created_at = 0, job_updated_at = 0\<rparr>"

definition sample_attempt :: "uuid \<Rightarrow> uuid \<Rightarrow> attempt_status \<Rightarrow> generation_attempt" where
  "sample_attempt i job status = \<lparr>at_id = i, at_job_id = job, at_attempt_no = 1,
     at_provider_endpoint_id = None, at_provider_code = ''runpod'', at_provider_job_id = None,
     at_workflow_version = ''v1'', at_worker_version = None, at_image_digest = None,
     at_worker_commit = None, at_comfyui_version = None, at_comfyui_commit = None,
     at_workflow_hash = None, at_model_hashes = None, at_gpu_type = None, at_queue_ms = None,
     at_cold_start_ms = None, at_runtime_ms = None, at_billable_ms = None,
     at_status = status, at_failure_code = None, at_started_at = None, at_finished_at = None,
     at_cost_minor = None, at_cost_currency = None, at_cost_source = None,
     at_raw_metrics = None, at_created_at = 0, at_updated_at = 0\<rparr>"

text \<open>The account the platform issues from and the two accounts of the user, all empty.\<close>

definition sample_account :: "uuid \<Rightarrow> uuid option \<Rightarrow> string \<Rightarrow> ledger_account" where
  "sample_account i owner account_type = \<lparr>la_id = i,
     la_scope_key = (case owner of None \<Rightarrow> ''platform'' | Some u \<Rightarrow> ''user:'' @ uuid_str u),
     la_owner_type = (case owner of None \<Rightarrow> ''PLATFORM'' | Some _ \<Rightarrow> ''USER''),
     la_owner_id = owner, la_account_type = account_type, la_unit = ''FAST_MS''\<rparr>"

definition sample_accounts :: "ledger_account list" where
  "sample_accounts = [sample_account 111 None ''PLATFORM_ISSUED'',
     sample_account 112 (Some 101) ''USER_AVAILABLE'',
     sample_account 113 (Some 101) ''USER_RESERVED'']"

definition sample_wallets :: "wallet_balance list" where
  "sample_wallets = map (\<lambda>a. \<lparr>wb_account_id = la_id a, wb_balance_ms = 0, wb_version = 0,
     wb_updated_at = 0\<rparr>) sample_accounts"

text \<open>The sample user with these jobs and attempts, and nothing else.\<close>

definition sample_db :: "generation_job list \<Rightarrow> generation_attempt list \<Rightarrow> database" where
  "sample_db jobs attempts = (empty_database 0)\<lparr>t_projects := [sample_project],
     t_shots := [sample_shot], t_jobs := jobs, t_attempts := attempts\<rparr>"

definition sample_bank :: "generation_job list \<Rightarrow> database" where
  "sample_bank jobs = (sample_db jobs [])\<lparr>t_accounts := sample_accounts,
     t_balances := sample_wallets\<rparr>"

lemmas sample_defs = sample_user_def sample_project_def sample_shot_def sample_job_def
  sample_attempt_def sample_db_def sample_account_def sample_accounts_def sample_wallets_def
  sample_bank_def empty_database_def

end
