(* ===== verification/StateMachine.thy ===== *)
theory StateMachine
  imports Samples
begin

text \<open>
  The job and attempt state machines (apps/api/app/state_machine.py): the transition tables,
  and the two compare-and-set transitions that write the row and its event together. The ORM
  object the caller holds is an argument beside the database, because it may be stale: the
  \<open>UPDATE\<close> only takes rows whose status still is the one the object was loaded with.
\<close>

section \<open>Transition tables\<close>

definition JOB_TERMINAL_STATUSES :: "job_status set" where
  "JOB_TERMINAL_STATUSES =
     {JOB_SUCCEEDED, JOB_FAILED_FINAL, JOB_CANCELLED, JOB_EXPIRED, JOB_REJECTED_POLICY}"

definition ATTEMPT_TERMINAL_STATUSES :: "attempt_status set" where
  "ATTEMPT_TERMINAL_STATUSES =
     {ATT_SUCCEEDED, ATT_FAILED_RETRYABLE, ATT_FAILED_FINAL, ATT_CANCELLED, ATT_TIMED_OUT}"

fun JOB_TRANSITIONS :: "job_status \<Rightarrow> job_status set" where
  "JOB_TRANSITIONS JOB_CREATED =
     {JOB_RESERVED, JOB_CANCELLED, JOB_EXPIRED, JOB_REJECTED_POLICY}"
| "JOB_TRANSITIONS JOB_RESERVED = {JOB_QUEUED, JOB_CANCELLED, JOB_EXPIRED}"
| "JOB_TRANSITIONS JOB_QUEUED =
     {JOB_ROUTING, JOB_FAILED_FINAL, JOB_CANCELLED, JOB_EXPIRED, JOB_REJECTED_POLICY}"
| "JOB_TRANSITIONS JOB_ROUTING =
     {JOB_SUBMITTED, JOB_CANCEL_REQUESTED, JOB_FAILED_FINAL, JOB_CANCELLED, JOB_EXPIRED,
      JOB_REJECTED_POLICY}"
| "JOB_TRANSITIONS JOB_SUBMITTED =
     {JOB_RUNNING, JOB_CANCEL_REQUESTED, JOB_FAILED_FINAL, JOB_CANCELLED, JOB_EXPIRED}"
| "JOB_TRANSITIONS JOB_RUNNING =
     {JOB_POSTPROCESSING, JOB_FAILED_FINAL, JOB_CANCEL_REQUESTED, JOB_CANCELLED}"
| "JOB_TRANSITIONS JOB_CANCEL_REQUESTED = {JOB_POSTPROCESSING, JOB_FAILED_FINAL, JOB_CANCELLED}"
| "JOB_TRANSITIONS JOB_POSTPROCESSING = {JOB_VALIDATING, JOB_FAILED_FINAL, JOB_CANCELLED}"
| "JOB_TRANSITIONS JOB_VALIDATING = {JOB_SUCCEEDED, JOB_FAILED_FINAL, JOB_CANCELLED}"
| "JOB_TRANSITIONS JOB_SUCCEEDED = {}"
| "JOB_TRANSITIONS JOB_FAILED_FINAL = {}"
| "JOB_TRANSITIONS JOB_CANCELLED = {}"
| "JOB_TRANSITIONS JOB_EXPIRED = {}"
| "JOB_TRANSITIONS JOB_REJECTED_POLICY = {}"

definition ATTEMPT_FAILURES :: "attempt_status set" where
  "ATTEMPT_FAILURES = {ATT_FAILED_RETRYABLE, ATT_FAILED_FINAL, ATT_CANCELLED, ATT_TIMED_OUT}"

fun ATTEMPT_TRANSITIONS :: "attempt_status \<Rightarrow> attempt_status set" where
  "ATTEMPT_TRANSITIONS ATT_CREATED = {ATT_SUBMITTING, ATT_CANCELLED}"
| "ATTEMPT_TRANSITIONS ATT_SUBMITTING = insert ATT_SUBMITTED ATTEMPT_FAILURES"
| "ATTEMPT_TRANSITIONS ATT_SUBMITTED = insert ATT_RUNNING ATTEMPT_FAILURES"
| "ATTEMPT_TRANSITIONS ATT_RUNNING = insert ATT_SUCCEEDED ATTEMPT_FAILURES"
| "ATTEMPT_TRANSITIONS ATT_SUCCEEDED = {}"
| "ATTEMPT_TRANSITIONS ATT_FAILED_RETRYABLE = {}"
| "ATTEMPT_TRANSITIONS ATT_FAILED_FINAL = {}"
| "ATTEMPT_TRANSITIONS ATT_CANCELLED = {}"
| "ATTEMPT_TRANSITIONS ATT_TIMED_OUT = {}"

section \<open>The transitions\<close>

definition event_exists :: "database \<Rightarrow> string \<Rightarrow> bool" where
  "event_exists db key = exists_where (\<lambda>e. ev_dedup_key e = key) (t_events db)"

text \<open>\<open>db.expire(job, ["status"])\<close>: the next read of the status comes from the row.\<close>

definition expire_job_status :: "database \<Rightarrow> generation_job \<Rightarrow> generation_job" where
  "expire_job_status db job =
     (case get_job db (job_id job) of
        None \<Rightarrow> job | Some r \<Rightarrow> job\<lparr>job_status := job_status r\<rparr>)"

definition expire_attempt_status :: "database \<Rightarrow> generation_attempt \<Rightarrow> generation_attempt" where
  "expire_attempt_status db a =
     (case get_attempt db (at_id a) of
        None \<Rightarrow> a | Some r \<Rightarrow> a\<lparr>at_status := at_status r\<rparr>)"

definition transition_job ::
  "database \<Rightarrow> generation_job \<Rightarrow> job_status \<Rightarrow> string \<Rightarrow> string \<Rightarrow> json \<Rightarrow>
   bool \<times> database \<times> generation_job" where
  "transition_job db job to_status event_type dedup_key payload =
     (let from_status = job_status job;
          matching = (\<lambda>r. job_id r = job_id job \<and> job_status r = from_status) in
      if event_exists db dedup_key \<or> to_status \<notin> JOB_TRANSITIONS from_status then (False, db, job)
      else if row_count matching (t_jobs db) \<noteq> 1 then (False, db, expire_job_status db job)
      else
        (True,
         db\<lparr>t_jobs := update_where matching
               (\<lambda>r. r\<lparr>job_status := to_status, job_updated_at := db_now db\<rparr>) (t_jobs db),
            t_events := t_events db @
              [\<lparr>ev_job_id = job_id job, ev_attempt_id = None, ev_event_type = event_type,
                ev_from_status = Some (job_status_value from_status),
                ev_to_status = job_status_value to_status,
                ev_dedup_key = dedup_key, ev_payload = payload\<rparr>]\<rparr>,
         job\<lparr>job_status := to_status\<rparr>))"

definition transition_attempt ::
  "database \<Rightarrow> generation_attempt \<Rightarrow> attempt_status \<Rightarrow> string \<Rightarrow> string \<Rightarrow> json \<Rightarrow>
   bool \<times> database \<times> generation_attempt" where
  "transition_attempt db attempt to_status event_type dedup_key payload =
     (let from_status = at_status attempt;
          matching = (\<lambda>r. at_id r = at_id attempt \<and> at_status r = from_status) in
      if event_exists db dedup_key \<or> to_status \<notin> ATTEMPT_TRANSITIONS from_status
      then (False, db, attempt)
      else if row_count matching (t_attempts db) \<noteq> 1
      then (False, db, expire_attempt_status db attempt)
      else
        (True,
         db\<lparr>t_attempts := update_where matching
               (\<lambda>r. r\<lparr>at_status := to_status, at_updated_at := db_now db\<rparr>) (t_attempts db),
            t_events := t_events db @
              [\<lparr>ev_job_id = at_job_id attempt, ev_attempt_id = Some (at_id attempt),
                ev_event_type = event_type,
                ev_from_status = Some (attempt_status_value from_status),
                ev_to_status = attempt_status_value to_status,
                ev_dedup_key = dedup_key, ev_payload = payload\<rparr>]\<rparr>,
         attempt\<lparr>at_status := to_status\<rparr>))"

section \<open>What a state machine promises its clients\<close>

text \<open>
  The interface the rest of the program relies on: no way out of a terminal status, and
  progress that a rank measures. Clients get absorption, bounded runs and acyclicity.
\<close>

fun path :: "('s \<Rightarrow> 's set) \<Rightarrow> 's \<Rightarrow> 's list \<Rightarrow> bool" where
  "path next s [] = True"
| "path next s (t # ts) = (t \<in> next s \<and> path next t ts)"

locale state_machine =
  fixes trans :: "'s \<Rightarrow> 's set"
    and terminal :: "'s set"
    and rank :: "'s \<Rightarrow> nat"
    and height :: nat
  assumes terminal_iff: "trans s = {} \<longleftrightarrow> s \<in> terminal"
    and trans_rank: "t \<in> trans s \<Longrightarrow> rank s < rank t"
    and rank_height: "rank s \<le> height"
begin

lemma terminal_absorbing: "s \<in> terminal \<Longrightarrow> t \<notin> trans s"
  using terminal_iff by blast

lemma path_rank: "path trans s ts \<Longrightarrow> rank s + length ts \<le> rank (last (s # ts))"
proof (induction ts arbitrary: s)
  case Nil
  then show ?case by simp
next
  case (Cons t ts)
  then have "rank s < rank t" and "rank t + length ts \<le> rank (last (t # ts))"
    by (auto dest: trans_rank)
  then show ?case by simp
qed

lemma path_bounded: "path trans s ts \<Longrightarrow> rank s + length ts \<le> height"
  using path_rank rank_height order_trans by blast

lemma path_acyclic: "path trans s ts \<Longrightarrow> ts \<noteq> [] \<Longrightarrow> last ts \<noteq> s"
proof
  assume "path trans s ts" and "ts \<noteq> []" and "last ts = s"
  with path_rank [of s ts] show False by (cases ts) auto
qed

lemma path_from_terminal: "path trans s ts \<Longrightarrow> s \<in> terminal \<Longrightarrow> ts = []"
  using terminal_absorbing by (cases ts) auto

lemma no_self_loop: "s \<notin> trans s"
  using trans_rank by blast

end

fun job_rank :: "job_status \<Rightarrow> nat" where
  "job_rank JOB_CREATED = 0"
| "job_rank JOB_RESERVED = 1"
| "job_rank JOB_QUEUED = 2"
| "job_rank JOB_ROUTING = 3"
| "job_rank JOB_SUBMITTED = 4"
| "job_rank JOB_RUNNING = 5"
| "job_rank JOB_CANCEL_REQUESTED = 6"
| "job_rank JOB_POSTPROCESSING = 7"
| "job_rank JOB_VALIDATING = 8"
| "job_rank s = 9"

fun attempt_rank :: "attempt_status \<Rightarrow> nat" where
  "attempt_rank ATT_CREATED = 0"
| "attempt_rank ATT_SUBMITTING = 1"
| "attempt_rank ATT_SUBMITTED = 2"
| "attempt_rank ATT_RUNNING = 3"
| "attempt_rank s = 4"

interpretation job_sm: state_machine JOB_TRANSITIONS JOB_TERMINAL_STATUSES job_rank 9
proof
  fix s t :: job_status
  show "JOB_TRANSITIONS s = {} \<longleftrightarrow> s \<in> JOB_TERMINAL_STATUSES"
    by (cases s) (simp_all add: JOB_TERMINAL_STATUSES_def)
  show "t \<in> JOB_TRANSITIONS s \<Longrightarrow> job_rank s < job_rank t"
    by (cases s) auto
  show "job_rank s \<le> 9" by (cases s) simp_all
qed

interpretation attempt_sm:
  state_machine ATTEMPT_TRANSITIONS ATTEMPT_TERMINAL_STATUSES attempt_rank 4
proof
  fix s t :: attempt_status
  show "ATTEMPT_TRANSITIONS s = {} \<longleftrightarrow> s \<in> ATTEMPT_TERMINAL_STATUSES"
    by (cases s) (simp_all add: ATTEMPT_TERMINAL_STATUSES_def)
  show "t \<in> ATTEMPT_TRANSITIONS s \<Longrightarrow> attempt_rank s < attempt_rank t"
    by (cases s) (auto simp: ATTEMPT_FAILURES_def)
  show "attempt_rank s \<le> 4" by (cases s) simp_all
qed

section \<open>What a transition does\<close>

text \<open>The two outcomes of \<open>transition_job\<close>, as one case distinction for its clients.\<close>

definition job_event_for ::
  "generation_job \<Rightarrow> job_status \<Rightarrow> string \<Rightarrow> string \<Rightarrow> json \<Rightarrow> job_event" where
  "job_event_for job to_status event_type dedup_key payload =
     \<lparr>ev_job_id = job_id job, ev_attempt_id = None, ev_event_type = event_type,
      ev_from_status = Some (job_status_value (job_status job)),
      ev_to_status = job_status_value to_status, ev_dedup_key = dedup_key,
      ev_payload = payload\<rparr>"

lemma transition_job_True:
  assumes "transition_job db job t et k pl = (True, db', job')"
  shows "\<not> event_exists db k" and "t \<in> JOB_TRANSITIONS (job_status job)"
    and "row_count (\<lambda>r. job_id r = job_id job \<and> job_status r = job_status job) (t_jobs db) = 1"
    and "db' = db\<lparr>t_jobs := update_where (\<lambda>r. job_id r = job_id job \<and> job_status r = job_status job)
               (\<lambda>r. r\<lparr>job_status := t, job_updated_at := db_now db\<rparr>) (t_jobs db),
             t_events := t_events db @ [job_event_for job t et k pl]\<rparr>"
    and "job' = job\<lparr>job_status := t\<rparr>"
  using assms by (auto simp: transition_job_def job_event_for_def Let_def split: if_splits)

lemma transition_job_False:
  assumes "transition_job db job t et k pl = (False, db', job')"
  shows "db' = db" and "job_id job' = job_id job"
  using assms
  by (auto simp: transition_job_def expire_job_status_def Let_def split: if_splits option.splits)

lemma transition_attempt_True:
  assumes "transition_attempt db a t et k pl = (True, db', a')"
  shows "\<not> event_exists db k" and "t \<in> ATTEMPT_TRANSITIONS (at_status a)"
    and "row_count (\<lambda>r. at_id r = at_id a \<and> at_status r = at_status a) (t_attempts db) = 1"
    and "db' = db\<lparr>t_attempts := update_where (\<lambda>r. at_id r = at_id a \<and> at_status r = at_status a)
               (\<lambda>r. r\<lparr>at_status := t, at_updated_at := db_now db\<rparr>) (t_attempts db),
             t_events := t_events db @
              [\<lparr>ev_job_id = at_job_id a, ev_attempt_id = Some (at_id a), ev_event_type = et,
                ev_from_status = Some (attempt_status_value (at_status a)),
                ev_to_status = attempt_status_value t, ev_dedup_key = k, ev_payload = pl\<rparr>]\<rparr>"
    and "a' = a\<lparr>at_status := t\<rparr>"
  using assms by (auto simp: transition_attempt_def Let_def split: if_splits)

lemma transition_attempt_False:
  assumes "transition_attempt db a t et k pl = (False, db', a')"
  shows "db' = db" and "at_id a' = at_id a"
  using assms
  by (auto simp: transition_attempt_def expire_attempt_status_def Let_def
      split: if_splits option.splits)

text \<open>With unique job ids, a successful transition means the row still had the status the
  caller saw: exactly that row moved.\<close>

lemma row_count_status_1:
  assumes "distinct (map job_id (t_jobs db))"
    and "row_count (\<lambda>r. job_id r = i \<and> job_status r = s) (t_jobs db) = 1"
  shows "\<exists>r \<in> set (t_jobs db). job_id r = i \<and> job_status r = s"
  using row_count_1_iff [where k = job_id and p = "\<lambda>r. job_id r = i \<and> job_status r = s",
      OF assms(1)] assms(2) by auto

lemma transition_job_row:
  assumes "transition_job db job t et k pl = (True, db', job')"
    and "distinct (map job_id (t_jobs db))"
  obtains r where "get_job db (job_id job) = Some r" and "job_status r = job_status job"
    and "get_job db' (job_id job) = Some (r\<lparr>job_status := t, job_updated_at := db_now db\<rparr>)"
proof -
  note T = transition_job_True [OF assms(1)]
  from row_count_status_1 [OF assms(2) T(3)] obtain r where
    r: "r \<in> set (t_jobs db)" "job_id r = job_id job" "job_status r = job_status job"
    by blast
  then have get: "get_job db (job_id job) = Some r"
    unfolding get_job_def by (intro first_where_key_eq [OF assms(2)])
  let ?r' = "r\<lparr>job_status := t, job_updated_at := db_now db\<rparr>"
  have "map job_id (t_jobs db') = map job_id (t_jobs db)"
    by (simp add: T(4), rule map_update_where_cong) simp
  moreover have "?r' \<in> set (t_jobs db')"
    using r by (auto simp: T(4) set_update_where)
  ultimately have "get_job db' (job_id job) = Some ?r'"
    unfolding get_job_def using assms(2) r(2)
    by (intro first_where_key_eq) auto
  with get r(3) show ?thesis by (rule that)
qed

lemma transition_job_other:
  assumes "transition_job db job t et k pl = (b, db', job')" and "i \<noteq> job_id job"
  shows "get_job db' i = get_job db i"
proof (cases b)
  case True
  with assms have T: "transition_job db job t et k pl = (True, db', job')" by simp
  show ?thesis
    unfolding get_job_def transition_job_True(4) [OF T]
    using assms(2) by (auto intro: first_where_update_other)
next
  case False
  with assms have "transition_job db job t et k pl = (False, db', job')" by simp
  from transition_job_False(1) [OF this] show ?thesis by simp
qed

lemma transition_job_ids:
  "transition_job db job t et k pl = (b, db', job') \<Longrightarrow>
   map job_id (t_jobs db') = map job_id (t_jobs db)"
  by (auto simp: transition_job_def Let_def split: if_splits intro!: map_update_where_cong)

lemma transition_attempt_ids:
  "transition_attempt db a t et k pl = (b, db', a') \<Longrightarrow>
   map at_id (t_attempts db') = map at_id (t_attempts db) \<and> t_jobs db' = t_jobs db"
  by (auto simp: transition_attempt_def Let_def split: if_splits intro!: map_update_where_cong)

section \<open>The event log\<close>

text \<open>
  \<open>JobStatus(value)\<close>, and the replay of a job's own events (those without an attempt): the
  status they lead to, if they form a chain of allowed transitions.
\<close>

definition all_job_statuses :: "job_status list" where
  "all_job_statuses =
     [JOB_CREATED, JOB_RESERVED, JOB_QUEUED, JOB_ROUTING, JOB_SUBMITTED, JOB_RUNNING,
      JOB_CANCEL_REQUESTED, JOB_POSTPROCESSING, JOB_VALIDATING, JOB_SUCCEEDED,
      JOB_FAILED_FINAL, JOB_CANCELLED, JOB_EXPIRED, JOB_REJECTED_POLICY]"

definition job_status_of_value :: "string \<Rightarrow> job_status option" where
  "job_status_of_value v = List.find (\<lambda>s. job_status_value s = v) all_job_statuses"

lemma job_status_of_value [simp]: "job_status_of_value (job_status_value s) = Some s"
  by (cases s) (simp_all add: job_status_of_value_def all_job_statuses_def)

definition replay_event :: "job_status \<Rightarrow> job_event \<Rightarrow> job_status option" where
  "replay_event s e =
     (case job_status_of_value (ev_to_status e) of
        None \<Rightarrow> None
      | Some t \<Rightarrow> if ev_from_status e = Some (job_status_value s) \<and> t \<in> JOB_TRANSITIONS s
                 then Some t else None)"

fun replay :: "job_status \<Rightarrow> job_event list \<Rightarrow> job_status option" where
  "replay s [] = Some s"
| "replay s (e # es) = Option.bind (replay_event s e) (\<lambda>t. replay t es)"

lemma replay_append: "replay s (es @ fs) = Option.bind (replay s es) (\<lambda>t. replay t fs)"
  by (induction es arbitrary: s) (auto split: Option.bind_splits)

lemma replay_path:
  "replay s es = Some t \<Longrightarrow>
   \<exists>ts. path JOB_TRANSITIONS s ts \<and> length ts = length es \<and> last (s # ts) = t"
proof (induction es arbitrary: s)
  case Nil
  then show ?case by (intro exI [of _ "[]"]) simp
next
  case (Cons e es)
  then obtain u where u: "u \<in> JOB_TRANSITIONS s" "replay u es = Some t"
    by (auto simp: replay_event_def split: Option.bind_splits option.splits if_splits)
  from Cons.IH [OF u(2)] obtain ts where
    "path JOB_TRANSITIONS u ts" "length ts = length es" "last (u # ts) = t" by blast
  with u(1) show ?case by (intro exI [of _ "u # ts"]) simp
qed

definition job_log :: "database \<Rightarrow> uuid \<Rightarrow> job_event list" where
  "job_log db i = filter (\<lambda>e. ev_job_id e = i \<and> ev_attempt_id e = None) (t_events db)"

definition log_agrees :: "database \<Rightarrow> bool" where
  "log_agrees db \<longleftrightarrow> distinct (map job_id (t_jobs db)) \<and>
     (\<forall>e \<in> set (t_events db). ev_attempt_id e = None \<longrightarrow> ev_job_id e \<in> job_id ` set (t_jobs db)) \<and>
     (\<forall>r \<in> set (t_jobs db). replay JOB_CREATED (job_log db (job_id r)) = Some (job_status r))"

lemma log_agreesD:
  "log_agrees db \<Longrightarrow> r \<in> set (t_jobs db) \<Longrightarrow>
   replay JOB_CREATED (job_log db (job_id r)) = Some (job_status r)"
  by (simp add: log_agrees_def)

text \<open>A job that does not exist has no events.\<close>

lemma job_log_Nil_iff: "job_log db i = [] \<longleftrightarrow>
    (\<forall>e \<in> set (t_events db). ev_attempt_id e = None \<longrightarrow> ev_job_id e \<noteq> i)"
  by (auto simp: job_log_def filter_empty_conv)

lemma log_agrees_iff:
  "log_agrees db \<longleftrightarrow> distinct (map job_id (t_jobs db)) \<and>
     (\<forall>i. i \<notin> job_id ` set (t_jobs db) \<longrightarrow> job_log db i = []) \<and>
     (\<forall>r \<in> set (t_jobs db). replay JOB_CREATED (job_log db (job_id r)) = Some (job_status r))"
  by (auto simp: log_agrees_def job_log_Nil_iff)

text \<open>Operations that add no event without an attempt and keep each job's id and status keep
  the agreement.\<close>

lemma log_agrees_cong:
  assumes "log_agrees db" and "map job_id (t_jobs db') = map job_id (t_jobs db)"
    and "map job_status (t_jobs db') = map job_status (t_jobs db)"
    and "\<And>i. job_log db' i = job_log db i"
  shows "log_agrees db'"
proof -
  have len: "length (t_jobs db') = length (t_jobs db)"
    using assms(2) by (metis length_map)
  have "replay JOB_CREATED (job_log db' (job_id r)) = Some (job_status r)"
    if "r \<in> set (t_jobs db')" for r
  proof -
    from that obtain n where n: "n < length (t_jobs db')" "r = t_jobs db' ! n"
      by (auto simp: in_set_conv_nth)
    with len have m: "n < length (t_jobs db)" by simp
    have "job_id r = job_id (t_jobs db ! n)"
      using assms(2) n m by (metis nth_map)
    moreover have "job_status r = job_status (t_jobs db ! n)"
      using assms(3) n m by (metis nth_map)
    moreover have "t_jobs db ! n \<in> set (t_jobs db)" using m by simp
    ultimately show ?thesis using log_agreesD [OF assms(1)] assms(4) by simp
  qed
  moreover have "job_id ` set (t_jobs db') = job_id ` set (t_jobs db)"
    using arg_cong [OF assms(2), of set] by simp
  ultimately show ?thesis
    using assms(1,2,4) by (simp add: log_agrees_iff del: ball_simps)
qed

lemma log_agrees_transition_attempt:
  "log_agrees db \<Longrightarrow> transition_attempt db a t et k pl = (b, db', a') \<Longrightarrow> log_agrees db'"
  by (erule log_agrees_cong)
    (auto simp: transition_attempt_def job_log_def Let_def split: if_splits)

text \<open>A transition of a job appends its own event, so the replay follows it.\<close>

lemma log_agrees_transition_job:
  assumes "log_agrees db" and "transition_job db job t et k pl = (b, db', job')"
  shows "log_agrees db'"
proof (cases b)
  case False
  with assms(2) have "transition_job db job t et k pl = (False, db', job')" by simp
  from transition_job_False(1) [OF this] assms(1) show ?thesis by simp
next
  case True
  with assms(2) have T: "transition_job db job t et k pl = (True, db', job')" by simp
  note tt = transition_job_True [OF T]
  have ids: "map job_id (t_jobs db') = map job_id (t_jobs db)"
    by (rule transition_job_ids [OF T])
  have dist: "distinct (map job_id (t_jobs db))"
    using assms(1) by (simp add: log_agrees_def)
  have log: "job_log db' i = job_log db i @
      (if i = job_id job then [job_event_for job t et k pl] else [])" for i
    by (simp add: job_log_def tt(4) job_event_for_def)
  have step: "replay_event (job_status job) (job_event_for job t et k pl) = Some t"
    using tt(2) by (simp add: replay_event_def job_event_for_def)
  have "replay JOB_CREATED (job_log db' (job_id r')) = Some (job_status r')"
    if r': "r' \<in> set (t_jobs db')" for r'
  proof -
    from r' obtain r where r: "r \<in> set (t_jobs db)" and
      eq: "r' = (if job_id r = job_id job \<and> job_status r = job_status job
                 then r\<lparr>job_status := t, job_updated_at := db_now db\<rparr> else r)"
      by (auto simp: tt(4) set_update_where)
    show ?thesis
    proof (cases "job_id r = job_id job")
      case False
      with eq log log_agreesD [OF assms(1) r] show ?thesis by simp
    next
      case True
      from row_count_status_1 [OF dist tt(3)] obtain s where
        "s \<in> set (t_jobs db)" "job_id s = job_id job" "job_status s = job_status job" by blast
      with key_unique [OF dist r] True have "job_status r = job_status job" by metis
      with True eq log step log_agreesD [OF assms(1) r] show ?thesis
        by (simp add: replay_append)
    qed
  qed
  moreover have "job_log db' i = []" if i: "i \<notin> job_id ` set (t_jobs db')" for i
  proof -
    have same: "job_id ` set (t_jobs db') = job_id ` set (t_jobs db)"
      using arg_cong [OF ids, of set] by simp
    from row_count_status_1 [OF dist tt(3)] have "job_id job \<in> job_id ` set (t_jobs db)"
      by (metis image_eqI)
    with i same have "i \<noteq> job_id job" by auto
    with log i same assms(1) show ?thesis by (simp add: log_agrees_iff)
  qed
  ultimately show ?thesis using dist ids by (simp add: log_agrees_iff)
qed

text \<open>
  C1. Every job's row agrees with the audit log: if replaying the events of each job from
  CREATED gives its status, then this still holds after any call of \<open>transition_job\<close>, with
  any object the caller holds, stale or not.
\<close>

theorem transition_job_log_agrees:
  assumes "log_agrees db" and "transition_job db job t et k pl = (b, db', job')"
  shows "log_agrees db'"
  by (rule log_agrees_transition_job [OF assms])

theorem transition_job_log_agrees_witness:
  "\<exists>db' job'. transition_job (sample_db [sample_job 1 JOB_CREATED] []) (sample_job 1 JOB_CREATED)
      JOB_RESERVED ''job.reserved'' ''job:1:reserved:v1'' JNull = (True, db', job') \<and> log_agrees db'"
proof -
  let ?db = "sample_db [sample_job 1 JOB_CREATED] []"
  let ?r = "transition_job ?db (sample_job 1 JOB_CREATED) JOB_RESERVED ''job.reserved''
      ''job:1:reserved:v1'' JNull"
  have "fst ?r" by code_simp
  then obtain db' job' where r: "?r = (True, db', job')" by (cases ?r) auto
  have "log_agrees ?db" by (simp add: log_agrees_def job_log_def sample_defs)
  from transition_job_log_agrees [OF this r] r show ?thesis by blast
qed

text \<open>
  C2. No lost update: once a transition of a job has been made, a second caller still holding
  the job as it was before gets False, whatever it asks for, and changes nothing; what it
  reads next is the status the first caller wrote, unless its request was refused outright.
\<close>

theorem transition_job_stale:
  assumes "distinct (map job_id (t_jobs db))"
    and "transition_job db job t et k pl = (True, db1, job1)"
    and "job_id stale = job_id job" and "job_status stale = job_status job"
  shows "\<exists>job2. transition_job db1 stale t2 et2 k2 pl2 = (False, db1, job2) \<and>
           (\<not> event_exists db1 k2 \<and> t2 \<in> JOB_TRANSITIONS (job_status job) \<longrightarrow> job_status job2 = t)"
proof -
  note tt = transition_job_True [OF assms(2)]
  from transition_job_row [OF assms(2,1)] obtain r where
    r: "get_job db1 (job_id job) = Some (r\<lparr>job_status := t, job_updated_at := db_now db\<rparr>)"
    by metis
  have ne: "t \<noteq> job_status job" using tt(2) job_sm.no_self_loop by metis
  have dist1: "distinct (map job_id (t_jobs db1))"
    using assms(1) transition_job_ids [OF assms(2)] by simp
  have "\<not> (job_id x = job_id job \<and> job_status x = job_status job)" if "x \<in> set (t_jobs db1)" for x
  proof
    assume x: "job_id x = job_id job \<and> job_status x = job_status job"
    with that have "get_job db1 (job_id job) = Some x"
      unfolding get_job_def by (intro first_where_key_eq [OF dist1]) simp_all
    with r x ne show False by auto
  qed
  then have "row_count (\<lambda>x. job_id x = job_id stale \<and> job_status x = job_status stale)
      (t_jobs db1) = 0"
    by (simp add: row_count_0 assms(3,4))
  then show ?thesis
    using r by (auto simp: transition_job_def Let_def expire_job_status_def assms(3,4))
qed

theorem transition_job_stale_witness:
  "\<exists>db1 job1 job2. transition_job (sample_db [sample_job 1 JOB_RUNNING] []) (sample_job 1 JOB_RUNNING)
      JOB_CANCEL_REQUESTED ''job.cancel_requested'' ''k1'' JNull = (True, db1, job1) \<and>
    transition_job db1 (sample_job 1 JOB_RUNNING) JOB_POSTPROCESSING ''job.postprocessing'' ''k2''
      JNull = (False, db1, job2)"
proof -
  let ?db = "sample_db [sample_job 1 JOB_RUNNING] []"
  let ?r = "transition_job ?db (sample_job 1 JOB_RUNNING) JOB_CANCEL_REQUESTED
      ''job.cancel_requested'' ''k1'' JNull"
  have "fst ?r" by code_simp
  then obtain db1 job1 where r: "?r = (True, db1, job1)" by (cases ?r) auto
  have "distinct (map job_id (t_jobs ?db))" by (simp add: sample_defs)
  from transition_job_stale [OF this r refl refl] r show ?thesis by blast
qed

text \<open>
  C3. A job makes at most nine transitions: its log is a path of the transition table, no
  longer than the rank of the status it has reached, and a job in a terminal status makes no
  further one.
\<close>

theorem job_log_bounded:
  assumes "log_agrees db" and "r \<in> set (t_jobs db)"
  shows "length (job_log db (job_id r)) \<le> job_rank (job_status r) \<and> job_rank (job_status r) \<le> 9 \<and>
    (job_status r \<in> JOB_TERMINAL_STATUSES \<longrightarrow> transition_job db r t et k pl = (False, db, r))"
proof -
  from replay_path [OF log_agreesD [OF assms]] obtain ts where
    ts: "path JOB_TRANSITIONS JOB_CREATED ts" "length ts = length (job_log db (job_id r))"
      "last (JOB_CREATED # ts) = job_status r" by blast
  then have "length (job_log db (job_id r)) \<le> job_rank (job_status r)"
    using job_sm.path_rank [OF ts(1)] by simp
  moreover have "transition_job db r t et k pl = (False, db, r)"
    if "job_status r \<in> JOB_TERMINAL_STATUSES"
    using job_sm.terminal_absorbing [OF that] by (simp add: transition_job_def Let_def)
  ultimately show ?thesis using job_sm.rank_height by blast
qed

definition sample_rejected_db :: database where
  "sample_rejected_db = fst (snd (transition_job (sample_db [sample_job 1 JOB_CREATED] [])
     (sample_job 1 JOB_CREATED) JOB_REJECTED_POLICY ''job.rejected'' ''job:1:rejected:v1'' JNull))"

theorem job_log_bounded_witness:
  "length (job_log sample_rejected_db 1) = 1 \<and>
   transition_job sample_rejected_db (hd (t_jobs sample_rejected_db)) JOB_RESERVED ''e'' ''k'' JNull =
     (False, sample_rejected_db, hd (t_jobs sample_rejected_db))"
proof -
  have "log_agrees sample_rejected_db" by code_simp
  moreover have "hd (t_jobs sample_rejected_db) \<in> set (t_jobs sample_rejected_db)"
    by (rule hd_in_set) code_simp
  moreover have "job_status (hd (t_jobs sample_rejected_db)) \<in> JOB_TERMINAL_STATUSES"
    by code_simp
  moreover have "length (job_log sample_rejected_db 1) = 1" by code_simp
  ultimately show ?thesis using job_log_bounded by blast
qed

end
