(* ===== verification/Ledger.thy ===== *)
theory Ledger
  imports StateMachine
begin

text \<open>
  The credit ledger (apps/api/app/ledger.py): catalog and quotes, accounts and double-entry
  transfers, the reservation of quotes for a job or a batch, and its one-time settlement or
  release. \<open>now\<close> arguments are the values of \<open>utcnow()\<close>. Where the code reads first and
  relies on a unique constraint when another transaction commits in between, the definition
  takes the database of the first read (\<open>db0\<close>) and the one the insert meets (\<open>db\<close>).
\<close>

section \<open>Account types\<close>

definition USER_AVAILABLE :: string where "USER_AVAILABLE = ''USER_AVAILABLE''"
definition USER_RESERVED :: string where "USER_RESERVED = ''USER_RESERVED''"
definition PLATFORM_ISSUED :: string where "PLATFORM_ISSUED = ''PLATFORM_ISSUED''"
definition PLATFORM_CONSUMED :: string where "PLATFORM_CONSUMED = ''PLATFORM_CONSUMED''"
definition PLATFORM_EXPIRED :: string where "PLATFORM_EXPIRED = ''PLATFORM_EXPIRED''"

lemmas account_types = USER_AVAILABLE_def USER_RESERVED_def PLATFORM_ISSUED_def
  PLATFORM_CONSUMED_def PLATFORM_EXPIRED_def

section \<open>Catalog and quotes\<close>

definition get_tier :: "database \<Rightarrow> string \<Rightarrow> quality_tier option" where
  "get_tier db code = first_where (\<lambda>t. qt_code t = code) (t_tiers db)"

definition get_price :: "database \<Rightarrow> uuid \<Rightarrow> price_version option" where
  "get_price db i = first_where (\<lambda>p. pv_id p = i) (t_prices db)"

definition add_tier :: "string \<times> string \<times> bool \<Rightarrow> database \<Rightarrow> database" where
  "add_tier = (\<lambda>(code, billing_unit, enabled) db.
     if get_tier db code = None
     then db\<lparr>t_tiers := t_tiers db @
            [\<lparr>qt_code = code, qt_billing_unit = billing_unit, qt_enabled = enabled\<rparr>]\<rparr>
     else db)"

definition add_price :: "string \<times> int \<times> string \<times> bool \<Rightarrow> database \<Rightarrow> database" where
  "add_price = (\<lambda>(tier_code, version, resolution, enabled) db.
     if exists_where (\<lambda>p. pv_tier_code p = tier_code \<and> pv_version p = version \<and>
          pv_resolution p = resolution) (t_prices db)
     then db
     else let (i, db) = uuid4 db in
       db\<lparr>t_prices := t_prices db @
            [\<lparr>pv_id = i, pv_tier_code = tier_code, pv_version = version,
              pv_resolution = resolution, pv_charge_numerator = 1, pv_charge_denominator = 1,
              pv_enabled = enabled, pv_effective_from = db_now db,
              pv_effective_until = None\<rparr>]\<rparr>)"

definition ensure_default_catalog :: "database \<Rightarrow> database" where
  "ensure_default_catalog db =
     fold add_price
       [(''FAST'', 1, ''720P'', True), (''STUDIO'', 1, ''720P'', True),
        (''STUDIO'', 1, ''1080P'', False), (''CINEMA'', 1, ''720P'', False)]
     (fold add_tier
       [(''FAST'', ''FAST_MS'', True), (''STUDIO'', ''STUDIO_MS'', True),
        (''CINEMA'', ''CINEMA_MS'', False)] db)"

definition price_applies :: "string \<Rightarrow> string \<Rightarrow> time \<Rightarrow> price_version \<Rightarrow> bool" where
  "price_applies tier_code resolution now p \<longleftrightarrow>
     pv_tier_code p = tier_code \<and> pv_resolution p = resolution \<and> pv_enabled p \<and>
     pv_effective_from p \<le> now \<and>
     (case pv_effective_until p of None \<Rightarrow> True | Some u \<Rightarrow> u > now)"

text \<open>\<open>ORDER BY version DESC LIMIT 1\<close>.\<close>

definition latest_price :: "price_version list \<Rightarrow> price_version option" where
  "latest_price ps =
     (case sort_key (\<lambda>p. - pv_version p) ps of [] \<Rightarrow> None | p # _ \<Rightarrow> Some p)"

definition quoted_ms :: "int \<Rightarrow> int \<Rightarrow> price_version \<Rightarrow> int" where
  "quoted_ms duration_ms variant_count p =
     (duration_ms * variant_count * pv_charge_numerator p + pv_charge_denominator p - 1)
       div pv_charge_denominator p"

definition create_quote ::
  "database \<Rightarrow> app_user \<Rightarrow> shot \<Rightarrow> string \<Rightarrow> string \<Rightarrow> int \<Rightarrow> time \<Rightarrow> error + (quote \<times> database)" where
  "create_quote db user shot tier_code resolution variant_count now =
     (let db = ensure_default_catalog db;
          tier = get_tier db tier_code;
          price = latest_price (select_where (price_applies tier_code resolution now) (t_prices db))
      in case (tier, price) of
        (Some tier, Some price) \<Rightarrow>
          if \<not> qt_enabled tier then Inl (ApiError 422 ''TIER_UNAVAILABLE'')
          else
            let duration_ms = sh_duration_seconds shot * 1000;
                reserved_ms = quoted_ms duration_ms variant_count price;
                (i, db) = uuid4 db;
                quote = \<lparr>qu_id = i, qu_user_id = user_id user,
                  qu_project_id = sh_project_id shot, qu_shot_id = sh_id shot,
                  qu_price_version_id = pv_id price, qu_tier_code = qt_code tier,
                  qu_billing_unit = qt_billing_unit tier, qu_duration_ms = duration_ms,
                  qu_variant_count = variant_count, qu_resolution = resolution,
                  qu_aspect_ratio = sh_aspect_ratio shot, qu_reserved_ms = reserved_ms,
                  qu_status = QUOTE_OPEN, qu_expires_at = now + minutes 15,
                  qu_used_at = None, qu_created_at = db_now db\<rparr>
            in if \<not> quote_checks quote then Inl (IntegrityError ''generation_quotes'')
               else Inr (quote, db\<lparr>t_quotes := t_quotes db @ [quote]\<rparr>)
      | _ \<Rightarrow> Inl (ApiError 422 ''TIER_UNAVAILABLE''))"

section \<open>Accounts\<close>

fun scope_of :: "uuid option \<Rightarrow> string \<times> string" where
  "scope_of None = (''platform'', ''PLATFORM'')"
| "scope_of (Some owner) = (''user:'' @ uuid_str owner, ''USER'')"

definition find_account ::
  "database \<Rightarrow> string \<Rightarrow> string \<Rightarrow> string \<Rightarrow> ledger_account option" where
  "find_account db scope_key account_type unit =
     first_where (\<lambda>a. la_scope_key a = scope_key \<and> la_account_type a = account_type \<and>
       la_unit a = unit) (t_accounts db)"

definition ensure_account_at ::
  "database \<Rightarrow> database \<Rightarrow> uuid option \<Rightarrow> string \<Rightarrow> string \<Rightarrow>
   error + (ledger_account \<times> database)" where
  "ensure_account_at db0 db owner account_type unit =
     (let (scope_key, owner_type) = scope_of owner in
      case find_account db0 scope_key account_type unit of
        Some account \<Rightarrow> Inr (account, db)
      | None \<Rightarrow>
          let (i, db') = uuid4 db;
              account = \<lparr>la_id = i, la_scope_key = scope_key, la_owner_type = owner_type,
                la_owner_id = owner, la_account_type = account_type, la_unit = unit\<rparr>
          in if account_checks account \<and> find_account db scope_key account_type unit = None
             then Inr (account,
               db'\<lparr>t_accounts := t_accounts db' @ [account],
                   t_balances := t_balances db' @
                     [\<lparr>wb_account_id = i, wb_balance_ms = 0, wb_version = 0,
                       wb_updated_at = db_now db'\<rparr>]\<rparr>)
             else (case find_account db scope_key account_type unit of
                 None \<Rightarrow> Inl (IntegrityError ''wallet_accounts'')
               | Some account \<Rightarrow> Inr (account, db)))"

definition ensure_account ::
  "database \<Rightarrow> uuid option \<Rightarrow> string \<Rightarrow> string \<Rightarrow> error + (ledger_account \<times> database)" where
  "ensure_account db = ensure_account_at db db"

section \<open>Transfers\<close>

definition transfer_signature_of ::
  "ledger_account \<Rightarrow> ledger_account \<Rightarrow> int \<Rightarrow> string option \<Rightarrow> transfer_signature" where
  "transfer_signature_of debit credit amount_ms reason =
     \<lparr>ts_debit_account_id = uuid_str (la_id debit), ts_credit_account_id = uuid_str (la_id credit),
      ts_amount_ms = amount_ms, ts_reason = reason\<rparr>"

text \<open>The arguments of one \<open>post_transfer\<close> call.\<close>

record transfer =
  tr_tx_type :: string
  tr_idempotency_key :: string
  tr_reference_type :: string
  tr_reference_id :: string
  tr_unit :: string
  tr_debit :: ledger_account
  tr_credit :: ledger_account
  tr_amount_ms :: int
  tr_reason :: "string option"

definition assert_same_transfer ::
  "ledger_transaction \<Rightarrow> transfer \<Rightarrow> transfer_signature \<Rightarrow> error + unit" where
  "assert_same_transfer transaction tr signature =
     (if lt_tx_type transaction \<noteq> tr_tx_type tr \<or>
         lt_reference_type transaction \<noteq> tr_reference_type tr \<or>
         lt_reference_id transaction \<noteq> tr_reference_id tr \<or>
         lt_unit transaction \<noteq> tr_unit tr \<or> lt_transfer transaction \<noteq> signature
      then Inl (ApiError 409 ''LEDGER_IDEMPOTENCY_CONFLICT'') else Inr ())"

definition change_balance ::
  "database \<Rightarrow> ledger_account \<Rightarrow> int \<Rightarrow> bool \<Rightarrow> time \<Rightarrow> error + database" where
  "change_balance db account delta_ms allow_negative now =
     (let matching = (\<lambda>b. wb_account_id b = la_id account \<and>
            (allow_negative \<or> wb_balance_ms b + delta_ms \<ge> 0)) in
      if row_count matching (t_balances db) = 1
      then Inr (db\<lparr>t_balances := update_where matching
             (\<lambda>b. b\<lparr>wb_balance_ms := wb_balance_ms b + delta_ms,
                    wb_version := wb_version b + 1, wb_updated_at := now\<rparr>) (t_balances db)\<rparr>)
      else if delta_ms < 0 \<and> \<not> allow_negative then Inl (ApiError 409 ''WALLET_INSUFFICIENT'')
      else Inl (ApiError 500 ''LEDGER_ACCOUNT_MISSING''))"

definition same_action :: "transfer \<Rightarrow> ledger_transaction \<Rightarrow> bool" where
  "same_action tr t \<longleftrightarrow> lt_idempotency_key t = tr_idempotency_key tr \<or>
     (lt_tx_type t = tr_tx_type tr \<and> lt_reference_type t = tr_reference_type tr \<and>
      lt_reference_id t = tr_reference_id tr)"

definition find_transaction :: "database \<Rightarrow> transfer \<Rightarrow> ledger_transaction option" where
  "find_transaction db tr = first_where (same_action tr) (t_transactions db)"

text \<open>The unique constraints of \<open>ledger_transactions\<close>: the key, and the business action.\<close>

definition transaction_unique :: "database \<Rightarrow> ledger_transaction \<Rightarrow> bool" where
  "transaction_unique db t \<longleftrightarrow> (\<forall>x \<in> set (t_transactions db).
     lt_idempotency_key x \<noteq> lt_idempotency_key t \<and>
     \<not> (lt_tx_type x = lt_tx_type t \<and> lt_reference_type x = lt_reference_type t \<and>
        lt_reference_id x = lt_reference_id t))"

definition post_transfer_at ::
  "database \<Rightarrow> database \<Rightarrow> transfer \<Rightarrow> time \<Rightarrow> error + (ledger_transaction \<times> bool \<times> database)" where
  "post_transfer_at db0 db tr now =
     (if tr_amount_ms tr \<le> 0 then Inl (ValueError ''amount_ms must be positive'')
      else if la_unit (tr_debit tr) \<noteq> tr_unit tr \<or> la_unit (tr_credit tr) \<noteq> tr_unit tr
      then Inl (ValueError ''ledger account units must match the transaction unit'')
      else
        let signature = transfer_signature_of (tr_debit tr) (tr_credit tr) (tr_amount_ms tr)
              (tr_reason tr) in
        case find_transaction db0 tr of
          Some existing \<Rightarrow>
            and_then (assert_same_transfer existing tr signature) (\<lambda>_. Inr (existing, False, db))
        | None \<Rightarrow>
            let (i, db1) = uuid4 db;
                transaction = \<lparr>lt_id = i, lt_tx_type = tr_tx_type tr,
                  lt_idempotency_key = tr_idempotency_key tr,
                  lt_reference_type = tr_reference_type tr,
                  lt_reference_id = tr_reference_id tr, lt_unit = tr_unit tr,
                  lt_transfer = signature, lt_created_at = db_now db\<rparr>
            in if \<not> transaction_unique db transaction
               then (case find_transaction db tr of
                   None \<Rightarrow> Inl (IntegrityError ''ledger_transactions'')
                 | Some existing \<Rightarrow>
                     and_then (assert_same_transfer existing tr signature)
                       (\<lambda>_. Inr (existing, False, db)))
               else
                 and_then (change_balance (db1\<lparr>t_transactions := t_transactions db1 @ [transaction]\<rparr>)
                     (tr_debit tr) (- tr_amount_ms tr)
                     (la_owner_type (tr_debit tr) = ''PLATFORM'') now)
                   (\<lambda>db2. and_then (change_balance db2 (tr_credit tr) (tr_amount_ms tr) True now)
                   (\<lambda>db3. if la_id (tr_debit tr) = la_id (tr_credit tr)
                     then Inl (IntegrityError ''uq_ledger_postings_tx_account'')
                     else Inr (transaction, True,
                       db3\<lparr>t_postings := t_postings db3 @
                         [\<lparr>lp_transaction_id = i, lp_account_id = la_id (tr_debit tr),
                           lp_unit = tr_unit tr, lp_amount_ms = - tr_amount_ms tr\<rparr>,
                          \<lparr>lp_transaction_id = i, lp_account_id = la_id (tr_credit tr),
                           lp_unit = tr_unit tr, lp_amount_ms = tr_amount_ms tr\<rparr>]\<rparr>))))"

definition post_transfer ::
  "database \<Rightarrow> transfer \<Rightarrow> time \<Rightarrow> error + (ledger_transaction \<times> bool \<times> database)" where
  "post_transfer db = post_transfer_at db db"

definition grant_seconds ::
  "database \<Rightarrow> app_user \<Rightarrow> string \<Rightarrow> int \<Rightarrow> string \<Rightarrow> string \<Rightarrow> time \<Rightarrow>
   error + (ledger_transaction \<times> database)" where
  "grant_seconds db user tier_code amount_ms idempotency_key reason now =
     (let db = ensure_default_catalog db in
      case get_tier db tier_code of
        None \<Rightarrow> Inl (ApiError 422 ''TIER_UNAVAILABLE'')
      | Some tier \<Rightarrow>
          if \<not> qt_enabled tier then Inl (ApiError 422 ''TIER_UNAVAILABLE'')
          else
            and_then (ensure_account db None PLATFORM_ISSUED (qt_billing_unit tier))
              (\<lambda>(issued, db).
            and_then (ensure_account db (Some (user_id user)) USER_AVAILABLE (qt_billing_unit tier))
              (\<lambda>(available, db).
            and_then (ensure_account db (Some (user_id user)) USER_RESERVED (qt_billing_unit tier))
              (\<lambda>(_, db).
            and_then (post_transfer db
                \<lparr>tr_tx_type = ''GRANT'', tr_idempotency_key = idempotency_key,
                 tr_reference_type = ''test_grant'', tr_reference_id = idempotency_key,
                 tr_unit = qt_billing_unit tier, tr_debit = issued, tr_credit = available,
                 tr_amount_ms = amount_ms, tr_reason = Some reason\<rparr> now)
              (\<lambda>(transaction, _, db). Inr (transaction, db))))))"

section \<open>Reservations\<close>

definition quote_snapshot_of :: "database \<Rightarrow> quote \<Rightarrow> error + quote_snapshot" where
  "quote_snapshot_of db q =
     (case get_price db (qu_price_version_id q) of
        None \<Rightarrow> Inl (ApiError 500 ''QUOTE_PRICE_MISSING'')
      | Some price \<Rightarrow> Inr
          \<lparr>qs_quote_id = uuid_str (qu_id q), qs_tier_code = qu_tier_code q,
           qs_billing_unit = qu_billing_unit q, qs_price_version_id = uuid_str (pv_id price),
           qs_price_version = pv_version price,
           qs_charge_numerator = pv_charge_numerator price,
           qs_charge_denominator = pv_charge_denominator price,
           qs_duration_ms = qu_duration_ms q, qs_variant_count = qu_variant_count q,
           qs_resolution = qu_resolution q, qs_aspect_ratio = qu_aspect_ratio q,
           qs_reserved_ms = qu_reserved_ms q, qs_quoted_at = qu_created_at q,
           qs_expires_at = qu_expires_at q\<rparr>)"

definition validate_quote_terms ::
  "database \<Rightarrow> app_user \<Rightarrow> shot \<Rightarrow> quote \<Rightarrow> time \<Rightarrow> error + unit" where
  "validate_quote_terms db user shot q now =
     (if qu_user_id q \<noteq> user_id user \<or> qu_project_id q \<noteq> sh_project_id shot \<or>
         qu_shot_id q \<noteq> sh_id shot then Inl (not_found ''QUOTE'')
      else if qu_status q \<noteq> QUOTE_OPEN then Inl (ApiError 409 ''QUOTE_ALREADY_USED'')
      else if qu_expires_at q \<le> now then Inl (ApiError 409 ''QUOTE_EXPIRED'')
      else if qu_duration_ms q \<noteq> sh_duration_seconds shot * 1000 \<or>
              qu_aspect_ratio q \<noteq> sh_aspect_ratio shot
      then Inl (ApiError 409 ''QUOTE_PARAMETERS_CHANGED'')
      else case get_tier db (qu_tier_code q) of
          None \<Rightarrow> Inl (ApiError 422 ''TIER_UNAVAILABLE'')
        | Some tier \<Rightarrow>
            if \<not> qt_enabled tier \<or> qu_resolution q \<noteq> ''720P''
            then Inl (ApiError 422 ''TIER_UNAVAILABLE'') else Inr ())"

definition use_quotes :: "database \<Rightarrow> (quote \<Rightarrow> bool) \<Rightarrow> time \<Rightarrow> database" where
  "use_quotes db p now = db\<lparr>t_quotes :=
     update_where p (\<lambda>q. q\<lparr>qu_status := QUOTE_USED, qu_used_at := Some now\<rparr>) (t_quotes db)\<rparr>"

text \<open>The loop over the quotes of a batch, with the project and unit they must share.\<close>

fun claim_quotes ::
  "database \<Rightarrow> app_user \<Rightarrow> time \<Rightarrow> (uuid \<Rightarrow> quote option) \<Rightarrow> uuid option \<Rightarrow> string option \<Rightarrow>
   uuid list \<Rightarrow> error + ((quote \<times> shot \<times> quote_snapshot) list \<times> uuid option \<times> string option)"
where
  "claim_quotes db user now by_id project_id unit [] = Inr ([], project_id, unit)"
| "claim_quotes db user now by_id project_id unit (quote_id # rest) =
     (case by_id quote_id of
        None \<Rightarrow> Inl (LookupError ''KeyError'')
      | Some q \<Rightarrow>
        (case get_shot db (qu_shot_id q) of
           None \<Rightarrow> Inl (not_found ''SHOT'')
         | Some shot \<Rightarrow>
             and_then (validate_quote_terms db user shot q now) (\<lambda>_.
             if project_id \<noteq> None \<and> project_id \<noteq> Some (qu_project_id q)
             then Inl (ApiError 422 ''BATCH_PROJECT_MISMATCH'')
             else if unit \<noteq> None \<and> unit \<noteq> Some (qu_billing_unit q)
             then Inl (ApiError 422 ''BATCH_LEDGER_UNIT_MISMATCH'')
             else and_then (quote_snapshot_of db q) (\<lambda>snapshot.
               and_then (claim_quotes db user now by_id (Some (qu_project_id q))
                   (Some (qu_billing_unit q)) rest)
                 (\<lambda>(claimed, p, u). Inr ((q, shot, snapshot) # claimed, p, u))))))"

text \<open>The batch object the caller has made, before its reservation is known.\<close>

record batch_draft =
  bd_id :: uuid
  bd_user_id :: uuid
  bd_status :: batch_status

definition reserve_quotes_for_batch ::
  "database \<Rightarrow> app_user \<Rightarrow> batch_draft \<Rightarrow> uuid list \<Rightarrow> time \<Rightarrow>
   error + ((quote \<times> shot \<times> quote_snapshot) list \<times> generation_batch \<times> database)" where
  "reserve_quotes_for_batch db user batch quote_ids now =
     (let quotes = select_where (\<lambda>q. qu_id q \<in> set quote_ids \<and> qu_user_id q = user_id user)
            (t_quotes db);
          by_id = (\<lambda>i. first_where (\<lambda>q. qu_id q = i) quotes) in
      if length (remdups (map qu_id quotes)) \<noteq> length quote_ids then Inl (not_found ''QUOTE'')
      else if length (remdups (map qu_project_id quotes)) \<noteq> 1
      then Inl (ApiError 422 ''BATCH_PROJECT_MISMATCH'')
      else case first_where (\<lambda>p. pr_id p = qu_project_id (hd quotes) \<and>
                  pr_owner_id p = user_id user \<and> pr_status p = PROJECT_ACTIVE) (t_projects db) of
          None \<Rightarrow> Inl (not_found ''PROJECT'')
        | Some _ \<Rightarrow>
          and_then (claim_quotes db user now by_id None None quote_ids)
            (\<lambda>(claimed, project_id, unit).
          let matching = (\<lambda>q. qu_id q \<in> set quote_ids \<and> qu_user_id q = user_id user \<and>
                qu_status q = QUOTE_OPEN \<and> qu_expires_at q > now) in
          if row_count matching (t_quotes db) \<noteq> length quote_ids
          then Inl (ApiError 409 ''QUOTE_ALREADY_USED'')
          else case (project_id, unit) of
              (Some project_id, Some billing_unit) \<Rightarrow>
                let total_reserved_ms = sum_list (map (\<lambda>(q, _, _). qu_reserved_ms q) claimed);
                    db = use_quotes db matching now
                in and_then (ensure_account db (Some (user_id user)) USER_AVAILABLE billing_unit)
                     (\<lambda>(available, db).
                   and_then (ensure_account db (Some (user_id user)) USER_RESERVED billing_unit)
                     (\<lambda>(reserved, db).
                   and_then (post_transfer db
                       \<lparr>tr_tx_type = ''RESERVE'',
                        tr_idempotency_key = ''batch:'' @ uuid_str (bd_id batch) @ '':reserve:v1'',
                        tr_reference_type = ''batch'', tr_reference_id = uuid_str (bd_id batch),
                        tr_unit = billing_unit, tr_debit = available, tr_credit = reserved,
                        tr_amount_ms = total_reserved_ms, tr_reason = None\<rparr> now)
                     (\<lambda>(transaction, _, db).
                   let row = \<lparr>gb_id = bd_id batch, gb_user_id = bd_user_id batch,
                         gb_project_id = project_id, gb_status = bd_status batch,
                         gb_ledger_unit = billing_unit,
                         gb_reserved_amount_ms = total_reserved_ms,
                         gb_reserved_tx_id = lt_id transaction\<rparr>
                   in if gb_reserved_amount_ms row \<le> 0 \<or>
                         exists_where (\<lambda>b. gb_reserved_tx_id b = gb_reserved_tx_id row) (t_batches db)
                      then Inl (IntegrityError ''generation_batches'')
                      else Inr (claimed, row, db\<lparr>t_batches := t_batches db @ [row]\<rparr>))))
            | _ \<Rightarrow> Inl (RuntimeError ''AssertionError'')))"

text \<open>What the reservation writes to the job.\<close>

definition reserved_terms ::
  "quote \<Rightarrow> quote_snapshot \<Rightarrow> ledger_transaction \<Rightarrow> generation_job \<Rightarrow> generation_job" where
  "reserved_terms q snapshot transaction j = j\<lparr>job_quote_id := Some (qu_id q),
     job_quote_snapshot := Some snapshot, job_tier_code := qu_tier_code q,
     job_duration_ms := qu_duration_ms q, job_resolution := qu_resolution q,
     job_aspect_ratio := qu_aspect_ratio q, job_ledger_unit := Some (qu_billing_unit q),
     job_reserved_amount_ms := Some (qu_reserved_ms q),
     job_reserved_tx_id := Some (lt_id transaction),
     job_settlement_status := Some SET_RESERVED\<rparr>"

definition reserve_quote_for_job ::
  "database \<Rightarrow> app_user \<Rightarrow> shot \<Rightarrow> uuid \<Rightarrow> generation_job \<Rightarrow> time \<Rightarrow>
   error + (generation_job \<times> database)" where
  "reserve_quote_for_job db user shot quote_id job now =
     (case first_where (\<lambda>q. qu_id q = quote_id \<and> qu_user_id q = user_id user \<and>
             qu_project_id q = sh_project_id shot \<and> qu_shot_id q = sh_id shot) (t_quotes db) of
        None \<Rightarrow> Inl (not_found ''QUOTE'')
      | Some q \<Rightarrow>
          and_then (validate_quote_terms db user shot q now) (\<lambda>_.
          let matching = (\<lambda>x. qu_id x = qu_id q \<and> qu_status x = QUOTE_OPEN \<and>
                qu_expires_at x > now) in
          if row_count matching (t_quotes db) \<noteq> 1
          then Inl (ApiError 409 ''QUOTE_ALREADY_USED'')
          else
            let db = use_quotes db matching now in
            and_then (ensure_account db (Some (user_id user)) USER_AVAILABLE (qu_billing_unit q))
              (\<lambda>(available, db).
            and_then (ensure_account db (Some (user_id user)) USER_RESERVED (qu_billing_unit q))
              (\<lambda>(reserved, db).
            and_then (post_transfer db
                \<lparr>tr_tx_type = ''RESERVE'',
                 tr_idempotency_key = ''job:'' @ uuid_str (job_id job) @ '':reserve:v1'',
                 tr_reference_type = ''job'', tr_reference_id = uuid_str (job_id job),
                 tr_unit = qu_billing_unit q, tr_debit = available, tr_credit = reserved,
                 tr_amount_ms = qu_reserved_ms q, tr_reason = None\<rparr> now)
              (\<lambda>(transaction, _, db).
            and_then (quote_snapshot_of db q) (\<lambda>snapshot.
            let set_terms = reserved_terms q snapshot transaction;
                (ok, db, job) = transition_job (assign_job db (job_id job) set_terms)
                  (set_terms job) JOB_RESERVED ''job.reserved''
                  (''job:'' @ uuid_str (job_id job) @ '':reserved:v1'')
                  (JObj [(''ledger_transaction_id'', JStr (uuid_str (lt_id transaction)))])
            in if \<not> ok then Inl (ApiError 409 ''JOB_STATE_CONFLICT'')
               else Inr (job, db)))))))"

section \<open>Batch status, settlement and release\<close>

definition batch_status_of :: "job_status list \<Rightarrow> batch_status" where
  "batch_status_of statuses =
     (if statuses \<noteq> [] \<and> (\<forall>s \<in> set statuses. s \<in> JOB_TERMINAL_STATUSES)
      then let succeeded = length (filter (\<lambda>s. s = JOB_SUCCEEDED) statuses) in
        if succeeded = length statuses then BATCH_SUCCEEDED
        else if succeeded \<noteq> 0 then BATCH_PARTIAL
        else BATCH_FAILED_FINAL
      else BATCH_RUNNING)"

definition refresh_batch_status :: "database \<Rightarrow> uuid \<Rightarrow> error + (batch_status \<times> database)" where
  "refresh_batch_status db batch_id =
     (case first_where (\<lambda>b. gb_id b = batch_id) (t_batches db) of
        None \<Rightarrow> Inl (ApiError 500 ''BATCH_MISSING'')
      | Some _ \<Rightarrow>
          let statuses = map job_status
                (select_where (\<lambda>j. job_batch_id j = Some batch_id) (t_jobs db));
              desired = batch_status_of statuses
          in Inr (desired, db\<lparr>t_batches := update_where (\<lambda>b. gb_id b = batch_id)
               (\<lambda>b. b\<lparr>gb_status := desired\<rparr>) (t_batches db)\<rparr>))"

text \<open>The transfer that ends a reservation.\<close>

definition finish_transfer ::
  "generation_job \<Rightarrow> string \<Rightarrow> int \<Rightarrow> bool \<Rightarrow> ledger_account \<Rightarrow> ledger_account \<Rightarrow> transfer" where
  "finish_transfer job unit amount settle reserved target =
     \<lparr>tr_tx_type = (if settle then ''SETTLE'' else ''RELEASE''),
      tr_idempotency_key = ''job:'' @ uuid_str (job_id job) @ '':'' @
        (if settle then ''settle'' else ''release'') @ '':v1'',
      tr_reference_type = ''job'', tr_reference_id = uuid_str (job_id job),
      tr_unit = unit, tr_debit = reserved, tr_credit = target, tr_amount_ms = amount,
      tr_reason = None\<rparr>"

definition finish_reservation ::
  "database \<Rightarrow> generation_job \<Rightarrow> bool \<Rightarrow> time \<Rightarrow> error + (bool \<times> database)" where
  "finish_reservation db job settle now =
     (let desired = (if settle then SET_SETTLED else SET_RELEASED) in
      if job_settlement_status job = Some desired then Inr (False, db)
      else if job_settlement_status job \<noteq> Some SET_RESERVED
      then Inl (ApiError 409 ''LEDGER_ALREADY_FINALIZED'')
      else case (job_ledger_unit job, job_reserved_amount_ms job) of
        (Some unit, Some amount) \<Rightarrow>
          let matching = (\<lambda>j. job_id j = job_id job \<and>
                job_settlement_status j = Some SET_RESERVED) in
          if row_count matching (t_jobs db) \<noteq> 1
          then (case get_job db (job_id job) of
              None \<Rightarrow> Inl (LookupError ''InvalidRequestError'')
            | Some row \<Rightarrow>
                if job_settlement_status row = Some desired then Inr (False, db)
                else Inl (ApiError 409 ''LEDGER_ALREADY_FINALIZED''))
          else
            let db = db\<lparr>t_jobs := update_where matching
                  (\<lambda>j. j\<lparr>job_settlement_status := Some desired, job_updated_at := db_now db\<rparr>)
                  (t_jobs db)\<rparr> in
            and_then (ensure_account db (Some (job_user_id job)) USER_RESERVED unit)
              (\<lambda>(reserved, db).
            and_then
              (if settle then ensure_account db None PLATFORM_CONSUMED unit
               else ensure_account db (Some (job_user_id job)) USER_AVAILABLE unit)
              (\<lambda>(target, db).
            and_then (post_transfer db (finish_transfer job unit amount settle reserved target) now)
              (\<lambda>(_, _, db).
            case job_batch_id job of
              None \<Rightarrow> Inr (True, db)
            | Some b \<Rightarrow> and_then (refresh_batch_status db b) (\<lambda>(_, db). Inr (True, db)))))
      | _ \<Rightarrow> Inl (ApiError 500 ''LEDGER_RESERVATION_MISSING''))"

section \<open>Balances of a user\<close>

definition wallet_balances :: "database \<Rightarrow> uuid \<Rightarrow> string \<rightharpoonup> (string \<rightharpoonup> int)" where
  "wallet_balances db user =
     fold (\<lambda>a balances.
         case first_where (\<lambda>b. wb_account_id b = la_id a) (t_balances db) of
           None \<Rightarrow> balances
         | Some b \<Rightarrow> balances(la_unit a \<mapsto>
             (case balances (la_unit a) of None \<Rightarrow> Map.empty | Some m \<Rightarrow> m)
               (la_account_type a \<mapsto> wb_balance_ms b)))
       (select_where (\<lambda>a. la_owner_id a = Some user) (t_accounts db)) Map.empty"

end
