(* ===== verification/LedgerInv.thy ===== *)
theory LedgerInv
  imports Ledger
begin

text \<open>
  Correctness of the ledger: what one balance change and one transfer do, the invariant of
  the books and that every ledger operation keeps it, the independence of a transfer from
  the race its optimistic lookup can lose, and the contract of an account book, which
  transfers of the model fulfil.
\<close>

section \<open>Books\<close>

definition balance_of :: "database \<Rightarrow> uuid \<Rightarrow> int" where
  "balance_of db i =
     (case first_where (\<lambda>b. wb_account_id b = i) (t_balances db) of
        None \<Rightarrow> 0 | Some b \<Rightarrow> wb_balance_ms b)"

definition posted :: "database \<Rightarrow> uuid \<Rightarrow> int" where
  "posted db i =
     sum_list (map lp_amount_ms (filter (\<lambda>p. lp_account_id p = i) (t_postings db)))"

definition transaction_total :: "database \<Rightarrow> uuid \<Rightarrow> int" where
  "transaction_total db t =
     sum_list (map lp_amount_ms (filter (\<lambda>p. lp_transaction_id p = t) (t_postings db)))"

definition unit_total :: "database \<Rightarrow> string \<Rightarrow> int" where
  "unit_total db u =
     sum_list (map (\<lambda>a. if la_unit a = u then balance_of db (la_id a) else 0) (t_accounts db))"

definition account_key :: "ledger_account \<Rightarrow> string \<times> string \<times> string" where
  "account_key a = (la_scope_key a, la_account_type a, la_unit a)"

text \<open>
  The books are in order: account ids and keys are unique and every account has its balance
  row; each balance is the sum of the account's postings and the postings of each transaction
  cancel out; in each unit the balances sum to zero; only platform accounts may be negative.
\<close>

definition ledger_ok :: "database \<Rightarrow> bool" where
  "ledger_ok db \<longleftrightarrow>
     distinct (map la_id (t_accounts db)) \<and> distinct (map account_key (t_accounts db)) \<and>
     map wb_account_id (t_balances db) = map la_id (t_accounts db) \<and>
     (\<forall>p \<in> set (t_postings db). lp_account_id p \<in> la_id ` set (t_accounts db)) \<and>
     (\<forall>a \<in> set (t_accounts db). balance_of db (la_id a) = posted db (la_id a)) \<and>
     (\<forall>t. transaction_total db t = 0) \<and>
     (\<forall>u. unit_total db u = 0) \<and>
     (\<forall>a \<in> set (t_accounts db). la_owner_type a \<noteq> ''PLATFORM'' \<longrightarrow> 0 \<le> balance_of db (la_id a))"

text \<open>The next \<open>n\<close> draws of \<open>uuid4()\<close> are new and pairwise different.\<close>

definition uuids_fresh :: "nat \<Rightarrow> database \<Rightarrow> bool" where
  "uuids_fresh n db \<longleftrightarrow>
     distinct (map (uuid_supply db) [uuid_next db ..< uuid_next db + n]) \<and>
     (\<forall>k < n. uuid_supply db (uuid_next db + k) \<notin> la_id ` set (t_accounts db))"

text \<open>What the ledger operations leave alone: everything but the book tables.\<close>

definition ledger_mask :: "database \<Rightarrow> database" where
  "ledger_mask db = db\<lparr>uuid_next := 0, t_accounts := [], t_transactions := [],
     t_balances := [], t_postings := []\<rparr>"

definition ledger_frame :: "database \<Rightarrow> database \<Rightarrow> bool" where
  "ledger_frame db db' \<longleftrightarrow> ledger_mask db' = ledger_mask db"

lemma ledger_frame_refl [simp, intro]: "ledger_frame db db"
  by (simp add: ledger_frame_def)

lemma ledger_frame_trans: "ledger_frame a b \<Longrightarrow> ledger_frame b c \<Longrightarrow> ledger_frame a c"
  by (simp add: ledger_frame_def)

lemma ledger_frame_tables:
  assumes "ledger_frame db db'"
  shows "t_jobs db' = t_jobs db" "t_events db' = t_events db" "t_quotes db' = t_quotes db"
    "t_attempts db' = t_attempts db" "t_batches db' = t_batches db" "db_now db' = db_now db"
    "t_tiers db' = t_tiers db" "t_prices db' = t_prices db" "t_shots db' = t_shots db"
    "t_projects db' = t_projects db" "uuid_supply db' = uuid_supply db"
    "t_outputs db' = t_outputs db" "t_outbox db' = t_outbox db"
    "t_idempotency db' = t_idempotency db"
proof -
  have m: "ledger_mask db' = ledger_mask db" using assms by (simp add: ledger_frame_def)
  show "t_jobs db' = t_jobs db" using arg_cong [OF m, of t_jobs] by (simp add: ledger_mask_def)
  show "t_events db' = t_events db" using arg_cong [OF m, of t_events] by (simp add: ledger_mask_def)
  show "t_quotes db' = t_quotes db" using arg_cong [OF m, of t_quotes] by (simp add: ledger_mask_def)
  show "t_attempts db' = t_attempts db" using arg_cong [OF m, of t_attempts] by (simp add: ledger_mask_def)
  show "t_batches db' = t_batches db" using arg_cong [OF m, of t_batches] by (simp add: ledger_mask_def)
  show "db_now db' = db_now db" using arg_cong [OF m, of db_now] by (simp add: ledger_mask_def)
  show "t_tiers db' = t_tiers db" using arg_cong [OF m, of t_tiers] by (simp add: ledger_mask_def)
  show "t_prices db' = t_prices db" using arg_cong [OF m, of t_prices] by (simp add: ledger_mask_def)
  show "t_shots db' = t_shots db" using arg_cong [OF m, of t_shots] by (simp add: ledger_mask_def)
  show "t_projects db' = t_projects db" using arg_cong [OF m, of t_projects] by (simp add: ledger_mask_def)
  show "uuid_supply db' = uuid_supply db" using arg_cong [OF m, of uuid_supply] by (simp add: ledger_mask_def)
  show "t_outputs db' = t_outputs db" using arg_cong [OF m, of t_outputs] by (simp add: ledger_mask_def)
  show "t_outbox db' = t_outbox db" using arg_cong [OF m, of t_outbox] by (simp add: ledger_mask_def)
  show "t_idempotency db' = t_idempotency db"
    using arg_cong [OF m, of t_idempotency] by (simp add: ledger_mask_def)
qed

section \<open>One balance change\<close>

lemma balance_row:
  assumes "distinct (map wb_account_id (t_balances db))" and "b \<in> set (t_balances db)"
  shows "balance_of db (wb_account_id b) = wb_balance_ms b"
  using first_where_key [OF assms] by (simp add: balance_of_def)

lemma change_balance_Inr:
  assumes "change_balance db acc d neg now = Inr db'"
    and dist: "distinct (map wb_account_id (t_balances db))"
  shows "\<exists>bs. db' = db\<lparr>t_balances := bs\<rparr> \<and> map wb_account_id bs = map wb_account_id (t_balances db)"
    and "la_id acc \<in> wb_account_id ` set (t_balances db)"
    and "neg \<or> 0 \<le> balance_of db (la_id acc) + d"
    and "balance_of db' = (balance_of db)(la_id acc := balance_of db (la_id acc) + d)"
proof -
  let ?m = "\<lambda>b. wb_account_id b = la_id acc \<and> (neg \<or> wb_balance_ms b + d \<ge> 0)"
  let ?f = "\<lambda>b. b\<lparr>wb_balance_ms := wb_balance_ms b + d, wb_version := wb_version b + 1,
      wb_updated_at := now\<rparr>"
  from assms(1) have cnt: "row_count ?m (t_balances db) = 1"
    and db': "db' = db\<lparr>t_balances := update_where ?m ?f (t_balances db)\<rparr>"
    by (auto simp: change_balance_def Let_def split: if_splits)
  have "\<exists>b \<in> set (t_balances db). ?m b"
    using row_count_1_iff [where k = wb_account_id and p = ?m, OF dist] cnt by auto
  then obtain b where b: "b \<in> set (t_balances db)" "?m b" by blast
  have bal: "balance_of db (la_id acc) = wb_balance_ms b"
    using balance_row [OF dist b(1)] b(2) by simp
  show "\<exists>bs. db' = db\<lparr>t_balances := bs\<rparr> \<and> map wb_account_id bs = map wb_account_id (t_balances db)"
    unfolding db' using map_update_where_cong [where k = wb_account_id and f = ?f and p = ?m] by auto
  show "la_id acc \<in> wb_account_id ` set (t_balances db)" using b by force
  show "neg \<or> 0 \<le> balance_of db (la_id acc) + d" using b(2) bal by auto
  have "update_where ?m ?f (t_balances db) =
      update_where (\<lambda>b. wb_account_id b = la_id acc) ?f (t_balances db)"
    unfolding update_where_def
  proof (rule map_cong [OF refl])
    fix x assume "x \<in> set (t_balances db)"
    then show "(if ?m x then ?f x else x) = (if wb_account_id x = la_id acc then ?f x else x)"
      using key_unique [OF dist b(1), of x] b(2) by auto
  qed
  then have eq: "t_balances db' =
      update_where (\<lambda>b. wb_account_id b = la_id acc) ?f (t_balances db)" by (simp add: db')
  show "balance_of db' = (balance_of db)(la_id acc := balance_of db (la_id acc) + d)"
  proof
    fix i
    show "balance_of db' i = ((balance_of db)(la_id acc := balance_of db (la_id acc) + d)) i"
    proof (cases "i = la_id acc")
      case True
      have "first_where (\<lambda>b. wb_account_id b = la_id acc) (t_balances db) = Some b"
        using b by (intro first_where_key_eq [OF dist]) auto
      then have "first_where (\<lambda>b. wb_account_id b = la_id acc) (t_balances db') = Some (?f b)"
        unfolding eq by (subst first_where_update_same) auto
      with True bal show ?thesis by (simp add: balance_of_def)
    next
      case False
      then have "first_where (\<lambda>b. wb_account_id b = i) (t_balances db') =
          first_where (\<lambda>b. wb_account_id b = i) (t_balances db)"
        unfolding eq by (intro first_where_update_other) auto
      with False show ?thesis by (simp add: balance_of_def)
    qed
  qed
qed

lemma change_balance_guard:
  assumes dist: "distinct (map wb_account_id (t_balances db))"
    and "la_id acc \<in> wb_account_id ` set (t_balances db)"
    and "neg \<or> 0 \<le> balance_of db (la_id acc) + d"
  shows "is_ok (change_balance db acc d neg now)"
proof -
  from assms(2) obtain b where b: "b \<in> set (t_balances db)" "wb_account_id b = la_id acc"
    by auto
  then have "balance_of db (la_id acc) = wb_balance_ms b" using balance_row [OF dist] by metis
  with assms(3) b have "\<exists>b \<in> set (t_balances db). wb_account_id b = la_id acc \<and>
      (neg \<or> wb_balance_ms b + d \<ge> 0)" by auto
  then have "row_count (\<lambda>b. wb_account_id b = la_id acc \<and> (neg \<or> wb_balance_ms b + d \<ge> 0))
      (t_balances db) = 1"
    using row_count_1_iff [where k = wb_account_id and
      p = "\<lambda>b. wb_account_id b = la_id acc \<and> (neg \<or> wb_balance_ms b + d \<ge> 0)", OF dist] by auto
  then show ?thesis by (simp add: change_balance_def Let_def)
qed

section \<open>One transfer\<close>

text \<open>A transfer that made a transaction: its accounts are different rows, and the two
  balances moved by the amount, under the debit guard.\<close>

lemma post_transfer_at_new:
  assumes "post_transfer_at db0 db tr now = Inr (t, True, db')"
    and dist: "distinct (map wb_account_id (t_balances db))"
  shows "0 < tr_amount_ms tr" and "la_unit (tr_debit tr) = tr_unit tr"
    and "la_unit (tr_credit tr) = tr_unit tr" and "la_id (tr_debit tr) \<noteq> la_id (tr_credit tr)"
    and "{la_id (tr_debit tr), la_id (tr_credit tr)} \<subseteq> wb_account_id ` set (t_balances db)"
    and "la_owner_type (tr_debit tr) = ''PLATFORM'' \<or>
         tr_amount_ms tr \<le> balance_of db (la_id (tr_debit tr))"
    and "balance_of db' = (balance_of db)
           (la_id (tr_debit tr) := balance_of db (la_id (tr_debit tr)) - tr_amount_ms tr,
            la_id (tr_credit tr) := balance_of db (la_id (tr_credit tr)) + tr_amount_ms tr)"
    and "\<exists>bs. map wb_account_id bs = map wb_account_id (t_balances db) \<and>
         db' = db\<lparr>uuid_next := Suc (uuid_next db), t_transactions := t_transactions db @ [t],
           t_balances := bs, t_postings := t_postings db @
             [\<lparr>lp_transaction_id = lt_id t, lp_account_id = la_id (tr_debit tr),
               lp_unit = tr_unit tr, lp_amount_ms = - tr_amount_ms tr\<rparr>,
              \<lparr>lp_transaction_id = lt_id t, lp_account_id = la_id (tr_credit tr),
               lp_unit = tr_unit tr, lp_amount_ms = tr_amount_ms tr\<rparr>]\<rparr>"
    and "same_action tr t" and "transaction_unique db t"
    and "t = \<lparr>lt_id = uuid_supply db (uuid_next db), lt_tx_type = tr_tx_type tr,
           lt_idempotency_key = tr_idempotency_key tr, lt_reference_type = tr_reference_type tr,
           lt_reference_id = tr_reference_id tr, lt_unit = tr_unit tr,
           lt_transfer = transfer_signature_of (tr_debit tr) (tr_credit tr) (tr_amount_ms tr)
             (tr_reason tr), lt_created_at = db_now db\<rparr>"
proof -
  let ?i = "uuid_supply db (uuid_next db)"
  let ?t = "\<lparr>lt_id = ?i, lt_tx_type = tr_tx_type tr,
     lt_idempotency_key = tr_idempotency_key tr, lt_reference_type = tr_reference_type tr,
     lt_reference_id = tr_reference_id tr, lt_unit = tr_unit tr,
     lt_transfer = transfer_signature_of (tr_debit tr) (tr_credit tr) (tr_amount_ms tr)
       (tr_reason tr), lt_created_at = db_now db\<rparr>"
  let ?db1 = "db\<lparr>uuid_next := Suc (uuid_next db), t_transactions := t_transactions db @ [?t]\<rparr>"
  let ?ps = "[\<lparr>lp_transaction_id = ?i, lp_account_id = la_id (tr_debit tr),
               lp_unit = tr_unit tr, lp_amount_ms = - tr_amount_ms tr\<rparr>,
              \<lparr>lp_transaction_id = ?i, lp_account_id = la_id (tr_credit tr),
               lp_unit = tr_unit tr, lp_amount_ms = tr_amount_ms tr\<rparr>]"
  from assms(1) obtain db2 db3 where
    c: "change_balance ?db1 (tr_debit tr) (- tr_amount_ms tr)
          (la_owner_type (tr_debit tr) = ''PLATFORM'') now = Inr db2"
      "change_balance db2 (tr_credit tr) (tr_amount_ms tr) True now = Inr db3"
    and db': "db' = db3\<lparr>t_postings := t_postings db3 @ ?ps\<rparr>" and t: "t = ?t"
    and u: "transaction_unique db ?t" and pos: "0 < tr_amount_ms tr"
    and units: "la_unit (tr_debit tr) = tr_unit tr" "la_unit (tr_credit tr) = tr_unit tr"
    and ne: "la_id (tr_debit tr) \<noteq> la_id (tr_credit tr)"
    by (auto simp: post_transfer_at_def Let_def uuid4_def and_then_Inr_iff
        split: option.splits if_splits)
  have dist1: "distinct (map wb_account_id (t_balances ?db1))" using dist by simp
  note c1 = change_balance_Inr [OF c(1) dist1]
  from c1(1) obtain bs2 where
    db2: "db2 = ?db1\<lparr>t_balances := bs2\<rparr>" "map wb_account_id bs2 = map wb_account_id (t_balances db)"
    by auto
  have dist2: "distinct (map wb_account_id (t_balances db2))" using db2 dist by simp
  note c2 = change_balance_Inr [OF c(2) dist2]
  from c2(1) obtain bs3 where
    db3: "db3 = db2\<lparr>t_balances := bs3\<rparr>" "map wb_account_id bs3 = map wb_account_id (t_balances db2)"
    by auto
  have ids: "wb_account_id ` set (t_balances db2) = wb_account_id ` set (t_balances db)"
    using arg_cong [OF db2(2), of set] by (simp add: db2(1))
  have bal1: "balance_of ?db1 = balance_of db"
    by (simp add: fun_eq_iff balance_of_def)
  have bal': "balance_of db' = balance_of db3"
    by (simp add: fun_eq_iff balance_of_def db')
  show "0 < tr_amount_ms tr" by (rule pos)
  show "la_unit (tr_debit tr) = tr_unit tr" and "la_unit (tr_credit tr) = tr_unit tr"
    by (rule units)+
  show "la_id (tr_debit tr) \<noteq> la_id (tr_credit tr)" by (rule ne)
  show "{la_id (tr_debit tr), la_id (tr_credit tr)} \<subseteq> wb_account_id ` set (t_balances db)"
    using c1(2) c2(2) ids by simp
  show "la_owner_type (tr_debit tr) = ''PLATFORM'' \<or>
      tr_amount_ms tr \<le> balance_of db (la_id (tr_debit tr))"
    using c1(3) bal1 by auto
  show "balance_of db' = (balance_of db)
      (la_id (tr_debit tr) := balance_of db (la_id (tr_debit tr)) - tr_amount_ms tr,
       la_id (tr_credit tr) := balance_of db (la_id (tr_credit tr)) + tr_amount_ms tr)"
    using ne by (simp add: bal' c2(4) c1(4) bal1 del: fun_upd_apply) (simp add: fun_eq_iff)
  show "\<exists>bs. map wb_account_id bs = map wb_account_id (t_balances db) \<and>
      db' = db\<lparr>uuid_next := Suc (uuid_next db), t_transactions := t_transactions db @ [t],
        t_balances := bs, t_postings := t_postings db @
          [\<lparr>lp_transaction_id = lt_id t, lp_account_id = la_id (tr_debit tr),
            lp_unit = tr_unit tr, lp_amount_ms = - tr_amount_ms tr\<rparr>,
           \<lparr>lp_transaction_id = lt_id t, lp_account_id = la_id (tr_credit tr),
            lp_unit = tr_unit tr, lp_amount_ms = tr_amount_ms tr\<rparr>]\<rparr>"
    using db2 db3 by (intro exI [of _ bs3]) (simp add: db' t)
  show "same_action tr t" by (simp add: t same_action_def)
  show "transaction_unique db t" using u t by simp
  show "t = ?t" by (rule t)
qed

text \<open>A transfer that found its transaction already made changes nothing.\<close>

lemma post_transfer_at_replay:
  "post_transfer_at db0 db tr now = Inr (t, False, db') \<Longrightarrow> db' = db"
  by (auto simp: post_transfer_at_def Let_def uuid4_def and_then_Inr_iff
      split: option.splits if_splits)

lemma post_transfer_frame:
  assumes "post_transfer_at db0 db tr now = Inr (t, b, db')"
    and "distinct (map wb_account_id (t_balances db))"
  shows "ledger_frame db db'" and "t_accounts db' = t_accounts db"
    and "map wb_account_id (t_balances db') = map wb_account_id (t_balances db)"
    and "uuid_next db' \<le> Suc (uuid_next db)" and "uuid_next db \<le> uuid_next db'"
proof -
  have "ledger_frame db db' \<and> t_accounts db' = t_accounts db \<and>
    map wb_account_id (t_balances db') = map wb_account_id (t_balances db) \<and>
    uuid_next db' \<le> Suc (uuid_next db) \<and> uuid_next db \<le> uuid_next db'"
  proof (cases b)
    case True
    with assms(1) have "post_transfer_at db0 db tr now = Inr (t, True, db')" by simp
    from post_transfer_at_new(8) [OF this assms(2)] show ?thesis
      by (auto simp: ledger_frame_def ledger_mask_def)
  next
    case False
    with assms(1) have "post_transfer_at db0 db tr now = Inr (t, False, db')" by simp
    from post_transfer_at_replay [OF this] show ?thesis by simp
  qed
  then show "ledger_frame db db'" and "t_accounts db' = t_accounts db"
    and "map wb_account_id (t_balances db') = map wb_account_id (t_balances db)"
    and "uuid_next db' \<le> Suc (uuid_next db)" and "uuid_next db \<le> uuid_next db'" by simp_all
qed

section \<open>The invariant of the books\<close>

lemma ledger_okD:
  assumes "ledger_ok db"
  shows "distinct (map la_id (t_accounts db))" "distinct (map account_key (t_accounts db))"
    "map wb_account_id (t_balances db) = map la_id (t_accounts db)"
    "distinct (map wb_account_id (t_balances db))"
    "p \<in> set (t_postings db) \<Longrightarrow> lp_account_id p \<in> la_id ` set (t_accounts db)"
    "a \<in> set (t_accounts db) \<Longrightarrow> balance_of db (la_id a) = posted db (la_id a)"
    "transaction_total db t = 0" "unit_total db u = 0"
    "a \<in> set (t_accounts db) \<Longrightarrow> la_owner_type a \<noteq> ''PLATFORM'' \<Longrightarrow> 0 \<le> balance_of db (la_id a)"
  using assms unfolding ledger_ok_def by metis+

text \<open>Moving an amount between two accounts of a unit keeps each unit's total.\<close>

lemma sum_list_move:
  fixes f :: "uuid \<Rightarrow> int"
  assumes "distinct (map la_id as)" and "d \<in> set as" and "c \<in> set as" and "la_id d \<noteq> la_id c"
    and "la_unit d = la_unit c"
  shows "sum_list (map (\<lambda>a. if la_unit a = u
            then (f(la_id d := f (la_id d) - x, la_id c := f (la_id c) + x)) (la_id a) else 0) as) =
         sum_list (map (\<lambda>a. if la_unit a = u then f (la_id a) else 0) as)"
proof -
  let ?g = "f(la_id d := f (la_id d) - x, la_id c := f (la_id c) + x)"
  have delta: "sum_list (map (\<lambda>a. if a = e then y else 0) as) = (y::int)"
    if "e \<in> set as" for e y
    using assms(1) that
  proof (induction as)
    case Nil
    then show ?case by simp
  next
    case (Cons a as)
    have none: "e \<notin> set as \<Longrightarrow> sum_list (map (\<lambda>x. if x = e then y else 0) as) = 0"
      by (induction as) auto
    have "e \<notin> set as" if "a = e" using Cons.prems(1) that by auto
    with Cons none show ?case by auto
  qed
  let ?h = "\<lambda>a. (if la_unit a = u then f (la_id a) else 0) +
      (if a = c then (if la_unit c = u then x else 0) else 0) -
      (if a = d then (if la_unit c = u then x else 0) else 0)"
  have "(if la_unit a = u then ?g (la_id a) else 0) = ?h a" if a: "a \<in> set as" for a
  proof (cases "a = c \<or> a = d")
    case True
    with assms(4,5) show ?thesis by auto
  next
    case False
    with key_unique [OF assms(1) a assms(2)] key_unique [OF assms(1) a assms(3)]
    have "la_id a \<noteq> la_id d" "la_id a \<noteq> la_id c" by auto
    with False show ?thesis by simp
  qed
  then have "sum_list (map (\<lambda>a. if la_unit a = u then ?g (la_id a) else 0) as) =
      sum_list (map ?h as)"
    by (intro arg_cong [where f = sum_list] map_cong) auto
  also have "\<dots> = sum_list (map (\<lambda>a. if la_unit a = u then f (la_id a) else 0) as)"
    by (simp only: sum_list_addf sum_list_subtractf delta [OF assms(2)] delta [OF assms(3)])
  finally show ?thesis .
qed

lemma ledger_ok_transfer:
  assumes ok: "ledger_ok db" and "post_transfer_at db0 db tr now = Inr (t, b, db')"
    and debit: "tr_debit tr \<in> set (t_accounts db)" and credit: "tr_credit tr \<in> set (t_accounts db)"
  shows "ledger_ok db'"
proof (cases b)
  case False
  with assms(2) have "post_transfer_at db0 db tr now = Inr (t, False, db')" by simp
  from post_transfer_at_replay [OF this] ok show ?thesis by simp
next
  case True
  note L = ledger_okD [OF ok]
  from True assms(2) have P: "post_transfer_at db0 db tr now = Inr (t, True, db')" by simp
  note N = post_transfer_at_new [OF P L(4)]
  let ?d = "tr_debit tr" and ?c = "tr_credit tr" and ?x = "tr_amount_ms tr"
  from N(8) obtain bs where bs: "map wb_account_id bs = map wb_account_id (t_balances db)"
    and db': "db' = db\<lparr>uuid_next := Suc (uuid_next db), t_transactions := t_transactions db @ [t],
           t_balances := bs, t_postings := t_postings db @
             [\<lparr>lp_transaction_id = lt_id t, lp_account_id = la_id ?d,
               lp_unit = tr_unit tr, lp_amount_ms = - ?x\<rparr>,
              \<lparr>lp_transaction_id = lt_id t, lp_account_id = la_id ?c,
               lp_unit = tr_unit tr, lp_amount_ms = ?x\<rparr>]\<rparr>" by blast
  have accounts: "t_accounts db' = t_accounts db" by (simp add: db')
  have posted': "posted db' i = posted db i + (if i = la_id ?c then ?x else 0)
      - (if i = la_id ?d then ?x else 0)" for i
    by (simp add: posted_def db')
  have "transaction_total db' i = transaction_total db i" for i
    by (simp add: transaction_total_def db')
  moreover have "unit_total db' u = unit_total db u" for u
    unfolding unit_total_def accounts N(7)
    by (rule sum_list_move [OF L(1) debit credit N(4)]) (simp add: N(2,3))
  moreover have "balance_of db' (la_id a) = posted db' (la_id a)"
    if "a \<in> set (t_accounts db)" for a
    using L(6) [OF that] N(4) L(6) [OF debit] L(6) [OF credit] by (simp add: N(7) posted')
  moreover have "0 \<le> balance_of db' (la_id a)"
    if a: "a \<in> set (t_accounts db)" "la_owner_type a \<noteq> ''PLATFORM''" for a
  proof (cases "la_id a = la_id ?d")
    case True
    with key_unique [OF L(1) a(1) debit] a(2) N(6) have "?x \<le> balance_of db (la_id ?d)" by auto
    with True N(4) show ?thesis by (simp add: N(7))
  next
    case False
    with L(9) [OF a] N(1) show ?thesis by (auto simp: N(7))
  qed
  moreover have "lp_account_id p \<in> la_id ` set (t_accounts db)" if "p \<in> set (t_postings db')" for p
    using that L(5) debit credit by (auto simp: db')
  ultimately show ?thesis
    using L(1-3,7,8) bs by (simp add: ledger_ok_def accounts) (simp add: db')
qed

text \<open>A new account starts with a balance of zero; a found one changes nothing.\<close>

lemma ensure_account_Inr:
  assumes "ensure_account db owner ty unit = Inr (a, db')"
  shows "(a \<in> set (t_accounts db) \<and> db' = db) \<or>
     (find_account db (la_scope_key a) ty unit = None \<and> la_id a = uuid_supply db (uuid_next db) \<and>
      db' = db\<lparr>uuid_next := Suc (uuid_next db), t_accounts := t_accounts db @ [a],
        t_balances := t_balances db @ [\<lparr>wb_account_id = la_id a, wb_balance_ms = 0,
          wb_version = 0, wb_updated_at = db_now db\<rparr>]\<rparr>)"
    and "la_unit a = unit" and "la_account_type a = ty"
    and "la_scope_key a = fst (scope_of owner)"
proof -
  obtain sk ot where s: "scope_of owner = (sk, ot)" by fastforce
  have "((a \<in> set (t_accounts db) \<and> db' = db) \<or>
     (find_account db (la_scope_key a) ty unit = None \<and> la_id a = uuid_supply db (uuid_next db) \<and>
      db' = db\<lparr>uuid_next := Suc (uuid_next db), t_accounts := t_accounts db @ [a],
        t_balances := t_balances db @ [\<lparr>wb_account_id = la_id a, wb_balance_ms = 0,
          wb_version = 0, wb_updated_at = db_now db\<rparr>]\<rparr>)) \<and>
     la_unit a = unit \<and> la_account_type a = ty \<and> la_scope_key a = fst (scope_of owner)"
  proof (cases "find_account db sk ty unit")
    case None
    with assms s show ?thesis
      by (auto simp: ensure_account_def ensure_account_at_def uuid4_def Let_def split: if_splits)
  next
    case (Some x)
    with assms s have "x = a" "db' = db"
      by (auto simp: ensure_account_def ensure_account_at_def)
    with Some first_where_Some [of _ "t_accounts db" a] s show ?thesis
      by (auto simp: find_account_def)
  qed
  then show "(a \<in> set (t_accounts db) \<and> db' = db) \<or>
     (find_account db (la_scope_key a) ty unit = None \<and> la_id a = uuid_supply db (uuid_next db) \<and>
      db' = db\<lparr>uuid_next := Suc (uuid_next db), t_accounts := t_accounts db @ [a],
        t_balances := t_balances db @ [\<lparr>wb_account_id = la_id a, wb_balance_ms = 0,
          wb_version = 0, wb_updated_at = db_now db\<rparr>]\<rparr>)"
    and "la_unit a = unit" and "la_account_type a = ty"
    and "la_scope_key a = fst (scope_of owner)" by blast+
qed

lemma ensure_account_frame:
  assumes "ensure_account db owner ty unit = Inr (a, db')"
  shows "ledger_frame db db'" and "a \<in> set (t_accounts db')"
    and "set (t_accounts db) \<subseteq> set (t_accounts db')"
    and "uuid_next db' \<le> Suc (uuid_next db)" and "uuid_next db \<le> uuid_next db'"
    and "t_transactions db' = t_transactions db"
    and "b \<in> set (t_accounts db') \<Longrightarrow> b \<in> set (t_accounts db) \<or> b = a"
  using ensure_account_Inr(1) [OF assms] by (auto simp: ledger_frame_def ledger_mask_def)

lemma balance_of_append:
  "i \<notin> wb_account_id ` set (t_balances db) \<Longrightarrow>
   balance_of (db\<lparr>uuid_next := n, t_accounts := as,
      t_balances := t_balances db @ [\<lparr>wb_account_id = i, wb_balance_ms = 0, wb_version = v,
        wb_updated_at = u\<rparr>]\<rparr>) = balance_of db"
  by (rule ext) (auto simp: balance_of_def first_where_append first_where_Cons first_where_Nil
      dest: first_where_Some split: option.splits)

lemma ledger_ok_ensure_account:
  assumes ok: "ledger_ok db" and fresh: "uuids_fresh 1 db"
    and e: "ensure_account db owner ty unit = Inr (a, db')"
  shows "ledger_ok db'" and "balance_of db' = balance_of db"
proof -
  note L = ledger_okD [OF ok]
  have "ledger_ok db' \<and> balance_of db' = balance_of db"
    using ensure_account_Inr(1) [OF e]
  proof (elim disjE conjE)
    assume "db' = db" with ok show ?thesis by simp
  next
    assume none: "find_account db (la_scope_key a) ty unit = None"
      and i: "la_id a = uuid_supply db (uuid_next db)"
      and db': "db' = db\<lparr>uuid_next := Suc (uuid_next db), t_accounts := t_accounts db @ [a],
        t_balances := t_balances db @ [\<lparr>wb_account_id = la_id a, wb_balance_ms = 0,
          wb_version = 0, wb_updated_at = db_now db\<rparr>]\<rparr>"
    have new: "la_id a \<notin> la_id ` set (t_accounts db)"
      using fresh i by (simp add: uuids_fresh_def)
    then have newb: "la_id a \<notin> wb_account_id ` set (t_balances db)"
      using arg_cong [OF L(3), of set] by simp
    have bal: "balance_of db' = balance_of db"
      unfolding db' by (rule balance_of_append [OF newb])
    have "first_where (\<lambda>b. wb_account_id b = la_id a) (t_balances db) = None"
      using newb by force
    then have bal0: "balance_of db (la_id a) = 0"
      by (simp add: balance_of_def del: first_where_None)
    have "filter (\<lambda>p. lp_account_id p = la_id a) (t_postings db) = []"
      unfolding filter_empty_conv by (metis L(5) new)
    then have posted0: "posted db (la_id a) = 0" by (simp add: posted_def)
    have key: "account_key a \<notin> account_key ` set (t_accounts db)"
      using none ensure_account_Inr(2,3) [OF e]
      by (auto simp: find_account_def account_key_def)
    have posted': "posted db' i = posted db i" "transaction_total db' i = transaction_total db i"
      for i by (simp_all add: posted_def transaction_total_def db')
    have tabs: "t_accounts db' = t_accounts db @ [a]" "t_postings db' = t_postings db"
      "map wb_account_id (t_balances db') = map wb_account_id (t_balances db) @ [la_id a]"
      by (simp_all add: db')
    have "unit_total db' u = unit_total db u" for u
      unfolding unit_total_def bal tabs by (simp add: bal0)
    moreover have "la_owner_type x \<noteq> ''PLATFORM'' \<Longrightarrow> 0 \<le> balance_of db (la_id x)"
      if "x = a \<or> x \<in> set (t_accounts db)" for x
      using that bal0 L(9) by auto
    moreover have "balance_of db (la_id x) = posted db (la_id x)"
      if "x = a \<or> x \<in> set (t_accounts db)" for x
      using that bal0 posted0 L(6) by auto
    ultimately show ?thesis
      using L new key by (simp add: ledger_ok_def bal posted' tabs)
  qed
  then show "ledger_ok db'" and "balance_of db' = balance_of db" by simp_all
qed

lemma uuids_fresh_mono: "uuids_fresh n db \<Longrightarrow> m \<le> n \<Longrightarrow> uuids_fresh m db"
  by (auto simp: uuids_fresh_def distinct_map inj_on_def)

lemma uuids_fresh_step:
  assumes "uuids_fresh (Suc n) db" and "uuid_supply db' = uuid_supply db"
    and "uuid_next db \<le> uuid_next db'" and "uuid_next db' \<le> Suc (uuid_next db)"
    and "\<forall>a \<in> set (t_accounts db'). a \<in> set (t_accounts db) \<or>
      (la_id a = uuid_supply db (uuid_next db) \<and> uuid_next db' = Suc (uuid_next db))"
  shows "uuids_fresh n db'"
proof -
  have inj: "inj_on (uuid_supply db) {uuid_next db ..< uuid_next db + Suc n}"
    using assms(1) by (simp add: uuids_fresh_def distinct_map atLeastLessThanSuc)
  from assms(3,4) have step: "uuid_next db' = uuid_next db \<or> uuid_next db' = Suc (uuid_next db)"
    by auto
  have "inj_on (uuid_supply db) {uuid_next db' ..< uuid_next db' + n}"
    using inj by (rule inj_on_subset) (use step in auto)
  moreover have "uuid_supply db (uuid_next db' + k) \<notin> la_id ` set (t_accounts db')" if "k < n" for k
  proof
    assume "uuid_supply db (uuid_next db' + k) \<in> la_id ` set (t_accounts db')"
    then obtain a where a: "a \<in> set (t_accounts db')" "la_id a = uuid_supply db (uuid_next db' + k)"
      by force
    obtain m where m: "uuid_next db' + k = uuid_next db + m" "m < Suc n"
    proof (cases "uuid_next db' = uuid_next db")
      case True
      show ?thesis by (rule that [of k]) (use True \<open>k < n\<close> in simp_all)
    next
      case False
      show ?thesis by (rule that [of "Suc k"]) (use False step \<open>k < n\<close> in simp_all)
    qed
    from assms(1) m have "uuid_supply db (uuid_next db + m) \<notin> la_id ` set (t_accounts db)"
      by (simp add: uuids_fresh_def)
    with a m(1) assms(5) have eq: "uuid_supply db (uuid_next db + m) = uuid_supply db (uuid_next db)"
      "uuid_next db' = Suc (uuid_next db)" by force+
    with m(1) have "m \<noteq> 0" by auto
    with inj_onD [OF inj eq(1)] m(2) show False by simp
  qed
  ultimately show ?thesis
    by (simp add: uuids_fresh_def assms(2) distinct_map)
qed

lemma uuids_fresh_ensure_account:
  assumes "uuids_fresh (Suc n) db" and "ensure_account db owner ty unit = Inr (a, db')"
  shows "uuids_fresh n db'"
  using ensure_account_Inr(1) [OF assms(2)]
  by (intro uuids_fresh_step [OF assms(1)]) auto

lemma uuids_fresh_transfer:
  assumes "uuids_fresh (Suc n) db" and "post_transfer_at db0 db tr now = Inr (t, b, db')"
    and "distinct (map wb_account_id (t_balances db))"
  shows "uuids_fresh n db'"
  using post_transfer_frame [OF assms(2,3)]
  by (intro uuids_fresh_step [OF assms(1)]) (simp_all add: ledger_frame_tables)

section \<open>The contract of an account book\<close>

text \<open>
  What the rest of the program needs of the ledger: an operation moves its amount from one
  account to another or is a replay, it keeps the books in order, and no guarded account goes
  below zero. From it follow conservation and the absence of debt for every sequence.
\<close>

locale account_book =
  fixes balance :: "'s \<Rightarrow> 'a \<Rightarrow> int"
    and accounts :: "'s \<Rightarrow> 'a set"
    and guarded :: "'s \<Rightarrow> 'a \<Rightarrow> bool"
    and inv :: "'s \<Rightarrow> bool"
    and valid :: "'s \<Rightarrow> 'op \<Rightarrow> bool"
    and exec :: "'s \<Rightarrow> 'op \<Rightarrow> error + 's"
    and src :: "'op \<Rightarrow> 'a"
    and dst :: "'op \<Rightarrow> 'a"
    and amount :: "'op \<Rightarrow> int"
  assumes finite_accounts: "finite (accounts s)"
    and exec_inv: "inv s \<Longrightarrow> valid s op \<Longrightarrow> exec s op = Inr s' \<Longrightarrow> inv s'"
    and exec_accounts: "inv s \<Longrightarrow> exec s op = Inr s' \<Longrightarrow> accounts s' = accounts s"
    and exec_valid: "inv s \<Longrightarrow> exec s op = Inr s' \<Longrightarrow> valid s op' \<Longrightarrow> valid s' op'"
    and exec_effect: "inv s \<Longrightarrow> valid s op \<Longrightarrow> exec s op = Inr s' \<Longrightarrow>
      balance s' = balance s \<or>
      (0 < amount op \<and> src op \<noteq> dst op \<and> src op \<in> accounts s \<and> dst op \<in> accounts s \<and>
       balance s' = (balance s)(src op := balance s (src op) - amount op,
                                dst op := balance s (dst op) + amount op))"
    and guarded_nonneg: "inv s \<Longrightarrow> a \<in> accounts s \<Longrightarrow> guarded s a \<Longrightarrow> 0 \<le> balance s a"
begin

lemma exec_conserves:
  assumes "inv s" and "valid s op" and "exec s op = Inr s'"
  shows "(\<Sum>a \<in> accounts s'. balance s' a) = (\<Sum>a \<in> accounts s. balance s a)"
  using exec_effect [OF assms]
proof (elim disjE conjE)
  assume "balance s' = balance s"
  then show ?thesis by (simp add: exec_accounts [OF assms(1,3)])
next
  assume ne: "src op \<noteq> dst op" and mem: "src op \<in> accounts s" "dst op \<in> accounts s"
    and eq: "balance s' = (balance s)(src op := balance s (src op) - amount op,
                                      dst op := balance s (dst op) + amount op)"
  have fin: "finite (accounts s)" by (rule finite_accounts)
  have delta: "balance s' a = balance s a + (if a = dst op then amount op else 0) -
      (if a = src op then amount op else 0)" for a
    using ne by (simp add: eq)
  show ?thesis
    unfolding exec_accounts [OF assms(1,3)] delta
    using fin mem by (simp add: sum.distrib sum_subtractf sum.delta)
qed

lemma exec_all_sound:
  assumes "inv s" and "\<forall>op \<in> set ops. valid s op" and "run_all exec s ops = Inr s'"
  shows "inv s' \<and> accounts s' = accounts s \<and>
    (\<Sum>a \<in> accounts s'. balance s' a) = (\<Sum>a \<in> accounts s. balance s a)"
  using assms
proof (induction ops arbitrary: s)
  case Nil
  then show ?case by simp
next
  case (Cons op ops)
  from Cons.prems(3) obtain s1 where s1: "exec s op = Inr s1" "run_all exec s1 ops = Inr s'"
    by (auto simp: and_then_Inr_iff)
  have "valid s op" using Cons.prems(2) by simp
  moreover have "\<forall>op' \<in> set ops. valid s1 op'"
    using Cons.prems(2) exec_valid [OF Cons.prems(1) s1(1)] by simp
  ultimately show ?case
    using Cons.IH [OF exec_inv [OF Cons.prems(1) _ s1(1)] _ s1(2)]
      exec_conserves [OF Cons.prems(1) _ s1(1)] exec_accounts [OF Cons.prems(1) s1(1)] by auto
qed

lemma exec_all_no_debt:
  assumes "inv s" and "\<forall>op \<in> set ops. valid s op" and "run_all exec s ops = Inr s'"
    and "a \<in> accounts s" and "guarded s' a"
  shows "0 \<le> balance s' a"
  using exec_all_sound [OF assms(1-3)] guarded_nonneg assms(4,5) by simp

end

text \<open>The operations of the model: a transfer at a time, between accounts that are rows.\<close>

definition book_accounts :: "database \<Rightarrow> uuid set" where
  "book_accounts db = la_id ` set (t_accounts db)"

definition user_account :: "database \<Rightarrow> uuid \<Rightarrow> bool" where
  "user_account db i \<longleftrightarrow> (\<exists>a \<in> set (t_accounts db). la_id a = i \<and> la_owner_type a \<noteq> ''PLATFORM'')"

definition valid_transfer :: "database \<Rightarrow> transfer \<times> time \<Rightarrow> bool" where
  "valid_transfer db op \<longleftrightarrow> tr_debit (fst op) \<in> set (t_accounts db) \<and>
     tr_credit (fst op) \<in> set (t_accounts db)"

definition exec_transfer :: "database \<Rightarrow> transfer \<times> time \<Rightarrow> error + database" where
  "exec_transfer db op =
     and_then (post_transfer db (fst op) (snd op)) (\<lambda>(_, _, db'). Inr db')"

lemma exec_transferE:
  assumes "exec_transfer db op = Inr db'"
  obtains t b where "post_transfer_at db db (fst op) (snd op) = Inr (t, b, db')"
  using assms by (auto simp: exec_transfer_def post_transfer_def and_then_Inr_iff)

interpretation ledger_book: account_book balance_of book_accounts user_account ledger_ok
  valid_transfer exec_transfer "\<lambda>op. la_id (tr_debit (fst op))" "\<lambda>op. la_id (tr_credit (fst op))"
  "\<lambda>op. tr_amount_ms (fst op)"
proof
  fix s s' :: database and op op' :: "transfer \<times> time" and a
  show "finite (book_accounts s)" by (simp add: book_accounts_def)
  show "ledger_ok s'" if "ledger_ok s" "valid_transfer s op" "exec_transfer s op = Inr s'"
    using that by (elim exec_transferE) (auto simp: valid_transfer_def intro: ledger_ok_transfer)
  show "book_accounts s' = book_accounts s" if "ledger_ok s" "exec_transfer s op = Inr s'"
    using that(2)
    by (rule exec_transferE)
      (simp add: book_accounts_def post_transfer_frame(2) [OF _ ledger_okD(4) [OF that(1)]])
  show "valid_transfer s' op'"
    if "ledger_ok s" "exec_transfer s op = Inr s'" "valid_transfer s op'"
    using that(2,3)
    by (elim exec_transferE)
      (simp add: valid_transfer_def post_transfer_frame(2) [OF _ ledger_okD(4) [OF that(1)]])
  show "0 \<le> balance_of s a" if "ledger_ok s" "a \<in> book_accounts s" "user_account s a"
    using that ledger_okD(9) [OF that(1)] by (auto simp: user_account_def)
  show "balance_of s' = balance_of s \<or>
      (0 < tr_amount_ms (fst op) \<and> la_id (tr_debit (fst op)) \<noteq> la_id (tr_credit (fst op)) \<and>
       la_id (tr_debit (fst op)) \<in> book_accounts s \<and> la_id (tr_credit (fst op)) \<in> book_accounts s \<and>
       balance_of s' = (balance_of s)
         (la_id (tr_debit (fst op)) := balance_of s (la_id (tr_debit (fst op))) - tr_amount_ms (fst op),
          la_id (tr_credit (fst op)) := balance_of s (la_id (tr_credit (fst op))) + tr_amount_ms (fst op)))"
    if "ledger_ok s" "valid_transfer s op" "exec_transfer s op = Inr s'"
    using that(3)
  proof (rule exec_transferE)
    fix t b
    assume P: "post_transfer_at s s (fst op) (snd op) = Inr (t, b, s')"
    show ?thesis
    proof (cases b)
      case True
      with P have "post_transfer_at s s (fst op) (snd op) = Inr (t, True, s')" by simp
      note N = post_transfer_at_new [OF this ledger_okD(4) [OF that(1)]]
      show ?thesis using N(1,4,7) that(2) by (simp add: book_accounts_def valid_transfer_def)
    next
      case False
      with P have "post_transfer_at s s (fst op) (snd op) = Inr (t, False, s')" by simp
      from post_transfer_at_replay [OF this] show ?thesis by simp
    qed
  qed
qed

text \<open>
  C4. The books stay in order and nothing is created or lost: after any sequence of transfers
  between existing accounts, each balance still is the sum of its postings, every transaction
  and every unit balances to zero, no user account is negative, and the sum of all balances
  is what it was.
\<close>

theorem transfers_keep_books:
  assumes "ledger_ok db" and "\<forall>op \<in> set ops. valid_transfer db op"
    and "run_all exec_transfer db ops = Inr db'"
  shows "ledger_ok db' \<and>
    (\<Sum>a \<in> book_accounts db'. balance_of db' a) = (\<Sum>a \<in> book_accounts db. balance_of db a) \<and>
    (\<forall>a \<in> book_accounts db. user_account db' a \<longrightarrow> 0 \<le> balance_of db' a)"
  using ledger_book.exec_all_sound [OF assms] ledger_book.exec_all_no_debt [OF assms] by blast

definition sample_transfer :: "int \<Rightarrow> transfer" where
  "sample_transfer amount = \<lparr>tr_tx_type = ''GRANT'', tr_idempotency_key = ''grant-1'',
     tr_reference_type = ''test_grant'', tr_reference_id = ''grant-1'', tr_unit = ''FAST_MS'',
     tr_debit = sample_account 111 None ''PLATFORM_ISSUED'',
     tr_credit = sample_account 112 (Some 101) ''USER_AVAILABLE'',
     tr_amount_ms = amount, tr_reason = None\<rparr>"

lemma ledger_ok_sample: "ledger_ok (sample_bank jobs)"
proof -
  have tables: "t_accounts (sample_bank jobs) = sample_accounts"
    "t_balances (sample_bank jobs) = sample_wallets" "t_postings (sample_bank jobs) = []"
    by (simp_all add: sample_bank_def sample_db_def empty_database_def)
  have ids: "map la_id sample_accounts = [111, 112, 113]"
    by (simp add: sample_accounts_def sample_account_def)
  have zero: "balance_of (sample_bank jobs) i = 0" for i
    by (auto simp: balance_of_def tables sample_wallets_def sample_accounts_def first_where_def)
  have total: "unit_total (sample_bank jobs) u = 0" for u
    by (simp add: unit_total_def tables zero sample_accounts_def)
  have "distinct (map account_key sample_accounts)"
    by (simp add: sample_accounts_def sample_account_def account_key_def)
  then show ?thesis
    using ids by (simp add: ledger_ok_def tables zero total posted_def transaction_total_def)
      (simp add: sample_wallets_def ids comp_def)
qed

theorem transfers_keep_books_witness:
  "\<exists>db'. run_all exec_transfer (sample_bank []) [(sample_transfer 500, 7), (sample_transfer 500, 9)]
      = Inr db' \<and> ledger_ok db' \<and> balance_of db' 112 = 500"
proof -
  let ?ops = "[(sample_transfer 500, 7), (sample_transfer 500, 9)]"
  let ?r = "run_all exec_transfer (sample_bank []) ?ops"
  have r: "is_ok ?r \<and> balance_of (projr ?r) 112 = 500" by code_simp
  then obtain db' where db': "?r = Inr db'" by (cases ?r) auto
  have "\<forall>op \<in> set ?ops. valid_transfer (sample_bank []) op"
    by (simp add: valid_transfer_def sample_transfer_def sample_bank_def sample_accounts_def)
  from transfers_keep_books [OF ledger_ok_sample this db'] r db' show ?thesis by simp
qed

section \<open>Replays and races\<close>

lemma find_transaction_append:
  "t_transactions db = t_transactions db0 @ new \<Longrightarrow>
   find_transaction db tr = (case find_transaction db0 tr of
     None \<Rightarrow> first_where (same_action tr) new | Some t \<Rightarrow> Some t)"
  by (simp add: find_transaction_def first_where_append)

lemma transaction_unique_iff:
  assumes "lt_idempotency_key t = tr_idempotency_key tr" and "lt_tx_type t = tr_tx_type tr"
    and "lt_reference_type t = tr_reference_type tr" and "lt_reference_id t = tr_reference_id tr"
  shows "transaction_unique db t \<longleftrightarrow> find_transaction db tr = None"
  by (auto simp: transaction_unique_def find_transaction_def same_action_def assms)

text \<open>
  The optimistic lookup of \<open>post_transfer\<close> is safe under races: whatever transactions
  others commit between the lookup and the insert (the ledger only grows), the call gives
  what it would have given with an up-to-date lookup, because the unique constraints refuse
  exactly the rows the lookup would have found.
\<close>

lemma post_transfer_race:
  assumes "t_transactions db = t_transactions db0 @ new"
  shows "post_transfer_at db0 db tr now = post_transfer db tr now"
proof (cases "find_transaction db0 tr")
  case (Some t)
  with find_transaction_append [OF assms, of tr] have "find_transaction db tr = Some t" by simp
  with Some show ?thesis by (simp add: post_transfer_def post_transfer_at_def)
next
  case None
  show ?thesis
  proof (cases "find_transaction db tr")
    case None
    with \<open>find_transaction db0 tr = None\<close> show ?thesis
      by (simp add: post_transfer_def post_transfer_at_def)
  next
    case (Some t)
    with \<open>find_transaction db0 tr = None\<close> show ?thesis
      by (simp add: post_transfer_def post_transfer_at_def uuid4_def Let_def
          transaction_unique_iff [where tr = tr])
  qed
qed

text \<open>A transfer made is found by the next call with its key or its business action.\<close>

lemma post_transfer_race_example:
  "\<exists>t db1. post_transfer (sample_bank []) (sample_transfer 500) 7 = Inr (t, True, db1) \<and>
     post_transfer_at (sample_bank []) db1 (sample_transfer 500) 8 = Inr (t, False, db1)"
proof -
  let ?r = "post_transfer (sample_bank []) (sample_transfer 500) 7"
  have "is_ok ?r \<and> fst (snd (projr ?r)) \<and>
      (let db1 = snd (snd (projr ?r)); r2 = post_transfer db1 (sample_transfer 500) 8 in
       is_ok r2 \<and> fst (projr r2) = fst (projr ?r) \<and> \<not> fst (snd (projr r2)))"
    by code_simp
  then obtain t db1 db2 where r: "?r = Inr (t, True, db1)"
    and r2: "post_transfer db1 (sample_transfer 500) 8 = Inr (t, False, db2)"
    by (cases ?r; cases "post_transfer (snd (snd (projr ?r))) (sample_transfer 500) 8")
      (auto simp: Let_def)
  have "db2 = db1"
    using post_transfer_at_replay [of db1 db1 "sample_transfer 500" 8] r2
    by (simp add: post_transfer_def)
  moreover have "t_transactions db1 = t_transactions (sample_bank []) @ t_transactions db1"
    by (simp add: sample_bank_def sample_db_def empty_database_def)
  from post_transfer_race [OF this]
  have "post_transfer_at (sample_bank []) db1 (sample_transfer 500) 8 =
      post_transfer db1 (sample_transfer 500) 8" .
  ultimately show ?thesis using r r2 by auto
qed

lemma post_transfer_found:
  assumes "post_transfer db tr now = Inr (t, True, db')"
  shows "find_transaction db tr = None" and "t_transactions db' = t_transactions db @ [t]"
    and "lt_transfer t = transfer_signature_of (tr_debit tr) (tr_credit tr) (tr_amount_ms tr)
           (tr_reason tr)"
    and "lt_tx_type t = tr_tx_type tr" "lt_reference_type t = tr_reference_type tr"
      "lt_reference_id t = tr_reference_id tr" "lt_unit t = tr_unit tr"
      "lt_idempotency_key t = tr_idempotency_key tr"
    and "0 < tr_amount_ms tr" "la_unit (tr_debit tr) = tr_unit tr" "la_unit (tr_credit tr) = tr_unit tr"
proof -
  have cb: "change_balance d a x n w = Inr d' \<Longrightarrow> t_transactions d' = t_transactions d" for d a x n w d'
    by (auto simp: change_balance_def Let_def split: if_splits)
  show "find_transaction db tr = None" "t_transactions db' = t_transactions db @ [t]"
    "lt_transfer t = transfer_signature_of (tr_debit tr) (tr_credit tr) (tr_amount_ms tr) (tr_reason tr)"
    "lt_tx_type t = tr_tx_type tr" "lt_reference_type t = tr_reference_type tr"
    "lt_reference_id t = tr_reference_id tr" "lt_unit t = tr_unit tr"
    "lt_idempotency_key t = tr_idempotency_key tr"
    "0 < tr_amount_ms tr" "la_unit (tr_debit tr) = tr_unit tr" "la_unit (tr_credit tr) = tr_unit tr"
    using assms
    by (auto simp: post_transfer_def post_transfer_at_def Let_def uuid4_def and_then_Inr_iff
        dest!: cb split: option.splits if_splits)
qed

text \<open>
  C6. Exactly once: repeating a transfer returns the transaction already made and changes
  nothing, and asking for another amount under the same key is refused as a conflict.
\<close>

theorem post_transfer_once:
  assumes "post_transfer db tr now = Inr (t, True, db')"
  shows "post_transfer db' tr now' = Inr (t, False, db') \<and>
    (0 < a \<and> a \<noteq> tr_amount_ms tr \<longrightarrow>
     post_transfer db' (tr\<lparr>tr_amount_ms := a\<rparr>) now' =
       Inl (ApiError 409 ''LEDGER_IDEMPOTENCY_CONFLICT''))"
proof -
  note F = post_transfer_found [OF assms]
  have same: "same_action tr t" by (simp add: same_action_def F)
  have "find_transaction db' tr = Some t"
    using F(1) same by (simp add: find_transaction_append [OF F(2)] first_where_Cons)
  moreover have "same_action (tr\<lparr>tr_amount_ms := a\<rparr>) = same_action tr"
    by (simp add: fun_eq_iff same_action_def)
  then have "find_transaction db' (tr\<lparr>tr_amount_ms := a\<rparr>) = find_transaction db' tr"
    by (simp add: find_transaction_def)
  ultimately show ?thesis
    using F by (auto simp: post_transfer_def post_transfer_at_def assert_same_transfer_def
        transfer_signature_of_def)
qed

theorem post_transfer_once_witness:
  "\<exists>t db1. post_transfer (sample_bank []) (sample_transfer 500) 7 = Inr (t, True, db1) \<and>
     post_transfer db1 (sample_transfer 500) 8 = Inr (t, False, db1) \<and>
     post_transfer db1 (sample_transfer 501) 8 = Inl (ApiError 409 ''LEDGER_IDEMPOTENCY_CONFLICT'')"
proof -
  let ?r = "post_transfer (sample_bank []) (sample_transfer 500) 7"
  have "is_ok ?r \<and> fst (snd (projr ?r))" by code_simp
  then obtain t db1 where r: "?r = Inr (t, True, db1)" by (cases ?r) auto
  have "(sample_transfer 500)\<lparr>tr_amount_ms := 501\<rparr> = sample_transfer 501"
    and "tr_amount_ms (sample_transfer 500) = 500"
    by (simp_all add: sample_transfer_def)
  with post_transfer_once [OF r, of 8 501] r show ?thesis by simp
qed

section \<open>Quotes, batches, wallets\<close>

lemma ceil_div:
  fixes x d :: int
  assumes "0 < d"
  shows "x \<le> (x + d - 1) div d * d" and "((x + d - 1) div d - 1) * d < x"
proof -
  have eq: "(x + d - 1) div d * d = x + d - 1 - (x + d - 1) mod d"
    by (simp add: minus_mod_eq_div_mult)
  have "0 \<le> (x + d - 1) mod d" and "(x + d - 1) mod d < d" using assms by simp_all
  then show "x \<le> (x + d - 1) div d * d" and "((x + d - 1) div d - 1) * d < x"
    unfolding left_diff_distrib eq by linarith+
qed

lemma catalog_keeps_quotes: "t_quotes (ensure_default_catalog db) = t_quotes db"
proof -
  have tier: "t_quotes (add_tier x db) = t_quotes db" for x db
    by (cases x) (simp add: add_tier_def)
  have price: "t_quotes (add_price x db) = t_quotes db" for x db
    by (cases x) (simp add: add_price_def Let_def uuid4_def)
  show ?thesis by (simp add: ensure_default_catalog_def tier price)
qed

text \<open>
  C7. A quote reserves the exact price rounded up: the smallest whole number of
  milliseconds that covers duration times variants times the price ratio, and it is open,
  in the tier's billing unit, for fifteen minutes.
\<close>

theorem create_quote_price:
  assumes "create_quote db user shot tier_code resolution variant_count now = Inr (q, db')"
    and "\<forall>p \<in> set (t_prices (ensure_default_catalog db)). price_checks p"
  shows "\<exists>p \<in> set (t_prices (ensure_default_catalog db)).
    qu_price_version_id q = pv_id p \<and> price_applies tier_code resolution now p \<and>
    (\<forall>p' \<in> set (t_prices (ensure_default_catalog db)).
       price_applies tier_code resolution now p' \<longrightarrow> pv_version p' \<le> pv_version p) \<and>
    qu_duration_ms q * variant_count * pv_charge_numerator p
      \<le> qu_reserved_ms q * pv_charge_denominator p \<and>
    (qu_reserved_ms q - 1) * pv_charge_denominator p
      < qu_duration_ms q * variant_count * pv_charge_numerator p \<and>
    qu_status q = QUOTE_OPEN \<and> qu_expires_at q = now + minutes 15 \<and>
    t_quotes db' = t_quotes db @ [q]"
proof -
  let ?db = "ensure_default_catalog db"
  let ?ps = "select_where (price_applies tier_code resolution now) (t_prices ?db)"
  obtain tier price where tp: "get_tier ?db tier_code = Some tier" "latest_price ?ps = Some price"
    and q: "qu_price_version_id q = pv_id price" "qu_status q = QUOTE_OPEN"
      "qu_expires_at q = now + minutes 15"
      "qu_duration_ms q = sh_duration_seconds shot * 1000"
      "qu_reserved_ms q = quoted_ms (qu_duration_ms q) variant_count price"
      "t_quotes db' = t_quotes ?db @ [q]"
    using assms(1)
    by (auto simp: create_quote_def Let_def uuid4_def split: option.splits if_splits)
  obtain rest where sorted: "sort_key (\<lambda>p. - pv_version p) ?ps = price # rest"
    using tp(2) by (auto simp: latest_price_def split: list.splits)
  have "sorted (map (\<lambda>p. - pv_version p) (price # rest))"
    using sorted by (metis sorted_sort_key)
  then have max: "pv_version p' \<le> pv_version price" if "p' \<in> set ?ps" for p'
    using that arg_cong [OF sorted, of set] by auto
  have mem: "price \<in> set ?ps"
    using arg_cong [OF sorted, of set] by auto
  then have price: "price \<in> set (t_prices ?db)" "price_applies tier_code resolution now price"
    by (simp_all add: select_where_def)
  with assms(2) have den: "0 < pv_charge_denominator price" by (simp add: price_checks_def)
  let ?x = "qu_duration_ms q * variant_count * pv_charge_numerator price"
  let ?d = "pv_charge_denominator price"
  have r: "qu_reserved_ms q = (?x + ?d - 1) div ?d" using q(5) by (simp add: quoted_ms_def)
  have "?x \<le> qu_reserved_ms q * ?d" and "(qu_reserved_ms q - 1) * ?d < ?x"
    unfolding r by (rule ceil_div [OF den])+
  moreover have "\<forall>p' \<in> set (t_prices ?db).
      price_applies tier_code resolution now p' \<longrightarrow> pv_version p' \<le> pv_version price"
    using max by (simp add: select_where_def)
  ultimately show ?thesis
    using price q(1,2,3,6) by (intro bexI [of _ price]) (simp_all add: catalog_keeps_quotes)
qed

theorem create_quote_price_witness:
  "\<exists>q db'. create_quote (sample_db [] []) sample_user sample_shot ''FAST'' ''720P'' 1 5 = Inr (q, db') \<and>
     (qu_reserved_ms q - 1) * 1 < 5000 \<and> 5000 \<le> qu_reserved_ms q"
proof -
  let ?r = "create_quote (sample_db [] []) sample_user sample_shot ''FAST'' ''720P'' 1 5"
  have "is_ok ?r \<and> qu_duration_ms (fst (projr ?r)) = 5000" by code_simp
  then obtain q db' where r: "?r = Inr (q, db')" and d: "qu_duration_ms q = 5000"
    by (cases ?r) auto
  have "list_all price_checks (t_prices (ensure_default_catalog (sample_db [] [])))"
    and one: "list_all (\<lambda>p. pv_charge_numerator p = 1 \<and> pv_charge_denominator p = 1)
      (t_prices (ensure_default_catalog (sample_db [] [])))"
    by code_simp+
  then have "\<forall>p \<in> set (t_prices (ensure_default_catalog (sample_db [] []))). price_checks p"
    by (simp add: list_all_iff)
  from create_quote_price [OF r this] one d r show ?thesis by (auto simp: list_all_iff)
qed

text \<open>
  The status of a batch says what its jobs did: SUCCEEDED exactly when all succeeded,
  FAILED_FINAL exactly when all ended and none succeeded, PARTIAL exactly when all ended and
  some but not all succeeded, RUNNING otherwise.
\<close>

lemma batch_status_meaning:
  assumes "statuses \<noteq> []"
  shows "(batch_status_of statuses = BATCH_SUCCEEDED \<longleftrightarrow> (\<forall>s \<in> set statuses. s = JOB_SUCCEEDED)) \<and>
    (batch_status_of statuses = BATCH_FAILED_FINAL \<longleftrightarrow>
       (\<forall>s \<in> set statuses. s \<in> JOB_TERMINAL_STATUSES \<and> s \<noteq> JOB_SUCCEEDED)) \<and>
    (batch_status_of statuses = BATCH_PARTIAL \<longleftrightarrow>
       set statuses \<subseteq> JOB_TERMINAL_STATUSES \<and> JOB_SUCCEEDED \<in> set statuses \<and>
       (\<exists>s \<in> set statuses. s \<noteq> JOB_SUCCEEDED)) \<and>
    (batch_status_of statuses = BATCH_RUNNING \<longleftrightarrow> \<not> set statuses \<subseteq> JOB_TERMINAL_STATUSES)"
proof -
  have len: "length (filter (\<lambda>s. s = JOB_SUCCEEDED) statuses) = length statuses \<longleftrightarrow>
      (\<forall>s \<in> set statuses. s = JOB_SUCCEEDED)"
    using length_filter_less [of _ statuses "\<lambda>s. s = JOB_SUCCEEDED"] by fastforce
  have none: "filter (\<lambda>s. s = JOB_SUCCEEDED) statuses = [] \<longleftrightarrow> JOB_SUCCEEDED \<notin> set statuses"
    by (auto simp: filter_empty_conv)
  have SUCC: "JOB_SUCCEEDED \<in> JOB_TERMINAL_STATUSES" by (simp add: JOB_TERMINAL_STATUSES_def)
  from assms obtain s0 where s0: "s0 \<in> set statuses" by (cases statuses) auto
  consider (all) "\<forall>s \<in> set statuses. s = JOB_SUCCEEDED"
    | (none) "set statuses \<subseteq> JOB_TERMINAL_STATUSES" "JOB_SUCCEEDED \<notin> set statuses"
    | (some) "set statuses \<subseteq> JOB_TERMINAL_STATUSES" "JOB_SUCCEEDED \<in> set statuses"
        "\<exists>s \<in> set statuses. s \<noteq> JOB_SUCCEEDED"
    | (active) "\<not> set statuses \<subseteq> JOB_TERMINAL_STATUSES"
    by blast
  then show ?thesis
  proof cases
    case all
    then have "batch_status_of statuses = BATCH_SUCCEEDED"
      using assms SUCC len by (auto simp: batch_status_of_def)
    with all s0 SUCC show ?thesis by auto
  next
    case none
    then have "batch_status_of statuses = BATCH_FAILED_FINAL"
      using assms \<open>filter _ statuses = [] \<longleftrightarrow> _\<close> by (auto simp: batch_status_of_def)
    moreover have "s0 \<noteq> JOB_SUCCEEDED" using none s0 by blast
    ultimately show ?thesis using none s0 by auto
  next
    case some
    then have "batch_status_of statuses = BATCH_PARTIAL"
      using assms len \<open>filter _ statuses = [] \<longleftrightarrow> _\<close> by (auto simp: batch_status_of_def Let_def)
    with some show ?thesis by auto
  next
    case active
    then have "batch_status_of statuses = BATCH_RUNNING" by (auto simp: batch_status_of_def)
    moreover from active SUCC obtain s where "s \<in> set statuses" "s \<notin> JOB_TERMINAL_STATUSES" "s \<noteq> JOB_SUCCEEDED"
      by auto
    ultimately show ?thesis using active by auto
  qed
qed

lemma batch_status_example:
  "batch_status_of [JOB_SUCCEEDED, JOB_CANCELLED] = BATCH_PARTIAL"
  using batch_status_meaning [of "[JOB_SUCCEEDED, JOB_CANCELLED]"]
  by (simp add: JOB_TERMINAL_STATUSES_def)

end
