(* ===== verification/Reservations.thy ===== *)
theory Reservations
  imports LedgerInv
begin

text \<open>
  The life of a reservation: the money a user holds in reserve is exactly what the unsettled
  jobs ask for, settling or releasing one moves its amount once and cannot fail, and whoever
  comes second with an old view of the job moves nothing.
\<close>

section \<open>Balances by account key\<close>

definition account_balance :: "database \<Rightarrow> uuid option \<Rightarrow> string \<Rightarrow> string \<Rightarrow> int" where
  "account_balance db owner ty unit =
     (case find_account db (fst (scope_of owner)) ty unit of
        None \<Rightarrow> 0 | Some a \<Rightarrow> balance_of db (la_id a))"

lemma scope_of_inj [simp]: "fst (scope_of a) = fst (scope_of b) \<longleftrightarrow> a = b"
  by (cases a; cases b) (simp_all add: key_simps)

lemma account_types_distinct [simp]:
  "USER_AVAILABLE \<noteq> USER_RESERVED" "USER_RESERVED \<noteq> USER_AVAILABLE"
  "PLATFORM_CONSUMED \<noteq> USER_RESERVED" "USER_RESERVED \<noteq> PLATFORM_CONSUMED"
  "PLATFORM_CONSUMED \<noteq> USER_AVAILABLE" "USER_AVAILABLE \<noteq> PLATFORM_CONSUMED"
  by (simp_all add: account_types)

lemma find_accountD:
  assumes "find_account db sk ty unit = Some a"
  shows "a \<in> set (t_accounts db)" "account_key a = (sk, ty, unit)"
  using first_where_Some [of _ "t_accounts db" a] assms
  by (auto simp: find_account_def account_key_def)

lemma find_account_key:
  "find_account db sk ty unit = first_where (\<lambda>a. account_key a = (sk, ty, unit)) (t_accounts db)"
  by (simp add: find_account_def account_key_def)

lemma ensure_account_find:
  assumes "ensure_account db owner ty unit = Inr (a, db')"
  shows "find_account db' (fst (scope_of owner)) ty unit = Some a"
    and "(sk, ty', unit') \<noteq> (fst (scope_of owner), ty, unit) \<Longrightarrow>
      find_account db' sk ty' unit' = find_account db sk ty' unit'"
    and "find_account db sk ty' unit' = Some b \<Longrightarrow> find_account db' sk ty' unit' = Some b"
proof -
  obtain sc ot where s: "scope_of owner = (sc, ot)" by fastforce
  note E = ensure_account_Inr(2-4) [OF assms]
  have key: "account_key a = (sc, ty, unit)" using E s by (simp add: account_key_def)
  have "find_account db' sc ty unit = Some a \<and>
    (\<forall>k. k \<noteq> (sc, ty, unit) \<longrightarrow>
       first_where (\<lambda>x. account_key x = k) (t_accounts db') =
       first_where (\<lambda>x. account_key x = k) (t_accounts db)) \<and>
    (find_account db sk ty' unit' = Some b \<longrightarrow> find_account db' sk ty' unit' = Some b)"
  proof (cases "find_account db sc ty unit")
    case (Some x)
    with assms s show ?thesis by (auto simp: ensure_account_def ensure_account_at_def)
  next
    case None
    with assms s have accounts: "t_accounts db' = t_accounts db @ [a]"
      by (auto simp: ensure_account_def ensure_account_at_def uuid4_def Let_def split: if_splits)
    with None key show ?thesis
      unfolding find_account_key accounts
      by (auto simp: first_where_append first_where_Cons first_where_Nil split: option.splits
          simp del: first_where_None)
  qed
  then show "find_account db' (fst (scope_of owner)) ty unit = Some a"
    and "(sk, ty', unit') \<noteq> (fst (scope_of owner), ty, unit) \<Longrightarrow>
      find_account db' sk ty' unit' = find_account db sk ty' unit'"
    and "find_account db sk ty' unit' = Some b \<Longrightarrow> find_account db' sk ty' unit' = Some b"
    unfolding find_account_key [of _ sk] using s by auto
qed

lemma ensure_account_succeeds:
  assumes "ty \<in> {USER_AVAILABLE, USER_RESERVED, PLATFORM_ISSUED, PLATFORM_CONSUMED}"
  obtains a db' where "ensure_account db owner ty unit = Inr (a, db')"
proof -
  have "is_ok (ensure_account db owner ty unit)"
    using assms by (cases owner)
      (auto simp: ensure_account_def ensure_account_at_def uuid4_def Let_def account_checks_def
        account_types simp del: first_where_None split: option.splits)
  with that show ?thesis by (cases "ensure_account db owner ty unit") auto
qed

lemma account_balance_ensure:
  assumes "ledger_ok db" and "uuids_fresh 1 db" and "ensure_account db owner ty unit = Inr (a, db')"
  shows "account_balance db' = account_balance db"
proof (intro ext)
  fix o' ty' unit'
  note bal = ledger_ok_ensure_account(2) [OF assms]
  show "account_balance db' o' ty' unit' = account_balance db o' ty' unit'"
  proof (cases "(fst (scope_of o'), ty', unit') = (fst (scope_of owner), ty, unit)")
    case False
    then show ?thesis
      using ensure_account_find(2) [OF assms(3) False]
      by (simp add: account_balance_def bal split: option.split)
  next
    case True
    show ?thesis
    proof (cases "find_account db (fst (scope_of owner)) ty unit")
      case None
      have new: "la_id a = uuid_supply db (uuid_next db)"
        using ensure_account_Inr(1) [OF assms(3)] ensure_account_Inr(2-4) [OF assms(3)] None
        by (auto simp: find_account_def)
      then have "la_id a \<notin> la_id ` set (t_accounts db)"
        using assms(2) by (simp add: uuids_fresh_def)
      then have "la_id a \<notin> wb_account_id ` set (t_balances db)"
        using arg_cong [OF ledger_okD(3) [OF assms(1)], of set] by simp
      then have "first_where (\<lambda>b. wb_account_id b = la_id a) (t_balances db) = None" by force
      then have "balance_of db (la_id a) = 0"
        by (simp add: balance_of_def del: first_where_None)
      with None True ensure_account_find(1) [OF assms(3)] show ?thesis
        by (simp add: account_balance_def bal)
    next
      case (Some x)
      with True ensure_account_find(3) [OF assms(3) Some] show ?thesis
        by (simp add: account_balance_def bal)
    qed
  qed
qed

lemma find_account_transfer:
  assumes "ledger_ok db" and "post_transfer_at db0 db tr now = Inr (t, b, db')"
  shows "find_account db' = find_account db"
  using post_transfer_frame(2) [OF assms(2) ledger_okD(4) [OF assms(1)]]
  by (simp add: find_account_def fun_eq_iff)

lemma account_balance_transfer:
  assumes ok: "ledger_ok db" and P: "post_transfer db tr now = Inr (t, True, db')"
    and d: "find_account db (fst (scope_of o1)) ty1 u1 = Some (tr_debit tr)"
    and c: "find_account db (fst (scope_of o2)) ty2 u2 = Some (tr_credit tr)"
  shows "account_balance db' ow ty u = account_balance db ow ty u
      + (if (ow, ty, u) = (o2, ty2, u2) then tr_amount_ms tr else 0)
      - (if (ow, ty, u) = (o1, ty1, u1) then tr_amount_ms tr else 0)"
proof -
  from P have P': "post_transfer_at db db tr now = Inr (t, True, db')"
    by (simp add: post_transfer_def)
  note L = ledger_okD [OF ok] and N = post_transfer_at_new [OF P' ledger_okD(4) [OF ok]]
  note D = find_accountD [OF d] and C = find_accountD [OF c]
  have ne: "(o1, ty1, u1) \<noteq> (o2, ty2, u2)" using N(4) d c by auto
  show ?thesis
  proof (cases "find_account db (fst (scope_of ow)) ty u")
    case None
    with d c have "(ow, ty, u) \<noteq> (o1, ty1, u1)" "(ow, ty, u) \<noteq> (o2, ty2, u2)" by auto
    with None show ?thesis
      by (auto simp: account_balance_def find_account_transfer [OF ok P'])
  next
    case (Some x)
    note X = find_accountD [OF Some]
    have "la_id x = la_id (tr_debit tr) \<longleftrightarrow> (ow, ty, u) = (o1, ty1, u1)"
      using key_unique [OF L(1) X(1) D(1)] key_unique [OF L(2) X(1) D(1)] X(2) D(2) by auto
    moreover have "la_id x = la_id (tr_credit tr) \<longleftrightarrow> (ow, ty, u) = (o2, ty2, u2)"
      using key_unique [OF L(1) X(1) C(1)] key_unique [OF L(2) X(1) C(1)] X(2) C(2) by auto
    ultimately show ?thesis
      using Some ne N(4) by (auto simp: account_balance_def find_account_transfer [OF ok P'] N(7))
  qed
qed

text \<open>A transfer for which there is money and no earlier transaction is made.\<close>

lemma post_transfer_succeeds:
  assumes ok: "ledger_ok db" and pos: "0 < tr_amount_ms tr"
    and mem: "tr_debit tr \<in> set (t_accounts db)" "tr_credit tr \<in> set (t_accounts db)"
    and units: "la_unit (tr_debit tr) = tr_unit tr" "la_unit (tr_credit tr) = tr_unit tr"
    and ne: "la_id (tr_debit tr) \<noteq> la_id (tr_credit tr)"
    and funds: "tr_amount_ms tr \<le> balance_of db (la_id (tr_debit tr))"
    and new: "find_transaction db tr = None"
  obtains t db' where "post_transfer db tr now = Inr (t, True, db')"
proof -
  note L = ledger_okD [OF ok]
  let ?t = "\<lparr>lt_id = uuid_supply db (uuid_next db), lt_tx_type = tr_tx_type tr,
     lt_idempotency_key = tr_idempotency_key tr, lt_reference_type = tr_reference_type tr,
     lt_reference_id = tr_reference_id tr, lt_unit = tr_unit tr,
     lt_transfer = transfer_signature_of (tr_debit tr) (tr_credit tr) (tr_amount_ms tr)
       (tr_reason tr), lt_created_at = db_now db\<rparr>"
  let ?db1 = "db\<lparr>uuid_next := Suc (uuid_next db), t_transactions := t_transactions db @ [?t]\<rparr>"
  let ?neg = "la_owner_type (tr_debit tr) = ''PLATFORM''"
  have uniq: "transaction_unique db ?t"
    using new by (subst transaction_unique_iff [where tr = tr]) simp_all
  have ids: "wb_account_id ` set (t_balances db) = la_id ` set (t_accounts db)"
    using arg_cong [OF L(3), of set] by simp
  have bal1: "balance_of ?db1 = balance_of db" by (simp add: fun_eq_iff balance_of_def)
  have "is_ok (change_balance ?db1 (tr_debit tr) (- tr_amount_ms tr) ?neg now)"
    by (rule change_balance_guard) (use L(4) mem funds ids in \<open>simp_all add: bal1\<close>)
  then obtain db2 where c1: "change_balance ?db1 (tr_debit tr) (- tr_amount_ms tr) ?neg now = Inr db2"
    by (cases "change_balance ?db1 (tr_debit tr) (- tr_amount_ms tr) ?neg now") auto
  have "map wb_account_id (t_balances db2) = map wb_account_id (t_balances db)"
    using change_balance_Inr(1) [OF c1] L(4) by auto
  then have dist2: "distinct (map wb_account_id (t_balances db2))"
    and ids2: "wb_account_id ` set (t_balances db2) = la_id ` set (t_accounts db)"
    using L(3,4) by (simp_all flip: set_map)
  have "is_ok (change_balance db2 (tr_credit tr) (tr_amount_ms tr) True now)"
    by (rule change_balance_guard [OF dist2]) (use mem ids2 in simp_all)
  then obtain db3 where c2: "change_balance db2 (tr_credit tr) (tr_amount_ms tr) True now = Inr db3"
    by (cases "change_balance db2 (tr_credit tr) (tr_amount_ms tr) True now") auto
  show ?thesis
    by (rule that) (simp add: post_transfer_def post_transfer_at_def new uuid4_def Let_def units
        pos [folded not_le] uniq c1 c2 ne del: first_where_None)
qed

section \<open>The invariant of reserved funds\<close>

definition job_key :: "uuid \<Rightarrow> string \<Rightarrow> string" where
  "job_key i name = ''job:'' @ uuid_str i @ '':'' @ name @ '':v1''"

text \<open>No transaction has the key or is the business action of this finish of the job.\<close>

definition unclaimed :: "database \<Rightarrow> uuid \<Rightarrow> bool \<Rightarrow> bool" where
  "unclaimed db i settle \<longleftrightarrow> (\<forall>t \<in> set (t_transactions db).
     lt_idempotency_key t \<noteq> job_key i (if settle then ''settle'' else ''release'') \<and>
     \<not> (lt_tx_type t = (if settle then ''SETTLE'' else ''RELEASE'') \<and>
        lt_reference_type t = ''job'' \<and> lt_reference_id t = uuid_str i))"

definition reserved_ms :: "generation_job \<Rightarrow> int" where
  "reserved_ms j = (if job_settlement_status j = Some SET_RESERVED
     then (case job_reserved_amount_ms j of None \<Rightarrow> 0 | Some a \<Rightarrow> a) else 0)"

definition reserved_of :: "database \<Rightarrow> uuid \<Rightarrow> string \<Rightarrow> int" where
  "reserved_of db u unit = sum_list (map (\<lambda>j. if job_user_id j = u \<and> job_ledger_unit j = Some unit
     then reserved_ms j else 0) (t_jobs db))"

definition reservation_ok :: "database \<Rightarrow> generation_job \<Rightarrow> bool" where
  "reservation_ok db j \<longleftrightarrow> job_settlement_status j = Some SET_RESERVED \<longrightarrow>
     (job_ledger_unit j \<noteq> None \<and> (\<exists>a > 0. job_reserved_amount_ms j = Some a) \<and>
      unclaimed db (job_id j) True \<and> unclaimed db (job_id j) False)"

definition funds_ok :: "database \<Rightarrow> bool" where
  "funds_ok db \<longleftrightarrow> ledger_ok db \<and> distinct (map job_id (t_jobs db)) \<and>
     (\<forall>j \<in> set (t_jobs db). reservation_ok db j) \<and>
     (\<forall>u unit. account_balance db (Some u) USER_RESERVED unit = reserved_of db u unit)"

text \<open>The books do not depend on the other tables.\<close>

lemma book_cong:
  assumes "t_accounts db' = t_accounts db" and "t_balances db' = t_balances db"
    and "t_postings db' = t_postings db"
  shows "ledger_ok db' = ledger_ok db" and "balance_of db' = balance_of db"
    and "find_account db' = find_account db" and "account_balance db' = account_balance db"
proof -
  show bal: "balance_of db' = balance_of db" by (simp add: fun_eq_iff balance_of_def assms)
  show find: "find_account db' = find_account db" by (simp add: fun_eq_iff find_account_def assms)
  show "account_balance db' = account_balance db"
    by (simp add: fun_eq_iff account_balance_def bal find split: option.split)
  show "ledger_ok db' = ledger_ok db"
    unfolding ledger_ok_def bal posted_def transaction_total_def unit_total_def assms ..
qed

lemma uuids_fresh_cong:
  "uuid_supply db' = uuid_supply db \<Longrightarrow> uuid_next db' = uuid_next db \<Longrightarrow>
   t_accounts db' = t_accounts db \<Longrightarrow> uuids_fresh n db' = uuids_fresh n db"
  by (simp add: uuids_fresh_def)

lemma find_finish_transfer:
  "find_transaction db (finish_transfer job unit a settle r t) = None \<longleftrightarrow>
     unclaimed db (job_id job) settle"
  by (auto simp: find_transaction_def same_action_def finish_transfer_def unclaimed_def job_key_def)

lemma reserved_ms_nonneg: "reservation_ok db j \<Longrightarrow> 0 \<le> reserved_ms j"
  by (auto simp: reservation_ok_def reserved_ms_def split: option.splits)

lemma reserved_of_ge:
  assumes "\<forall>j \<in> set (t_jobs db). reservation_ok db j" and "job \<in> set (t_jobs db)"
    and "job_ledger_unit job = Some unit"
  shows "reserved_ms job \<le> reserved_of db (job_user_id job) unit"
proof -
  let ?w = "\<lambda>j. if job_user_id j = job_user_id job \<and> job_ledger_unit j = Some unit
      then reserved_ms j else 0"
  have nonneg: "\<forall>j \<in> set (t_jobs db). 0 \<le> ?w j"
    using assms(1) reserved_ms_nonneg by auto
  have "?w job \<le> sum_list (map ?w js)" if "job \<in> set js" "\<forall>j \<in> set js. 0 \<le> ?w j" for js
    using that
  proof (induction js)
    case (Cons j js)
    have "0 \<le> sum_list (map ?w js)" using Cons.prems(2) by (intro sum_list_nonneg) auto
    with Cons show ?case by fastforce
  qed simp
  from this [OF assms(2) nonneg] show ?thesis using assms(3) by (simp add: reserved_of_def)
qed

text \<open>Marking a reserved job takes its amount out of what its user has in reserve.\<close>

definition mark_finished :: "database \<Rightarrow> uuid \<Rightarrow> settlement_status \<Rightarrow> database" where
  "mark_finished db i desired = db\<lparr>t_jobs := update_where
     (\<lambda>j. job_id j = i \<and> job_settlement_status j = Some SET_RESERVED)
     (\<lambda>j. j\<lparr>job_settlement_status := Some desired, job_updated_at := db_now db\<rparr>) (t_jobs db)\<rparr>"

lemma mark_finished_key:
  assumes "distinct (map job_id (t_jobs db))" and "job \<in> set (t_jobs db)"
    and "job_settlement_status job = Some SET_RESERVED"
  shows "t_jobs (mark_finished db (job_id job) d) = update_where (\<lambda>j. job_id j = job_id job)
     (\<lambda>j. j\<lparr>job_settlement_status := Some d, job_updated_at := db_now db\<rparr>) (t_jobs db)"
  unfolding mark_finished_def update_where_def
  using assms(3) key_unique [OF assms(1) _ assms(2)] by (auto intro!: map_cong)

lemma reserved_of_mark_finished:
  assumes "distinct (map job_id (t_jobs db))" and "job \<in> set (t_jobs db)"
    and "job_settlement_status job = Some SET_RESERVED" and "d \<noteq> SET_RESERVED"
  shows "reserved_of (mark_finished db (job_id job) d) u unit = reserved_of db u unit -
     (if job_user_id job = u \<and> job_ledger_unit job = Some unit then reserved_ms job else 0)"
  unfolding reserved_of_def mark_finished_key [OF assms(1-3)]
  by (subst sum_list_update_key [OF assms(1,2)]) (simp add: reserved_ms_def assms(4))

section \<open>Settling and releasing\<close>

definition finish_target :: "generation_job \<Rightarrow> string \<Rightarrow> bool \<Rightarrow> uuid option \<times> string \<times> string" where
  "finish_target job unit settle =
     (if settle then (None, PLATFORM_CONSUMED, unit)
      else (Some (job_user_id job), USER_AVAILABLE, unit))"

definition finished_status :: "bool \<Rightarrow> settlement_status" where
  "finished_status settle = (if settle then SET_SETTLED else SET_RELEASED)"

lemma finished_status_ne [simp]:
  "finished_status settle \<noteq> SET_RESERVED" "SET_RESERVED \<noteq> finished_status settle"
  by (simp_all add: finished_status_def)

lemma unclaimed_append:
  assumes "t_transactions db' = t_transactions db @ [t]"
    and "lt_idempotency_key t = job_key i n" and "lt_reference_id t = uuid_str i"
    and "j \<noteq> i" and "unclaimed db j s"
  shows "unclaimed db' j s"
  using assms by (auto simp: unclaimed_def job_key_def key_simps)

text \<open>The transfer of a finish, between two accounts that have been ensured.\<close>

lemma finish_transfer_moves:
  assumes ok: "ledger_ok db" and r: "find_account db (fst (scope_of (Some u))) USER_RESERVED unit = Some r"
    and t: "find_account db (fst (scope_of ow)) ty unit = Some t" "ty \<noteq> USER_RESERVED"
    and a: "0 < a" "a \<le> account_balance db (Some u) USER_RESERVED unit"
    and un: "unclaimed db (job_id job) settle"
  obtains tx db' where "post_transfer db (finish_transfer job unit a settle r t) now = Inr (tx, True, db')"
    and "ledger_ok db'" and "ledger_frame db db'"
    and "\<And>o' ty' u'. account_balance db' o' ty' u' = account_balance db o' ty' u'
        + (if (o', ty', u') = (ow, ty, unit) then a else 0)
        - (if (o', ty', u') = (Some u, USER_RESERVED, unit) then a else 0)"
    and "t_transactions db' = t_transactions db @ [tx]"
    and "lt_idempotency_key tx = job_key (job_id job) (if settle then ''settle'' else ''release'')"
    and "lt_reference_id tx = uuid_str (job_id job)"
proof -
  let ?tr = "finish_transfer job unit a settle r t"
  note R = find_accountD [OF r] and T = find_accountD [OF t(1)] and L = ledger_okD [OF ok]
  have tr: "tr_debit ?tr = r" "tr_credit ?tr = t" "tr_unit ?tr = unit" "tr_amount_ms ?tr = a"
    "tr_reference_id ?tr = uuid_str (job_id job)"
    "tr_idempotency_key ?tr = job_key (job_id job) (if settle then ''settle'' else ''release'')"
    by (simp_all add: finish_transfer_def job_key_def)
  have ne: "la_id r \<noteq> la_id t"
    using key_unique [OF L(1) R(1) T(1)] R(2) T(2) t(2) by auto
  have bal: "a \<le> balance_of db (la_id r)" using a(2) r by (simp add: account_balance_def)
  have units: "la_unit r = unit" "la_unit t = unit" using R(2) T(2) by (simp_all add: account_key_def)
  obtain tx db' where P: "post_transfer db ?tr now = Inr (tx, True, db')"
  proof (rule post_transfer_succeeds [OF ok, of ?tr now])
    show "find_transaction db ?tr = None" using un by (simp only: find_finish_transfer)
  qed (use a(1) R(1) T(1) units ne bal in \<open>simp_all add: tr\<close>)
  then have P': "post_transfer_at db db ?tr now = Inr (tx, True, db')" by (simp add: post_transfer_def)
  note N = post_transfer_at_new [OF P' L(4)]
  show ?thesis
  proof (rule that [OF P])
    show "ledger_ok db'" by (rule ledger_ok_transfer [OF ok P']) (simp_all add: tr R T)
    show "ledger_frame db db'" by (rule post_transfer_frame(1) [OF P' L(4)])
    show "account_balance db' o' ty' u' = account_balance db o' ty' u'
        + (if (o', ty', u') = (ow, ty, unit) then a else 0)
        - (if (o', ty', u') = (Some u, USER_RESERVED, unit) then a else 0)" for o' ty' u'
      using account_balance_transfer [OF ok P, of "Some u" USER_RESERVED unit ow ty unit] r t
      by (simp only: tr)
    show "t_transactions db' = t_transactions db @ [tx]" using N(8) by auto
    show "lt_idempotency_key tx = job_key (job_id job) (if settle then ''settle'' else ''release'')"
      and "lt_reference_id tx = uuid_str (job_id job)"
      using N(11) by (simp_all add: tr)
  qed
qed

lemma refresh_batch_status_ok:
  assumes "exists_where (\<lambda>b. gb_id b = i) (t_batches db)"
  shows "refresh_batch_status db i = Inr (batch_status_of (map job_status
      (select_where (\<lambda>j. job_batch_id j = Some i) (t_jobs db))), db\<lparr>t_batches :=
        update_where (\<lambda>b. gb_id b = i) (\<lambda>b. b\<lparr>gb_status := batch_status_of (map job_status
          (select_where (\<lambda>j. job_batch_id j = Some i) (t_jobs db)))\<rparr>) (t_batches db)\<rparr>)"
proof -
  obtain b where "first_where (\<lambda>b. gb_id b = i) (t_batches db) = Some b"
    using assms by (cases "first_where (\<lambda>b. gb_id b = i) (t_batches db)") auto
  then show ?thesis by (simp add: refresh_batch_status_def Let_def)
qed

text \<open>The steps of a finish of a reserved job.\<close>

lemma finish_reservation_steps:
  assumes funds: "funds_ok db" and fresh: "uuids_fresh 3 db"
    and job: "job \<in> set (t_jobs db)" "job_settlement_status job = Some SET_RESERVED"
    and unit: "job_ledger_unit job = Some unit"
    and batch: "\<forall>b. job_batch_id job = Some b \<longrightarrow> exists_where (\<lambda>x. gb_id x = b) (t_batches db)"
  obtains db' where "finish_reservation db job settle now = Inr (True, db')"
    and "ledger_ok db'"
    and "t_jobs db' = t_jobs (mark_finished db (job_id job) (finished_status settle))"
    and "\<And>ow ty u. account_balance db' ow ty u = account_balance db ow ty u
        + (if (ow, ty, u) = finish_target job unit settle then reserved_ms job else 0)
        - (if (ow, ty, u) = (Some (job_user_id job), USER_RESERVED, unit) then reserved_ms job else 0)"
    and "\<And>j s. j \<noteq> job_id job \<Longrightarrow> unclaimed db j s \<Longrightarrow> unclaimed db' j s"
proof -
  let ?d = "finished_status settle" and ?u = "job_user_id job"
  let ?db1 = "mark_finished db (job_id job) ?d"
  from funds have ok: "ledger_ok db" and dist: "distinct (map job_id (t_jobs db))"
    and res: "\<forall>j \<in> set (t_jobs db). reservation_ok db j"
    and held: "account_balance db (Some u) USER_RESERVED x = reserved_of db u x" for u x
    by (simp_all add: funds_ok_def)
  from res job unit obtain a where a: "job_reserved_amount_ms job = Some a" "0 < a"
    and un: "unclaimed db (job_id job) settle"
    by (cases settle) (auto simp: reservation_ok_def)
  have ams: "reserved_ms job = a" using a job by (simp add: reserved_ms_def)
  have le: "a \<le> account_balance db (Some ?u) USER_RESERVED unit"
    using reserved_of_ge [OF res job(1) unit] by (simp add: held ams)
  obtain ow ty where tgt: "finish_target job unit settle = (ow, ty, unit)" "ty \<noteq> USER_RESERVED"
    and ens: "(if settle then ensure_account x None PLATFORM_CONSUMED unit
        else ensure_account x (Some ?u) USER_AVAILABLE unit) = ensure_account x ow ty unit"
    and ty: "ty \<in> {USER_AVAILABLE, USER_RESERVED, PLATFORM_ISSUED, PLATFORM_CONSUMED}" for x
    by (cases settle) (auto simp: finish_target_def)
  have cong1: "t_accounts ?db1 = t_accounts db" "t_balances ?db1 = t_balances db"
    "t_postings ?db1 = t_postings db" "uuid_supply ?db1 = uuid_supply db"
    "uuid_next ?db1 = uuid_next db" "t_transactions ?db1 = t_transactions db"
    "t_batches ?db1 = t_batches db"
    by (simp_all add: mark_finished_def)
  note B1 = book_cong [OF cong1(1-3)]
  have ok1: "ledger_ok ?db1" using ok B1(1) by simp
  have fresh1: "uuids_fresh 3 ?db1" using fresh uuids_fresh_cong [OF cong1(4,5,1)] by simp
  obtain r db2 where E2: "ensure_account ?db1 (Some ?u) USER_RESERVED unit = Inr (r, db2)"
    by (rule ensure_account_succeeds [of USER_RESERVED]) auto
  have ok2: "ledger_ok db2" and ab2: "account_balance db2 = account_balance db"
    using ledger_ok_ensure_account(1) [OF ok1 uuids_fresh_mono [OF fresh1] E2]
      account_balance_ensure [OF ok1 uuids_fresh_mono [OF fresh1] E2] B1(4) by simp_all
  have fresh2: "uuids_fresh 2 db2"
    by (rule uuids_fresh_ensure_account [OF _ E2]) (use fresh1 in \<open>simp add: eval_nat_numeral\<close>)
  obtain t db3 where E3: "ensure_account db2 ow ty unit = Inr (t, db3)"
    by (rule ensure_account_succeeds [OF ty])
  have ok3: "ledger_ok db3" and ab3: "account_balance db3 = account_balance db"
    using ledger_ok_ensure_account(1) [OF ok2 uuids_fresh_mono [OF fresh2] E3]
      account_balance_ensure [OF ok2 uuids_fresh_mono [OF fresh2] E3] ab2 by simp_all
  have frame3: "ledger_frame ?db1 db3"
    using ledger_frame_trans ensure_account_frame(1) [OF E2] ensure_account_frame(1) [OF E3] by blast
  have tx3: "t_transactions db3 = t_transactions db"
    using ensure_account_frame(6) [OF E2] ensure_account_frame(6) [OF E3] cong1(6) by simp
  have r3: "find_account db3 (fst (scope_of (Some ?u))) USER_RESERVED unit = Some r"
    by (rule ensure_account_find(3) [OF E3]) (rule ensure_account_find(1) [OF E2])
  have un3: "unclaimed db3 (job_id job) settle" using un by (simp add: unclaimed_def tx3)
  obtain tx db4 where P: "post_transfer db3 (finish_transfer job unit a settle r t) now = Inr (tx, True, db4)"
    and ok4: "ledger_ok db4" and frame4: "ledger_frame db3 db4"
    and ab4: "\<And>o' ty' u'. account_balance db4 o' ty' u' = account_balance db3 o' ty' u'
        + (if (o', ty', u') = (ow, ty, unit) then a else 0)
        - (if (o', ty', u') = (Some ?u, USER_RESERVED, unit) then a else 0)"
    and tx4: "t_transactions db4 = t_transactions db3 @ [tx]"
      "lt_idempotency_key tx = job_key (job_id job) (if settle then ''settle'' else ''release'')"
      "lt_reference_id tx = uuid_str (job_id job)"
    by (rule finish_transfer_moves [OF ok3 r3 ensure_account_find(1) [OF E3] tgt(2) a(2) _ un3])
      (use le ab3 in auto)
  have frame: "ledger_frame ?db1 db4" using ledger_frame_trans [OF frame3 frame4] .
  have un4: "unclaimed db4 j s" if "j \<noteq> job_id job" "unclaimed db j s" for j s
    by (rule unclaimed_append [OF tx4(1-3) that(1)]) (use that(2) in \<open>simp add: unclaimed_def tx3\<close>)
  have cnt: "row_count (\<lambda>j. job_id j = job_id job \<and> job_settlement_status j = Some SET_RESERVED)
      (t_jobs db) = 1"
    using row_count_1_iff [where k = job_id and p = "\<lambda>j. job_id j = job_id job \<and>
      job_settlement_status j = Some SET_RESERVED", OF dist] job by auto
  define db5 where "db5 = (case job_batch_id job of None \<Rightarrow> db4
      | Some b \<Rightarrow> snd (projr (refresh_batch_status db4 b)))"
  have batches: "t_batches db4 = t_batches db" using ledger_frame_tables(5) [OF frame] cong1(7) by simp
  have fin: "finish_reservation db job settle now = Inr (True, db5)"
  proof -
    have "finish_reservation db job settle now = (case job_batch_id job of None \<Rightarrow> Inr (True, db4)
        | Some b \<Rightarrow> and_then (refresh_batch_status db4 b) (\<lambda>(_, db). Inr (True, db)))"
      using job(2) cnt unit a(1) E2 E3 P
      by (auto simp: finish_reservation_def Let_def ens mark_finished_def [symmetric]
          finished_status_def [symmetric])
    then show ?thesis
      using batch batches by (auto simp: db5_def refresh_batch_status_ok split: option.splits)
  qed
  have tabs5: "t_accounts db5 = t_accounts db4" "t_balances db5 = t_balances db4"
    "t_postings db5 = t_postings db4" "t_jobs db5 = t_jobs db4"
    "t_transactions db5 = t_transactions db4"
    using batch batches by (auto simp: db5_def refresh_batch_status_ok split: option.splits)
  show ?thesis
  proof (rule that [OF fin])
    show "ledger_ok db5" using ok4 book_cong(1) [OF tabs5(1-3)] by simp
    show "t_jobs db5 = t_jobs ?db1" using tabs5(4) ledger_frame_tables(1) [OF frame] by simp
    show "account_balance db5 o' ty' u' = account_balance db o' ty' u'
        + (if (o', ty', u') = finish_target job unit settle then reserved_ms job else 0)
        - (if (o', ty', u') = (Some ?u, USER_RESERVED, unit) then reserved_ms job else 0)" for o' ty' u'
      unfolding book_cong(4) [OF tabs5(1-3)] ab4 ab3 tgt(1) ams ..
    show "unclaimed db5 j s" if "j \<noteq> job_id job" "unclaimed db j s" for j s
      using un4 [OF that] by (simp add: unclaimed_def tabs5(5))
  qed
qed

lemma ensure_account_jobs: "ensure_account db ow ty u = Inr (a, db') \<Longrightarrow> t_jobs db' = t_jobs db"
  by (rule ledger_frame_tables(1)) (rule ensure_account_frame(1))

lemma post_transfer_jobs:
  "post_transfer db tr now = Inr (t, b, db') \<Longrightarrow> t_jobs db' = t_jobs db"
  by (auto simp: post_transfer_def post_transfer_at_def change_balance_def Let_def uuid4_def
      and_then_Inr_iff split: option.splits if_splits)

lemma refresh_batch_status_jobs:
  "refresh_batch_status db i = Inr (st, db') \<Longrightarrow> t_jobs db' = t_jobs db"
  by (auto simp: refresh_batch_status_def Let_def split: option.splits)

lemma finish_reservation_True:
  assumes "finish_reservation db job settle now = Inr (True, db')"
    and dist: "distinct (map job_id (t_jobs db))"
  obtains job' where "job' \<in> set (t_jobs db)" and "job_id job' = job_id job"
    and "job_settlement_status job' = Some SET_RESERVED"
    and "t_jobs db' = t_jobs (mark_finished db (job_id job) (finished_status settle))"
proof -
  let ?p = "\<lambda>j. job_id j = job_id job \<and> job_settlement_status j = Some SET_RESERVED"
  let ?db1 = "mark_finished db (job_id job) (finished_status settle)"
  obtain unit amount where cnt: "row_count ?p (t_jobs db) = 1"
    and body: "and_then (ensure_account ?db1 (Some (job_user_id job)) USER_RESERVED unit)
              (\<lambda>(reserved, db).
            and_then
              (if settle then ensure_account db None PLATFORM_CONSUMED unit
               else ensure_account db (Some (job_user_id job)) USER_AVAILABLE unit)
              (\<lambda>(target, db).
            and_then (post_transfer db (finish_transfer job unit amount settle reserved target) now)
              (\<lambda>(_, _, db).
            case job_batch_id job of
              None \<Rightarrow> Inr (True, db)
            | Some b \<Rightarrow> and_then (refresh_batch_status db b) (\<lambda>(_, db). Inr (True, db))))) =
        Inr (True, db')"
    using assms(1)
    by (auto simp: finish_reservation_def Let_def mark_finished_def finished_status_def
        split: if_splits option.splits)
  have "t_jobs db' = t_jobs ?db1"
    using body by (auto simp: and_then_Inr_iff split: if_splits option.splits
        dest!: ensure_account_jobs post_transfer_jobs refresh_batch_status_jobs)
  moreover have "\<exists>j \<in> set (t_jobs db). ?p j"
    using cnt row_count_0 [of ?p "t_jobs db"] by fastforce
  ultimately show ?thesis using that by blast
qed

text \<open>
  C9. Settling or releasing the reservation of a job cannot fail: as long as what every user
  holds in reserve is what the unsettled jobs ask for, the call succeeds, moves exactly the
  job's amount from the user's reserve to the platform (settle) or back to the user
  (release), changes no other balance, marks the job, and keeps that invariant.
\<close>

theorem finish_reservation_moves:
  assumes "funds_ok db" and "uuids_fresh 3 db" and "job \<in> set (t_jobs db)"
    and "job_settlement_status job = Some SET_RESERVED" and "job_ledger_unit job = Some unit"
    and "\<forall>b. job_batch_id job = Some b \<longrightarrow> exists_where (\<lambda>x. gb_id x = b) (t_batches db)"
  shows "\<exists>db'. finish_reservation db job settle now = Inr (True, db') \<and> funds_ok db' \<and>
    map_option job_settlement_status (get_job db' (job_id job)) = Some (Some (finished_status settle)) \<and>
    (\<forall>ow ty u. account_balance db' ow ty u = account_balance db ow ty u
        + (if (ow, ty, u) = finish_target job unit settle then reserved_ms job else 0)
        - (if (ow, ty, u) = (Some (job_user_id job), USER_RESERVED, unit) then reserved_ms job else 0))"
proof -
  from assms(1) have dist: "distinct (map job_id (t_jobs db))"
    and res: "\<forall>j \<in> set (t_jobs db). reservation_ok db j"
    and held: "account_balance db (Some u) USER_RESERVED x = reserved_of db u x" for u x
    by (simp_all add: funds_ok_def)
  obtain db' where fin: "finish_reservation db job settle now = Inr (True, db')"
    and ok: "ledger_ok db'"
    and jobs: "t_jobs db' = t_jobs (mark_finished db (job_id job) (finished_status settle))"
    and bal: "\<And>ow ty u. account_balance db' ow ty u = account_balance db ow ty u
        + (if (ow, ty, u) = finish_target job unit settle then reserved_ms job else 0)
        - (if (ow, ty, u) = (Some (job_user_id job), USER_RESERVED, unit) then reserved_ms job else 0)"
    and un: "\<And>j s. j \<noteq> job_id job \<Longrightarrow> unclaimed db j s \<Longrightarrow> unclaimed db' j s"
    by (rule finish_reservation_steps [OF assms]) blast
  let ?f = "\<lambda>j. j\<lparr>job_settlement_status := Some (finished_status settle), job_updated_at := db_now db\<rparr>"
  have jobs': "t_jobs db' = update_where (\<lambda>j. job_id j = job_id job) ?f (t_jobs db)"
    unfolding jobs by (rule mark_finished_key [OF dist assms(3,4)])
  have ne: "finished_status settle \<noteq> SET_RESERVED" by (simp add: finished_status_def)
  have get: "get_job db' (job_id job) = map_option ?f (get_job db (job_id job))"
    unfolding get_job_def jobs' by (rule first_where_update_same) simp
  have row: "get_job db (job_id job) = Some job"
    unfolding get_job_def by (rule first_where_key [OF dist assms(3)])
  have "distinct (map job_id (t_jobs db'))"
    unfolding jobs' using dist by (subst map_update_where_cong) simp_all
  moreover have "reservation_ok db' j" if j: "j \<in> set (t_jobs db')" for j
  proof -
    from j obtain x where x: "x \<in> set (t_jobs db)" "j = (if job_id x = job_id job then ?f x else x)"
      by (auto simp: jobs' set_update_where)
    then show ?thesis
      using bspec [OF res x(1)] un ne by (auto simp: reservation_ok_def)
  qed
  moreover have "account_balance db' (Some u) USER_RESERVED x = reserved_of db' u x" for u x
  proof -
    have "reserved_of db' u x = reserved_of db u x -
        (if job_user_id job = u \<and> job_ledger_unit job = Some x then reserved_ms job else 0)"
      using reserved_of_mark_finished [OF dist assms(3,4) ne] by (simp add: reserved_of_def jobs)
    then show ?thesis
      using assms(5) by (auto simp: bal held finish_target_def)
  qed
  ultimately have "funds_ok db'" using ok by (simp add: funds_ok_def)
  then show ?thesis using fin bal get row by auto
qed

text \<open>The sample bank after a reservation of 5000 for job 1, with its two postings.\<close>

definition funded_bank :: database where
  "funded_bank = (sample_bank [sample_job 1 JOB_RUNNING])\<lparr>
     t_balances := [\<lparr>wb_account_id = 111, wb_balance_ms = -5000, wb_version = 1, wb_updated_at = 0\<rparr>,
       \<lparr>wb_account_id = 112, wb_balance_ms = 0, wb_version = 2, wb_updated_at = 0\<rparr>,
       \<lparr>wb_account_id = 113, wb_balance_ms = 5000, wb_version = 1, wb_updated_at = 0\<rparr>],
     t_postings := [\<lparr>lp_transaction_id = 9, lp_account_id = 111, lp_unit = ''FAST_MS'', lp_amount_ms = -5000\<rparr>,
       \<lparr>lp_transaction_id = 9, lp_account_id = 113, lp_unit = ''FAST_MS'', lp_amount_ms = 5000\<rparr>]\<rparr>"

lemma funded_bank_tables:
  "t_accounts funded_bank = sample_accounts" "t_jobs funded_bank = [sample_job 1 JOB_RUNNING]"
  "t_transactions funded_bank = []"
  by (simp_all add: funded_bank_def sample_bank_def sample_db_def empty_database_def)

lemma funds_ok_funded_bank: "funds_ok funded_bank"
proof -
  have bal: "balance_of funded_bank 111 = -5000" "balance_of funded_bank 112 = 0"
    "balance_of funded_bank 113 = 5000"
    by (simp_all add: balance_of_def funded_bank_def first_where_Cons)
  have posted: "posted funded_bank 111 = -5000" "posted funded_bank 112 = 0"
    "posted funded_bank 113 = 5000"
    by (simp_all add: posted_def funded_bank_def)
  have "transaction_total funded_bank t = 0" for t
    by (simp add: transaction_total_def funded_bank_def)
  moreover have "unit_total funded_bank u = 0" for u
    by (simp add: unit_total_def funded_bank_tables sample_accounts_def sample_account_def bal)
  moreover have "distinct (map account_key sample_accounts)"
    by (simp add: sample_accounts_def sample_account_def account_key_def)
  ultimately have "ledger_ok funded_bank"
    using bal posted by (simp add: ledger_ok_def funded_bank_tables sample_accounts_def sample_account_def)
      (simp add: funded_bank_def)
  moreover have "account_balance funded_bank (Some u) USER_RESERVED x = reserved_of funded_bank u x" for u x
    by (simp add: account_balance_def find_account_def funded_bank_tables sample_accounts_def
        sample_account_def first_where_Cons first_where_Nil USER_RESERVED_def reserved_of_def
        sample_job_def reserved_ms_def bal key_simps)
  ultimately show ?thesis
    by (simp add: funds_ok_def reservation_ok_def unclaimed_def funded_bank_tables sample_job_def)
qed

lemma uuids_fresh_funded_bank: "uuids_fresh 3 funded_bank"
  by code_simp

theorem finish_reservation_moves_witness:
  "\<exists>db'. finish_reservation funded_bank (sample_job 1 JOB_RUNNING) True 7 = Inr (True, db') \<and>
     account_balance db' (Some 101) USER_RESERVED ''FAST_MS'' = 0 \<and>
     account_balance db' None PLATFORM_CONSUMED ''FAST_MS'' = 5000"
proof -
  let ?job = "sample_job 1 JOB_RUNNING"
  have "?job \<in> set (t_jobs funded_bank)" by (simp add: funded_bank_tables)
  moreover have "job_settlement_status ?job = Some SET_RESERVED"
    "job_ledger_unit ?job = Some ''FAST_MS''" "job_batch_id ?job = None"
    "reserved_ms ?job = 5000" "job_user_id ?job = 101"
    by (simp_all add: sample_job_def reserved_ms_def)
  moreover have "account_balance funded_bank (Some 101) USER_RESERVED ''FAST_MS'' = 5000"
    "account_balance funded_bank None PLATFORM_CONSUMED ''FAST_MS'' = 0"
    by code_simp+
  ultimately show ?thesis
    using finish_reservation_moves [OF funds_ok_funded_bank uuids_fresh_funded_bank,
      of ?job "''FAST_MS''" True 7]
    by (auto simp: finish_target_def)
qed

text \<open>
  C10. A reservation ends once: after a finish of a job, a caller who still holds the job as
  reserved gets False when he asks for the same end and a conflict when he asks for the
  other, and no money moves.
\<close>

theorem finish_reservation_once:
  assumes "distinct (map job_id (t_jobs db))"
    and "finish_reservation db job settle now = Inr (True, db')"
    and "job_id stale = job_id job" and "job_settlement_status stale = Some SET_RESERVED"
    and "job_ledger_unit stale = Some unit" and "job_reserved_amount_ms stale = Some a"
  shows "finish_reservation db' stale settle now' = Inr (False, db') \<and>
    finish_reservation db' stale (\<not> settle) now' = Inl (ApiError 409 ''LEDGER_ALREADY_FINALIZED'')"
proof -
  let ?f = "\<lambda>j. j\<lparr>job_settlement_status := Some (finished_status settle), job_updated_at := db_now db\<rparr>"
  obtain job' where job': "job' \<in> set (t_jobs db)" "job_id job' = job_id job"
      "job_settlement_status job' = Some SET_RESERVED"
    and jobs: "t_jobs db' = t_jobs (mark_finished db (job_id job) (finished_status settle))"
    by (rule finish_reservation_True [OF assms(2,1)])
  have jobs': "t_jobs db' = update_where (\<lambda>j. job_id j = job_id job) ?f (t_jobs db)"
    using mark_finished_key [OF assms(1) job'(1,3)] job'(2) jobs by simp
  have "get_job db' (job_id job) = map_option ?f (get_job db (job_id job))"
    unfolding get_job_def jobs' by (rule first_where_update_same) simp
  moreover have "get_job db (job_id job) = Some job'"
    using first_where_key [OF assms(1) job'(1)] job'(2) by (simp add: get_job_def)
  moreover have "row_count (\<lambda>j. job_id j = job_id job \<and> job_settlement_status j = Some SET_RESERVED)
      (t_jobs db') = 0"
    by (auto simp: row_count_0 jobs' update_where_def split: if_splits)
  ultimately show ?thesis
    using assms(3-6) by (cases settle) (simp_all add: finish_reservation_def finished_status_def)
qed

theorem finish_reservation_once_witness:
  "\<exists>db'. finish_reservation funded_bank (sample_job 1 JOB_RUNNING) False 7 = Inr (True, db') \<and>
     finish_reservation db' (sample_job 1 JOB_RUNNING) False 8 = Inr (False, db') \<and>
     finish_reservation db' (sample_job 1 JOB_RUNNING) True 8 =
       Inl (ApiError 409 ''LEDGER_ALREADY_FINALIZED'')"
proof -
  let ?job = "sample_job 1 JOB_RUNNING"
  let ?r = "finish_reservation funded_bank ?job False 7"
  have "is_ok ?r \<and> fst (projr ?r)" by code_simp
  then obtain db' where r: "?r = Inr (True, db')" by (cases ?r) auto
  have "distinct (map job_id (t_jobs funded_bank))" by (simp add: funded_bank_tables)
  from finish_reservation_once [OF this r, of ?job "''FAST_MS''" 5000 8] r show ?thesis
    by (simp add: sample_job_def)
qed

end
