(* ===== verification/Idempotency.thy ===== *)
theory Idempotency
  imports Samples "HOL-Library.List_Lexorder" "HOL-Library.Char_ord"
begin

text \<open>
  Idempotency keys of the HTTP operations (apps/api/app/idempotency.py): the fingerprint of a
  request, acquiring a key, completing it with the result, and answering a repeated request
  with that result. SHA-256 is a parameter, \<open>sha256\<close>. As in the ledger, \<open>acquire_at db0 db\<close>
  reads \<open>db0\<close> and inserts into \<open>db\<close>, which another transaction may have changed.
\<close>

section \<open>The fingerprint of a request\<close>

text \<open>
  \<open>json.dumps(payload, ensure_ascii=False, separators=(",", ":"), sort_keys=True)\<close>: a text
  is a list of characters, the members of an object are ordered by their name.
\<close>

definition escape_char :: "char \<Rightarrow> string" where
  "escape_char c =
     (if c = CHR 0x22 then [CHR 0x5C, CHR 0x22]
      else if c = CHR 0x5C then [CHR 0x5C, CHR 0x5C]
      else if c = CHR 0x0A then [CHR 0x5C, CHR ''n'']
      else if c = CHR 0x0D then [CHR 0x5C, CHR ''r'']
      else if c = CHR 0x09 then [CHR 0x5C, CHR ''t'']
      else if c = CHR 0x0C then [CHR 0x5C, CHR ''f'']
      else if c = CHR 0x08 then [CHR 0x5C, CHR ''b'']
      else if of_char c < (32::nat)
      then [CHR 0x5C, CHR ''u'', CHR ''0'', CHR ''0'', hex_digit (of_char c div 16),
            hex_digit (of_char c mod 16)]
      else [c])"

definition json_quote :: "string \<Rightarrow> string" where
  "json_quote s = CHR 0x22 # concat (map escape_char s) @ [CHR 0x22]"

fun separated :: "string list \<Rightarrow> string" where
  "separated [] = []"
| "separated [x] = x"
| "separated (x # y # ys) = x @ CHR '','' # separated (y # ys)"

fun canonical :: "json \<Rightarrow> string"
  and canonical_items :: "json list \<Rightarrow> string list"
  and canonical_members :: "(string \<times> json) list \<Rightarrow> (string \<times> string) list"
where
  "canonical JNull = ''null''"
| "canonical (JBool b) = (if b then ''true'' else ''false'')"
| "canonical (JInt i) = int_str i"
| "canonical (JStr s) = json_quote s"
| "canonical (JList xs) = ''['' @ separated (canonical_items xs) @ '']''"
| "canonical (JObj ms) = ''{'' @ separated (map (\<lambda>(k, v). json_quote k @ CHR '':'' # v)
     (sort_key fst (canonical_members ms))) @ ''}''"
| "canonical_items [] = []"
| "canonical_items (x # xs) = canonical x # canonical_items xs"
| "canonical_members [] = []"
| "canonical_members ((k, v) # ms) = (k, canonical v) # canonical_members ms"

definition request_hash :: "(string \<Rightarrow> string) \<Rightarrow> json \<Rightarrow> string" where
  "request_hash sha256 payload = sha256 (canonical payload)"

section \<open>Acquiring, completing, replaying\<close>

record idempotency_decision =
  de_record :: "api_idempotency_record option"
  de_is_replay :: bool

definition validate_key :: "string \<Rightarrow> error + unit" where
  "validate_key key =
     (if \<not> (1 \<le> length key \<and> length key \<le> 255) \<or>
         list_ex (\<lambda>c. of_char c < (33::nat) \<or> of_char c > (126::nat)) key
      then Inl (ApiError 400 ''IDEMPOTENCY_KEY_INVALID'') else Inr ())"

definition assert_reusable :: "api_idempotency_record \<Rightarrow> string \<Rightarrow> error + unit" where
  "assert_reusable r expected_hash =
     (if idr_request_hash r \<noteq> expected_hash then Inl (ApiError 409 ''IDEMPOTENCY_KEY_CONFLICT'')
      else if idr_status r \<noteq> IDEM_COMPLETED \<or> idr_result_id r = None
      then Inl (ApiError 409 ''IDEMPOTENCY_IN_PROGRESS'') else Inr ())"

definition find_record ::
  "database \<Rightarrow> uuid \<Rightarrow> string \<Rightarrow> string \<Rightarrow> api_idempotency_record option" where
  "find_record db user scope key = first_where (\<lambda>r. idr_user_id r = user \<and> idr_scope r = scope \<and>
     idr_idempotency_key r = key) (t_idempotency db)"

definition acquire_at ::
  "(string \<Rightarrow> string) \<Rightarrow> database \<Rightarrow> database \<Rightarrow> uuid \<Rightarrow> string \<Rightarrow> string option \<Rightarrow> json \<Rightarrow>
   error + (idempotency_decision \<times> database)" where
  "acquire_at sha256 db0 db user scope key payload =
     (case key of
        None \<Rightarrow> Inr (\<lparr>de_record = None, de_is_replay = False\<rparr>, db)
      | Some key \<Rightarrow>
          and_then (validate_key key) (\<lambda>_.
          let digest = request_hash sha256 payload;
              reuse = (\<lambda>existing. and_then (assert_reusable existing digest)
                (\<lambda>_. Inr (\<lparr>de_record = Some existing, de_is_replay = True\<rparr>, db))) in
          case find_record db0 user scope key of
            Some existing \<Rightarrow> reuse existing
          | None \<Rightarrow>
              (case find_record db user scope key of
                 Some existing \<Rightarrow> reuse existing
               | None \<Rightarrow>
                   let (i, db) = uuid4 db;
                       r = \<lparr>idr_id = i, idr_user_id = user, idr_scope = scope,
                         idr_idempotency_key = key, idr_request_hash = digest,
                         idr_status = IDEM_IN_PROGRESS, idr_result_type = None,
                         idr_result_id = None, idr_response_status = None\<rparr>
                   in Inr (\<lparr>de_record = Some r, de_is_replay = False\<rparr>,
                        db\<lparr>t_idempotency := t_idempotency db @ [r]\<rparr>))))"

definition acquire ::
  "(string \<Rightarrow> string) \<Rightarrow> database \<Rightarrow> uuid \<Rightarrow> string \<Rightarrow> string option \<Rightarrow> json \<Rightarrow>
   error + (idempotency_decision \<times> database)" where
  "acquire sha256 db = acquire_at sha256 db db"

definition complete ::
  "database \<Rightarrow> api_idempotency_record option \<Rightarrow> string \<Rightarrow> uuid \<Rightarrow> int \<Rightarrow> database" where
  "complete db r result_type result_id response_status =
     (case r of
        None \<Rightarrow> db
      | Some r \<Rightarrow> db\<lparr>t_idempotency := update_where (\<lambda>x. idr_id x = idr_id r)
          (\<lambda>x. x\<lparr>idr_result_type := Some result_type, idr_result_id := Some result_id,
             idr_response_status := Some response_status, idr_status := IDEM_COMPLETED\<rparr>)
          (t_idempotency db)\<rparr>)"

definition replay_result_id :: "idempotency_decision \<Rightarrow> string \<Rightarrow> error + uuid option" where
  "replay_result_id d expected_type =
     (if \<not> de_is_replay d then Inr None
      else case de_record d of
        None \<Rightarrow> Inl (ApiError 500 ''IDEMPOTENCY_RESULT_INVALID'')
      | Some r \<Rightarrow>
          if idr_result_type r \<noteq> Some expected_type \<or> idr_result_id r = None
          then Inl (ApiError 500 ''IDEMPOTENCY_RESULT_INVALID'') else Inr (idr_result_id r))"

section \<open>The fingerprint text determines the payload\<close>

text \<open>The payload with the members of every object in order, and its plain rendering.\<close>

fun ordered :: "json \<Rightarrow> json"
  and ordered_items :: "json list \<Rightarrow> json list"
  and ordered_members :: "(string \<times> json) list \<Rightarrow> (string \<times> json) list"
where
  "ordered JNull = JNull"
| "ordered (JBool b) = JBool b"
| "ordered (JInt i) = JInt i"
| "ordered (JStr s) = JStr s"
| "ordered (JList xs) = JList (ordered_items xs)"
| "ordered (JObj ms) = JObj (sort_key fst (ordered_members ms))"
| "ordered_items [] = []"
| "ordered_items (x # xs) = ordered x # ordered_items xs"
| "ordered_members [] = []"
| "ordered_members ((k, v) # ms) = (k, ordered v) # ordered_members ms"

fun render :: "json \<Rightarrow> string"
  and render_items :: "json list \<Rightarrow> string list"
  and render_members :: "(string \<times> json) list \<Rightarrow> string list"
where
  "render JNull = ''null''"
| "render (JBool b) = (if b then ''true'' else ''false'')"
| "render (JInt i) = int_str i"
| "render (JStr s) = json_quote s"
| "render (JList xs) = ''['' @ separated (render_items xs) @ '']''"
| "render (JObj ms) = ''{'' @ separated (render_members ms) @ ''}''"
| "render_items [] = []"
| "render_items (x # xs) = render x # render_items xs"
| "render_members [] = []"
| "render_members ((k, v) # ms) = (json_quote k @ CHR '':'' # render v) # render_members ms"

definition render_member :: "string \<times> json \<Rightarrow> string" where
  "render_member = (\<lambda>(k, v). json_quote k @ CHR '':'' # render v)"

lemma render_items_map: "render_items xs = map render xs"
  by (induction xs) simp_all

lemma render_members_map: "render_members ms = map render_member ms"
  by (induction ms) (auto simp: render_member_def)

lemma insort_key_map_fst:
  "map (\<lambda>(k, v). (k, g v)) (insort_key fst x ms) =
   insort_key fst (fst x, g (snd x)) (map (\<lambda>(k, v). (k, g v)) ms)"
  by (induction ms) (auto simp: case_prod_beta)

lemma sort_key_map_fst:
  "map (\<lambda>(k, v). (k, g v)) (sort_key fst ms) = sort_key fst (map (\<lambda>(k, v). (k, g v)) ms)"
  by (induction ms) (auto simp: insort_key_map_fst)

lemma canonical_render:
  "canonical a = render (ordered a)"
  "canonical_items xs = render_items (ordered_items xs)"
  "canonical_members ms = map (\<lambda>(k, v). (k, render v)) (ordered_members ms)"
proof (induction a and xs and ms rule: canonical_canonical_items_canonical_members.induct)
  case (6 ms)
  have "(\<lambda>(k, v). json_quote k @ CHR '':'' # v) \<circ> (\<lambda>(k, v). (k, render v)) = render_member"
    by (auto simp: render_member_def)
  with 6 show ?case
    by (simp only: canonical.simps ordered.simps render.simps render_members_map
        sort_key_map_fst [symmetric] map_map)
qed simp_all

text \<open>What follows a value in a text: nothing, or a delimiter.\<close>

definition stops :: "string \<Rightarrow> bool" where
  "stops s \<longleftrightarrow> s = [] \<or> hd s \<in> {CHR '','', CHR '']'', CHR ''}''}"

lemma escape_char_Cons: "escape_char c @ s \<noteq> CHR 0x22 # t"
  by (auto simp: escape_char_def)

lemma small_char:
  assumes "of_char c < (32::nat)" and "of_char d < (32::nat)"
    and "(of_char c :: nat) div 16 = of_char d div 16" and "(of_char c :: nat) mod 16 = of_char d mod 16"
  shows "c = d"
proof -
  have "(of_char c :: nat) = of_char d" using assms(3,4) by (metis div_mult_mod_eq)
  then show ?thesis by simp
qed

lemma escape_char_prefix: "escape_char c @ s = escape_char d @ t \<Longrightarrow> c = d \<and> s = t"
  by (auto simp: escape_char_def hex_digit_inj split: if_splits dest: small_char)

lemma json_quote_prefix:
  assumes "json_quote u @ s = json_quote v @ t"
  shows "u = v \<and> s = t"
proof -
  have "concat (map escape_char u) @ CHR 0x22 # s = concat (map escape_char v) @ CHR 0x22 # t \<Longrightarrow>
      u = v \<and> s = t"
  proof (induction u arbitrary: v)
    case Nil
    then show ?case by (cases v) (auto dest: sym simp: escape_char_Cons)
  next
    case (Cons c u)
    show ?case
    proof (cases v)
      case Nil
      with Cons.prems show ?thesis by (simp add: escape_char_Cons)
    next
      case v: (Cons d v')
      with Cons.prems have "escape_char c @ (concat (map escape_char u) @ CHR 0x22 # s) =
          escape_char d @ (concat (map escape_char v') @ CHR 0x22 # t)" by simp
      from escape_char_prefix [OF this] Cons.IH [of v'] v show ?thesis by simp
    qed
  qed
  with assms show ?thesis by (simp add: json_quote_def)
qed

text \<open>Items that can be told from what follows them make a list that can be.\<close>

definition readable :: "('a \<Rightarrow> string) \<Rightarrow> 'a \<Rightarrow> bool" where
  "readable f x \<longleftrightarrow> (\<forall>y s t. stops s \<longrightarrow> stops t \<longrightarrow> f x @ s = f y @ t \<longrightarrow> x = y \<and> s = t)"

lemma separated_Cons: "separated (x # xs) = x @ concat (map (\<lambda>y. CHR '','' # y) xs)"
  by (induction xs arbitrary: x) simp_all

lemma separated_readable:
  assumes "\<forall>x \<in> set xs. readable f x" and close: "c = CHR '']'' \<or> c = CHR ''}''"
    and start: "\<And>x. f x \<noteq> [] \<and> hd (f x) \<notin> {CHR '']'', CHR ''}''}"
    and eq: "separated (map f xs) @ c # s = separated (map f ys) @ c # t"
  shows "xs = ys \<and> s = t"
proof -
  have tail: "us = vs \<and> s = t"
    if "\<forall>x \<in> set us. readable f x"
      "concat (map (\<lambda>y. CHR '','' # f y) us) @ c # s = concat (map (\<lambda>y. CHR '','' # f y) vs) @ c # t"
    for us vs
    using that
  proof (induction us arbitrary: vs)
    case Nil
    with close show ?case by (cases vs) auto
  next
    case (Cons u us)
    show ?case
    proof (cases vs)
      case Nil
      with Cons.prems(2) close show ?thesis by auto
    next
      case vs: (Cons v vs')
      let ?r = "\<lambda>ws z. concat (map (\<lambda>y. CHR '','' # f y) ws) @ c # z"
      have "stops (?r ws z)" for ws z using close by (cases ws) (auto simp: stops_def)
      moreover have "f u @ ?r us s = f v @ ?r vs' t" using Cons.prems(2) vs by simp
      ultimately have "u = v \<and> ?r us s = ?r vs' t"
        using Cons.prems(1) unfolding readable_def by (meson list.set_intros(1))
      with Cons.IH [of vs'] Cons.prems(1) vs show ?thesis by simp
    qed
  qed
  show ?thesis
  proof (cases xs)
    case Nil
    have "c = hd (f y)" if "ys = y # ys'" for y ys'
      using arg_cong [OF eq, of hd] Nil that start [of y] by (simp add: separated_Cons)
    with eq close start Nil show ?thesis by (cases ys) auto
  next
    case xs: (Cons x xs')
    show ?thesis
    proof (cases ys)
      case Nil
      have "hd (f x) = c"
        using arg_cong [OF eq, of hd] Nil xs start [of x] by (simp add: separated_Cons)
      with close start [of x] show ?thesis by auto
    next
      case ys: (Cons y ys')
      let ?r = "\<lambda>ws z. concat (map (\<lambda>y. CHR '','' # f y) ws) @ c # z"
      have "stops (?r ws z)" for ws z using close by (cases ws) (auto simp: stops_def)
      moreover have "f x @ ?r xs' s = f y @ ?r ys' t"
        using eq xs ys by (simp add: separated_Cons comp_def)
      ultimately have "x = y \<and> ?r xs' s = ?r ys' t"
        using assms(1) xs unfolding readable_def by (meson list.set_intros(1))
      with tail [of xs' ys'] assms(1) xs ys show ?thesis by simp
    qed
  qed
qed

lemma int_str_prefix:
  assumes "int_str i @ s = int_str j @ t" and "stops s" and "stops t"
  shows "i = j \<and> s = t"
proof -
  have "takeWhile int_char (int_str k @ u) = int_str k" if "stops u" for k u
    using int_str_chars [of k] that
    by (cases u) (auto simp: takeWhile_append stops_def int_char_def takeWhile_eq_all_conv)
  from this [OF assms(2), of i] this [OF assms(3), of j] assms(1) have "int_str i = int_str j"
    by simp
  with assms(1) show ?thesis by (simp add: int_str_inj)
qed

lemma json_quote_start: "json_quote u \<noteq> [] \<and> hd (json_quote u) = CHR 0x22"
  by (simp add: json_quote_def)

lemma int_str_start: "int_char (hd (int_str i))"
  using int_str_chars [of i] hd_in_set [of "int_str i"] by blast

lemma render_start:
  "render a \<noteq> [] \<and> (case a of
     JNull \<Rightarrow> hd (render a) = CHR ''n'' | JBool b \<Rightarrow> hd (render a) = (if b then CHR ''t'' else CHR ''f'')
   | JInt i \<Rightarrow> int_char (hd (render a)) | JStr s \<Rightarrow> hd (render a) = CHR 0x22
   | JList xs \<Rightarrow> hd (render a) = CHR ''['' | JObj ms \<Rightarrow> hd (render a) = CHR ''{'')"
  using int_str_chars int_str_start json_quote_start by (cases a) auto

lemma render_head: "render a @ s = render b @ t \<Longrightarrow> hd (render a) = hd (render b)"
  using render_start [of a] render_start [of b] by (metis hd_append2)

lemma render_member_start: "render_member m \<noteq> [] \<and> hd (render_member m) = CHR 0x22"
  using json_quote_start by (auto simp: render_member_def case_prod_beta hd_append)

lemma render_readable: "readable render a"
proof (induction a)
  case (JList xs)
  have items: "\<forall>x \<in> set xs. readable render x" using JList by blast
  have start: "render x \<noteq> [] \<and> hd (render x) \<notin> {CHR '']'', CHR ''}''}" for x
    using render_start [of x] by (cases x) (auto simp: int_char_def)
  show ?case
    unfolding readable_def
  proof (intro allI impI)
    fix y s t assume eq: "render (JList xs) @ s = render y @ t"
    then have "hd (render y) = CHR ''[''"
      using render_head [OF eq] by simp
    then obtain ys where y: "y = JList ys"
      using render_start [of y] by (cases y) (auto simp: int_char_def split: if_splits)
    from eq separated_readable [OF items _ start, of "CHR '']''" s ys t] y show "JList xs = y \<and> s = t"
      by (simp add: render_items_map)
  qed
next
  case (JObj ms)
  have members: "\<forall>m \<in> set ms. readable render_member m"
  proof
    fix m assume m: "m \<in> set ms"
    obtain k v where kv: "m = (k, v)" by fastforce
    have "readable render v" by (rule JObj [OF m]) (simp add: kv snds.simps)
    show "readable render_member m"
      unfolding readable_def
    proof (intro allI impI)
      fix y s t assume stops: "stops s" "stops t" and eq: "render_member m @ s = render_member y @ t"
      obtain k' v' where y: "y = (k', v')" by fastforce
      from eq have "json_quote k @ CHR '':'' # render v @ s = json_quote k' @ CHR '':'' # render v' @ t"
        by (simp add: kv y render_member_def)
      from json_quote_prefix [OF this] have "k = k'" "render v @ s = render v' @ t" by simp_all
      with \<open>readable render v\<close> stops kv y show "m = y \<and> s = t"
        unfolding readable_def by blast
    qed
  qed
  have start: "render_member x \<noteq> [] \<and> hd (render_member x) \<notin> {CHR '']'', CHR ''}''}" for x
    using render_member_start [of x] by auto
  show ?case
    unfolding readable_def
  proof (intro allI impI)
    fix y s t assume eq: "render (JObj ms) @ s = render y @ t"
    then have "hd (render y) = CHR ''{''"
      using render_head [OF eq] by simp
    then obtain ns where y: "y = JObj ns"
      using render_start [of y] by (cases y) (auto simp: int_char_def split: if_splits)
    from eq separated_readable [OF members _ start, of "CHR ''}''" s ns t] y show "JObj ms = y \<and> s = t"
      by (simp add: render_members_map)
  qed
next
  case (JInt i)
  show ?case
    unfolding readable_def
  proof (intro allI impI)
    fix y s t assume stops: "stops s" "stops t" and eq: "render (JInt i) @ s = render y @ t"
    have "hd (render y) = hd (int_str i)"
      using render_head [OF eq] by simp
    then have "int_char (hd (render y))" using int_str_start by simp
    then obtain j where y: "y = JInt j"
      using render_start [of y] by (cases y) (auto simp: int_char_def split: if_splits)
    from int_str_prefix [of i s j t] eq stops y show "JInt i = y \<and> s = t" by simp
  qed
next
  case (JStr u)
  show ?case
    unfolding readable_def
  proof (intro allI impI)
    fix y s t assume eq: "render (JStr u) @ s = render y @ t"
    then have "hd (render y) = CHR 0x22"
      using render_head [OF eq] json_quote_start [of u] by simp
    then obtain v where y: "y = JStr v"
      using render_start [of y] by (cases y) (auto simp: int_char_def split: if_splits)
    from json_quote_prefix [of u s v t] eq y show "JStr u = y \<and> s = t" by simp
  qed
next
  case (JBool b)
  show ?case
    unfolding readable_def
  proof (intro allI impI)
    fix y s t assume eq: "render (JBool b) @ s = render y @ t"
    then have "hd (render y) = (if b then CHR ''t'' else CHR ''f'')"
      using render_head [OF eq] by (simp split: if_splits)
    then have "y = JBool b"
      using render_start [of y] by (cases y) (auto simp: int_char_def split: if_splits)
    with eq show "JBool b = y \<and> s = t" by simp
  qed
next
  case JNull
  show ?case
    unfolding readable_def
  proof (intro allI impI)
    fix y s t assume eq: "render JNull @ s = render y @ t"
    then have "hd (render y) = CHR ''n''"
      using render_head [OF eq] by simp
    then have "y = JNull"
      using render_start [of y] by (cases y) (auto simp: int_char_def split: if_splits)
    with eq show "JNull = y \<and> s = t" by simp
  qed
qed

text \<open>
  C11. The fingerprint text is canonical: two payloads have the same text exactly when they
  are the same up to the order of the members of their objects, so a key can only be reused
  for a different request if SHA-256 collides.
\<close>

theorem canonical_iff: "canonical a = canonical b \<longleftrightarrow> ordered a = ordered b"
  using render_readable [of "ordered a"] unfolding readable_def
  by (metis append_Nil2 canonical_render(1) stops_def)

section \<open>Repeating a request\<close>

lemma acquire_new:
  assumes "acquire_at sha256 db0 db user scope (Some key) payload = Inr (d, db1)"
    and "\<not> de_is_replay d"
  shows "validate_key key = Inr ()" and "find_record db user scope key = None"
    and "\<exists>r. de_record d = Some r \<and> idr_user_id r = user \<and> idr_scope r = scope \<and>
      idr_idempotency_key r = key \<and> idr_request_hash r = request_hash sha256 payload \<and>
      t_idempotency db1 = t_idempotency db @ [r]"
  using assms by (auto simp: acquire_at_def and_then_Inr_iff Let_def uuid4_def
      simp del: first_where_None split: option.splits)

lemma acquire_found:
  assumes "validate_key key = Inr ()" and "find_record db0 user scope key \<in> {None, Some r}"
    and "find_record db user scope key = Some r" and "idr_status r = IDEM_COMPLETED"
    and "idr_result_id r \<noteq> None"
  shows "acquire_at sha256 db0 db user scope (Some key) payload =
    (if request_hash sha256 payload = idr_request_hash r
     then Inr (\<lparr>de_record = Some r, de_is_replay = True\<rparr>, db)
     else Inl (ApiError 409 ''IDEMPOTENCY_KEY_CONFLICT''))"
  using assms by (auto simp: acquire_at_def Let_def assert_reusable_def)

text \<open>
  C12. A request is executed at most once per key: once an operation that acquired a key has
  completed it with a result, every later request under that key, even one that looked the
  key up before the first was committed, gets this result and changes nothing if its payload
  has the same fingerprint, and a conflict otherwise.
\<close>

theorem idempotent_replay:
  assumes "acquire sha256 db user scope (Some key) payload = Inr (d, db1)" and "\<not> de_is_replay d"
    and "t_idempotency db2 = t_idempotency db1"
    and "db3 = complete db2 (de_record d) result_type result_id response_status"
    and "find_record db0 user scope key \<in> {None, find_record db3 user scope key}"
  shows "\<exists>d'. acquire_at sha256 db0 db3 user scope (Some key) payload' =
      (if request_hash sha256 payload' = request_hash sha256 payload then Inr (d', db3)
       else Inl (ApiError 409 ''IDEMPOTENCY_KEY_CONFLICT'')) \<and>
    replay_result_id d' result_type = Inr (Some result_id)"
proof -
  from acquire_new [OF assms(1) [unfolded acquire_def] assms(2)] obtain r where
    key: "validate_key key = Inr ()" and none: "find_record db user scope key = None"
    and r: "de_record d = Some r" "idr_user_id r = user" "idr_scope r = scope"
      "idr_idempotency_key r = key" "idr_request_hash r = request_hash sha256 payload"
      "t_idempotency db1 = t_idempotency db @ [r]" by blast
  let ?f = "\<lambda>x. x\<lparr>idr_result_type := Some result_type, idr_result_id := Some result_id,
     idr_response_status := Some response_status, idr_status := IDEM_COMPLETED\<rparr>"
  let ?p = "\<lambda>x. idr_user_id x = user \<and> idr_scope x = scope \<and> idr_idempotency_key x = key"
  have "t_idempotency db3 = update_where (\<lambda>x. idr_id x = idr_id r) ?f (t_idempotency db @ [r])"
    using assms(3,4) r by (simp add: complete_def)
  moreover have "first_where ?p (update_where q ?f t) = None" if "first_where ?p t = None" for q t
    using that by (auto simp: update_where_def)
  from this [OF none [unfolded find_record_def]]
  have "first_where ?p (update_where (\<lambda>x. idr_id x = idr_id r) ?f (t_idempotency db)) = None" .
  ultimately have found: "find_record db3 user scope key = Some (?f r)"
    using r(2-4) by (simp add: find_record_def table_simps first_where_append
        first_where_Cons del: first_where_None)
  have "acquire_at sha256 db0 db3 user scope (Some key) payload' =
      (if request_hash sha256 payload' = idr_request_hash (?f r)
       then Inr (\<lparr>de_record = Some (?f r), de_is_replay = True\<rparr>, db3)
       else Inl (ApiError 409 ''IDEMPOTENCY_KEY_CONFLICT''))"
    by (rule acquire_found [OF key _ found]) (use assms(5) found in simp_all)
  then show ?thesis
    using r(5) by (intro exI [of _ "\<lparr>de_record = Some (?f r), de_is_replay = True\<rparr>"])
      (simp add: replay_result_id_def)
qed

text \<open>An example of the fingerprint function: the text itself.\<close>

theorem idempotent_replay_witness:
  "\<exists>d db1 d'. acquire id (sample_db [] []) 101 ''POST:/v1/quotes'' (Some ''k-1'')
       (JObj [(''shot'', JInt 3)]) = Inr (d, db1) \<and>
     acquire_at id (sample_db [] []) (complete db1 (de_record d) ''generation_quote'' 7 201) 101
       ''POST:/v1/quotes'' (Some ''k-1'') (JObj [(''shot'', JInt 3)]) =
     Inr (d', complete db1 (de_record d) ''generation_quote'' 7 201) \<and>
     replay_result_id d' ''generation_quote'' = Inr (Some 7)"
proof -
  let ?p = "JObj [(''shot'', JInt 3)]"
  let ?r = "acquire id (sample_db [] []) 101 ''POST:/v1/quotes'' (Some ''k-1'') ?p"
  have "is_ok ?r \<and> \<not> de_is_replay (fst (projr ?r))" by code_simp
  then obtain d db1 where r: "?r = Inr (d, db1)" "\<not> de_is_replay d" by (cases ?r) auto
  have "find_record (sample_db [] []) 101 ''POST:/v1/quotes'' ''k-1'' = None"
    by (simp add: find_record_def sample_defs)
  then have "find_record (sample_db [] []) 101 ''POST:/v1/quotes'' ''k-1'' \<in>
      {None, find_record (complete db1 (de_record d) ''generation_quote'' 7 201) 101
        ''POST:/v1/quotes'' ''k-1''}" by simp
  from idempotent_replay [OF r refl refl this, of ?p] r(1) show ?thesis by auto
qed

end
