(* ===== verification/DeadLetters.thy ===== *)
theory DeadLetters
  imports Samples
begin

text \<open>
  Dead letters (apps/api/app/dead_letters.py): the record of an outbox or cleanup event that
  ran out of attempts, and its replay by an administrator, which is audited.
\<close>

definition dead_letter_source_value :: "dead_letter_source \<Rightarrow> string" where
  "dead_letter_source_value s =
     (case s of DL_OUTBOX \<Rightarrow> ''OUTBOX'' | DL_STORAGE_CLEANUP \<Rightarrow> ''STORAGE_CLEANUP'')"

definition find_dead_letter ::
  "database \<Rightarrow> dead_letter_source \<Rightarrow> uuid \<Rightarrow> dead_letter_event option" where
  "find_dead_letter db source_type source_id =
     first_where (\<lambda>d. dl_source_type d = source_type \<and> dl_source_id d = source_id)
       (t_dead_letters db)"

definition dead_letter_checks :: "dead_letter_event \<Rightarrow> bool" where
  "dead_letter_checks d \<longleftrightarrow> dl_attempt_count d > 0 \<and> dl_cycle_count d > 0"

definition add_dead_letter ::
  "database \<Rightarrow> dead_letter_source \<Rightarrow> uuid \<Rightarrow> string \<Rightarrow> json \<Rightarrow> int \<Rightarrow> string \<Rightarrow> error + database" where
  "add_dead_letter db source_type source_id event_type payload attempt_count error =
     (case find_dead_letter db source_type source_id of
        Some existing \<Rightarrow>
          if dl_status existing = DL_REPLAYED
          then if attempt_count \<le> 0 then Inl (IntegrityError ''ck_dead_letter_events_attempt_count'')
            else Inr (db\<lparr>t_dead_letters := update_where (\<lambda>d. dl_id d = dl_id existing)
              (\<lambda>d. d\<lparr>dl_event_type := event_type, dl_payload := payload,
                 dl_attempt_count := attempt_count, dl_cycle_count := dl_cycle_count existing + 1,
                 dl_last_error := error, dl_status := DL_OPEN, dl_replayed_at := None\<rparr>)
              (t_dead_letters db)\<rparr>)
          else Inr db
      | None \<Rightarrow>
          let (i, db) = uuid4 db;
              event = \<lparr>dl_id = i, dl_source_type = source_type, dl_source_id = source_id,
                dl_event_type = event_type, dl_payload = payload,
                dl_attempt_count = attempt_count, dl_cycle_count = 1, dl_last_error = error,
                dl_status = DL_OPEN, dl_replayed_at = None, dl_created_at = db_now db\<rparr>
          in if \<not> dead_letter_checks event then Inl (IntegrityError ''ck_dead_letter_events_attempt_count'')
             else Inr (db\<lparr>t_dead_letters := t_dead_letters db @ [event]\<rparr>))"

text \<open>The source of a dead letter goes back to the queue: its status, or None when there is no
  row, and the database with it pending.\<close>

definition source_status :: "database \<Rightarrow> dead_letter_event \<Rightarrow> outbox_status option" where
  "source_status db d =
     (case dl_source_type d of
        DL_OUTBOX \<Rightarrow> map_option ob_status
          (first_where (\<lambda>e. ob_id e = dl_source_id d) (t_outbox db))
      | DL_STORAGE_CLEANUP \<Rightarrow> map_option ce_status
          (first_where (\<lambda>e. ce_id e = dl_source_id d) (t_cleanup_events db)))"

definition requeue_source :: "database \<Rightarrow> dead_letter_event \<Rightarrow> time \<Rightarrow> database" where
  "requeue_source db d now =
     (case dl_source_type d of
        DL_OUTBOX \<Rightarrow> db\<lparr>t_outbox := update_where (\<lambda>e. ob_id e = dl_source_id d)
          (\<lambda>e. e\<lparr>ob_status := OB_PENDING, ob_attempt_count := 0, ob_next_attempt_at := now,
             ob_locked_at := None, ob_lock_token := None, ob_last_error := None\<rparr>) (t_outbox db)\<rparr>
      | DL_STORAGE_CLEANUP \<Rightarrow> db\<lparr>t_cleanup_events := update_where (\<lambda>e. ce_id e = dl_source_id d)
          (\<lambda>e. e\<lparr>ce_status := OB_PENDING, ce_attempt_count := 0, ce_next_attempt_at := now,
             ce_locked_at := None, ce_lock_token := None, ce_last_error := None\<rparr>)
          (t_cleanup_events db)\<rparr>)"

definition replay_key :: "dead_letter_event \<Rightarrow> string" where
  "replay_key d = ''dead-letter:'' @ uuid_str (dl_id d) @ '':cycle:'' @ int_str (dl_cycle_count d) @
     '':replay:v1''"

definition replay_dead_letter ::
  "database \<Rightarrow> uuid \<Rightarrow> app_user \<Rightarrow> time \<Rightarrow> error + (dead_letter_event option \<times> database)" where
  "replay_dead_letter db dead_letter_id actor now =
     (case first_where (\<lambda>d. dl_id d = dead_letter_id) (t_dead_letters db) of
        None \<Rightarrow> Inr (None, db)
      | Some d \<Rightarrow>
          if dl_status d = DL_REPLAYED then Inr (Some d, db)
          else if source_status db d \<noteq> Some OB_DEAD_LETTER
          then Inl (RuntimeError ''dead-letter source is missing or no longer replayable'')
          else
            let db = requeue_source db d now;
                replayed = (\<lambda>d. d\<lparr>dl_status := DL_REPLAYED, dl_replayed_at := Some now\<rparr>);
                audit = \<lparr>aa_actor_user_id = user_id actor, aa_operation_type = ''dead_letter.replay'',
                  aa_operation_key = replay_key d, aa_target_type = ''dead_letter_event'',
                  aa_target_id = dl_id d,
                  aa_details = JObj [(''source_type'', JStr (dead_letter_source_value (dl_source_type d))),
                    (''source_id'', JStr (uuid_str (dl_source_id d))),
                    (''attempt_count'', JInt (dl_attempt_count d)),
                    (''cycle_count'', JInt (dl_cycle_count d))],
                  aa_created_at = db_now db\<rparr>
            in if exists_where (\<lambda>a. aa_operation_key a = aa_operation_key audit) (t_audits db)
               then Inl (IntegrityError ''uq_admin_operation_audits_operation_key'')
               else Inr (Some (replayed d),
                 db\<lparr>t_dead_letters := update_where (\<lambda>x. dl_id x = dl_id d) replayed (t_dead_letters db),
                    t_audits := t_audits db @ [audit]\<rparr>))"

section \<open>What adding and replaying leave alone\<close>

lemma add_dead_letter_frame:
  assumes "add_dead_letter db ty i et p n e = Inr db'"
  shows "t_outbox db' = t_outbox db" "t_cleanup_events db' = t_cleanup_events db"
    "t_cleanup_objects db' = t_cleanup_objects db" "t_attempts db' = t_attempts db"
    "t_jobs db' = t_jobs db" "t_audits db' = t_audits db"
  using assms by (auto simp: add_dead_letter_def Let_def uuid4_def split: option.splits if_splits)

end
