(* ===== verification/Leases.thy ===== *)
theory Leases
  imports Prelude
begin

text \<open>
  The contract of a leased queue, which every background dispatcher of the program relies on:
  a row is free, held under a lock token, or done; claiming gives it a token, and only the
  holder of the current token can finish it, give it back or renew it. The locale states what
  a queue of the model has to provide; the consequences for any interleaving of workers are
  proved once here.
\<close>

section \<open>The abstract lease of a row\<close>

datatype lease = Free | Held string | Done

datatype lease_op =
    Claim uuid string
  | Finish uuid string
  | Give_back uuid string
  | Renew uuid string

fun op_key :: "lease_op \<Rightarrow> uuid" where
  "op_key (Claim k t) = k"
| "op_key (Finish k t) = k"
| "op_key (Give_back k t) = k"
| "op_key (Renew k t) = k"

text \<open>One row under one operation: the operations that are not allowed are None.\<close>

fun lease_step :: "lease \<Rightarrow> lease_op \<Rightarrow> lease option" where
  "lease_step l (Claim k t) = (if l = Done then None else Some (Held t))"
| "lease_step l (Finish k t) = (if l = Held t then Some Done else None)"
| "lease_step l (Give_back k t) = (if l = Held t then Some Free else None)"
| "lease_step l (Renew k t) = (if l = Held t then Some l else None)"

fun lease_run :: "lease \<Rightarrow> lease_op list \<Rightarrow> lease option" where
  "lease_run l [] = Some l"
| "lease_run l (e # es) = (case lease_step l e of None \<Rightarrow> None | Some l' \<Rightarrow> lease_run l' es)"

lemma lease_run_append:
  "lease_run l (as @ bs) = (case lease_run l as of None \<Rightarrow> None | Some l' \<Rightarrow> lease_run l' bs)"
  by (induction as arbitrary: l) (auto split: option.splits)

text \<open>Nothing happens to a row that is done.\<close>

lemma lease_run_Done: "lease_run Done es = Some l \<Longrightarrow> es = []"
proof (cases es)
  case (Cons e es')
  then show "lease_run Done es = Some l \<Longrightarrow> es = []" by (cases e) simp_all
qed simp

lemma lease_run_finished_last:
  assumes "lease_run l (as @ Finish k t # bs) = Some l'"
  shows "bs = [] \<and> l' = Done"
proof -
  obtain m where m: "lease_run l as = Some m" "lease_run m (Finish k t # bs) = Some l'"
    using assms by (auto simp: lease_run_append split: option.splits)
  then have run: "lease_run Done bs = Some l'"
    by (auto split: if_splits option.splits)
  from lease_run_Done [OF run] run show ?thesis by simp
qed

text \<open>A row held under a token was last claimed with it, or held under it from the start.\<close>

lemma lease_run_Held:
  assumes "lease_run l es = Some (Held t)"
  shows "(l = Held t \<and> (\<forall>e \<in> set es. \<exists>k. e = Renew k t)) \<or>
    (\<exists>as k bs. es = as @ Claim k t # bs \<and> (\<forall>e \<in> set bs. \<exists>k. e = Renew k t))"
  using assms
proof (induction es rule: rev_induct)
  case Nil
  then show ?case by simp
next
  case (snoc e es)
  from snoc.prems obtain m where m: "lease_run l es = Some m" "lease_step m e = Some (Held t)"
    by (auto simp: lease_run_append split: option.splits)
  show ?case
  proof (cases e)
    case (Claim k u)
    with m(2) have "u = t" by (auto split: if_splits)
    with Claim have "es @ [e] = es @ Claim k t # [] \<and> (\<forall>e \<in> set []. \<exists>k. e = Renew k t)" by simp
    then show ?thesis by blast
  next
    case (Renew k u)
    with m(2) have "m = Held t" "u = t" by (auto split: if_splits)
    with snoc.IH m(1) consider "l = Held t" "\<forall>e \<in> set es. \<exists>k. e = Renew k t"
      | as k bs where "es = as @ Claim k t # bs" "\<forall>e \<in> set bs. \<exists>k. e = Renew k t"
      by blast
    then show ?thesis
    proof cases
      case 1
      with Renew \<open>u = t\<close> show ?thesis by auto
    next
      case 2
      then have "es @ [e] = as @ Claim k t # (bs @ [e]) \<and> (\<forall>e \<in> set (bs @ [e]). \<exists>k. e = Renew k t)"
        using Renew \<open>u = t\<close> by auto
      then show ?thesis by blast
    qed
  qed (use m(2) in \<open>auto split: if_splits\<close>)
qed

section \<open>Queues\<close>

text \<open>A run applies operations in any order; one that is refused (its worker gets an
  exception and its transaction is rolled back) leaves the state as it is.\<close>

fun run_ops :: "('s \<Rightarrow> 'op \<Rightarrow> (lease_op option \<times> 's) option) \<Rightarrow> 's \<Rightarrow> 'op list \<Rightarrow>
    lease_op list \<times> 's" where
  "run_ops apply_op s [] = ([], s)"
| "run_ops apply_op s (op # ops) =
     (case apply_op s op of
        None \<Rightarrow> run_ops apply_op s ops
      | Some (ev, s') \<Rightarrow>
          (case ev of None \<Rightarrow> run_ops apply_op s' ops
           | Some e \<Rightarrow> (let (es, s'') = run_ops apply_op s' ops in (e # es, s''))))"

locale leased_queue =
  fixes lease_of :: "'s \<Rightarrow> uuid \<Rightarrow> lease"
    and ok :: "'s \<Rightarrow> bool"
    and apply_op :: "'s \<Rightarrow> 'op \<Rightarrow> (lease_op option \<times> 's) option"
  assumes step_ok: "ok s \<Longrightarrow> apply_op s op = Some (ev, s') \<Longrightarrow> ok s'"
    and step_event: "ok s \<Longrightarrow> apply_op s op = Some (Some e, s') \<Longrightarrow>
      lease_step (lease_of s (op_key e)) e = Some (lease_of s' (op_key e)) \<and>
      (\<forall>k. k \<noteq> op_key e \<longrightarrow> lease_of s' k = lease_of s k)"
    and step_silent: "ok s \<Longrightarrow> apply_op s op = Some (None, s') \<Longrightarrow> lease_of s' = lease_of s"
begin

lemma run_ok: "ok s \<Longrightarrow> ok (snd (run_ops apply_op s ops))"
proof (induction ops arbitrary: s)
  case (Cons op ops)
  then show ?case
    using step_ok [OF Cons.prems]
    by (cases "apply_op s op") (auto simp: case_prod_beta split: option.splits)
qed simp

lemma run_lease:
  "ok s \<Longrightarrow> lease_run (lease_of s k) (filter (\<lambda>e. op_key e = k) (fst (run_ops apply_op s ops))) =
     Some (lease_of (snd (run_ops apply_op s ops)) k)"
proof (induction ops arbitrary: s)
  case Nil
  then show ?case by simp
next
  case (Cons op ops)
  show ?case
  proof (cases "apply_op s op")
    case None
    with Cons show ?thesis by simp
  next
    case (Some r)
    obtain ev s' where r: "r = (ev, s')" by fastforce
    have ok': "ok s'" using step_ok [OF Cons.prems] Some r by simp
    show ?thesis
    proof (cases ev)
      case None
      then have "lease_of s' = lease_of s" using step_silent [OF Cons.prems] Some r by simp
      with Cons.IH [OF ok'] Some r None show ?thesis by simp
    next
      case (Some e)
      with \<open>apply_op s op = Some r\<close> r
      have "lease_step (lease_of s (op_key e)) e = Some (lease_of s' (op_key e))"
        and "k \<noteq> op_key e \<Longrightarrow> lease_of s' k = lease_of s k"
        using step_event [OF Cons.prems] by simp_all
      with Cons.IH [OF ok'] Some \<open>apply_op s op = Some r\<close> r show ?thesis
        by (cases "op_key e = k") (simp_all add: case_prod_beta)
    qed
  qed
qed

text \<open>In a run, a row is finished at most once, as the last thing that happens to it, and only
  under the token of its latest claim.\<close>

lemma finished_once:
  assumes "ok s" and "filter (\<lambda>e. op_key e = k) (fst (run_ops apply_op s ops)) = as @ Finish k t # bs"
  shows "bs = [] \<and> lease_of (snd (run_ops apply_op s ops)) k = Done"
  using lease_run_finished_last run_lease [OF assms(1), of k ops] unfolding assms(2) by metis

lemma finished_by_holder:
  assumes "ok s" and "filter (\<lambda>e. op_key e = k) (fst (run_ops apply_op s ops)) = as @ Finish k t # bs"
    and "lease_of s k \<noteq> Held t"
  shows "\<exists>bs' k' cs. as = bs' @ Claim k' t # cs \<and> (\<forall>e \<in> set cs. \<exists>k. e = Renew k t)"
proof -
  have "lease_run (lease_of s k) (as @ Finish k t # bs) \<noteq> None"
    using run_lease [OF assms(1), of k ops] unfolding assms(2) by simp
  then have "lease_run (lease_of s k) as = Some (Held t)"
    by (auto simp: lease_run_append split: option.splits if_splits)
  from lease_run_Held [OF this] assms(3) show ?thesis by blast
qed

end

end
