(* ===== verification/Outbox.thy ===== *)
theory Outbox
  imports DeadLetters Leases
begin

text \<open>
  The workflow outbox (apps/api/app/outbox.py): the event enqueued with a job, and the
  dispatcher that claims it under a lease, starts the workflow, and marks it published,
  schedules a retry or dead-letters it. \<open>now\<close> arguments are the values of the dispatcher's
  clock. A claim reads its candidates from \<open>db0\<close> and updates \<open>db\<close>, which other dispatchers
  may have changed. The workflow engine is a parameter; the failure-injection seams and the
  log lines are not modelled.
\<close>

definition GENERATION_WORKFLOW_START :: string where
  "GENERATION_WORKFLOW_START = ''generation.workflow.start''"

definition generation_workflow_key :: "uuid \<Rightarrow> string" where
  "generation_workflow_key i = ''generation-job:'' @ uuid_str i @ '':v1''"

text \<open>The constraints an inserted outbox row meets.\<close>

definition insert_outbox :: "database \<Rightarrow> outbox_event \<Rightarrow> error + database" where
  "insert_outbox db e =
     (if exists_where (\<lambda>x. ob_job_id x = ob_job_id e \<and> ob_event_type x = ob_event_type e) (t_outbox db)
      then Inl (IntegrityError ''uq_outbox_events_job_event'')
      else if exists_where (\<lambda>x. ob_id x = ob_id e) (t_outbox db)
      then Inl (IntegrityError ''outbox_events_pkey'')
      else if exists_where (\<lambda>x. ob_idempotency_key x = ob_idempotency_key e) (t_outbox db)
      then Inl (IntegrityError ''uq_outbox_events_idempotency_key'')
      else if \<not> outbox_checks e then Inl (IntegrityError ''outbox_events'')
      else Inr (db\<lparr>t_outbox := t_outbox db @ [e]\<rparr>))"

definition enqueue_generation_workflow :: "database \<Rightarrow> generation_job \<Rightarrow> error + database" where
  "enqueue_generation_workflow db job =
     (let (i, db) = uuid4 db in
      insert_outbox db \<lparr>ob_id = i, ob_job_id = job_id job, ob_attempt_id = None,
        ob_event_type = GENERATION_WORKFLOW_START,
        ob_idempotency_key = generation_workflow_key (job_id job),
        ob_payload = JObj [(''job_id'', JStr (uuid_str (job_id job)))], ob_status = OB_PENDING,
        ob_attempt_count = 0, ob_next_attempt_at = db_now db, ob_locked_at = None,
        ob_lock_token = None, ob_published_at = None, ob_workflow_id = None,
        ob_last_error = None, ob_created_at = db_now db\<rparr>)"

record claimed_outbox_event =
  cl_id :: uuid
  cl_job_id :: uuid
  cl_event_type :: string
  cl_idempotency_key :: string
  cl_payload :: json
  cl_lock_token :: string

datatype dispatch_result = DISPATCH_IDLE | DISPATCH_PUBLISHED | DISPATCH_RETRY | DISPATCH_DEAD

record dispatcher =
  dc_lease_duration :: timedelta
  dc_retry_delay :: timedelta
  dc_max_attempts :: int

definition outbox_dispatcher :: "timedelta \<Rightarrow> timedelta \<Rightarrow> int \<Rightarrow> error + dispatcher" where
  "outbox_dispatcher lease_duration retry_delay max_attempts =
     (if max_attempts \<le> 0 then Inl (ValueError ''outbox max attempts must be positive'')
      else Inr \<lparr>dc_lease_duration = lease_duration, dc_retry_delay = retry_delay,
        dc_max_attempts = max_attempts\<rparr>)"

section \<open>Claiming\<close>

definition outbox_dispatchable :: "dispatcher \<Rightarrow> time \<Rightarrow> outbox_event \<Rightarrow> bool" where
  "outbox_dispatchable cfg now e \<longleftrightarrow> ob_event_type e = GENERATION_WORKFLOW_START \<and>
     (ob_status e = OB_PENDING \<and> ob_next_attempt_at e \<le> now \<or>
      ob_status e = OB_PROCESSING \<and>
        (case ob_locked_at e of None \<Rightarrow> False | Some l \<Rightarrow> l \<le> now - dc_lease_duration cfg))"

definition claim_row :: "time \<Rightarrow> string \<Rightarrow> outbox_event \<Rightarrow> outbox_event" where
  "claim_row now lock_token e = e\<lparr>ob_status := OB_PROCESSING,
     ob_attempt_count := ob_attempt_count e + 1, ob_locked_at := Some now,
     ob_lock_token := Some lock_token, ob_last_error := None\<rparr>"

fun claim_candidates ::
  "(outbox_event \<Rightarrow> bool) \<Rightarrow> time \<Rightarrow> outbox_event list \<Rightarrow> database \<Rightarrow>
   claimed_outbox_event option \<times> database" where
  "claim_candidates dispatchable now [] db = (None, db)"
| "claim_candidates dispatchable now (candidate # rest) db =
     (let (i, db) = uuid4 db;
          lock_token = uuid_str i;
          matching = (\<lambda>e. ob_id e = ob_id candidate \<and> dispatchable e) in
      if row_count matching (t_outbox db) \<noteq> 1 then claim_candidates dispatchable now rest db
      else (Some \<lparr>cl_id = ob_id candidate, cl_job_id = ob_job_id candidate,
               cl_event_type = ob_event_type candidate,
               cl_idempotency_key = ob_idempotency_key candidate,
               cl_payload = ob_payload candidate, cl_lock_token = lock_token\<rparr>,
            db\<lparr>t_outbox := update_where matching (claim_row now lock_token) (t_outbox db)\<rparr>))"

definition claim_one_at ::
  "dispatcher \<Rightarrow> database \<Rightarrow> database \<Rightarrow> time \<Rightarrow> claimed_outbox_event option \<times> database" where
  "claim_one_at cfg db0 db now =
     (let dispatchable = outbox_dispatchable cfg now;
          candidates = take 8 (sort_key (\<lambda>e. (ob_created_at e, ob_id e))
            (select_where dispatchable (t_outbox db0)))
      in claim_candidates dispatchable now candidates db)"

definition claim_one :: "dispatcher \<Rightarrow> database \<Rightarrow> time \<Rightarrow> claimed_outbox_event option \<times> database" where
  "claim_one cfg db = claim_one_at cfg db db"

section \<open>Publishing, retrying, dead-lettering\<close>

text \<open>The row a worker holds: its claim is still the current one.\<close>

definition holds_lease :: "uuid \<Rightarrow> string \<Rightarrow> outbox_event \<Rightarrow> bool" where
  "holds_lease i lock_token e \<longleftrightarrow>
     ob_id e = i \<and> ob_status e = OB_PROCESSING \<and> ob_lock_token e = Some lock_token"

text \<open>\<open>f"{type(exc).__name__}: {exc}"[:2000]\<close>, of an exception's type name and text.\<close>

definition error_text :: "string \<times> string \<Rightarrow> string" where
  "error_text = (\<lambda>(name, text). take 2000 (name @ '': '' @ text))"

definition schedule_retry ::
  "dispatcher \<Rightarrow> database \<Rightarrow> claimed_outbox_event \<Rightarrow> string \<times> string \<Rightarrow> time \<Rightarrow>
   error + (dispatch_result \<times> database)" where
  "schedule_retry cfg db event exc now =
     (let mine = holds_lease (cl_id event) (cl_lock_token event);
          error = error_text exc in
      case first_where mine (t_outbox db) of
        None \<Rightarrow> Inl (RuntimeError ''outbox lease was lost while scheduling a retry'')
      | Some source \<Rightarrow>
          if ob_attempt_count source \<ge> dc_max_attempts cfg
          then and_then (add_dead_letter db DL_OUTBOX (ob_id source) (ob_event_type source)
                 (ob_payload source) (ob_attempt_count source) error)
               (\<lambda>db. Inr (DISPATCH_DEAD, db\<lparr>t_outbox := update_where (\<lambda>e. ob_id e = ob_id source)
                 (\<lambda>e. e\<lparr>ob_status := OB_DEAD_LETTER, ob_locked_at := None,
                    ob_lock_token := None, ob_last_error := Some error\<rparr>) (t_outbox db)\<rparr>))
          else Inr (DISPATCH_RETRY, db\<lparr>t_outbox := update_where (\<lambda>e. ob_id e = ob_id source)
                 (\<lambda>e. e\<lparr>ob_status := OB_PENDING, ob_next_attempt_at := now + dc_retry_delay cfg,
                    ob_locked_at := None, ob_lock_token := None,
                    ob_last_error := Some error\<rparr>) (t_outbox db)\<rparr>))"

definition mark_published ::
  "database \<Rightarrow> claimed_outbox_event \<Rightarrow> string \<Rightarrow> time \<Rightarrow> error + database" where
  "mark_published db event workflow_id now =
     (let mine = holds_lease (cl_id event) (cl_lock_token event) in
      if row_count mine (t_outbox db) \<noteq> 1
      then Inl (RuntimeError ''outbox lease was lost while marking the event published'')
      else Inr (db\<lparr>t_outbox := update_where mine
             (\<lambda>e. e\<lparr>ob_status := OB_PUBLISHED, ob_published_at := Some now,
                ob_workflow_id := Some workflow_id, ob_locked_at := None,
                ob_lock_token := None, ob_last_error := None\<rparr>) (t_outbox db)\<rparr>))"

text \<open>
  One pass of the dispatcher. \<open>start\<close> is the workflow engine: the exception it raises, or the
  workflow it started; \<open>meanwhile\<close> is what others do to the database while it runs. Each
  stage is a transaction of its own: what it wrote stays when a later one raises.
\<close>

definition dispatch_once ::
  "dispatcher \<Rightarrow> (claimed_outbox_event \<Rightarrow> (string \<times> string) + string) \<Rightarrow> (database \<Rightarrow> database) \<Rightarrow>
   database \<Rightarrow> time \<Rightarrow> time \<Rightarrow> (error + dispatch_result) \<times> database" where
  "dispatch_once cfg start meanwhile db now now' =
     (case claim_one cfg db now of
        (None, db) \<Rightarrow> (Inr DISPATCH_IDLE, db)
      | (Some event, db) \<Rightarrow>
          let db = meanwhile db in
          (case start event of
             Inl exc \<Rightarrow> (case schedule_retry cfg db event exc now' of
                 Inl err \<Rightarrow> (Inl err, db) | Inr (r, db) \<Rightarrow> (Inr r, db))
           | Inr workflow_id \<Rightarrow> (case mark_published db event workflow_id now' of
                 Inl err \<Rightarrow> (Inl err, db) | Inr db \<Rightarrow> (Inr DISPATCH_PUBLISHED, db))))"

end
