(* ===== verification/CancelOutbox.thy ===== *)
theory CancelOutbox
  imports Outbox
begin

text \<open>
  The outbox of provider cancellations (apps/api/app/provider_cancel_outbox.py): one event
  per job, bound to the attempt it cancels, dispatched like the workflow outbox but with a
  lease that is renewed while the worker talks to the provider.
\<close>

definition PROVIDER_CANCEL_REQUESTED :: string where
  "PROVIDER_CANCEL_REQUESTED = ''provider.cancel.requested''"

definition provider_cancel_key :: "uuid \<Rightarrow> string" where
  "provider_cancel_key i = ''attempt:'' @ uuid_str i @ '':cancel:v1''"

definition enqueue_provider_cancel ::
  "database \<Rightarrow> generation_job \<Rightarrow> generation_attempt \<Rightarrow> error + (outbox_event \<times> database)" where
  "enqueue_provider_cancel db job attempt =
     (case first_where (\<lambda>e. ob_job_id e = job_id job \<and> ob_event_type e = PROVIDER_CANCEL_REQUESTED)
         (t_outbox db) of
        Some existing \<Rightarrow>
          if ob_attempt_id existing \<noteq> Some (at_id attempt)
          then Inl (RuntimeError ''provider cancel outbox is bound to another attempt'')
          else Inr (existing, db)
      | None \<Rightarrow>
          let (i, db) = uuid4 db;
              event = \<lparr>ob_id = i, ob_job_id = job_id job, ob_attempt_id = Some (at_id attempt),
                ob_event_type = PROVIDER_CANCEL_REQUESTED,
                ob_idempotency_key = provider_cancel_key (at_id attempt),
                ob_payload = JObj [(''job_id'', JStr (uuid_str (job_id job))),
                  (''attempt_id'', JStr (uuid_str (at_id attempt)))], ob_status = OB_PENDING,
                ob_attempt_count = 0, ob_next_attempt_at = db_now db, ob_locked_at = None,
                ob_lock_token = None, ob_published_at = None, ob_workflow_id = None,
                ob_last_error = None, ob_created_at = db_now db\<rparr>
          in and_then (insert_outbox db event) (\<lambda>db. Inr (event, db)))"

record provider_cancel_request =
  pc_outbox_event_id :: uuid
  pc_job_id :: uuid
  pc_attempt_id :: uuid
  pc_provider_code :: string
  pc_idempotency_key :: string

record claimed_cancel_event =
  cc_request :: provider_cancel_request
  cc_lock_token :: string

text \<open>The dispatcher's checks; the interval between renewals is in microseconds, a third of
  the lease and at least a tenth of a second unless it is given.\<close>

definition cancel_dispatcher ::
  "timedelta \<Rightarrow> timedelta \<Rightarrow> int \<Rightarrow> timedelta option \<Rightarrow> error + (dispatcher \<times> timedelta)" where
  "cancel_dispatcher lease_duration retry_delay max_attempts renew_interval =
     (let interval = (case renew_interval of Some r \<Rightarrow> r
         | None \<Rightarrow> max 100000 (lease_duration div 3)) in
      if interval \<le> 0
      then Inl (ValueError ''provider cancel lease renewal interval must be positive'')
      else if max_attempts \<le> 0 then Inl (ValueError ''provider cancel max attempts must be positive'')
      else Inr (\<lparr>dc_lease_duration = lease_duration, dc_retry_delay = retry_delay,
        dc_max_attempts = max_attempts\<rparr>, interval))"

definition cancel_dispatchable :: "dispatcher \<Rightarrow> time \<Rightarrow> outbox_event \<Rightarrow> bool" where
  "cancel_dispatchable cfg now e \<longleftrightarrow> ob_event_type e = PROVIDER_CANCEL_REQUESTED \<and>
     (ob_status e = OB_PENDING \<and> ob_next_attempt_at e \<le> now \<or>
      ob_status e = OB_PROCESSING \<and>
        (case ob_locked_at e of None \<Rightarrow> False | Some l \<Rightarrow> l \<le> now - dc_lease_duration cfg))"

fun cancel_claim_candidates ::
  "(outbox_event \<Rightarrow> bool) \<Rightarrow> time \<Rightarrow> outbox_event list \<Rightarrow> database \<Rightarrow>
   error + (claimed_cancel_event option \<times> database)" where
  "cancel_claim_candidates dispatchable now [] db = Inr (None, db)"
| "cancel_claim_candidates dispatchable now (candidate # rest) db =
     (case ob_attempt_id candidate of
        None \<Rightarrow> Inl (RuntimeError ''provider cancel outbox is missing attempt_id'')
      | Some aid \<Rightarrow>
        (case get_attempt db aid of
           None \<Rightarrow> Inl (RuntimeError ''provider cancel outbox attempt does not match job'')
         | Some attempt \<Rightarrow>
             if at_job_id attempt \<noteq> ob_job_id candidate
             then Inl (RuntimeError ''provider cancel outbox attempt does not match job'')
             else
               let (i, db) = uuid4 db;
                   lock_token = uuid_str i;
                   matching = (\<lambda>e. ob_id e = ob_id candidate \<and> dispatchable e) in
               if row_count matching (t_outbox db) \<noteq> 1
               then cancel_claim_candidates dispatchable now rest db
               else Inr (Some \<lparr>cc_request = \<lparr>pc_outbox_event_id = ob_id candidate,
                        pc_job_id = ob_job_id candidate, pc_attempt_id = aid,
                        pc_provider_code = at_provider_code attempt,
                        pc_idempotency_key = ob_idempotency_key candidate\<rparr>,
                      cc_lock_token = lock_token\<rparr>,
                    db\<lparr>t_outbox := update_where matching (claim_row now lock_token) (t_outbox db)\<rparr>)))"

definition cancel_claim_one_at ::
  "dispatcher \<Rightarrow> database \<Rightarrow> database \<Rightarrow> time \<Rightarrow> error + (claimed_cancel_event option \<times> database)" where
  "cancel_claim_one_at cfg db0 db now =
     (let dispatchable = cancel_dispatchable cfg now;
          candidates = take 8 (sort_key (\<lambda>e. (ob_created_at e, ob_id e))
            (select_where dispatchable (t_outbox db0)))
      in cancel_claim_candidates dispatchable now candidates db)"

definition cancel_holds :: "claimed_cancel_event \<Rightarrow> outbox_event \<Rightarrow> bool" where
  "cancel_holds event = holds_lease (pc_outbox_event_id (cc_request event)) (cc_lock_token event)"

definition renew_lease :: "database \<Rightarrow> claimed_cancel_event \<Rightarrow> time \<Rightarrow> error + database" where
  "renew_lease db event now =
     (if row_count (cancel_holds event) (t_outbox db) \<noteq> 1
      then Inl (RuntimeError ''provider cancel outbox lease was lost while renewing'')
      else Inr (db\<lparr>t_outbox := update_where (cancel_holds event)
        (\<lambda>e. e\<lparr>ob_locked_at := Some now\<rparr>) (t_outbox db)\<rparr>))"

definition cancel_schedule_retry ::
  "dispatcher \<Rightarrow> database \<Rightarrow> claimed_cancel_event \<Rightarrow> string \<times> string \<Rightarrow> time \<Rightarrow>
   error + (dispatch_result \<times> database)" where
  "cancel_schedule_retry cfg db event exc now =
     (let error = error_text exc in
      case first_where (cancel_holds event) (t_outbox db) of
        None \<Rightarrow> Inl (RuntimeError ''provider cancel outbox lease was lost while retrying'')
      | Some source \<Rightarrow>
          if ob_attempt_count source \<ge> dc_max_attempts cfg
          then and_then (add_dead_letter db DL_OUTBOX (ob_id source) (ob_event_type source)
                 (ob_payload source) (ob_attempt_count source) error)
               (\<lambda>db. Inr (DISPATCH_DEAD, db\<lparr>t_outbox := update_where (\<lambda>e. ob_id e = ob_id source)
                 (\<lambda>e. e\<lparr>ob_status := OB_DEAD_LETTER, ob_locked_at := None,
                    ob_lock_token := None, ob_last_error := Some error\<rparr>) (t_outbox db)\<rparr>))
          else Inr (DISPATCH_RETRY, db\<lparr>t_outbox := update_where (\<lambda>e. ob_id e = ob_id source)
                 (\<lambda>e. e\<lparr>ob_status := OB_PENDING, ob_next_attempt_at := now + dc_retry_delay cfg,
                    ob_locked_at := None, ob_lock_token := None,
                    ob_last_error := Some error\<rparr>) (t_outbox db)\<rparr>))"

definition cancel_mark_published ::
  "database \<Rightarrow> claimed_cancel_event \<Rightarrow> time \<Rightarrow> error + database" where
  "cancel_mark_published db event now =
     (if row_count (cancel_holds event) (t_outbox db) \<noteq> 1
      then Inl (RuntimeError ''provider cancel outbox lease was lost while publishing'')
      else Inr (db\<lparr>t_outbox := update_where (cancel_holds event)
        (\<lambda>e. e\<lparr>ob_status := OB_PUBLISHED, ob_published_at := Some now, ob_locked_at := None,
           ob_lock_token := None, ob_last_error := None\<rparr>) (t_outbox db)\<rparr>))"

text \<open>The renewals that happen while the worker runs, with what others do between them; a
  renewal that finds its lease lost ends the pass with an exception.\<close>

fun renewals ::
  "claimed_cancel_event \<Rightarrow> ((database \<Rightarrow> database) \<times> time) list \<Rightarrow> database \<Rightarrow> error \<times> database + database"
where
  "renewals event [] db = Inr db"
| "renewals event ((meanwhile, now) # rest) db =
     (let db = meanwhile db in
      case renew_lease db event now of Inl e \<Rightarrow> Inl (e, db) | Inr db \<Rightarrow> renewals event rest db)"

text \<open>
  One pass: claim, renew once before the provider is called, renew on every tick, then retry
  or publish. \<open>worker\<close> is the call to the provider: None when it was accepted.
\<close>

definition cancel_dispatch_once ::
  "dispatcher \<Rightarrow> (provider_cancel_request \<Rightarrow> (string \<times> string) option) \<Rightarrow>
   (database \<Rightarrow> database) \<times> time \<Rightarrow> ((database \<Rightarrow> database) \<times> time) list \<Rightarrow> database \<Rightarrow>
   time \<Rightarrow> time \<Rightarrow> (error + dispatch_result) \<times> database" where
  "cancel_dispatch_once cfg worker first ticks db now now' =
     (case cancel_claim_one_at cfg db db now of
        Inl e \<Rightarrow> (Inl e, db)
      | Inr (None, db) \<Rightarrow> (Inr DISPATCH_IDLE, db)
      | Inr (Some event, db) \<Rightarrow>
          (case renewals event (first # ticks) db of
             Inl (e, db) \<Rightarrow> (Inl e, db)
           | Inr db \<Rightarrow>
               (case worker (cc_request event) of
                  Some exc \<Rightarrow> (case cancel_schedule_retry cfg db event exc now' of
                      Inl err \<Rightarrow> (Inl err, db) | Inr (r, db) \<Rightarrow> (Inr r, db))
                | None \<Rightarrow> (case cancel_mark_published db event now' of
                      Inl err \<Rightarrow> (Inl err, db) | Inr db \<Rightarrow> (Inr DISPATCH_PUBLISHED, db)))))"

end
