(* ===== verification/OutboxLeases.thy ===== *)
theory OutboxLeases
  imports CancelOutbox
begin

text \<open>
  The outbox table as a leased queue: every operation the two dispatchers, the enqueueing
  operations and the replay of dead letters perform on it is a step of the abstract lease,
  so that the consequences proved of the contract hold for any interleaving of them.
\<close>

section \<open>The lease of a row\<close>

fun row_lease :: "outbox_status \<Rightarrow> string option \<Rightarrow> lease" where
  "row_lease OB_PROCESSING (Some t) = Held t"
| "row_lease OB_PUBLISHED _ = Done"
| "row_lease _ _ = Free"

definition outbox_row_lease :: "outbox_event \<Rightarrow> lease" where
  "outbox_row_lease e = row_lease (ob_status e) (ob_lock_token e)"

definition outbox_lease :: "database \<Rightarrow> uuid \<Rightarrow> lease" where
  "outbox_lease db k = (case first_where (\<lambda>e. ob_id e = k) (t_outbox db) of
     None \<Rightarrow> Free | Some e \<Rightarrow> outbox_row_lease e)"

definition outbox_ids_ok :: "database \<Rightarrow> bool" where
  "outbox_ids_ok db \<longleftrightarrow> distinct (map ob_id (t_outbox db))"

datatype outbox_op =
    Wf_claim dispatcher database time
  | Wf_publish claimed_outbox_event string time
  | Wf_retry dispatcher claimed_outbox_event "string \<times> string" time
  | Cancel_claim dispatcher database time
  | Cancel_renew claimed_cancel_event time
  | Cancel_publish claimed_cancel_event time
  | Cancel_retry dispatcher claimed_cancel_event "string \<times> string" time
  | Replay uuid app_user time
  | Enqueue outbox_event

text \<open>What an operation does, and the lease operation it is; None when it raised.\<close>

fun outbox_apply :: "database \<Rightarrow> outbox_op \<Rightarrow> (lease_op option \<times> database) option" where
  "outbox_apply db (Wf_claim cfg db0 now) =
     (case claim_one_at cfg db0 db now of
        (None, db') \<Rightarrow> Some (None, db')
      | (Some ev, db') \<Rightarrow> Some (Some (Claim (cl_id ev) (cl_lock_token ev)), db'))"
| "outbox_apply db (Wf_publish ev w now) =
     (case mark_published db ev w now of
        Inl _ \<Rightarrow> None | Inr db' \<Rightarrow> Some (Some (Finish (cl_id ev) (cl_lock_token ev)), db'))"
| "outbox_apply db (Wf_retry cfg ev exc now) =
     (case schedule_retry cfg db ev exc now of
        Inl _ \<Rightarrow> None | Inr (_, db') \<Rightarrow> Some (Some (Give_back (cl_id ev) (cl_lock_token ev)), db'))"
| "outbox_apply db (Cancel_claim cfg db0 now) =
     (case cancel_claim_one_at cfg db0 db now of
        Inl _ \<Rightarrow> None
      | Inr (None, db') \<Rightarrow> Some (None, db')
      | Inr (Some ev, db') \<Rightarrow>
          Some (Some (Claim (pc_outbox_event_id (cc_request ev)) (cc_lock_token ev)), db'))"
| "outbox_apply db (Cancel_renew ev now) =
     (case renew_lease db ev now of
        Inl _ \<Rightarrow> None
      | Inr db' \<Rightarrow> Some (Some (Renew (pc_outbox_event_id (cc_request ev)) (cc_lock_token ev)), db'))"
| "outbox_apply db (Cancel_publish ev now) =
     (case cancel_mark_published db ev now of
        Inl _ \<Rightarrow> None
      | Inr db' \<Rightarrow> Some (Some (Finish (pc_outbox_event_id (cc_request ev)) (cc_lock_token ev)), db'))"
| "outbox_apply db (Cancel_retry cfg ev exc now) =
     (case cancel_schedule_retry cfg db ev exc now of
        Inl _ \<Rightarrow> None
      | Inr (_, db') \<Rightarrow>
          Some (Some (Give_back (pc_outbox_event_id (cc_request ev)) (cc_lock_token ev)), db'))"
| "outbox_apply db (Replay d actor now) =
     (case replay_dead_letter db d actor now of Inl _ \<Rightarrow> None | Inr (_, db') \<Rightarrow> Some (None, db'))"
| "outbox_apply db (Enqueue e) =
     (if ob_status e \<noteq> OB_PENDING then None
      else case insert_outbox db e of Inl _ \<Rightarrow> None | Inr db' \<Rightarrow> Some (None, db'))"

section \<open>Every operation is a lease step\<close>

lemma outbox_lease_row:
  "outbox_ids_ok db \<Longrightarrow> e \<in> set (t_outbox db) \<Longrightarrow> outbox_lease db (ob_id e) = outbox_row_lease e"
  by (simp add: outbox_lease_def outbox_ids_ok_def first_where_key)

text \<open>An update of the one row that matches.\<close>

lemma outbox_update:
  assumes ok: "outbox_ids_ok db" and e: "e \<in> set (t_outbox db)" "p e"
    and key: "\<And>x. p x \<Longrightarrow> ob_id x = ob_id e" and f: "\<And>x. ob_id (f x) = ob_id x"
    and t: "t_outbox db' = update_where p f (t_outbox db)"
  shows "outbox_ids_ok db'" and "outbox_lease db' (ob_id e) = outbox_row_lease (f e)"
    and "k \<noteq> ob_id e \<Longrightarrow> outbox_lease db' k = outbox_lease db k"
proof -
  have dist: "distinct (map ob_id (t_outbox db))" using ok by (simp add: outbox_ids_ok_def)
  show ok': "outbox_ids_ok db'"
    unfolding outbox_ids_ok_def t using dist by (subst map_update_where_cong) (simp_all add: f)
  have "f e \<in> set (t_outbox db')" using e by (auto simp: t update_where_def)
  from outbox_lease_row [OF ok' this] show "outbox_lease db' (ob_id e) = outbox_row_lease (f e)"
    by (simp add: f)
  show "outbox_lease db' k = outbox_lease db k" if "k \<noteq> ob_id e"
    unfolding outbox_lease_def t using that
    by (subst first_where_update_other) (auto simp: f dest: key)
qed

lemma outbox_matching:
  assumes "outbox_ids_ok db" and "row_count p (t_outbox db) = 1" and "\<And>x. p x \<Longrightarrow> ob_id x = i"
  obtains e where "e \<in> set (t_outbox db)" and "p e" and "ob_id e = i"
  using row_count_1_iff [where k = ob_id and p = p, of "t_outbox db"] assms
  by (auto simp: outbox_ids_ok_def)

text \<open>One step of the lease of one row, the others unchanged.\<close>

definition lease_move :: "database \<Rightarrow> lease_op \<Rightarrow> database \<Rightarrow> bool" where
  "lease_move db ev db' \<longleftrightarrow> outbox_ids_ok db' \<and>
     lease_step (outbox_lease db (op_key ev)) ev = Some (outbox_lease db' (op_key ev)) \<and>
     (\<forall>k. k \<noteq> op_key ev \<longrightarrow> outbox_lease db' k = outbox_lease db k)"

lemma lease_move_cong: "outbox_lease db1 = outbox_lease db \<Longrightarrow> lease_move db1 = lease_move db"
  by (simp add: lease_move_def fun_eq_iff)

text \<open>Claims.\<close>

lemma claim_matching_step:
  assumes ok: "outbox_ids_ok db" and cnt: "row_count p (t_outbox db) = 1"
    and p: "\<And>x. p x \<Longrightarrow> ob_id x = i \<and> ob_status x \<in> {OB_PENDING, OB_PROCESSING}"
    and t: "t_outbox db' = update_where p (claim_row now tok) (t_outbox db)"
  shows "lease_move db (Claim i tok) db'"
proof -
  obtain e where e: "e \<in> set (t_outbox db)" "p e" "ob_id e = i"
    using outbox_matching [OF ok cnt] p by blast
  note U = outbox_update [OF ok e(1,2) _ _ t]
  have "outbox_lease db i \<noteq> Done"
    using outbox_lease_row [OF ok e(1)] p [OF e(2)] e(3)
    by (cases "ob_lock_token e") (auto simp: outbox_row_lease_def)
  moreover have "outbox_lease db' i = Held tok"
    using U(2) p e(3) by (simp add: claim_row_def outbox_row_lease_def)
  ultimately show ?thesis using U(1,3) p e(3) by (simp add: claim_row_def lease_move_def)
qed

lemma claim_candidates_step:
  assumes "claim_candidates d now cs db = (r, db')" and "outbox_ids_ok db"
    and "\<And>x. d x \<Longrightarrow> ob_status x \<in> {OB_PENDING, OB_PROCESSING}"
  shows "case r of None \<Rightarrow> outbox_ids_ok db' \<and> outbox_lease db' = outbox_lease db
    | Some ev \<Rightarrow> lease_move db (Claim (cl_id ev) (cl_lock_token ev)) db'"
  using assms
proof (induction d now cs db rule: claim_candidates.induct)
  case (1 dispatchable now db)
  then show ?case by simp
next
  case (2 dispatchable now c cs db)
  let ?i = "uuid_supply db (uuid_next db)" and ?db1 = "db\<lparr>uuid_next := Suc (uuid_next db)\<rparr>"
  let ?p = "\<lambda>e. ob_id e = ob_id c \<and> dispatchable e"
  have lease1: "outbox_lease ?db1 = outbox_lease db" "outbox_ids_ok ?db1 = outbox_ids_ok db"
    by (simp_all add: fun_eq_iff outbox_lease_def outbox_ids_ok_def)
  show ?case
  proof (cases "row_count ?p (t_outbox db) = 1")
    case False
    with "2.prems" have "claim_candidates dispatchable now cs ?db1 = (r, db')"
      by (simp add: uuid4_def Let_def)
    with "2.IH" [of "(?i, ?db1)" ?i ?db1 "uuid_str ?i" ?p] False "2.prems"(2,3) lease1 show ?thesis
      by (simp add: uuid4_def lease_move_cong [OF lease1(1)] split: option.splits)
  next
    case True
    with "2.prems"(1) have r: "r = Some \<lparr>cl_id = ob_id c, cl_job_id = ob_job_id c,
        cl_event_type = ob_event_type c, cl_idempotency_key = ob_idempotency_key c,
        cl_payload = ob_payload c, cl_lock_token = uuid_str ?i\<rparr>"
      and t: "t_outbox db' = update_where ?p (claim_row now (uuid_str ?i)) (t_outbox ?db1)"
      by (auto simp: uuid4_def Let_def)
    show ?thesis
      using claim_matching_step [OF _ _ _ t, of "ob_id c"] "2.prems"(2,3) True
      by (simp add: r lease1 lease_move_cong [OF lease1(1)])
  qed
qed

lemma cancel_claim_candidates_step:
  assumes "cancel_claim_candidates d now cs db = Inr (r, db')" and "outbox_ids_ok db"
    and "\<And>x. d x \<Longrightarrow> ob_status x \<in> {OB_PENDING, OB_PROCESSING}"
  shows "case r of None \<Rightarrow> outbox_ids_ok db' \<and> outbox_lease db' = outbox_lease db
    | Some ev \<Rightarrow> lease_move db (Claim (pc_outbox_event_id (cc_request ev)) (cc_lock_token ev)) db'"
  using assms
proof (induction d now cs db rule: cancel_claim_candidates.induct)
  case (1 dispatchable now db)
  then show ?case by simp
next
  case (2 dispatchable now c cs db)
  let ?i = "uuid_supply db (uuid_next db)" and ?db1 = "db\<lparr>uuid_next := Suc (uuid_next db)\<rparr>"
  let ?p = "\<lambda>e. ob_id e = ob_id c \<and> dispatchable e"
  have lease1: "outbox_lease ?db1 = outbox_lease db" "outbox_ids_ok ?db1 = outbox_ids_ok db"
    by (simp_all add: fun_eq_iff outbox_lease_def outbox_ids_ok_def)
  from "2.prems"(1) obtain aid attempt where a: "ob_attempt_id c = Some aid"
    "get_attempt db aid = Some attempt" "at_job_id attempt = ob_job_id c"
    by (auto split: option.splits if_splits)
  show ?case
  proof (cases "row_count ?p (t_outbox db) = 1")
    case False
    with "2.prems" a have "cancel_claim_candidates dispatchable now cs ?db1 = Inr (r, db')"
      by (simp add: uuid4_def Let_def)
    with "2.IH" [OF a(1,2) _ refl, of "?i" ?db1 "uuid_str ?i" ?p] a(3) False "2.prems"(2,3) lease1
    show ?thesis by (simp add: uuid4_def lease_move_cong [OF lease1(1)] split: option.splits)
  next
    case True
    with "2.prems"(1) a have r: "r = Some \<lparr>cc_request = \<lparr>pc_outbox_event_id = ob_id c,
        pc_job_id = ob_job_id c, pc_attempt_id = aid,
        pc_provider_code = at_provider_code attempt,
        pc_idempotency_key = ob_idempotency_key c\<rparr>, cc_lock_token = uuid_str ?i\<rparr>"
      and t: "t_outbox db' = update_where ?p (claim_row now (uuid_str ?i)) (t_outbox ?db1)"
      by (auto simp: uuid4_def Let_def)
    show ?thesis
      using claim_matching_step [OF _ _ _ t, of "ob_id c"] "2.prems"(2,3) True
      by (simp add: r lease1 lease_move_cong [OF lease1(1)])
  qed
qed

text \<open>Operations of the holder.\<close>

lemma holder_row:
  assumes "outbox_ids_ok db" and "e \<in> set (t_outbox db)" and "holds_lease i tok e"
  shows "ob_id e = i" and "outbox_lease db i = Held tok"
  using outbox_lease_row [OF assms(1,2)] assms(3)
  by (auto simp: holds_lease_def outbox_row_lease_def)

lemma holder_step:
  assumes ok: "outbox_ids_ok db" and e: "e \<in> set (t_outbox db)" "holds_lease i tok e"
    and p: "p e" "\<And>x. p x \<Longrightarrow> ob_id x = i" and f: "\<And>x. ob_id (f x) = ob_id x"
    and t: "t_outbox db' = update_where p f (t_outbox db)"
    and ev: "op_key ev = i" "lease_step (Held tok) ev = Some (outbox_row_lease (f e))"
  shows "lease_move db ev db'"
proof -
  note H = holder_row [OF ok e]
  have key: "\<And>x. p x \<Longrightarrow> ob_id x = ob_id e" using p(2) H(1) by simp
  note U = outbox_update [OF ok e(1) p(1) key f t]
  show ?thesis using U H ev by (simp add: lease_move_def)
qed

lemma holder_exists:
  assumes "outbox_ids_ok db" and "row_count (holds_lease i tok) (t_outbox db) = 1"
  obtains e where "e \<in> set (t_outbox db)" and "holds_lease i tok e"
  by (rule outbox_matching [OF assms, of i]) (auto simp: holds_lease_def)

lemma add_dead_letter_lease:
  assumes "add_dead_letter db ty i et p n e = Inr db'"
  shows "t_outbox db' = t_outbox db"
  using add_dead_letter_frame [OF assms] by simp

lemma schedule_retry_step:
  assumes "schedule_retry cfg db ev exc now = Inr (r, db')" and ok: "outbox_ids_ok db"
  shows "lease_move db (Give_back (cl_id ev) (cl_lock_token ev)) db'"
proof -
  let ?dead = "\<lambda>e. e\<lparr>ob_status := OB_DEAD_LETTER, ob_locked_at := None,
      ob_lock_token := None, ob_last_error := Some (error_text exc)\<rparr>"
  let ?returned = "\<lambda>e. e\<lparr>ob_status := OB_PENDING, ob_next_attempt_at := now + dc_retry_delay cfg,
      ob_locked_at := None, ob_lock_token := None, ob_last_error := Some (error_text exc)\<rparr>"
  from assms(1) obtain e where e: "first_where (holds_lease (cl_id ev) (cl_lock_token ev)) (t_outbox db) = Some e"
    by (auto simp: schedule_retry_def Let_def split: option.splits)
  define f :: "outbox_event \<Rightarrow> outbox_event" where "f = (if ob_attempt_count e \<ge> dc_max_attempts cfg then ?dead else ?returned)"
  have f: "ob_id (f x) = ob_id x" "outbox_row_lease (f e) = Free" for x
    by (simp_all add: f_def outbox_row_lease_def)
  have t: "t_outbox db' = update_where (\<lambda>x. ob_id x = ob_id e) f (t_outbox db)"
    using assms(1) e by (auto simp: schedule_retry_def Let_def f_def and_then_Inr_iff
        dest: add_dead_letter_lease split: if_splits)
  from first_where_Some [OF e] have mem: "e \<in> set (t_outbox db)" "holds_lease (cl_id ev) (cl_lock_token ev) e"
    by simp_all
  show ?thesis
    by (rule holder_step [OF ok mem _ _ f(1) t])
      (use holder_row(1) [OF ok mem] f(2) in simp_all)
qed

lemma cancel_schedule_retry_step:
  fixes ev :: claimed_cancel_event
  defines "i \<equiv> pc_outbox_event_id (cc_request ev)"
  assumes "cancel_schedule_retry cfg db ev exc now = Inr (r, db')" and ok: "outbox_ids_ok db"
  shows "lease_move db (Give_back i (cc_lock_token ev)) db'"
proof -
  let ?dead = "\<lambda>e. e\<lparr>ob_status := OB_DEAD_LETTER, ob_locked_at := None,
      ob_lock_token := None, ob_last_error := Some (error_text exc)\<rparr>"
  let ?returned = "\<lambda>e. e\<lparr>ob_status := OB_PENDING, ob_next_attempt_at := now + dc_retry_delay cfg,
      ob_locked_at := None, ob_lock_token := None, ob_last_error := Some (error_text exc)\<rparr>"
  from assms(2) obtain e where e: "first_where (holds_lease i (cc_lock_token ev)) (t_outbox db) = Some e"
    by (auto simp: cancel_schedule_retry_def cancel_holds_def Let_def i_def split: option.splits)
  define f :: "outbox_event \<Rightarrow> outbox_event" where "f = (if ob_attempt_count e \<ge> dc_max_attempts cfg then ?dead else ?returned)"
  have f: "ob_id (f x) = ob_id x" "outbox_row_lease (f e) = Free" for x
    by (simp_all add: f_def outbox_row_lease_def)
  have t: "t_outbox db' = update_where (\<lambda>x. ob_id x = ob_id e) f (t_outbox db)"
    using assms(2) e by (auto simp: cancel_schedule_retry_def cancel_holds_def Let_def i_def f_def and_then_Inr_iff
        dest: add_dead_letter_lease split: if_splits)
  from first_where_Some [OF e] have mem: "e \<in> set (t_outbox db)" "holds_lease i (cc_lock_token ev) e"
    by simp_all
  show ?thesis
    by (rule holder_step [OF ok mem _ _ f(1) t])
      (use holder_row(1) [OF ok mem] f(2) in simp_all)
qed

lemma mark_published_step:
  assumes "mark_published db ev w now = Inr db'" and ok: "outbox_ids_ok db"
  shows "lease_move db (Finish (cl_id ev) (cl_lock_token ev)) db'"
proof -
  let ?p = "holds_lease (cl_id ev) (cl_lock_token ev)"
  let ?f = "\<lambda>e. e\<lparr>ob_status := OB_PUBLISHED, ob_published_at := Some now,
                ob_workflow_id := Some w, ob_locked_at := None,
                ob_lock_token := None, ob_last_error := None\<rparr>"
  from assms(1) have cnt: "row_count ?p (t_outbox db) = 1"
    and t: "t_outbox db' = update_where ?p ?f (t_outbox db)"
    by (auto simp: mark_published_def Let_def split: if_splits)
  obtain e where e: "e \<in> set (t_outbox db)" "?p e" by (rule holder_exists [OF ok cnt])
  show ?thesis
    by (rule holder_step [OF ok e _ _ _ t]) (use e in \<open>auto simp: holds_lease_def outbox_row_lease_def\<close>)
qed

lemma cancel_mark_published_step:
  fixes ev :: claimed_cancel_event
  defines "i \<equiv> pc_outbox_event_id (cc_request ev)"
  assumes "cancel_mark_published db ev now = Inr db'" and ok: "outbox_ids_ok db"
  shows "lease_move db (Finish i (cc_lock_token ev)) db'"
proof -
  let ?p = "holds_lease i (cc_lock_token ev)"
  let ?f = "\<lambda>e. e\<lparr>ob_status := OB_PUBLISHED, ob_published_at := Some now, ob_locked_at := None,
           ob_lock_token := None, ob_last_error := None\<rparr>"
  from assms(2) have cnt: "row_count ?p (t_outbox db) = 1"
    and t: "t_outbox db' = update_where ?p ?f (t_outbox db)"
    by (auto simp: cancel_mark_published_def cancel_holds_def i_def split: if_splits)
  obtain e where e: "e \<in> set (t_outbox db)" "?p e" by (rule holder_exists [OF ok cnt])
  show ?thesis
    by (rule holder_step [OF ok e _ _ _ t]) (use e in \<open>auto simp: holds_lease_def outbox_row_lease_def\<close>)
qed

lemma renew_lease_step:
  fixes ev :: claimed_cancel_event
  defines "i \<equiv> pc_outbox_event_id (cc_request ev)"
  assumes "renew_lease db ev now = Inr db'" and ok: "outbox_ids_ok db"
  shows "lease_move db (Renew i (cc_lock_token ev)) db'"
proof -
  let ?p = "holds_lease i (cc_lock_token ev)"
  let ?f = "\<lambda>e. e\<lparr>ob_locked_at := Some now\<rparr>"
  from assms(2) have cnt: "row_count ?p (t_outbox db) = 1"
    and t: "t_outbox db' = update_where ?p ?f (t_outbox db)"
    by (auto simp: renew_lease_def cancel_holds_def i_def split: if_splits)
  obtain e where e: "e \<in> set (t_outbox db)" "?p e" by (rule holder_exists [OF ok cnt])
  show ?thesis
    by (rule holder_step [OF ok e _ _ _ t]) (use e in \<open>auto simp: holds_lease_def outbox_row_lease_def\<close>)
qed

lemma replay_dead_letter_lease:
  assumes "replay_dead_letter db i actor now = Inr (r, db')" and ok: "outbox_ids_ok db"
  shows "outbox_ids_ok db' \<and> outbox_lease db' = outbox_lease db"
proof -
  have same: "outbox_ids_ok db' \<and> outbox_lease db' = outbox_lease db"
    if "t_outbox db' = t_outbox db"
    using that ok by (simp add: outbox_ids_ok_def outbox_lease_def fun_eq_iff)
  show ?thesis
  proof (cases "t_outbox db' = t_outbox db")
    case True
    then show ?thesis by (rule same)
  next
    case False
    let ?f = "\<lambda>e. e\<lparr>ob_status := OB_PENDING, ob_attempt_count := 0, ob_next_attempt_at := now,
             ob_locked_at := None, ob_lock_token := None, ob_last_error := None\<rparr>"
    from assms(1) False obtain d where
      st: "source_status db d = Some OB_DEAD_LETTER" and ty: "dl_source_type d = DL_OUTBOX"
      and t: "t_outbox db' = update_where (\<lambda>e. ob_id e = dl_source_id d) ?f (t_outbox db)"
      by (auto simp: replay_dead_letter_def requeue_source_def Let_def
          split: option.splits if_splits dead_letter_source.splits)
    then obtain e where e: "e \<in> set (t_outbox db)" "ob_id e = dl_source_id d" "ob_status e = OB_DEAD_LETTER"
      by (auto simp: source_status_def dest: first_where_Some)
    note U = outbox_update [OF ok e(1) _ _ _ t]
    have "outbox_lease db' k = outbox_lease db k" for k
    proof (cases "k = ob_id e")
      case True
      then show ?thesis
        using U(2) outbox_lease_row [OF ok e(1)] e(2,3) by (simp add: outbox_row_lease_def)
    next
      case False
      then show ?thesis using U(3) e(2) by simp
    qed
    then show ?thesis using U(1) e(2) by (simp add: fun_eq_iff)
  qed
qed

lemma insert_outbox_lease:
  assumes "insert_outbox db e = Inr db'" and "ob_status e = OB_PENDING" and ok: "outbox_ids_ok db"
  shows "outbox_ids_ok db' \<and> outbox_lease db' = outbox_lease db"
proof -
  have t: "t_outbox db' = t_outbox db @ [e]" and new: "ob_id e \<notin> ob_id ` set (t_outbox db)"
    using assms(1) by (auto simp: insert_outbox_def split: if_splits)
  have "outbox_lease db' k = outbox_lease db k" for k
    using assms(2) by (auto simp: outbox_lease_def t first_where_append first_where_Cons
        first_where_Nil outbox_row_lease_def split: option.splits simp del: first_where_None)
  with ok new t show ?thesis by (auto simp: outbox_ids_ok_def fun_eq_iff)
qed

lemma claimable_status:
  "outbox_dispatchable cfg now e \<Longrightarrow> ob_status e \<in> {OB_PENDING, OB_PROCESSING}"
  "cancel_dispatchable cfg now e \<Longrightarrow> ob_status e \<in> {OB_PENDING, OB_PROCESSING}"
  by (auto simp: outbox_dispatchable_def cancel_dispatchable_def)

lemma outbox_apply_step:
  assumes ok: "outbox_ids_ok db" and ap: "outbox_apply db op = Some (ev, db')"
  shows "case ev of None \<Rightarrow> outbox_ids_ok db' \<and> outbox_lease db' = outbox_lease db
    | Some e \<Rightarrow> lease_move db e db'"
proof (cases op)
  case (Wf_claim cfg db0 now)
  obtain r db1 where r: "claim_one_at cfg db0 db now = (r, db1)" by fastforce
  have "case r of None \<Rightarrow> outbox_ids_ok db1 \<and> outbox_lease db1 = outbox_lease db
    | Some ev \<Rightarrow> lease_move db (Claim (cl_id ev) (cl_lock_token ev)) db1"
    using claim_candidates_step [OF r [unfolded claim_one_at_def Let_def] ok claimable_status(1)] .
  with ap Wf_claim r show ?thesis by (auto split: option.splits)
next
  case (Cancel_claim cfg db0 now)
  with ap obtain r where r: "cancel_claim_one_at cfg db0 db now = Inr (r, db')"
    and ev: "ev = map_option (\<lambda>c. Claim (pc_outbox_event_id (cc_request c)) (cc_lock_token c)) r"
    by (auto split: sum.splits option.splits)
  have "case r of None \<Rightarrow> outbox_ids_ok db' \<and> outbox_lease db' = outbox_lease db
    | Some ev \<Rightarrow> lease_move db (Claim (pc_outbox_event_id (cc_request ev)) (cc_lock_token ev)) db'"
    using cancel_claim_candidates_step
      [OF r [unfolded cancel_claim_one_at_def Let_def] ok claimable_status(2)] .
  then show ?thesis by (auto simp: ev split: option.splits)
next
  case (Wf_publish c w now)
  with ap ok show ?thesis by (auto dest: mark_published_step split: sum.splits)
next
  case (Wf_retry cfg c exc now)
  with ap ok show ?thesis by (auto dest: schedule_retry_step split: sum.splits)
next
  case (Cancel_renew c now)
  with ap ok show ?thesis by (auto dest: renew_lease_step split: sum.splits)
next
  case (Cancel_publish c now)
  with ap ok show ?thesis by (auto dest: cancel_mark_published_step split: sum.splits)
next
  case (Cancel_retry cfg c exc now)
  with ap ok show ?thesis by (auto dest: cancel_schedule_retry_step split: sum.splits)
next
  case (Replay i actor now)
  with ap ok show ?thesis by (auto dest: replay_dead_letter_lease split: sum.splits)
next
  case (Enqueue e)
  with ap ok show ?thesis by (auto dest: insert_outbox_lease split: sum.splits if_splits)
qed

interpretation outbox_queue: leased_queue outbox_lease outbox_ids_ok outbox_apply
proof
  fix db db' :: database and op ev e
  show "outbox_ids_ok db'" if "outbox_ids_ok db" "outbox_apply db op = Some (ev, db')"
    using outbox_apply_step [OF that] by (cases ev) (simp_all add: lease_move_def)
  show "lease_step (outbox_lease db (op_key e)) e = Some (outbox_lease db' (op_key e)) \<and>
      (\<forall>k. k \<noteq> op_key e \<longrightarrow> outbox_lease db' k = outbox_lease db k)"
    if "outbox_ids_ok db" "outbox_apply db op = Some (Some e, db')"
    using outbox_apply_step [OF that] by (simp add: lease_move_def)
  show "outbox_lease db' = outbox_lease db"
    if "outbox_ids_ok db" "outbox_apply db op = Some (None, db')"
    using outbox_apply_step [OF that] by simp
qed

section \<open>Properties\<close>

lemma outbox_lease_Done:
  assumes "outbox_lease db k = Done"
  shows "\<exists>e \<in> set (t_outbox db). ob_id e = k \<and> ob_status e = OB_PUBLISHED"
proof -
  obtain e where e: "first_where (\<lambda>e. ob_id e = k) (t_outbox db) = Some e" "outbox_row_lease e = Done"
    using assms by (auto simp: outbox_lease_def split: option.splits)
  then have "ob_status e = OB_PUBLISHED"
    by (cases "ob_status e"; cases "ob_lock_token e") (auto simp: outbox_row_lease_def)
  with first_where_Some [OF e(1)] show ?thesis by blast
qed

text \<open>
  C13. Publishing is exclusive and final: however the workers of both dispatchers, the
  enqueueing operations and the replays of dead letters interleave, an event is published at
  most once, as the last lease operation on it, and only by the worker that claimed it last;
  a worker whose lease was taken over cannot publish.
\<close>

theorem outbox_published_once:
  assumes "outbox_ids_ok db" and "\<forall>t. outbox_lease db k \<noteq> Held t"
    and "filter (\<lambda>e. op_key e = k) (fst (run_ops outbox_apply db ops)) = as @ Finish k t # bs"
  shows "bs = [] \<and> (\<exists>as' cs. as = as' @ Claim k t # cs \<and> (\<forall>e \<in> set cs. e = Renew k t)) \<and>
    (\<exists>e \<in> set (t_outbox (snd (run_ops outbox_apply db ops))). ob_id e = k \<and> ob_status e = OB_PUBLISHED)"
proof -
  have keys: "op_key e = k" if "e \<in> set as" for e
  proof -
    have "e \<in> set (filter (\<lambda>e. op_key e = k) (fst (run_ops outbox_apply db ops)))"
      unfolding assms(3) using that by simp
    then show ?thesis by simp
  qed
  obtain as' k' cs where as: "as = as' @ Claim k' t # cs" "\<forall>e \<in> set cs. \<exists>k. e = Renew k t"
    using outbox_queue.finished_by_holder [OF assms(1,3)] assms(2) by blast
  have "k' = k" and "\<forall>e \<in> set cs. e = Renew k t"
    using keys as by force+
  with as have "\<exists>as' cs. as = as' @ Claim k t # cs \<and> (\<forall>e \<in> set cs. e = Renew k t)" by blast
  with outbox_queue.finished_once [OF assms(1,3)] outbox_lease_Done show ?thesis by blast
qed

definition sample_outbox :: "uuid \<Rightarrow> outbox_status \<Rightarrow> outbox_event" where
  "sample_outbox i status = \<lparr>ob_id = i, ob_job_id = 1, ob_attempt_id = None,
     ob_event_type = GENERATION_WORKFLOW_START, ob_idempotency_key = generation_workflow_key 1,
     ob_payload = JObj [], ob_status = status, ob_attempt_count = 0, ob_next_attempt_at = 0,
     ob_locked_at = None, ob_lock_token = None, ob_published_at = None, ob_workflow_id = None,
     ob_last_error = None, ob_created_at = 0\<rparr>"

definition sample_queue :: database where
  "sample_queue = (sample_db [] [])\<lparr>t_outbox := [sample_outbox 50 OB_PENDING]\<rparr>"

definition sample_dispatcher :: dispatcher where
  "sample_dispatcher = \<lparr>dc_lease_duration = seconds 30, dc_retry_delay = seconds 1, dc_max_attempts = 5\<rparr>"

definition sample_claim :: "string \<Rightarrow> claimed_outbox_event" where
  "sample_claim t = \<lparr>cl_id = 50, cl_job_id = 1, cl_event_type = GENERATION_WORKFLOW_START,
     cl_idempotency_key = generation_workflow_key 1, cl_payload = JObj [], cl_lock_token = t\<rparr>"

lemmas queue_eval = claim_one_at_def outbox_dispatchable_def select_where_def sample_queue_def
  sample_outbox_def sample_dispatcher_def sample_defs Let_def uuid4_def row_count_def table_simps
  claim_row_def seconds_def mark_published_def holds_lease_def sample_claim_def key_simps

text \<open>A worker claims and stalls, another takes over after the lease and publishes; the first
  one comes back and is refused.\<close>

definition sample_takeover :: "outbox_op list" where
  "sample_takeover = [Wf_claim sample_dispatcher sample_queue 0,
     Wf_claim sample_dispatcher sample_queue (seconds 31),
     Wf_publish (sample_claim (uuid_str 2)) ''run-2'' (seconds 32),
     Wf_publish (sample_claim (uuid_str 1)) ''run-1'' (seconds 33)]"

theorem outbox_published_once_witness:
  "fst (run_ops outbox_apply sample_queue sample_takeover) =
     [Claim 50 (uuid_str 1), Claim 50 (uuid_str 2)] @ Finish 50 (uuid_str 2) # [] \<and>
   (\<exists>e \<in> set (t_outbox (snd (run_ops outbox_apply sample_queue sample_takeover))).
      ob_id e = 50 \<and> ob_status e = OB_PUBLISHED)"
proof -
  have run: "fst (run_ops outbox_apply sample_queue sample_takeover) =
      [Claim 50 (uuid_str 1), Claim 50 (uuid_str 2)] @ Finish 50 (uuid_str 2) # []"
    by (simp add: sample_takeover_def queue_eval)
  then have "filter (\<lambda>e. op_key e = 50) (fst (run_ops outbox_apply sample_queue sample_takeover)) =
      [Claim 50 (uuid_str 1), Claim 50 (uuid_str 2)] @ Finish 50 (uuid_str 2) # []"
    by simp
  moreover have "outbox_ids_ok sample_queue" by (simp add: outbox_ids_ok_def sample_queue_def)
  moreover have "outbox_lease sample_queue 50 = Free" by code_simp
  then have "\<forall>t. outbox_lease sample_queue 50 \<noteq> Held t" by simp
  ultimately show ?thesis
    using outbox_published_once [of sample_queue 50 sample_takeover] run by blast
qed

lemma sort_key_head:
  assumes "sort_key f xs = y # ys"
  shows "y \<in> set xs" and "x \<in> set xs \<Longrightarrow> f y \<le> f x"
proof -
  have set: "set xs = set (y # ys)" using arg_cong [OF assms, of set] by simp
  then show "y \<in> set xs" by simp
  have "sorted (map f (y # ys))" using assms by (metis sorted_sort_key)
  then show "f y \<le> f x" if "x \<in> set xs" using that set by auto
qed

lemma claim_one_cases:
  assumes ok: "outbox_ids_ok db"
  shows "(\<forall>e \<in> set (t_outbox db). \<not> outbox_dispatchable cfg now e) \<and> claim_one cfg db now = (None, db) \<or>
    (\<exists>c \<in> set (t_outbox db). outbox_dispatchable cfg now c \<and>
       (\<forall>e \<in> set (t_outbox db). outbox_dispatchable cfg now e \<longrightarrow>
          (ob_created_at c, ob_id c) \<le> (ob_created_at e, ob_id e)) \<and>
       claim_one cfg db now =
         (Some \<lparr>cl_id = ob_id c, cl_job_id = ob_job_id c, cl_event_type = ob_event_type c,
            cl_idempotency_key = ob_idempotency_key c, cl_payload = ob_payload c,
            cl_lock_token = uuid_str (uuid_supply db (uuid_next db))\<rparr>,
          db\<lparr>uuid_next := Suc (uuid_next db), t_outbox := update_where (\<lambda>e. ob_id e = ob_id c)
            (claim_row now (uuid_str (uuid_supply db (uuid_next db)))) (t_outbox db)\<rparr>))"
proof -
  let ?d = "outbox_dispatchable cfg now" and ?k = "\<lambda>e. (ob_created_at e, ob_id e)"
  have dist: "distinct (map ob_id (t_outbox db))" using ok by (simp add: outbox_ids_ok_def)
  show ?thesis
  proof (cases "sort_key ?k (select_where ?d (t_outbox db))")
    case Nil
    then have "set (select_where ?d (t_outbox db)) = {}" by (metis set_sort list.set(1))
    with Nil show ?thesis
      by (auto simp: select_where_def claim_one_def claim_one_at_def Let_def)
  next
    case (Cons c cs)
    note H = sort_key_head [OF Cons]
    have c: "c \<in> set (t_outbox db)" "?d c" using H(1) by (simp_all add: select_where_def)
    let ?p = "\<lambda>e. ob_id e = ob_id c \<and> ?d e"
    have "row_count ?p (t_outbox db) = 1"
      using row_count_1_iff [where k = ob_id and p = ?p, OF dist] c by auto
    moreover have "update_where ?p f (t_outbox db) = update_where (\<lambda>e. ob_id e = ob_id c) f (t_outbox db)" for f
      unfolding update_where_def using key_unique [OF dist _ c(1)] c(2) by (auto intro!: map_cong)
    moreover have "\<forall>e \<in> set (t_outbox db). ?d e \<longrightarrow> ?k c \<le> ?k e"
      using H(2) by (simp add: select_where_def)
    ultimately have "claim_one cfg db now =
         (Some \<lparr>cl_id = ob_id c, cl_job_id = ob_job_id c, cl_event_type = ob_event_type c,
            cl_idempotency_key = ob_idempotency_key c, cl_payload = ob_payload c,
            cl_lock_token = uuid_str (uuid_supply db (uuid_next db))\<rparr>,
          db\<lparr>uuid_next := Suc (uuid_next db), t_outbox := update_where (\<lambda>e. ob_id e = ob_id c)
            (claim_row now (uuid_str (uuid_supply db (uuid_next db)))) (t_outbox db)\<rparr>)"
      using Cons by (simp add: claim_one_def claim_one_at_def Let_def uuid4_def)
    with c \<open>\<forall>e \<in> set (t_outbox db). ?d e \<longrightarrow> ?k c \<le> ?k e\<close> show ?thesis by blast
  qed
qed

text \<open>
  C14. Dispatching makes progress, in order and never too early: a claim on an up-to-date
  view finds nothing exactly when nothing is due; otherwise it takes the oldest event that is
  due, never one whose current lease has not run out, and leaves it held until the lease of
  this claim has run out.
\<close>

theorem claim_takes_oldest_due:
  assumes "outbox_ids_ok db" and "claim_one cfg db now = (r, db')"
  shows "(r = None \<longleftrightarrow> (\<forall>e \<in> set (t_outbox db). \<not> outbox_dispatchable cfg now e)) \<and>
    (\<forall>ev. r = Some ev \<longrightarrow> (\<exists>e \<in> set (t_outbox db). ob_id e = cl_id ev \<and>
       (ob_status e = OB_PROCESSING \<longrightarrow>
          (\<exists>l. ob_locked_at e = Some l \<and> l + dc_lease_duration cfg \<le> now)) \<and>
       (\<forall>e' \<in> set (t_outbox db). outbox_dispatchable cfg now e' \<longrightarrow>
          (ob_created_at e, ob_id e) \<le> (ob_created_at e', ob_id e')) \<and>
       (\<forall>e' \<in> set (t_outbox db'). ob_id e' = cl_id ev \<and> now' < now + dc_lease_duration cfg \<longrightarrow>
          ob_attempt_count e' = ob_attempt_count e + 1 \<and> \<not> outbox_dispatchable cfg now' e')))"
  using claim_one_cases [OF assms(1), of cfg now]
proof (elim disjE conjE bexE)
  assume "\<forall>e \<in> set (t_outbox db). \<not> outbox_dispatchable cfg now e" and "claim_one cfg db now = (None, db)"
  with assms(2) show ?thesis by simp
next
  fix c assume c: "c \<in> set (t_outbox db)" "outbox_dispatchable cfg now c"
    and old: "\<forall>e \<in> set (t_outbox db). outbox_dispatchable cfg now e \<longrightarrow>
          (ob_created_at c, ob_id c) \<le> (ob_created_at e, ob_id e)"
    and eq: "claim_one cfg db now =
         (Some \<lparr>cl_id = ob_id c, cl_job_id = ob_job_id c, cl_event_type = ob_event_type c,
            cl_idempotency_key = ob_idempotency_key c, cl_payload = ob_payload c,
            cl_lock_token = uuid_str (uuid_supply db (uuid_next db))\<rparr>,
          db\<lparr>uuid_next := Suc (uuid_next db), t_outbox := update_where (\<lambda>e. ob_id e = ob_id c)
            (claim_row now (uuid_str (uuid_supply db (uuid_next db)))) (t_outbox db)\<rparr>)"
  obtain ev where r: "r = Some ev" "cl_id ev = ob_id c"
    and db': "t_outbox db' = update_where (\<lambda>e. ob_id e = ob_id c)
            (claim_row now (uuid_str (uuid_supply db (uuid_next db)))) (t_outbox db)"
    using assms(2) eq by auto
  have lease: "ob_status c = OB_PROCESSING \<longrightarrow>
      (\<exists>l. ob_locked_at c = Some l \<and> l + dc_lease_duration cfg \<le> now)"
    using c(2) by (auto simp: outbox_dispatchable_def split: option.splits)
  have row: "ob_attempt_count e' = ob_attempt_count c + 1 \<and> \<not> outbox_dispatchable cfg now' e'"
    if e': "e' \<in> set (t_outbox db')" "ob_id e' = ob_id c" "now' < now + dc_lease_duration cfg" for e'
  proof -
    obtain x where x: "x \<in> set (t_outbox db)" "e' = (if ob_id x = ob_id c
        then claim_row now (uuid_str (uuid_supply db (uuid_next db))) x else x)"
      using e'(1) by (auto simp: db' set_update_where)
    with e'(2) have "ob_id x = ob_id c" by (auto simp: claim_row_def split: if_splits)
    with key_unique [OF assms(1) [unfolded outbox_ids_ok_def] x(1) c(1)] x(2)
    have "e' = claim_row now (uuid_str (uuid_supply db (uuid_next db))) c" by simp
    with e'(3) show ?thesis by (simp add: claim_row_def outbox_dispatchable_def)
  qed
  from r c(1,2) lease old row show ?thesis by auto
qed

theorem claim_takes_oldest_due_witness:
  "\<exists>ev db'. claim_one sample_dispatcher sample_queue 5 = (Some ev, db') \<and> cl_id ev = 50"
proof -
  let ?r = "claim_one sample_dispatcher sample_queue 5"
  have "outbox_ids_ok sample_queue" by (simp add: outbox_ids_ok_def sample_queue_def)
  from claim_takes_oldest_due [OF this, of sample_dispatcher 5 "fst ?r" "snd ?r" 6]
  have "fst ?r = None \<longleftrightarrow> (\<forall>e \<in> set (t_outbox sample_queue). \<not> outbox_dispatchable sample_dispatcher 5 e)"
    and "\<forall>ev. fst ?r = Some ev \<longrightarrow> (\<exists>e \<in> set (t_outbox sample_queue). ob_id e = cl_id ev)"
    by auto
  moreover have "outbox_dispatchable sample_dispatcher 5 (sample_outbox 50 OB_PENDING)" by code_simp
  moreover have "t_outbox sample_queue = [sample_outbox 50 OB_PENDING]" by (simp add: sample_queue_def)
  ultimately show ?thesis
    by (cases ?r; cases "fst ?r") (auto simp: sample_outbox_def)
qed

section \<open>Dead letters\<close>

definition audit_key :: "uuid \<Rightarrow> int \<Rightarrow> string" where
  "audit_key i c = ''dead-letter:'' @ uuid_str i @ '':cycle:'' @ int_str c @ '':replay:v1''"

lemma audit_key_inj [simp]: "audit_key i c = audit_key j d \<longleftrightarrow> i = j \<and> c = d"
  by (auto simp: audit_key_def key_simps)

lemma replay_key_audit: "replay_key d = audit_key (dl_id d) (dl_cycle_count d)"
  by (simp add: replay_key_def audit_key_def)

text \<open>An audited replay belongs to a cycle of its dead letter that is over.\<close>

definition cycle_over :: "dead_letter_event \<Rightarrow> int \<Rightarrow> bool" where
  "cycle_over d c \<longleftrightarrow> (if dl_status d = DL_OPEN then c < dl_cycle_count d else c \<le> dl_cycle_count d)"

definition dead_letters_ok :: "database \<Rightarrow> bool" where
  "dead_letters_ok db \<longleftrightarrow> distinct (map dl_id (t_dead_letters db)) \<and>
     (\<forall>a \<in> set (t_audits db). \<forall>i c. aa_operation_key a = audit_key i c \<longrightarrow>
        (\<exists>d \<in> set (t_dead_letters db). dl_id d = i \<and> cycle_over d c))"

lemma add_dead_letter_ok:
  assumes ok: "dead_letters_ok db" and fresh: "uuid_supply db (uuid_next db) \<notin> dl_id ` set (t_dead_letters db)"
    and add: "add_dead_letter db ty i et p n e = Inr db'"
  shows "dead_letters_ok db'" and "\<exists>d. find_dead_letter db' ty i = Some d \<and> dl_status d = DL_OPEN"
proof -
  have status: "s = DL_OPEN \<or> s = DL_REPLAYED" for s by (cases s) auto
  have "dead_letters_ok db' \<and> (\<exists>d. find_dead_letter db' ty i = Some d \<and> dl_status d = DL_OPEN)"
  proof (cases "find_dead_letter db ty i")
    case None
    let ?d = "\<lparr>dl_id = uuid_supply db (uuid_next db), dl_source_type = ty, dl_source_id = i,
      dl_event_type = et, dl_payload = p, dl_attempt_count = n, dl_cycle_count = 1,
      dl_last_error = e, dl_status = DL_OPEN, dl_replayed_at = None, dl_created_at = db_now db\<rparr>"
    from add None have t: "t_dead_letters db' = t_dead_letters db @ [?d]" "t_audits db' = t_audits db"
      by (auto simp: add_dead_letter_def Let_def uuid4_def split: if_splits)
    have "dead_letters_ok db'"
      using ok fresh by (auto simp: dead_letters_ok_def t)
    moreover have "find_dead_letter db' ty i = Some ?d"
      using None by (simp add: find_dead_letter_def t first_where_append first_where_Cons
          del: first_where_None)
    ultimately show ?thesis by auto
  next
    case (Some x)
    let ?p = "\<lambda>d. dl_source_type d = ty \<and> dl_source_id d = i"
    from first_where_Some [OF Some [unfolded find_dead_letter_def]]
    have x: "x \<in> set (t_dead_letters db)" "?p x" by simp_all
    show ?thesis
    proof (cases "dl_status x = DL_REPLAYED")
      case False
      with add Some have "db' = db" by (simp add: add_dead_letter_def)
      with ok Some False status show ?thesis by metis
    next
      case True
      let ?f = "\<lambda>d. d\<lparr>dl_event_type := et, dl_payload := p, dl_attempt_count := n,
        dl_cycle_count := dl_cycle_count x + 1, dl_last_error := e, dl_status := DL_OPEN,
        dl_replayed_at := None\<rparr>"
      from add Some True have t: "t_dead_letters db' =
          update_where (\<lambda>d. dl_id d = dl_id x) ?f (t_dead_letters db)" "t_audits db' = t_audits db"
        by (auto simp: add_dead_letter_def Let_def split: if_splits)
      have dist: "distinct (map dl_id (t_dead_letters db))" using ok by (simp add: dead_letters_ok_def)
      then have "distinct (map dl_id (t_dead_letters db'))"
        unfolding t by (subst map_update_where_cong) simp_all
      moreover have "\<exists>d \<in> set (t_dead_letters db'). dl_id d = j \<and> cycle_over d c"
        if a: "a \<in> set (t_audits db')" "aa_operation_key a = audit_key j c" for a j c
      proof -
        obtain d where d: "d \<in> set (t_dead_letters db)" "dl_id d = j" "cycle_over d c"
          using ok a unfolding dead_letters_ok_def t by blast
        show ?thesis
        proof (cases "dl_id d = dl_id x")
          case False
          with d show ?thesis by (force simp: t update_where_def)
        next
          case same: True
          with key_unique [OF dist d(1) x(1)] have "d = x" by simp
          with d(3) True have "c \<le> dl_cycle_count x" by (simp add: cycle_over_def)
          then have "cycle_over (?f x) c" by (simp add: cycle_over_def)
          moreover have "?f x \<in> set (t_dead_letters db')" using x(1) by (force simp: t update_where_def)
          ultimately show ?thesis using same d(2) by (intro bexI [of _ "?f x"]) simp_all
        qed
      qed
      moreover have "first_where ?p (update_where (\<lambda>d. dl_id d = dl_id x) ?f ds) = Some (?f x)"
        if "first_where ?p ds = Some x" "distinct (map dl_id ds)" for ds
        using that
        by (induction ds) (auto simp: first_where_Cons first_where_Nil table_simps x(2) split: if_splits)
      from this [OF Some [unfolded find_dead_letter_def] dist]
      have "find_dead_letter db' ty i = Some (?f x)" by (simp add: find_dead_letter_def t)
      ultimately show ?thesis by (auto simp: dead_letters_ok_def)
    qed
  qed
  then show "dead_letters_ok db'" and "\<exists>d. find_dead_letter db' ty i = Some d \<and> dl_status d = DL_OPEN"
    by blast+
qed

lemma replayed_ok:
  assumes ok: "dead_letters_ok dbx" and d: "d \<in> set (t_dead_letters dbx)"
    and t: "t_dead_letters db2 = update_where (\<lambda>x. dl_id x = dl_id d)
        (\<lambda>d. d\<lparr>dl_status := DL_REPLAYED, dl_replayed_at := Some now'\<rparr>) (t_dead_letters dbx)"
      "t_audits db2 = t_audits dbx @ [a]" "aa_operation_key a = audit_key (dl_id d) (dl_cycle_count d)"
  shows "dead_letters_ok db2"
proof -
  let ?rep = "\<lambda>d. d\<lparr>dl_status := DL_REPLAYED, dl_replayed_at := Some now'\<rparr>"
  have dd: "distinct (map dl_id (t_dead_letters dbx))" using ok by (simp add: dead_letters_ok_def)
  then have "distinct (map dl_id (t_dead_letters db2))"
    unfolding t by (subst map_update_where_cong) simp_all
  moreover have "\<exists>y \<in> set (t_dead_letters db2). dl_id y = i \<and> cycle_over y c"
    if a': "a' \<in> set (t_audits db2)" "aa_operation_key a' = audit_key i c" for a' i c
  proof -
    have d': "?rep d \<in> set (t_dead_letters db2)" using d by (force simp: t update_where_def)
    obtain x where x: "x \<in> set (t_dead_letters dbx)" "dl_id x = i" "cycle_over x c \<or> x = d \<and> c = dl_cycle_count d"
      using ok a' t(3) d unfolding dead_letters_ok_def t(2) by fastforce
    have weaker: "cycle_over (?rep x) c" using x(3) by (auto simp: cycle_over_def split: if_splits)
    show ?thesis
    proof (cases "dl_id x = dl_id d")
      case True
      have "x = d" by (rule key_unique [OF dd x(1) d True])
      with d' weaker x(2) show ?thesis by (intro bexI [of _ "?rep d"]) simp_all
    next
      case False
      with x have "cycle_over x c" by auto
      moreover have "x \<in> set (t_dead_letters db2)" using x(1) False by (force simp: t update_where_def)
      ultimately show ?thesis using x(2) by blast
    qed
  qed
  ultimately show ?thesis by (simp add: dead_letters_ok_def)
qed

text \<open>
  C15. A dead letter can always be replayed, once per cycle: after a dispatcher has used up
  the attempts of an event, the event is in no dispatcher's reach at any time, until an
  administrator replays its dead letter; the replay cannot fail, makes the event due at once
  with a full budget of attempts and leaves one more audit row; repeating it changes nothing.
\<close>

theorem dead_letter_replayed:
  assumes "outbox_ids_ok db" and "dead_letters_ok db"
    and "uuid_supply db (uuid_next db) \<notin> dl_id ` set (t_dead_letters db)"
    and "schedule_retry cfg db ev exc now = Inr (DISPATCH_DEAD, db1)"
  shows "(\<forall>e \<in> set (t_outbox db1). ob_id e = cl_id ev \<longrightarrow>
       \<not> outbox_dispatchable cfg' t e \<and> \<not> cancel_dispatchable cfg' t e) \<and>
    (\<exists>d db2 d'. find_dead_letter db1 DL_OUTBOX (cl_id ev) = Some d \<and>
       replay_dead_letter db1 (dl_id d) actor now' = Inr (Some d', db2) \<and>
       length (t_audits db2) = length (t_audits db1) + 1 \<and> dead_letters_ok db2 \<and>
       (\<exists>e \<in> set (t_outbox db2). ob_id e = cl_id ev \<and> ob_status e = OB_PENDING \<and>
          ob_attempt_count e = 0 \<and> ob_next_attempt_at e = now') \<and>
       replay_dead_letter db2 (dl_id d) actor' now'' = Inr (Some d', db2))"
proof -
  let ?dead = "\<lambda>e. e\<lparr>ob_status := OB_DEAD_LETTER, ob_locked_at := None,
      ob_lock_token := None, ob_last_error := Some (error_text exc)\<rparr>"
  obtain s dbx where s: "first_where (holds_lease (cl_id ev) (cl_lock_token ev)) (t_outbox db) = Some s"
    and add: "add_dead_letter db DL_OUTBOX (ob_id s) (ob_event_type s) (ob_payload s)
        (ob_attempt_count s) (error_text exc) = Inr dbx"
    and db1: "db1 = dbx\<lparr>t_outbox := update_where (\<lambda>e. ob_id e = ob_id s) ?dead (t_outbox dbx)\<rparr>"
    using assms(4) by (auto simp: schedule_retry_def Let_def and_then_Inr_iff
        split: option.splits if_splits)
  note F = add_dead_letter_frame [OF add] and A = add_dead_letter_ok [OF assms(2,3) add]
  from first_where_Some [OF s] have mem: "s \<in> set (t_outbox db)" and id: "ob_id s = cl_id ev"
    by (simp_all add: holds_lease_def)
  have dist: "distinct (map ob_id (t_outbox db))" using assms(1) by (simp add: outbox_ids_ok_def)
  have t1: "t_outbox db1 = update_where (\<lambda>e. ob_id e = cl_id ev) ?dead (t_outbox db)"
    by (simp add: db1 F(1) id)
  have gone: "\<not> outbox_dispatchable cfg' t e \<and> \<not> cancel_dispatchable cfg' t e"
    if "e \<in> set (t_outbox db1)" "ob_id e = cl_id ev" for e
    using that by (auto simp: t1 update_where_def outbox_dispatchable_def cancel_dispatchable_def)
  from A(2) id obtain d where d: "find_dead_letter dbx DL_OUTBOX (cl_id ev) = Some d" "dl_status d = DL_OPEN"
    by auto
  from first_where_Some [OF d(1) [unfolded find_dead_letter_def]]
  have dm: "d \<in> set (t_dead_letters dbx)" "dl_source_type d = DL_OUTBOX" "dl_source_id d = cl_id ev"
    by simp_all
  have dd: "distinct (map dl_id (t_dead_letters dbx))" using A(1) by (simp add: dead_letters_ok_def)
  have get: "first_where (\<lambda>x. dl_id x = dl_id d) (t_dead_letters db1) = Some d"
    using first_where_key [OF dd dm(1)] by (simp add: db1)
  have row: "first_where (\<lambda>e. ob_id e = cl_id ev) (t_outbox db1) = Some (?dead s)"
    unfolding t1 using first_where_key [OF dist mem] id by (subst first_where_update_same) auto
  have src: "source_status db1 d = Some OB_DEAD_LETTER"
    using dm row by (simp add: source_status_def)
  have free: "\<not> exists_where (\<lambda>a. aa_operation_key a = replay_key d) (t_audits db1)"
  proof
    assume "exists_where (\<lambda>a. aa_operation_key a = replay_key d) (t_audits db1)"
    then obtain a where "a \<in> set (t_audits dbx)" "aa_operation_key a = audit_key (dl_id d) (dl_cycle_count d)"
      by (auto simp: replay_key_audit db1)
    with A(1) obtain x where "x \<in> set (t_dead_letters dbx)" "dl_id x = dl_id d" "cycle_over x (dl_cycle_count d)"
      unfolding dead_letters_ok_def by blast
    with key_unique [OF dd _ dm(1), of x] have "cycle_over d (dl_cycle_count d)" by simp
    with d(2) show False by (simp add: cycle_over_def)
  qed
  let ?rep = "\<lambda>d. d\<lparr>dl_status := DL_REPLAYED, dl_replayed_at := Some now'\<rparr>"
  let ?new = "\<lambda>e. e\<lparr>ob_status := OB_PENDING, ob_attempt_count := 0, ob_next_attempt_at := now',
             ob_locked_at := None, ob_lock_token := None, ob_last_error := None\<rparr>"
  obtain db2 a where r: "replay_dead_letter db1 (dl_id d) actor now' = Inr (Some (?rep d), db2)"
    and t2: "t_outbox db2 = update_where (\<lambda>e. ob_id e = cl_id ev) ?new (t_outbox db1)"
      "t_dead_letters db2 = update_where (\<lambda>x. dl_id x = dl_id d) ?rep (t_dead_letters dbx)"
      "t_audits db2 = t_audits dbx @ [a]" "aa_operation_key a = audit_key (dl_id d) (dl_cycle_count d)"
    using get d(2) src free dm
    by (simp add: replay_dead_letter_def Let_def requeue_source_def replay_key_audit)
      (simp add: db1)
  have "?new (?dead s) \<in> set (t_outbox db2)"
    using mem id by (force simp: t2 t1 update_where_def)
  then have e: "\<exists>e \<in> set (t_outbox db2). ob_id e = cl_id ev \<and> ob_status e = OB_PENDING \<and>
      ob_attempt_count e = 0 \<and> ob_next_attempt_at e = now'"
    using id by (intro bexI [of _ "?new (?dead s)"]) simp_all
  have "first_where (\<lambda>x. dl_id x = dl_id d) (t_dead_letters db2) = Some (?rep d)"
    unfolding t2 using first_where_key [OF dd dm(1)] by (subst first_where_update_same) auto
  then have again: "replay_dead_letter db2 (dl_id d) actor' now'' = Inr (Some (?rep d), db2)"
    by (simp add: replay_dead_letter_def)
  have "dead_letters_ok db2" by (rule replayed_ok [OF A(1) dm(1) t2(2-4)])
  with gone d(1) r e again t2(3) show ?thesis by (auto simp: db1 find_dead_letter_def)
qed

text \<open>An event in its fifth attempt, held by a worker whose start fails.\<close>

definition sample_last_attempt :: database where
  "sample_last_attempt = (sample_db [] [])\<lparr>t_outbox := [(sample_outbox 50 OB_PROCESSING)
     \<lparr>ob_attempt_count := 5, ob_locked_at := Some 0, ob_lock_token := Some ''t''\<rparr>]\<rparr>"

theorem dead_letter_replayed_witness:
  "\<exists>db1 d db2 d'. schedule_retry sample_dispatcher sample_last_attempt (sample_claim ''t'')
       (''RuntimeError'', ''engine down'') 3 = Inr (DISPATCH_DEAD, db1) \<and>
     find_dead_letter db1 DL_OUTBOX 50 = Some d \<and>
     replay_dead_letter db1 (dl_id d) sample_user 9 = Inr (Some d', db2) \<and>
     replay_dead_letter db2 (dl_id d) sample_user 10 = Inr (Some d', db2)"
proof -
  let ?r = "schedule_retry sample_dispatcher sample_last_attempt (sample_claim ''t'')
       (''RuntimeError'', ''engine down'') 3"
  have "is_ok ?r \<and> fst (projr ?r) = DISPATCH_DEAD" by code_simp
  then obtain db1 where r: "?r = Inr (DISPATCH_DEAD, db1)" by (cases ?r) auto
  have "outbox_ids_ok sample_last_attempt" by (simp add: outbox_ids_ok_def sample_last_attempt_def)
  moreover have "dead_letters_ok sample_last_attempt"
    by (simp add: dead_letters_ok_def sample_last_attempt_def sample_defs)
  moreover have "uuid_supply sample_last_attempt (uuid_next sample_last_attempt)
      \<notin> dl_id ` set (t_dead_letters sample_last_attempt)"
    by (simp add: sample_last_attempt_def sample_defs)
  ultimately show ?thesis
    using dead_letter_replayed [of sample_last_attempt sample_dispatcher "sample_claim ''t''"
      "(''RuntimeError'', ''engine down'')" 3 db1 sample_dispatcher 0 sample_user 9 sample_user 10] r
    by (simp add: sample_claim_def) blast
qed

end
