(* ===== verification/Storage.thy ===== *)
theory Storage
  imports Prelude
begin

text \<open>
  Object keys (apps/api/app/storage.py): the private keys storage accepts, in terms of what
  \<open>PurePosixPath\<close> makes of a text.
\<close>

section \<open>PurePosixPath\<close>

fun split_slash :: "string \<Rightarrow> string list" where
  "split_slash [] = [[]]"
| "split_slash (c # s) =
     (if c = CHR ''/'' then [] # split_slash s
      else case split_slash s of [] \<Rightarrow> [[c]] | p # ps \<Rightarrow> (c # p) # ps)"

fun join_slash :: "string list \<Rightarrow> string" where
  "join_slash [] = []"
| "join_slash [p] = p"
| "join_slash (p # q # ps) = p @ CHR ''/'' # join_slash (q # ps)"

definition path_absolute :: "string \<Rightarrow> bool" where
  "path_absolute s \<longleftrightarrow> s \<noteq> [] \<and> hd s = CHR ''/''"

text \<open>The parts of a relative path: empty and \<open>.\<close> segments are dropped.\<close>

definition path_parts :: "string \<Rightarrow> string list" where
  "path_parts s = filter (\<lambda>p. p \<noteq> [] \<and> p \<noteq> ''.'') (split_slash s)"

definition path_as_posix :: "string \<Rightarrow> string" where
  "path_as_posix s = (if path_parts s = [] then ''.'' else join_slash (path_parts s))"

section \<open>Keys\<close>

definition valid_object_key :: "string \<Rightarrow> error + string" where
  "valid_object_key value =
     (if value = [] \<or> CHR 0x5C \<in> set value \<or> CHR '':'' \<in> set value
      then Inl (ApiError 400 ''STORAGE_KEY_INVALID'')
      else if path_absolute value \<or> ''..'' \<in> set (path_parts value) \<or> path_as_posix value \<noteq> value
      then Inl (ApiError 400 ''STORAGE_KEY_INVALID'')
      else if list_ex (\<lambda>p. p = [] \<or> p = ''.'') (path_parts value)
      then Inl (ApiError 400 ''STORAGE_KEY_INVALID'')
      else Inr value)"

definition valid_namespace :: "string \<Rightarrow> error + string" where
  "valid_namespace value =
     and_then (valid_object_key (value @ ''/placeholder'')) (\<lambda>_.
       if path_as_posix value \<noteq> value then Inl (ApiError 400 ''STORAGE_KEY_INVALID'')
       else Inr value)"

section \<open>The keys that are accepted\<close>

lemma split_slash_not_Nil [simp]: "split_slash s \<noteq> []"
  by (induction s) (auto split: list.splits)

lemma join_split: "join_slash (split_slash s) = s"
proof (induction s)
  case (Cons c s)
  obtain p ps where ps: "split_slash s = p # ps" by (cases "split_slash s") auto
  with Cons show ?case by (cases ps) auto
qed simp

lemma split_no_slash: "p \<in> set (split_slash s) \<Longrightarrow> CHR ''/'' \<notin> set p"
  by (induction s arbitrary: p) (auto split: if_splits list.splits)

lemma split_single: "CHR ''/'' \<notin> set p \<Longrightarrow> split_slash p = [p]"
  by (induction p) auto

lemma split_append: "CHR ''/'' \<notin> set p \<Longrightarrow> split_slash (p @ CHR ''/'' # s) = p # split_slash s"
  by (induction p) auto

lemma split_join:
  "ps \<noteq> [] \<Longrightarrow> \<forall>p \<in> set ps. CHR ''/'' \<notin> set p \<Longrightarrow> split_slash (join_slash ps) = ps"
  by (induction ps rule: join_slash.induct) (simp_all add: split_single split_append)

text \<open>A text is a path in canonical form when nothing is dropped from it.\<close>

lemma as_posix_iff:
  "path_as_posix s = s \<longleftrightarrow> s = ''.'' \<or> (\<forall>p \<in> set (split_slash s). p \<noteq> [] \<and> p \<noteq> ''.'')"
proof (cases "path_parts s = []")
  case True
  have "split_slash s = [s]" if "s = ''.''" using that by simp
  moreover have "\<exists>p \<in> set (split_slash s). p = [] \<or> p = ''.''"
    using True split_slash_not_Nil [of s] unfolding path_parts_def filter_empty_conv
    by (cases "split_slash s") auto
  ultimately show ?thesis using True by (auto simp: path_as_posix_def)
next
  case False
  have slash: "\<forall>p \<in> set (path_parts s). CHR ''/'' \<notin> set p"
    using split_no_slash by (auto simp: path_parts_def)
  have "s \<noteq> ''.''" using False by (auto simp: path_parts_def)
  moreover have "join_slash (path_parts s) = s \<longleftrightarrow> path_parts s = split_slash s"
    using split_join [OF False slash] join_split [of s] by metis
  moreover have "path_parts s = split_slash s \<longleftrightarrow> (\<forall>p \<in> set (split_slash s). p \<noteq> [] \<and> p \<noteq> ''.'')"
    unfolding path_parts_def by (rule filter_id_conv)
  ultimately show ?thesis using False by (simp add: path_as_posix_def)
qed

lemma absolute_split: "path_absolute s \<Longrightarrow> [] \<in> set (split_slash s)"
  by (cases s) (auto simp: path_absolute_def)

text \<open>
  C16. Storage accepts exactly the canonical relative keys: no backslash or colon, and every
  segment between slashes is there and is neither \<open>.\<close> nor \<open>..\<close>, so no accepted key leaves its
  root; the one exception is the key \<open>.\<close> itself, which is accepted too.
\<close>

theorem valid_object_key_iff:
  "valid_object_key k = Inr r \<longleftrightarrow> r = k \<and> (k = ''.'' \<or>
     (CHR 0x5C \<notin> set k \<and> CHR '':'' \<notin> set k \<and>
      (\<forall>p \<in> set (split_slash k). p \<noteq> [] \<and> p \<noteq> ''.'' \<and> p \<noteq> ''..'')))"
proof -
  have parts: "p \<in> set (path_parts k) \<longleftrightarrow> p \<in> set (split_slash k) \<and> p \<noteq> [] \<and> p \<noteq> ''.''" for p
    by (auto simp: path_parts_def)
  have dot: "valid_object_key ''.'' = Inr ''.''"
    by (simp add: valid_object_key_def path_parts_def path_absolute_def path_as_posix_def)
  show ?thesis
  proof (cases "k = ''.''")
    case True
    with dot show ?thesis by auto
  next
    case False
    have nil: "k = [] \<Longrightarrow> [] \<in> set (split_slash k)" by simp
    have "valid_object_key k = Inr r \<longleftrightarrow> r = k \<and> k \<noteq> [] \<and> CHR 0x5C \<notin> set k \<and> CHR '':'' \<notin> set k \<and>
        \<not> path_absolute k \<and> ''..'' \<notin> set (path_parts k) \<and> path_as_posix k = k"
      by (auto simp: valid_object_key_def list_ex_iff parts)
    moreover have "k \<noteq> [] \<and> \<not> path_absolute k \<and> (''..'' \<in> set (path_parts k) \<longleftrightarrow> ''..'' \<in> set (split_slash k))"
      if "\<forall>p \<in> set (split_slash k). p \<noteq> [] \<and> p \<noteq> ''.''"
      using that nil absolute_split [of k] unfolding parts by blast
    ultimately show ?thesis using False unfolding as_posix_iff by blast
  qed
qed

theorem valid_object_key_iff_witness:
  "valid_object_key ''a/b'' = Inr ''a/b'' \<and> valid_object_key ''a/../b'' \<noteq> Inr ''a/../b''"
  using valid_object_key_iff [of "''a/b''" "''a/b''"]
    valid_object_key_iff [of "''a/../b''" "''a/../b''"]
  by simp

end
