(* ===== verification/Artifacts.thy ===== *)
theory Artifacts
  imports Storage StateMachine Outbox "HOL-Library.List_Lexorder" "HOL-Library.Char_ord"
begin

text \<open>
  The lifecycle of provider artifacts (apps/api/app/artifact_lifecycle.py): registering the
  objects an attempt writes, which reopens the cleanup of a deleted project, and the
  dispatcher that deletes artifacts past their retention. \<open>retention\<close> is the configured
  retention; \<open>delete\<close> is what the object store answers. The inventory of local files is not
  modelled.
\<close>

definition startswith :: "string \<Rightarrow> string \<Rightarrow> bool" where
  "startswith s p \<longleftrightarrow> take (length p) s = p"

definition validate_artifact_key :: "uuid \<Rightarrow> uuid \<Rightarrow> string \<Rightarrow> string \<Rightarrow> error + unit" where
  "validate_artifact_key job attempt key kind =
     and_then (valid_object_key key) (\<lambda>_.
       let prefix = (if kind = ''SOURCE''
             then ''provider-outputs/'' @ uuid_str job @ ''/'' @ uuid_str attempt @ ''/''
             else ''outputs/'' @ uuid_str job @ ''/'') in
       if kind \<notin> {''SOURCE'', ''FINAL''} \<or> \<not> startswith key prefix
       then Inl (ValueError ''artifact key is outside the owning attempt namespace'')
       else Inr ())"

definition cleanup_due :: "timedelta \<Rightarrow> provider_artifact \<Rightarrow> generation_job \<Rightarrow> time" where
  "cleanup_due retention artifact job =
     max (pa_retain_until artifact)
       ((case job_finished_at job of Some t \<Rightarrow> t | None \<Rightarrow> job_updated_at job) + retention)"

text \<open>The artifact row of a key: a new one, or the row it has, which is reopened when its
  object had already been cleaned.\<close>

definition ensure_artifact ::
  "timedelta \<Rightarrow> database \<Rightarrow> generation_job \<Rightarrow> generation_attempt \<Rightarrow> string \<Rightarrow> string \<Rightarrow> time option \<Rightarrow>
   time \<Rightarrow> error + (provider_artifact \<times> database)" where
  "ensure_artifact retention db job attempt key kind expires_at now =
     (let retain = max (case expires_at of Some t \<Rightarrow> t | None \<Rightarrow> now) (now + retention) in
      case first_where (\<lambda>a. pa_object_key a = key) (t_artifacts db) of
        None \<Rightarrow>
          let (i, db) = uuid4 db;
              artifact = \<lparr>pa_id = i, pa_project_id = job_project_id job, pa_job_id = job_id job,
                pa_attempt_id = at_id attempt, pa_object_key = key, pa_kind = kind,
                pa_retain_until = retain, pa_status = OB_PENDING, pa_attempt_count = 0,
                pa_next_attempt_at = now, pa_locked_at = None, pa_lock_token = None,
                pa_cleaned_at = None, pa_last_error = None, pa_created_at = db_now db\<rparr>
          in Inr (artifact, db\<lparr>t_artifacts := t_artifacts db @ [artifact]\<rparr>)
      | Some artifact \<Rightarrow>
          if pa_job_id artifact \<noteq> job_id job \<or> pa_attempt_id artifact \<noteq> at_id attempt \<or>
             pa_kind artifact \<noteq> kind
          then Inl (ValueError ''artifact identity conflict'')
          else if pa_status artifact = OB_PUBLISHED
          then let reopen = (\<lambda>a. a\<lparr>pa_status := OB_PENDING, pa_cleaned_at := None,
                     pa_retain_until := retain\<rparr>)
               in Inr (reopen artifact, db\<lparr>t_artifacts :=
                    update_where (\<lambda>a. pa_id a = pa_id artifact) reopen (t_artifacts db)\<rparr>)
          else Inr (artifact, db))"

text \<open>An artifact of a deleted project: its cleanup object is added or made pending again, and
  a cleanup that was already published goes back to the queue.\<close>

definition reopen_cleanup ::
  "timedelta \<Rightarrow> database \<Rightarrow> storage_cleanup_event \<Rightarrow> provider_artifact \<Rightarrow> generation_job \<Rightarrow> string \<Rightarrow>
   database" where
  "reopen_cleanup retention db event artifact job key =
     (let due = cleanup_due retention artifact job;
          (not_before, db) =
            (case first_where (\<lambda>c. co_event_id c = ce_id event \<and> co_object_key c = key)
                (t_cleanup_objects db) of
               None \<Rightarrow>
                 let (i, db) = uuid4 db in
                 (due, db\<lparr>t_cleanup_objects := t_cleanup_objects db @
                    [\<lparr>co_id = i, co_event_id = ce_id event, co_object_key = key,
                      co_object_kind = KIND_PROVIDER, co_status = CO_PENDING,
                      co_attempt_count = 0, co_cleaned_at = None, co_not_before = due,
                      co_last_error = None\<rparr>]\<rparr>)
             | Some item \<Rightarrow>
                 if pa_status artifact \<noteq> OB_PUBLISHED
                 then (due, db\<lparr>t_cleanup_objects := update_where (\<lambda>c. co_id c = co_id item)
                   (\<lambda>c. c\<lparr>co_status := CO_PENDING, co_not_before := due\<rparr>) (t_cleanup_objects db)\<rparr>)
                 else (co_not_before item, db))
      in if ce_status event = OB_PUBLISHED
         then db\<lparr>t_cleanup_events := update_where (\<lambda>e. ce_id e = ce_id event)
           (\<lambda>e. e\<lparr>ce_status := OB_PENDING, ce_next_attempt_at := not_before,
              ce_published_at := None\<rparr>) (t_cleanup_events db)\<rparr>
         else db)"

definition register_artifact ::
  "timedelta \<Rightarrow> database \<Rightarrow> uuid \<Rightarrow> uuid \<Rightarrow> string \<Rightarrow> string \<Rightarrow> time option \<Rightarrow> time \<Rightarrow> error + database" where
  "register_artifact retention db job_i attempt_i key kind expires_at now =
     and_then (validate_artifact_key job_i attempt_i key kind) (\<lambda>_.
     case (get_job db job_i, get_attempt db attempt_i) of
       (Some job, Some attempt) \<Rightarrow>
         if at_job_id attempt \<noteq> job_i
         then Inl (ValueError ''artifact attempt is not owned by job'')
         else
           and_then (ensure_artifact retention db job attempt key kind expires_at now)
             (\<lambda>(artifact, db).
           case get_project db (job_project_id job) of
             None \<Rightarrow> Inl (RuntimeError ''AttributeError'')
           | Some project \<Rightarrow>
               if pr_status project \<noteq> PROJECT_DELETED then Inr db
               else case first_where (\<lambda>e. ce_project_id e = pr_id project) (t_cleanup_events db) of
                   None \<Rightarrow> Inl (RuntimeError ''AttributeError'')
                 | Some event \<Rightarrow> Inr (reopen_cleanup retention db event artifact job key))
     | _ \<Rightarrow> Inl (ValueError ''artifact attempt is not owned by job''))"

section \<open>The dispatcher of due artifacts\<close>

definition artifact_due :: "timedelta \<Rightarrow> timedelta \<Rightarrow> database \<Rightarrow> time \<Rightarrow> provider_artifact \<Rightarrow> bool" where
  "artifact_due retention lease db now a =
     (case (get_job db (pa_job_id a), get_project db (pa_project_id a)) of
        (Some job, Some project) \<Rightarrow>
          job_status job \<in> JOB_TERMINAL_STATUSES \<and>
          (case job_finished_at job of Some t \<Rightarrow> t | None \<Rightarrow> job_updated_at job) \<le> now - retention \<and>
          pa_retain_until a \<le> now \<and>
          (pa_kind a = ''SOURCE'' \<or>
           \<not> exists_where (\<lambda>out. go_object_key out = pa_object_key a) (t_outputs db) \<or>
           pr_status project = PROJECT_DELETED) \<and>
          (pa_status a = OB_PENDING \<and> pa_next_attempt_at a \<le> now \<or>
           pa_status a = OB_PROCESSING \<and>
             (case pa_locked_at a of None \<Rightarrow> False | Some l \<Rightarrow> l \<le> now - lease))
      | _ \<Rightarrow> False)"

text \<open>The claim, in its own transaction: the row it took and its token.\<close>

definition artifact_claim ::
  "timedelta \<Rightarrow> timedelta \<Rightarrow> database \<Rightarrow> time \<Rightarrow> (provider_artifact \<times> string) option \<times> database" where
  "artifact_claim retention lease db now =
     (case sort_key (\<lambda>a. (pa_created_at a, pa_id a))
         (select_where (artifact_due retention lease db now) (t_artifacts db)) of
        [] \<Rightarrow> (None, db)
      | artifact # _ \<Rightarrow>
          let (i, db) = uuid4 db; token = uuid_str i in
          (Some (artifact, token), db\<lparr>t_artifacts := update_where (\<lambda>a. pa_id a = pa_id artifact)
             (\<lambda>a. a\<lparr>pa_status := OB_PROCESSING, pa_lock_token := Some token,
                pa_locked_at := Some now, pa_attempt_count := pa_attempt_count artifact + 1\<rparr>)
             (t_artifacts db)\<rparr>))"

definition artifact_held :: "uuid \<Rightarrow> string \<Rightarrow> provider_artifact \<Rightarrow> bool" where
  "artifact_held i token a \<longleftrightarrow>
     pa_id a = i \<and> pa_lock_token a = Some token \<and> pa_status a = OB_PROCESSING"

definition artifact_backoff :: "int \<Rightarrow> timedelta" where
  "artifact_backoff attempts = seconds (min 60 (2 ^ nat (min attempts 6)))"

definition artifact_fail ::
  "int \<Rightarrow> database \<Rightarrow> uuid \<Rightarrow> string \<Rightarrow> string \<times> string \<Rightarrow> time \<Rightarrow> dispatch_result \<times> database" where
  "artifact_fail max_attempts db i token exc now =
     (case first_where (artifact_held i token) (t_artifacts db) of
        None \<Rightarrow> (DISPATCH_RETRY, db)
      | Some a \<Rightarrow>
          let dead = (pa_attempt_count a \<ge> max_attempts) in
          (if dead then DISPATCH_DEAD else DISPATCH_RETRY,
           db\<lparr>t_artifacts := update_where (\<lambda>x. pa_id x = pa_id a)
             (\<lambda>x. x\<lparr>pa_status := (if dead then OB_DEAD_LETTER else OB_PENDING),
                pa_last_error := Some (error_text exc),
                pa_next_attempt_at := now + artifact_backoff (pa_attempt_count a),
                pa_lock_token := None, pa_locked_at := None\<rparr>) (t_artifacts db)\<rparr>))"

definition artifact_finish :: "database \<Rightarrow> uuid \<Rightarrow> string \<Rightarrow> time \<Rightarrow> database" where
  "artifact_finish db i token now = db\<lparr>t_artifacts := update_where (artifact_held i token)
     (\<lambda>a. a\<lparr>pa_status := OB_PUBLISHED, pa_cleaned_at := Some now, pa_locked_at := None,
        pa_lock_token := None, pa_last_error := None\<rparr>) (t_artifacts db)\<rparr>"

text \<open>What deleting an object gave: gone, was not there, or an exception.\<close>

datatype delete_result = Deleted | Missing | Delete_failed "string \<times> string"

definition artifact_dispatch_once ::
  "timedelta \<Rightarrow> timedelta \<Rightarrow> int \<Rightarrow> (string \<Rightarrow> delete_result) \<Rightarrow> (database \<Rightarrow> database) \<Rightarrow> database \<Rightarrow>
   time \<Rightarrow> (error + dispatch_result) \<times> database" where
  "artifact_dispatch_once retention lease max_attempts delete meanwhile db now =
     (case artifact_claim retention lease db now of
        (None, db) \<Rightarrow> (Inr DISPATCH_IDLE, db)
      | (Some (artifact, token), db) \<Rightarrow>
          (case validate_artifact_key (pa_job_id artifact) (pa_attempt_id artifact)
              (pa_object_key artifact) (pa_kind artifact) of
             Inl e \<Rightarrow> (Inl e, db)
           | Inr _ \<Rightarrow>
               let db = meanwhile db in
               (case delete (pa_object_key artifact) of
                  Delete_failed exc \<Rightarrow>
                    (case artifact_fail max_attempts db (pa_id artifact) token exc now of
                       (r, db) \<Rightarrow> (Inr r, db))
                | _ \<Rightarrow> (Inr DISPATCH_PUBLISHED, artifact_finish db (pa_id artifact) token now))))"

end
