(* ===== verification/Cleanup.thy ===== *)
theory Cleanup
  imports Artifacts
begin

text \<open>
  Deleting a project (apps/api/app/project_cleanup.py): the request, which lists every object
  of the project with the earliest time it may go, and the dispatcher that deletes them one
  by one under a lease. \<open>delete\<close> is what the object store answers, \<open>clock\<close> the readings of the
  clock.
\<close>

definition storage_cleanup_key :: "uuid \<Rightarrow> string" where
  "storage_cleanup_key i = ''project:'' @ uuid_str i @ '':storage-cleanup:v1''"

section \<open>Requesting the deletion\<close>

text \<open>A dictionary with assignment and \<open>setdefault\<close>, in insertion order.\<close>

fun dict_set :: "'k \<Rightarrow> 'v \<Rightarrow> ('k \<times> 'v) list \<Rightarrow> ('k \<times> 'v) list" where
  "dict_set k v [] = [(k, v)]"
| "dict_set k v ((k', v') # d) = (if k = k' then (k, v) # d else (k', v') # dict_set k v d)"

definition dict_setdefault :: "'k \<Rightarrow> 'v \<Rightarrow> ('k \<times> 'v) list \<Rightarrow> ('k \<times> 'v) list" where
  "dict_setdefault k v d = (case map_of d k of None \<Rightarrow> d @ [(k, v)] | Some _ \<Rightarrow> d)"

definition project_objects :: "database \<Rightarrow> uuid \<Rightarrow> (string \<times> cleanup_object_kind) list" where
  "project_objects db project_i =
     (let assets = fold (\<lambda>a. dict_set (as_object_key a) KIND_ASSET)
            (select_where (\<lambda>a. as_project_id a = project_i) (t_assets db)) [];
          outputs = fold (\<lambda>out. dict_setdefault (go_object_key out) KIND_OUTPUT)
            (select_where (\<lambda>out. case get_job db (go_job_id out) of None \<Rightarrow> False
               | Some j \<Rightarrow> job_project_id j = project_i) (t_outputs db)) assets
      in fold (\<lambda>a. dict_setdefault (pa_object_key a) KIND_PROVIDER)
           (select_where (\<lambda>a. pa_project_id a = project_i \<and> get_job db (pa_job_id a) \<noteq> None)
              (t_artifacts db)) outputs)"

definition retained_until :: "timedelta \<Rightarrow> database \<Rightarrow> uuid \<Rightarrow> (string \<times> time) list" where
  "retained_until retention db project_i =
     fold (\<lambda>a. case get_job db (pa_job_id a) of None \<Rightarrow> id
         | Some job \<Rightarrow> dict_set (pa_object_key a) (cleanup_due retention a job))
       (select_where (\<lambda>a. pa_project_id a = project_i) (t_artifacts db)) []"

definition add_cleanup_object ::
  "uuid \<Rightarrow> (string \<Rightarrow> time) \<Rightarrow> string \<times> cleanup_object_kind \<Rightarrow> database \<Rightarrow> database" where
  "add_cleanup_object event_i not_before = (\<lambda>(key, kind) db.
     let (i, db) = uuid4 db in
     db\<lparr>t_cleanup_objects := t_cleanup_objects db @
       [\<lparr>co_id = i, co_event_id = event_i, co_object_key = key, co_object_kind = kind,
         co_status = CO_PENDING, co_attempt_count = 0, co_cleaned_at = None,
         co_not_before = not_before key, co_last_error = None\<rparr>]\<rparr>)"

definition request_project_deletion ::
  "timedelta \<Rightarrow> database \<Rightarrow> project \<Rightarrow> time \<Rightarrow> error + (storage_cleanup_event \<times> database)" where
  "request_project_deletion retention db project now =
     (let existing = first_where (\<lambda>e. ce_project_id e = pr_id project) (t_cleanup_events db) in
      if pr_status project = PROJECT_DELETED
      then (case existing of
          None \<Rightarrow> Inl (ApiError 500 ''PROJECT_CLEANUP_EVENT_MISSING'')
        | Some event \<Rightarrow> Inr (event, db))
      else if exists_where (\<lambda>j. job_project_id j = pr_id project \<and>
                 job_status j \<notin> JOB_TERMINAL_STATUSES) (t_jobs db)
      then Inl (ApiError 409 ''PROJECT_HAS_ACTIVE_JOBS'')
      else if existing \<noteq> None then Inl (ApiError 500 ''PROJECT_CLEANUP_STATE_INVALID'')
      else
        let objects = project_objects db (pr_id project);
            retained = retained_until retention db (pr_id project);
            not_before = (\<lambda>key. max now (case map_of retained key of None \<Rightarrow> now | Some t \<Rightarrow> t));
            db = db\<lparr>t_projects := update_where (\<lambda>p. pr_id p = pr_id project)
              (\<lambda>p. p\<lparr>pr_status := PROJECT_DELETED, pr_deleted_at := Some now\<rparr>) (t_projects db)\<rparr>;
            (i, db) = uuid4 db;
            event = \<lparr>ce_id = i, ce_project_id = pr_id project,
              ce_idempotency_key = storage_cleanup_key (pr_id project), ce_status = OB_PENDING,
              ce_attempt_count = 0, ce_next_attempt_at = now, ce_locked_at = None,
              ce_lock_token = None, ce_published_at = None, ce_last_error = None,
              ce_created_at = db_now db\<rparr>
        in if exists_where (\<lambda>e. ce_idempotency_key e = ce_idempotency_key event) (t_cleanup_events db)
           then Inl (IntegrityError ''uq_storage_cleanup_events_idempotency_key'')
           else Inr (event, fold (add_cleanup_object i not_before) (sort_key fst objects)
             (db\<lparr>t_cleanup_events := t_cleanup_events db @ [event]\<rparr>)))"

section \<open>The dispatcher\<close>

record claimed_cleanup =
  sc_event_id :: uuid
  sc_project_id :: uuid
  sc_lock_token :: string

record cleanup_request =
  sq_event_id :: uuid
  sq_project_id :: uuid
  sq_object_id :: uuid
  sq_object_key :: string
  sq_object_kind :: cleanup_object_kind

definition cleanup_dispatcher :: "timedelta \<Rightarrow> timedelta \<Rightarrow> int \<Rightarrow> error + dispatcher" where
  "cleanup_dispatcher lease_duration retry_delay max_attempts =
     (if max_attempts \<le> 0 then Inl (ValueError ''storage cleanup max attempts must be positive'')
      else Inr \<lparr>dc_lease_duration = lease_duration, dc_retry_delay = retry_delay,
        dc_max_attempts = max_attempts\<rparr>)"

definition cleanup_dispatchable :: "dispatcher \<Rightarrow> time \<Rightarrow> storage_cleanup_event \<Rightarrow> bool" where
  "cleanup_dispatchable cfg now e \<longleftrightarrow>
     ce_status e = OB_PENDING \<and> ce_next_attempt_at e \<le> now \<or>
     ce_status e = OB_PROCESSING \<and>
       (case ce_locked_at e of None \<Rightarrow> False | Some l \<Rightarrow> l \<le> now - dc_lease_duration cfg)"

fun cleanup_claim_candidates ::
  "(storage_cleanup_event \<Rightarrow> bool) \<Rightarrow> time \<Rightarrow> storage_cleanup_event list \<Rightarrow> database \<Rightarrow>
   claimed_cleanup option \<times> database" where
  "cleanup_claim_candidates dispatchable now [] db = (None, db)"
| "cleanup_claim_candidates dispatchable now (candidate # rest) db =
     (let (i, db) = uuid4 db;
          lock_token = uuid_str i;
          matching = (\<lambda>e. ce_id e = ce_id candidate \<and> dispatchable e) in
      if row_count matching (t_cleanup_events db) \<noteq> 1
      then cleanup_claim_candidates dispatchable now rest db
      else (Some \<lparr>sc_event_id = ce_id candidate, sc_project_id = ce_project_id candidate,
               sc_lock_token = lock_token\<rparr>,
            db\<lparr>t_cleanup_events := update_where matching
              (\<lambda>e. e\<lparr>ce_status := OB_PROCESSING, ce_attempt_count := ce_attempt_count e + 1,
                 ce_locked_at := Some now, ce_lock_token := Some lock_token,
                 ce_last_error := None\<rparr>) (t_cleanup_events db)\<rparr>))"

definition cleanup_claim_one_at ::
  "dispatcher \<Rightarrow> database \<Rightarrow> database \<Rightarrow> time \<Rightarrow> claimed_cleanup option \<times> database" where
  "cleanup_claim_one_at cfg db0 db now =
     (let dispatchable = cleanup_dispatchable cfg now;
          candidates = take 8 (sort_key (\<lambda>e. (ce_created_at e, ce_id e))
            (select_where dispatchable (t_cleanup_events db0)))
      in cleanup_claim_candidates dispatchable now candidates db)"

definition cleanup_holds :: "claimed_cleanup \<Rightarrow> storage_cleanup_event \<Rightarrow> bool" where
  "cleanup_holds event e \<longleftrightarrow> ce_id e = sc_event_id event \<and> ce_status e = OB_PROCESSING \<and>
     ce_lock_token e = Some (sc_lock_token event)"

definition lease_owned :: "database \<Rightarrow> claimed_cleanup \<Rightarrow> bool" where
  "lease_owned db event = exists_where (cleanup_holds event) (t_cleanup_events db)"

definition next_object :: "database \<Rightarrow> claimed_cleanup \<Rightarrow> time \<Rightarrow> cleanup_request option" where
  "next_object db event now =
     (case sort_key (\<lambda>c. (co_object_key c, co_id c))
         (select_where (\<lambda>c. co_event_id c = sc_event_id event \<and> co_status c = CO_PENDING \<and>
            co_not_before c \<le> now) (t_cleanup_objects db)) of
        [] \<Rightarrow> None
      | c # _ \<Rightarrow> Some \<lparr>sq_event_id = sc_event_id event, sq_project_id = sc_project_id event,
          sq_object_id = co_id c, sq_object_key = co_object_key c,
          sq_object_kind = co_object_kind c\<rparr>)"

definition cleanup_renew_lease :: "database \<Rightarrow> claimed_cleanup \<Rightarrow> time \<Rightarrow> error + database" where
  "cleanup_renew_lease db event now =
     (if row_count (cleanup_holds event) (t_cleanup_events db) \<noteq> 1
      then Inl (RuntimeError ''storage cleanup outbox lease was lost while renewing'')
      else Inr (db\<lparr>t_cleanup_events := update_where (cleanup_holds event)
        (\<lambda>e. e\<lparr>ce_locked_at := Some now\<rparr>) (t_cleanup_events db)\<rparr>))"

text \<open>The object the worker is on: still pending, under a lease that is still held.\<close>

definition object_in_hand :: "database \<Rightarrow> claimed_cleanup \<Rightarrow> cleanup_request \<Rightarrow> storage_cleanup_object \<Rightarrow> bool" where
  "object_in_hand db event request c \<longleftrightarrow>
     co_id c = sq_object_id request \<and> co_status c = CO_PENDING \<and> lease_owned db event"

definition start_object_attempt ::
  "database \<Rightarrow> claimed_cleanup \<Rightarrow> cleanup_request \<Rightarrow> error + database" where
  "start_object_attempt db event request =
     (if row_count (object_in_hand db event request) (t_cleanup_objects db) \<noteq> 1
      then Inl (RuntimeError ''storage cleanup outbox lease was lost before object deletion'')
      else Inr (db\<lparr>t_cleanup_objects := update_where (object_in_hand db event request)
        (\<lambda>c. c\<lparr>co_attempt_count := co_attempt_count c + 1, co_last_error := None\<rparr>)
        (t_cleanup_objects db)\<rparr>))"

definition mark_object_failure ::
  "database \<Rightarrow> claimed_cleanup \<Rightarrow> cleanup_request \<Rightarrow> string \<times> string \<Rightarrow> error + database" where
  "mark_object_failure db event request exc =
     (if row_count (object_in_hand db event request) (t_cleanup_objects db) \<noteq> 1
      then Inl (RuntimeError ''storage cleanup outbox lease was lost after object failure'')
      else Inr (db\<lparr>t_cleanup_objects := update_where (object_in_hand db event request)
        (\<lambda>c. c\<lparr>co_last_error := Some (error_text exc)\<rparr>) (t_cleanup_objects db)\<rparr>))"

definition mark_object_deleted ::
  "database \<Rightarrow> claimed_cleanup \<Rightarrow> cleanup_request \<Rightarrow> time \<Rightarrow> error + database" where
  "mark_object_deleted db event request now =
     (if row_count (object_in_hand db event request) (t_cleanup_objects db) \<noteq> 1
      then Inl (RuntimeError ''storage cleanup outbox lease was lost after object deletion'')
      else
        let db = db\<lparr>t_cleanup_objects := update_where (object_in_hand db event request)
              (\<lambda>c. c\<lparr>co_status := CO_DELETED, co_cleaned_at := Some now, co_last_error := None\<rparr>)
              (t_cleanup_objects db)\<rparr>;
            db = (if sq_object_kind request = KIND_ASSET
              then db\<lparr>t_assets := update_where (\<lambda>a. as_project_id a = sc_project_id event \<and>
                  as_object_key a = sq_object_key request) (\<lambda>a. a\<lparr>as_status := ASSET_DELETED\<rparr>)
                (t_assets db)\<rparr>
              else db)
        in Inr (db\<lparr>t_artifacts := update_where (\<lambda>a. pa_project_id a = sc_project_id event \<and>
               pa_object_key a = sq_object_key request)
             (\<lambda>a. a\<lparr>pa_status := OB_PUBLISHED, pa_cleaned_at := Some now, pa_locked_at := None,
                pa_lock_token := None, pa_last_error := None\<rparr>) (t_artifacts db)\<rparr>))"

definition cleanup_schedule_retry ::
  "dispatcher \<Rightarrow> database \<Rightarrow> claimed_cleanup \<Rightarrow> string \<times> string \<Rightarrow> time \<Rightarrow>
   error + (dispatch_result \<times> database)" where
  "cleanup_schedule_retry cfg db event exc now =
     (let error = error_text exc in
      case first_where (cleanup_holds event) (t_cleanup_events db) of
        None \<Rightarrow> Inl (RuntimeError ''storage cleanup outbox lease was lost while retrying'')
      | Some source \<Rightarrow>
          if ce_attempt_count source \<ge> dc_max_attempts cfg
          then and_then (add_dead_letter db DL_STORAGE_CLEANUP (ce_id source)
                 ''project.storage.cleanup''
                 (JObj [(''project_id'', JStr (uuid_str (ce_project_id source)))])
                 (ce_attempt_count source) error)
               (\<lambda>db. Inr (DISPATCH_DEAD, db\<lparr>t_cleanup_events := update_where (\<lambda>e. ce_id e = ce_id source)
                 (\<lambda>e. e\<lparr>ce_status := OB_DEAD_LETTER, ce_locked_at := None,
                    ce_lock_token := None, ce_last_error := Some error\<rparr>) (t_cleanup_events db)\<rparr>))
          else Inr (DISPATCH_RETRY, db\<lparr>t_cleanup_events := update_where (\<lambda>e. ce_id e = ce_id source)
                 (\<lambda>e. e\<lparr>ce_status := OB_PENDING, ce_next_attempt_at := now + dc_retry_delay cfg,
                    ce_locked_at := None, ce_lock_token := None,
                    ce_last_error := Some error\<rparr>) (t_cleanup_events db)\<rparr>))"

definition cleanup_mark_published ::
  "database \<Rightarrow> claimed_cleanup \<Rightarrow> time \<Rightarrow> error + (dispatch_result \<times> database)" where
  "cleanup_mark_published db event now =
     (case select_where (\<lambda>c. co_event_id c = sc_event_id event \<and> co_status c = CO_PENDING)
         (t_cleanup_objects db) of
        c # cs \<Rightarrow>
          let next_due = Min (set (map co_not_before (c # cs))) in
          if row_count (cleanup_holds event) (t_cleanup_events db) \<noteq> 1
          then Inl (RuntimeError ''storage cleanup lease lost while deferring retained objects'')
          else Inr (DISPATCH_RETRY, db\<lparr>t_cleanup_events := update_where (cleanup_holds event)
            (\<lambda>e. e\<lparr>ce_status := OB_PENDING, ce_next_attempt_at := next_due, ce_locked_at := None,
               ce_lock_token := None, ce_attempt_count := ce_attempt_count e - 1\<rparr>)
            (t_cleanup_events db)\<rparr>)
      | [] \<Rightarrow>
          if row_count (cleanup_holds event) (t_cleanup_events db) \<noteq> 1
          then Inl (RuntimeError ''storage cleanup outbox lease was lost while publishing'')
          else Inr (DISPATCH_PUBLISHED, db\<lparr>t_cleanup_events := update_where (cleanup_holds event)
            (\<lambda>e. e\<lparr>ce_status := OB_PUBLISHED, ce_published_at := Some now, ce_locked_at := None,
               ce_lock_token := None, ce_last_error := None\<rparr>) (t_cleanup_events db)\<rparr>))"

section \<open>One pass\<close>

definition pending_objects :: "database \<Rightarrow> nat" where
  "pending_objects db = length (filter (\<lambda>c. co_status c = CO_PENDING) (t_cleanup_objects db))"

lemma start_keeps_pending:
  assumes "start_object_attempt db event request = Inr db'"
  shows "pending_objects db' = pending_objects db"
  using assms by (auto simp: start_object_attempt_def pending_objects_def filter_update_where_cong
      split: if_splits)

lemma renew_keeps_objects:
  "cleanup_renew_lease db event now = Inr db' \<Longrightarrow> t_cleanup_objects db' = t_cleanup_objects db"
  by (auto simp: cleanup_renew_lease_def split: if_splits)

lemma filter_update_fewer:
  assumes "\<exists>x \<in> set xs. p x" and "\<And>x. p x \<Longrightarrow> q x \<and> \<not> q (f x)"
  shows "length (filter q (update_where p f xs)) < length (filter q xs)"
proof -
  have le: "length (filter q (update_where p f xs)) \<le> length (filter q xs)" for xs
    by (induction xs) (auto simp: table_simps dest: assms(2))
  show ?thesis
    using assms(1)
  proof (induction xs)
    case (Cons x xs)
    show ?case
    proof (cases "p x")
      case True
      with assms(2) [OF True] le [of xs] show ?thesis by (simp add: table_simps)
    next
      case False
      with Cons show ?thesis by (simp add: table_simps)
    qed
  qed simp
qed

lemma deleted_fewer_pending:
  assumes "mark_object_deleted db event request now = Inr db'"
  shows "pending_objects db' < pending_objects db"
proof -
  let ?p = "object_in_hand db event request"
  have "row_count ?p (t_cleanup_objects db) = 1"
    and t: "t_cleanup_objects db' = update_where ?p
      (\<lambda>c. c\<lparr>co_status := CO_DELETED, co_cleaned_at := Some now, co_last_error := None\<rparr>)
      (t_cleanup_objects db)"
    using assms by (auto simp: mark_object_deleted_def Let_def split: if_splits)
  then have "\<exists>c \<in> set (t_cleanup_objects db). ?p c"
    using row_count_0 [of ?p "t_cleanup_objects db"] by fastforce
  then show ?thesis
    unfolding pending_objects_def t by (rule filter_update_fewer) (simp add: object_in_hand_def)
qed

text \<open>
  The loop of \<open>_dispatch_once\<close> after a claim. Every round that goes on has deleted an object
  that was pending, so the loop ends.
\<close>

function cleanup_loop ::
  "dispatcher \<Rightarrow> (string \<Rightarrow> delete_result) \<Rightarrow> claimed_cleanup \<Rightarrow> (nat \<Rightarrow> time) \<Rightarrow> nat \<Rightarrow> database \<Rightarrow>
   (error + dispatch_result) \<times> database" where
  "cleanup_loop cfg delete event clock k db =
     (case next_object db event (clock k) of
        None \<Rightarrow> (case cleanup_mark_published db event (clock (k + 1)) of
            Inl e \<Rightarrow> (Inl e, db) | Inr (r, db) \<Rightarrow> (Inr r, db))
      | Some request \<Rightarrow>
          (case cleanup_renew_lease db event (clock (k + 1)) of
             Inl e \<Rightarrow> (Inl e, db)
           | Inr db1 \<Rightarrow>
               (case start_object_attempt db1 event request of
                  Inl e \<Rightarrow> (Inl e, db1)
                | Inr db2 \<Rightarrow>
                    (case delete (sq_object_key request) of
                       Delete_failed exc \<Rightarrow>
                         (case mark_object_failure db2 event request exc of
                            Inl e \<Rightarrow> (Inl e, db2)
                          | Inr db3 \<Rightarrow> (case cleanup_schedule_retry cfg db3 event exc (clock (k + 2)) of
                              Inl e \<Rightarrow> (Inl e, db3) | Inr (r, db) \<Rightarrow> (Inr r, db)))
                     | _ \<Rightarrow>
                         (case mark_object_deleted db2 event request (clock (k + 2)) of
                            Inl e \<Rightarrow> (Inl e, db2)
                          | Inr db3 \<Rightarrow> cleanup_loop cfg delete event clock (k + 3) db3)))))"
  by pat_completeness auto
termination
proof (relation "measure (\<lambda>(cfg, delete, event, clock, k, db). pending_objects db)")
qed (auto simp: pending_objects_def dest!: deleted_fewer_pending start_keeps_pending
  renew_keeps_objects)

definition cleanup_dispatch_once ::
  "dispatcher \<Rightarrow> (string \<Rightarrow> delete_result) \<Rightarrow> (nat \<Rightarrow> time) \<Rightarrow> database \<Rightarrow>
   (error + dispatch_result) \<times> database" where
  "cleanup_dispatch_once cfg delete clock db =
     (case cleanup_claim_one_at cfg db db (clock 0) of
        (None, db) \<Rightarrow> (Inr DISPATCH_IDLE, db)
      | (Some event, db) \<Rightarrow> cleanup_loop cfg delete event clock 1 db)"

declare cleanup_loop.simps [simp del]

end
