(* ===== verification/CleanupInv.thy ===== *)
theory CleanupInv
  imports Cleanup OutboxLeases
begin

text \<open>
  Correctness of project deletion: the cleanup lists every object of the project, nothing is
  deleted before its time or without the store's word, a published cleanup has deleted
  everything, and the table of cleanup events is a leased queue.
\<close>

section \<open>What a pass does to the objects\<close>

definition object_view :: "storage_cleanup_object \<Rightarrow> uuid \<times> uuid \<times> string \<times> cleanup_object_status \<times> time" where
  "object_view c = (co_id c, co_event_id c, co_object_key c, co_status c, co_not_before c)"

definition objects_view :: "database \<Rightarrow> (uuid \<times> uuid \<times> string \<times> cleanup_object_status \<times> time) list" where
  "objects_view db = map object_view (t_cleanup_objects db)"

lemma update_where_mem: "x \<in> set xs \<Longrightarrow> p x \<Longrightarrow> f x \<in> set (update_where p f xs)"
  by (force simp: update_where_def)

lemma objects_view_renew:
  "cleanup_renew_lease db event now = Inr db' \<Longrightarrow> objects_view db' = objects_view db"
  by (simp add: objects_view_def renew_keeps_objects)

lemma objects_view_start:
  "start_object_attempt db event request = Inr db' \<Longrightarrow> objects_view db' = objects_view db"
  by (auto simp: start_object_attempt_def objects_view_def object_view_def
      intro!: map_update_where_cong split: if_splits)

lemma objects_view_failure:
  "mark_object_failure db event request exc = Inr db' \<Longrightarrow> objects_view db' = objects_view db"
  by (auto simp: mark_object_failure_def objects_view_def object_view_def
      intro!: map_update_where_cong split: if_splits)

lemma objects_view_retry:
  "cleanup_schedule_retry cfg db event exc now = Inr (r, db') \<Longrightarrow> objects_view db' = objects_view db"
  by (auto simp: cleanup_schedule_retry_def objects_view_def Let_def and_then_Inr_iff
      dest: add_dead_letter_frame(3) split: option.splits if_splits)

lemma objects_view_publish:
  "cleanup_mark_published db event now = Inr (r, db') \<Longrightarrow> objects_view db' = objects_view db"
  by (auto simp: cleanup_mark_published_def objects_view_def Let_def split: list.splits if_splits)

definition delete_in_view :: "uuid \<Rightarrow> uuid \<times> uuid \<times> string \<times> cleanup_object_status \<times> time \<Rightarrow>
    uuid \<times> uuid \<times> string \<times> cleanup_object_status \<times> time" where
  "delete_in_view i = (\<lambda>(i', e, k, s, n). (i', e, k, if i' = i \<and> s = CO_PENDING then CO_DELETED else s, n))"

lemma objects_view_deleted:
  assumes "mark_object_deleted db event request now = Inr db'"
  shows "objects_view db' = map (delete_in_view (sq_object_id request)) (objects_view db)"
proof -
  let ?p = "object_in_hand db event request"
  have cnt: "row_count ?p (t_cleanup_objects db) = 1"
    and t: "t_cleanup_objects db' = update_where ?p
      (\<lambda>c. c\<lparr>co_status := CO_DELETED, co_cleaned_at := Some now, co_last_error := None\<rparr>)
      (t_cleanup_objects db)"
    using assms by (auto simp: mark_object_deleted_def Let_def split: if_splits)
  from cnt have "lease_owned db event"
    using row_count_0 [of ?p "t_cleanup_objects db"] by (fastforce simp: object_in_hand_def)
  then show ?thesis
    unfolding objects_view_def t update_where_def
    by (auto simp: object_view_def delete_in_view_def object_in_hand_def)
qed

lemma next_object_view:
  assumes "next_object db event now = Some request"
  shows "\<exists>n. (sq_object_id request, sc_event_id event, sq_object_key request, CO_PENDING, n)
    \<in> set (objects_view db) \<and> n \<le> now"
proof -
  let ?due = "select_where (\<lambda>c. co_event_id c = sc_event_id event \<and> co_status c = CO_PENDING \<and>
            co_not_before c \<le> now) (t_cleanup_objects db)"
  obtain c cs where s: "sort_key (\<lambda>c. (co_object_key c, co_id c)) ?due = c # cs"
    and r: "sq_object_id request = co_id c" "sq_object_key request = co_object_key c"
    using assms by (auto simp: next_object_def split: list.splits)
  from sort_key_head(1) [OF s] have "c \<in> set (t_cleanup_objects db)" "co_event_id c = sc_event_id event"
    "co_status c = CO_PENDING" "co_not_before c \<le> now" by (simp_all add: select_where_def)
  then show ?thesis by (force simp: objects_view_def object_view_def r)
qed

text \<open>How the status of an object may change in a pass.\<close>

definition may_become ::
  "(string \<Rightarrow> delete_result) \<Rightarrow> claimed_cleanup \<Rightarrow> (nat \<Rightarrow> time) \<Rightarrow> uuid \<Rightarrow> string \<Rightarrow> time \<Rightarrow>
   cleanup_object_status \<Rightarrow> cleanup_object_status \<Rightarrow> bool" where
  "may_become delete event clock e k n s s' \<longleftrightarrow> s' = s \<or>
     (s = CO_PENDING \<and> s' = CO_DELETED \<and> e = sc_event_id event \<and> (\<exists>j. n \<le> clock j) \<and>
      delete k \<in> {Deleted, Missing})"

lemma may_become_trans:
  "may_become d ev cl e k n s s' \<Longrightarrow> may_become d ev cl e k n s' s'' \<Longrightarrow> may_become d ev cl e k n s s''"
  by (auto simp: may_become_def)

lemma cleanup_retry_not_published:
  "cleanup_schedule_retry cfg db event exc now = Inr (r, db') \<Longrightarrow> r \<noteq> DISPATCH_PUBLISHED"
  by (auto simp: cleanup_schedule_retry_def Let_def and_then_Inr_iff split: option.splits if_splits)

text \<open>How one round of the loop ends: with the pass, or with one more object deleted.\<close>

lemma cleanup_loop_cases:
  assumes "cleanup_loop cfg delete event clock k db = (r, db')"
  obtains (ends) "objects_view db' = objects_view db"
      and "r = Inr DISPATCH_PUBLISHED \<longrightarrow>
        (\<exists>now. cleanup_mark_published db event now = Inr (DISPATCH_PUBLISHED, db'))"
    | (next_round) request db1 db2 db3 where "next_object db event (clock k) = Some request"
        "cleanup_renew_lease db event (clock (k + 1)) = Inr db1"
        "start_object_attempt db1 event request = Inr db2"
        "delete (sq_object_key request) = Deleted \<or> delete (sq_object_key request) = Missing"
        "mark_object_deleted db2 event request (clock (k + 2)) = Inr db3"
        "cleanup_loop cfg delete event clock (k + 3) db3 = (r, db')"
proof (cases "next_object db event (clock k)")
  case None
  show ?thesis
  proof (cases "cleanup_mark_published db event (clock (k + 1))")
    case (Inl e)
    with None assms have "db' = db" "r = Inl e" by (simp_all add: cleanup_loop.simps [of _ _ _ _ k])
    then show ?thesis by (intro ends) simp_all
  next
    case (Inr x)
    obtain q d where x: "x = (q, d)" by fastforce
    from None assms Inr x have "d = db'" "r = Inr q" by (simp_all add: cleanup_loop.simps [of _ _ _ _ k])
    with Inr x objects_view_publish [of db event "clock (k + 1)"] show ?thesis by (intro ends) auto
  qed
next
  case (Some request)
  note n = Some
  show ?thesis
  proof (cases "cleanup_renew_lease db event (clock (k + 1))")
    case (Inl e)
    with n assms have "db' = db" "r = Inl e" by (simp_all add: cleanup_loop.simps [of _ _ _ _ k])
    then show ?thesis by (intro ends) simp_all
  next
    case (Inr db1)
    note re = Inr and v1 = objects_view_renew [OF Inr]
    show ?thesis
    proof (cases "start_object_attempt db1 event request")
      case (Inl e)
      with n re assms have "db' = db1" "r = Inl e" by (simp_all add: cleanup_loop.simps [of _ _ _ _ k])
      then show ?thesis using v1 by (intro ends) simp_all
    next
      case (Inr db2)
      note st = Inr and v2 = objects_view_start [OF Inr]
      show ?thesis
      proof (cases "\<exists>exc. delete (sq_object_key request) = Delete_failed exc")
        case True
        then obtain exc where d: "delete (sq_object_key request) = Delete_failed exc" by blast
        show ?thesis
        proof (cases "mark_object_failure db2 event request exc")
          case (Inl e)
          with n re st d assms have "db' = db2" "r = Inl e"
            by (simp_all add: cleanup_loop.simps [of _ _ _ _ k])
          then show ?thesis using v1 v2 by (intro ends) simp_all
        next
          case (Inr db3)
          note fa = Inr and v3 = objects_view_failure [OF Inr]
          show ?thesis
          proof (cases "cleanup_schedule_retry cfg db3 event exc (clock (k + 2))")
            case (Inl e)
            with n re st d fa assms have "db' = db3" "r = Inl e"
              by (simp_all add: cleanup_loop.simps [of _ _ _ _ k])
            then show ?thesis using v1 v2 v3 by (intro ends) simp_all
          next
            case (Inr x)
            obtain q db4 where x: "x = (q, db4)" by fastforce
            with n re st d fa Inr assms have "db' = db4" "r = Inr q"
              by (simp_all add: cleanup_loop.simps [of _ _ _ _ k])
            then show ?thesis
              using v1 v2 v3 x objects_view_retry [OF Inr [unfolded x]]
                cleanup_retry_not_published [OF Inr [unfolded x]] by (intro ends) simp_all
          qed
        qed
      next
        case False
        then have d: "delete (sq_object_key request) = Deleted \<or> delete (sq_object_key request) = Missing"
          by (cases "delete (sq_object_key request)") auto
        show ?thesis
        proof (cases "mark_object_deleted db2 event request (clock (k + 2))")
          case (Inl e)
          with n re st d assms have "db' = db2 \<and> r = Inl e"
            by (elim disjE) (simp_all add: cleanup_loop.simps [of _ _ _ _ k])
          then show ?thesis using v1 v2 by (intro ends) simp_all
        next
          case (Inr db3)
          with n re st d assms have "cleanup_loop cfg delete event clock (k + 3) db3 = (r, db')"
            by (elim disjE) (simp_all add: cleanup_loop.simps [of _ _ _ _ k])
          from next_round [OF n re st d Inr this] show ?thesis .
        qed
      qed
    qed
  qed
qed

lemma cleanup_loop_view:
  assumes "cleanup_loop cfg delete event clock k db = (r, db')"
    and "distinct (map fst (objects_view db))"
  shows "\<exists>g. objects_view db' = map (\<lambda>(i, e, k, s, n). (i, e, k, g i s, n)) (objects_view db) \<and>
    (\<forall>(i, e, k, s, n) \<in> set (objects_view db). may_become delete event clock e k n s (g i s))"
  using assms
proof (induction cfg delete event clock k db arbitrary: r db' rule: cleanup_loop.induct)
  case (1 cfg delete event clock k db)
  from "1.prems"(1) show ?case
  proof (cases rule: cleanup_loop_cases)
    case ends
    then show ?thesis
      by (intro exI [of _ "\<lambda>i s. s"]) (auto simp: may_become_def map_idI)
  next
    case (next_round request db1 db2 db3)
    let ?i = "sq_object_id request" and ?V = "objects_view db"
    have v2: "objects_view db2 = ?V"
      using objects_view_renew [OF next_round(2)] objects_view_start [OF next_round(3)] by simp
    have v3: "objects_view db3 = map (delete_in_view ?i) ?V"
      using objects_view_deleted [OF next_round(5)] v2 by simp
    then have ids: "map fst (objects_view db3) = map fst ?V"
      by (auto simp: delete_in_view_def)
    then have dist3: "distinct (map fst (objects_view db3))" using "1.prems"(2) by simp
    obtain g where g: "objects_view db' = map (\<lambda>(i, e, k, s, n). (i, e, k, g i s, n)) (objects_view db3)"
      and gm: "\<forall>(i, e, k, s, n) \<in> set (objects_view db3). may_become delete event clock e k n s (g i s)"
      using "1.IH"(1) [OF next_round(1-3) _ next_round(5,6) dist3]
        "1.IH"(2) [OF next_round(1-3) _ next_round(5,6) dist3] next_round(4) by blast
    obtain n0 where n0: "(?i, sc_event_id event, sq_object_key request, CO_PENDING, n0) \<in> set ?V"
      "n0 \<le> clock k" using next_object_view [OF next_round(1)] by blast
    let ?h = "\<lambda>i s. if i = ?i \<and> s = CO_PENDING then CO_DELETED else s"
    let ?g = "\<lambda>i s. g i (?h i s)"
    have "objects_view db' = map (\<lambda>(i, e, k, s, n). (i, e, k, ?g i s, n)) ?V"
      unfolding g v3 by (auto simp: delete_in_view_def)
    moreover have "may_become delete event clock e k n s (?g i s)"
      if v: "(i, e, k, s, n) \<in> set ?V" for i e k s n
    proof -
      have "delete_in_view ?i (i, e, k, s, n) \<in> set (objects_view db3)" unfolding v3 using v by simp
      with gm have "may_become delete event clock e k n (?h i s) (?g i s)"
        by (fastforce simp: delete_in_view_def)
      moreover have "may_become delete event clock e k n s (?h i s)"
      proof (cases "i = ?i \<and> s = CO_PENDING")
        case True
        with key_unique [OF "1.prems"(2) v n0(1)] n0(2) next_round(4) show ?thesis
          by (auto simp: may_become_def)
      next
        case False
        then show ?thesis by (auto simp: may_become_def)
      qed
      ultimately show ?thesis using may_become_trans by blast
    qed
    ultimately show ?thesis by (intro exI [of _ ?g]) auto
  qed
qed

section \<open>An example\<close>

definition sample_object :: storage_cleanup_object where
  "sample_object = \<lparr>co_id = 61, co_event_id = 60, co_object_key = ''outputs/a.mp4'',
     co_object_kind = KIND_OUTPUT, co_status = CO_PENDING, co_attempt_count = 0,
     co_cleaned_at = None, co_not_before = 5, co_last_error = None\<rparr>"

definition sample_cleaned_object :: storage_cleanup_object where
  "sample_cleaned_object = sample_object\<lparr>co_status := CO_DELETED, co_attempt_count := 1,
     co_cleaned_at := Some 10\<rparr>"

definition sample_cleanup :: database where
  "sample_cleanup = (sample_db [] [])\<lparr>t_cleanup_events := [\<lparr>ce_id = 60, ce_project_id = 102,
       ce_idempotency_key = storage_cleanup_key 102, ce_status = OB_PROCESSING,
       ce_attempt_count = 1, ce_next_attempt_at = 0, ce_locked_at = Some 0,
       ce_lock_token = Some ''t'', ce_published_at = None, ce_last_error = None,
       ce_created_at = 0\<rparr>], t_cleanup_objects := [sample_object]\<rparr>"

definition sample_pass :: "(error + dispatch_result) \<times> database" where
  "sample_pass = cleanup_loop sample_dispatcher (\<lambda>_. Deleted)
     \<lparr>sc_event_id = 60, sc_project_id = 102, sc_lock_token = ''t''\<rparr> (\<lambda>_. 10) 0 sample_cleanup"

lemma sample_pass_result:
  "fst sample_pass = Inr DISPATCH_PUBLISHED"
  "t_cleanup_objects (snd sample_pass) = [sample_cleaned_object]"
  by code_simp+

text \<open>
  C17. Retention is respected: a pass of the cleanup dispatcher marks an object deleted only
  if it belongs to the claimed event, its retention had run out by the clock, and the store
  deleted its key or had no such key; it changes no other object.
\<close>

theorem cleanup_respects_retention:
  assumes "cleanup_loop cfg delete event clock k db = (r, db')"
    and "distinct (map co_id (t_cleanup_objects db))"
    and "c \<in> set (t_cleanup_objects db)" and "c' \<in> set (t_cleanup_objects db')"
    and "co_id c' = co_id c" and "co_status c' \<noteq> co_status c"
  shows "co_status c = CO_PENDING \<and> co_status c' = CO_DELETED \<and>
    co_event_id c = sc_event_id event \<and> (\<exists>j. co_not_before c \<le> clock j) \<and>
    delete (co_object_key c) \<in> {Deleted, Missing}"
proof -
  have fst: "map fst (objects_view db) = map co_id (t_cleanup_objects db)"
    by (simp add: objects_view_def object_view_def comp_def)
  then have dist: "distinct (map fst (objects_view db))" using assms(2) by simp
  obtain g where g: "objects_view db' = map (\<lambda>(i, e, k, s, n). (i, e, k, g i s, n)) (objects_view db)"
    and gm: "\<forall>(i, e, k, s, n) \<in> set (objects_view db). may_become delete event clock e k n s (g i s)"
    using cleanup_loop_view [OF assms(1) dist] by blast
  have c: "object_view c \<in> set (objects_view db)" "object_view c' \<in> set (objects_view db')"
    using assms(3,4) by (simp_all add: objects_view_def)
  then obtain i e k s n where v: "(i, e, k, s, n) \<in> set (objects_view db)" "object_view c' = (i, e, k, g i s, n)"
    unfolding g by auto
  have "(i, e, k, s, n) = object_view c"
    by (rule key_unique [OF dist v(1) c(1)]) (use v(2) assms(5) in \<open>simp add: object_view_def\<close>)
  with gm v assms(6) show ?thesis by (fastforce simp: object_view_def may_become_def)
qed

theorem cleanup_respects_retention_witness:
  "co_not_before sample_object \<le> 10 \<and> co_status sample_cleaned_object = CO_DELETED"
proof -
  have pass: "cleanup_loop sample_dispatcher (\<lambda>_. Deleted)
     \<lparr>sc_event_id = 60, sc_project_id = 102, sc_lock_token = ''t''\<rparr> (\<lambda>_. 10) 0 sample_cleanup =
     (fst sample_pass, snd sample_pass)" by (simp add: sample_pass_def)
  have "t_cleanup_objects sample_cleanup = [sample_object]" by (simp add: sample_cleanup_def)
  with cleanup_respects_retention [OF pass, of sample_object sample_cleaned_object]
  show ?thesis
    by (simp add: sample_pass_result sample_cleaned_object_def sample_object_def)
qed

text \<open>
  C18. A published cleanup is complete: when a pass ends with the event published, the event
  is marked so and every object of it is deleted.
\<close>

theorem cleanup_published_complete:
  assumes "cleanup_loop cfg delete event clock k db = (Inr DISPATCH_PUBLISHED, db')"
  shows "(\<forall>c \<in> set (t_cleanup_objects db'). co_event_id c = sc_event_id event \<longrightarrow> co_status c = CO_DELETED) \<and>
    (\<exists>e \<in> set (t_cleanup_events db'). ce_id e = sc_event_id event \<and> ce_status e = OB_PUBLISHED)"
  using assms
proof (induction cfg delete event clock k db rule: cleanup_loop.induct)
  case (1 cfg delete event clock k db)
  from "1.prems"(1) show ?case
  proof (cases rule: cleanup_loop_cases)
    case ends
    then obtain now where "cleanup_mark_published db event now = Inr (DISPATCH_PUBLISHED, db')" by blast
    then have none: "select_where (\<lambda>c. co_event_id c = sc_event_id event \<and> co_status c = CO_PENDING)
        (t_cleanup_objects db) = []"
      and cnt: "row_count (cleanup_holds event) (t_cleanup_events db) = 1"
      and t: "t_cleanup_objects db' = t_cleanup_objects db"
        "t_cleanup_events db' = update_where (cleanup_holds event)
            (\<lambda>e. e\<lparr>ce_status := OB_PUBLISHED, ce_published_at := Some now, ce_locked_at := None,
               ce_lock_token := None, ce_last_error := None\<rparr>) (t_cleanup_events db)"
      by (auto simp: cleanup_mark_published_def Let_def split: list.splits if_splits)
    have "co_status c = CO_DELETED" if "c \<in> set (t_cleanup_objects db')" "co_event_id c = sc_event_id event" for c
      using none that by (cases "co_status c") (auto simp: t select_where_def filter_empty_conv)
    moreover obtain e where "e \<in> set (t_cleanup_events db)" "cleanup_holds event e"
      using cnt row_count_0 [of "cleanup_holds event" "t_cleanup_events db"] by fastforce
    then have "\<exists>e \<in> set (t_cleanup_events db'). ce_id e = sc_event_id event \<and> ce_status e = OB_PUBLISHED"
      unfolding t by (intro bexI [OF _ update_where_mem]) (auto simp: cleanup_holds_def)
    ultimately show ?thesis by blast
  next
    case (next_round request db1 db2 db3)
    then show ?thesis using "1.IH"(1) [OF next_round(1-3) _ next_round(5,6)]
        "1.IH"(2) [OF next_round(1-3) _ next_round(5,6)] by blast
  qed
qed

theorem cleanup_published_complete_witness:
  "\<exists>e \<in> set (t_cleanup_events (snd sample_pass)). ce_id e = 60 \<and> ce_status e = OB_PUBLISHED"
proof -
  have "cleanup_loop sample_dispatcher (\<lambda>_. Deleted)
     \<lparr>sc_event_id = 60, sc_project_id = 102, sc_lock_token = ''t''\<rparr> (\<lambda>_. 10) 0 sample_cleanup =
     (Inr DISPATCH_PUBLISHED, snd sample_pass)"
    using sample_pass_result(1) by (simp add: sample_pass_def prod_eq_iff)
  from cleanup_published_complete [OF this] show ?thesis by simp
qed

section \<open>What a deletion request lists\<close>

lemma dict_set_map: "map_of (dict_set k v d) = (map_of d)(k \<mapsto> v)"
  by (induction k v d rule: dict_set.induct) (auto simp: fun_eq_iff)

lemma dict_set_fst: "fst ` set (dict_set k v d) = insert k (fst ` set d)"
  by (induction k v d rule: dict_set.induct) auto

lemma dict_set_keys: "distinct (map fst d) \<Longrightarrow> distinct (map fst (dict_set k v d))"
  by (induction k v d rule: dict_set.induct) (simp_all add: dict_set_fst)

lemma dict_setdefault_map:
  "map_of (dict_setdefault k v d) = (case map_of d k of None \<Rightarrow> (map_of d)(k \<mapsto> v) | Some _ \<Rightarrow> map_of d)"
  by (auto simp: dict_setdefault_def fun_eq_iff map_add_def split: option.splits)

lemma dict_setdefault_keys: "distinct (map fst d) \<Longrightarrow> distinct (map fst (dict_setdefault k v d))"
  by (auto simp: dict_setdefault_def map_of_eq_None_iff split: option.splits)

lemma fold_dict_set:
  "map_of (fold (\<lambda>a. dict_set (key a) v) xs d) k =
     (if \<exists>a \<in> set xs. key a = k then Some v else map_of d k)"
  "distinct (map fst d) \<Longrightarrow> distinct (map fst (fold (\<lambda>a. dict_set (key a) v) xs d))"
  by (induction xs arbitrary: d) (auto simp: dict_set_map dict_set_keys)

lemma fold_dict_setdefault:
  "map_of (fold (\<lambda>a. dict_setdefault (key a) v) xs d) k = (case map_of d k of Some w \<Rightarrow> Some w
     | None \<Rightarrow> if \<exists>a \<in> set xs. key a = k then Some v else None)"
  "distinct (map fst d) \<Longrightarrow> distinct (map fst (fold (\<lambda>a. dict_setdefault (key a) v) xs d))"
  by (induction xs arbitrary: d)
    (auto simp: dict_setdefault_map dict_setdefault_keys split: option.splits)

definition asset_keys :: "database \<Rightarrow> uuid \<Rightarrow> string set" where
  "asset_keys db i = as_object_key ` {a \<in> set (t_assets db). as_project_id a = i}"

definition output_keys :: "database \<Rightarrow> uuid \<Rightarrow> string set" where
  "output_keys db i = go_object_key ` {out \<in> set (t_outputs db).
     \<exists>j. get_job db (go_job_id out) = Some j \<and> job_project_id j = i}"

definition artifact_keys :: "database \<Rightarrow> uuid \<Rightarrow> string set" where
  "artifact_keys db i = pa_object_key ` {a \<in> set (t_artifacts db).
     pa_project_id a = i \<and> get_job db (pa_job_id a) \<noteq> None}"

definition listed_kind :: "database \<Rightarrow> uuid \<Rightarrow> string \<Rightarrow> cleanup_object_kind option" where
  "listed_kind db i k = (if k \<in> asset_keys db i then Some KIND_ASSET
     else if k \<in> output_keys db i then Some KIND_OUTPUT
     else if k \<in> artifact_keys db i then Some KIND_PROVIDER else None)"

lemma project_objects_map:
  "map_of (project_objects db i) k = listed_kind db i k"
  "distinct (map fst (project_objects db i))"
proof -
  have as: "(\<exists>a \<in> set (select_where (\<lambda>a. as_project_id a = i) (t_assets db)). as_object_key a = k) \<longleftrightarrow>
      k \<in> asset_keys db i" for k
    by (auto simp: select_where_def asset_keys_def)
  have outs: "(\<exists>a \<in> set (select_where (\<lambda>out. case get_job db (go_job_id out) of None \<Rightarrow> False
      | Some j \<Rightarrow> job_project_id j = i) (t_outputs db)). go_object_key a = k) \<longleftrightarrow> k \<in> output_keys db i" for k
    by (auto simp: select_where_def output_keys_def split: option.splits)
  have arts: "(\<exists>a \<in> set (select_where (\<lambda>a. pa_project_id a = i \<and> get_job db (pa_job_id a) \<noteq> None)
      (t_artifacts db)). pa_object_key a = k) \<longleftrightarrow> k \<in> artifact_keys db i" for k
    by (auto simp: select_where_def artifact_keys_def)
  show "map_of (project_objects db i) k = listed_kind db i k"
    unfolding project_objects_def Let_def fold_dict_setdefault(1) fold_dict_set(1) as outs arts
    by (simp add: listed_kind_def)
  show "distinct (map fst (project_objects db i))"
    unfolding project_objects_def Let_def
    by (intro fold_dict_setdefault(2) fold_dict_set(2)) simp
qed

lemma retained_until_ge:
  assumes "distinct (map pa_object_key (t_artifacts db))" and "a \<in> set (t_artifacts db)"
    and "pa_project_id a = i" and "get_job db (pa_job_id a) = Some job"
  shows "map_of (retained_until retention db i) (pa_object_key a) = Some (cleanup_due retention a job)"
proof -
  let ?step = "\<lambda>a. case get_job db (pa_job_id a) of None \<Rightarrow> id
         | Some job \<Rightarrow> dict_set (pa_object_key a) (cleanup_due retention a job)"
  have "map_of (fold ?step xs d) (pa_object_key a) =
      (if a \<in> set xs then Some (cleanup_due retention a job) else map_of d (pa_object_key a))"
    if "distinct (map pa_object_key xs)" "\<forall>x \<in> set xs. pa_object_key x = pa_object_key a \<longrightarrow> x = a" for xs d
    using that
  proof (induction xs arbitrary: d)
    case (Cons x xs)
    show ?case
    proof (cases "x = a")
      case True
      have "a \<notin> set xs" using Cons.prems(1) True by auto
      with Cons True assms(4) show ?thesis by (simp add: dict_set_map)
    next
      case False
      then have "map_of (?step x d) (pa_object_key a) = map_of d (pa_object_key a)"
        using Cons.prems(2) by (auto simp: dict_set_map split: option.splits)
      with Cons False show ?thesis by simp
    qed
  qed simp
  moreover have "distinct (map pa_object_key (select_where (\<lambda>a. pa_project_id a = i) (t_artifacts db)))"
    using assms(1) unfolding select_where_def by (rule distinct_map_filter)
  moreover have "\<forall>x \<in> set (select_where (\<lambda>a. pa_project_id a = i) (t_artifacts db)).
      pa_object_key x = pa_object_key a \<longrightarrow> x = a"
    using key_unique [OF assms(1) _ assms(2)] by (auto simp: select_where_def)
  ultimately show ?thesis
    using assms(2,3) by (simp add: retained_until_def select_where_def)
qed

lemma fold_add_cleanup_object:
  "\<exists>new. t_cleanup_objects (fold (add_cleanup_object e nb) kvs db) = t_cleanup_objects db @ new \<and>
     map (\<lambda>c. (co_object_key c, co_object_kind c)) new = kvs \<and>
     (\<forall>c \<in> set new. co_event_id c = e \<and> co_status c = CO_PENDING \<and> co_not_before c = nb (co_object_key c)) \<and>
     t_projects (fold (add_cleanup_object e nb) kvs db) = t_projects db"
proof (induction kvs arbitrary: db)
  case (Cons kv kvs)
  obtain k v where kv: "kv = (k, v)" by fastforce
  let ?db = "add_cleanup_object e nb kv db"
  obtain c where c: "t_cleanup_objects ?db = t_cleanup_objects db @ [c]" "t_projects ?db = t_projects db"
    "co_object_key c = k" "co_object_kind c = v" "co_event_id c = e" "co_status c = CO_PENDING"
    "co_not_before c = nb k"
    by (simp add: add_cleanup_object_def kv uuid4_def Let_def)
  from Cons.IH [of ?db] obtain new where
    "t_cleanup_objects (fold (add_cleanup_object e nb) kvs ?db) = t_cleanup_objects ?db @ new"
    "map (\<lambda>c. (co_object_key c, co_object_kind c)) new = kvs"
    "\<forall>c \<in> set new. co_event_id c = e \<and> co_status c = CO_PENDING \<and> co_not_before c = nb (co_object_key c)"
    "t_projects (fold (add_cleanup_object e nb) kvs ?db) = t_projects ?db" by blast
  with c kv show ?case by (intro exI [of _ "c # new"]) simp
qed simp

text \<open>
  C19. Deleting a project forgets nothing: an accepted request (all its jobs are over) marks
  the project deleted and lists each key of its assets, outputs and artifacts exactly once,
  pending, under its strongest kind, not before now and not before the retention of an
  artifact with that key is over.
\<close>

theorem deletion_lists_everything:
  assumes "request_project_deletion retention db project now = Inr (event, db')"
    and "pr_status project \<noteq> PROJECT_DELETED"
    and "distinct (map pa_object_key (t_artifacts db))"
  shows "(\<forall>j \<in> set (t_jobs db). job_project_id j = pr_id project \<longrightarrow> job_status j \<in> JOB_TERMINAL_STATUSES) \<and>
    (\<forall>p \<in> set (t_projects db'). pr_id p = pr_id project \<longrightarrow> pr_status p = PROJECT_DELETED) \<and>
    (\<exists>new. t_cleanup_objects db' = t_cleanup_objects db @ new \<and> distinct (map co_object_key new) \<and>
       co_object_key ` set new =
         asset_keys db (pr_id project) \<union> output_keys db (pr_id project) \<union> artifact_keys db (pr_id project) \<and>
       (\<forall>c \<in> set new. co_event_id c = ce_id event \<and> co_status c = CO_PENDING \<and> now \<le> co_not_before c \<and>
          listed_kind db (pr_id project) (co_object_key c) = Some (co_object_kind c) \<and>
          (\<forall>a \<in> set (t_artifacts db). \<forall>job. pa_project_id a = pr_id project \<and>
             pa_object_key a = co_object_key c \<and> get_job db (pa_job_id a) = Some job \<longrightarrow>
             cleanup_due retention a job \<le> co_not_before c)))"
proof -
  let ?i = "pr_id project" and ?objects = "project_objects db (pr_id project)"
  let ?nb = "\<lambda>key. max now (case map_of (retained_until retention db (pr_id project)) key of
      None \<Rightarrow> now | Some t \<Rightarrow> t)"
  obtain dbx where jobs: "\<forall>j \<in> set (t_jobs db). job_project_id j = ?i \<longrightarrow> job_status j \<in> JOB_TERMINAL_STATUSES"
    and db': "db' = fold (add_cleanup_object (ce_id event) ?nb) (sort_key fst ?objects) dbx"
    and x: "t_cleanup_objects dbx = t_cleanup_objects db"
      "t_projects dbx = update_where (\<lambda>p. pr_id p = ?i)
         (\<lambda>p. p\<lparr>pr_status := PROJECT_DELETED, pr_deleted_at := Some now\<rparr>) (t_projects db)"
    using assms(1,2) by (auto simp: request_project_deletion_def Let_def uuid4_def split: if_splits)
  obtain new where new: "t_cleanup_objects db' = t_cleanup_objects db @ new"
      "map (\<lambda>c. (co_object_key c, co_object_kind c)) new = sort_key fst ?objects"
      "\<forall>c \<in> set new. co_event_id c = ce_id event \<and> co_status c = CO_PENDING \<and>
        co_not_before c = ?nb (co_object_key c)" "t_projects db' = t_projects dbx"
    using fold_add_cleanup_object [of "ce_id event" ?nb "sort_key fst ?objects" dbx]
    unfolding db' [symmetric] x(1) by blast
  have keys: "map co_object_key new = map fst (sort_key fst ?objects)"
    unfolding new(2) [symmetric] by simp
  have "distinct (map fst (sort_key fst ?objects))"
    using project_objects_map(2) by (simp add: distinct_map)
  then have dist: "distinct (map co_object_key new)" by (simp add: keys)
  have kind: "listed_kind db ?i (co_object_key c) = Some (co_object_kind c)" if "c \<in> set new" for c
  proof -
    have "(co_object_key c, co_object_kind c) \<in> set (map (\<lambda>c. (co_object_key c, co_object_kind c)) new)"
      using that by simp
    then have "(co_object_key c, co_object_kind c) \<in> set ?objects" unfolding new(2) by simp
    then show ?thesis
      using project_objects_map map_of_is_SomeI [of ?objects] by metis
  qed
  have "co_object_key ` set new = fst ` set ?objects"
    using arg_cong [OF keys, of set] by simp
  also have "\<dots> = dom (map_of ?objects)" by (simp add: dom_map_of_conv_image_fst)
  also have "\<dots> = asset_keys db ?i \<union> output_keys db ?i \<union> artifact_keys db ?i"
    by (auto simp: dom_def project_objects_map(1) listed_kind_def)
  finally have all: "co_object_key ` set new = asset_keys db ?i \<union> output_keys db ?i \<union> artifact_keys db ?i" .
  have due: "cleanup_due retention a job \<le> co_not_before c"
    if "c \<in> set new" "a \<in> set (t_artifacts db)" "pa_project_id a = ?i" "pa_object_key a = co_object_key c"
      "get_job db (pa_job_id a) = Some job" for c a job
    using retained_until_ge [OF assms(3) that(2,3,5), of retention] that(1,4) new(3) by simp
  have "\<forall>p \<in> set (t_projects db'). pr_id p = ?i \<longrightarrow> pr_status p = PROJECT_DELETED"
    unfolding new(4) x(2) by (auto simp: update_where_def)
  moreover have "\<forall>c \<in> set new. co_event_id c = ce_id event \<and> co_status c = CO_PENDING \<and>
      now \<le> co_not_before c" using new(3) by simp
  ultimately show ?thesis using jobs new(1) dist all kind due by blast
qed

definition sample_asset :: project_asset where
  "sample_asset = \<lparr>as_id = 71, as_project_id = 102, as_owner_id = 101,
     as_object_key = ''assets/1.png'', as_original_filename = ''1.png'',
     as_media_type = ''image/png'', as_size_bytes = 10, as_sha256 = None,
     as_status = ASSET_READY, as_created_at = 0\<rparr>"

definition sample_project_db :: database where
  "sample_project_db = (sample_db [sample_job 1 JOB_SUCCEEDED] [])\<lparr>t_assets := [sample_asset]\<rparr>"

theorem deletion_lists_everything_witness:
  "\<exists>event db'. request_project_deletion 100 sample_project_db sample_project 9 = Inr (event, db') \<and>
     (\<exists>c \<in> set (t_cleanup_objects db'). co_object_key c = ''assets/1.png'')"
proof -
  let ?r = "request_project_deletion 100 sample_project_db sample_project 9"
  have "is_ok ?r" by code_simp
  then obtain event db' where r: "?r = Inr (event, db')" by (cases ?r) auto
  have "pr_status sample_project \<noteq> PROJECT_DELETED"
    and "distinct (map pa_object_key (t_artifacts sample_project_db))"
    by (simp_all add: sample_project_db_def sample_defs)
  from deletion_lists_everything [OF r this] obtain new where
    new: "t_cleanup_objects db' = t_cleanup_objects sample_project_db @ new"
      "co_object_key ` set new = asset_keys sample_project_db (pr_id sample_project) \<union>
         output_keys sample_project_db (pr_id sample_project) \<union>
         artifact_keys sample_project_db (pr_id sample_project)" by blast
  have "''assets/1.png'' \<in> asset_keys sample_project_db (pr_id sample_project)"
    unfolding asset_keys_def
    by (rule image_eqI [of _ _ sample_asset])
      (simp_all add: sample_project_db_def sample_asset_def sample_project_def)
  then have "''assets/1.png'' \<in> co_object_key ` set new" unfolding new(2) by blast
  then show ?thesis using r new(1) by auto
qed

end
