(* ===== verification/Provider.thy ===== *)
theory Provider
  imports Prelude "HOL-Library.Char_ord"
begin

text \<open>
  The provider contract (apps/api/app/provider.py): the failure codes and which of them are
  retried, the requests, results and cost snapshots with the checks their constructors make,
  the fixed worker contract, and the mock provider. A dataclass is a record; its
  \<open>__post_init__\<close> is the predicate \<open>..._check\<close>. Display texts are given in English; a float
  is the rational number it stands for.
\<close>

section \<open>Failure codes\<close>

datatype failure_code =
    INVALID_INPUT | POLICY_REJECTED | USER_CANCELLED | UNSUPPORTED_PARAMETER | LICENSE_BLOCKED
  | PROVIDER_TERMS_BLOCKED | NO_ROUTE | PROVIDER_AUTHENTICATION | NETWORK_TIMEOUT | PROVIDER_5XX
  | PROVIDER_CAPACITY | QUEUE_TIMEOUT | WORKER_INTERRUPTED | MODEL_LOAD_FAILED | OUT_OF_MEMORY
  | WORKFLOW_FAILED | ASSET_DOWNLOAD_FAILED | OUTPUT_UPLOAD_FAILED | OUTPUT_MISSING
  | OUTPUT_CORRUPTED | OUTPUT_INVALID_MEDIA | LEDGER_ERROR | STATE_CONFLICT | INTERNAL_ERROR

fun failure_code_value :: "failure_code \<Rightarrow> string" where
  "failure_code_value INVALID_INPUT = ''INVALID_INPUT''"
| "failure_code_value POLICY_REJECTED = ''POLICY_REJECTED''"
| "failure_code_value USER_CANCELLED = ''USER_CANCELLED''"
| "failure_code_value UNSUPPORTED_PARAMETER = ''UNSUPPORTED_PARAMETER''"
| "failure_code_value LICENSE_BLOCKED = ''LICENSE_BLOCKED''"
| "failure_code_value PROVIDER_TERMS_BLOCKED = ''PROVIDER_TERMS_BLOCKED''"
| "failure_code_value NO_ROUTE = ''NO_ROUTE''"
| "failure_code_value PROVIDER_AUTHENTICATION = ''PROVIDER_AUTHENTICATION''"
| "failure_code_value NETWORK_TIMEOUT = ''NETWORK_TIMEOUT''"
| "failure_code_value PROVIDER_5XX = ''PROVIDER_5XX''"
| "failure_code_value PROVIDER_CAPACITY = ''PROVIDER_CAPACITY''"
| "failure_code_value QUEUE_TIMEOUT = ''QUEUE_TIMEOUT''"
| "failure_code_value WORKER_INTERRUPTED = ''WORKER_INTERRUPTED''"
| "failure_code_value MODEL_LOAD_FAILED = ''MODEL_LOAD_FAILED''"
| "failure_code_value OUT_OF_MEMORY = ''OUT_OF_MEMORY''"
| "failure_code_value WORKFLOW_FAILED = ''WORKFLOW_FAILED''"
| "failure_code_value ASSET_DOWNLOAD_FAILED = ''ASSET_DOWNLOAD_FAILED''"
| "failure_code_value OUTPUT_UPLOAD_FAILED = ''OUTPUT_UPLOAD_FAILED''"
| "failure_code_value OUTPUT_MISSING = ''OUTPUT_MISSING''"
| "failure_code_value OUTPUT_CORRUPTED = ''OUTPUT_CORRUPTED''"
| "failure_code_value OUTPUT_INVALID_MEDIA = ''OUTPUT_INVALID_MEDIA''"
| "failure_code_value LEDGER_ERROR = ''LEDGER_ERROR''"
| "failure_code_value STATE_CONFLICT = ''STATE_CONFLICT''"
| "failure_code_value INTERNAL_ERROR = ''INTERNAL_ERROR''"

definition RETRYABLE_FAILURE_CODES :: "failure_code set" where
  "RETRYABLE_FAILURE_CODES =
     {NETWORK_TIMEOUT, PROVIDER_5XX, PROVIDER_CAPACITY, QUEUE_TIMEOUT, WORKER_INTERRUPTED}"

definition is_retryable_failure :: "failure_code \<Rightarrow> bool" where
  "is_retryable_failure code \<longleftrightarrow> code \<in> RETRYABLE_FAILURE_CODES"

datatype submit_disposition = SUBMIT_ACCEPTED | SUBMIT_UNKNOWN

datatype provider_status =
  PS_PENDING | PS_RUNNING | PS_SUCCEEDED | PS_FAILED | PS_CANCELLED | PS_UNKNOWN

fun provider_status_value :: "provider_status \<Rightarrow> string" where
  "provider_status_value PS_PENDING = ''PENDING''"
| "provider_status_value PS_RUNNING = ''RUNNING''"
| "provider_status_value PS_SUCCEEDED = ''SUCCEEDED''"
| "provider_status_value PS_FAILED = ''FAILED''"
| "provider_status_value PS_CANCELLED = ''CANCELLED''"
| "provider_status_value PS_UNKNOWN = ''UNKNOWN''"

datatype cost_source = COST_ACTUAL | COST_ESTIMATE | COST_SIMULATED

fun cost_source_value :: "cost_source \<Rightarrow> string" where
  "cost_source_value COST_ACTUAL = ''ACTUAL''"
| "cost_source_value COST_ESTIMATE = ''ESTIMATE''"
| "cost_source_value COST_SIMULATED = ''SIMULATED''"

section \<open>Requests\<close>

record submit_request =
  rq_job_id :: uuid
  rq_attempt_id :: uuid
  rq_idempotency_key :: string
  rq_prompt :: string
  rq_negative_prompt :: "string option"
  rq_duration_ms :: int
  rq_aspect_ratio :: string
  rq_resolution :: string
  rq_workflow_id :: string
  rq_input_claim :: "string option"
  rq_output_claim :: string
  rq_callback_claim :: string
  rq_mode :: string

text \<open>\<^verbatim>\<open>^[A-Za-z0-9_-]+\.[A-Za-z0-9_-]+$\<close>, matched in full.\<close>

definition claim_char :: "char \<Rightarrow> bool" where
  "claim_char c \<longleftrightarrow> CHR ''A'' \<le> c \<and> c \<le> CHR ''Z'' \<or> CHR ''a'' \<le> c \<and> c \<le> CHR ''z'' \<or>
     CHR ''0'' \<le> c \<and> c \<le> CHR ''9'' \<or> c = CHR ''_'' \<or> c = CHR ''-''"

definition signed_claim :: "string \<Rightarrow> bool" where
  "signed_claim s =
     (let body = takeWhile (\<lambda>c. c \<noteq> CHR ''.'') s; rest = dropWhile (\<lambda>c. c \<noteq> CHR ''.'') s in
      body \<noteq> [] \<and> list_all claim_char body \<and> rest \<noteq> [] \<and> tl rest \<noteq> [] \<and>
      list_all claim_char (tl rest))"

fun contains :: "string \<Rightarrow> string \<Rightarrow> bool" where
  "contains p [] \<longleftrightarrow> p = []"
| "contains p (c # s) \<longleftrightarrow> take (length p) (c # s) = p \<or> contains p s"

definition submit_key :: "uuid \<Rightarrow> string" where
  "submit_key attempt = ''attempt:'' @ uuid_str attempt @ '':submit:v1''"

definition validate_fixed_worker_request :: "submit_request \<Rightarrow> string \<Rightarrow> error + unit" where
  "validate_fixed_worker_request request workflow_id =
     (if rq_idempotency_key request \<noteq> submit_key (rq_attempt_id request)
      then Inl (ValueError ''idempotency key is not bound to attempt_id'')
      else if rq_workflow_id request \<noteq> workflow_id
      then Inl (ValueError ''workflow_id is not the configured immutable workflow'')
      else if rq_duration_ms request \<noteq> 5000
      then Inl (ValueError ''only the configured five-second duration is allowed'')
      else if rq_aspect_ratio request \<notin> {''16:9'', ''9:16''}
      then Inl (ValueError ''aspect_ratio is not allowed'')
      else if rq_resolution request \<noteq> ''720p''
      then Inl (ValueError ''resolution is not allowed'')
      else if list_ex (\<lambda>claim. case claim of None \<Rightarrow> True
             | Some c \<Rightarrow> contains ''://'' c \<or> \<not> signed_claim c)
           [rq_input_claim request, Some (rq_output_claim request), Some (rq_callback_claim request)]
      then Inl (ValueError ''worker request requires opaque system-signed claims'')
      else Inr ())"

record provider_attempt =
  pq_attempt_id :: uuid
  pq_idempotency_key :: string
  pq_provider_job_id :: "string option"
  pq_mode :: string

section \<open>Results\<close>

record provider_failure =
  fl_code :: failure_code
  fl_message :: string

record provider_metrics =
  mt_gpu_type :: string
  mt_queue_ms :: int
  mt_cold_start_ms :: int
  mt_runtime_ms :: int
  mt_billable_ms :: int
  mt_cost_minor :: "int option"
  mt_currency :: "string option"
  mt_cost_source :: "cost_source option"

definition upper_char :: "char \<Rightarrow> bool" where
  "upper_char c \<longleftrightarrow> CHR ''A'' \<le> c \<and> c \<le> CHR ''Z''"

definition hex_char :: "char \<Rightarrow> bool" where
  "hex_char c \<longleftrightarrow> CHR ''0'' \<le> c \<and> c \<le> CHR ''9'' \<or> CHR ''a'' \<le> c \<and> c \<le> CHR ''f''"

definition currency_code :: "string \<Rightarrow> bool" where
  "currency_code s \<longleftrightarrow> length s = 3 \<and> list_all upper_char s"

definition hex_digest :: "nat \<Rightarrow> string \<Rightarrow> bool" where
  "hex_digest n s \<longleftrightarrow> length s = n \<and> list_all hex_char s"

definition short_name :: "string \<Rightarrow> bool" where
  "short_name s \<longleftrightarrow> s \<noteq> [] \<and> length s \<le> 100"

definition provider_metrics_check :: "provider_metrics \<Rightarrow> bool" where
  "provider_metrics_check m \<longleftrightarrow> short_name (mt_gpu_type m) \<and>
     mt_queue_ms m \<ge> 0 \<and> mt_cold_start_ms m \<ge> 0 \<and> mt_runtime_ms m \<ge> 0 \<and> mt_billable_ms m \<ge> 0 \<and>
     ((mt_cost_minor m = None \<and> mt_currency m = None \<and> mt_cost_source m = None) \<or>
      (case (mt_cost_minor m, mt_currency m, mt_cost_source m) of
         (Some c, Some cur, Some _) \<Rightarrow> c \<ge> 0 \<and> currency_code cur | _ \<Rightarrow> False))"

record provider_versions =
  vr_image_digest :: string
  vr_worker_version :: string
  vr_worker_commit :: string
  vr_comfyui_version :: string
  vr_comfyui_commit :: string
  vr_workflow_version :: string
  vr_workflow_hash :: string
  vr_model_hashes :: "(string \<times> string) list"

definition provider_versions_check :: "provider_versions \<Rightarrow> bool" where
  "provider_versions_check v \<longleftrightarrow>
     take 7 (vr_image_digest v) = ''sha256:'' \<and> hex_digest 64 (drop 7 (vr_image_digest v)) \<and>
     short_name (vr_worker_version v) \<and> short_name (vr_comfyui_version v) \<and>
     short_name (vr_workflow_version v) \<and>
     list_all (\<lambda>h. hex_digest 40 h \<or> hex_digest 64 h)
       [vr_worker_commit v, vr_comfyui_commit v, vr_workflow_hash v] \<and>
     vr_model_hashes v \<noteq> [] \<and> distinct (map fst (vr_model_hashes v)) \<and>
     list_all (\<lambda>(name, digest). name \<noteq> [] \<and> hex_digest 64 digest) (vr_model_hashes v)"

record provider_output =
  po_content :: "string option"
  po_media_type :: string
  po_duration_ms :: "int option"
  po_width :: "int option"
  po_height :: "int option"
  po_fps :: "rat option"
  po_codec :: "string option"
  po_object_key :: "string option"
  po_size_bytes :: "int option"
  po_sha256 :: "string option"
  po_metrics :: "provider_metrics option"
  po_versions :: "provider_versions option"

record submit_result =
  sb_disposition :: submit_disposition
  sb_provider_job_id :: "string option"

record cost_result =
  cr_amount_minor :: int
  cr_currency :: string
  cr_source :: cost_source

definition cost_result_check :: "cost_result \<Rightarrow> bool" where
  "cost_result_check c \<longleftrightarrow> cr_amount_minor c \<ge> 0 \<and> currency_code (cr_currency c)"

record poll_result =
  pl_status :: provider_status
  pl_provider_job_id :: "string option"
  pl_output :: "provider_output option"
  pl_failure :: "provider_failure option"
  pl_metrics :: "provider_metrics option"
  pl_versions :: "provider_versions option"
  pl_cost :: "cost_result option"

definition poll_result_of :: "provider_status \<Rightarrow> string option \<Rightarrow> poll_result" where
  "poll_result_of status provider_job_id =
     \<lparr>pl_status = status, pl_provider_job_id = provider_job_id, pl_output = None,
      pl_failure = None, pl_metrics = None, pl_versions = None, pl_cost = None\<rparr>"

record cancel_result =
  cn_accepted :: bool
  cn_status :: provider_status

record provider_event =
  pe_event_id :: string
  pe_provider_job_id :: string
  pe_status :: provider_status
  pe_failure :: "provider_failure option"

section \<open>The mock provider\<close>

text \<open>
  \<open>sha256\<close>, \<open>sha1\<close> are the hex digests of \<^verbatim>\<open>hashlib\<close>, \<open>uuid5_hex\<close> the hex form of the
  name-based UUID, \<open>fixture\<close> the bundled video.
\<close>

definition mock_metrics :: provider_metrics where
  "mock_metrics = \<lparr>mt_gpu_type = ''MOCK GPU (SIMULATED)'', mt_queue_ms = 0,
     mt_cold_start_ms = 0, mt_runtime_ms = 0, mt_billable_ms = 0, mt_cost_minor = None,
     mt_currency = None, mt_cost_source = None\<rparr>"

definition mock_versions :: "(string \<Rightarrow> string) \<Rightarrow> (string \<Rightarrow> string) \<Rightarrow> provider_versions" where
  "mock_versions sha256 sha1 =
     \<lparr>vr_image_digest = ''sha256:'' @ sha256 ''mock-worker-image'',
      vr_worker_version = ''mock-worker/1.0.0'', vr_worker_commit = sha1 ''mock-worker'',
      vr_comfyui_version = ''mock-comfyui/1.0.0'', vr_comfyui_commit = sha1 ''mock-comfyui'',
      vr_workflow_version = ''mock:v1'', vr_workflow_hash = sha256 ''mock-workflow-v1'',
      vr_model_hashes = [(''mock-model'', sha256 ''mock-model'')]\<rparr>"

definition mock_provider_job_id :: "(string \<Rightarrow> string) \<Rightarrow> string \<Rightarrow> string" where
  "mock_provider_job_id uuid5_hex idempotency_key =
     ''mock-'' @ uuid5_hex (''video-maker:'' @ idempotency_key)"

definition mock_submit :: "(string \<Rightarrow> string) \<Rightarrow> submit_request \<Rightarrow> submit_result" where
  "mock_submit uuid5_hex request =
     (if rq_mode request = ''submit_unknown''
      then \<lparr>sb_disposition = SUBMIT_UNKNOWN, sb_provider_job_id = None\<rparr>
      else \<lparr>sb_disposition = SUBMIT_ACCEPTED,
        sb_provider_job_id = Some (mock_provider_job_id uuid5_hex (rq_idempotency_key request))\<rparr>)"

definition mock_poll ::
  "(string \<Rightarrow> string) \<Rightarrow> (string \<Rightarrow> string) \<Rightarrow> (string \<Rightarrow> string) \<Rightarrow> string \<Rightarrow> provider_attempt \<Rightarrow>
   poll_result" where
  "mock_poll sha256 sha1 uuid5_hex fixture attempt =
     (let own_id = mock_provider_job_id uuid5_hex (pq_idempotency_key attempt);
          provider_job_id = (case pq_provider_job_id attempt of
              None \<Rightarrow> own_id | Some i \<Rightarrow> if i = [] then own_id else i);
          base = (poll_result_of PS_FAILED (Some provider_job_id))
            \<lparr>pl_metrics := Some mock_metrics, pl_versions := Some (mock_versions sha256 sha1)\<rparr> in
      if pq_mode attempt = ''timeout''
      then base\<lparr>pl_failure := Some \<lparr>fl_code = NETWORK_TIMEOUT,
             fl_message = ''Mock Provider network timeout''\<rparr>\<rparr>
      else if pq_mode attempt = ''failure''
      then base\<lparr>pl_failure := Some \<lparr>fl_code = WORKFLOW_FAILED,
             fl_message = ''Mock Provider workflow failed''\<rparr>\<rparr>
      else base\<lparr>pl_status := PS_SUCCEEDED, pl_output := Some
        \<lparr>po_content = Some (if pq_mode attempt = ''corrupt'' then ''not-an-mp4'' else fixture),
         po_media_type = ''video/mp4'', po_duration_ms = Some 2000, po_width = Some 1280,
         po_height = Some 720, po_fps = Some 25, po_codec = Some ''h264'',
         po_object_key = None, po_size_bytes = None, po_sha256 = None,
         po_metrics = None, po_versions = None\<rparr>\<rparr>)"

definition mock_cancel :: cancel_result where
  "mock_cancel = \<lparr>cn_accepted = True, cn_status = PS_CANCELLED\<rparr>"

definition mock_read_cost :: cost_result where
  "mock_read_cost = \<lparr>cr_amount_minor = 0, cr_currency = ''USD'', cr_source = COST_SIMULATED\<rparr>"

text \<open>Enum lookups by value: \<^verbatim>\<open>ProviderStatus(value)\<close>, \<^verbatim>\<open>FailureCode(value)\<close>.\<close>

definition provider_status_of_value :: "string \<Rightarrow> provider_status option" where
  "provider_status_of_value v = List.find (\<lambda>s. provider_status_value s = v)
     [PS_PENDING, PS_RUNNING, PS_SUCCEEDED, PS_FAILED, PS_CANCELLED, PS_UNKNOWN]"

definition failure_code_of_value :: "string \<Rightarrow> failure_code option" where
  "failure_code_of_value v = List.find (\<lambda>c. failure_code_value c = v)
     [INVALID_INPUT, POLICY_REJECTED, USER_CANCELLED, UNSUPPORTED_PARAMETER, LICENSE_BLOCKED,
      PROVIDER_TERMS_BLOCKED, NO_ROUTE, PROVIDER_AUTHENTICATION, NETWORK_TIMEOUT, PROVIDER_5XX,
      PROVIDER_CAPACITY, QUEUE_TIMEOUT, WORKER_INTERRUPTED, MODEL_LOAD_FAILED, OUT_OF_MEMORY,
      WORKFLOW_FAILED, ASSET_DOWNLOAD_FAILED, OUTPUT_UPLOAD_FAILED, OUTPUT_MISSING,
      OUTPUT_CORRUPTED, OUTPUT_INVALID_MEDIA, LEDGER_ERROR, STATE_CONFLICT, INTERNAL_ERROR]"

text \<open>
  The webhook of the mock provider. \<open>hmac_hex\<close> is the hex HMAC-SHA256 of a body under a
  secret, \<open>loads\<close> is \<^verbatim>\<open>json.loads\<close> (None when it raises).
\<close>

definition str_member :: "string \<Rightarrow> json \<Rightarrow> string option" where
  "str_member name payload = (case payload of
     JObj ms \<Rightarrow> (case map_of (rev ms) name of Some (JStr s) \<Rightarrow> Some s | _ \<Rightarrow> None) | _ \<Rightarrow> None)"

definition identifier_ok :: "string \<Rightarrow> bool" where
  "identifier_ok s \<longleftrightarrow> s \<noteq> [] \<and> length s \<le> 255"

definition mock_event_of :: "json \<Rightarrow> provider_event option" where
  "mock_event_of payload =
     (case (str_member ''event_id'' payload, str_member ''provider_job_id'' payload,
            Option.bind (str_member ''status'' payload) provider_status_of_value) of
        (Some event_id, Some provider_job_id, Some status) \<Rightarrow>
          if \<not> identifier_ok event_id \<or> \<not> identifier_ok provider_job_id then None
          else if status = PS_FAILED
          then map_option (\<lambda>code. \<lparr>pe_event_id = event_id, pe_provider_job_id = provider_job_id,
                 pe_status = status, pe_failure = Some \<lparr>fl_code = code,
                   fl_message = ''Provider reported failure''\<rparr>\<rparr>)
               (Option.bind (str_member ''failure_code'' payload) failure_code_of_value)
          else Some \<lparr>pe_event_id = event_id, pe_provider_job_id = provider_job_id,
                 pe_status = status, pe_failure = None\<rparr>
      | _ \<Rightarrow> None)"

definition mock_verify_webhook ::
  "(string \<Rightarrow> string \<Rightarrow> string) \<Rightarrow> (string \<Rightarrow> json option) \<Rightarrow> string option \<Rightarrow> (string \<rightharpoonup> string) \<Rightarrow>
   string \<Rightarrow> error + provider_event" where
  "mock_verify_webhook hmac_hex loads secret headers body =
     (case secret of
        None \<Rightarrow> Inl (ValueError ''webhook secret is not configured'')
      | Some secret \<Rightarrow>
          let supplied = (case headers ''x-provider-signature'' of None \<Rightarrow> [] | Some s \<Rightarrow> s) in
          if supplied \<noteq> hmac_hex secret body then Inl (ValueError ''invalid webhook signature'')
          else (case Option.bind (loads body) mock_event_of of
              None \<Rightarrow> Inl (ValueError ''invalid webhook payload'')
            | Some event \<Rightarrow> Inr event))"

end
