(* ===== verification/ProviderContext.thy ===== *)
theory ProviderContext
  imports Provider StateMachine Storage CancelOutbox
begin

text \<open>
  The execution context of an attempt (apps/api/app/provider_execution_context.py), read from
  the database, with the accepted-input contract it is built from (input_snapshot.py).
\<close>

section \<open>The accepted input\<close>

definition private_object_key :: "string \<Rightarrow> bool" where
  "private_object_key value \<longleftrightarrow> \<not> (CHR 0x5C \<in> set value \<or> CHR '':'' \<in> set value \<or>
     path_absolute value \<or> path_as_posix value \<noteq> value \<or>
     list_ex (\<lambda>p. p = ''.'' \<or> p = ''..'') (split_slash value))"

definition input_reference_check :: "input_reference \<Rightarrow> bool" where
  "input_reference_check r \<longleftrightarrow> 1 \<le> length (ir_object_key r) \<and> length (ir_object_key r) \<le> 512 \<and>
     ir_reference_role r = ''FIRST_FRAME'' \<and> private_object_key (ir_object_key r)"

text \<open>\<open>GenerationMode\<close> of generation_options.py.\<close>

definition generation_modes :: "string set" where
  "generation_modes = {''success'', ''delayed'', ''failure'', ''timeout'', ''duplicate'', ''corrupt''}"

definition input_snapshot_check :: "job_input_snapshot \<Rightarrow> bool" where
  "input_snapshot_check s \<longleftrightarrow> js_version s = 1 \<and>
     1 \<le> length (js_prompt s) \<and> length (js_prompt s) \<le> 4000 \<and>
     (case js_negative_prompt s of None \<Rightarrow> True | Some p \<Rightarrow> length p \<le> 4000) \<and>
     length (js_references s) \<le> 1 \<and> list_all input_reference_check (js_references s) \<and>
     0 < js_duration_ms s \<and> js_duration_ms s \<le> 2147483647 \<and> resolution_ok (js_resolution s) \<and>
     aspect_ratio_ok (js_aspect_ratio s) \<and> js_mode s \<in> generation_modes"

section \<open>The context\<close>

record attempt_context =
  ac_job_id :: uuid
  ac_attempt_id :: uuid
  ac_provider_code :: string
  ac_provider_job_id :: "string option"
  ac_workflow_version :: string
  ac_route_candidate_id :: "uuid option"
  ac_reference_object_key :: "string option"
  ac_prompt :: string
  ac_negative_prompt :: "string option"
  ac_duration_ms :: int
  ac_aspect_ratio :: string
  ac_resolution :: string
  ac_mode :: string
  ac_status :: attempt_status

definition context_provider_attempt :: "attempt_context \<Rightarrow> provider_attempt" where
  "context_provider_attempt c =
     \<lparr>pq_attempt_id = ac_attempt_id c, pq_idempotency_key = submit_key (ac_attempt_id c),
      pq_provider_job_id = ac_provider_job_id c, pq_mode = ac_mode c\<rparr>"

definition provider_cancel_attempt ::
  "attempt_context \<Rightarrow> string option \<Rightarrow> error + provider_attempt" where
  "provider_cancel_attempt c idempotency_key =
     (let expected = provider_cancel_key (ac_attempt_id c) in
      if idempotency_key \<noteq> None \<and> idempotency_key \<noteq> Some expected
      then Inl (ValueError ''provider cancel idempotency key is not bound to attempt_id'')
      else Inr ((context_provider_attempt c)\<lparr>pq_idempotency_key := expected\<rparr>))"

definition context_for ::
  "generation_job \<Rightarrow> generation_attempt \<Rightarrow> error + attempt_context option" where
  "context_for job attempt =
     (case job_input_snapshot job of
        None \<Rightarrow> Inr None
      | Some snapshot \<Rightarrow>
          if \<not> input_snapshot_check snapshot then Inl (ValueError ''ValidationError'')
          else Inr (Some \<lparr>ac_job_id = job_id job, ac_attempt_id = at_id attempt,
            ac_provider_code = at_provider_code attempt,
            ac_provider_job_id = at_provider_job_id attempt,
            ac_workflow_version = at_workflow_version attempt,
            ac_route_candidate_id = job_selected_route_candidate_id job,
            ac_reference_object_key = (case js_references snapshot of
                [] \<Rightarrow> None | r # _ \<Rightarrow> Some (ir_object_key r)),
            ac_prompt = js_prompt snapshot, ac_negative_prompt = js_negative_prompt snapshot,
            ac_duration_ms = js_duration_ms snapshot,
            ac_aspect_ratio = js_aspect_ratio snapshot, ac_resolution = js_resolution snapshot,
            ac_mode = js_mode snapshot, ac_status = at_status attempt\<rparr>))"

text \<open>\<open>ORDER BY attempt_no DESC LIMIT 1\<close>.\<close>

definition latest_attempt :: "database \<Rightarrow> uuid \<Rightarrow> generation_attempt option" where
  "latest_attempt db job_i =
     (case sort_key (\<lambda>a. - at_attempt_no a)
         (select_where (\<lambda>a. at_job_id a = job_i) (t_attempts db)) of
        [] \<Rightarrow> None | a # _ \<Rightarrow> Some a)"

definition load_active_attempt :: "database \<Rightarrow> uuid \<Rightarrow> error + attempt_context option" where
  "load_active_attempt db job_i =
     (case get_job db job_i of
        None \<Rightarrow> Inr None
      | Some job \<Rightarrow>
          if job_status job \<in> {JOB_SUCCEEDED, JOB_FAILED_FINAL, JOB_CANCELLED, JOB_EXPIRED,
               JOB_REJECTED_POLICY} then Inr None
          else (case latest_attempt db job_i of
              None \<Rightarrow> Inr None | Some attempt \<Rightarrow> context_for job attempt))"

definition load_cancellable_attempt ::
  "database \<Rightarrow> uuid \<Rightarrow> uuid \<Rightarrow> error + attempt_context option" where
  "load_cancellable_attempt db job_i attempt_i =
     (case get_job db job_i of
        None \<Rightarrow> Inr None
      | Some job \<Rightarrow>
          if job_status job \<noteq> JOB_CANCEL_REQUESTED then Inr None
          else (case get_attempt db attempt_i of
              None \<Rightarrow> Inr None
            | Some attempt \<Rightarrow>
                if at_job_id attempt \<noteq> job_i then Inr None else context_for job attempt))"

definition load_attempt_by_provider_job ::
  "database \<Rightarrow> string \<Rightarrow> string \<Rightarrow> error + attempt_context option" where
  "load_attempt_by_provider_job db provider_code provider_job_id =
     (case first_where (\<lambda>a. at_provider_code a = provider_code \<and>
          at_provider_job_id a = Some provider_job_id) (t_attempts db) of
        None \<Rightarrow> Inr None
      | Some attempt \<Rightarrow> (case get_job db (at_job_id attempt) of
            None \<Rightarrow> Inr None | Some job \<Rightarrow> context_for job attempt))"

end
