(* ===== verification/Callbacks.thy ===== *)
theory Callbacks
  imports ProviderContext Leases
begin

text \<open>
  The inbox of provider webhooks (apps/api/app/provider_callbacks.py): receipt with
  deduplication by the provider's event id, the lease under which one worker processes an
  event, its return and its completion. \<open>sha256\<close> is the hex digest of the raw body. \<open>db0\<close> is
  what the look-up read, \<open>db\<close> what the insert meets.
\<close>

definition PROVIDER_EVENT_LEASE :: timedelta where
  "PROVIDER_EVENT_LEASE = minutes 5"

record webhook_result =
  wr_event_id :: string
  wr_status :: inbox_status

definition find_inbox :: "database \<Rightarrow> string \<Rightarrow> string \<Rightarrow> provider_event_inbox option" where
  "find_inbox db provider_code event_id = first_where
     (\<lambda>r. pi_provider_code r = provider_code \<and> pi_external_event_id r = event_id) (t_inbox db)"

definition new_inbox :: "uuid \<Rightarrow> string \<Rightarrow> provider_event \<Rightarrow> string \<Rightarrow> provider_event_inbox" where
  "new_inbox i provider_code event payload_hash =
     \<lparr>pi_id = i, pi_provider_code = provider_code, pi_external_event_id = pe_event_id event,
      pi_provider_job_id = pe_provider_job_id event,
      pi_provider_status = provider_status_value (pe_status event),
      pi_payload_hash = payload_hash,
      pi_failure_code = map_option (\<lambda>f. failure_code_value (fl_code f)) (pe_failure event),
      pi_status = IN_RECEIVED, pi_attempt_id = None, pi_job_id = None, pi_locked_at = None,
      pi_lock_token = None, pi_processed_at = None\<rparr>"

text \<open>The first transaction: the row of the event, inserted if it is new.\<close>

definition inbox_row ::
  "database \<Rightarrow> database \<Rightarrow> string \<Rightarrow> provider_event \<Rightarrow> string \<Rightarrow>
   error + (provider_event_inbox \<times> database)" where
  "inbox_row db0 db provider_code event payload_hash =
     (case find_inbox db0 provider_code (pe_event_id event) of
        Some r \<Rightarrow> Inr (r, db)
      | None \<Rightarrow>
          (case find_inbox db provider_code (pe_event_id event) of
             Some r \<Rightarrow> Inr (r, db)
           | None \<Rightarrow>
               let (i, db) = uuid4 db;
                   r = new_inbox i provider_code event payload_hash
               in if exists_where (\<lambda>x. pi_id x = i) (t_inbox db)
                  then Inl (IntegrityError ''provider_event_inbox_pkey'')
                  else Inr (r, db\<lparr>t_inbox := t_inbox db @ [r]\<rparr>)))"

definition inbox_claimable :: "uuid \<Rightarrow> time \<Rightarrow> provider_event_inbox \<Rightarrow> bool" where
  "inbox_claimable i now r \<longleftrightarrow> pi_id r = i \<and>
     (pi_status r = IN_RECEIVED \<or>
      pi_status r = IN_PROCESSING \<and>
        (case pi_locked_at r of None \<Rightarrow> False | Some t \<Rightarrow> t < now - PROVIDER_EVENT_LEASE))"

definition receive_provider_event ::
  "(string \<Rightarrow> string) \<Rightarrow> database \<Rightarrow> database \<Rightarrow> string \<Rightarrow> string \<Rightarrow> provider_event \<Rightarrow> time \<Rightarrow>
   error + ((uuid \<times> string option) \<times> database)" where
  "receive_provider_event sha256 db0 db provider_code body event now =
     (let payload_hash = sha256 body;
          (token_i, db) = uuid4 db;
          lock_token = uuid_str token_i in
      and_then (inbox_row db0 db provider_code event payload_hash) (\<lambda>(r, db).
        if pi_payload_hash r \<noteq> payload_hash then Inr ((pi_id r, None), db)
        else
          let matching = inbox_claimable (pi_id r) now;
              n = row_count matching (t_inbox db)
          in Inr ((pi_id r, if n = 1 then Some lock_token else None),
               db\<lparr>t_inbox := update_where matching (\<lambda>r. r\<lparr>pi_status := IN_PROCESSING,
                 pi_locked_at := Some now, pi_lock_token := Some lock_token\<rparr>) (t_inbox db)\<rparr>)))"

definition inbox_held :: "uuid \<Rightarrow> string \<Rightarrow> provider_event_inbox \<Rightarrow> bool" where
  "inbox_held i lock_token r \<longleftrightarrow>
     pi_id r = i \<and> pi_status r = IN_PROCESSING \<and> pi_lock_token r = Some lock_token"

definition reset_provider_event :: "database \<Rightarrow> uuid \<Rightarrow> string \<Rightarrow> database" where
  "reset_provider_event db i lock_token = db\<lparr>t_inbox := update_where (inbox_held i lock_token)
     (\<lambda>r. r\<lparr>pi_status := IN_RECEIVED, pi_locked_at := None, pi_lock_token := None\<rparr>) (t_inbox db)\<rparr>"

definition finish_provider_event ::
  "database \<Rightarrow> uuid \<Rightarrow> string \<Rightarrow> attempt_context \<Rightarrow> time \<Rightarrow> database" where
  "finish_provider_event db i lock_token context now =
     db\<lparr>t_inbox := update_where (inbox_held i lock_token)
       (\<lambda>r. r\<lparr>pi_status := IN_PROCESSED, pi_attempt_id := Some (ac_attempt_id context),
          pi_job_id := Some (ac_job_id context), pi_locked_at := None, pi_lock_token := None,
          pi_processed_at := Some now\<rparr>) (t_inbox db)\<rparr>"

definition webhook_result_of :: "database \<Rightarrow> uuid \<Rightarrow> error + webhook_result" where
  "webhook_result_of db i =
     (case first_where (\<lambda>r. pi_id r = i) (t_inbox db) of
        None \<Rightarrow> Inl (RuntimeError ''provider webhook inbox row disappeared'')
      | Some r \<Rightarrow> Inr \<lparr>wr_event_id = pi_external_event_id r, wr_status = pi_status r\<rparr>)"

section \<open>The inbox as a leased queue\<close>

definition inbox_row_lease :: "provider_event_inbox \<Rightarrow> lease" where
  "inbox_row_lease r = (case pi_status r of
     IN_PROCESSING \<Rightarrow> (case pi_lock_token r of None \<Rightarrow> Free | Some t \<Rightarrow> Held t)
   | IN_PROCESSED \<Rightarrow> Done | IN_IGNORED \<Rightarrow> Done | IN_RECEIVED \<Rightarrow> Free)"

definition inbox_lease :: "database \<Rightarrow> uuid \<Rightarrow> lease" where
  "inbox_lease db k = (case first_where (\<lambda>r. pi_id r = k) (t_inbox db) of
     None \<Rightarrow> Free | Some r \<Rightarrow> inbox_row_lease r)"

text \<open>One row per event id of a provider.\<close>

definition inbox_ok :: "database \<Rightarrow> bool" where
  "inbox_ok db \<longleftrightarrow> distinct (map pi_id (t_inbox db)) \<and>
     distinct (map (\<lambda>r. (pi_provider_code r, pi_external_event_id r)) (t_inbox db))"

datatype inbox_op =
    Receive database string string provider_event time
  | Reset uuid string
  | Processed uuid string attempt_context time

text \<open>A reset or a finish of a row that is no longer held updates nothing.\<close>

fun inbox_apply :: "(string \<Rightarrow> string) \<Rightarrow> database \<Rightarrow> inbox_op \<Rightarrow> (lease_op option \<times> database) option"
where
  "inbox_apply sha256 db (Receive db0 provider body event now) =
     (case receive_provider_event sha256 db0 db provider body event now of
        Inl _ \<Rightarrow> None
      | Inr ((i, tok), db') \<Rightarrow> Some (map_option (Claim i) tok, db'))"
| "inbox_apply sha256 db (Reset i tok) =
     Some (if exists_where (inbox_held i tok) (t_inbox db) then Some (Give_back i tok) else None,
       reset_provider_event db i tok)"
| "inbox_apply sha256 db (Processed i tok context now) =
     Some (if exists_where (inbox_held i tok) (t_inbox db) then Some (Finish i tok) else None,
       finish_provider_event db i tok context now)"

lemma inbox_lease_row:
  "inbox_ok db \<Longrightarrow> r \<in> set (t_inbox db) \<Longrightarrow> inbox_lease db (pi_id r) = inbox_row_lease r"
  by (simp add: inbox_lease_def inbox_ok_def first_where_key)

definition inbox_move :: "database \<Rightarrow> lease_op option \<Rightarrow> database \<Rightarrow> bool" where
  "inbox_move db ev db' \<longleftrightarrow> inbox_ok db' \<and>
     (case ev of None \<Rightarrow> inbox_lease db' = inbox_lease db
      | Some e \<Rightarrow> lease_step (inbox_lease db (op_key e)) e = Some (inbox_lease db' (op_key e)) \<and>
          (\<forall>k. k \<noteq> op_key e \<longrightarrow> inbox_lease db' k = inbox_lease db k))"

text \<open>An update of the row with one id that keeps ids and event ids.\<close>

lemma inbox_update:
  assumes ok: "inbox_ok db" and r: "r \<in> set (t_inbox db)" "p r"
    and key: "\<And>x. p x \<Longrightarrow> pi_id x = pi_id r"
    and f: "\<And>x. pi_id (f x) = pi_id x" "\<And>x. pi_provider_code (f x) = pi_provider_code x"
      "\<And>x. pi_external_event_id (f x) = pi_external_event_id x"
    and t: "t_inbox db' = update_where p f (t_inbox db)"
    and step: "lease_step (inbox_row_lease r) e = Some (inbox_row_lease (f r))" "op_key e = pi_id r"
  shows "inbox_move db (Some e) db'"
proof -
  have keys: "map pi_id (t_inbox db') = map pi_id (t_inbox db)"
    "map (\<lambda>r. (pi_provider_code r, pi_external_event_id r)) (t_inbox db') =
     map (\<lambda>r. (pi_provider_code r, pi_external_event_id r)) (t_inbox db)"
    unfolding t by (simp_all add: map_update_where_cong f)
  with ok have ok': "inbox_ok db'" by (simp add: inbox_ok_def)
  have "f r \<in> set (t_inbox db')" using r by (auto simp: t update_where_def)
  from inbox_lease_row [OF ok' this] have "inbox_lease db' (pi_id r) = inbox_row_lease (f r)"
    by (simp add: f)
  moreover have "inbox_lease db' k = inbox_lease db k" if "k \<noteq> pi_id r" for k
    unfolding inbox_lease_def t using that
    by (subst first_where_update_other) (auto simp: f dest: key)
  ultimately show ?thesis
    using step inbox_lease_row [OF ok r(1)] ok' by (simp add: inbox_move_def)
qed

lemma inbox_row_step:
  assumes "inbox_row db0 db provider event h = Inr (r, db')" and "inbox_ok db"
  shows "inbox_move db None db'"
proof -
  consider "t_inbox db' = t_inbox db"
    | i where "t_inbox db' = t_inbox db @ [new_inbox i provider event h]"
      "find_inbox db provider (pe_event_id event) = None" "\<not> exists_where (\<lambda>x. pi_id x = i) (t_inbox db)"
    using assms(1)
    by (auto simp: inbox_row_def uuid4_def Let_def split: option.splits if_splits)
  then show ?thesis
  proof cases
    case 1
    with assms(2) show ?thesis by (simp add: inbox_move_def inbox_ok_def inbox_lease_def fun_eq_iff)
  next
    case (2 i)
    have fresh: "inbox_row_lease (new_inbox i provider event h) = Free"
      by (simp add: new_inbox_def inbox_row_lease_def)
    have "inbox_lease db' k = inbox_lease db k" for k
    proof (cases "first_where (\<lambda>r. pi_id r = k) (t_inbox db)")
      case None
      then show ?thesis
        unfolding inbox_lease_def 2(1) first_where_append None first_where_Cons first_where_Nil
        by (simp add: fresh)
    next
      case (Some x)
      then show ?thesis unfolding inbox_lease_def 2(1) first_where_append Some by simp
    qed
    moreover have "inbox_ok db'"
      using assms(2) 2 by (auto simp: inbox_ok_def new_inbox_def find_inbox_def)
    ultimately show ?thesis by (simp add: inbox_move_def fun_eq_iff)
  qed
qed

lemma inbox_matching:
  assumes "inbox_ok db" and "row_count p (t_inbox db) = 1" and "\<And>x. p x \<Longrightarrow> pi_id x = i"
  obtains r where "r \<in> set (t_inbox db)" and "p r" and "pi_id r = i"
  using row_count_1_iff [where k = pi_id and p = p, of "t_inbox db"] assms
  by (auto simp: inbox_ok_def)

lemma receive_step:
  assumes "receive_provider_event sha256 db0 db provider body event now = Inr ((i, tok), db')"
    and ok: "inbox_ok db"
  shows "inbox_move db (map_option (Claim i) tok) db'"
proof -
  obtain token_i dbu where u: "uuid4 db = (token_i, dbu)" by fastforce
  then have same: "t_inbox dbu = t_inbox db" by (auto simp: uuid4_def)
  obtain r db1 where r: "inbox_row db0 dbu provider event (sha256 body) = Inr (r, db1)"
    using assms(1)
    by (cases "inbox_row db0 dbu provider event (sha256 body)")
      (auto simp: receive_provider_event_def u Let_def)
  have rest: "(if pi_payload_hash r \<noteq> sha256 body then ((pi_id r, None), db1) else
        ((pi_id r, if row_count (inbox_claimable (pi_id r) now) (t_inbox db1) = 1
           then Some (uuid_str token_i) else None),
         db1\<lparr>t_inbox := update_where (inbox_claimable (pi_id r) now) (\<lambda>r. r\<lparr>pi_status := IN_PROCESSING,
           pi_locked_at := Some now, pi_lock_token := Some (uuid_str token_i)\<rparr>) (t_inbox db1)\<rparr>)) =
      ((i, tok), db')"
    using assms(1) unfolding receive_provider_event_def Let_def u by (auto simp: r split: if_splits)
  have "inbox_ok dbu" using ok same by (simp add: inbox_ok_def)
  from inbox_row_step [OF r this] have ok1: "inbox_ok db1" and l1: "inbox_lease db1 = inbox_lease db"
    using same by (auto simp: inbox_move_def inbox_lease_def fun_eq_iff)
  let ?p = "inbox_claimable (pi_id r) now"
  have silent: "inbox_move db None db'" if "t_inbox db' = t_inbox db1"
    using that ok1 l1 by (simp add: inbox_move_def inbox_ok_def inbox_lease_def fun_eq_iff)
  show ?thesis
  proof (cases "pi_payload_hash r \<noteq> sha256 body")
    case True
    with rest silent show ?thesis by auto
  next
    case False
    show ?thesis
    proof (cases "row_count ?p (t_inbox db1) = 1")
      case True
      obtain x where x: "x \<in> set (t_inbox db1)" "?p x" "pi_id x = pi_id r"
        using inbox_matching [OF ok1 True] by (auto simp: inbox_claimable_def)
      have "inbox_move db1 (Some (Claim i (uuid_str token_i))) db'"
        by (rule inbox_update [where p = ?p and f = "\<lambda>r. r\<lparr>pi_status := IN_PROCESSING,
              pi_locked_at := Some now, pi_lock_token := Some (uuid_str token_i)\<rparr>", OF ok1 x(1,2)])
          (use rest False True x in \<open>auto simp: inbox_claimable_def inbox_row_lease_def split: option.splits\<close>)
      with rest False True l1 show ?thesis by (auto simp: inbox_move_def)
    next
      case none: False
      have "row_count ?p (t_inbox db1) = 0"
        using row_count_le_1 [of pi_id "t_inbox db1" ?p] none ok1
        by (fastforce simp: inbox_ok_def inbox_claimable_def)
      then have "update_where ?p f (t_inbox db1) = t_inbox db1" for f
        by (simp add: row_count_0 update_where_none)
      with rest False none silent show ?thesis by auto
    qed
  qed
qed

lemma inbox_apply_step:
  assumes ok: "inbox_ok db" and "inbox_apply sha256 db op = Some (ev, db')"
  shows "inbox_move db ev db'"
proof -
  have held: "inbox_move db (if exists_where (inbox_held i tok) (t_inbox db) then Some e else None) db'"
    if t: "t_inbox db' = update_where (inbox_held i tok) f (t_inbox db)"
      and f: "\<And>x. pi_id (f x) = pi_id x" "\<And>x. pi_provider_code (f x) = pi_provider_code x"
        "\<And>x. pi_external_event_id (f x) = pi_external_event_id x"
      and e: "lease_step (Held tok) e = Some l" "\<And>x. inbox_row_lease (f x) = l" "op_key e = i"
    for i tok f e l
  proof (cases "exists_where (inbox_held i tok) (t_inbox db)")
    case True
    then obtain r where r: "r \<in> set (t_inbox db)" "inbox_held i tok r" by auto
    have "inbox_row_lease r = Held tok" using r by (simp add: inbox_held_def inbox_row_lease_def)
    then have "inbox_move db (Some e) db'"
      by (intro inbox_update [OF ok r _ f t]) (use r e in \<open>auto simp: inbox_held_def\<close>)
    with True show ?thesis by simp
  next
    case False
    then have "t_inbox db' = t_inbox db" unfolding t by (intro update_where_none) auto
    with False ok show ?thesis
      by (simp add: inbox_move_def inbox_ok_def inbox_lease_def fun_eq_iff)
  qed
  show ?thesis
  proof (cases op)
    case (Receive db0 provider body event now)
    with assms(2) receive_step [OF _ ok] show ?thesis by (auto split: sum.splits)
  next
    case (Reset i tok)
    show ?thesis
      using assms(2) Reset held [where i = i and tok = tok and e = "Give_back i tok" and l = Free]
      by (auto simp: reset_provider_event_def inbox_row_lease_def)
  next
    case (Processed i tok c now)
    show ?thesis
      using assms(2) Processed held [where i = i and tok = tok and e = "Finish i tok" and l = Done]
      by (auto simp: finish_provider_event_def inbox_row_lease_def)
  qed
qed

interpretation inbox_queue: leased_queue inbox_lease inbox_ok "inbox_apply sha256"
  for sha256 :: "string \<Rightarrow> string"
proof
  fix db db' :: database and op ev e
  show "inbox_ok db'" if "inbox_ok db" "inbox_apply sha256 db op = Some (ev, db')"
    using inbox_apply_step [OF that] by (simp add: inbox_move_def)
  show "lease_step (inbox_lease db (op_key e)) e = Some (inbox_lease db' (op_key e)) \<and>
      (\<forall>k. k \<noteq> op_key e \<longrightarrow> inbox_lease db' k = inbox_lease db k)"
    if "inbox_ok db" "inbox_apply sha256 db op = Some (Some e, db')"
    using inbox_apply_step [OF that] by (simp add: inbox_move_def)
  show "inbox_lease db' = inbox_lease db"
    if "inbox_ok db" "inbox_apply sha256 db op = Some (None, db')"
    using inbox_apply_step [OF that] by (simp add: inbox_move_def)
qed

lemma inbox_apply_no_renew: "inbox_apply sha256 db op \<noteq> Some (Some (Renew k t), db')"
  by (cases op) (auto split: sum.splits)

lemma inbox_no_renew: "e \<in> set (fst (run_ops (inbox_apply sha256) db ops)) \<Longrightarrow> e \<noteq> Renew k t"
proof (induction ops arbitrary: db)
  case (Cons op ops)
  then show ?case
    by (cases "inbox_apply sha256 db op")
      (auto simp: case_prod_beta inbox_apply_no_renew split: option.splits)
qed simp

text \<open>
  C22. A webhook is processed at most once: however deliveries, redeliveries and workers
  interleave, every event id of a provider has one inbox row, and a row is marked processed at
  most once, as the last thing that happens to it, by the worker whose claim was the latest; a
  worker whose lease was taken over marks nothing.
\<close>

theorem webhook_processed_once:
  assumes "inbox_ok db" and "\<forall>t. inbox_lease db k \<noteq> Held t"
    and "filter (\<lambda>e. op_key e = k) (fst (run_ops (inbox_apply sha256) db ops)) = as @ Finish k t # bs"
  shows "bs = [] \<and> (\<exists>as'. as = as' @ [Claim k t]) \<and>
    inbox_lease (snd (run_ops (inbox_apply sha256) db ops)) k = Done \<and>
    distinct (map (\<lambda>r. (pi_provider_code r, pi_external_event_id r))
      (t_inbox (snd (run_ops (inbox_apply sha256) db ops))))"
proof -
  have mem: "e \<in> set (fst (run_ops (inbox_apply sha256) db ops)) \<and> op_key e = k" if "e \<in> set as" for e
  proof -
    have "e \<in> set (filter (\<lambda>e. op_key e = k) (fst (run_ops (inbox_apply sha256) db ops)))"
      unfolding assms(3) using that by simp
    then show ?thesis by simp
  qed
  obtain as' k' cs where as: "as = as' @ Claim k' t # cs" "\<forall>e \<in> set cs. \<exists>k. e = Renew k t"
    using inbox_queue.finished_by_holder [OF assms(1,3)] assms(2) by blast
  have "cs = []"
  proof (cases cs)
    case (Cons c cs')
    with as have "c \<in> set as" and "\<exists>k. c = Renew k t" by auto
    with mem inbox_no_renew show ?thesis by blast
  qed
  moreover have "k' = k" using mem [of "Claim k' t"] as(1) by simp
  ultimately have "as = as' @ [Claim k t]" using as(1) by simp
  moreover have "inbox_ok (snd (run_ops (inbox_apply sha256) db ops))"
    by (rule inbox_queue.run_ok [OF assms(1)])
  ultimately show ?thesis
    using inbox_queue.finished_once [OF assms(1,3)] by (simp add: inbox_ok_def)
qed

definition sample_event :: provider_event where
  "sample_event = \<lparr>pe_event_id = ''evt-1'', pe_provider_job_id = ''pj-1'',
     pe_status = PS_SUCCEEDED, pe_failure = None\<rparr>"

definition sample_context :: attempt_context where
  "sample_context = \<lparr>ac_job_id = 1, ac_attempt_id = 7, ac_provider_code = ''mock'',
     ac_provider_job_id = Some ''pj-1'', ac_workflow_version = ''mock:v1'',
     ac_route_candidate_id = None, ac_reference_object_key = None, ac_prompt = ''a quiet street'',
     ac_negative_prompt = None, ac_duration_ms = 5000, ac_aspect_ratio = ''16:9'',
     ac_resolution = ''720P'', ac_mode = ''success'', ac_status = ATT_RUNNING\<rparr>"

text \<open>A delivery, and a worker that finishes it after a redelivery took nothing.\<close>

definition sample_deliveries :: "inbox_op list" where
  "sample_deliveries =
     [Receive (sample_db [] []) ''mock'' ''body'' sample_event 5,
      Receive (sample_db [] []) ''mock'' ''body'' sample_event 6,
      Processed 2 (uuid_str 1) sample_context 7]"

lemmas inbox_eval = sample_deliveries_def receive_provider_event_def inbox_row_def find_inbox_def
  inbox_claimable_def inbox_held_def new_inbox_def sample_event_def sample_context_def
  finish_provider_event_def Let_def uuid4_def row_count_def table_simps first_where_Cons
  first_where_Nil sample_defs PROVIDER_EVENT_LEASE_def minutes_def seconds_def key_simps

theorem webhook_processed_once_witness:
  "inbox_lease (snd (run_ops (inbox_apply (\<lambda>b. b)) (sample_db [] []) sample_deliveries)) 2 = Done"
proof -
  have "fst (run_ops (inbox_apply (\<lambda>b. b)) (sample_db [] []) sample_deliveries) =
      [Claim 2 (uuid_str 1)] @ Finish 2 (uuid_str 1) # []"
    by (simp add: inbox_eval)
  then have "filter (\<lambda>e. op_key e = 2)
        (fst (run_ops (inbox_apply (\<lambda>b. b)) (sample_db [] []) sample_deliveries)) =
      [Claim 2 (uuid_str 1)] @ Finish 2 (uuid_str 1) # []"
    by simp
  moreover have "inbox_ok (sample_db [] [])" and "\<forall>t. inbox_lease (sample_db [] []) 2 \<noteq> Held t"
    by (simp_all add: inbox_ok_def inbox_lease_def sample_defs first_where_Nil)
  ultimately show ?thesis
    using webhook_processed_once [of "sample_db [] []" 2 "\<lambda>b. b" sample_deliveries] by blast
qed

end
