(* ===== verification/Polling.thy ===== *)
theory Polling
  imports StateMachine
begin

text \<open>
  Polling budgets (apps/api/app/provider_polling.py): the policy with its back-off, and the
  reservation of a poll, which is persisted before the provider is called. Two workers may
  read the same count; the unique key of the event lets one of them in. \<open>isoformat\<close> is the
  text of a time.
\<close>

section \<open>The policy\<close>

record polling_policy =
  pp_initial_delay :: timedelta
  pp_maximum_delay :: timedelta
  pp_deadline :: timedelta
  pp_maximum_polls :: int

definition polling_policy_check :: "polling_policy \<Rightarrow> error + polling_policy" where
  "polling_policy_check p =
     (if pp_initial_delay p \<le> 0 then Inl (ValueError ''initial polling delay must be positive'')
      else if pp_maximum_delay p < pp_initial_delay p
      then Inl (ValueError ''maximum polling delay must not be shorter than initial delay'')
      else if pp_deadline p \<le> 0 then Inl (ValueError ''polling deadline must be positive'')
      else if pp_maximum_polls p \<le> 0 then Inl (ValueError ''maximum polls must be positive'')
      else Inr p)"

definition default_polling_policy :: polling_policy where
  "default_polling_policy = \<lparr>pp_initial_delay = seconds 1, pp_maximum_delay = seconds 30,
     pp_deadline = minutes 30, pp_maximum_polls = 120\<rparr>"

definition delay_after :: "polling_policy \<Rightarrow> int \<Rightarrow> error + timedelta" where
  "delay_after p poll_count =
     (if poll_count \<le> 0 then Inl (ValueError ''poll count must be positive'')
      else Inr (min (pp_initial_delay p * 2 ^ nat (min (poll_count - 1) 30)) (pp_maximum_delay p)))"

section \<open>Reserving a poll\<close>

record poll_reservation =
  pv_poll_count :: int
  pv_acquired :: bool
  pv_exhausted :: bool

definition poll_started :: "uuid \<Rightarrow> job_event \<Rightarrow> bool" where
  "poll_started attempt e \<longleftrightarrow>
     ev_attempt_id e = Some attempt \<and> ev_event_type e = ''provider.poll_started''"

definition poll_count :: "database \<Rightarrow> uuid \<Rightarrow> int" where
  "poll_count db attempt = int (row_count (poll_started attempt) (t_events db))"

definition poll_key :: "uuid \<Rightarrow> int \<Rightarrow> string" where
  "poll_key attempt n = ''attempt:'' @ uuid_str attempt @ '':poll:'' @ int_str n @ '':v1''"

definition poll_event :: "(time \<Rightarrow> string) \<Rightarrow> generation_attempt \<Rightarrow> int \<Rightarrow> time \<Rightarrow> job_event" where
  "poll_event isoformat attempt n deadline_at =
     \<lparr>ev_job_id = at_job_id attempt, ev_attempt_id = Some (at_id attempt),
      ev_event_type = ''provider.poll_started'',
      ev_from_status = Some (attempt_status_value (at_status attempt)),
      ev_to_status = attempt_status_value (at_status attempt),
      ev_dedup_key = poll_key (at_id attempt) n,
      ev_payload = JObj [(''poll_count'', JInt n), (''deadline_at'', JStr (isoformat deadline_at))]\<rparr>"

text \<open>\<open>db0\<close> is what the session read, \<open>db\<close> what the insert meets.\<close>

definition reserve_poll_at ::
  "(time \<Rightarrow> string) \<Rightarrow> polling_policy \<Rightarrow> database \<Rightarrow> database \<Rightarrow> uuid \<Rightarrow> time \<Rightarrow>
   poll_reservation \<times> database" where
  "reserve_poll_at isoformat p db0 db attempt_i now =
     (case get_attempt db0 attempt_i of
        None \<Rightarrow> (\<lparr>pv_poll_count = 0, pv_acquired = False, pv_exhausted = False\<rparr>, db)
      | Some attempt \<Rightarrow>
          let n = poll_count db0 attempt_i;
              deadline_at = at_created_at attempt + pp_deadline p in
          if at_status attempt \<notin> {ATT_SUBMITTING, ATT_SUBMITTED, ATT_RUNNING}
          then (\<lparr>pv_poll_count = n, pv_acquired = False, pv_exhausted = False\<rparr>, db)
          else if now \<ge> deadline_at \<or> n \<ge> pp_maximum_polls p
          then (\<lparr>pv_poll_count = n, pv_acquired = False, pv_exhausted = True\<rparr>, db)
          else
            let event = poll_event isoformat attempt (n + 1) deadline_at in
            if event_exists db (ev_dedup_key event)
            then (\<lparr>pv_poll_count = n + 1, pv_acquired = False, pv_exhausted = False\<rparr>, db)
            else (\<lparr>pv_poll_count = n + 1, pv_acquired = True, pv_exhausted = False\<rparr>,
              db\<lparr>t_events := t_events db @ [event]\<rparr>))"

definition reserve_poll ::
  "(time \<Rightarrow> string) \<Rightarrow> polling_policy \<Rightarrow> database \<Rightarrow> uuid \<Rightarrow> time \<Rightarrow> poll_reservation \<times> database" where
  "reserve_poll isoformat p db = reserve_poll_at isoformat p db db"

section \<open>The budget holds under races\<close>

text \<open>
  The events that belong to the polls of an attempt, by type or by key. In a run of the
  program every state is kept; a session may have read any of them. \<open>other\<close> is everything
  that writes no such event.
\<close>

definition poll_prefix :: "uuid \<Rightarrow> string" where
  "poll_prefix attempt = ''attempt:'' @ uuid_str attempt @ '':poll:''"

definition poll_row :: "uuid \<Rightarrow> job_event \<Rightarrow> bool" where
  "poll_row attempt e \<longleftrightarrow> poll_started attempt e \<or>
     take (length (poll_prefix attempt)) (ev_dedup_key e) = poll_prefix attempt"

definition poll_log :: "database \<Rightarrow> uuid \<Rightarrow> job_event list" where
  "poll_log db attempt = filter (poll_row attempt) (t_events db)"

inductive poll_run :: "(time \<Rightarrow> string) \<Rightarrow> polling_policy \<Rightarrow> uuid \<Rightarrow> database list \<Rightarrow> bool"
  for isoformat p attempt where
  start: "poll_log db attempt = [] \<Longrightarrow> poll_run isoformat p attempt [db]"
| poll: "poll_run isoformat p attempt (db # hist) \<Longrightarrow> db0 \<in> set (db # hist) \<Longrightarrow>
    reserve_poll_at isoformat p db0 db attempt now = (r, db') \<Longrightarrow>
    poll_run isoformat p attempt (db' # db # hist)"
| other: "poll_run isoformat p attempt (db # hist) \<Longrightarrow> poll_log db' attempt = poll_log db attempt \<Longrightarrow>
    poll_run isoformat p attempt (db' # db # hist)"

inductive_cases poll_runE: "poll_run isoformat p attempt hist"

text \<open>The polls of an attempt are numbered from one without gaps.\<close>

definition numbered :: "database \<Rightarrow> uuid \<Rightarrow> bool" where
  "numbered db attempt \<longleftrightarrow> (\<forall>e \<in> set (poll_log db attempt). poll_started attempt e) \<and>
     map ev_dedup_key (poll_log db attempt) = map (poll_key attempt) [1..poll_count db attempt]"

lemma poll_key_row [simp]: "poll_row i e" if "ev_dedup_key e = poll_key i n"
  using that by (simp add: poll_row_def poll_key_def poll_prefix_def)

lemma poll_key_inj [key_simps]: "poll_key i m = poll_key i n \<longleftrightarrow> m = n"
  by (simp add: poll_key_def key_simps)

lemma poll_count_log: "numbered db i \<Longrightarrow> poll_count db i = int (length (poll_log db i))"
proof -
  assume "numbered db i"
  then have "filter (poll_started i) (t_events db) = poll_log db i"
    by (auto simp: numbered_def poll_log_def poll_row_def intro!: filter_cong)
  then show ?thesis by (simp add: poll_count_def row_count_def)
qed

lemma numbered_exists:
  assumes "numbered db i"
  shows "event_exists db (poll_key i n) \<longleftrightarrow> 1 \<le> n \<and> n \<le> poll_count db i"
proof -
  have "event_exists db (poll_key i n) \<longleftrightarrow> poll_key i n \<in> set (map ev_dedup_key (poll_log db i))"
    by (auto simp: event_exists_def poll_log_def intro: rev_image_eqI)
  also have "\<dots> \<longleftrightarrow> n \<in> {1..poll_count db i}"
    using assms by (auto simp: numbered_def key_simps)
  finally show ?thesis by simp
qed

lemma numbered_cong:
  assumes "poll_log db' i = poll_log db i" and "numbered db i"
  shows "numbered db' i \<and> poll_count db' i = poll_count db i"
proof -
  have all: "\<forall>e \<in> set (poll_log db' i). poll_started i e" using assms by (simp add: numbered_def)
  then have "filter (poll_started i) (t_events db') = poll_log db' i"
    by (auto simp: poll_log_def poll_row_def intro!: filter_cong)
  then have "poll_count db' i = int (length (poll_log db' i))"
    by (simp add: poll_count_def row_count_def)
  with assms all show ?thesis using poll_count_log [OF assms(2)] by (simp add: numbered_def)
qed

text \<open>What one reservation does, with a view that is not ahead of the state.\<close>

lemma reserve_poll_step:
  assumes "reserve_poll_at fmt p db0 db i now = (r, db')" and "numbered db i"
    and "poll_count db0 i \<le> poll_count db i"
  shows "numbered db' i \<and> (if pv_acquired r
    then poll_count db' i = poll_count db i + 1 \<and> pv_poll_count r = poll_count db' i \<and>
      poll_count db i < pp_maximum_polls p
    else db' = db)"
proof (cases "pv_acquired r")
  case False
  with assms show ?thesis
    by (auto simp: reserve_poll_at_def Let_def split: option.splits if_splits)
next
  case True
  from assms(1) obtain a where a: "get_attempt db0 i = Some a"
    by (cases "get_attempt db0 i") (use True in \<open>auto simp: reserve_poll_at_def\<close>)
  let ?n = "poll_count db0 i" and ?d = "at_created_at a + pp_deadline p"
  have key: "ev_dedup_key (poll_event fmt a (?n + 1) ?d) = poll_key (at_id a) (?n + 1)"
    by (simp add: poll_event_def)
  have n: "?n < pp_maximum_polls p" and fresh: "\<not> event_exists db (poll_key (at_id a) (?n + 1))"
    and r: "pv_poll_count r = ?n + 1"
    and db': "db' = db\<lparr>t_events := t_events db @ [poll_event fmt a (?n + 1) ?d]\<rparr>"
    using assms(1) True by (simp_all add: reserve_poll_at_def a Let_def key split: if_splits)
      (metis (mono_tags) poll_reservation.select_convs)+
  let ?e = "poll_event fmt a (poll_count db0 i + 1) (at_created_at a + pp_deadline p)"
  from first_where_Some [OF a [unfolded get_attempt_def]] have i: "at_id a = i" by simp
  have nonneg: "0 \<le> poll_count db0 i" by (simp add: poll_count_def)
  have same: "poll_count db0 i = poll_count db i"
    using fresh assms(3) nonneg unfolding i numbered_exists [OF assms(2)] by auto
  have started: "poll_started i ?e" by (simp add: poll_event_def poll_started_def i)
  have log: "poll_log db' i = poll_log db i @ [?e]"
    using started by (simp add: poll_log_def db' poll_row_def)
  have count: "poll_count db' i = poll_count db i + 1"
    using started by (simp add: poll_count_def row_count_def db')
  have "[1..poll_count db i + 1] = [1..poll_count db i] @ [poll_count db i + 1]"
    using upto_rec2 [of 1 "poll_count db i + 1"] nonneg same by simp
  then have "numbered db' i"
    using assms(2) started
    by (auto simp: numbered_def log count) (simp add: poll_event_def i same)
  with True count r n same show ?thesis by simp
qed

lemma poll_run_inv:
  assumes "poll_run fmt p i hist" and "0 < pp_maximum_polls p"
  shows "numbered (hd hist) i \<and> poll_count (hd hist) i \<le> pp_maximum_polls p \<and>
    (\<forall>h \<in> set hist. poll_count h i \<le> poll_count (hd hist) i)"
  using assms
proof (induction rule: poll_run.induct)
  case (start db)
  then have "poll_count db i = 0"
    by (auto simp: poll_count_def row_count_0 poll_log_def filter_empty_conv poll_row_def)
  with start show ?case by (simp add: numbered_def)
next
  case (poll db hist db0 now r db')
  from poll.IH [OF poll.prems] poll.hyps(2)
  have "numbered db i" "poll_count db0 i \<le> poll_count db i" by auto
  note step = reserve_poll_step [OF poll.hyps(3) this]
  from step have "poll_count db i \<le> poll_count db' i \<and>
      (poll_count db' i = poll_count db i \<or> poll_count db' i \<le> pp_maximum_polls p)"
    by (auto split: if_splits)
  with step poll.IH [OF poll.prems] show ?case by fastforce
next
  case (other db hist db')
  from numbered_cong [OF other.hyps(2)] other.IH [OF other.prems] show ?case by simp
qed

lemma polling_policyD:
  assumes "polling_policy_check p = Inr q"
  shows "q = p" and "0 < pp_initial_delay p" and "pp_initial_delay p \<le> pp_maximum_delay p"
    and "0 < pp_deadline p" and "0 < pp_maximum_polls p"
  using assms by (auto simp: polling_policy_check_def split: if_splits)

text \<open>
  C20. The polling budget holds under races: whatever earlier state each worker has read, an
  attempt never gets more polls than the policy allows; a poll that is granted has a number of
  its own, the next one, and is granted before the deadline.
\<close>

theorem poll_budget:
  assumes "polling_policy_check p = Inr q" and "poll_run fmt p i (db # hist)"
    and "db0 \<in> set (db # hist)" and "reserve_poll_at fmt p db0 db i now = (r, db')"
  shows "poll_count db' i \<le> pp_maximum_polls p \<and>
    (pv_acquired r \<longrightarrow> pv_poll_count r = poll_count db' i \<and> poll_count db' i = poll_count db i + 1 \<and>
       (\<exists>a. get_attempt db0 i = Some a \<and> now < at_created_at a + pp_deadline p)) \<and>
    (\<not> pv_acquired r \<longrightarrow> db' = db)"
proof -
  note pos = polling_policyD(5) [OF assms(1)]
  from poll_run_inv [OF assms(2) pos] assms(3)
  have inv: "numbered db i" "poll_count db0 i \<le> poll_count db i" "poll_count db i \<le> pp_maximum_polls p"
    by auto
  have "\<exists>a. get_attempt db0 i = Some a \<and> now < at_created_at a + pp_deadline p" if "pv_acquired r"
    using assms(4) that
    by (cases "get_attempt db0 i")
      (auto simp: reserve_poll_at_def Let_def split: if_splits)
  with reserve_poll_step [OF assms(4) inv(1,2)] inv(3) show ?thesis by (auto split: if_splits)
qed

definition polled_db :: database where
  "polled_db = sample_db [sample_job 1 JOB_RUNNING] [sample_attempt 7 1 ATT_RUNNING]"

lemma poll_run_sample: "poll_run fmt p 7 [polled_db]"
  by (rule poll_run.start) (simp add: poll_log_def polled_db_def sample_defs empty_database_def)

theorem poll_budget_witness:
  "\<exists>r db1 r' db2. reserve_poll_at (\<lambda>_. []) default_polling_policy polled_db polled_db 7 5 = (r, db1) \<and>
     reserve_poll_at (\<lambda>_. []) default_polling_policy polled_db db1 7 6 = (r', db2) \<and>
     pv_acquired r \<and> poll_count db1 7 = 1 \<and> \<not> pv_acquired r' \<and> db2 = db1"
proof -
  let ?p = default_polling_policy and ?f = "\<lambda>_. []"
  obtain r db1 where r: "reserve_poll_at ?f ?p polled_db polled_db 7 5 = (r, db1)" by fastforce
  obtain r' db2 where r': "reserve_poll_at ?f ?p polled_db db1 7 6 = (r', db2)" by fastforce
  have pol: "polling_policy_check ?p = Inr ?p" by code_simp
  note run1 = poll_run.poll [OF poll_run_sample _ r]
  have b1: "pv_acquired r \<longrightarrow> poll_count db1 7 = poll_count polled_db 7 + 1"
    using poll_budget [OF pol poll_run_sample _ r] by simp
  have b2: "\<not> pv_acquired r' \<longrightarrow> db2 = db1"
    using poll_budget [OF pol run1 _ r'] by simp
  have "pv_acquired (fst (reserve_poll_at ?f ?p polled_db polled_db 7 5))" by code_simp
  moreover have "\<not> pv_acquired (fst (reserve_poll_at ?f ?p polled_db
      (snd (reserve_poll_at ?f ?p polled_db polled_db 7 5)) 7 6))" by code_simp
  moreover have "poll_count polled_db 7 = 0" by code_simp
  ultimately show ?thesis using r r' b1 b2 by auto
qed

text \<open>
  The back-off is well behaved: every delay lies between the initial and the maximum
  delay, a later poll never waits less, and the cap on the exponent changes nothing unless the
  maximum is more than 2^30 times the initial delay.
\<close>

lemma delay_after_bounds:
  assumes "polling_policy_check p = Inr q" and "0 < n" and "n \<le> m"
  shows "\<exists>d d'. delay_after p n = Inr d \<and> delay_after p m = Inr d' \<and> d \<le> d' \<and>
    pp_initial_delay p \<le> d \<and> d' \<le> pp_maximum_delay p \<and>
    (pp_maximum_delay p \<le> pp_initial_delay p * 2 ^ 30 \<longrightarrow>
       d = min (pp_initial_delay p * 2 ^ nat (n - 1)) (pp_maximum_delay p))"
proof -
  note pol = polling_policyD [OF assms(1)]
  let ?e = "\<lambda>n. nat (min (n - 1) 30)"
  have pow: "(1::int) \<le> 2 ^ k" for k :: nat by simp
  have mono: "pp_initial_delay p * 2 ^ ?e n \<le> pp_initial_delay p * 2 ^ ?e m"
    using pol(2) assms(3) by (intro mult_left_mono power_increasing) auto
  have low: "pp_initial_delay p \<le> pp_initial_delay p * 2 ^ ?e n"
    using pol(2) pow [of "?e n"] mult_left_mono [of 1 "2 ^ ?e n" "pp_initial_delay p"] by simp
  have cap: "min (pp_initial_delay p * 2 ^ ?e n) (pp_maximum_delay p) =
      min (pp_initial_delay p * 2 ^ nat (n - 1)) (pp_maximum_delay p)"
    if big: "pp_maximum_delay p \<le> pp_initial_delay p * 2 ^ 30"
  proof (cases "n - 1 \<le> 30")
    case False
    then have "pp_initial_delay p * 2 ^ 30 \<le> pp_initial_delay p * 2 ^ nat (n - 1)"
      using pol(2) by (intro mult_left_mono power_increasing) auto
    with big False show ?thesis by simp
  qed simp
  have "delay_after p k = Inr (min (pp_initial_delay p * 2 ^ ?e k) (pp_maximum_delay p))" if "0 < k" for k
    using that by (simp add: delay_after_def)
  from this [OF assms(2)] this [of m] assms(2,3) mono low cap pol(3) show ?thesis
    by (auto simp: min_le_iff_disj)
qed

lemma delay_after_bounds_example:
  "delay_after default_polling_policy 3 = Inr (seconds 4) \<and>
   delay_after default_polling_policy 50 = Inr (seconds 30)"
  using delay_after_bounds [of default_polling_policy default_polling_policy 3 50]
    delay_after_bounds [of default_polling_policy default_polling_policy 50 50]
  by (auto simp: default_polling_policy_def polling_policy_check_def seconds_def minutes_def)

end
