(* ===== verification/Media.thy ===== *)
theory Media
  imports Provider
begin

text \<open>
  The validation of declared video metadata (apps/api/app/media.py). A value of a wrong type
  cannot arise here; a missing one is None. The frame rate is the rational number the float
  stands for (NaN and infinity fail the same comparison and are left out).
\<close>

datatype media_error_code =
  MEDIA_CONTAINER_INVALID | MEDIA_CODEC_INVALID | MEDIA_RESOLUTION_INVALID
  | MEDIA_ASPECT_RATIO_INVALID | MEDIA_DURATION_INVALID | MEDIA_FRAME_RATE_INVALID

record media_facts =
  mf_codec :: string
  mf_duration_ms :: int
  mf_width :: int
  mf_height :: int
  mf_frame_rate :: rat

record media_policy =
  mp_expected_duration_ms :: int
  mp_expected_aspect_ratio :: string
  mp_duration_tolerance_ms :: int
  mp_allowed_dimensions :: "(int \<times> int) set"
  mp_allowed_codecs :: "string set"

definition media_policy_check :: "media_policy \<Rightarrow> error + media_policy" where
  "media_policy_check p =
     (if mp_expected_duration_ms p \<le> 0 \<or> mp_duration_tolerance_ms p < 0
      then Inl (ValueError ''duration must be positive and tolerance nonnegative'')
      else if mp_expected_aspect_ratio p \<notin> {''16:9'', ''9:16''}
      then Inl (ValueError ''expected_aspect_ratio must be 16:9 or 9:16'')
      else Inr p)"

text \<open>\<open>MediaPolicy(duration_ms, aspect_ratio)\<close>, with the default fields.\<close>

definition media_policy :: "int \<Rightarrow> string \<Rightarrow> error + media_policy" where
  "media_policy duration_ms aspect_ratio = media_policy_check
     \<lparr>mp_expected_duration_ms = duration_ms, mp_expected_aspect_ratio = aspect_ratio,
      mp_duration_tolerance_ms = 250, mp_allowed_dimensions = {(1280, 720), (720, 1280)},
      mp_allowed_codecs = {''h264''}\<rparr>"

definition ratio_text :: "int \<Rightarrow> int \<Rightarrow> string" where
  "ratio_text width height = (let divisor = gcd width height in
     int_str (width div divisor) @ '':'' @ int_str (height div divisor))"

definition media_validate :: "provider_output \<Rightarrow> media_policy \<Rightarrow> media_error_code + media_facts" where
  "media_validate output p =
     (if po_media_type output \<noteq> ''video/mp4'' then Inl MEDIA_CONTAINER_INVALID
      else case po_codec output of
        None \<Rightarrow> Inl MEDIA_CODEC_INVALID
      | Some codec \<Rightarrow>
          if codec \<notin> mp_allowed_codecs p then Inl MEDIA_CODEC_INVALID
          else (case (po_width output, po_height output) of
            (Some width, Some height) \<Rightarrow>
              if (width, height) \<notin> mp_allowed_dimensions p then Inl MEDIA_RESOLUTION_INVALID
              else if ratio_text width height \<noteq> mp_expected_aspect_ratio p
              then Inl MEDIA_ASPECT_RATIO_INVALID
              else (case po_duration_ms output of
                  None \<Rightarrow> Inl MEDIA_DURATION_INVALID
                | Some duration \<Rightarrow>
                    if duration \<le> 0 \<or>
                       \<bar>duration - mp_expected_duration_ms p\<bar> > mp_duration_tolerance_ms p
                    then Inl MEDIA_DURATION_INVALID
                    else (case po_fps output of
                        None \<Rightarrow> Inl MEDIA_FRAME_RATE_INVALID
                      | Some fps \<Rightarrow>
                          if \<not> (0 < fps \<and> fps \<le> 240) then Inl MEDIA_FRAME_RATE_INVALID
                          else Inr \<lparr>mf_codec = codec, mf_duration_ms = duration,
                            mf_width = width, mf_height = height, mf_frame_rate = fps\<rparr>))
          | _ \<Rightarrow> Inl MEDIA_RESOLUTION_INVALID))"

end
