(* ===== verification/Receipt.thy ===== *)
theory Receipt
  imports Media Artifacts
begin

text \<open>
  Receiving a provider's output (apps/api/app/artifacts.py): the mock receiver, which stores
  embedded bytes, and the remote receiver, which checks the declared metadata and copies the
  object the provider wrote, within the size limit. The object store is the protocol of
  storage.py, a record of functions; what a read yields is the list of its chunk sizes. The
  temporary file of the copy is not modelled.
\<close>

section \<open>The object store\<close>

text \<open>What a call to the store raises: an \<^verbatim>\<open>ApiError\<close>, an \<^verbatim>\<open>OSError\<close>, or anything else.\<close>

datatype storage_error = Storage_api nat string | Storage_os string | Storage_other error

fun raised :: "storage_error \<Rightarrow> error" where
  "raised (Storage_api n c) = ApiError n c"
| "raised (Storage_os s) = RuntimeError s"
| "raised (Storage_other e) = e"

text \<open>The \<^verbatim>\<open>except (ApiError, OSError)\<close> clauses.\<close>

fun is_storage_failure :: "storage_error \<Rightarrow> bool" where
  "is_storage_failure (Storage_other _) = False"
| "is_storage_failure _ = True"

record stored_object =
  so_key :: string
  so_mime_type :: string
  so_size_bytes :: int
  so_sha256 :: "string option"

record object_stat =
  ot_key :: string
  ot_size_bytes :: int

record object_storage =
  os_stat :: "string \<Rightarrow> storage_error + object_stat"
  os_open :: "string \<Rightarrow> storage_error + int list"
  os_write_claim :: "string \<Rightarrow> storage_error + string"
  os_put :: "string \<Rightarrow> string \<Rightarrow> int \<Rightarrow> storage_error + stored_object"

record published_artifact =
  pb_stored :: stored_object
  pb_facts :: media_facts

section \<open>Failures of a receipt\<close>

text \<open>\<^verbatim>\<open>ArtifactReceiptError\<close>, or another exception that goes on to the caller.\<close>

datatype receipt_error = Receipt_failure provider_failure | Receipt_raised error

definition reject :: "failure_code \<Rightarrow> string \<Rightarrow> receipt_error" where
  "reject code message = Receipt_failure \<lparr>fl_code = code, fl_message = message\<rparr>"

definition media_failure :: "media_error_code \<Rightarrow> receipt_error" where
  "media_failure e = reject OUTPUT_INVALID_MEDIA (case e of
     MEDIA_CONTAINER_INVALID \<Rightarrow> ''output media type must be MP4''
   | MEDIA_CODEC_INVALID \<Rightarrow> ''output codec declaration is invalid''
   | MEDIA_RESOLUTION_INVALID \<Rightarrow> ''output dimensions declaration is invalid''
   | MEDIA_ASPECT_RATIO_INVALID \<Rightarrow> ''output aspect ratio does not match the job''
   | MEDIA_DURATION_INVALID \<Rightarrow> ''output duration does not match the job''
   | MEDIA_FRAME_RATE_INVALID \<Rightarrow> ''output frame rate declaration is invalid'')"

definition storage_failure :: "failure_code \<Rightarrow> string \<Rightarrow> storage_error \<Rightarrow> receipt_error" where
  "storage_failure code message e =
     (if is_storage_failure e then reject code message else Receipt_raised (raised e))"

section \<open>The mock receiver\<close>

definition looks_like_mp4 :: "string \<Rightarrow> bool" where
  "looks_like_mp4 content \<longleftrightarrow> length content \<ge> 8 \<and> take 4 (drop 4 content) = ''ftyp''"

definition mock_receive ::
  "timedelta \<Rightarrow> object_storage \<Rightarrow> database \<Rightarrow> uuid \<Rightarrow> uuid \<Rightarrow> provider_output \<Rightarrow> media_policy \<Rightarrow> time \<Rightarrow>
   (receipt_error + (published_artifact \<times> bool)) \<times> database" where
  "mock_receive retention storage db job attempt output policy now =
     (case po_content output of
        None \<Rightarrow> (Inl (reject OUTPUT_MISSING ''mock output is empty''), db)
      | Some content \<Rightarrow>
          if content = [] then (Inl (reject OUTPUT_MISSING ''mock output is empty''), db)
          else (case media_validate output policy of
              Inl e \<Rightarrow> (Inl (media_failure e), db)
            | Inr facts \<Rightarrow>
                (case os_write_claim storage (''outputs/'' @ uuid_str job @ ''/'' @ uuid_str attempt) of
                   Inl e \<Rightarrow> (Inl (Receipt_raised (raised e)), db)
                 | Inr key \<Rightarrow>
                     (case register_artifact retention db job attempt key ''FINAL'' None now of
                        Inl e \<Rightarrow> (Inl (Receipt_raised e), db)
                      | Inr db \<Rightarrow>
                          (case os_put storage key (po_media_type output) (int (length content)) of
                             Inl e \<Rightarrow> (Inl (Receipt_raised (raised e)), db)
                           | Inr stored \<Rightarrow> (Inr (\<lparr>pb_stored = stored, pb_facts = facts\<rparr>,
                               looks_like_mp4 content), db))))))"

section \<open>The remote receiver\<close>

text \<open>The loop of \<open>_download\<close>: the chunks are added up, and more than the limit is refused.\<close>

fun download_size :: "int \<Rightarrow> int \<Rightarrow> int list \<Rightarrow> receipt_error + int" where
  "download_size max_bytes received [] = Inr received"
| "download_size max_bytes received (c # cs) =
     (if received + c > max_bytes then Inl (reject OUTPUT_CORRUPTED ''output exceeds the size limit'')
      else download_size max_bytes (received + c) cs)"

definition download :: "object_storage \<Rightarrow> int \<Rightarrow> string \<Rightarrow> receipt_error + int" where
  "download storage max_bytes key =
     (case os_open storage key of
        Inl e \<Rightarrow> Inl (storage_failure OUTPUT_MISSING ''output object download failed'' e)
      | Inr chunks \<Rightarrow>
          (case download_size max_bytes 0 chunks of
             Inl e \<Rightarrow> Inl e
           | Inr n \<Rightarrow> if n = 0 then Inl (reject OUTPUT_MISSING ''output object is empty'') else Inr n))"

text \<open>Everything the code refuses before it downloads or publishes anything.\<close>

definition check_declared ::
  "object_storage \<Rightarrow> int \<Rightarrow> uuid \<Rightarrow> uuid \<Rightarrow> provider_output \<Rightarrow> media_policy \<Rightarrow>
   receipt_error + (string \<times> media_facts)" where
  "check_declared storage max_bytes job attempt output policy =
     (let prefix = ''provider-outputs/'' @ uuid_str job @ ''/'' @ uuid_str attempt @ ''/'';
          outside = reject OUTPUT_CORRUPTED ''output object is outside the controlled namespace'' in
      case po_object_key output of
        None \<Rightarrow> Inl outside
      | Some key \<Rightarrow>
          if \<not> startswith key prefix \<or> contains ''://'' key \<or> CHR 0x5C \<in> set key then Inl outside
          else if po_media_type output \<noteq> ''video/mp4''
          then Inl (reject OUTPUT_INVALID_MEDIA ''output media type is invalid'')
          else (case media_validate output policy of
              Inl e \<Rightarrow> Inl (media_failure e)
            | Inr facts \<Rightarrow>
                (case os_stat storage key of
                   Inl e \<Rightarrow> Inl (storage_failure OUTPUT_MISSING ''output object does not exist'' e)
                 | Inr stat \<Rightarrow>
                     if ot_key stat \<noteq> key
                     then Inl (reject OUTPUT_CORRUPTED ''output object does not match'')
                     else if \<not> (0 < ot_size_bytes stat \<and> ot_size_bytes stat \<le> max_bytes)
                     then Inl (reject OUTPUT_CORRUPTED ''output object is empty or too large'')
                     else Inr (key, facts))))"

definition remote_receive ::
  "timedelta \<Rightarrow> object_storage \<Rightarrow> int \<Rightarrow> database \<Rightarrow> uuid \<Rightarrow> uuid \<Rightarrow> provider_output \<Rightarrow> media_policy \<Rightarrow>
   time \<Rightarrow> (receipt_error + published_artifact) \<times> database" where
  "remote_receive retention storage max_bytes db job attempt output policy now =
     (let failed = storage_failure OUTPUT_CORRUPTED ''receiving the output failed'' in
      case check_declared storage max_bytes job attempt output policy of
        Inl e \<Rightarrow> (Inl e, db)
      | Inr (source, facts) \<Rightarrow>
          (case download storage max_bytes source of
             Inl e \<Rightarrow> (Inl e, db)
           | Inr size_bytes \<Rightarrow>
               (case os_write_claim storage (''outputs/'' @ uuid_str job) of
                  Inl e \<Rightarrow> (Inl (failed e), db)
                | Inr key \<Rightarrow>
                    (case register_artifact retention db job attempt key ''FINAL'' None now of
                       Inl (ApiError n c) \<Rightarrow> (Inl (failed (Storage_api n c)), db)
                     | Inl e \<Rightarrow> (Inl (Receipt_raised e), db)
                     | Inr db \<Rightarrow>
                         (case os_put storage key ''video/mp4'' size_bytes of
                            Inl e \<Rightarrow> (Inl (failed e), db)
                          | Inr stored \<Rightarrow> (Inr \<lparr>pb_stored = stored, pb_facts = facts\<rparr>, db))))))"

end
