(* ===== verification/Submission.thy ===== *)
theory Submission
  imports ProviderContext Reservations
begin

text \<open>
  The submit handshake of an attempt (apps/api/app/provider_submission.py): leaving CREATED
  before the provider is called, and recording that it accepted, that its answer is unknown,
  or that it still has to be reconciled. Each operation is one transaction; leaving it without
  a commit gives the database back as it was. The claims of the request itself are not
  modelled here.
\<close>

definition attempt_key :: "uuid \<Rightarrow> string \<Rightarrow> string" where
  "attempt_key i name = ''attempt:'' @ uuid_str i @ '':'' @ name @ '':v1''"

lemma attempt_key_inj [key_simps]: "attempt_key i n = attempt_key j m \<longleftrightarrow> i = j \<and> n = m"
  by (auto simp: attempt_key_def key_simps)

definition start_submit :: "database \<Rightarrow> attempt_context \<Rightarrow> bool \<times> database" where
  "start_submit db context =
     (case (get_job db (ac_job_id context), get_attempt db (ac_attempt_id context)) of
        (Some job, Some attempt) \<Rightarrow>
          if at_status attempt \<noteq> ATT_CREATED then (False, db)
          else
            let (routed, db1, _) =
                  (if job_status job = JOB_QUEUED
                   then transition_job db job JOB_ROUTING ''job.routing''
                     (job_key (job_id job) ''routing'') (JObj [])
                   else (True, db, job))
            in if \<not> routed then (False, db)
               else let (moved, db2, _) = transition_attempt db1 attempt ATT_SUBMITTING
                      ''attempt.submitting'' (attempt_key (at_id attempt) ''submitting'') (JObj [])
                    in if moved then (True, db2) else (False, db)
      | _ \<Rightarrow> (False, db))"

text \<open>The unique key of the provider's job within one endpoint.\<close>

definition provider_job_taken :: "database \<Rightarrow> generation_attempt \<Rightarrow> string \<Rightarrow> bool" where
  "provider_job_taken db attempt provider_job_id = exists_where (\<lambda>a. at_id a \<noteq> at_id attempt \<and>
     at_provider_endpoint_id a \<noteq> None \<and>
     at_provider_endpoint_id a = at_provider_endpoint_id attempt \<and>
     at_provider_job_id a = Some provider_job_id) (t_attempts db)"

text \<open>
  The four conditional steps of \<open>record_submit_accepted\<close>. The result of a transition is not
  looked at: the next condition reads the object again.
\<close>

definition accept_job ::
  "database \<Rightarrow> generation_job \<Rightarrow> uuid \<Rightarrow> string \<Rightarrow> bool \<Rightarrow> database \<times> generation_job" where
  "accept_job db job attempt_i provider_job_id reconciled =
     (if job_status job = JOB_ROUTING
      then snd (transition_job db job JOB_SUBMITTED
        (if reconciled then ''provider.reconciled'' else ''provider.submitted'')
        (attempt_key attempt_i ''job-submitted'')
        (JObj [(''provider_job_id'', JStr provider_job_id)]))
      else (db, job))"

definition accept_attempt ::
  "database \<Rightarrow> generation_attempt \<Rightarrow> string \<Rightarrow> bool \<Rightarrow> database \<times> generation_attempt" where
  "accept_attempt db attempt provider_job_id reconciled =
     (if at_status attempt = ATT_SUBMITTING
      then snd (transition_attempt db attempt ATT_SUBMITTED
        (if reconciled then ''attempt.reconciled'' else ''attempt.submitted'')
        (attempt_key (at_id attempt) ''submitted'')
        (JObj [(''provider_job_id'', JStr provider_job_id)]))
      else (db, attempt))"

definition first_time :: "time option \<Rightarrow> time \<Rightarrow> time option" where
  "first_time t now = (case t of None \<Rightarrow> Some now | Some t \<Rightarrow> Some t)"

definition start_job :: "database \<Rightarrow> generation_job \<Rightarrow> uuid \<Rightarrow> time \<Rightarrow> database" where
  "start_job db job attempt_i now =
     (if job_status job = JOB_SUBMITTED
      then let (_, db, job) = transition_job db job JOB_RUNNING ''provider.started''
                 (attempt_key attempt_i ''job-running'') (JObj [])
           in assign_job db (job_id job)
                (\<lambda>r. r\<lparr>job_started_at := first_time (job_started_at job) now\<rparr>)
      else db)"

definition start_attempt :: "database \<Rightarrow> generation_attempt \<Rightarrow> time \<Rightarrow> database" where
  "start_attempt db attempt now =
     (if at_status attempt = ATT_SUBMITTED
      then let (_, db, attempt) = transition_attempt db attempt ATT_RUNNING ''attempt.running''
                 (attempt_key (at_id attempt) ''running'') (JObj [])
           in assign_attempt db (at_id attempt)
                (\<lambda>r. r\<lparr>at_started_at := first_time (at_started_at attempt) now\<rparr>)
      else db)"

definition record_submit_accepted ::
  "database \<Rightarrow> attempt_context \<Rightarrow> string \<Rightarrow> bool \<Rightarrow> time \<Rightarrow> error + database" where
  "record_submit_accepted db context provider_job_id reconciled now =
     (case (get_job db (ac_job_id context), get_attempt db (ac_attempt_id context)) of
        (Some job, Some attempt) \<Rightarrow>
          if at_provider_job_id attempt \<notin> {None, Some provider_job_id} then Inr db
          else if provider_job_taken db attempt provider_job_id
          then Inl (IntegrityError ''uq_generation_attempt_provider_job'')
          else
            let set_id = (\<lambda>r. r\<lparr>at_provider_job_id := Some provider_job_id\<rparr>);
                db = assign_attempt db (at_id attempt) set_id;
                (db, job) = accept_job db job (at_id attempt) provider_job_id reconciled;
                (db, attempt) = accept_attempt db (set_id attempt) provider_job_id reconciled;
                db = start_job db job (at_id attempt) now
            in Inr (start_attempt db attempt now)
      | _ \<Rightarrow> Inr db)"

definition add_same_state_event ::
  "database \<Rightarrow> generation_attempt \<Rightarrow> string \<Rightarrow> string \<Rightarrow> database" where
  "add_same_state_event db attempt event_type dedup_key =
     (if event_exists db dedup_key then db
      else db\<lparr>t_events := t_events db @
        [\<lparr>ev_job_id = at_job_id attempt, ev_attempt_id = Some (at_id attempt),
          ev_event_type = event_type,
          ev_from_status = Some (attempt_status_value (at_status attempt)),
          ev_to_status = attempt_status_value (at_status attempt), ev_dedup_key = dedup_key,
          ev_payload = JObj []\<rparr>]\<rparr>)"

definition record_submit_unknown :: "database \<Rightarrow> attempt_context \<Rightarrow> database" where
  "record_submit_unknown db context =
     (case get_attempt db (ac_attempt_id context) of
        None \<Rightarrow> db
      | Some attempt \<Rightarrow>
          if at_status attempt \<noteq> ATT_SUBMITTING then db
          else add_same_state_event db attempt ''provider.submit_unknown''
            (attempt_key (at_id attempt) ''submit-unknown''))"

definition record_reconcile_pending :: "database \<Rightarrow> attempt_context \<Rightarrow> database" where
  "record_reconcile_pending db context =
     (case get_attempt db (ac_attempt_id context) of
        None \<Rightarrow> db
      | Some attempt \<Rightarrow> add_same_state_event db attempt ''provider.reconcile_pending''
          (attempt_key (at_id attempt) ''reconcile-pending''))"

end
