(* ===== verification/Routing.thy ===== *)
theory Routing
  imports Provider Models "HOL-Library.List_Lexorder"
begin

text \<open>
  Routes and their registry (apps/api/app/routing.py), the provider allowlist
  (provider_registry.py) and the binding of a project to a route (project_routing.py).
  \<open>uuid5\<close> is the name-based UUID in the URL namespace. The registry is a value that
  \<open>activate\<close> and \<open>set_enabled\<close> return changed; its lock makes each of them one step.
\<close>

section \<open>Route versions\<close>

record route_version =
  rt_key :: string
  rt_family :: string
  rt_version :: int
  rt_provider_code :: string
  rt_workflow_id :: string
  rt_resolutions :: "string set"
  rt_durations_ms :: "int set"
  rt_aspect_ratios :: "string set"
  rt_requires_input_claim :: bool

definition candidate_id :: "(string \<Rightarrow> uuid) \<Rightarrow> route_version \<Rightarrow> uuid" where
  "candidate_id uuid5 route = uuid5 (''video-maker:route:'' @ rt_key route)"

definition provider_endpoint_id :: "(string \<Rightarrow> uuid) \<Rightarrow> route_version \<Rightarrow> uuid" where
  "provider_endpoint_id uuid5 route = uuid5 (''video-maker:provider-endpoint:'' @
     rt_provider_code route @ '':'' @ rt_key route)"

definition require_supported :: "route_version \<Rightarrow> string \<Rightarrow> int \<Rightarrow> string \<Rightarrow> bool \<Rightarrow> error + unit" where
  "require_supported route resolution duration_ms aspect_ratio has_input =
     (if resolution \<notin> rt_resolutions route
      then Inl (ValueError ''route does not support the requested resolution'')
      else if duration_ms \<notin> rt_durations_ms route
      then Inl (ValueError ''route does not support the requested duration'')
      else if aspect_ratio \<notin> rt_aspect_ratios route
      then Inl (ValueError ''route does not support the requested aspect ratio'')
      else if rt_requires_input_claim route \<and> \<not> has_input
      then Inl (ValueError ''route requires one system-owned reference asset'')
      else Inr ())"

definition MOCK_ROUTE :: route_version where
  "MOCK_ROUTE = \<lparr>rt_key = ''mock_video_v1'', rt_family = ''mock_video'', rt_version = 1,
     rt_provider_code = ''mock'', rt_workflow_id = ''mock:v1'', rt_resolutions = {''720P''},
     rt_durations_ms = {1000, 2000, 3000, 4000, 5000, 6000, 7000, 8000, 9000, 10000},
     rt_aspect_ratios = {''16:9'', ''9:16''}, rt_requires_input_claim = False\<rparr>"

definition SIMULATED_RUNPOD_ROUTE :: route_version where
  "SIMULATED_RUNPOD_ROUTE = \<lparr>rt_key = ''runpod_simulated_v1'', rt_family = ''fast_wan_i2v_720'',
     rt_version = 1, rt_provider_code = ''runpod-simulator'',
     rt_workflow_id = ''fast_wan_i2v_720_v1'', rt_resolutions = {''720P''},
     rt_durations_ms = {5000}, rt_aspect_ratios = {''16:9'', ''9:16''},
     rt_requires_input_claim = True\<rparr>"

section \<open>The route registry\<close>

text \<open>\<open>RouteUnavailableError\<close> and its subclass \<open>RouteDisabledError\<close>.\<close>

datatype route_error = Route_unavailable string | Route_disabled string

record route_registry =
  rr_routes :: "route_version list"
  rr_enabled :: "string \<Rightarrow> bool"
  rr_active_key :: string

definition registered :: "route_registry \<Rightarrow> string \<Rightarrow> bool" where
  "registered reg key \<longleftrightarrow> key \<in> set (map rt_key (rr_routes reg))"

definition route_registry :: "route_version list \<Rightarrow> string \<Rightarrow> bool \<Rightarrow> error + route_registry" where
  "route_registry routes active_key enabled =
     (if routes = [] then Inl (ValueError ''route registry must not be empty'')
      else if \<not> distinct (map rt_key routes)
      then Inl (ValueError ''route version keys must be unique'')
      else if active_key \<notin> set (map rt_key routes)
      then Inl (ValueError ''active route version is not registered'')
      else Inr \<lparr>rr_routes = routes, rr_enabled = (\<lambda>_. enabled), rr_active_key = active_key\<rparr>)"

definition activate :: "route_registry \<Rightarrow> string \<Rightarrow> route_error + route_registry" where
  "activate reg key =
     (if \<not> registered reg key then Inl (Route_unavailable key)
      else Inr (reg\<lparr>rr_active_key := key\<rparr>))"

definition set_enabled :: "route_registry \<Rightarrow> string \<Rightarrow> bool \<Rightarrow> route_error + route_registry" where
  "set_enabled reg key enabled =
     (if \<not> registered reg key then Inl (Route_unavailable key)
      else Inr (reg\<lparr>rr_enabled := (rr_enabled reg)(key := enabled)\<rparr>))"

definition registry_get :: "route_registry \<Rightarrow> string \<Rightarrow> route_error + route_version" where
  "registry_get reg key =
     (case first_where (\<lambda>r. rt_key r = key) (rr_routes reg) of
        None \<Rightarrow> Inl (Route_unavailable key) | Some r \<Rightarrow> Inr r)"

definition enabled_route :: "route_registry \<Rightarrow> string \<Rightarrow> route_error + route_version" where
  "enabled_route reg key =
     (case registry_get reg key of
        Inl e \<Rightarrow> Inl e
      | Inr r \<Rightarrow> if \<not> rr_enabled reg key then Inl (Route_disabled key) else Inr r)"

text \<open>\<open>active\<close> reads the flag first; the key it has is always registered.\<close>

definition active :: "route_registry \<Rightarrow> route_error + route_version" where
  "active reg = (let key = rr_active_key reg in
     if \<not> rr_enabled reg key then Inl (Route_disabled key) else registry_get reg key)"

definition by_candidate_id ::
  "(string \<Rightarrow> uuid) \<Rightarrow> route_registry \<Rightarrow> uuid \<Rightarrow> route_error + route_version" where
  "by_candidate_id uuid5 reg i =
     (case first_where (\<lambda>r. candidate_id uuid5 r = i) (rr_routes reg) of
        None \<Rightarrow> Inl (Route_unavailable (uuid_str i)) | Some r \<Rightarrow> Inr r)"

section \<open>The provider allowlist\<close>

text \<open>\<^verbatim>\<open>isalnum\<close> on the ASCII range, which the configured codes are in.\<close>

definition alnum :: "char \<Rightarrow> bool" where
  "alnum c \<longleftrightarrow> CHR ''A'' \<le> c \<and> c \<le> CHR ''Z'' \<or> CHR ''a'' \<le> c \<and> c \<le> CHR ''z'' \<or>
     CHR ''0'' \<le> c \<and> c \<le> CHR ''9''"

definition provider_code_ok :: "string \<Rightarrow> bool" where
  "provider_code_ok code \<longleftrightarrow> (let rest = filter (\<lambda>c. c \<noteq> CHR ''-'' \<and> c \<noteq> CHR ''_'') code in
     code \<noteq> [] \<and> rest \<noteq> [] \<and> list_all alnum rest)"

definition provider_registry :: "(string \<times> 'p) list \<Rightarrow> error + (string \<rightharpoonup> 'p)" where
  "provider_registry providers =
     (if providers = [] then Inl (ValueError ''provider registry must not be empty'')
      else if \<not> list_all (\<lambda>(code, _). provider_code_ok code) providers
      then Inl (ValueError ''invalid provider code'')
      else Inr (map_of (rev providers)))"

definition provider_get :: "(string \<rightharpoonup> 'p) \<Rightarrow> string \<Rightarrow> error + 'p" where
  "provider_get providers code = (case providers code of
     None \<Rightarrow> Inl (LookupError ''ProviderNotConfiguredError'') | Some p \<Rightarrow> Inr p)"

section \<open>Binding a project to its route\<close>

definition expected_definition :: "route_version \<Rightarrow> route_definition" where
  "expected_definition route =
     \<lparr>rd_provider_code = rt_provider_code route, rd_workflow_id = rt_workflow_id route,
      rd_durations_ms = sorted_list_of_set (rt_durations_ms route),
      rd_resolutions = sorted_list_of_set (rt_resolutions route),
      rd_aspect_ratios = sorted_list_of_set (rt_aspect_ratios route),
      rd_requires_input_claim = rt_requires_input_claim route\<rparr>"

definition assign_project :: "database \<Rightarrow> uuid \<Rightarrow> (project \<Rightarrow> project) \<Rightarrow> database" where
  "assign_project db i f = db\<lparr>t_projects :=
     update_where (\<lambda>r. pr_id r = i) f (t_projects db)\<rparr>"

definition bound_route ::
  "(string \<Rightarrow> uuid) \<Rightarrow> route_registry \<Rightarrow> project \<Rightarrow> error + route_version" where
  "bound_route uuid5 reg project =
     (case (if pr_route_binding_status project = ''UNBOUND'' then active reg
            else case pr_route_candidate_id project of
                None \<Rightarrow> Inl (Route_unavailable ''None'')
              | Some i \<Rightarrow> (case by_candidate_id uuid5 reg i of
                    Inl e \<Rightarrow> Inl e | Inr r \<Rightarrow> enabled_route reg (rt_key r))) of
        Inl _ \<Rightarrow> Inl (ApiError 503 ''ROUTE_DISABLED'') | Inr r \<Rightarrow> Inr r)"

definition project_route ::
  "(string \<Rightarrow> uuid) \<Rightarrow> route_registry \<Rightarrow> database \<Rightarrow> uuid \<Rightarrow> error + (route_version \<times> database)" where
  "project_route uuid5 reg db i =
     (case get_project db i of
        None \<Rightarrow> Inl (ApiError 409 ''PROJECT_ROUTE_REVIEW_REQUIRED'')
      | Some project \<Rightarrow>
          if pr_route_binding_status project = ''REVIEW''
          then Inl (ApiError 409 ''PROJECT_ROUTE_REVIEW_REQUIRED'')
          else and_then (bound_route uuid5 reg project) (\<lambda>route.
            let candidate = candidate_id uuid5 route in
            case first_where (\<lambda>v. rv_candidate_id v = candidate) (t_route_versions db) of
              None \<Rightarrow> Inl (ApiError 503 ''ROUTE_VERSION_MISMATCH'')
            | Some r \<Rightarrow>
                if rv_key r \<noteq> rt_key route \<or> rv_definition r \<noteq> expected_definition route
                then Inl (ApiError 503 ''ROUTE_VERSION_MISMATCH'')
                else case first_where (\<lambda>a. ra_candidate_id a = candidate) (t_route_admissions db) of
                    None \<Rightarrow> Inl (ApiError 503 ''ROUTE_DISABLED'')
                  | Some admission \<Rightarrow>
                      if \<not> ra_enabled admission then Inl (ApiError 503 ''ROUTE_DISABLED'')
                      else if pr_route_binding_status project = ''UNBOUND''
                      then Inr (route, assign_project db i (\<lambda>p. p\<lparr>
                          pr_route_candidate_id := Some candidate,
                          pr_route_binding_status := ''PROVISIONAL'',
                          pr_route_binding_source := Some ''FIRST_ACCEPTED_JOB''\<rparr>))
                      else Inr (route, db)))"

definition solidify_project_route ::
  "database \<Rightarrow> generation_job \<Rightarrow> time \<Rightarrow> error + database" where
  "solidify_project_route db job now =
     (case get_project db (job_project_id job) of
        None \<Rightarrow> Inl (RuntimeError ''Successful job does not match its project binding'')
      | Some project \<Rightarrow>
          if pr_route_candidate_id project \<noteq> job_selected_route_candidate_id job
          then Inl (RuntimeError ''Successful job does not match its project binding'')
          else if pr_route_binding_status project = ''PROVISIONAL''
          then Inr (assign_project db (job_project_id job) (\<lambda>p. p\<lparr>
            pr_route_binding_status := ''LOCKED'', pr_route_bound_at := Some now\<rparr>))
          else Inr db)"

end
