(* ===== verification/Completion.thy ===== *)
theory Completion
  imports Receipt Submission Routing
begin

text \<open>
  The single completion path (apps/api/app/provider_completion.py, provider_settlement.py):
  the attempt snapshot, failing an attempt with its retry budget, publishing an output,
  cancelling, and what a provider's result leads to. Every database session is one
  transaction: a return without a commit gives the database back as it was, an exception
  too. A call of \<open>storage.delete\<close> is recorded by the key it is asked to delete.
\<close>

definition MAX_ATTEMPTS_PER_CANDIDATE :: nat where "MAX_ATTEMPTS_PER_CANDIDATE = 2"
definition MAX_ATTEMPTS_PER_JOB :: nat where "MAX_ATTEMPTS_PER_JOB = 3"
definition MAX_PROVIDER_OUTPUT_BYTES :: int where
  "MAX_PROVIDER_OUTPUT_BYTES = 512 * 1024 * 1024"

datatype provider_result_action = ACT_WAIT | ACT_RETRY | ACT_COMPLETE

record attempt_budget_result =
  bu_total_attempts :: nat
  bu_candidate_attempts :: nat

definition allows_retry :: "attempt_budget_result \<Rightarrow> bool" where
  "allows_retry b \<longleftrightarrow> bu_total_attempts b < MAX_ATTEMPTS_PER_JOB \<and>
     bu_candidate_attempts b < MAX_ATTEMPTS_PER_CANDIDATE"

section \<open>Settlement\<close>

definition settle_succeeded :: "database \<Rightarrow> generation_job \<Rightarrow> time \<Rightarrow> error + database" where
  "settle_succeeded db job now =
     and_then (solidify_project_route db job now) (\<lambda>db.
     and_then (finish_reservation db job True now) (\<lambda>(_, db). Inr db))"

definition settle_released :: "database \<Rightarrow> generation_job \<Rightarrow> time \<Rightarrow> error + database" where
  "settle_released db job now = and_then (finish_reservation db job False now) (\<lambda>(_, db). Inr db)"

section \<open>The snapshot of an attempt\<close>

text \<open>One field: a value it already has may not change.\<close>

definition set_once ::
  "string \<Rightarrow> (generation_attempt \<Rightarrow> 'a option) \<Rightarrow> ('a \<Rightarrow> generation_attempt \<Rightarrow> generation_attempt) \<Rightarrow>
   'a \<Rightarrow> generation_attempt \<Rightarrow> error + generation_attempt" where
  "set_once name get_field set_field value a =
     (case get_field a of
        None \<Rightarrow> Inr (set_field value a)
      | Some existing \<Rightarrow>
          if existing \<noteq> value
          then Inl (ValueError (''attempt snapshot field '' @ name @ '' is immutable''))
          else Inr (set_field value a))"

definition version_fields ::
  "provider_versions \<Rightarrow> (generation_attempt \<Rightarrow> error + generation_attempt) list" where
  "version_fields v =
     [set_once ''worker_version'' at_worker_version (\<lambda>x a. a\<lparr>at_worker_version := Some x\<rparr>)
        (vr_worker_version v),
      set_once ''image_digest'' at_image_digest (\<lambda>x a. a\<lparr>at_image_digest := Some x\<rparr>)
        (vr_image_digest v),
      set_once ''worker_commit'' at_worker_commit (\<lambda>x a. a\<lparr>at_worker_commit := Some x\<rparr>)
        (vr_worker_commit v),
      set_once ''comfyui_version'' at_comfyui_version (\<lambda>x a. a\<lparr>at_comfyui_version := Some x\<rparr>)
        (vr_comfyui_version v),
      set_once ''comfyui_commit'' at_comfyui_commit (\<lambda>x a. a\<lparr>at_comfyui_commit := Some x\<rparr>)
        (vr_comfyui_commit v),
      set_once ''workflow_hash'' at_workflow_hash (\<lambda>x a. a\<lparr>at_workflow_hash := Some x\<rparr>)
        (vr_workflow_hash v),
      set_once ''model_hashes_json'' (\<lambda>a. map_option set (at_model_hashes a))
        (\<lambda>_ a. a\<lparr>at_model_hashes := Some (vr_model_hashes v)\<rparr>) (set (vr_model_hashes v))]"

definition raw_metrics :: "provider_metrics \<Rightarrow> json" where
  "raw_metrics m = JObj [(''gpu_type'', JStr (mt_gpu_type m)), (''queue_ms'', JInt (mt_queue_ms m)),
     (''cold_start_ms'', JInt (mt_cold_start_ms m)), (''runtime_ms'', JInt (mt_runtime_ms m)),
     (''billable_ms'', JInt (mt_billable_ms m))]"

definition metric_fields ::
  "provider_metrics \<Rightarrow> (generation_attempt \<Rightarrow> error + generation_attempt) list" where
  "metric_fields m =
     [set_once ''gpu_type'' at_gpu_type (\<lambda>x a. a\<lparr>at_gpu_type := Some x\<rparr>) (mt_gpu_type m),
      set_once ''queue_ms'' at_queue_ms (\<lambda>x a. a\<lparr>at_queue_ms := Some x\<rparr>) (mt_queue_ms m),
      set_once ''cold_start_ms'' at_cold_start_ms (\<lambda>x a. a\<lparr>at_cold_start_ms := Some x\<rparr>)
        (mt_cold_start_ms m),
      set_once ''runtime_ms'' at_runtime_ms (\<lambda>x a. a\<lparr>at_runtime_ms := Some x\<rparr>) (mt_runtime_ms m),
      set_once ''billable_ms'' at_billable_ms (\<lambda>x a. a\<lparr>at_billable_ms := Some x\<rparr>)
        (mt_billable_ms m),
      set_once ''raw_metrics_json'' at_raw_metrics (\<lambda>x a. a\<lparr>at_raw_metrics := Some x\<rparr>)
        (raw_metrics m)]"

definition cost_fields ::
  "cost_result \<Rightarrow> (generation_attempt \<Rightarrow> error + generation_attempt) list" where
  "cost_fields c =
     [set_once ''cost_minor'' at_cost_minor (\<lambda>x a. a\<lparr>at_cost_minor := Some x\<rparr>) (cr_amount_minor c),
      set_once ''cost_currency'' at_cost_currency (\<lambda>x a. a\<lparr>at_cost_currency := Some x\<rparr>)
        (cr_currency c),
      set_once ''cost_source'' at_cost_source (\<lambda>x a. a\<lparr>at_cost_source := Some x\<rparr>)
        (cost_source_value (cr_source c))]"

definition optional :: "('a \<Rightarrow> 'b list) \<Rightarrow> 'a option \<Rightarrow> 'b list" where
  "optional f x = (case x of None \<Rightarrow> [] | Some v \<Rightarrow> f v)"

definition apply_attempt_snapshot ::
  "generation_attempt \<Rightarrow> poll_result \<Rightarrow> error + generation_attempt" where
  "apply_attempt_snapshot attempt result =
     (if (case pl_versions result of None \<Rightarrow> False
          | Some v \<Rightarrow> at_workflow_version attempt \<noteq> vr_workflow_version v)
      then Inl (ValueError ''provider workflow version does not match attempt'')
      else run_all (\<lambda>a set_field. set_field a) attempt
        (optional version_fields (pl_versions result) @ optional metric_fields (pl_metrics result) @
         optional cost_fields (pl_cost result)))"

text \<open>The check constraints an attempt row meets, and the flush of the changed object.\<close>

definition nonneg_or_null :: "int option \<Rightarrow> bool" where
  "nonneg_or_null x \<longleftrightarrow> (case x of None \<Rightarrow> True | Some n \<Rightarrow> n \<ge> 0)"

definition attempt_checks :: "generation_attempt \<Rightarrow> bool" where
  "attempt_checks a \<longleftrightarrow> at_attempt_no a \<ge> 1 \<and>
     nonneg_or_null (at_queue_ms a) \<and> nonneg_or_null (at_cold_start_ms a) \<and>
     nonneg_or_null (at_runtime_ms a) \<and> nonneg_or_null (at_billable_ms a) \<and>
     (at_cost_minor a = None \<and> at_cost_currency a = None \<and> at_cost_source a = None \<or>
      at_cost_minor a \<noteq> None \<and> nonneg_or_null (at_cost_minor a) \<and> at_cost_currency a \<noteq> None \<and>
      at_cost_source a \<in> {Some ''ACTUAL'', Some ''ESTIMATE'', Some ''SIMULATED''})"

definition save_snapshot ::
  "database \<Rightarrow> generation_attempt \<Rightarrow> poll_result \<Rightarrow> error + (database \<times> generation_attempt)" where
  "save_snapshot db attempt result =
     and_then (apply_attempt_snapshot attempt result) (\<lambda>a.
       if \<not> attempt_checks a then Inl (IntegrityError ''generation_attempts'')
       else Inr (assign_attempt db (at_id attempt) (\<lambda>_. a), a))"

definition snapshot_failure :: "attempt_context \<Rightarrow> poll_result \<Rightarrow> provider_failure option" where
  "snapshot_failure context result =
     (case (pl_metrics result, pl_versions result, pl_cost result) of
        (Some _, Some versions, Some _) \<Rightarrow>
          if vr_workflow_version versions \<noteq> ac_workflow_version context
          then Some \<lparr>fl_code = INTERNAL_ERROR,
            fl_message = ''provider workflow version does not match the attempt''\<rparr>
          else None
      | _ \<Rightarrow> Some \<lparr>fl_code = INTERNAL_ERROR,
          fl_message = ''successful result lacks its version, timing or cost snapshot''\<rparr>)"

definition simulated_provider :: "string \<Rightarrow> bool" where
  "simulated_provider code \<longleftrightarrow> code \<in> {''mock'', ''runpod-simulator''}"

definition cost_source_failure :: "attempt_context \<Rightarrow> poll_result \<Rightarrow> provider_failure option" where
  "cost_source_failure context result =
     (case pl_cost result of
        None \<Rightarrow> None
      | Some cost \<Rightarrow>
          if simulated_provider (ac_provider_code context) = (cr_source cost = COST_SIMULATED)
          then None
          else Some \<lparr>fl_code = INTERNAL_ERROR,
            fl_message = ''provider cost source does not match the environment''\<rparr>)"

section \<open>Ending an attempt and its job\<close>

definition end_attempt :: "failure_code \<Rightarrow> time \<Rightarrow> generation_attempt \<Rightarrow> generation_attempt" where
  "end_attempt code now a =
     a\<lparr>at_failure_code := Some (failure_code_value code), at_finished_at := Some now\<rparr>"

definition end_job :: "failure_code \<Rightarrow> string option \<Rightarrow> time \<Rightarrow> generation_job \<Rightarrow> generation_job" where
  "end_job code message now j = j\<lparr>job_failure_code := Some (failure_code_value code),
     job_error_message := (case message of None \<Rightarrow> job_error_message j | Some m \<Rightarrow> Some m),
     job_finished_at := Some now\<rparr>"

definition failure_payload :: "failure_code \<Rightarrow> json" where
  "failure_payload code = JObj [(''failure_code'', JStr (failure_code_value code))]"

text \<open>
  Cancelling job and attempt together; the end of \<open>finish_cancelled\<close> and of the branch of
  \<open>fail_attempt\<close> for a job whose cancellation was requested. \<open>db0\<close> is the state to go back to.
\<close>

definition cancel_terminal ::
  "database \<Rightarrow> database \<Rightarrow> generation_job \<Rightarrow> generation_attempt \<Rightarrow> time \<Rightarrow> error + database" where
  "cancel_terminal db0 db job attempt now =
     (case transition_job db job JOB_CANCELLED ''provider.cancelled''
         (job_key (job_id job) ''terminal-cancelled'') (JObj []) of
        (False, _, _) \<Rightarrow> Inr db0
      | (True, db, job) \<Rightarrow>
          (case transition_attempt db attempt ATT_CANCELLED ''attempt.cancelled''
              (attempt_key (at_id attempt) ''terminal-cancelled'')
              (failure_payload USER_CANCELLED) of
             (False, _, _) \<Rightarrow> Inr db0
           | (True, db, _) \<Rightarrow>
               settle_released
                 (assign_job (assign_attempt db (at_id attempt) (end_attempt USER_CANCELLED now))
                    (job_id job) (end_job USER_CANCELLED None now)) job now))"

definition attempt_budget :: "database \<Rightarrow> generation_attempt \<Rightarrow> attempt_budget_result" where
  "attempt_budget db attempt =
     (let candidate = (\<lambda>a. if at_provider_endpoint_id attempt \<noteq> None
            then at_provider_endpoint_id a = at_provider_endpoint_id attempt
            else at_provider_code a = at_provider_code attempt) in
      \<lparr>bu_total_attempts = row_count (\<lambda>a. at_job_id a = at_job_id attempt) (t_attempts db),
       bu_candidate_attempts =
         row_count (\<lambda>a. at_job_id a = at_job_id attempt \<and> candidate a) (t_attempts db)\<rparr>)"

definition retry_attempt :: "uuid \<Rightarrow> time \<Rightarrow> generation_job \<Rightarrow> generation_attempt \<Rightarrow> generation_attempt"
where
  "retry_attempt i now job a = \<lparr>at_id = i, at_job_id = job_id job,
     at_attempt_no = at_attempt_no a + 1, at_provider_endpoint_id = at_provider_endpoint_id a,
     at_provider_code = at_provider_code a, at_provider_job_id = None,
     at_workflow_version = at_workflow_version a, at_worker_version = None,
     at_image_digest = None, at_worker_commit = None, at_comfyui_version = None,
     at_comfyui_commit = None, at_workflow_hash = None, at_model_hashes = None,
     at_gpu_type = None, at_queue_ms = None, at_cold_start_ms = None, at_runtime_ms = None,
     at_billable_ms = None, at_status = ATT_CREATED, at_failure_code = None,
     at_started_at = None, at_finished_at = None, at_cost_minor = None,
     at_cost_currency = None, at_cost_source = None, at_raw_metrics = None,
     at_created_at = now, at_updated_at = now\<rparr>"

definition insert_attempt :: "database \<Rightarrow> generation_attempt \<Rightarrow> error + database" where
  "insert_attempt db a =
     (if exists_where (\<lambda>x. at_id x = at_id a) (t_attempts db)
      then Inl (IntegrityError ''generation_attempts_pkey'')
      else if exists_where (\<lambda>x. at_job_id x = at_job_id a \<and> at_attempt_no x = at_attempt_no a)
             (t_attempts db)
      then Inl (IntegrityError ''uq_generation_attempt_job_no'')
      else Inr (db\<lparr>t_attempts := t_attempts db @ [a]\<rparr>))"

definition insert_event :: "database \<Rightarrow> job_event \<Rightarrow> error + database" where
  "insert_event db e =
     (if event_exists db (ev_dedup_key e) then Inl (IntegrityError ''uq_job_events_dedup_key'')
      else Inr (db\<lparr>t_events := t_events db @ [e]\<rparr>))"

definition create_retry ::
  "database \<Rightarrow> generation_job \<Rightarrow> generation_attempt \<Rightarrow> failure_code \<Rightarrow> error + database" where
  "create_retry db job attempt code =
     (let (i, db) = uuid4 db in
      and_then (insert_attempt db (retry_attempt i (db_now db) job attempt)) (\<lambda>db.
      insert_event db \<lparr>ev_job_id = job_id job, ev_attempt_id = Some i,
        ev_event_type = ''attempt.retry_created'', ev_from_status = None,
        ev_to_status = attempt_status_value ATT_CREATED,
        ev_dedup_key = attempt_key (at_id attempt) ''retry'',
        ev_payload = failure_payload code\<rparr>))"

text \<open>
  \<open>fail_attempt\<close>: True when a retry was created. \<open>target\<close> is the status the caller asks for.
\<close>

definition fail_attempt ::
  "database \<Rightarrow> attempt_context \<Rightarrow> provider_failure \<Rightarrow> attempt_status option \<Rightarrow> poll_result option \<Rightarrow>
   time \<Rightarrow> error + (bool \<times> database)" where
  "fail_attempt db0 context failure target result now =
     (case (get_job db0 (ac_job_id context), get_attempt db0 (ac_attempt_id context)) of
        (Some job, Some attempt) \<Rightarrow>
          and_then (case result of None \<Rightarrow> Inr (db0, attempt) | Some r \<Rightarrow> save_snapshot db0 attempt r)
            (\<lambda>(db, attempt).
          if job_status job = JOB_CANCEL_REQUESTED
          then and_then (cancel_terminal db0 db job attempt now) (\<lambda>db. Inr (False, db))
          else
            let code = fl_code failure;
                retryable = is_retryable_failure code;
                to_status = (case target of Some t \<Rightarrow> t
                  | None \<Rightarrow> if retryable then ATT_FAILED_RETRYABLE else ATT_FAILED_FINAL);
                timed_out = (to_status = ATT_TIMED_OUT) in
            case transition_attempt db attempt to_status
                (if timed_out then ''attempt.timed_out'' else ''attempt.failed'')
                (attempt_key (at_id attempt)
                  (''terminal-'' @ (if timed_out then ''timed-out'' else ''failed'')))
                (failure_payload code) of
              (False, _, _) \<Rightarrow> Inr (False, db0)
            | (True, db, attempt) \<Rightarrow>
                let db = assign_attempt db (at_id attempt) (end_attempt code now) in
                if retryable \<and> allows_retry (attempt_budget db attempt)
                then and_then (create_retry db job attempt code) (\<lambda>db. Inr (True, db))
                else
                  (case transition_job db job JOB_FAILED_FINAL ''provider.failed''
                      (job_key (job_id job) ''terminal-failed'') (failure_payload code) of
                     (False, _, _) \<Rightarrow> Inr (False, db0)
                   | (True, db, job) \<Rightarrow>
                       and_then (settle_released
                         (assign_job db (job_id job) (end_job code (Some (fl_message failure)) now))
                         job now) (\<lambda>db. Inr (False, db))))
      | _ \<Rightarrow> Inr (False, db0))"

end
