(* ===== verification/Publishing.thy ===== *)
theory Publishing
  imports Completion
begin

text \<open>
  What a terminal result of a provider leads to (the second half of
  apps/api/app/provider_completion.py): publishing an output, a cancellation, and the
  dispatch over the kinds of result. A pass over several transactions returns its result and
  the state it leaves, and the keys it asked the object store to delete.
\<close>

section \<open>Committing an output\<close>

text \<open>\<open>Discarded\<close>: nothing was committed and the stored object was deleted.\<close>

datatype commit_outcome = Kept | Discarded

definition new_output ::
  "uuid \<Rightarrow> uuid \<Rightarrow> uuid \<Rightarrow> published_artifact \<Rightarrow> bool \<Rightarrow> generation_output" where
  "new_output i job attempt published valid =
     (let stored = pb_stored published; facts = pb_facts published in
      \<lparr>go_id = i, go_job_id = job, go_attempt_id = attempt, go_object_key = so_key stored,
       go_media_type = so_mime_type stored, go_duration_ms = Some (mf_duration_ms facts),
       go_width = Some (mf_width facts), go_height = Some (mf_height facts),
       go_fps = Some (mf_frame_rate facts), go_codec = Some (mf_codec facts),
       go_size_bytes = so_size_bytes stored, go_sha256 = so_sha256 stored,
       go_validation_status = (if valid then OUT_VALID else OUT_INVALID)\<rparr>)"

definition insert_output :: "database \<Rightarrow> generation_output \<Rightarrow> error + database" where
  "insert_output db output =
     (if exists_where (\<lambda>x. go_id x = go_id output) (t_outputs db)
      then Inl (IntegrityError ''generation_outputs_pkey'')
      else if exists_where (\<lambda>x. go_object_key x = go_object_key output) (t_outputs db)
      then Inl (IntegrityError ''generation_outputs_object_key'')
      else Inr (db\<lparr>t_outputs := t_outputs db @ [output]\<rparr>))"

text \<open>The job and the attempt of an output that is not valid.\<close>

definition commit_invalid ::
  "database \<Rightarrow> generation_job \<Rightarrow> generation_attempt \<Rightarrow> time \<Rightarrow> error + database option" where
  "commit_invalid db job attempt now =
     (case transition_attempt db attempt ATT_FAILED_FINAL ''attempt.failed''
         (attempt_key (at_id attempt) ''terminal-invalid-output'')
         (failure_payload OUTPUT_INVALID_MEDIA) of
        (False, _, _) \<Rightarrow> Inr None
      | (True, db, _) \<Rightarrow>
          (case transition_job db job JOB_FAILED_FINAL ''output.invalid''
              (job_key (job_id job) ''terminal-invalid-output'')
              (failure_payload OUTPUT_INVALID_MEDIA) of
             (False, _, _) \<Rightarrow> Inr None
           | (True, db, job) \<Rightarrow>
               and_then (settle_released
                 (assign_job
                   (assign_attempt db (at_id attempt) (end_attempt OUTPUT_INVALID_MEDIA now))
                   (job_id job)
                   (end_job OUTPUT_INVALID_MEDIA (Some ''provider output is not a valid MP4'') now))
                 job now) (\<lambda>db. Inr (Some db))))"

definition output_payload :: "uuid \<Rightarrow> json" where
  "output_payload i = JObj [(''output_id'', JStr (uuid_str i))]"

text \<open>\<open>uq_generation_jobs_final_output_id\<close>; the id is new, so it is met.\<close>

definition commit_valid ::
  "database \<Rightarrow> generation_job \<Rightarrow> generation_attempt \<Rightarrow> uuid \<Rightarrow> time \<Rightarrow> error + database option" where
  "commit_valid db job attempt output_i now =
     (let db = assign_job db (job_id job) (\<lambda>r. r\<lparr>job_final_output_id := Some output_i\<rparr>) in
      case transition_job db job JOB_SUCCEEDED ''provider.completed''
         (job_key (job_id job) ''terminal-succeeded'') (output_payload output_i) of
        (False, _, _) \<Rightarrow> Inr None
      | (True, db, job) \<Rightarrow>
          (case transition_attempt db attempt ATT_SUCCEEDED ''attempt.succeeded''
              (attempt_key (at_id attempt) ''terminal-succeeded'') (output_payload output_i) of
             (False, _, _) \<Rightarrow> Inr None
           | (True, db, _) \<Rightarrow>
               and_then (settle_succeeded
                 (assign_attempt
                   (assign_job db (job_id job) (\<lambda>r. r\<lparr>job_finished_at := Some now\<rparr>))
                   (at_id attempt) (\<lambda>r. r\<lparr>at_finished_at := Some now\<rparr>))
                 job now) (\<lambda>db. Inr (Some db))))"

definition commit_output ::
  "database \<Rightarrow> attempt_context \<Rightarrow> published_artifact \<Rightarrow> poll_result \<Rightarrow> bool \<Rightarrow> time \<Rightarrow>
   error + (commit_outcome \<times> database)" where
  "commit_output db0 context published result valid now =
     (case (get_job db0 (ac_job_id context), get_attempt db0 (ac_attempt_id context)) of
        (Some job, Some attempt) \<Rightarrow>
          if job_status job \<notin> {JOB_RUNNING, JOB_CANCEL_REQUESTED} \<or> at_status attempt \<noteq> ATT_RUNNING
          then Inr (Discarded, db0)
          else
            and_then (save_snapshot db0 attempt result) (\<lambda>(db, attempt).
            case transition_job db job JOB_POSTPROCESSING ''output.postprocessing''
                (attempt_key (at_id attempt) ''postprocessing'') (JObj []) of
              (False, _, _) \<Rightarrow> Inr (Discarded, db0)
            | (True, db, job) \<Rightarrow>
                let (i, db) = uuid4 db in
                and_then (insert_output db (new_output i (job_id job) (at_id attempt) published valid))
                  (\<lambda>db.
                case transition_job db job JOB_VALIDATING ''output.validating''
                    (attempt_key (at_id attempt) ''validating'') (JObj []) of
                  (False, _, _) \<Rightarrow> Inr (Discarded, db0)
                | (True, db, job) \<Rightarrow>
                    and_then (if valid then commit_valid db job attempt i now
                              else commit_invalid db job attempt now)
                      (\<lambda>r. case r of None \<Rightarrow> Inr (Discarded, db0) | Some db \<Rightarrow> Inr (Kept, db))))
      | _ \<Rightarrow> Inr (Discarded, db0))"

definition finish_cancelled ::
  "database \<Rightarrow> attempt_context \<Rightarrow> poll_result \<Rightarrow> time \<Rightarrow> error + database" where
  "finish_cancelled db0 context result now =
     (case (get_job db0 (ac_job_id context), get_attempt db0 (ac_attempt_id context)) of
        (Some job, Some attempt) \<Rightarrow>
          and_then (save_snapshot db0 attempt result) (\<lambda>(db, attempt).
          if job_status job \<notin> {JOB_ROUTING, JOB_SUBMITTED, JOB_RUNNING, JOB_CANCEL_REQUESTED}
          then Inr db0
          else cancel_terminal db0 db job attempt now)
      | _ \<Rightarrow> Inr db0)"

section \<open>Publishing an output\<close>

text \<open>What the receivers need: the configured retention and the object store.\<close>

record execution_env =
  ee_retention :: timedelta
  ee_storage :: object_storage

text \<open>The receiver for the output; the flag says whether the bytes looked like an MP4.\<close>

definition receive_output ::
  "execution_env \<Rightarrow> database \<Rightarrow> attempt_context \<Rightarrow> provider_output \<Rightarrow> time \<Rightarrow>
   (receipt_error + (published_artifact \<times> bool)) \<times> database" where
  "receive_output env db context output now =
     (let raise_it = (\<lambda>e. (Inl (Receipt_raised e), db)) in
      if po_object_key output \<noteq> None
      then (case media_policy (ac_duration_ms context) (ac_aspect_ratio context) of
          Inl e \<Rightarrow> raise_it e
        | Inr policy \<Rightarrow>
            (case remote_receive (ee_retention env) (ee_storage env) MAX_PROVIDER_OUTPUT_BYTES db
                (ac_job_id context) (ac_attempt_id context) output policy now of
               (Inl e, db) \<Rightarrow> (Inl e, db) | (Inr published, db) \<Rightarrow> (Inr (published, True), db)))
      else if simulated_provider (ac_provider_code context)
      then (case (if ac_provider_code context = ''mock'' then media_policy 2000 ''16:9''
                  else media_policy (ac_duration_ms context) (ac_aspect_ratio context)) of
          Inl e \<Rightarrow> raise_it e
        | Inr policy \<Rightarrow> mock_receive (ee_retention env) (ee_storage env) db (ac_job_id context)
            (ac_attempt_id context) output policy now)
      else (Inl (reject OUTPUT_MISSING ''a real provider must return a controlled object''), db))"

definition finish_output ::
  "execution_env \<Rightarrow> database \<Rightarrow> attempt_context \<Rightarrow> provider_output \<Rightarrow> poll_result \<Rightarrow> time \<Rightarrow>
   (error + unit) \<times> database \<times> string list" where
  "finish_output env db context output result now =
     (case receive_output env db context output now of
        (Inl (Receipt_failure failure), db) \<Rightarrow>
          (case fail_attempt db context failure None (Some result) now of
             Inl e \<Rightarrow> (Inl e, db, []) | Inr (_, db) \<Rightarrow> (Inr (), db, []))
      | (Inl (Receipt_raised e), db) \<Rightarrow> (Inl e, db, [])
      | (Inr (published, valid), db) \<Rightarrow>
          let key = so_key (pb_stored published) in
          (case commit_output db context published result valid now of
             Inl e \<Rightarrow> (Inl e, db, [key])
           | Inr (Discarded, db) \<Rightarrow> (Inr (), db, [key])
           | Inr (Kept, db) \<Rightarrow> (Inr (), db, [])))"

section \<open>The completion path\<close>

text \<open>
  The answer of a pass: the exception it raised or the action, the state, and the keys it
  deleted. \<open>failed\<close> is the answer after a call of \<open>fail_attempt\<close> whose result is not used.
\<close>

type_synonym completion = "(error + provider_result_action) \<times> database \<times> string list"

definition failed_completion ::
  "database \<Rightarrow> attempt_context \<Rightarrow> provider_failure \<Rightarrow> time \<Rightarrow> completion" where
  "failed_completion db context failure now =
     (case fail_attempt db context failure None None now of
        Inl e \<Rightarrow> (Inl e, db, []) | Inr (_, db) \<Rightarrow> (Inr ACT_COMPLETE, db, []))"

definition fail_with_result ::
  "database \<Rightarrow> attempt_context \<Rightarrow> provider_failure \<Rightarrow> poll_result \<Rightarrow> time \<Rightarrow> completion" where
  "fail_with_result db context failure result now =
     (case fail_attempt db context failure None (Some result) now of
        Inl e \<Rightarrow> (Inl e, db, [])
      | Inr (retried, db) \<Rightarrow> (Inr (if retried then ACT_RETRY else ACT_COMPLETE), db, []))"

text \<open>The dispatch over the status, once the source object and the cost have been accepted.\<close>

definition complete_status ::
  "execution_env \<Rightarrow> database \<Rightarrow> attempt_context \<Rightarrow> poll_result \<Rightarrow> time \<Rightarrow> completion" where
  "complete_status env db context result now =
     (if pl_status result = PS_SUCCEEDED
      then (case pl_output result of
          Some output \<Rightarrow>
            (case snapshot_failure context result of
               Some failure \<Rightarrow> failed_completion db context failure now
             | None \<Rightarrow>
                 (case finish_output env db context output result now of
                    (Inl e, db, deleted) \<Rightarrow> (Inl e, db, deleted)
                  | (Inr _, db, deleted) \<Rightarrow> (Inr ACT_COMPLETE, db, deleted)))
        | None \<Rightarrow>
            let failure = \<lparr>fl_code = OUTPUT_MISSING, fl_message = ''provider returned no output''\<rparr> in
            fail_with_result db context failure
              ((poll_result_of PS_FAILED (pl_provider_job_id result))\<lparr>pl_failure := Some failure\<rparr>) now)
      else if pl_status result = PS_CANCELLED
      then (case finish_cancelled db context result now of
          Inl e \<Rightarrow> (Inl e, db, []) | Inr db \<Rightarrow> (Inr ACT_COMPLETE, db, []))
      else fail_with_result db context
        (case pl_failure result of Some failure \<Rightarrow> failure
         | None \<Rightarrow> \<lparr>fl_code = INTERNAL_ERROR, fl_message = ''provider returned an unclassified error''\<rparr>)
        result now)"

definition complete_provider_result ::
  "execution_env \<Rightarrow> database \<Rightarrow> attempt_context \<Rightarrow> poll_result \<Rightarrow> time \<Rightarrow> completion" where
  "complete_provider_result env db context result now =
     (let after_source = (\<lambda>db. case cost_source_failure context result of
            Some failure \<Rightarrow> failed_completion db context failure now
          | None \<Rightarrow> complete_status env db context result now);
          outside = \<lparr>fl_code = OUTPUT_CORRUPTED,
            fl_message = ''output object is outside the controlled namespace''\<rparr> in
      case Option.bind (pl_output result) po_object_key of
        None \<Rightarrow> after_source db
      | Some key \<Rightarrow>
          (case register_artifact (ee_retention env) db (ac_job_id context)
              (ac_attempt_id context) key ''SOURCE'' None now of
             Inr db \<Rightarrow> after_source db
           | Inl (ValueError _) \<Rightarrow> failed_completion db context outside now
           | Inl (ApiError _ _) \<Rightarrow> failed_completion db context outside now
           | Inl e \<Rightarrow> (Inl e, db, [])))"

text \<open>The tail of \<open>apply_provider_result\<close>, with the context it goes on with.\<close>

definition apply_to_context ::
  "execution_env \<Rightarrow> database \<Rightarrow> attempt_context \<Rightarrow> poll_result \<Rightarrow> time \<Rightarrow> completion" where
  "apply_to_context env db context result now =
     (if pl_status result \<in> {PS_PENDING, PS_RUNNING} then (Inr ACT_WAIT, db, [])
      else if pl_status result = PS_UNKNOWN
      then (Inr ACT_WAIT, record_reconcile_pending db context, [])
      else complete_provider_result env db context result now)"

definition apply_provider_result ::
  "execution_env \<Rightarrow> database \<Rightarrow> attempt_context \<Rightarrow> poll_result \<Rightarrow> time \<Rightarrow> completion" where
  "apply_provider_result env db context result now =
     (case (pl_provider_job_id result, ac_provider_job_id context) of
        (Some (c # cs), None) \<Rightarrow>
          (case record_submit_accepted db context (c # cs) True now of
             Inl e \<Rightarrow> (Inl e, db, [])
           | Inr db \<Rightarrow>
               (case load_attempt_by_provider_job db (ac_provider_code context) (c # cs) of
                  Inl e \<Rightarrow> (Inl e, db, [])
                | Inr None \<Rightarrow> (Inr ACT_WAIT, db, [])
                | Inr (Some refreshed) \<Rightarrow> apply_to_context env db refreshed result now))
      | _ \<Rightarrow> apply_to_context env db context result now)"

section \<open>Events and terminal cost\<close>

text \<open>\<open>poll\<close> and \<open>read_cost\<close> are what the provider answers or raises.\<close>

definition result_for_event ::
  "(provider_attempt \<Rightarrow> error + poll_result) \<Rightarrow> attempt_context \<Rightarrow> provider_event \<Rightarrow>
   error + poll_result" where
  "result_for_event poll context event =
     (if pe_status event = PS_CANCELLED
      then Inr (poll_result_of PS_CANCELLED (Some (pe_provider_job_id event)))
      else if pe_status event = PS_FAILED \<and> pe_failure event \<noteq> None
      then Inr ((poll_result_of PS_FAILED (Some (pe_provider_job_id event)))
             \<lparr>pl_failure := pe_failure event\<rparr>)
      else if pe_status event \<in> {PS_SUCCEEDED, PS_FAILED}
      then poll (context_provider_attempt context)
      else Inr (poll_result_of (pe_status event) (Some (pe_provider_job_id event))))"

definition with_terminal_cost ::
  "(provider_attempt \<Rightarrow> error + cost_result option) \<Rightarrow> attempt_context \<Rightarrow> poll_result \<Rightarrow> poll_result"
where
  "with_terminal_cost read_cost context result =
     (if pl_status result \<notin> {PS_SUCCEEDED, PS_FAILED, PS_CANCELLED} \<or> pl_cost result \<noteq> None
      then result
      else case read_cost (context_provider_attempt context) of
          Inl _ \<Rightarrow> result | Inr cost \<Rightarrow> result\<lparr>pl_cost := cost\<rparr>)"

end
