(* ===== verification/Transactions.thy ===== *)
theory Transactions
  imports Prelude
begin

text \<open>
  Systems of transactions: any number of sessions issue operations in any order; an operation
  that raises is rolled back and leaves the state as it was. The locale states what a
  component has to show of each single operation, and gives the invariant of every run.
\<close>

fun run_tx :: "('s \<Rightarrow> 'op \<Rightarrow> error + 's) \<Rightarrow> 's \<Rightarrow> 'op list \<Rightarrow> 's" where
  "run_tx exec s [] = s"
| "run_tx exec s (op # ops) = run_tx exec (case exec s op of Inl _ \<Rightarrow> s | Inr s' \<Rightarrow> s') ops"

lemma run_tx_append: "run_tx exec s (as @ bs) = run_tx exec (run_tx exec s as) bs"
  by (induction as arbitrary: s) simp_all

lemma run_tx_cong [fundef_cong]:
  assumes "s = s'" and "ops = ops'" and "\<And>s op. op \<in> set ops' \<Longrightarrow> exec s op = exec' s op"
  shows "run_tx exec s ops = run_tx exec' s' ops'"
  unfolding assms(1,2) using assms(3)
  by (induction ops' arbitrary: s') auto

text \<open>Operations that keep \<open>good\<close> and only move along \<open>follows\<close> do so together.\<close>

lemma run_tx_follows:
  assumes "good s" and "\<And>s. follows s s" and "\<And>s t u. follows s t \<Longrightarrow> follows t u \<Longrightarrow> follows s u"
    and "\<And>s op s'. op \<in> set ops \<Longrightarrow> good s \<Longrightarrow> exec s op = Inr s' \<Longrightarrow> good s' \<and> follows s s'"
  shows "good (run_tx exec s ops) \<and> follows s (run_tx exec s ops)"
proof -
  have "(\<And>s op s'. op \<in> set ops \<Longrightarrow> good s \<Longrightarrow> exec s op = Inr s' \<Longrightarrow> good s' \<and> follows s s') \<Longrightarrow>
      good s \<Longrightarrow> good (run_tx exec s ops) \<and> follows s (run_tx exec s ops)" for s
  proof (induction ops arbitrary: s)
    case Nil
    with assms(2) show ?case by simp
  next
    case (Cons op ops)
    have step: "good t \<Longrightarrow> good (run_tx exec t ops) \<and> follows t (run_tx exec t ops)" for t
      using Cons.IH [of t] Cons.prems(1) by (meson list.set_intros(2))
    show ?case
    proof (cases "exec s op")
      case (Inl e)
      with step [OF Cons.prems(2)] show ?thesis by simp
    next
      case (Inr t)
      then have "good t \<and> follows s t" using Cons.prems by (meson list.set_intros(1))
      with step [of t] Inr assms(3) show ?thesis by (metis run_tx.simps(2) sum.case(2))
    qed
  qed
  with assms(1,4) show ?thesis by blast
qed

locale transactional =
  fixes exec :: "'s \<Rightarrow> 'op \<Rightarrow> error + 's"
    and good :: "'s \<Rightarrow> bool"
  assumes exec_good: "good s \<Longrightarrow> exec s op = Inr s' \<Longrightarrow> good s'"
begin

lemma run_good: "good s \<Longrightarrow> good (run_tx exec s ops)"
proof (induction ops arbitrary: s)
  case (Cons op ops)
  then show ?case using exec_good by (cases "exec s op") auto
qed simp

end

text \<open>A relation every operation keeps between the state before it and after it.\<close>

locale transactional_follow = transactional exec good
  for exec :: "'s \<Rightarrow> 'op \<Rightarrow> error + 's" and good +
  fixes follows :: "'s \<Rightarrow> 's \<Rightarrow> bool"
  assumes follows_refl: "follows s s"
    and follows_trans: "follows s t \<Longrightarrow> follows t u \<Longrightarrow> follows s u"
    and exec_follows: "good s \<Longrightarrow> exec s op = Inr s' \<Longrightarrow> follows s s'"
begin

lemma run_follows: "good s \<Longrightarrow> follows s (run_tx exec s ops)"
  using run_tx_follows [of good s follows ops exec] follows_refl follows_trans exec_good exec_follows
  by blast

end

end
