(* ===== verification/ProviderInv.thy ===== *)
theory ProviderInv
  imports Publishing Polling Transactions
begin

text \<open>
  The provider pipeline as a system of transactions on jobs and attempts, and its invariants:
  the money of a job and its log follow its status, whatever sessions interleave.
\<close>

section \<open>What a status means for the reservation\<close>

fun expected_settlement :: "job_status \<Rightarrow> settlement_status option" where
  "expected_settlement JOB_CREATED = None"
| "expected_settlement JOB_SUCCEEDED = Some SET_SETTLED"
| "expected_settlement JOB_FAILED_FINAL = Some SET_RELEASED"
| "expected_settlement JOB_CANCELLED = Some SET_RELEASED"
| "expected_settlement JOB_EXPIRED = Some SET_RELEASED"
| "expected_settlement JOB_REJECTED_POLICY = Some SET_RELEASED"
| "expected_settlement _ = Some SET_RESERVED"

definition settlement_fits :: "generation_job \<Rightarrow> bool" where
  "settlement_fits j \<longleftrightarrow> job_settlement_status j = expected_settlement (job_status j)"

definition jobs_ok :: "database \<Rightarrow> bool" where
  "jobs_ok db \<longleftrightarrow> log_agrees db \<and> (\<forall>j \<in> set (t_jobs db). settlement_fits j)"

text \<open>Job \<open>i\<close> is in the hands of a transaction: its reservation still open, its status \<open>s\<close>.\<close>

definition in_hand :: "database \<Rightarrow> uuid \<Rightarrow> job_status \<Rightarrow> bool" where
  "in_hand db i s \<longleftrightarrow> log_agrees db \<and> (\<forall>j \<in> set (t_jobs db). job_id j \<noteq> i \<longrightarrow> settlement_fits j) \<and>
     (\<exists>r. get_job db i = Some r \<and> job_status r = s \<and> job_settlement_status r = Some SET_RESERVED)"

section \<open>Steps that do not show on jobs\<close>

definition job_face :: "generation_job \<Rightarrow> uuid \<times> job_status \<times> settlement_status option" where
  "job_face j = (job_id j, job_status j, job_settlement_status j)"

definition same_jobs :: "database \<Rightarrow> database \<Rightarrow> bool" where
  "same_jobs db db' \<longleftrightarrow> map job_face (t_jobs db') = map job_face (t_jobs db) \<and>
     (\<forall>i. job_log db' i = job_log db i)"

lemma same_jobs_refl [simp, intro]: "same_jobs db db"
  by (simp add: same_jobs_def)

lemma same_jobs_trans: "same_jobs a b \<Longrightarrow> same_jobs b c \<Longrightarrow> same_jobs a c"
  by (simp add: same_jobs_def)

lemma same_jobs_tables:
  "t_jobs db' = t_jobs db \<Longrightarrow> t_events db' = t_events db \<Longrightarrow> same_jobs db db'"
  by (simp add: same_jobs_def job_log_def)

lemma same_jobs_log:
  assumes "same_jobs db db'" and "log_agrees db"
  shows "log_agrees db'"
proof (rule log_agrees_cong [OF assms(2)])
  have "map fst (map job_face (t_jobs db')) = map fst (map job_face (t_jobs db))"
    "map (fst \<circ> snd) (map job_face (t_jobs db')) = map (fst \<circ> snd) (map job_face (t_jobs db))"
    using assms(1) by (simp_all only: same_jobs_def)
  then show "map job_id (t_jobs db') = map job_id (t_jobs db)"
    "map job_status (t_jobs db') = map job_status (t_jobs db)"
    by (simp_all add: job_face_def comp_def)
qed (use assms(1) in \<open>simp add: same_jobs_def\<close>)

lemma same_jobs_row:
  assumes "same_jobs db db'" and "j \<in> set (t_jobs db')"
  obtains r where "r \<in> set (t_jobs db)" and "job_face r = job_face j"
proof -
  have "job_face j \<in> set (map job_face (t_jobs db'))" using assms(2) by simp
  then have "job_face j \<in> set (map job_face (t_jobs db))" using assms(1) by (simp only: same_jobs_def)
  then show ?thesis using that by auto
qed

lemma same_jobs_sym: "same_jobs a b \<Longrightarrow> same_jobs b a"
  by (simp add: same_jobs_def)

lemma same_jobs_fits:
  assumes "same_jobs db db'" and "\<forall>j \<in> set (t_jobs db). job_id j \<noteq> i \<longrightarrow> settlement_fits j"
    and j: "j \<in> set (t_jobs db')" "job_id j \<noteq> i"
  shows "settlement_fits j"
proof -
  obtain r where "r \<in> set (t_jobs db)" "job_face r = job_face j"
    by (rule same_jobs_row [OF assms(1) j(1)])
  with assms(2) j(2) show ?thesis by (auto simp: settlement_fits_def job_face_def)
qed

lemma same_jobs_ok:
  assumes "same_jobs db db'" and "jobs_ok db"
  shows "jobs_ok db'"
  using same_jobs_fits [OF assms(1)] same_jobs_log [OF assms(1)] assms(2)
  by (force simp: jobs_ok_def elim!: same_jobs_row [OF assms(1)] simp: settlement_fits_def job_face_def)

lemma same_jobs_in_hand:
  assumes "same_jobs db db'" and "in_hand db i s"
  shows "in_hand db' i s"
proof -
  obtain r where r: "get_job db i = Some r" "job_status r = s"
      "job_settlement_status r = Some SET_RESERVED"
    and fits: "\<forall>j \<in> set (t_jobs db). job_id j \<noteq> i \<longrightarrow> settlement_fits j" and log: "log_agrees db"
    using assms(2) by (auto simp: in_hand_def)
  have mem: "r \<in> set (t_jobs db)" "job_id r = i"
    using first_where_Some [OF r(1) [unfolded get_job_def]] by simp_all
  obtain r' where r': "r' \<in> set (t_jobs db')" "job_face r' = job_face r"
    by (rule same_jobs_row [OF same_jobs_sym [OF assms(1)] mem(1)])
  have log': "log_agrees db'" by (rule same_jobs_log [OF assms(1) log])
  have "distinct (map job_id (t_jobs db'))" using log' by (simp add: log_agrees_def)
  then have "get_job db' i = Some r'"
    unfolding get_job_def
    by (rule first_where_key_eq [where k = job_id, OF _ r'(1)]) (use r'(2) mem(2) in \<open>simp add: job_face_def\<close>)
  then show ?thesis
    using log' r' r same_jobs_fits [OF assms(1) fits] by (auto simp: in_hand_def job_face_def)
qed

text \<open>The quiet steps.\<close>

lemma same_jobs_assign_attempt [simp, intro]: "same_jobs db (assign_attempt db i f)"
  by (rule same_jobs_tables) simp_all

lemma same_jobs_assign_job [intro]:
  "(\<And>j. job_face (f j) = job_face j) \<Longrightarrow> same_jobs db (assign_job db i f)"
  by (simp add: same_jobs_def job_log_def, rule map_update_where_cong) (simp add: job_face_def)

lemma same_jobs_transition_attempt:
  "transition_attempt db a t et k pl = (b, db', a') \<Longrightarrow> same_jobs db db'"
  by (auto simp: transition_attempt_def same_jobs_def job_log_def Let_def split: if_splits)

lemma same_jobs_uuid4: "uuid4 db = (i, db') \<Longrightarrow> same_jobs db db'"
  by (auto simp: uuid4_def intro!: same_jobs_tables)

lemma same_jobs_save_snapshot:
  "save_snapshot db a r = Inr (db', a') \<Longrightarrow> same_jobs db db'"
  by (auto simp: save_snapshot_def and_then_Inr_iff split: if_splits)

lemma same_jobs_insert_output: "insert_output db x = Inr db' \<Longrightarrow> same_jobs db db'"
  by (auto simp: insert_output_def split: if_splits intro!: same_jobs_tables)

lemma same_jobs_solidify: "solidify_project_route db job now = Inr db' \<Longrightarrow> same_jobs db db'"
  by (auto simp: solidify_project_route_def assign_project_def split: option.splits if_splits
      intro!: same_jobs_tables)

lemma same_jobs_create_retry: "create_retry db job a c = Inr db' \<Longrightarrow> same_jobs db db'"
  by (auto simp: create_retry_def uuid4_def insert_attempt_def insert_event_def same_jobs_def
      job_log_def and_then_Inr_iff Let_def split: if_splits)

section \<open>Steps that do\<close>

lemma in_hand_transition:
  assumes "in_hand db (job_id job) (job_status job)"
    and "transition_job db job t et k pl = (True, db', job')"
  shows "in_hand db' (job_id job) t"
proof -
  from assms(1) have log: "log_agrees db"
    and fits: "\<forall>j \<in> set (t_jobs db). job_id j \<noteq> job_id job \<longrightarrow> settlement_fits j"
    and res: "\<exists>r. get_job db (job_id job) = Some r \<and> job_settlement_status r = Some SET_RESERVED"
    by (auto simp: in_hand_def)
  have dist: "distinct (map job_id (t_jobs db))" using log by (simp add: log_agrees_def)
  obtain r where r: "get_job db (job_id job) = Some r"
    "get_job db' (job_id job) = Some (r\<lparr>job_status := t, job_updated_at := db_now db\<rparr>)"
    by (rule transition_job_row [OF assms(2) dist])
  have "settlement_fits j" if "j \<in> set (t_jobs db')" "job_id j \<noteq> job_id job" for j
    using that fits by (auto simp: transition_job_True(4) [OF assms(2)] set_update_where split: if_splits)
  moreover have "log_agrees db'" by (rule log_agrees_transition_job [OF log assms(2)])
  ultimately show ?thesis using r res by (auto simp: in_hand_def)
qed

lemma transition_job_object:
  "transition_job db job t et k pl = (True, db', job') \<Longrightarrow>
   job_id job' = job_id job \<and> job_status job' = t \<and>
   job_settlement_status job' = job_settlement_status job"
  by (auto dest: transition_job_True(5))

lemma in_hand_enter:
  assumes "jobs_ok db" and "get_job db i = Some job"
    and "expected_settlement (job_status job) = Some SET_RESERVED"
  shows "in_hand db i (job_status job) \<and> job_id job = i \<and> job_settlement_status job = Some SET_RESERVED"
  using first_where_Some [OF assms(2) [unfolded get_job_def]] assms
  by (auto simp: jobs_ok_def in_hand_def settlement_fits_def)

lemma in_hand_leave:
  assumes "in_hand db i s" and "expected_settlement s = Some SET_RESERVED"
  shows "jobs_ok db"
proof -
  obtain r where r: "get_job db i = Some r" "job_status r = s"
      "job_settlement_status r = Some SET_RESERVED"
    and fits: "\<forall>j \<in> set (t_jobs db). job_id j \<noteq> i \<longrightarrow> settlement_fits j" and log: "log_agrees db"
    using assms(1) by (auto simp: in_hand_def)
  have "settlement_fits j" if "j \<in> set (t_jobs db)" for j
  proof (cases "job_id j = i")
    case True
    have "get_job db i = Some j"
      unfolding get_job_def
      by (rule first_where_key_eq [where k = job_id, OF _ that True]) (use log in \<open>simp add: log_agrees_def\<close>)
    with r assms(2) show ?thesis by (simp add: settlement_fits_def)
  qed (use fits that in simp)
  with log show ?thesis by (simp add: jobs_ok_def)
qed

text \<open>The settlement moves the job out of the transaction's hands.\<close>

lemma post_transfer_events:
  "post_transfer db tr now = Inr (t, b, db') \<Longrightarrow> t_events db' = t_events db \<and> t_attempts db' = t_attempts db"
  by (auto simp: post_transfer_def post_transfer_at_def change_balance_def Let_def uuid4_def
      and_then_Inr_iff split: option.splits if_splits)

lemma refresh_batch_status_events:
  "refresh_batch_status db i = Inr (st, db') \<Longrightarrow>
   t_events db' = t_events db \<and> t_attempts db' = t_attempts db"
  by (auto simp: refresh_batch_status_def Let_def split: option.splits)

lemma ensure_account_events:
  "ensure_account db ow ty u = Inr (a, db') \<Longrightarrow>
   t_events db' = t_events db \<and> t_attempts db' = t_attempts db"
  using ledger_frame_tables(2,4) ensure_account_frame(1) by blast

lemma finish_reservation_events:
  assumes "finish_reservation db job settle now = Inr (b, db')"
  shows "t_events db' = t_events db \<and> t_attempts db' = t_attempts db"
  using assms
  by (auto simp: finish_reservation_def Let_def and_then_Inr_iff split: if_splits option.splits
      dest!: ensure_account_events post_transfer_events refresh_batch_status_events)

lemma in_hand_finish:
  assumes hand: "in_hand db (job_id job) s" and res: "job_settlement_status job = Some SET_RESERVED"
    and s: "expected_settlement s = Some (finished_status settle)"
    and fin: "finish_reservation db job settle now = Inr (b, db')"
  shows "jobs_ok db'"
proof -
  obtain r where r: "get_job db (job_id job) = Some r" "job_status r = s"
      "job_settlement_status r = Some SET_RESERVED"
    and fits: "\<forall>j \<in> set (t_jobs db). job_id j \<noteq> job_id job \<longrightarrow> settlement_fits j"
    and log: "log_agrees db"
    using hand by (auto simp: in_hand_def)
  have dist: "distinct (map job_id (t_jobs db))" using log by (simp add: log_agrees_def)
  have mem: "r \<in> set (t_jobs db)" "job_id r = job_id job"
    using first_where_Some [OF r(1) [unfolded get_job_def]] by simp_all
  have cnt: "row_count (\<lambda>j. job_id j = job_id job \<and> job_settlement_status j = Some SET_RESERVED)
      (t_jobs db) = 1"
    using row_count_1_iff [where k = job_id and p = "\<lambda>j. job_id j = job_id job \<and>
      job_settlement_status j = Some SET_RESERVED", OF dist] mem r(3) by auto
  have b
    using fin res cnt
    by (auto simp: finish_reservation_def Let_def and_then_Inr_iff split: if_splits option.splits)
  with fin have "finish_reservation db job settle now = Inr (True, db')" by simp
  from finish_reservation_True [OF this dist]
  have "t_jobs db' = t_jobs (mark_finished db (job_id job) (finished_status settle))" by blast
  then have jobs: "t_jobs db' = update_where (\<lambda>j. job_id j = job_id job)
      (\<lambda>j. j\<lparr>job_settlement_status := Some (finished_status settle), job_updated_at := db_now db\<rparr>) (t_jobs db)"
    using mark_finished_key [OF dist mem(1) r(3)] mem(2) by simp
  have "log_agrees db'"
    by (rule log_agrees_cong [OF log])
      (simp_all add: jobs map_update_where_cong job_log_def finish_reservation_events [OF fin])
  moreover have "settlement_fits j" if "j \<in> set (t_jobs db')" for j
  proof -
    from that obtain x where x: "x \<in> set (t_jobs db)" "j = (if job_id x = job_id job
        then x\<lparr>job_settlement_status := Some (finished_status settle), job_updated_at := db_now db\<rparr> else x)"
      by (auto simp: jobs set_update_where)
    show ?thesis
    proof (cases "job_id x = job_id job")
      case True
      with key_unique [OF dist x(1) mem(1)] mem(2) have "x = r" by simp
      with x(2) True r(2) s show ?thesis by (simp add: settlement_fits_def)
    qed (use x fits in simp)
  qed
  ultimately show ?thesis by (simp add: jobs_ok_def)
qed

lemma in_hand_released:
  assumes "in_hand db (job_id job) s" and "job_settlement_status job = Some SET_RESERVED"
    and "expected_settlement s = Some SET_RELEASED" and "settle_released db job now = Inr db'"
  shows "jobs_ok db'"
  using assms(4) in_hand_finish [OF assms(1,2), of False now] assms(3)
  by (auto simp: settle_released_def finished_status_def and_then_Inr_iff)

lemma in_hand_succeeded:
  assumes "in_hand db (job_id job) JOB_SUCCEEDED" and "job_settlement_status job = Some SET_RESERVED"
    and "settle_succeeded db job now = Inr db'"
  shows "jobs_ok db'"
proof -
  obtain db1 b where s: "solidify_project_route db job now = Inr db1"
    and f: "finish_reservation db1 job True now = Inr (b, db')"
    using assms(3) by (auto simp: settle_succeeded_def and_then_Inr_iff)
  show ?thesis
    by (rule in_hand_finish [OF same_jobs_in_hand [OF same_jobs_solidify [OF s] assms(1)] assms(2) _ f])
      (simp add: finished_status_def)
qed

section \<open>The terminal transactions\<close>

lemma end_job_face [simp]: "job_face (end_job c m now j) = job_face j"
  by (simp add: end_job_def job_face_def)

lemma cancel_terminal_ok:
  assumes "jobs_ok db0" and "in_hand db (job_id job) (job_status job)"
    and "job_settlement_status job = Some SET_RESERVED"
    and "cancel_terminal db0 db job attempt now = Inr db'"
  shows "jobs_ok db'"
proof -
  obtain b1 db1 job1 where t1: "transition_job db job JOB_CANCELLED ''provider.cancelled''
      (job_key (job_id job) ''terminal-cancelled'') (JObj []) = (b1, db1, job1)"
    by (metis prod_cases3)
  obtain b2 db2 a2 where t2: "transition_attempt db1 attempt ATT_CANCELLED ''attempt.cancelled''
      (attempt_key (at_id attempt) ''terminal-cancelled'') (failure_payload USER_CANCELLED) = (b2, db2, a2)"
    by (metis prod_cases3)
  show ?thesis
  proof (cases "b1 \<and> b2")
    case False
    with assms(1,4) t1 t2 show ?thesis by (auto simp: cancel_terminal_def split: bool.splits)
  next
    case True
    with t1 have T1: "transition_job db job JOB_CANCELLED ''provider.cancelled''
      (job_key (job_id job) ''terminal-cancelled'') (JObj []) = (True, db1, job1)" by simp
    note o = transition_job_object [OF T1]
    have h2: "in_hand db2 (job_id job1) JOB_CANCELLED"
      using same_jobs_in_hand [OF same_jobs_transition_attempt [OF t2] in_hand_transition [OF assms(2) T1]] o
      by simp
    let ?db3 = "assign_job (assign_attempt db2 (at_id attempt) (end_attempt USER_CANCELLED now))
      (job_id job1) (end_job USER_CANCELLED None now)"
    have "same_jobs db2 ?db3"
      by (rule same_jobs_trans [OF same_jobs_assign_attempt same_jobs_assign_job]) simp
    from in_hand_released [OF same_jobs_in_hand [OF this h2]] show ?thesis
      using assms(3,4) t1 t2 True o by (simp add: cancel_terminal_def)
  qed
qed

lemma final_from_reserved:
  "JOB_FAILED_FINAL \<in> JOB_TRANSITIONS s \<Longrightarrow> expected_settlement s = Some SET_RESERVED"
  by (cases s) auto

text \<open>
  The ways a call of \<open>fail_attempt\<close> can end: nothing committed, the job cancelled, a retry
  created, the job failed.
\<close>

definition failed_status :: "provider_failure \<Rightarrow> attempt_status option \<Rightarrow> attempt_status" where
  "failed_status failure target = (case target of Some t \<Rightarrow> t
     | None \<Rightarrow> if is_retryable_failure (fl_code failure) then ATT_FAILED_RETRYABLE else ATT_FAILED_FINAL)"

definition snapshot_taken ::
  "database \<Rightarrow> generation_attempt \<Rightarrow> poll_result option \<Rightarrow> database \<Rightarrow> generation_attempt \<Rightarrow> bool" where
  "snapshot_taken db0 attempt0 result db attempt \<longleftrightarrow>
     (case result of None \<Rightarrow> Inr (db0, attempt0) | Some r \<Rightarrow> save_snapshot db0 attempt0 r) = Inr (db, attempt)"

definition attempt_failed ::
  "database \<Rightarrow> generation_attempt \<Rightarrow> provider_failure \<Rightarrow> attempt_status \<Rightarrow> time \<Rightarrow> database \<Rightarrow>
   generation_attempt \<Rightarrow> bool" where
  "attempt_failed db attempt failure to_status now db2 attempt1 \<longleftrightarrow>
     (\<exists>et k db1. transition_attempt db attempt to_status et k (failure_payload (fl_code failure)) =
        (True, db1, attempt1) \<and>
      db2 = assign_attempt db1 (at_id attempt1) (end_attempt (fl_code failure) now))"

lemma fail_attemptE:
  assumes "fail_attempt db0 context failure target result now = Inr (b, db')"
  obtains (nothing) "db' = db0" "\<not> b"
  | (cancelled) job attempt0 db attempt where "get_job db0 (ac_job_id context) = Some job"
      "get_attempt db0 (ac_attempt_id context) = Some attempt0"
      "snapshot_taken db0 attempt0 result db attempt" "job_status job = JOB_CANCEL_REQUESTED"
      "cancel_terminal db0 db job attempt now = Inr db'" "\<not> b"
  | (retried) job attempt0 db attempt db2 attempt1 where "get_job db0 (ac_job_id context) = Some job"
      "get_attempt db0 (ac_attempt_id context) = Some attempt0"
      "snapshot_taken db0 attempt0 result db attempt"
      "attempt_failed db attempt failure (failed_status failure target) now db2 attempt1"
      "is_retryable_failure (fl_code failure)" "allows_retry (attempt_budget db2 attempt1)"
      "create_retry db2 job attempt1 (fl_code failure) = Inr db'" b
  | (final) job attempt0 db attempt db2 attempt1 db3 job3 where
      "get_job db0 (ac_job_id context) = Some job"
      "get_attempt db0 (ac_attempt_id context) = Some attempt0"
      "snapshot_taken db0 attempt0 result db attempt"
      "attempt_failed db attempt failure (failed_status failure target) now db2 attempt1"
      "transition_job db2 job JOB_FAILED_FINAL ''provider.failed''
        (job_key (job_id job) ''terminal-failed'') (failure_payload (fl_code failure)) = (True, db3, job3)"
      "settle_released (assign_job db3 (job_id job3)
        (end_job (fl_code failure) (Some (fl_message failure)) now)) job3 now = Inr db'" "\<not> b"
proof (cases "\<exists>job attempt0. get_job db0 (ac_job_id context) = Some job \<and>
    get_attempt db0 (ac_attempt_id context) = Some attempt0")
  case False
  with assms that(1) show ?thesis by (auto simp: fail_attempt_def split: option.splits)
next
  case True
  then obtain job attempt0 where get: "get_job db0 (ac_job_id context) = Some job"
    "get_attempt db0 (ac_attempt_id context) = Some attempt0" by blast
  let ?code = "fl_code failure" and ?to = "failed_status failure target"
  obtain db attempt where snap: "snapshot_taken db0 attempt0 result db attempt"
    using assms by (auto simp: fail_attempt_def and_then_Inr_iff get snapshot_taken_def)
  show ?thesis
  proof (cases "job_status job = JOB_CANCEL_REQUESTED")
    case True
    with assms get snap that(2) [OF get snap] show ?thesis
      by (auto simp: fail_attempt_def and_then_Inr_iff snapshot_taken_def)
  next
    case False
    obtain b1 db1 attempt1 where t1: "transition_attempt db attempt ?to
        (if ?to = ATT_TIMED_OUT then ''attempt.timed_out'' else ''attempt.failed'')
        (attempt_key (at_id attempt) (''terminal-'' @ (if ?to = ATT_TIMED_OUT then ''timed-out'' else ''failed'')))
        (failure_payload ?code) = (b1, db1, attempt1)"
      by (metis prod_cases3)
    let ?db2 = "assign_attempt db1 (at_id attempt1) (end_attempt ?code now)"
    obtain b3 db3 job3 where t3: "transition_job ?db2 job JOB_FAILED_FINAL ''provider.failed''
        (job_key (job_id job) ''terminal-failed'') (failure_payload ?code) = (b3, db3, job3)"
      by (metis prod_cases3)
    have "(if \<not> b1 then Inr (False, db0)
       else if is_retryable_failure ?code \<and> allows_retry (attempt_budget ?db2 attempt1)
       then and_then (create_retry ?db2 job attempt1 ?code) (\<lambda>db. Inr (True, db))
       else if \<not> b3 then Inr (False, db0)
       else and_then (settle_released (assign_job db3 (job_id job3)
           (end_job ?code (Some (fl_message failure)) now)) job3 now) (\<lambda>db. Inr (False, db))) = Inr (b, db')"
      using assms snap False t1 t3 get
      by (auto simp: fail_attempt_def failed_status_def snapshot_taken_def Let_def split: bool.splits)
    moreover have "b1 \<Longrightarrow> attempt_failed db attempt failure ?to now ?db2 attempt1"
      using t1 by (auto simp: attempt_failed_def)
    ultimately show ?thesis
      using that(1) that(3) [OF get snap] that(4) [OF get snap] t3
      by (auto simp: and_then_Inr_iff split: if_splits)
  qed
qed

lemma same_jobs_snapshot: "snapshot_taken db0 a0 result db a \<Longrightarrow> same_jobs db0 db"
  by (auto simp: snapshot_taken_def split: option.splits dest: same_jobs_save_snapshot)

lemma same_jobs_attempt_failed: "attempt_failed db a failure t now db2 a1 \<Longrightarrow> same_jobs db db2"
  by (auto simp: attempt_failed_def intro: same_jobs_trans [OF same_jobs_transition_attempt])

lemma fail_attempt_ok:
  assumes ok: "jobs_ok db0" and "fail_attempt db0 context failure target result now = Inr (b, db')"
  shows "jobs_ok db'"
  using assms(2)
proof (cases rule: fail_attemptE)
  case nothing
  with ok show ?thesis by simp
next
  case (cancelled job attempt0 db attempt)
  from in_hand_enter [OF ok cancelled(1)] cancelled(4)
  have "in_hand db0 (job_id job) (job_status job)" "job_settlement_status job = Some SET_RESERVED"
    by auto
  from cancel_terminal_ok [OF ok same_jobs_in_hand [OF same_jobs_snapshot [OF cancelled(3)] this(1)]
      this(2) cancelled(5)] show ?thesis .
next
  case (retried job attempt0 db attempt db2 attempt1)
  from retried(3,4,7) have "same_jobs db0 db'"
    by (blast intro: same_jobs_trans same_jobs_snapshot same_jobs_attempt_failed same_jobs_create_retry)
  with ok show ?thesis by (rule same_jobs_ok [rotated])
next
  case (final job attempt0 db attempt db2 attempt1 db3 job3)
  note o = transition_job_object [OF final(5)]
  from in_hand_enter [OF ok final(1) final_from_reserved [OF transition_job_True(2) [OF final(5)]]]
  have h: "in_hand db0 (job_id job) (job_status job)" "job_settlement_status job = Some SET_RESERVED"
    by auto
  have "same_jobs db0 db2"
    using final(3,4) by (blast intro: same_jobs_trans same_jobs_snapshot same_jobs_attempt_failed)
  from in_hand_transition [OF same_jobs_in_hand [OF this h(1)] final(5)]
  have "in_hand db3 (job_id job3) JOB_FAILED_FINAL" using o by simp
  from in_hand_released [OF same_jobs_in_hand [OF same_jobs_assign_job [OF end_job_face] this]]
  show ?thesis using final(6) o h(2) by simp
qed

section \<open>Outputs and cancellations\<close>

lemma cancel_transaction_ok:
  assumes "jobs_ok db0" and "finish_cancelled db0 context result now = Inr db'"
  shows "jobs_ok db'"
proof (cases "\<exists>job attempt0. get_job db0 (ac_job_id context) = Some job \<and>
    get_attempt db0 (ac_attempt_id context) = Some attempt0")
  case False
  with assms show ?thesis by (auto simp: finish_cancelled_def split: option.splits)
next
  case True
  then obtain job attempt0 where get: "get_job db0 (ac_job_id context) = Some job"
    "get_attempt db0 (ac_attempt_id context) = Some attempt0" by blast
  with assms(2) obtain db attempt where snap: "save_snapshot db0 attempt0 result = Inr (db, attempt)"
    and rest: "(if job_status job \<notin> {JOB_ROUTING, JOB_SUBMITTED, JOB_RUNNING, JOB_CANCEL_REQUESTED}
          then Inr db0 else cancel_terminal db0 db job attempt now) = Inr db'"
    by (auto simp: finish_cancelled_def and_then_Inr_iff)
  show ?thesis
  proof (cases "job_status job \<in> {JOB_ROUTING, JOB_SUBMITTED, JOB_RUNNING, JOB_CANCEL_REQUESTED}")
    case False
    with rest assms(1) show ?thesis by simp
  next
    case True
    with in_hand_enter [OF assms(1) get(1)]
    have "in_hand db0 (job_id job) (job_status job)" "job_settlement_status job = Some SET_RESERVED"
      by auto
    from cancel_terminal_ok [OF assms(1) same_jobs_in_hand [OF same_jobs_save_snapshot [OF snap] this(1)] this(2)]
    show ?thesis using rest True by auto
  qed
qed

lemma commit_valid_ok:
  assumes "in_hand db (job_id job) (job_status job)" and "job_settlement_status job = Some SET_RESERVED"
    and "commit_valid db job attempt i now = Inr (Some db')"
  shows "jobs_ok db'"
proof -
  let ?db1 = "assign_job db (job_id job) (\<lambda>r. r\<lparr>job_final_output_id := Some i\<rparr>)"
  obtain db2 job2 db3 a3 where
    t: "transition_job ?db1 job JOB_SUCCEEDED ''provider.completed''
         (job_key (job_id job) ''terminal-succeeded'') (output_payload i) = (True, db2, job2)"
    and ta: "transition_attempt db2 attempt ATT_SUCCEEDED ''attempt.succeeded''
         (attempt_key (at_id attempt) ''terminal-succeeded'') (output_payload i) = (True, db3, a3)"
    and s: "settle_succeeded (assign_attempt (assign_job db3 (job_id job2) (\<lambda>r. r\<lparr>job_finished_at := Some now\<rparr>))
         (at_id attempt) (\<lambda>r. r\<lparr>at_finished_at := Some now\<rparr>)) job2 now = Inr db'"
    using assms(3)
    by (auto simp: commit_valid_def Let_def and_then_Inr_iff split: prod.splits bool.splits)
  note o = transition_job_object [OF t]
  have "in_hand ?db1 (job_id job) (job_status job)"
    by (rule same_jobs_in_hand [OF same_jobs_assign_job assms(1)]) (simp add: job_face_def)
  from in_hand_transition [OF this t] have "in_hand db2 (job_id job2) JOB_SUCCEEDED" using o by simp
  moreover have "same_jobs db2 (assign_attempt (assign_job db3 (job_id job2) (\<lambda>r. r\<lparr>job_finished_at := Some now\<rparr>))
      (at_id attempt) (\<lambda>r. r\<lparr>at_finished_at := Some now\<rparr>))"
    by (rule same_jobs_trans [OF same_jobs_transition_attempt [OF ta]
          same_jobs_trans [OF same_jobs_assign_job same_jobs_assign_attempt]]) (simp add: job_face_def)
  ultimately show ?thesis using in_hand_succeeded same_jobs_in_hand s o assms(2) by metis
qed

lemma commit_invalid_ok:
  assumes "in_hand db (job_id job) (job_status job)" and "job_settlement_status job = Some SET_RESERVED"
    and "commit_invalid db job attempt now = Inr (Some db')"
  shows "jobs_ok db'"
proof -
  let ?ended = "\<lambda>db job. assign_job (assign_attempt db (at_id attempt) (end_attempt OUTPUT_INVALID_MEDIA now))
      (job_id job) (end_job OUTPUT_INVALID_MEDIA (Some ''provider output is not a valid MP4'') now)"
  obtain db1 a1 db2 job2 where
    ta: "transition_attempt db attempt ATT_FAILED_FINAL ''attempt.failed''
         (attempt_key (at_id attempt) ''terminal-invalid-output'')
         (failure_payload OUTPUT_INVALID_MEDIA) = (True, db1, a1)"
    and t: "transition_job db1 job JOB_FAILED_FINAL ''output.invalid''
              (job_key (job_id job) ''terminal-invalid-output'')
              (failure_payload OUTPUT_INVALID_MEDIA) = (True, db2, job2)"
    and s: "settle_released (?ended db2 job2) job2 now = Inr db'"
    using assms(3)
    by (auto simp: commit_invalid_def and_then_Inr_iff split: prod.splits bool.splits)
  note o = transition_job_object [OF t]
  from in_hand_transition [OF same_jobs_in_hand [OF same_jobs_transition_attempt [OF ta] assms(1)] t]
  have "in_hand db2 (job_id job2) JOB_FAILED_FINAL" using o by simp
  moreover have "same_jobs db2 (?ended db2 job2)"
    by (rule same_jobs_trans [OF same_jobs_assign_attempt same_jobs_assign_job]) simp
  ultimately have "in_hand (?ended db2 job2) (job_id job2) JOB_FAILED_FINAL"
    by (rule same_jobs_in_hand [rotated])
  from in_hand_released [OF this _ _ s] show ?thesis using o assms(2) by simp
qed

text \<open>The ways a call of \<open>commit_output\<close> can end.\<close>

lemma commit_outputE:
  assumes "commit_output db0 context published result valid now = Inr (c, db')"
  obtains (discarded) "c = Discarded" "db' = db0"
  | (kept) job attempt0 db attempt db1 job1 i db2 db3 db4 job2 where "c = Kept"
      "get_job db0 (ac_job_id context) = Some job"
      "get_attempt db0 (ac_attempt_id context) = Some attempt0"
      "job_status job \<in> {JOB_RUNNING, JOB_CANCEL_REQUESTED}" "at_status attempt0 = ATT_RUNNING"
      "save_snapshot db0 attempt0 result = Inr (db, attempt)"
      "transition_job db job JOB_POSTPROCESSING ''output.postprocessing''
         (attempt_key (at_id attempt) ''postprocessing'') (JObj []) = (True, db1, job1)"
      "uuid4 db1 = (i, db2)"
      "insert_output db2 (new_output i (job_id job1) (at_id attempt) published valid) = Inr db3"
      "transition_job db3 job1 JOB_VALIDATING ''output.validating''
         (attempt_key (at_id attempt) ''validating'') (JObj []) = (True, db4, job2)"
      "(if valid then commit_valid db4 job2 attempt i now
        else commit_invalid db4 job2 attempt now) = Inr (Some db')"
proof (cases "\<exists>job attempt0. get_job db0 (ac_job_id context) = Some job \<and>
    get_attempt db0 (ac_attempt_id context) = Some attempt0 \<and>
    job_status job \<in> {JOB_RUNNING, JOB_CANCEL_REQUESTED} \<and> at_status attempt0 = ATT_RUNNING")
  case False
  with assms that(1) show ?thesis by (auto simp: commit_output_def split: option.splits if_splits)
next
  case True
  then obtain job attempt0 where get: "get_job db0 (ac_job_id context) = Some job"
    "get_attempt db0 (ac_attempt_id context) = Some attempt0"
    "job_status job \<in> {JOB_RUNNING, JOB_CANCEL_REQUESTED}" "at_status attempt0 = ATT_RUNNING" by blast
  then have guard: "\<not> (job_status job \<notin> {JOB_RUNNING, JOB_CANCEL_REQUESTED} \<or> at_status attempt0 \<noteq> ATT_RUNNING)"
    by simp
  obtain db attempt where snap: "save_snapshot db0 attempt0 result = Inr (db, attempt)"
    using assms unfolding commit_output_def get(1,2) option.case prod.case if_not_P [OF guard]
    by (auto simp: and_then_Inr_iff)
  obtain b1 db1 job1 where t1: "transition_job db job JOB_POSTPROCESSING ''output.postprocessing''
      (attempt_key (at_id attempt) ''postprocessing'') (JObj []) = (b1, db1, job1)"
    by (metis prod_cases3)
  obtain i db2 where u: "uuid4 db1 = (i, db2)" by fastforce
  note simps = commit_output_def get(1,2) option.case prod.case if_not_P [OF guard] snap and_then_simps t1 Let_def u
  show ?thesis
  proof (cases b1)
    case False
    with assms that(1) show ?thesis unfolding simps by simp
  next
    case True
    then have body: "and_then (insert_output db2 (new_output i (job_id job1) (at_id attempt) published valid))
        (\<lambda>db. case transition_job db job1 JOB_VALIDATING ''output.validating''
            (attempt_key (at_id attempt) ''validating'') (JObj []) of
          (False, _, _) \<Rightarrow> Inr (Discarded, db0)
        | (True, db, job) \<Rightarrow> and_then (if valid then commit_valid db job attempt i now
              else commit_invalid db job attempt now)
            (\<lambda>r. case r of None \<Rightarrow> Inr (Discarded, db0) | Some db \<Rightarrow> Inr (Kept, db))) = Inr (c, db')"
      using assms unfolding simps by simp
    obtain db3 where ins: "insert_output db2 (new_output i (job_id job1) (at_id attempt) published valid) = Inr db3"
      using body by (auto simp: and_then_Inr_iff)
    obtain b2 db4 job2 where t2: "transition_job db3 job1 JOB_VALIDATING ''output.validating''
            (attempt_key (at_id attempt) ''validating'') (JObj []) = (b2, db4, job2)"
      by (metis prod_cases3)
    consider "c = Discarded" "db' = db0"
      | "b2" "c = Kept" "(if valid then commit_valid db4 job2 attempt i now
        else commit_invalid db4 job2 attempt now) = Inr (Some db')"
      using body unfolding ins and_then_simps t2
      by (auto simp: and_then_Inr_iff split: bool.splits option.splits)
    then show ?thesis
    proof cases
      case 1
      then show ?thesis by (rule that(1))
    next
      case 2
      have T1: "transition_job db job JOB_POSTPROCESSING ''output.postprocessing''
          (attempt_key (at_id attempt) ''postprocessing'') (JObj []) = (True, db1, job1)"
        and T2: "transition_job db3 job1 JOB_VALIDATING ''output.validating''
          (attempt_key (at_id attempt) ''validating'') (JObj []) = (True, db4, job2)"
        using t1 t2 True 2(1) by simp_all
      show ?thesis by (rule that(2) [OF 2(2) get snap T1 u ins T2 2(3)])
    qed
  qed
qed

lemma commit_output_ok:
  assumes ok: "jobs_ok db0" and "commit_output db0 context published result valid now = Inr (c, db')"
  shows "jobs_ok db'"
  using assms(2)
proof (cases rule: commit_outputE)
  case discarded
  with ok show ?thesis by simp
next
  case (kept job attempt0 db attempt db1 job1 i db2 db3 db4 job2)
  from in_hand_enter [OF ok kept(2)] kept(4)
  have h: "in_hand db0 (job_id job) (job_status job)" "job_settlement_status job = Some SET_RESERVED"
    by auto
  note o1 = transition_job_object [OF kept(7)] and o2 = transition_job_object [OF kept(10)]
  have "in_hand db1 (job_id job1) (job_status job1)"
    using in_hand_transition [OF same_jobs_in_hand [OF same_jobs_save_snapshot [OF kept(6)] h(1)] kept(7)] o1
    by simp
  from same_jobs_in_hand [OF same_jobs_trans [OF same_jobs_uuid4 [OF kept(8)] same_jobs_insert_output [OF kept(9)]] this]
  have "in_hand db4 (job_id job2) (job_status job2)"
    using in_hand_transition [OF _ kept(10)] o2 by simp
  moreover have "job_settlement_status job2 = Some SET_RESERVED" using o1 o2 h(2) by simp
  ultimately show ?thesis
    using kept(11) commit_valid_ok commit_invalid_ok by (cases valid) simp_all
qed

section \<open>The submit handshake\<close>

text \<open>An object that shows its row's status, and what a transition between open statuses does.\<close>

definition fresh_object :: "database \<Rightarrow> generation_job \<Rightarrow> bool" where
  "fresh_object db job \<longleftrightarrow> (\<exists>r \<in> set (t_jobs db). job_id r = job_id job \<and> job_status r = job_status job)"

lemma fresh_object_same: "same_jobs db db' \<Longrightarrow> fresh_object db job \<Longrightarrow> fresh_object db' job"
  unfolding fresh_object_def
  by (metis same_jobs_row [OF same_jobs_sym] job_face_def prod.inject)

lemma fresh_object_get: "get_job db i = Some job \<Longrightarrow> fresh_object db job"
  unfolding get_job_def fresh_object_def by (auto dest: first_where_Some)

lemma quiet_transition:
  assumes ok: "jobs_ok db" and fresh: "fresh_object db job"
    and tr: "transition_job db job t et k pl = (b, db', job')"
    and open_from: "expected_settlement (job_status job) = Some SET_RESERVED"
    and open_to: "expected_settlement t = Some SET_RESERVED"
  shows "jobs_ok db' \<and> fresh_object db' job'"
proof -
  obtain r where r: "r \<in> set (t_jobs db)" "job_id r = job_id job" "job_status r = job_status job"
    using fresh by (auto simp: fresh_object_def)
  have dist: "distinct (map job_id (t_jobs db))" using ok by (simp add: jobs_ok_def log_agrees_def)
  have get: "get_job db (job_id job) = Some r"
    unfolding get_job_def by (rule first_where_key_eq [where k = job_id, OF dist r(1,2)])
  show ?thesis
  proof (cases b)
    case True
    with tr have T: "transition_job db job t et k pl = (True, db', job')" by simp
    have "in_hand db (job_id job) (job_status job)"
      using in_hand_enter [OF ok get] open_from r(3) by simp
    then have hand: "in_hand db' (job_id job) t" by (rule in_hand_transition [OF _ T])
    then have "fresh_object db' job'"
      using transition_job_object [OF T]
      by (auto simp: in_hand_def fresh_object_def get_job_def dest!: first_where_Some)
    with in_hand_leave [OF hand open_to] show ?thesis by simp
  next
    case False
    with tr have F: "transition_job db job t et k pl = (False, db', job')" by simp
    have "job_status job' = job_status job"
      using F r(3) by (auto simp: transition_job_def expire_job_status_def get Let_def split: if_splits)
    with transition_job_False [OF F] ok fresh show ?thesis by (simp add: fresh_object_def)
  qed
qed

lemma accept_job_ok:
  assumes "jobs_ok db" and "fresh_object db job" and "accept_job db job i p reconciled = (db', job')"
  shows "jobs_ok db' \<and> fresh_object db' job'"
proof (cases "job_status job = JOB_ROUTING")
  case True
  obtain b where "transition_job db job JOB_SUBMITTED
        (if reconciled then ''provider.reconciled'' else ''provider.submitted'')
        (attempt_key i ''job-submitted'') (JObj [(''provider_job_id'', JStr p)]) = (b, db', job')"
    using assms(3) True by (auto simp: accept_job_def) (metis prod.collapse)
  from quiet_transition [OF assms(1,2) this] show ?thesis using True by simp
qed (use assms in \<open>simp add: accept_job_def\<close>)

lemma transition_attempt_snd:
  "snd (transition_attempt db a t et k pl) = (db', a') \<Longrightarrow> same_jobs db db'"
  by (cases "transition_attempt db a t et k pl") (auto dest: same_jobs_transition_attempt)

lemma accept_attempt_same: "accept_attempt db a p r = (db', a') \<Longrightarrow> same_jobs db db'"
  by (auto simp: accept_attempt_def split: if_splits dest: transition_attempt_snd)

lemma start_attempt_same: "same_jobs db (start_attempt db a now)"
  by (auto simp: start_attempt_def Let_def split: prod.splits
      intro: same_jobs_trans [OF same_jobs_transition_attempt])

lemma start_job_ok:
  assumes "jobs_ok db" and "fresh_object db job"
  shows "jobs_ok (start_job db job i now)"
proof (cases "job_status job = JOB_SUBMITTED")
  case True
  obtain b db1 job1 where t: "transition_job db job JOB_RUNNING ''provider.started''
      (attempt_key i ''job-running'') (JObj []) = (b, db1, job1)"
    by (metis prod_cases3)
  have "jobs_ok db1" using quiet_transition [OF assms t] True by simp
  moreover have "same_jobs db1 (assign_job db1 (job_id job1)
      (\<lambda>r. r\<lparr>job_started_at := first_time (job_started_at job1) now\<rparr>))"
    by (rule same_jobs_assign_job) (simp add: job_face_def)
  ultimately show ?thesis using True t same_jobs_ok by (simp add: start_job_def)
qed (use assms in \<open>simp add: start_job_def\<close>)

lemma record_submit_accepted_ok:
  assumes "jobs_ok db" and "record_submit_accepted db context p reconciled now = Inr db'"
  shows "jobs_ok db'"
proof (cases "\<exists>job attempt. get_job db (ac_job_id context) = Some job \<and>
    get_attempt db (ac_attempt_id context) = Some attempt \<and>
    at_provider_job_id attempt \<in> {None, Some p}")
  case False
  with assms show ?thesis by (auto simp: record_submit_accepted_def split: option.splits if_splits)
next
  case True
  then obtain job attempt where get: "get_job db (ac_job_id context) = Some job"
    "get_attempt db (ac_attempt_id context) = Some attempt"
    "at_provider_job_id attempt \<in> {None, Some p}" by blast
  let ?set = "\<lambda>r. r\<lparr>at_provider_job_id := Some p\<rparr>"
  let ?db1 = "assign_attempt db (at_id attempt) ?set"
  obtain db2 job2 where j: "accept_job ?db1 job (at_id attempt) p reconciled = (db2, job2)" by fastforce
  obtain db3 attempt3 where a: "accept_attempt db2 (?set attempt) p reconciled = (db3, attempt3)" by fastforce
  have db': "db' = start_attempt (start_job db3 job2 (at_id attempt3) now) attempt3 now"
    using assms(2) get j a by (auto simp: record_submit_accepted_def Let_def split: if_splits)
  have "jobs_ok ?db1" "fresh_object ?db1 job"
    using same_jobs_ok [OF same_jobs_assign_attempt assms(1)]
      fresh_object_same [OF same_jobs_assign_attempt fresh_object_get [OF get(1)]] by auto
  from accept_job_ok [OF this j] have "jobs_ok db3" "fresh_object db3 job2"
    using same_jobs_ok [OF accept_attempt_same [OF a]] fresh_object_same [OF accept_attempt_same [OF a]]
    by auto
  from start_job_ok [OF this] show ?thesis unfolding db' by (rule same_jobs_ok [OF start_attempt_same])
qed

lemma start_submit_ok:
  assumes ok: "jobs_ok db" and s: "start_submit db context = (b, db')"
  shows "jobs_ok db'"
proof (cases "\<exists>job attempt. get_job db (ac_job_id context) = Some job \<and>
    get_attempt db (ac_attempt_id context) = Some attempt \<and> at_status attempt = ATT_CREATED")
  case False
  with assms show ?thesis by (auto simp: start_submit_def split: option.splits if_splits)
next
  case True
  then obtain job attempt where get: "get_job db (ac_job_id context) = Some job"
    "get_attempt db (ac_attempt_id context) = Some attempt" "at_status attempt = ATT_CREATED" by blast
  obtain routed db1 job1 where t: "(if job_status job = JOB_QUEUED
        then transition_job db job JOB_ROUTING ''job.routing'' (job_key (job_id job) ''routing'') (JObj [])
        else (True, db, job)) = (routed, db1, job1)"
    by (metis prod_cases3)
  obtain moved db2 a2 where a: "transition_attempt db1 attempt ATT_SUBMITTING ''attempt.submitting''
      (attempt_key (at_id attempt) ''submitting'') (JObj []) = (moved, db2, a2)"
    by (metis prod_cases3)
  have ok1: "jobs_ok db1"
  proof (cases "job_status job = JOB_QUEUED")
    case True
    with t quiet_transition [OF ok fresh_object_get [OF get(1)]] show ?thesis by fastforce
  qed (use t ok in simp)
  have "db' = db \<or> db' = db2"
    using s get t a by (auto simp: start_submit_def split: if_splits)
  then show ?thesis using ok same_jobs_ok [OF same_jobs_transition_attempt [OF a] ok1] by auto
qed

lemma same_state_event_same: "same_jobs db (add_same_state_event db a et k)"
  by (simp add: add_same_state_event_def same_jobs_def job_log_def)

lemma submit_unknown_same: "same_jobs db (record_submit_unknown db context)"
  by (simp add: record_submit_unknown_def same_state_event_same split: option.split)

lemma reconcile_pending_same: "same_jobs db (record_reconcile_pending db context)"
  by (simp add: record_reconcile_pending_def same_state_event_same split: option.split)

lemma reserve_poll_same: "reserve_poll_at fmt p db0 db i now = (r, db') \<Longrightarrow> same_jobs db db'"
  by (auto simp: reserve_poll_at_def same_jobs_def job_log_def poll_event_def Let_def
      split: option.splits if_splits)

end
