(* ===== verification/AttemptsInv.thy ===== *)
theory AttemptsInv
  imports ProviderInv
begin

text \<open>
  The attempts of a job under the transactions of the pipeline: an attempt only grows, its
  terminal status and its snapshot are final, and a job has at most two attempts of which at
  most one is still live.
\<close>

section \<open>What an attempt never loses\<close>

text \<open>
  \<open>attempt_grows a a'\<close>: the row \<open>a'\<close> is a later state of \<open>a\<close>. What identifies the attempt is the
  same, every field of the snapshot that was set still has its value, and a terminal status
  is final.
\<close>

definition keeps :: "'a option \<Rightarrow> 'a option \<Rightarrow> bool" where
  "keeps x y \<longleftrightarrow> x = None \<or> y = x"

definition attempt_grows :: "generation_attempt \<Rightarrow> generation_attempt \<Rightarrow> bool" where
  "attempt_grows a b \<longleftrightarrow> at_id b = at_id a \<and> at_job_id b = at_job_id a \<and>
     at_attempt_no b = at_attempt_no a \<and> at_provider_endpoint_id b = at_provider_endpoint_id a \<and>
     at_provider_code b = at_provider_code a \<and> at_workflow_version b = at_workflow_version a \<and>
     keeps (at_provider_job_id a) (at_provider_job_id b) \<and>
     keeps (at_worker_version a) (at_worker_version b) \<and>
     keeps (at_image_digest a) (at_image_digest b) \<and>
     keeps (at_worker_commit a) (at_worker_commit b) \<and>
     keeps (at_comfyui_version a) (at_comfyui_version b) \<and>
     keeps (at_comfyui_commit a) (at_comfyui_commit b) \<and>
     keeps (at_workflow_hash a) (at_workflow_hash b) \<and>
     keeps (map_option set (at_model_hashes a)) (map_option set (at_model_hashes b)) \<and>
     keeps (at_gpu_type a) (at_gpu_type b) \<and> keeps (at_queue_ms a) (at_queue_ms b) \<and>
     keeps (at_cold_start_ms a) (at_cold_start_ms b) \<and>
     keeps (at_runtime_ms a) (at_runtime_ms b) \<and> keeps (at_billable_ms a) (at_billable_ms b) \<and>
     keeps (at_raw_metrics a) (at_raw_metrics b) \<and> keeps (at_cost_minor a) (at_cost_minor b) \<and>
     keeps (at_cost_currency a) (at_cost_currency b) \<and>
     keeps (at_cost_source a) (at_cost_source b) \<and>
     (at_status a \<in> ATTEMPT_TERMINAL_STATUSES \<longrightarrow> at_status b = at_status a)"

lemma keeps_refl [simp]: "keeps x x"
  by (simp add: keeps_def)

lemma keeps_trans: "keeps x y \<Longrightarrow> keeps y z \<Longrightarrow> keeps x z"
  by (auto simp: keeps_def)

lemma attempt_grows_refl [simp]: "attempt_grows a a"
  by (simp add: attempt_grows_def)

lemma attempt_grows_trans: "attempt_grows a b \<Longrightarrow> attempt_grows b c \<Longrightarrow> attempt_grows a c"
  unfolding attempt_grows_def by (elim conjE, intro conjI) (auto intro: keeps_trans)

text \<open>Taking a snapshot only adds to it.\<close>

lemma set_once_Inr:
  "set_once name g s v a = Inr b \<longleftrightarrow> b = s v a \<and> keeps (g a) (Some v)"
  by (auto simp: set_once_def keeps_def split: option.splits)

lemma version_fields_grow:
  "f \<in> set (version_fields x) \<Longrightarrow> f a = Inr b \<Longrightarrow> attempt_grows a b \<and> at_status b = at_status a"
  unfolding version_fields_def list.set insert_iff empty_iff
  by (elim disjE; simp only: set_once_Inr; simp add: attempt_grows_def)

lemma metric_fields_grow:
  "f \<in> set (metric_fields x) \<Longrightarrow> f a = Inr b \<Longrightarrow> attempt_grows a b \<and> at_status b = at_status a"
  unfolding metric_fields_def list.set insert_iff empty_iff
  by (elim disjE; simp only: set_once_Inr; simp add: attempt_grows_def)

lemma cost_fields_grow:
  "f \<in> set (cost_fields x) \<Longrightarrow> f a = Inr b \<Longrightarrow> attempt_grows a b \<and> at_status b = at_status a"
  unfolding cost_fields_def list.set insert_iff empty_iff
  by (elim disjE; simp only: set_once_Inr; simp add: attempt_grows_def)

lemma run_all_grow:
  assumes "\<And>f a b. f \<in> set fs \<Longrightarrow> f a = Inr b \<Longrightarrow> attempt_grows a b \<and> at_status b = at_status a"
    and "run_all (\<lambda>a set_field. set_field a) a fs = Inr b"
  shows "attempt_grows a b \<and> at_status b = at_status a"
  using assms
proof (induction fs arbitrary: a)
  case (Cons f fs)
  from Cons.prems(2) obtain c where "f a = Inr c" "run_all (\<lambda>a set_field. set_field a) c fs = Inr b"
    by (auto simp: and_then_Inr_iff)
  moreover have "attempt_grows c b \<and> at_status b = at_status c"
    by (rule Cons.IH) (use Cons.prems(1) calculation(2) in auto)
  ultimately show ?case
    using Cons.prems(1) [of f a c] attempt_grows_trans [of a c b] by simp
qed simp

lemma apply_snapshot_grows:
  assumes "apply_attempt_snapshot a result = Inr b"
  shows "attempt_grows a b \<and> at_status b = at_status a"
proof (rule run_all_grow)
  show "run_all (\<lambda>a set_field. set_field a) a
      (optional version_fields (pl_versions result) @ optional metric_fields (pl_metrics result) @
       optional cost_fields (pl_cost result)) = Inr b"
    using assms by (simp add: apply_attempt_snapshot_def split: if_splits)
next
  fix f a b
  assume "f \<in> set (optional version_fields (pl_versions result) @
      optional metric_fields (pl_metrics result) @ optional cost_fields (pl_cost result))" "f a = Inr b"
  then show "attempt_grows a b \<and> at_status b = at_status a"
    by (auto simp: optional_def split: option.splits
        dest: version_fields_grow metric_fields_grow cost_fields_grow)
qed

section \<open>The attempts of a job\<close>

definition attempts_grow :: "database \<Rightarrow> database \<Rightarrow> bool" where
  "attempts_grow db db' \<longleftrightarrow> list_all2 attempt_grows (t_attempts db) (t_attempts db')"

lemma attempts_grow_same [intro]: "t_attempts db' = t_attempts db \<Longrightarrow> attempts_grow db db'"
  by (simp add: attempts_grow_def list_all2_same)

lemma attempts_grow_trans: "attempts_grow a b \<Longrightarrow> attempts_grow b c \<Longrightarrow> attempts_grow a c"
  unfolding attempts_grow_def by (rule list_all2_trans) (rule attempt_grows_trans)

lemma attempts_grow_update:
  "t_attempts db' = update_where p f (t_attempts db) \<Longrightarrow>
   (\<And>r. r \<in> set (t_attempts db) \<Longrightarrow> p r \<Longrightarrow> attempt_grows r (f r)) \<Longrightarrow> attempts_grow db db'"
  by (simp add: attempts_grow_def update_where_def list_all2_map2 list_all2_same)

text \<open>Only fields that are not part of \<open>attempt_grows\<close> differ.\<close>

lemma attempt_grows_touch [simp]: "attempt_grows a (b\<lparr>at_updated_at := t\<rparr>) = attempt_grows a b"
  by (simp add: attempt_grows_def)

lemma attempts_grow_assign:
  "(\<And>r. attempt_grows r (f r)) \<Longrightarrow> attempts_grow db (assign_attempt db i f)"
  by (rule attempts_grow_update, rule assign_attempt_simps(1)) simp

lemma attempt_row:
  assumes "distinct (map at_id (t_attempts db))" and "get_attempt db i = Some a"
    and "r \<in> set (t_attempts db)" and "at_id r = i"
  shows "r = a"
  using key_unique [where k = at_id, OF assms(1,3)]
    first_where_Some [OF assms(2) [unfolded get_attempt_def]] assms(4) by metis

lemma attempts_grow_write:
  assumes "distinct (map at_id (t_attempts db))" and "get_attempt db i = Some a" and "attempt_grows a (f a)"
  shows "attempts_grow db (assign_attempt db i f)"
  by (rule attempts_grow_update, rule assign_attempt_simps(1))
    (use attempt_row [OF assms(1,2)] assms(3) in auto)

lemma attempts_grow_transition:
  assumes "transition_attempt db a t et k pl = (b, db', a')"
  shows "attempts_grow db db'"
proof (cases b)
  case True
  with assms have T: "transition_attempt db a t et k pl = (True, db', a')" by simp
  have "at_status a \<notin> ATTEMPT_TERMINAL_STATUSES"
    using transition_attempt_True(2) [OF T] by (auto simp: ATTEMPT_TERMINAL_STATUSES_def)
  moreover have "t_attempts db' = update_where (\<lambda>r. at_id r = at_id a \<and> at_status r = at_status a)
      (\<lambda>r. r\<lparr>at_status := t, at_updated_at := db_now db\<rparr>) (t_attempts db)"
    using transition_attempt_True(4) [OF T] by simp
  ultimately show ?thesis by (elim attempts_grow_update) (simp add: attempt_grows_def)
next
  case False
  with assms transition_attempt_False(1) have "db' = db" by simp
  then show ?thesis by auto
qed

text \<open>
  Attempts of a job: unique ids, all on the job's one candidate, at most two, and at most one
  that has not ended.
\<close>

definition live :: "generation_attempt \<Rightarrow> bool" where
  "live a \<longleftrightarrow> at_status a \<notin> ATTEMPT_TERMINAL_STATUSES"

definition attempts_of :: "database \<Rightarrow> uuid \<Rightarrow> generation_attempt list" where
  "attempts_of db job = filter (\<lambda>a. at_job_id a = job) (t_attempts db)"

definition same_candidate :: "generation_attempt \<Rightarrow> generation_attempt \<Rightarrow> bool" where
  "same_candidate a b \<longleftrightarrow> at_provider_endpoint_id a = at_provider_endpoint_id b \<and>
     at_provider_code a = at_provider_code b"

definition attempts_ok :: "database \<Rightarrow> bool" where
  "attempts_ok db \<longleftrightarrow> distinct (map at_id (t_attempts db)) \<and>
     (\<forall>a \<in> set (t_attempts db). \<exists>b \<in> set (t_attempts db).
        at_job_id b = at_job_id a \<and> at_attempt_no b = 1) \<and>
     (\<forall>job. length (attempts_of db job) \<le> MAX_ATTEMPTS_PER_CANDIDATE \<and>
       (\<forall>a \<in> set (attempts_of db job). \<forall>b \<in> set (attempts_of db job).
          same_candidate a b \<and> (live a \<longrightarrow> live b \<longrightarrow> at_id a = at_id b)))"

lemma attempt_growsD:
  assumes "attempt_grows a b"
  shows "at_id b = at_id a" and "at_job_id b = at_job_id a" and "live b \<Longrightarrow> live a"
    and "same_candidate a b"
  using assms by (auto simp: attempt_grows_def live_def same_candidate_def)

lemma attempts_okD:
  assumes "attempts_ok db" and "a \<in> set (t_attempts db)" and "b \<in> set (t_attempts db)"
    and "at_job_id a = at_job_id b"
  shows "same_candidate a b" and "live a \<Longrightarrow> live b \<Longrightarrow> at_id a = at_id b"
proof -
  have "a \<in> set (attempts_of db (at_job_id b))" "b \<in> set (attempts_of db (at_job_id b))"
    using assms(2-4) by (simp_all add: attempts_of_def)
  then show "same_candidate a b" and "live a \<Longrightarrow> live b \<Longrightarrow> at_id a = at_id b"
    using assms(1) unfolding attempts_ok_def by blast+
qed

lemma attempts_growE:
  assumes "attempts_grow db db'" and "b \<in> set (t_attempts db')"
  obtains a where "a \<in> set (t_attempts db)" and "attempt_grows a b"
proof -
  obtain i where "i < length (t_attempts db')" "b = t_attempts db' ! i"
    using assms(2) by (auto simp: in_set_conv_nth)
  with assms(1) that [of "t_attempts db ! i"] show ?thesis
    by (simp add: attempts_grow_def list_all2_conv_all_nth)
qed

lemma attempts_grow_ids:
  assumes "attempts_grow db db'"
  shows "map at_id (t_attempts db') = map at_id (t_attempts db)"
    and "length (attempts_of db' job) = length (attempts_of db job)"
proof -
  have 1: "map at_id ys = map at_id xs \<and> length (filter (\<lambda>a. at_job_id a = job) ys) =
      length (filter (\<lambda>a. at_job_id a = job) xs)" if "list_all2 attempt_grows xs ys" for xs ys
    using that by induction (simp_all add: attempt_growsD)
  from 1 [OF assms [unfolded attempts_grow_def]]
  show "map at_id (t_attempts db') = map at_id (t_attempts db)"
    and "length (attempts_of db' job) = length (attempts_of db job)"
    by (simp_all add: attempts_of_def)
qed

lemma attempts_grow_ok:
  assumes "attempts_grow db db'" and ok: "attempts_ok db"
  shows "attempts_ok db'"
  unfolding attempts_ok_def
proof (intro conjI allI ballI impI)
  show "distinct (map at_id (t_attempts db'))"
    using ok attempts_grow_ids(1) [OF assms(1)] by (simp add: attempts_ok_def)
  show "\<exists>b \<in> set (t_attempts db'). at_job_id b = at_job_id a \<and> at_attempt_no b = 1"
    if a: "a \<in> set (t_attempts db')" for a
  proof -
    obtain a0 where a0: "a0 \<in> set (t_attempts db)" "attempt_grows a0 a"
      by (rule attempts_growE [OF assms(1) a])
    then obtain b0 where b0: "b0 \<in> set (t_attempts db)" "at_job_id b0 = at_job_id a0" "at_attempt_no b0 = 1"
      using ok unfolding attempts_ok_def by blast
    then obtain b where b: "b \<in> set (t_attempts db')" "attempt_grows b0 b"
      using assms(1) unfolding attempts_grow_def list_all2_conv_all_nth by (metis in_set_conv_nth)
    with a0 b0 show ?thesis by (intro bexI [OF _ b(1)]) (simp add: attempt_grows_def)
  qed
  fix job
  show "length (attempts_of db' job) \<le> MAX_ATTEMPTS_PER_CANDIDATE"
    using ok attempts_grow_ids(2) [OF assms(1)] by (simp add: attempts_ok_def)
  fix a b assume ab: "a \<in> set (attempts_of db' job)" "b \<in> set (attempts_of db' job)"
  then obtain a0 b0 where a0: "a0 \<in> set (t_attempts db)" "attempt_grows a0 a"
    and b0: "b0 \<in> set (t_attempts db)" "attempt_grows b0 b" and j: "at_job_id a = job" "at_job_id b = job"
    by (auto simp: attempts_of_def elim!: attempts_growE [OF assms(1)])
  note D = attempts_okD [OF ok a0(1) b0(1)] attempt_growsD [OF a0(2)] attempt_growsD [OF b0(2)] j
  show "same_candidate a b" using D by (simp add: same_candidate_def)
  show "at_id a = at_id b" if "live a" "live b" using D that by simp
qed

section \<open>Every operation lets the attempts grow\<close>

lemma attempts_transition_job:
  "transition_job db job t et k pl = (b, db', job') \<Longrightarrow> t_attempts db' = t_attempts db"
  by (auto simp: transition_job_def Let_def split: if_splits)

lemma attempts_settle_released: "settle_released db job now = Inr db' \<Longrightarrow> t_attempts db' = t_attempts db"
  by (auto simp: settle_released_def and_then_Inr_iff dest: finish_reservation_events)

lemma attempts_solidify: "solidify_project_route db job now = Inr db' \<Longrightarrow> t_attempts db' = t_attempts db"
  by (auto simp: solidify_project_route_def assign_project_def split: option.splits if_splits)

lemma attempts_settle_succeeded: "settle_succeeded db job now = Inr db' \<Longrightarrow> t_attempts db' = t_attempts db"
  by (auto simp: settle_succeeded_def and_then_Inr_iff dest!: attempts_solidify finish_reservation_events)

lemma attempts_insert_output: "insert_output db x = Inr db' \<Longrightarrow> t_attempts db' = t_attempts db"
  by (auto simp: insert_output_def split: if_splits)

lemma attempts_uuid4: "uuid4 db = (i, db') \<Longrightarrow> t_attempts db' = t_attempts db"
  by (auto simp: uuid4_def)

lemma grow_save_snapshot:
  assumes ok: "distinct (map at_id (t_attempts db))" and get: "get_attempt db i = Some a"
    and "save_snapshot db a result = Inr (db', a')"
  shows "attempts_grow db db' \<and> attempt_grows a a' \<and> at_status a' = at_status a"
proof -
  have "apply_attempt_snapshot a result = Inr a'" and db': "db' = assign_attempt db (at_id a) (\<lambda>_. a')"
    using assms(3) by (auto simp: save_snapshot_def and_then_Inr_iff split: if_splits)
  then have g: "attempt_grows a a' \<and> at_status a' = at_status a" using apply_snapshot_grows by simp
  have "at_id a = i" using first_where_Some [OF get [unfolded get_attempt_def]] by simp
  with get have "attempts_grow db (assign_attempt db (at_id a) (\<lambda>_. a'))"
    using attempts_grow_write [OF ok, of i a "\<lambda>_. a'"] g by simp
  with g db' show ?thesis by simp
qed

lemma grow_snapshot:
  assumes "distinct (map at_id (t_attempts db0))" and "get_attempt db0 i = Some a0"
    and "snapshot_taken db0 a0 result db a"
  shows "attempts_grow db0 db \<and> attempt_grows a0 a \<and> at_status a = at_status a0"
  using assms grow_save_snapshot [OF assms(1,2)]
  by (cases result) (auto simp: snapshot_taken_def)

lemma end_attempt_grows [simp]: "attempt_grows r (end_attempt c now r)"
  by (simp add: end_attempt_def attempt_grows_def)

lemma grow_cancel_terminal:
  assumes "attempts_grow db0 db" and "cancel_terminal db0 db job attempt now = Inr db'"
  shows "attempts_grow db0 db'"
proof -
  obtain b1 db1 job1 where t1: "transition_job db job JOB_CANCELLED ''provider.cancelled''
      (job_key (job_id job) ''terminal-cancelled'') (JObj []) = (b1, db1, job1)"
    by (metis prod_cases3)
  obtain b2 db2 a2 where t2: "transition_attempt db1 attempt ATT_CANCELLED ''attempt.cancelled''
      (attempt_key (at_id attempt) ''terminal-cancelled'') (failure_payload USER_CANCELLED) = (b2, db2, a2)"
    by (metis prod_cases3)
  let ?db3 = "assign_job (assign_attempt db2 (at_id attempt) (end_attempt USER_CANCELLED now))
      (job_id job1) (end_job USER_CANCELLED None now)"
  have "attempts_grow db0 db1"
    using assms(1) attempts_transition_job [OF t1] by (auto simp: attempts_grow_def)
  then have "attempts_grow db0 db2"
    by (rule attempts_grow_trans) (rule attempts_grow_transition [OF t2])
  then have "attempts_grow db0 (assign_attempt db2 (at_id attempt) (end_attempt USER_CANCELLED now))"
    by (rule attempts_grow_trans) (simp add: attempts_grow_assign)
  then have g3: "attempts_grow db0 ?db3" by (simp add: attempts_grow_def)
  show ?thesis
  proof (cases "b1 \<and> b2")
    case True
    then have "settle_released ?db3 job1 now = Inr db'" using assms(2) t1 t2 by (simp add: cancel_terminal_def)
    with g3 attempts_settle_released show ?thesis by (simp add: attempts_grow_def)
  qed (use assms t1 t2 in \<open>auto simp: cancel_terminal_def split: bool.splits\<close>)
qed

lemma grow_attempt_failed:
  assumes "attempt_failed db a failure t now db2 a1"
  shows "attempts_grow db db2 \<and> a1 = a\<lparr>at_status := t\<rparr>"
proof -
  obtain et k db1 where t: "transition_attempt db a t et k (failure_payload (fl_code failure)) = (True, db1, a1)"
    and db2: "db2 = assign_attempt db1 (at_id a1) (end_attempt (fl_code failure) now)"
    using assms by (auto simp: attempt_failed_def)
  show ?thesis
    using attempts_grow_trans [OF attempts_grow_transition [OF t] attempts_grow_assign [OF end_attempt_grows]]
      transition_attempt_True(5) [OF t] by (simp add: db2)
qed

lemma grow_commit_valid:
  assumes "commit_valid db job attempt i now = Inr (Some db')"
  shows "attempts_grow db db'"
proof -
  obtain db1 job1 db2 a2 where
    t: "transition_job (assign_job db (job_id job) (\<lambda>r. r\<lparr>job_final_output_id := Some i\<rparr>)) job
        JOB_SUCCEEDED ''provider.completed'' (job_key (job_id job) ''terminal-succeeded'')
        (output_payload i) = (True, db1, job1)"
    and a: "transition_attempt db1 attempt ATT_SUCCEEDED ''attempt.succeeded''
        (attempt_key (at_id attempt) ''terminal-succeeded'') (output_payload i) = (True, db2, a2)"
    and s: "settle_succeeded (assign_attempt (assign_job db2 (job_id job1)
        (\<lambda>r. r\<lparr>job_finished_at := Some now\<rparr>)) (at_id attempt) (\<lambda>r. r\<lparr>at_finished_at := Some now\<rparr>)) job1 now
        = Inr db'"
    using assms
    by (auto simp: commit_valid_def and_then_Inr_iff Let_def split: prod.splits bool.splits)
  have "attempts_grow db db1" using attempts_transition_job [OF t] by auto
  from attempts_grow_trans [OF this attempts_grow_transition [OF a]]
  have "attempts_grow db (assign_job db2 (job_id job1) (\<lambda>r. r\<lparr>job_finished_at := Some now\<rparr>))"
    by (simp add: attempts_grow_def)
  from attempts_grow_trans [OF this attempts_grow_assign] show ?thesis
    using attempts_settle_succeeded [OF s] by (simp add: attempts_grow_def attempt_grows_def)
qed

lemma grow_commit_invalid:
  assumes "commit_invalid db job attempt now = Inr (Some db')"
  shows "attempts_grow db db'"
proof -
  obtain db1 a1 db2 job2 where
    ta: "transition_attempt db attempt ATT_FAILED_FINAL ''attempt.failed''
         (attempt_key (at_id attempt) ''terminal-invalid-output'')
         (failure_payload OUTPUT_INVALID_MEDIA) = (True, db1, a1)"
    and t: "transition_job db1 job JOB_FAILED_FINAL ''output.invalid''
              (job_key (job_id job) ''terminal-invalid-output'')
              (failure_payload OUTPUT_INVALID_MEDIA) = (True, db2, job2)"
    and s: "settle_released (assign_job (assign_attempt db2 (at_id attempt) (end_attempt OUTPUT_INVALID_MEDIA now))
      (job_id job2) (end_job OUTPUT_INVALID_MEDIA (Some ''provider output is not a valid MP4'') now)) job2 now = Inr db'"
    using assms by (auto simp: commit_invalid_def and_then_Inr_iff split: prod.splits bool.splits)
  have "attempts_grow db db2"
    using attempts_grow_transition [OF ta] attempts_transition_job [OF t] by (simp add: attempts_grow_def)
  from attempts_grow_trans [OF this attempts_grow_assign [OF end_attempt_grows]] show ?thesis
    using attempts_settle_released [OF s] by (simp add: attempts_grow_def)
qed

lemma grow_commit_output:
  assumes ok: "distinct (map at_id (t_attempts db0))"
    and "commit_output db0 context published result valid now = Inr (c, db')"
  shows "attempts_grow db0 db'"
  using assms(2)
proof (cases rule: commit_outputE)
  case (kept job attempt0 db attempt db1 job1 i db2 db3 db4 job2)
  have "attempts_grow db0 db4"
    using grow_save_snapshot [OF ok kept(3,6)] attempts_transition_job [OF kept(7)]
      attempts_uuid4 [OF kept(8)] attempts_insert_output [OF kept(9)] attempts_transition_job [OF kept(10)]
    by (simp add: attempts_grow_def)
  moreover have "attempts_grow db4 db'"
    using kept(11) grow_commit_valid grow_commit_invalid by (cases valid) auto
  ultimately show ?thesis by (rule attempts_grow_trans)
qed auto

lemma grow_finish_cancelled:
  assumes ok: "distinct (map at_id (t_attempts db0))"
    and "finish_cancelled db0 context result now = Inr db'"
  shows "attempts_grow db0 db'"
proof (cases "\<exists>job attempt0. get_job db0 (ac_job_id context) = Some job \<and>
    get_attempt db0 (ac_attempt_id context) = Some attempt0")
  case False
  with assms show ?thesis by (auto simp: finish_cancelled_def split: option.splits)
next
  case True
  then obtain job attempt0 where get: "get_job db0 (ac_job_id context) = Some job"
    "get_attempt db0 (ac_attempt_id context) = Some attempt0" by blast
  with assms(2) obtain db attempt where snap: "save_snapshot db0 attempt0 result = Inr (db, attempt)"
    and rest: "db' = db0 \<or> cancel_terminal db0 db job attempt now = Inr db'"
    by (auto simp: finish_cancelled_def and_then_Inr_iff split: if_splits)
  then show ?thesis using grow_cancel_terminal grow_save_snapshot [OF ok get(2) snap] by auto
qed

section \<open>The submit handshake\<close>

lemma attempts_accept_job: "accept_job db job i p r = (db', job') \<Longrightarrow> t_attempts db' = t_attempts db"
  by (cases "transition_job db job JOB_SUBMITTED
      (if r then ''provider.reconciled'' else ''provider.submitted'') (attempt_key i ''job-submitted'')
      (JObj [(''provider_job_id'', JStr p)])")
    (auto simp: accept_job_def split: if_splits dest!: attempts_transition_job)

lemma grow_accept_attempt: "accept_attempt db a p r = (db', a') \<Longrightarrow> attempts_grow db db'"
  by (cases "transition_attempt db a ATT_SUBMITTED
      (if r then ''attempt.reconciled'' else ''attempt.submitted'') (attempt_key (at_id a) ''submitted'')
      (JObj [(''provider_job_id'', JStr p)])")
    (auto simp: accept_attempt_def split: if_splits intro: attempts_grow_transition)

lemma attempts_start_job: "t_attempts (start_job db job i now) = t_attempts db"
  by (cases "transition_job db job JOB_RUNNING ''provider.started'' (attempt_key i ''job-running'') (JObj [])")
    (auto simp: start_job_def dest: attempts_transition_job)

lemma grow_start_attempt: "attempts_grow db (start_attempt db a now)"
proof (cases "transition_attempt db a ATT_RUNNING ''attempt.running'' (attempt_key (at_id a) ''running'') (JObj [])")
  case (fields b db1 a1)
  have "attempts_grow db1 (assign_attempt db1 (at_id a1)
      (\<lambda>r. r\<lparr>at_started_at := first_time (at_started_at a1) now\<rparr>))"
    by (rule attempts_grow_assign) (simp add: attempt_grows_def)
  with attempts_grow_trans [OF attempts_grow_transition [OF fields]] show ?thesis
    by (auto simp: start_attempt_def fields)
qed

lemma grow_submit_accepted:
  assumes ok: "distinct (map at_id (t_attempts db))"
    and "record_submit_accepted db context p reconciled now = Inr db'"
  shows "attempts_grow db db'"
proof (cases "\<exists>job attempt. get_job db (ac_job_id context) = Some job \<and>
    get_attempt db (ac_attempt_id context) = Some attempt \<and>
    at_provider_job_id attempt \<in> {None, Some p}")
  case False
  with assms show ?thesis by (auto simp: record_submit_accepted_def split: option.splits if_splits)
next
  case True
  then obtain job attempt where get: "get_job db (ac_job_id context) = Some job"
    "get_attempt db (ac_attempt_id context) = Some attempt"
    "at_provider_job_id attempt \<in> {None, Some p}" by blast
  let ?set = "\<lambda>r. r\<lparr>at_provider_job_id := Some p\<rparr>"
  let ?db1 = "assign_attempt db (at_id attempt) ?set"
  obtain db2 job2 where j: "accept_job ?db1 job (at_id attempt) p reconciled = (db2, job2)" by fastforce
  obtain db3 attempt3 where a: "accept_attempt db2 (?set attempt) p reconciled = (db3, attempt3)" by fastforce
  have db': "db' = start_attempt (start_job db3 job2 (at_id attempt3) now) attempt3 now"
    using assms(2) get j a by (auto simp: record_submit_accepted_def Let_def split: if_splits)
  have "at_id attempt = ac_attempt_id context"
    using first_where_Some [OF get(2) [unfolded get_attempt_def]] by simp
  moreover have "attempt_grows attempt (?set attempt)"
    using get(3) by (auto simp: attempt_grows_def keeps_def)
  ultimately have "attempts_grow db ?db1"
    using attempts_grow_write [OF ok get(2), of ?set] by simp
  then have "attempts_grow db db2" using attempts_accept_job [OF j] by (simp add: attempts_grow_def)
  from attempts_grow_trans [OF this grow_accept_attempt [OF a]]
  have "attempts_grow db (start_job db3 job2 (at_id attempt3) now)"
    by (simp add: attempts_grow_def attempts_start_job)
  from attempts_grow_trans [OF this grow_start_attempt] show ?thesis by (simp add: db')
qed

lemma grow_start_submit: "attempts_grow db (snd (start_submit db context))"
proof (cases "\<exists>job attempt. get_job db (ac_job_id context) = Some job \<and>
    get_attempt db (ac_attempt_id context) = Some attempt \<and> at_status attempt = ATT_CREATED")
  case False
  then show ?thesis by (auto simp: start_submit_def split: option.splits if_splits)
next
  case True
  then obtain job attempt where get: "get_job db (ac_job_id context) = Some job"
    "get_attempt db (ac_attempt_id context) = Some attempt" "at_status attempt = ATT_CREATED" by blast
  obtain routed db1 job1 where t: "(if job_status job = JOB_QUEUED
        then transition_job db job JOB_ROUTING ''job.routing'' (job_key (job_id job) ''routing'') (JObj [])
        else (True, db, job)) = (routed, db1, job1)"
    by (metis prod_cases3)
  obtain moved db2 a2 where a: "transition_attempt db1 attempt ATT_SUBMITTING ''attempt.submitting''
      (attempt_key (at_id attempt) ''submitting'') (JObj []) = (moved, db2, a2)"
    by (metis prod_cases3)
  have "t_attempts db1 = t_attempts db" using t by (auto split: if_splits dest: attempts_transition_job)
  then have "attempts_grow db db2" using attempts_grow_transition [OF a] by (simp add: attempts_grow_def)
  then show ?thesis using get t a by (auto simp: start_submit_def)
qed

section \<open>A retry\<close>

text \<open>The attempt that failed was the live one of its job, and no live one is left.\<close>

lemma attempt_failed_ends:
  assumes ok: "attempts_ok db" and "attempt_failed db a failure t now db2 a1"
    and t: "t \<in> ATTEMPT_TERMINAL_STATUSES"
    and own: "\<And>x. x \<in> set (t_attempts db) \<Longrightarrow> at_id x = at_id a \<Longrightarrow> at_job_id x = j"
    and r: "r \<in> set (t_attempts db2)" "at_job_id r = j"
  shows "\<not> live r"
proof
  assume "live r"
  obtain et k db1 where tr: "transition_attempt db a t et k (failure_payload (fl_code failure)) = (True, db1, a1)"
    and db2: "db2 = assign_attempt db1 (at_id a1) (end_attempt (fl_code failure) now)"
    using assms(2) by (auto simp: attempt_failed_def)
  obtain x where x: "x \<in> set (t_attempts db)" "at_id x = at_id a" "at_status x = at_status a"
  proof -
    have "row_count (\<lambda>r. at_id r = at_id a \<and> at_status r = at_status a) (t_attempts db) \<noteq> 0"
      using transition_attempt_True(3) [OF tr] by simp
    then show ?thesis using that unfolding row_count_0 by blast
  qed
  have ids: "distinct (map at_id (t_attempts db))" using ok by (simp add: attempts_ok_def)
  obtain r1 where r1: "r1 \<in> set (t_attempts db1)" "at_status r1 = at_status r" "at_id r1 = at_id r"
    using r(1) by (auto simp: db2 set_update_where end_attempt_def split: if_splits)
  obtain r0 where r0: "r0 \<in> set (t_attempts db)" "attempt_grows r0 r"
    by (rule attempts_growE [OF _ r(1)]) (use grow_attempt_failed [OF assms(2)] in blast)+
  have "at_status a \<notin> ATTEMPT_TERMINAL_STATUSES"
    using transition_attempt_True(2) [OF tr] attempt_sm.terminal_iff by blast
  then have "at_id r0 = at_id x"
    using attempts_okD(2) [OF ok r0(1) x(1)] attempt_growsD(2,3) [OF r0(2)] r(2) own [OF x(1,2)] x(3) \<open>live r\<close>
    by (simp add: live_def)
  then have "at_id r1 = at_id a" using attempt_growsD(1) [OF r0(2)] r1(3) x(2) by simp
  moreover obtain y where y: "y \<in> set (t_attempts db)" "r1 = (if at_id y = at_id a \<and> at_status y = at_status a
      then y\<lparr>at_status := t, at_updated_at := db_now db\<rparr> else y)"
    using r1(1) by (auto simp: transition_attempt_True(4) [OF tr] set_update_where)
  ultimately have "at_id y = at_id x" using x(2) by (simp split: if_splits)
  then have "y = x" by (rule key_unique [where k = at_id, OF ids y(1) x(1)])
  with y(2) x have "at_status r1 = t" by simp
  with r1(2) t \<open>live r\<close> show False by (simp add: live_def)
qed

text \<open>The rows after a run: every attempt is still there, grown.\<close>

definition attempts_follow :: "database \<Rightarrow> database \<Rightarrow> bool" where
  "attempts_follow db db' \<longleftrightarrow>
     (\<forall>a \<in> set (t_attempts db). \<exists>b \<in> set (t_attempts db'). attempt_grows a b)"

lemma attempts_follow_refl: "attempts_follow db db"
  by (auto simp: attempts_follow_def intro: attempt_grows_refl)

lemma attempts_follow_trans: "attempts_follow a b \<Longrightarrow> attempts_follow b c \<Longrightarrow> attempts_follow a c"
  unfolding attempts_follow_def by (blast intro: attempt_grows_trans)

lemma attempts_grow_follow:
  assumes "attempts_grow db db'"
  shows "attempts_follow db db'"
  unfolding attempts_follow_def
proof
  fix a assume "a \<in> set (t_attempts db)"
  then obtain i where "i < length (t_attempts db)" "a = t_attempts db ! i"
    by (auto simp: in_set_conv_nth)
  with assms have "i < length (t_attempts db')" "attempt_grows a (t_attempts db' ! i)"
    by (auto simp: attempts_grow_def list_all2_conv_all_nth)
  then show "\<exists>b \<in> set (t_attempts db'). attempt_grows a b" by (metis nth_mem)
qed

lemma create_retry_rows:
  assumes "create_retry db job a code = Inr db'"
  obtains i where "t_attempts db' = t_attempts db @ [retry_attempt i (db_now db) job a]"
    and "\<forall>r \<in> set (t_attempts db). at_id r \<noteq> i"
proof -
  obtain i db1 where u: "uuid4 db = (i, db1)" by fastforce
  then have "t_attempts db1 = t_attempts db" "db_now db1 = db_now db" by (auto simp: uuid4_def)
  with assms u that [of i] show ?thesis
    by (auto simp: create_retry_def insert_attempt_def insert_event_def and_then_Inr_iff
        retry_attempt_def split: if_splits)
qed

lemma row_count_all:
  "(\<And>r. r \<in> set t \<Longrightarrow> p r \<Longrightarrow> q r) \<Longrightarrow> row_count (\<lambda>r. p r \<and> q r) t = row_count p t"
  unfolding row_count_def by (metis (mono_tags, lifting) filter_cong)

lemma budget_total:
  assumes ok: "attempts_ok db" and a: "a0 \<in> set (t_attempts db)" "same_candidate a0 a" "at_job_id a0 = at_job_id a"
  shows "bu_candidate_attempts (attempt_budget db a) = length (attempts_of db (at_job_id a))"
proof -
  have "same_candidate r a" if "r \<in> set (t_attempts db)" "at_job_id r = at_job_id a" for r
    using attempts_okD(1) [OF ok that(1) a(1)] that(2) a(2,3) by (simp add: same_candidate_def)
  then show ?thesis
    unfolding attempt_budget_def Let_def
    by (simp add: row_count_all same_candidate_def attempts_of_def row_count_def [symmetric])
qed

lemma attempts_ok_snoc:
  assumes ok: "attempts_ok db" and rows: "t_attempts db' = t_attempts db @ [new]"
    and ids: "\<forall>r \<in> set (t_attempts db). at_id r \<noteq> at_id new"
    and small: "length (attempts_of db (at_job_id new)) < MAX_ATTEMPTS_PER_CANDIDATE"
    and others: "\<And>r. r \<in> set (t_attempts db) \<Longrightarrow> at_job_id r = at_job_id new \<Longrightarrow>
      same_candidate r new \<and> \<not> live r"
    and first: "at_attempt_no new = 1 \<or> (\<exists>r \<in> set (t_attempts db). at_job_id r = at_job_id new)"
  shows "attempts_ok db'"
proof -
  have ids': "distinct (map at_id (t_attempts db))" using ok by (simp add: attempts_ok_def)
  have count: "length (attempts_of db j) \<le> MAX_ATTEMPTS_PER_CANDIDATE" for j
    using ok by (simp add: attempts_ok_def)
  have pair: "same_candidate x y \<and> (live x \<longrightarrow> live y \<longrightarrow> at_id x = at_id y)"
    if "x \<in> insert new (set (t_attempts db))" "y \<in> insert new (set (t_attempts db))"
      "at_job_id x = at_job_id y" for x y
  proof (cases "x = new"; cases "y = new")
    assume "x \<noteq> new" "y \<noteq> new"
    with that attempts_okD [OF ok, of x y] show ?thesis by simp
  next
    assume "x = new" "y \<noteq> new"
    with that others [of y] show ?thesis by (simp add: same_candidate_def)
  next
    assume "x \<noteq> new" "y = new"
    with that others [of x] show ?thesis by simp
  qed (simp add: same_candidate_def)
  have after: "attempts_of db' j = attempts_of db j @ (if at_job_id new = j then [new] else [])" for j
    by (simp add: attempts_of_def rows)
  show ?thesis
    unfolding attempts_ok_def
  proof (intro conjI allI)
    show "distinct (map at_id (t_attempts db'))" using ids ids' by (auto simp: rows)
    have old: "\<forall>a \<in> set (t_attempts db). \<exists>b \<in> set (t_attempts db).
        at_job_id b = at_job_id a \<and> at_attempt_no b = 1"
      using ok unfolding attempts_ok_def by blast
    with first show "\<forall>a \<in> set (t_attempts db'). \<exists>b \<in> set (t_attempts db').
        at_job_id b = at_job_id a \<and> at_attempt_no b = 1"
      by (auto simp: rows)
    fix j
    show "length (attempts_of db' j) \<le> MAX_ATTEMPTS_PER_CANDIDATE"
      using count [of j] small by (auto simp: after)
    have "set (attempts_of db' j) \<subseteq> {x \<in> insert new (set (t_attempts db)). at_job_id x = j}"
      by (auto simp: rows attempts_of_def split: if_splits)
    with pair show "\<forall>a \<in> set (attempts_of db' j). \<forall>b \<in> set (attempts_of db' j).
        same_candidate a b \<and> (live a \<longrightarrow> live b \<longrightarrow> at_id a = at_id b)"
      by blast
  qed
qed

lemma retry_ok:
  assumes ok: "attempts_ok db" and f: "attempt_failed db a failure t now db2 a1"
    and t: "t \<in> ATTEMPT_TERMINAL_STATUSES" and a: "a0 \<in> set (t_attempts db)" "at_id a = at_id a0" "at_job_id a = at_job_id a0"
      "same_candidate a0 a"
    and "at_job_id a = job_id job" and budget: "allows_retry (attempt_budget db2 a1)"
    and retry: "create_retry db2 job a1 code = Inr db'"
  shows "attempts_ok db' \<and> attempts_follow db db'"
proof -
  let ?j = "job_id job"
  have g: "attempts_grow db db2" and a1: "a1 = a\<lparr>at_status := t\<rparr>" using grow_attempt_failed [OF f] by auto
  have ok2: "attempts_ok db2" by (rule attempts_grow_ok [OF g ok])
  have ids: "distinct (map at_id (t_attempts db))" using ok by (simp add: attempts_ok_def)
  have own: "at_job_id x = ?j" if "x \<in> set (t_attempts db)" "at_id x = at_id a" for x
    using key_unique [where k = at_id, OF ids that(1) a(1)] that(2) a(2,3) assms(8) by simp
  note dead = attempt_failed_ends [OF ok f t own]
  obtain a2 where a2: "a2 \<in> set (t_attempts db2)" "attempt_grows a0 a2"
    using attempts_grow_follow [OF g] a(1) by (auto simp: attempts_follow_def)
  have cand: "same_candidate a2 a1" "at_job_id a2 = at_job_id a1" "at_job_id a1 = ?j"
    using attempt_growsD [OF a2(2)] a assms(8) by (auto simp: a1 same_candidate_def)
  have small: "length (attempts_of db2 ?j) < MAX_ATTEMPTS_PER_CANDIDATE"
    using budget budget_total [OF ok2 a2(1) cand(1,2)] cand(3) by (simp add: allows_retry_def)
  obtain i where rows: "t_attempts db' = t_attempts db2 @ [retry_attempt i (db_now db2) job a1]"
    and new: "\<forall>r \<in> set (t_attempts db2). at_id r \<noteq> i"
    by (rule create_retry_rows [OF retry])
  define new where "new = retry_attempt i (db_now db2) job a1"
  note rows = rows [folded new_def]
  have n: "at_id new = i" "at_job_id new = ?j" "same_candidate new a1"
    by (simp_all add: new_def retry_attempt_def same_candidate_def)
  have sc: "same_candidate r new" if "r \<in> set (t_attempts db2)" "at_job_id r = ?j" for r
    using attempts_okD(1) [OF ok2 that(1) a2(1)] that(2) cand n(3) by (simp add: same_candidate_def)
  have "attempts_ok db'"
    by (rule attempts_ok_snoc [OF ok2 rows]) (use new n small sc dead a2(1) cand(2,3) in auto)
  moreover have "attempts_follow db2 db'"
    by (auto simp: attempts_follow_def rows intro: attempt_grows_refl)
  ultimately show ?thesis using attempts_follow_trans [OF attempts_grow_follow [OF g]] by blast
qed

text \<open>\<open>fail_attempt\<close> on a context that names an attempt of its job.\<close>

definition context_owned :: "database \<Rightarrow> attempt_context \<Rightarrow> bool" where
  "context_owned db c \<longleftrightarrow> (case get_attempt db (ac_attempt_id c) of
     None \<Rightarrow> True | Some a \<Rightarrow> at_job_id a = ac_job_id c)"

lemma fail_attempt_attempts:
  assumes ok: "attempts_ok db0" and own: "context_owned db0 context"
    and "fail_attempt db0 context failure target result now = Inr (b, db')"
    and t: "failed_status failure target \<in> ATTEMPT_TERMINAL_STATUSES"
  shows "attempts_ok db' \<and> attempts_follow db0 db'"
proof -
  have ids: "distinct (map at_id (t_attempts db0))" using ok by (simp add: attempts_ok_def)
  have fin: ?thesis if "attempts_grow db0 db'"
    using attempts_grow_ok [OF that ok] attempts_grow_follow [OF that] by simp
  from assms(3) show ?thesis
  proof (cases rule: fail_attemptE)
    case nothing
    then show ?thesis by (intro fin) auto
  next
    case (cancelled job attempt0 db attempt)
    from grow_snapshot [OF ids cancelled(2,3)] have "attempts_grow db0 db" by simp
    from grow_cancel_terminal [OF this cancelled(5)] show ?thesis by (rule fin)
  next
    case (final job attempt0 db attempt db2 attempt1 db3 job3)
    have "attempts_grow db0 db2"
      using attempts_grow_trans grow_snapshot [OF ids final(2,3)] grow_attempt_failed [OF final(4)] by blast
    then show ?thesis
      using attempts_transition_job [OF final(5)] attempts_settle_released [OF final(6)]
      by (intro fin) (simp add: attempts_grow_def)
  next
    case (retried job attempt0 db attempt db2 attempt1)
    note s = grow_snapshot [OF ids retried(2,3)]
    have mem: "attempt0 \<in> set (t_attempts db0)" "job_id job = ac_job_id context"
      using first_where_Some [OF retried(2) [unfolded get_attempt_def]]
        first_where_Some [OF retried(1) [unfolded get_job_def]] by auto
    have ok1: "attempts_ok db" using attempts_grow_ok [OF _ ok] s by blast
    have j: "at_job_id attempt = job_id job"
      using own retried(2) s mem(2) attempt_growsD(2) [of attempt0 attempt] by (simp add: context_owned_def)
    obtain a0 where a0: "a0 \<in> set (t_attempts db)" "attempt_grows attempt0 a0"
      using attempts_grow_follow s mem(1) unfolding attempts_follow_def by blast
    have "at_id attempt = at_id a0" "at_job_id attempt = at_job_id a0" "same_candidate a0 attempt"
      using attempt_growsD [OF a0(2)] attempt_growsD [of attempt0 attempt] s
      by (simp_all add: same_candidate_def)
    from retry_ok [OF ok1 retried(4) t a0(1) this j retried(6,7)] attempts_grow_follow s show ?thesis
      using attempts_follow_trans by blast
  qed
qed

end
