(* ===== verification/Base64.thy ===== *)
theory Base64
  imports Prelude
begin

text \<open>
  URL-safe base64 without padding, the encoding of claims (\<open>_b64encode\<close> and \<open>_b64decode\<close> of
  apps/api/app/storage.py and routing.py). A byte is a \<open>char\<close>. The decoder of the standard
  library ignores the unused low bits of the last digit; the code then encodes again and
  refuses a text that does not come back, so every byte string has one accepted text.
\<close>

section \<open>Encoding\<close>

definition b64_alphabet :: string where
  "b64_alphabet = ''ABCDEFGHIJKLMNOPQRSTUVWXYZabcdefghijklmnopqrstuvwxyz0123456789-_''"

definition b64_char :: "nat \<Rightarrow> char" where
  "b64_char n = b64_alphabet ! (n mod 64)"

definition byte_val :: "char \<Rightarrow> nat" where
  "byte_val c = of_char c"

fun b64_encode :: "string \<Rightarrow> string" where
  "b64_encode [] = []"
| "b64_encode [a] =
     (let n = byte_val a * 16 in [b64_char (n div 64), b64_char n])"
| "b64_encode [a, b] =
     (let n = (byte_val a * 256 + byte_val b) * 4 in
      [b64_char (n div 4096), b64_char (n div 64), b64_char n])"
| "b64_encode (a # b # c # s) =
     (let n = (byte_val a * 256 + byte_val b) * 256 + byte_val c in
      b64_char (n div 262144) # b64_char (n div 4096) # b64_char (n div 64) # b64_char n #
      b64_encode s)"

section \<open>Decoding\<close>

definition b64_digit :: "char \<Rightarrow> nat option" where
  "b64_digit c =
     (case List.find (\<lambda>n. b64_alphabet ! n = c) [0..<64] of
        Some n \<Rightarrow> Some n
      | None \<Rightarrow> if c = CHR ''+'' then Some 62 else if c = CHR ''/'' then Some 63 else None)"

definition byte_of :: "nat \<Rightarrow> char" where
  "byte_of n = char_of (n mod 256)"

text \<open>\<^verbatim>\<open>base64.b64decode(value + padding, altchars=b"-_", validate=True)\<close>.\<close>

fun b64_digits :: "nat list \<Rightarrow> string option" where
  "b64_digits [] = Some []"
| "b64_digits [_] = None"
| "b64_digits [p, q] = Some [byte_of ((p * 64 + q) div 16)]"
| "b64_digits [p, q, r] =
     (let n = (p * 64 + q) * 64 + r in Some [byte_of (n div 1024), byte_of (n div 4)])"
| "b64_digits (p # q # r # t # ds) =
     (let n = ((p * 64 + q) * 64 + r) * 64 + t in
      map_option (\<lambda>s. byte_of (n div 65536) # byte_of (n div 256) # byte_of n # s) (b64_digits ds))"

fun digits_of :: "string \<Rightarrow> nat list option" where
  "digits_of [] = Some []"
| "digits_of (c # s) =
     (case (b64_digit c, digits_of s) of (Some d, Some ds) \<Rightarrow> Some (d # ds) | _ \<Rightarrow> None)"

definition b64_decode :: "string \<Rightarrow> string option" where
  "b64_decode value =
     (case Option.bind (digits_of value) b64_digits of
        None \<Rightarrow> None
      | Some decoded \<Rightarrow> if b64_encode decoded \<noteq> value then None else Some decoded)"

section \<open>The round trip\<close>

lemma byte_val_less: "byte_val c < 256"
  by (simp add: byte_val_def of_char_def)

lemma byte_of_val: "byte_of (byte_val c) = c"
  using byte_val_less [of c] by (simp add: byte_of_def byte_val_def)

lemma b64_alphabet_distinct: "distinct b64_alphabet \<and> length b64_alphabet = 64"
  by (simp add: b64_alphabet_def)

lemma b64_digit_less:
  assumes "n < 64"
  shows "b64_digit (b64_alphabet ! n) = Some n"
proof -
  have "List.find (\<lambda>m. b64_alphabet ! m = b64_alphabet ! n) [0..<64] = Some n"
    using assms b64_alphabet_distinct
    by (auto simp: find_Some_iff nth_eq_iff_index_eq intro!: exI [of _ n])
  then show ?thesis by (simp add: b64_digit_def)
qed

lemma b64_digit_char [simp]: "b64_digit (b64_char n) = Some (n mod 64)"
  by (simp add: b64_char_def b64_digit_less)

lemma two_digits: "n < 4096 \<Longrightarrow> n div 64 mod 64 * 64 + n mod 64 = (n::nat)"
  using div_mult_mod_eq [of n 64] by simp

lemma three_digits:
  assumes "n < 262144"
  shows "(n div 4096 mod 64 * 64 + n div 64 mod 64) * 64 + n mod 64 = (n::nat)"
proof -
  have "n div 4096 = n div 64 div 64" by (simp only: div_mult2_eq [symmetric]) simp
  moreover have "n div 64 < 4096" using assms by simp
  ultimately show ?thesis using two_digits [of "n div 64"] by (simp only:) (rule div_mult_mod_eq)
qed

lemma four_digits:
  assumes "n < 16777216"
  shows "((n div 262144 mod 64 * 64 + n div 4096 mod 64) * 64 + n div 64 mod 64) * 64 + n mod 64 = (n::nat)"
proof -
  have "n div 262144 = n div 64 div 4096" "n div 4096 = n div 64 div 64"
    by (simp_all only: div_mult2_eq [symmetric]) simp_all
  moreover have "n div 64 < 262144" using assms by simp
  ultimately show ?thesis using three_digits [of "n div 64"] by (simp only:) (rule div_mult_mod_eq)
qed

lemma byte_of_shift [simp]: "byte_of (m * 256 + byte_val c) = c"
  using byte_of_val [of c] by (simp add: byte_of_def)

text \<open>What the bytes of a group read back from the number its digits spell.\<close>

lemma group_bytes:
  assumes "n = (byte_val a * 256 + byte_val b) * 256 + byte_val c"
  shows "n < 16777216" and "n div 65536 = byte_val a" and "n div 256 = byte_val a * 256 + byte_val b"
  using byte_val_less [of a] byte_val_less [of b] byte_val_less [of c] by (simp_all add: assms)

lemma pair_bytes:
  assumes "n = (byte_val a * 256 + byte_val b) * 4"
  shows "n < 262144" and "n div 1024 = byte_val a" and "n div 4 = byte_val a * 256 + byte_val b"
  using byte_val_less [of a] byte_val_less [of b] by (simp_all add: assms)

lemma digits_of_encode:
  "\<exists>ds. digits_of (b64_encode s) = Some ds \<and> b64_digits ds = Some s"
proof (induction s rule: b64_encode.induct)
  case (2 a)
  define n where "n = byte_val a * 16"
  have "n < 4096" "n div 16 = byte_val a" using byte_val_less [of a] by (simp_all add: n_def)
  then have "b64_digits [n div 64 mod 64, n mod 64] = Some [a]"
    by (simp only: b64_digits.simps two_digits byte_of_val)
  moreover have "b64_encode [a] = [b64_char (n div 64), b64_char n]"
    by (simp only: b64_encode.simps Let_def n_def)
  ultimately show ?case by (simp del: b64_digits.simps b64_encode.simps)
next
  case (3 a b)
  define n where "n = (byte_val a * 256 + byte_val b) * 4"
  note n = pair_bytes [OF n_def]
  have "b64_digits [n div 4096 mod 64, n div 64 mod 64, n mod 64] = Some [a, b]"
    by (simp only: b64_digits.simps Let_def three_digits [OF n(1)] n(2,3) byte_of_val byte_of_shift)
  moreover have "b64_encode [a, b] = [b64_char (n div 4096), b64_char (n div 64), b64_char n]"
    by (simp only: b64_encode.simps Let_def n_def)
  ultimately show ?case by (simp del: b64_digits.simps b64_encode.simps)
next
  case (4 a b c s)
  define n where "n = (byte_val a * 256 + byte_val b) * 256 + byte_val c"
  note n = group_bytes [OF n_def]
  have c: "byte_of n = c" unfolding n_def by (rule byte_of_shift)
  from 4 obtain ds where "digits_of (b64_encode s) = Some ds" "b64_digits ds = Some s" by blast
  moreover from this(2) have "b64_digits (n div 262144 mod 64 # n div 4096 mod 64 #
      n div 64 mod 64 # n mod 64 # ds) = Some (a # b # c # s)"
    by (simp only: b64_digits.simps Let_def four_digits [OF n(1)] n(2,3) c byte_of_val byte_of_shift
        option.map)
  moreover have "b64_encode (a # b # c # s) = b64_char (n div 262144) # b64_char (n div 4096) #
      b64_char (n div 64) # b64_char n # b64_encode s"
    by (simp only: b64_encode.simps Let_def n_def)
  ultimately show ?case by (simp del: b64_digits.simps b64_encode.simps)
qed simp

lemma b64_char_in: "b64_char n \<in> set b64_alphabet"
  by (simp add: b64_char_def b64_alphabet_distinct)

lemma b64_encode_alphabet: "set (b64_encode s) \<subseteq> set b64_alphabet"
  by (induction s rule: b64_encode.induct) (auto simp: Let_def b64_char_in)

text \<open>
  The encoding of claims is a bijection onto the texts that are accepted: whatever is accepted is
  the one encoding of what it decodes to, so a claim cannot be respelled without being refused.
\<close>

lemma b64_round_trip_fact: "b64_decode v = Some s \<longleftrightarrow> v = b64_encode s"
proof
  assume "v = b64_encode s"
  with digits_of_encode [of s] show "b64_decode v = Some s" by (auto simp: b64_decode_def)
qed (auto simp: b64_decode_def split: option.splits if_splits)

lemma b64_decode_encode [simp]: "b64_decode (b64_encode s) = Some s"
  by (simp add: b64_round_trip_fact)

end
