(* ===== verification/Claims.thy ===== *)
theory Claims
  imports Base64 Storage Routing Idempotency Receipt
begin

text \<open>
  Signed claims: the claims of the object store (\<open>_ClaimCodec\<close> and the claiming storage of
  apps/api/app/storage.py) and the callback claims bound to one submission
  (\<open>CallbackClaimIssuer\<close> of routing.py). \<open>mac secret text\<close> is HMAC-SHA256, \<open>loads\<close> is
  \<^verbatim>\<open>json.loads\<close> (None when it raises); texts in claims are ASCII, so \<open>canonical\<close> is their
  \<^verbatim>\<open>json.dumps\<close>. The clock is the argument \<open>now\<close>.
\<close>

section \<open>Texts and members\<close>

text \<open>\<open>token.split(".", 1)\<close> into two.\<close>

definition split_dot :: "string \<Rightarrow> (string \<times> string) option" where
  "split_dot s = (if CHR ''.'' \<in> set s
     then Some (takeWhile (\<lambda>c. c \<noteq> CHR ''.'') s, tl (dropWhile (\<lambda>c. c \<noteq> CHR ''.'') s))
     else None)"

definition member :: "json \<Rightarrow> string \<Rightarrow> json option" where
  "member payload name = (case payload of JObj ms \<Rightarrow> map_of (rev ms) name | _ \<Rightarrow> None)"

text \<open>A bool is an int to Python.\<close>

definition py_int :: "json \<Rightarrow> int option" where
  "py_int j = (case j of JInt i \<Rightarrow> Some i | JBool b \<Rightarrow> Some (if b then 1 else 0) | _ \<Rightarrow> None)"

definition py_str :: "json \<Rightarrow> string option" where
  "py_str j = (case j of JStr s \<Rightarrow> Some s | _ \<Rightarrow> None)"

definition int_member :: "json \<Rightarrow> string \<Rightarrow> int option" where
  "int_member payload name = Option.bind (member payload name) py_int"

definition text_member :: "json \<Rightarrow> string \<Rightarrow> string option" where
  "text_member payload name = Option.bind (member payload name) py_str"

text \<open>\<open>int(t.timestamp())\<close>, for instants after the epoch.\<close>

definition timestamp :: "time \<Rightarrow> int" where
  "timestamp t = t div 1000000"

definition MAX_CLAIM_TTL :: timedelta where
  "MAX_CLAIM_TTL = minutes 15"

section \<open>Claims of the object store\<close>

datatype claim_operation = OP_READ | OP_WRITE

fun claim_operation_value :: "claim_operation \<Rightarrow> string" where
  "claim_operation_value OP_READ = ''READ''"
| "claim_operation_value OP_WRITE = ''WRITE''"

definition claim_operation_of :: "string \<Rightarrow> claim_operation option" where
  "claim_operation_of v = List.find (\<lambda>p. claim_operation_value p = v) [OP_READ, OP_WRITE]"

record storage_claim =
  sc_token :: string
  sc_object_key :: string
  sc_operation :: claim_operation
  sc_expires_at :: time

record claim_codec =
  cc_secret :: string
  cc_mac :: "string \<Rightarrow> string \<Rightarrow> string"
  cc_loads :: "string \<Rightarrow> json option"

definition claim_codec_check :: "claim_codec \<Rightarrow> error + claim_codec" where
  "claim_codec_check codec =
     (if length (cc_secret codec) < 32
      then Inl (ValueError ''storage claim secret must contain at least 32 bytes'') else Inr codec)"

definition claim_body ::
  "claim_operation \<Rightarrow> string \<Rightarrow> int \<Rightarrow> string option \<Rightarrow> int option \<Rightarrow> json" where
  "claim_body operation key expires mime_type max_bytes = JObj
     ([(''v'', JInt 1), (''op'', JStr (claim_operation_value operation)), (''key'', JStr key),
       (''exp'', JInt expires)] @
      (case mime_type of None \<Rightarrow> [] | Some m \<Rightarrow> [(''mime_type'', JStr m)]) @
      (case max_bytes of None \<Rightarrow> [] | Some n \<Rightarrow> [(''max_bytes'', JInt n)]))"

definition signed_text :: "claim_codec \<Rightarrow> string \<Rightarrow> string" where
  "signed_text codec encoded =
     encoded @ CHR ''.'' # b64_encode (cc_mac codec (cc_secret codec) encoded)"

definition issue_claim ::
  "claim_codec \<Rightarrow> claim_operation \<Rightarrow> string \<Rightarrow> timedelta \<Rightarrow> string option \<Rightarrow> int option \<Rightarrow> time \<Rightarrow>
   error + storage_claim" where
  "issue_claim codec operation key expires_in mime_type max_bytes now =
     (if expires_in \<le> 0 \<or> expires_in > MAX_CLAIM_TTL
      then Inl (ValueError ''storage claim TTL must be between 1 second and 15 minutes'')
      else
        let expires_at = now + expires_in in
        and_then (valid_object_key key) (\<lambda>checked.
          Inr \<lparr>sc_token = signed_text codec (b64_encode (canonical
                 (claim_body operation checked (timestamp expires_at) mime_type max_bytes))),
               sc_object_key = key, sc_operation = operation, sc_expires_at = expires_at\<rparr>))"

text \<open>What a token says, when its signature and its payload are good.\<close>

definition open_token :: "claim_codec \<Rightarrow> string \<Rightarrow> json option" where
  "open_token codec token =
     (case split_dot token of
        None \<Rightarrow> None
      | Some (encoded, supplied) \<Rightarrow>
          if b64_decode supplied \<noteq> Some (cc_mac codec (cc_secret codec) encoded) then None
          else Option.bind (b64_decode encoded) (cc_loads codec))"

definition claim_contents :: "json \<Rightarrow> (claim_operation \<times> string \<times> int) option" where
  "claim_contents payload =
     (case (Option.bind (text_member payload ''op'') claim_operation_of,
            text_member payload ''key'', int_member payload ''exp'') of
        (Some operation, Some key, Some expires) \<Rightarrow>
          if is_ok (valid_object_key key) \<and> int_member payload ''v'' = Some 1
          then Some (operation, key, expires) else None
      | _ \<Rightarrow> None)"

definition verify_claim ::
  "claim_codec \<Rightarrow> storage_claim \<Rightarrow> claim_operation \<Rightarrow> time \<Rightarrow> error + json" where
  "verify_claim codec claim operation now =
     (case open_token codec (sc_token claim) of
        None \<Rightarrow> Inl (ApiError 403 ''STORAGE_CLAIM_INVALID'')
      | Some payload \<Rightarrow>
          (case claim_contents payload of
             None \<Rightarrow> Inl (ApiError 403 ''STORAGE_CLAIM_INVALID'')
           | Some (payload_operation, key, expires) \<Rightarrow>
               if seconds expires \<le> now then Inl (ApiError 403 ''STORAGE_CLAIM_EXPIRED'')
               else if payload_operation \<noteq> operation
               then Inl (ApiError 403 ''STORAGE_CLAIM_FORBIDDEN'')
               else if sc_object_key claim \<noteq> key \<or> sc_operation claim \<noteq> payload_operation \<or>
                 timestamp (sc_expires_at claim) \<noteq> expires
               then Inl (ApiError 403 ''STORAGE_CLAIM_INVALID'')
               else Inr payload))"

section \<open>The claiming storage\<close>

text \<open>
  What the back ends keep: the bytes under each key. Creation is exclusive.
\<close>

type_synonym object_store = "string \<rightharpoonup> string"

definition READ_CHUNK_BYTES :: int where "READ_CHUNK_BYTES = 1024 * 1024"

definition read_stream :: "string \<Rightarrow> int \<Rightarrow> string" where
  "read_stream source n = (if n < 0 then source else take (nat n) source)"

text \<open>The loop of \<open>copy_stream\<close>: the number of bytes copied, and what arrived.\<close>

function copy_stream :: "string \<Rightarrow> string \<Rightarrow> int \<Rightarrow> int option \<Rightarrow> error + (int \<times> string)" where
  "copy_stream source target got max_bytes =
     (let requested = (case max_bytes of None \<Rightarrow> READ_CHUNK_BYTES
            | Some m \<Rightarrow> min READ_CHUNK_BYTES (m - got + 1));
          chunk = read_stream source requested in
      if chunk = [] then Inr (got, target)
      else let got = got + int (length chunk) in
        if (case max_bytes of None \<Rightarrow> False | Some m \<Rightarrow> got > m)
        then Inl (ApiError 413 ''UPLOAD_TOO_LARGE'')
        else copy_stream (drop (length chunk) source) (target @ chunk) got max_bytes)"
  by pat_completeness auto

termination
  by (relation "measure (\<lambda>(source, _). length source)")
    (auto simp: read_stream_def split: if_splits)

declare copy_stream.simps [simp del]

definition ALLOWED_TYPES :: "string \<rightharpoonup> string" where
  "ALLOWED_TYPES = [''image/jpeg'' \<mapsto> ''.jpg'', ''image/png'' \<mapsto> ''.png'', ''image/webp'' \<mapsto> ''.webp'',
     ''video/mp4'' \<mapsto> ''.mp4'']"

definition put_stream :: "object_store \<Rightarrow> string \<Rightarrow> string \<Rightarrow> object_store option" where
  "put_stream store key content = (if store key \<noteq> None then None else Some (store(key \<mapsto> content)))"

definition storage_put ::
  "claim_codec \<Rightarrow> object_store \<Rightarrow> storage_claim \<Rightarrow> string \<Rightarrow> string \<Rightarrow> time \<Rightarrow>
   error + (stored_object \<times> object_store)" where
  "storage_put codec store claim content mime_type now =
     and_then (verify_claim codec claim OP_WRITE now) (\<lambda>payload.
       case int_member payload ''max_bytes'' of
         Some max_bytes \<Rightarrow>
           if member payload ''mime_type'' \<noteq> Some (JStr mime_type)
           then Inl (ApiError 403 ''STORAGE_CLAIM_FORBIDDEN'')
           else and_then (copy_stream content [] 0 (Some max_bytes)) (\<lambda>(size_bytes, staged).
             case put_stream store (sc_object_key claim) staged of
               None \<Rightarrow> Inl (ApiError 409 ''STORAGE_OBJECT_EXISTS'')
             | Some store \<Rightarrow> Inr (\<lparr>so_key = sc_object_key claim, so_mime_type = mime_type,
                 so_size_bytes = size_bytes, so_sha256 = None\<rparr>, store))
       | None \<Rightarrow> Inl (ApiError 403 ''STORAGE_CLAIM_FORBIDDEN''))"

definition storage_open ::
  "claim_codec \<Rightarrow> object_store \<Rightarrow> storage_claim \<Rightarrow> time \<Rightarrow> error + string" where
  "storage_open codec store claim now =
     and_then (verify_claim codec claim OP_READ now) (\<lambda>_.
       case store (sc_object_key claim) of
         None \<Rightarrow> Inl (ApiError 404 ''STORAGE_OBJECT_NOT_FOUND'') | Some content \<Rightarrow> Inr content)"

definition storage_stat :: "object_store \<Rightarrow> string \<Rightarrow> error + object_stat" where
  "storage_stat store key =
     and_then (valid_object_key key) (\<lambda>key.
       case store key of
         None \<Rightarrow> Inl (ApiError 404 ''STORAGE_OBJECT_NOT_FOUND'')
       | Some content \<Rightarrow> Inr \<lparr>ot_key = key, ot_size_bytes = int (length content)\<rparr>)"

definition storage_delete :: "object_store \<Rightarrow> string \<Rightarrow> error + object_store" where
  "storage_delete store key = and_then (valid_object_key key) (\<lambda>key. Inr (store(key := None)))"

definition read_claim ::
  "claim_codec \<Rightarrow> object_store \<Rightarrow> string \<Rightarrow> timedelta \<Rightarrow> time \<Rightarrow> error + storage_claim" where
  "read_claim codec store key expires_in now =
     and_then (storage_stat store key) (\<lambda>_. issue_claim codec OP_READ key expires_in None None now)"

text \<open>\<open>fresh\<close> is the new \<open>uuid4\<close> of the key.\<close>

definition write_claim ::
  "claim_codec \<Rightarrow> string \<Rightarrow> string \<Rightarrow> int \<Rightarrow> timedelta \<Rightarrow> uuid \<Rightarrow> time \<Rightarrow> error + storage_claim" where
  "write_claim codec namespace mime_type max_bytes expires_in fresh now =
     (case ALLOWED_TYPES mime_type of
        None \<Rightarrow> Inl (ApiError 415 ''UPLOAD_TYPE_NOT_ALLOWED'')
      | Some suffix \<Rightarrow>
          if max_bytes \<le> 0 then Inl (ValueError ''max_bytes must be positive'')
          else and_then (valid_namespace namespace) (\<lambda>namespace.
            issue_claim codec OP_WRITE (namespace @ ''/'' @ uuid_hex fresh @ suffix) expires_in
              (Some mime_type) (Some max_bytes) now))"

definition MAGIC_JPEG :: string where "MAGIC_JPEG = [CHR 0xFF, CHR 0xD8, CHR 0xFF]"
definition MAGIC_PNG :: string where
  "MAGIC_PNG = [CHR 0x89, CHR ''P'', CHR ''N'', CHR ''G'', CHR 0x0D, CHR 0x0A, CHR 0x1A, CHR 0x0A]"

definition validate_media_header :: "string \<Rightarrow> string \<Rightarrow> error + unit" where
  "validate_media_header mime_type first =
     (let bad = Inl (ApiError 422 ''UPLOAD_CONTENT_INVALID'') in
      if ALLOWED_TYPES mime_type = None then Inl (ApiError 415 ''UPLOAD_TYPE_NOT_ALLOWED'')
      else if mime_type = ''video/mp4''
      then if length first < 12 \<or> take 4 (drop 4 first) \<noteq> ''ftyp'' then bad else Inr ()
      else if mime_type = ''image/webp''
      then if \<not> (startswith first ''RIFF'' \<and> take 4 (drop 8 first) = ''WEBP'') then bad else Inr ()
      else if \<not> startswith first (if mime_type = ''image/jpeg'' then MAGIC_JPEG else MAGIC_PNG) then bad
      else Inr ())"

section \<open>Callback claims\<close>

definition callback_body :: "uuid \<Rightarrow> uuid \<Rightarrow> route_version \<Rightarrow> int \<Rightarrow> json" where
  "callback_body job attempt route expires = JObj
     [(''v'', JInt 1), (''job_id'', JStr (uuid_str job)), (''attempt_id'', JStr (uuid_str attempt)),
      (''route'', JStr (rt_key route)), (''provider'', JStr (rt_provider_code route)),
      (''exp'', JInt expires)]"

definition callback_issuer_check :: "claim_codec \<Rightarrow> error + claim_codec" where
  "callback_issuer_check codec =
     (if length (cc_secret codec) < 32
      then Inl (ValueError ''callback claim secret must contain at least 32 bytes'') else Inr codec)"

definition callback_token :: "claim_codec \<Rightarrow> string \<Rightarrow> string" where
  "callback_token codec body =
     b64_encode body @ CHR ''.'' # b64_encode (cc_mac codec (cc_secret codec) body)"

definition callback_issue ::
  "claim_codec \<Rightarrow> uuid \<Rightarrow> uuid \<Rightarrow> route_version \<Rightarrow> timedelta \<Rightarrow> time \<Rightarrow> error + string" where
  "callback_issue codec job attempt route expires_in now =
     (if expires_in \<le> 0 \<or> expires_in > minutes 15
      then Inl (ValueError ''callback claim TTL must be between 1 second and 15 minutes'')
      else Inr (callback_token codec
        (canonical (callback_body job attempt route (timestamp (now + expires_in))))))"

definition callback_fields :: "string set" where
  "callback_fields = {''v'', ''job_id'', ''attempt_id'', ''route'', ''provider'', ''exp''}"

definition callback_bound :: "uuid \<Rightarrow> uuid \<Rightarrow> route_version \<Rightarrow> json \<Rightarrow> bool" where
  "callback_bound job attempt route payload \<longleftrightarrow> int_member payload ''v'' = Some 1 \<and>
     member payload ''job_id'' = Some (JStr (uuid_str job)) \<and>
     member payload ''attempt_id'' = Some (JStr (uuid_str attempt)) \<and>
     member payload ''route'' = Some (JStr (rt_key route)) \<and>
     member payload ''provider'' = Some (JStr (rt_provider_code route)) \<and>
     int_member payload ''exp'' \<noteq> None"

definition callback_verify ::
  "claim_codec \<Rightarrow> string \<Rightarrow> uuid \<Rightarrow> uuid \<Rightarrow> route_version \<Rightarrow> time \<Rightarrow> error + unit" where
  "callback_verify codec token job attempt route now =
     (let invalid = Inl (ValueError ''callback claim is invalid'') in
      case split_dot token of
        None \<Rightarrow> invalid
      | Some (body_value, signature_value) \<Rightarrow>
          (case (b64_decode body_value, b64_decode signature_value) of
             (Some body, Some signature) \<Rightarrow>
               (case cc_loads codec body of
                  Some (JObj ms) \<Rightarrow>
                    if signature \<noteq> cc_mac codec (cc_secret codec) body then invalid
                    else if fst ` set ms \<noteq> callback_fields then invalid
                    else if \<not> callback_bound job attempt route (JObj ms)
                    then Inl (ValueError ''callback claim is not bound to this submission'')
                    else if the (int_member (JObj ms) ''exp'') \<le> timestamp now
                    then Inl (ValueError ''callback claim has expired'')
                    else Inr ()
                | _ \<Rightarrow> invalid)
           | _ \<Rightarrow> invalid))"

section \<open>What verification accepts\<close>

lemma b64_no_dot: "CHR ''.'' \<notin> set (b64_encode s)"
proof -
  have "CHR ''.'' \<notin> set b64_alphabet" by (simp add: b64_alphabet_def)
  then show ?thesis using b64_encode_alphabet by blast
qed

lemma split_dot_b64: "split_dot (b64_encode s @ CHR ''.'' # t) = Some (b64_encode s, t)"
proof -
  have "takeWhile (\<lambda>c. c \<noteq> CHR ''.'') (b64_encode s) = b64_encode s"
    "dropWhile (\<lambda>c. c \<noteq> CHR ''.'') (b64_encode s) = []"
    using b64_no_dot [of s] by (auto simp: takeWhile_eq_all_conv dropWhile_eq_Nil_conv)
  moreover have "\<forall>c \<in> set (b64_encode s). c \<noteq> CHR ''.''" using b64_no_dot [of s] by blast
  ultimately show ?thesis by (simp add: split_dot_def takeWhile_append2 dropWhile_append2)
qed

lemma split_dot_Some: "split_dot s = Some (a, b) \<Longrightarrow> s = a @ CHR ''.'' # b"
proof -
  assume sd: "split_dot s = Some (a, b)"
  then have dot: "CHR ''.'' \<in> set s" and a: "a = takeWhile (\<lambda>c. c \<noteq> CHR ''.'') s"
    and b: "b = tl (dropWhile (\<lambda>c. c \<noteq> CHR ''.'') s)"
    by (auto simp: split_dot_def split: if_splits)
  from dot have ne: "dropWhile (\<lambda>c. c \<noteq> CHR ''.'') s \<noteq> []" by (auto simp: dropWhile_eq_Nil_conv)
  with hd_dropWhile [OF ne] have "dropWhile (\<lambda>c. c \<noteq> CHR ''.'') s = CHR ''.'' # b"
    using b by (cases "dropWhile (\<lambda>c. c \<noteq> CHR ''.'') s") auto
  then show ?thesis using takeWhile_dropWhile_id [of "\<lambda>c. c \<noteq> CHR ''.''" s] a by simp
qed

lemma callback_verify_signed:
  "callback_verify codec token job attempt route now = Inr () \<longleftrightarrow>
   (\<exists>body ms. token = callback_token codec body \<and> cc_loads codec body = Some (JObj ms) \<and>
      fst ` set ms = callback_fields \<and> callback_bound job attempt route (JObj ms) \<and>
      timestamp now < the (int_member (JObj ms) ''exp''))"
  (is "?verified \<longleftrightarrow> ?signed")
proof
  assume ?verified
  then obtain body_value signature_value body signature ms where
    s: "split_dot token = Some (body_value, signature_value)"
    and b: "b64_decode body_value = Some body" "b64_decode signature_value = Some signature"
    and l: "cc_loads codec body = Some (JObj ms)" "signature = cc_mac codec (cc_secret codec) body"
      "fst ` set ms = callback_fields" "callback_bound job attempt route (JObj ms)"
      "\<not> the (int_member (JObj ms) ''exp'') \<le> timestamp now"
    by (auto simp: callback_verify_def Let_def split: option.splits json.splits if_splits)
  have "token = callback_token codec body"
    using split_dot_Some [OF s] b l(2) by (simp add: b64_round_trip_fact callback_token_def)
  with l show ?signed by auto
next
  assume ?signed
  then obtain body ms where t: "token = callback_token codec body" and l: "cc_loads codec body = Some (JObj ms)"
    "fst ` set ms = callback_fields" "callback_bound job attempt route (JObj ms)"
    "timestamp now < the (int_member (JObj ms) ''exp'')"
    by blast
  have "b64_decode (b64_encode x) = Some x" for x by (simp add: b64_round_trip_fact)
  with t l show ?verified
    by (simp add: callback_verify_def callback_token_def split_dot_b64)
qed

text \<open>
  C26. A callback claim is accepted exactly when it is the one spelling of a body signed with
  the secret, that body is an object with the six expected members, they name this job,
  attempt, route and provider, and its expiry has not passed.
\<close>

theorem callback_verify_iff:
  "callback_verify codec token job attempt route now = Inr () \<longleftrightarrow>
   (\<exists>body ms. token = callback_token codec body \<and> cc_loads codec body = Some (JObj ms) \<and>
      fst ` set ms = callback_fields \<and> callback_bound job attempt route (JObj ms) \<and>
      timestamp now < the (int_member (JObj ms) ''exp''))"
  by (rule callback_verify_signed)

end
