(* ===== verification/ClaimsInv.thy ===== *)
theory ClaimsInv
  imports Claims
begin

text \<open>
  What claims promise: a callback claim is good for the submission it was issued for and for
  no other, and what is written under a write claim is what a read claim gives back.
  \<open>loads_sorted\<close> is the behaviour of \<^verbatim>\<open>json.loads\<close> the round trips rely on: the text of an
  object of scalars comes back as that object, its members in the order of the text.
\<close>

definition loads_sorted :: "claim_codec \<Rightarrow> json \<Rightarrow> bool" where
  "loads_sorted codec payload \<longleftrightarrow> (case payload of
     JObj ms \<Rightarrow> cc_loads codec (canonical payload) = Some (JObj (sort_key fst ms)) | _ \<Rightarrow> True)"

lemma map_of_sorted:
  assumes "distinct (map fst ms)"
  shows "map_of (rev (sort_key fst ms)) k = map_of ms k"
proof -
  have "inj_on fst (set ms)" using assms by (simp add: distinct_map)
  then have "distinct (map fst (rev (sort_key fst ms)))" using assms by (simp add: distinct_map)
  then show ?thesis
    using map_of_inject_set [of "rev (sort_key fst ms)" ms] assms by simp
qed

lemma member_sorted:
  "distinct (map fst ms) \<Longrightarrow> member (JObj (sort_key fst ms)) k = map_of ms k"
  by (simp add: member_def map_of_sorted)

section \<open>Callback claims\<close>

lemma callback_fields_body:
  assumes "callback_body job attempt route expires = JObj ms"
  shows "distinct (map fst ms)" and "fst ` set ms = callback_fields"
  using assms by (auto simp: callback_body_def callback_fields_def)

text \<open>
  Issued and verified: a callback claim that was issued for a job, an attempt and a
  route is accepted before it expires when asked about exactly these, and refused for every
  other job, attempt, route key or provider and from its expiry on.
\<close>

lemma callback_claim_round_trip:
  assumes "callback_issue codec job attempt route expires_in t0 = Inr token"
    and "loads_sorted codec (callback_body job attempt route (timestamp (t0 + expires_in)))"
  shows "callback_verify codec token job' attempt' route' now = Inr () \<longleftrightarrow>
    job' = job \<and> attempt' = attempt \<and> rt_key route' = rt_key route \<and>
    rt_provider_code route' = rt_provider_code route \<and> timestamp now < timestamp (t0 + expires_in)"
proof -
  obtain ms where ms: "callback_body job attempt route (timestamp (t0 + expires_in)) = JObj ms"
    by (simp add: callback_body_def)
  let ?body = "canonical (JObj ms)"
  have token: "token = callback_token codec ?body"
    using assms(1) ms by (simp add: callback_issue_def split: if_splits)
  have loads: "cc_loads codec ?body = Some (JObj (sort_key fst ms))"
    using assms(2) ms by (simp add: loads_sorted_def)
  note fields = callback_fields_body [OF ms]
  have m: "member (JObj (sort_key fst ms)) k = map_of ms k" for k by (rule member_sorted [OF fields(1)])
  have spelled: "body = ?body" if "token = callback_token codec body" for body
  proof -
    have "split_dot (callback_token codec body) = split_dot (callback_token codec ?body)"
      using that token by simp
    then have "b64_encode body = b64_encode ?body" by (simp add: callback_token_def split_dot_b64)
    then show ?thesis using b64_round_trip_fact by (metis option.inject)
  qed
  have "callback_verify codec token job' attempt' route' now = Inr () \<longleftrightarrow>
      callback_bound job' attempt' route' (JObj (sort_key fst ms)) \<and>
      timestamp now < the (int_member (JObj (sort_key fst ms)) ''exp'')"
    unfolding callback_verify_signed using spelled token loads fields(2) by (auto simp: image_image)
  moreover have "map_of ms ''v'' = Some (JInt 1)" "map_of ms ''job_id'' = Some (JStr (uuid_str job))"
    "map_of ms ''attempt_id'' = Some (JStr (uuid_str attempt))"
    "map_of ms ''route'' = Some (JStr (rt_key route))"
    "map_of ms ''provider'' = Some (JStr (rt_provider_code route))"
    "map_of ms ''exp'' = Some (JInt (timestamp (t0 + expires_in)))"
    using ms unfolding callback_body_def by (simp_all only: json.inject) auto
  ultimately show ?thesis
    by (simp add: callback_bound_def int_member_def m py_int_def) (metis uuid_str_inj)
qed

text \<open>A codec to evaluate on: the mac is the text itself, and the one body it can read.\<close>

definition sample_codec :: "json \<Rightarrow> claim_codec" where
  "sample_codec payload = \<lparr>cc_secret = replicate 32 CHR ''k'', cc_mac = (\<lambda>_ text. text),
     cc_loads = (\<lambda>text. if text = canonical payload
       then (case payload of JObj ms \<Rightarrow> Some (JObj (sort_key fst ms)) | _ \<Rightarrow> Some payload) else None)\<rparr>"

lemma loads_sorted_sample: "loads_sorted (sample_codec payload) payload"
  by (simp add: loads_sorted_def sample_codec_def split: json.split)

lemma callback_claim_round_trip_example:
  "\<exists>token. (let codec = sample_codec (callback_body 1 7 MOCK_ROUTE 600) in
     callback_issue codec 1 7 MOCK_ROUTE (minutes 10) 0 = Inr token \<and>
     callback_verify codec token 1 7 MOCK_ROUTE (minutes 9) = Inr () \<and>
     callback_verify codec token 1 8 MOCK_ROUTE (minutes 9) \<noteq> Inr () \<and>
     callback_verify codec token 1 7 MOCK_ROUTE (minutes 10) \<noteq> Inr ())"
proof -
  let ?c = "sample_codec (callback_body 1 7 MOCK_ROUTE 600)"
  have t: "timestamp (0 + minutes 10) = 600" by (simp add: timestamp_def minutes_def seconds_def)
  let ?token = "callback_token ?c (canonical (callback_body 1 7 MOCK_ROUTE 600))"
  have i: "callback_issue ?c 1 7 MOCK_ROUTE (minutes 10) 0 = Inr ?token"
    by (simp add: callback_issue_def minutes_def seconds_def timestamp_def)
  note v = callback_claim_round_trip [OF i, unfolded t, OF loads_sorted_sample]
  have "timestamp (minutes 9) = 540" "timestamp (minutes 10) = 600"
    by (simp_all add: timestamp_def minutes_def seconds_def)
  then show ?thesis
    unfolding Let_def by (intro exI [of _ ?token]) (simp only: i v, simp)
qed

section \<open>The object store\<close>

lemma copy_stream_bounded:
  assumes "0 \<le> got" and "got \<le> m"
  shows "copy_stream source target got (Some m) =
    (if got + int (length source) \<le> m then Inr (got + int (length source), target @ source)
     else Inl (ApiError 413 ''UPLOAD_TOO_LARGE''))"
  using assms
proof (induction source arbitrary: target got rule: measure_induct_rule [where f = length])
  case (less source)
  let ?n = "min READ_CHUNK_BYTES (m - got + 1)"
  let ?chunk = "read_stream source ?n"
  have n: "0 < ?n" using less(3) by (simp add: READ_CHUNK_BYTES_def)
  then have "\<not> ?n < 0" by linarith
  then have chunk: "?chunk = take (nat ?n) source" by (simp only: read_stream_def if_False)
  show ?case
  proof (cases "source = []")
    case True
    then show ?thesis using less(3) by (subst copy_stream.simps) (use True in \<open>simp add: Let_def read_stream_def\<close>)
  next
    case False
    with n chunk have ne: "?chunk \<noteq> []" by auto
    have len: "length ?chunk = min (nat ?n) (length source)" unfolding chunk by simp
    have shorter: "length (drop (length ?chunk) source) < length source"
      using ne False by (simp add: diff_less)
    show ?thesis
    proof (cases "got + int (length ?chunk) > m")
      case True
      then have "got + int (length source) > m" using len by linarith
      with True ne show ?thesis by (subst copy_stream.simps) (simp add: Let_def)
    next
      case False
      have "copy_stream source target got (Some m) =
          copy_stream (drop (length ?chunk) source) (target @ ?chunk) (got + int (length ?chunk)) (Some m)"
        using False ne by (subst copy_stream.simps) (simp add: Let_def)
      also have "\<dots> = (if got + int (length ?chunk) + int (length (drop (length ?chunk) source)) \<le> m
          then Inr (got + int (length ?chunk) + int (length (drop (length ?chunk) source)),
            (target @ ?chunk) @ drop (length ?chunk) source)
          else Inl (ApiError 413 ''UPLOAD_TOO_LARGE''))"
        by (rule less(1) [OF shorter]) (use False less(2) in auto)
      also have "(target @ ?chunk) @ drop (length ?chunk) source = target @ source"
        unfolding len chunk by (cases "nat ?n \<le> length source") (simp_all add: min_def)
      also have "got + int (length ?chunk) + int (length (drop (length ?chunk) source)) =
          got + int (length source)"
        using len by simp
      finally show ?thesis .
    qed
  qed
qed

text \<open>A claim that was issued verifies for its operation until it expires.\<close>

lemma claim_body_members:
  assumes "claim_body operation key expires mime_type max_bytes = JObj ms"
  shows "distinct (map fst ms)" and "map_of ms ''v'' = Some (JInt 1)"
    and "map_of ms ''op'' = Some (JStr (claim_operation_value operation))"
    and "map_of ms ''key'' = Some (JStr key)" and "map_of ms ''exp'' = Some (JInt expires)"
    and "map_of ms ''mime_type'' = map_option JStr mime_type"
    and "map_of ms ''max_bytes'' = map_option JInt max_bytes"
  using assms by (auto simp: claim_body_def split: option.splits)

lemma issued_verifies:
  assumes i: "issue_claim codec operation key expires_in mime_type max_bytes t0 = Inr claim"
    and l: "loads_sorted codec (claim_body operation key (timestamp (t0 + expires_in)) mime_type max_bytes)"
    and t: "now < seconds (timestamp (t0 + expires_in))"
  shows "\<exists>payload. verify_claim codec claim operation now = Inr payload \<and>
    member payload ''mime_type'' = map_option JStr mime_type \<and>
    int_member payload ''max_bytes'' = max_bytes \<and> sc_object_key claim = key"
proof -
  let ?exp = "timestamp (t0 + expires_in)"
  obtain ms where ms: "claim_body operation key ?exp mime_type max_bytes = JObj ms"
    by (simp add: claim_body_def)
  note m = claim_body_members [OF ms]
  have key: "valid_object_key key = Inr key"
    using i by (auto simp: issue_claim_def and_then_Inr_iff Let_def valid_object_key_def split: if_splits)
  then have claim: "claim = \<lparr>sc_token = signed_text codec (b64_encode (canonical (JObj ms))),
      sc_object_key = key, sc_operation = operation, sc_expires_at = t0 + expires_in\<rparr>"
    using i ms by (auto simp: issue_claim_def and_then_Inr_iff Let_def split: if_splits)
  let ?p = "JObj (sort_key fst ms)"
  have mem: "member ?p k = map_of ms k" for k by (rule member_sorted [OF m(1)])
  have "open_token codec (sc_token claim) = Some ?p"
    using l ms by (simp add: claim open_token_def signed_text_def split_dot_b64 b64_round_trip_fact loads_sorted_def)
  moreover have "claim_operation_of (claim_operation_value operation) = Some operation"
    by (cases operation) (simp_all add: claim_operation_of_def)
  then have "claim_contents ?p = Some (operation, key, ?exp)"
    using key by (simp add: claim_contents_def text_member_def int_member_def mem m py_str_def py_int_def)
  ultimately have "verify_claim codec claim operation now = Inr ?p"
    using t by (simp add: verify_claim_def claim)
  then show ?thesis
    using m(6,7) by (cases max_bytes) (auto simp: mem int_member_def py_int_def claim)
qed

text \<open>
  C29. What is put is what is opened: content within the limit of a write claim is stored
  under the claim's key, which was free; the read claim issued for that key then opens exactly
  this content; a second put with the same claim is refused and changes nothing; and content
  over the limit is refused without touching the store.
\<close>

theorem storage_round_trip:
  assumes w: "write_claim codec namespace mime_type max_bytes ttl fresh t0 = Inr w"
    and lw: "loads_sorted codec (claim_body OP_WRITE (sc_object_key w) (timestamp (t0 + ttl))
      (Some mime_type) (Some max_bytes))"
    and lr: "loads_sorted codec (claim_body OP_READ (sc_object_key w) (timestamp (t1 + ttl)) None None)"
    and t: "t1 < seconds (timestamp (t0 + ttl))" "t1 < seconds (timestamp (t1 + ttl))"
    and free: "store (sc_object_key w) = None"
  shows "if int (length content) \<le> max_bytes
    then \<exists>obj r. let store' = store(sc_object_key w \<mapsto> content) in
      storage_put codec store w content mime_type t1 = Inr (obj, store') \<and>
      so_size_bytes obj = int (length content) \<and>
      read_claim codec store' (so_key obj) ttl t1 = Inr r \<and>
      storage_open codec store' r t1 = Inr content \<and>
      (int (length other) \<le> max_bytes \<longrightarrow> storage_put codec store' w other mime_type t1 =
        Inl (ApiError 409 ''STORAGE_OBJECT_EXISTS''))
    else storage_put codec store w content mime_type t1 = Inl (ApiError 413 ''UPLOAD_TOO_LARGE'')"
proof -
  let ?key = "sc_object_key w"
  obtain suffix ns where pos: "0 < max_bytes"
    and i: "issue_claim codec OP_WRITE (ns @ ''/'' @ uuid_hex fresh @ suffix) ttl (Some mime_type)
      (Some max_bytes) t0 = Inr w"
    using w by (auto simp: write_claim_def and_then_Inr_iff split: option.splits if_splits)
  have k: "?key = ns @ ''/'' @ uuid_hex fresh @ suffix"
    using i by (auto simp: issue_claim_def and_then_Inr_iff Let_def split: if_splits)
  from issued_verifies [OF i _ t(1)] lw k obtain p where
    v: "verify_claim codec w OP_WRITE t1 = Inr p" "member p ''mime_type'' = Some (JStr mime_type)"
      "int_member p ''max_bytes'' = Some max_bytes" by auto
  have copy: "copy_stream c [] 0 (Some max_bytes) = (if int (length c) \<le> max_bytes
      then Inr (int (length c), c) else Inl (ApiError 413 ''UPLOAD_TOO_LARGE''))" for c
    using copy_stream_bounded [of 0 max_bytes c "[]"] pos by simp
  let ?store = "store(?key \<mapsto> content)"
  have key: "valid_object_key ?key = Inr ?key" and ttl: "\<not> (ttl \<le> 0 \<or> ttl > MAX_CLAIM_TTL)"
    using i k by (auto simp: issue_claim_def and_then_Inr_iff Let_def valid_object_key_def split: if_splits)
  obtain r where r: "issue_claim codec OP_READ ?key ttl None None t1 = Inr r"
    using key ttl by (simp add: issue_claim_def Let_def)
  from issued_verifies [OF r lr t(2)] obtain q where
    q: "verify_claim codec r OP_READ t1 = Inr q" "sc_object_key r = ?key" by auto
  have "read_claim codec ?store ?key ttl t1 = Inr r" "storage_open codec ?store r t1 = Inr content"
    using r q key by (simp_all add: read_claim_def storage_stat_def storage_open_def)
  then show ?thesis
    using free by (auto simp: storage_put_def v copy put_stream_def Let_def)
qed

definition sample_storage_codec :: claim_codec where
  "sample_storage_codec =
     (let key = ''outputs/1/'' @ uuid_hex 5 @ ''.mp4'';
          bodies = [claim_body OP_WRITE key 300 (Some ''video/mp4'') (Some 4),
            claim_body OP_READ key 360 None None] in
      \<lparr>cc_secret = replicate 32 CHR ''k'', cc_mac = (\<lambda>_ text. text),
       cc_loads = (\<lambda>text. case List.find (\<lambda>b. canonical b = text) bodies of
          Some (JObj ms) \<Rightarrow> Some (JObj (sort_key fst ms)) | _ \<Rightarrow> None)\<rparr>)"

theorem storage_round_trip_witness:
  "\<exists>w obj r. write_claim sample_storage_codec ''outputs/1'' ''video/mp4'' 4 (minutes 5) 5 0 = Inr w \<and>
     storage_put sample_storage_codec Map.empty w ''data'' ''video/mp4'' (minutes 1) =
       Inr (obj, [sc_object_key w \<mapsto> ''data'']) \<and>
     storage_open sample_storage_codec [sc_object_key w \<mapsto> ''data''] r (minutes 1) = Inr ''data'' \<and>
     storage_put sample_storage_codec Map.empty w ''datas'' ''video/mp4'' (minutes 1) =
       Inl (ApiError 413 ''UPLOAD_TOO_LARGE'')"
proof -
  let ?c = sample_storage_codec
  let ?key = "''outputs/1/'' @ uuid_hex 5 @ ''.mp4''"
  let ?r = "write_claim ?c ''outputs/1'' ''video/mp4'' 4 (minutes 5) 5 0"
  have "is_ok (valid_object_key ?key)" by code_simp
  then have "valid_object_key ?key = Inr ?key" by (auto simp: valid_object_key_def split: if_splits)
  moreover have "valid_namespace ''outputs/1'' = Inr ''outputs/1''" by code_simp
  ultimately obtain w where w: "?r = Inr w" and key: "sc_object_key w = ?key"
    by (simp add: write_claim_def ALLOWED_TYPES_def issue_claim_def Let_def minutes_def seconds_def
        MAX_CLAIM_TTL_def)
  have t: "timestamp (0 + minutes 5) = 300" "timestamp (minutes 1 + minutes 5) = 360"
    "minutes 1 < seconds 300" "minutes 1 < seconds 360"
    by (simp_all add: timestamp_def minutes_def seconds_def)
  have l: "loads_sorted ?c (claim_body OP_WRITE ?key 300 (Some ''video/mp4'') (Some 4))"
    "loads_sorted ?c (claim_body OP_READ ?key 360 None None)"
    by code_simp+
  note rt = storage_round_trip [OF w, where ?t1.0 = "minutes 1" and store = Map.empty,
      unfolded key t(1,2), OF l t(3,4) refl]
  have d: "int (length ''data'') \<le> 4" "\<not> int (length ''datas'') \<le> 4" by simp_all
  from rt [where content = "''data''" and other = "''x''", unfolded if_P [OF d(1)] Let_def]
  obtain obj r where "storage_put ?c Map.empty w ''data'' ''video/mp4'' (minutes 1) =
      Inr (obj, [?key \<mapsto> ''data''])" "storage_open ?c [?key \<mapsto> ''data''] r (minutes 1) = Inr ''data''"
    by blast
  moreover note rt [where content = "''datas''", unfolded if_not_P [OF d(2)]]
  ultimately show ?thesis using w unfolding key [symmetric] by blast
qed

end
