(* ===== verification/Execution.thy ===== *)
theory Execution
  imports Claims Pipeline
begin

text \<open>
  The coordinator (apps/api/app/provider_execution.py) and the request it submits
  (\<open>submit_request\<close> of provider_submission.py). The provider is a record of what each call
  answers or raises; the argument \<open>tick\<close> counts the rounds of the loop, so its answers and the
  clock may change from one round to the next. Logging is left out.
\<close>

section \<open>The request\<close>

record submission_env =
  se_uuid5 :: "string \<Rightarrow> uuid"
  se_routes :: route_registry
  se_storage_claims :: claim_codec
  se_callback_claims :: claim_codec
  se_claim_ttl :: timedelta
  se_claim_retention :: timedelta
  se_store :: object_store

definition route_error_of :: "route_error \<Rightarrow> error" where
  "route_error_of e = RuntimeError (case e of Route_unavailable k \<Rightarrow> k | Route_disabled k \<Rightarrow> k)"

definition input_claim_of ::
  "submission_env \<Rightarrow> attempt_context \<Rightarrow> time \<Rightarrow> error + string option" where
  "input_claim_of env context now =
     (case ac_reference_object_key context of
        None \<Rightarrow> Inr None
      | Some key \<Rightarrow> and_then (read_claim (se_storage_claims env) (se_store env) key (se_claim_ttl env) now)
          (\<lambda>claim. Inr (Some (sc_token claim))))"

definition submit_request_for ::
  "submission_env \<Rightarrow> database \<Rightarrow> attempt_context \<Rightarrow> time \<Rightarrow> (error + submit_request) \<times> database" where
  "submit_request_for env db context now =
     (case ac_route_candidate_id context of
        None \<Rightarrow> (Inl (RuntimeError ''generation attempt has no immutable route candidate''), db)
      | Some candidate \<Rightarrow>
          (case by_candidate_id (se_uuid5 env) (se_routes env) candidate of
             Inl e \<Rightarrow> (Inl (route_error_of e), db)
           | Inr route \<Rightarrow>
               if rt_provider_code route \<noteq> ac_provider_code context \<or>
                  rt_workflow_id route \<noteq> ac_workflow_version context
               then (Inl (RuntimeError ''generation attempt does not match its route version''), db)
               else (case input_claim_of env context now of
                   Inl e \<Rightarrow> (Inl e, db)
                 | Inr input_claim \<Rightarrow>
                     if rt_requires_input_claim route \<and> input_claim = None
                     then (Inl (RuntimeError ''route requires a reference asset claim''), db)
                     else
                       let (fresh, db) = uuid4 db in
                       (case write_claim (se_storage_claims env)
                           (''provider-outputs/'' @ uuid_str (ac_job_id context) @ ''/'' @
                            uuid_str (ac_attempt_id context))
                           ''video/mp4'' MAX_PROVIDER_OUTPUT_BYTES (se_claim_ttl env) fresh now of
                          Inl e \<Rightarrow> (Inl e, db)
                        | Inr output_claim \<Rightarrow>
                            (case register_artifact (se_claim_retention env) db (ac_job_id context)
                                (ac_attempt_id context) (sc_object_key output_claim) ''SOURCE''
                                (Some (sc_expires_at output_claim)) now of
                               Inl e \<Rightarrow> (Inl e, db)
                             | Inr db \<Rightarrow>
                                 (case callback_issue (se_callback_claims env) (ac_job_id context)
                                     (ac_attempt_id context) route (se_claim_ttl env) now of
                                    Inl e \<Rightarrow> (Inl e, db)
                                  | Inr callback_claim \<Rightarrow>
                                      (Inr \<lparr>rq_job_id = ac_job_id context,
                                        rq_attempt_id = ac_attempt_id context,
                                        rq_idempotency_key = submit_key (ac_attempt_id context),
                                        rq_prompt = ac_prompt context,
                                        rq_negative_prompt = ac_negative_prompt context,
                                        rq_duration_ms = ac_duration_ms context,
                                        rq_aspect_ratio = ac_aspect_ratio context,
                                        rq_resolution = lower_text (ac_resolution context),
                                        rq_workflow_id = ac_workflow_version context,
                                        rq_input_claim = input_claim,
                                        rq_output_claim = sc_token output_claim,
                                        rq_callback_claim = callback_claim,
                                        rq_mode = ac_mode context\<rparr>, db)))))))"

section \<open>The provider and the environment\<close>

text \<open>\<open>Refused\<close> is \<^verbatim>\<open>ProviderSubmissionError\<close>, \<open>Submit_raised\<close> any other exception.\<close>

datatype submit_answer = Submitted submit_result | Refused provider_failure | Submit_raised error

record video_provider =
  vp_submit :: "submit_request \<Rightarrow> submit_answer"
  vp_poll :: "provider_attempt \<Rightarrow> error + poll_result"
  vp_read_cost :: "provider_attempt \<Rightarrow> error + cost_result option"
  vp_cancel :: "provider_attempt \<Rightarrow> error + cancel_result"
  vp_verify_webhook :: "(string \<rightharpoonup> string) \<Rightarrow> string \<Rightarrow> error + provider_event"

record generation_env =
  ge_execution :: execution_env
  ge_submission :: submission_env
  ge_polling :: polling_policy
  ge_isoformat :: "time \<Rightarrow> string"
  ge_sha256 :: "string \<Rightarrow> string"
  ge_clock :: "nat \<Rightarrow> time"
  ge_provider :: "nat \<Rightarrow> string \<Rightarrow> error + video_provider"

record execution_step =
  es_is_complete :: bool
  es_poll_count :: int
  es_retry_after :: "timedelta option"

section \<open>One round of execute\<close>

text \<open>
  What a part of a round ends in: the loop goes on, the step is returned, an exception is
  raised, or (after the submit phase) the round goes on to the poll.
\<close>

datatype round_end = Again | Return execution_step | Raise error | Go_on

definition step :: "bool \<Rightarrow> int \<Rightarrow> round_end" where
  "step finished n = Return \<lparr>es_is_complete = finished, es_poll_count = n, es_retry_after = None\<rparr>"

definition wait_step :: "polling_policy \<Rightarrow> int \<Rightarrow> round_end" where
  "wait_step policy n = (case delay_after policy n of
     Inl e \<Rightarrow> Raise e
   | Inr t \<Rightarrow> Return \<lparr>es_is_complete = False, es_poll_count = n, es_retry_after = Some t\<rparr>)"

text \<open>\<open>if action: continue\<close>, else a complete step.\<close>

definition after_failure ::
  "(error + (bool \<times> database)) \<Rightarrow> database \<Rightarrow> int \<Rightarrow> round_end \<times> database" where
  "after_failure r db n = (case r of
     Inl e \<Rightarrow> (Raise e, db)
   | Inr (retried, db) \<Rightarrow> (if retried then Again else step True n, db))"

definition record_answer ::
  "database \<Rightarrow> attempt_context \<Rightarrow> submit_answer \<Rightarrow> time \<Rightarrow> round_end \<times> database" where
  "record_answer db context answer now =
     (case answer of
        Refused failure \<Rightarrow> after_failure (fail_attempt db context failure None None now) db 0
      | Submit_raised _ \<Rightarrow> (Go_on, record_submit_unknown db context)
      | Submitted r \<Rightarrow>
          if sb_disposition r \<noteq> SUBMIT_ACCEPTED then (Go_on, record_submit_unknown db context)
          else (case sb_provider_job_id r of
              None \<Rightarrow> (Go_on, record_submit_unknown db context)
            | Some p \<Rightarrow>
                (case record_submit_accepted db context p False now of
                   Inl e \<Rightarrow> (Raise e, db) | Inr db \<Rightarrow> (Go_on, db))))"

definition submit_phase ::
  "generation_env \<Rightarrow> nat \<Rightarrow> video_provider \<Rightarrow> database \<Rightarrow> uuid \<Rightarrow> attempt_context \<Rightarrow>
   round_end \<times> database" where
  "submit_phase env tick provider db job_i context =
     (if ac_status context \<noteq> ATT_CREATED then (Go_on, db)
      else
        let now = ge_clock env tick;
            (started, db) = start_submit db context in
        if \<not> started then (step False 0, db)
        else (case load_active_attempt db job_i of
            Inl e \<Rightarrow> (Raise e, db)
          | Inr None \<Rightarrow> (step True 0, db)
          | Inr (Some context) \<Rightarrow>
              (case submit_request_for (ge_submission env) db context now of
                 (Inl e, db) \<Rightarrow> record_answer db context (Submit_raised e) now
               | (Inr request, db) \<Rightarrow> record_answer db context (vp_submit provider request) now)))"

definition exhausted_failure :: provider_failure where
  "exhausted_failure = \<lparr>fl_code = QUEUE_TIMEOUT, fl_message = ''Provider polling budget exhausted''\<rparr>"

definition poll_phase ::
  "generation_env \<Rightarrow> nat \<Rightarrow> video_provider \<Rightarrow> database \<Rightarrow> attempt_context \<Rightarrow>
   round_end \<times> database \<times> string list" where
  "poll_phase env tick provider db context =
     (let now = ge_clock env tick;
          (reservation, db) =
            reserve_poll (ge_isoformat env) (ge_polling env) db (ac_attempt_id context) now;
          n = pv_poll_count reservation in
      if pv_exhausted reservation
      then let (e, db) = after_failure
               (fail_attempt db context exhausted_failure (Some ATT_TIMED_OUT) None now) db n
           in (e, db, [])
      else if \<not> pv_acquired reservation then (wait_step (ge_polling env) (max 1 n), db, [])
      else (case vp_poll provider (context_provider_attempt context) of
          Inl _ \<Rightarrow> (wait_step (ge_polling env) n, record_reconcile_pending db context, [])
        | Inr result \<Rightarrow>
            let result = with_terminal_cost (vp_read_cost provider) context result in
            (case apply_provider_result (ge_execution env) db context result now of
               (Inl e, db, deleted) \<Rightarrow> (Raise e, db, deleted)
             | (Inr ACT_RETRY, db, deleted) \<Rightarrow> (Again, db, deleted)
             | (Inr ACT_WAIT, db, deleted) \<Rightarrow> (wait_step (ge_polling env) n, db, deleted)
             | (Inr ACT_COMPLETE, db, deleted) \<Rightarrow> (step True n, db, deleted))))"

definition execute_round ::
  "generation_env \<Rightarrow> nat \<Rightarrow> database \<Rightarrow> uuid \<Rightarrow> round_end \<times> database \<times> string list" where
  "execute_round env tick db job_i =
     (case load_active_attempt db job_i of
        Inl e \<Rightarrow> (Raise e, db, [])
      | Inr None \<Rightarrow> (step True 0, db, [])
      | Inr (Some context) \<Rightarrow>
          (case ge_provider env tick (ac_provider_code context) of
             Inl e \<Rightarrow> (Raise e, db, [])
           | Inr provider \<Rightarrow>
               (case submit_phase env tick provider db job_i context of
                  (Go_on, db) \<Rightarrow>
                    (case load_active_attempt db job_i of
                       Inl e \<Rightarrow> (Raise e, db, [])
                     | Inr None \<Rightarrow> (step True 0, db, [])
                     | Inr (Some context) \<Rightarrow>
                         if ac_status context \<notin> {ATT_SUBMITTING, ATT_SUBMITTED, ATT_RUNNING}
                         then (step True 0, db, [])
                         else poll_phase env tick provider db context)
                | (e, db) \<Rightarrow> (e, db, []))))"

section \<open>execute\<close>

text \<open>The loop; None would be a run that does not end.\<close>

partial_function (option) execute ::
  "generation_env \<Rightarrow> nat \<Rightarrow> database \<Rightarrow> uuid \<Rightarrow> string list \<Rightarrow>
   ((error + execution_step) \<times> database \<times> string list) option" where
  "execute env tick db job_i deleted =
     (case execute_round env tick db job_i of
        (Raise e, db, ks) \<Rightarrow> Some (Inl e, db, deleted @ ks)
      | (Return s, db, ks) \<Rightarrow> Some (Inr s, db, deleted @ ks)
      | (_, db, ks) \<Rightarrow> execute env (Suc tick) db job_i (deleted @ ks))"

section \<open>Cancelling\<close>

definition request_cancel ::
  "generation_env \<Rightarrow> nat \<Rightarrow> database \<Rightarrow> uuid \<Rightarrow> uuid option \<Rightarrow> string option \<Rightarrow>
   (error + unit) \<times> database \<times> string list" where
  "request_cancel env tick db job_i attempt_i idempotency_key =
     (case (case attempt_i of None \<Rightarrow> load_active_attempt db job_i
            | Some a \<Rightarrow> load_cancellable_attempt db job_i a) of
        Inl e \<Rightarrow> (Inl e, db, [])
      | Inr None \<Rightarrow> (Inr (), db, [])
      | Inr (Some context) \<Rightarrow>
          (case ge_provider env tick (ac_provider_code context) of
             Inl e \<Rightarrow> (Inl e, db, [])
           | Inr provider \<Rightarrow>
               (case and_then (provider_cancel_attempt context idempotency_key) (vp_cancel provider) of
                  Inl e \<Rightarrow> (Inl e, db, [])
                | Inr result \<Rightarrow>
                    if cn_status result \<noteq> PS_CANCELLED then (Inr (), db, [])
                    else
                      let terminal = with_terminal_cost (vp_read_cost provider) context
                        (poll_result_of PS_CANCELLED (ac_provider_job_id context)) in
                      (case apply_provider_result (ge_execution env) db context terminal
                          (ge_clock env tick) of
                         (Inl e, db, deleted) \<Rightarrow> (Inl e, db, deleted)
                       | (Inr _, db, deleted) \<Rightarrow> (Inr (), db, deleted)))))"

section \<open>Webhooks\<close>

text \<open>
  After the inbox row was taken: the result of the event, what the attempt makes of it, and
  giving the row back or finishing it.
\<close>

definition apply_webhook ::
  "generation_env \<Rightarrow> nat \<Rightarrow> video_provider \<Rightarrow> string \<Rightarrow> database \<Rightarrow> provider_event \<Rightarrow> uuid \<Rightarrow> string \<Rightarrow>
   (error + unit) \<times> database \<times> string list" where
  "apply_webhook env tick provider provider_code db event event_i lock_token =
     (let now = ge_clock env tick;
          give_back = (\<lambda>db. (Inr (), reset_provider_event db event_i lock_token, [])) in
      case load_attempt_by_provider_job db provider_code (pe_provider_job_id event) of
        Inl e \<Rightarrow> (Inl e, db, [])
      | Inr None \<Rightarrow> give_back db
      | Inr (Some context) \<Rightarrow>
          (case result_for_event (vp_poll provider) context event of
             Inl _ \<Rightarrow> give_back db
           | Inr result \<Rightarrow>
               let result = with_terminal_cost (vp_read_cost provider) context result in
               (case apply_provider_result (ge_execution env) db context result now of
                  (Inl e, db, deleted) \<Rightarrow> (Inl e, db, deleted)
                | (Inr _, db, deleted) \<Rightarrow>
                    if pe_status event \<in> {PS_SUCCEEDED, PS_FAILED} \<and>
                       pl_status result \<in> {PS_PENDING, PS_RUNNING, PS_UNKNOWN}
                    then (Inr (), reset_provider_event db event_i lock_token, deleted)
                    else (Inr (), finish_provider_event db event_i lock_token context now, deleted))))"

definition handle_webhook ::
  "generation_env \<Rightarrow> nat \<Rightarrow> database \<Rightarrow> database \<Rightarrow> string \<Rightarrow> (string \<rightharpoonup> string) \<Rightarrow> string \<Rightarrow>
   (error + webhook_result) \<times> database \<times> string list" where
  "handle_webhook env tick db0 db provider_code headers body =
     (case ge_provider env tick provider_code of
        Inl e \<Rightarrow> (Inl e, db, [])
      | Inr provider \<Rightarrow>
          (case vp_verify_webhook provider headers body of
             Inl e \<Rightarrow> (Inl e, db, [])
           | Inr event \<Rightarrow>
               (case receive_provider_event (ge_sha256 env) db0 db provider_code body event
                   (ge_clock env tick) of
                  Inl e \<Rightarrow> (Inl e, db, [])
                | Inr ((event_i, None), db) \<Rightarrow> (webhook_result_of db event_i, db, [])
                | Inr ((event_i, Some lock_token), db) \<Rightarrow>
                    (case apply_webhook env tick provider provider_code db event event_i lock_token of
                       (Inl e, db, deleted) \<Rightarrow> (Inl e, db, deleted)
                     | (Inr _, db, deleted) \<Rightarrow> (webhook_result_of db event_i, db, deleted)))))"

end
