(* ===== verification/ExecutionInv.thy ===== *)
theory ExecutionInv
  imports Execution
begin

text \<open>
  Whole passes of the execution service: each is a sequence of the transactions of the
  pipeline, so it keeps the pipeline's invariants whatever the provider answers, and the
  execute loop ends, since every further round has created an attempt and attempts are bounded.
\<close>

section \<open>Passes\<close>

definition pipeline_ok :: "database \<Rightarrow> bool" where
  "pipeline_ok db \<longleftrightarrow> jobs_ok db \<and> attempts_ok db"

definition attempted_jobs :: "database \<Rightarrow> uuid set" where
  "attempted_jobs db = at_job_id ` set (t_attempts db)"

text \<open>\<open>goes db db'\<close>: a sound way from \<open>db\<close> to \<open>db'\<close>.\<close>

definition goes :: "database \<Rightarrow> database \<Rightarrow> bool" where
  "goes db db' \<longleftrightarrow> pipeline_ok db' \<and> attempts_follow db db' \<and>
     attempted_jobs db' = attempted_jobs db \<and> length (t_attempts db) \<le> length (t_attempts db')"

definition context_named :: "database \<Rightarrow> attempt_context \<Rightarrow> bool" where
  "context_named db c \<longleftrightarrow>
     (\<exists>a. get_attempt db (ac_attempt_id c) = Some a \<and> at_job_id a = ac_job_id c)"

lemma goes_refl: "pipeline_ok db \<Longrightarrow> goes db db"
  by (simp add: goes_def attempts_follow_refl)

lemma goes_trans: "goes a b \<Longrightarrow> goes b c \<Longrightarrow> goes a c"
  by (auto simp: goes_def intro: attempts_follow_trans)

lemma goes_ok: "goes db db' \<Longrightarrow> pipeline_ok db'"
  by (simp add: goes_def)

lemma context_named_goes:
  assumes "context_named db c" and "goes db db'"
  shows "context_named db' c"
proof -
  obtain a where a: "get_attempt db (ac_attempt_id c) = Some a" "at_job_id a = ac_job_id c"
    using assms(1) by (auto simp: context_named_def)
  have "a \<in> set (t_attempts db)" "at_id a = ac_attempt_id c"
    using first_where_Some [OF a(1) [unfolded get_attempt_def]] by simp_all
  then obtain b where b: "b \<in> set (t_attempts db')" "attempt_grows a b"
    using assms(2) by (auto simp: goes_def attempts_follow_def)
  have "distinct (map at_id (t_attempts db'))"
    using assms(2) by (simp add: goes_def pipeline_ok_def attempts_ok_def)
  then have "get_attempt db' (ac_attempt_id c) = Some b"
    unfolding get_attempt_def
    by (rule first_where_key_eq [where k = at_id, OF _ b(1)])
      (use attempt_growsD(1) [OF b(2)] \<open>at_id a = ac_attempt_id c\<close> in simp)
  then show ?thesis using attempt_growsD(2) [OF b(2)] a(2) by (auto simp: context_named_def)
qed

lemma context_named_owned: "context_named db c \<Longrightarrow> context_owned db c"
  by (auto simp: context_named_def context_owned_def)

text \<open>Operations that change attempts only row by row.\<close>

lemma goes_grow:
  assumes "pipeline_ok db" and "jobs_ok db'" and "attempts_grow db db'"
  shows "goes db db'"
proof -
  have "map at_job_id ys = map at_job_id xs" if "list_all2 attempt_grows xs ys" for xs ys
    using that by induction (simp_all add: attempt_growsD)
  from this [OF assms(3) [unfolded attempts_grow_def]]
  have m: "map at_job_id (t_attempts db') = map at_job_id (t_attempts db)" .
  then have "attempted_jobs db' = attempted_jobs db"
    unfolding attempted_jobs_def by (metis list.set_map)
  moreover have "length (t_attempts db') = length (t_attempts db)" using map_eq_imp_length_eq [OF m] .
  ultimately show ?thesis
    using attempts_grow_ok [OF assms(3)] attempts_grow_follow [OF assms(3)] assms(1,2)
    by (simp add: goes_def pipeline_ok_def)
qed

lemma goes_same_jobs:
  "pipeline_ok db \<Longrightarrow> same_jobs db db' \<Longrightarrow> t_attempts db' = t_attempts db \<Longrightarrow> goes db db'"
  by (intro goes_grow same_jobs_ok [of db db']) (auto simp: pipeline_ok_def)

lemma goes_rows_kept: "pipeline_ok db \<Longrightarrow> rows_kept db db' \<Longrightarrow> goes db db'"
  by (rule goes_same_jobs) (simp_all add: rows_kept_def same_jobs_tables)

lemma pipeline_ids: "pipeline_ok db \<Longrightarrow> distinct (map at_id (t_attempts db))"
  by (simp add: pipeline_ok_def attempts_ok_def)

section \<open>Failing an attempt\<close>

lemma fail_attempt_jobs:
  assumes ok: "pipeline_ok db0" and named: "context_named db0 c"
    and f: "fail_attempt db0 c failure target result now = Inr (b, db')"
  shows "attempted_jobs db' = attempted_jobs db0 \<and>
    (if b then length (t_attempts db') = Suc (length (t_attempts db0))
     else length (t_attempts db') = length (t_attempts db0))"
proof -
  have grown: "attempted_jobs db2 = attempted_jobs db1 \<and> length (t_attempts db2) = length (t_attempts db1)"
    if "attempts_grow db1 db2" for db1 db2
  proof -
    have "map at_job_id ys = map at_job_id xs" if "list_all2 attempt_grows xs ys" for xs ys
      using that by induction (simp_all add: attempt_growsD)
    from this [OF that [unfolded attempts_grow_def]] show ?thesis
      unfolding attempted_jobs_def by (metis list.set_map map_eq_imp_length_eq)
  qed
  note ids = pipeline_ids [OF ok]
  from f show ?thesis
  proof (cases rule: fail_attemptE)
    case nothing
    then show ?thesis by simp
  next
    case (cancelled job attempt0 db attempt)
    from grow_snapshot [OF ids cancelled(2,3)] have "attempts_grow db0 db" by simp
    from grown [OF grow_cancel_terminal [OF this cancelled(5)]] cancelled(6) show ?thesis by simp
  next
    case (final job attempt0 db attempt db2 attempt1 db3 job3)
    have "attempts_grow db0 db2"
      using attempts_grow_trans grow_snapshot [OF ids final(2,3)] grow_attempt_failed [OF final(4)] by blast
    then have "attempts_grow db0 db'"
      using attempts_transition_job [OF final(5)] attempts_settle_released [OF final(6)]
      by (simp add: attempts_grow_def)
    from grown [OF this] final(7) show ?thesis by simp
  next
    case (retried job attempt0 db attempt db2 attempt1)
    have "attempts_grow db0 db2"
      using attempts_grow_trans grow_snapshot [OF ids retried(2,3)] grow_attempt_failed [OF retried(4)] by blast
    note g = grown [OF this]
    obtain i where rows: "t_attempts db' = t_attempts db2 @ [retry_attempt i (db_now db2) job attempt1]"
      by (rule create_retry_rows [OF retried(7)])
    have "job_id job \<in> attempted_jobs db0"
      using named retried(1,2) first_where_Some [OF retried(1) [unfolded get_job_def]]
        first_where_Some [OF retried(2) [unfolded get_attempt_def]]
      by (auto simp: context_named_def attempted_jobs_def intro: image_eqI [where x = attempt0])
    with g have "attempted_jobs db' = attempted_jobs db0"
      by (auto simp: attempted_jobs_def rows retry_attempt_def)
    then show ?thesis using g retried(8) by (simp add: rows)
  qed
qed

lemma failed_status_terminal:
  "target \<in> {None, Some ATT_TIMED_OUT} \<Longrightarrow> failed_status failure target \<in> ATTEMPT_TERMINAL_STATUSES"
  by (auto simp: failed_status_def ATTEMPT_TERMINAL_STATUSES_def)

lemma fail_attempt_goes:
  assumes "pipeline_ok db0" and "context_named db0 c" and "target \<in> {None, Some ATT_TIMED_OUT}"
    and "fail_attempt db0 c failure target result now = Inr (b, db')"
  shows "goes db0 db'" and "b \<Longrightarrow> length (t_attempts db0) < length (t_attempts db')"
  using fail_attempt_jobs [OF assms(1,2,4)] fail_attempt_ok [OF _ assms(4)] assms(1)
    fail_attempt_attempts [OF _ context_named_owned [OF assms(2)] assms(4) failed_status_terminal [OF assms(3)]]
  by (auto simp: goes_def pipeline_ok_def split: if_splits)

section \<open>Completing a result\<close>

lemma goes_commit:
  assumes "pipeline_ok db" and "commit_output db c published result valid now = Inr (o', db')"
  shows "goes db db'"
  using goes_grow [OF assms(1) commit_output_ok [OF _ assms(2)] grow_commit_output [OF pipeline_ids [OF assms(1)] assms(2)]]
    assms(1) by (simp add: pipeline_ok_def)

lemma goes_cancelled:
  assumes "pipeline_ok db" and "finish_cancelled db c result now = Inr db'"
  shows "goes db db'"
  using goes_grow [OF assms(1) cancel_transaction_ok [OF _ assms(2)] grow_finish_cancelled [OF pipeline_ids [OF assms(1)] assms(2)]]
    assms(1) by (simp add: pipeline_ok_def)

lemma goes_accepted:
  assumes "pipeline_ok db" and "record_submit_accepted db c p reconciled now = Inr db'"
  shows "goes db db'"
  using goes_grow [OF assms(1) record_submit_accepted_ok [OF _ assms(2)] grow_submit_accepted [OF pipeline_ids [OF assms(1)] assms(2)]]
    assms(1) by (simp add: pipeline_ok_def)

lemma goes_start_submit:
  assumes "pipeline_ok db" and "start_submit db c = (b, db')"
  shows "goes db db'"
  using goes_grow [OF assms(1) start_submit_ok [OF _ assms(2)]] grow_start_submit [of db c] assms
  by (simp add: pipeline_ok_def)

lemma goes_unknown: "pipeline_ok db \<Longrightarrow> goes db (record_submit_unknown db c)"
  by (rule goes_same_jobs [OF _ submit_unknown_same])
    (auto simp: record_submit_unknown_def add_same_state_event_def split: option.splits)

lemma goes_reconcile: "pipeline_ok db \<Longrightarrow> goes db (record_reconcile_pending db c)"
  by (rule goes_same_jobs [OF _ reconcile_pending_same])
    (auto simp: record_reconcile_pending_def add_same_state_event_def split: option.splits)

lemma goes_register:
  "pipeline_ok db \<Longrightarrow> register_artifact retention db job attempt key kind expires now = Inr db' \<Longrightarrow> goes db db'"
  using goes_rows_kept register_artifact_quiet by blast

lemma goes_reserve:
  "pipeline_ok db \<Longrightarrow> reserve_poll fmt p db i now = (r, db') \<Longrightarrow> goes db db'"
  by (rule goes_same_jobs, assumption, unfold reserve_poll_def, rule reserve_poll_same, assumption)
    (auto simp: reserve_poll_at_def Let_def split: option.splits if_splits)

lemma goes_mock_receive:
  assumes "pipeline_ok db"
  shows "mock_receive retention storage db job attempt output policy now = (r, db') \<Longrightarrow> goes db db'"
  using goes_refl [OF assms] goes_register [OF assms]
  by (auto simp: mock_receive_def split: option.splits sum.splits if_splits)

lemma goes_remote_receive:
  assumes "pipeline_ok db"
  shows "remote_receive retention storage max_bytes db job attempt output policy now = (r, db') \<Longrightarrow> goes db db'"
  using goes_refl [OF assms] goes_register [OF assms]
  by (auto simp: remote_receive_def Let_def split: sum.splits error.splits)

lemma goes_receive_output:
  assumes "pipeline_ok db"
  shows "receive_output env db c output now = (r, db') \<Longrightarrow> goes db db'"
  using goes_refl [OF assms] goes_mock_receive [OF assms] goes_remote_receive [OF assms]
  by (auto simp: receive_output_def Let_def split: sum.splits if_splits prod.splits)

text \<open>What a completion does: it goes, and if it asks for a retry there is a new attempt.\<close>

definition completes :: "database \<Rightarrow> completion \<Rightarrow> bool" where
  "completes db r \<longleftrightarrow> (case r of (answer, db', _) \<Rightarrow> goes db db' \<and>
     (answer = Inr ACT_RETRY \<longrightarrow> length (t_attempts db) < length (t_attempts db')))"

lemma completes_trans:
  "goes a b \<Longrightarrow> completes b r \<Longrightarrow> completes a r"
  by (auto simp: completes_def goes_def intro: attempts_follow_trans)

lemma completes_fail:
  assumes "pipeline_ok db" and "context_named db c"
  shows "completes db (failed_completion db c failure now)"
    and "completes db (fail_with_result db c failure result now)"
  using fail_attempt_goes [OF assms, of None] goes_refl [OF assms(1)]
  by (auto simp: completes_def failed_completion_def fail_with_result_def split: sum.splits)

lemma completes_output:
  assumes "pipeline_ok db" and "context_named db c"
    and "finish_output env db c output result now = (r, db', deleted)"
  shows "goes db db'"
proof -
  obtain received db1 where r: "receive_output env db c output now = (received, db1)" by fastforce
  note g = goes_receive_output [OF assms(1) r]
  note ok1 = goes_ok [OF g] and named1 = context_named_goes [OF assms(2) g]
  have "goes db1 db'"
    using assms(3) r goes_refl [OF ok1] fail_attempt_goes(1) [OF ok1 named1, of None] goes_commit [OF ok1]
    by (auto simp: finish_output_def Let_def split: sum.splits receipt_error.splits prod.splits commit_outcome.splits)
  with g show ?thesis by (rule goes_trans)
qed

lemma completes_status:
  assumes "pipeline_ok db" and "context_named db c"
  shows "completes db (complete_status env db c result now)"
  using completes_fail [OF assms] completes_output [OF assms] goes_cancelled [OF assms(1)] goes_refl [OF assms(1)]
  by (auto simp: complete_status_def Let_def completes_def split: option.splits sum.splits prod.splits)

lemma completes_result:
  assumes "pipeline_ok db" and "context_named db c"
  shows "completes db (complete_provider_result env db c result now)"
proof -
  have after: "completes db1 (case cost_source_failure c result of
      Some failure \<Rightarrow> failed_completion db1 c failure now | None \<Rightarrow> complete_status env db1 c result now)"
    if "goes db db1" for db1
    using completes_fail [OF goes_ok [OF that] context_named_goes [OF assms(2) that]]
      completes_status [OF goes_ok [OF that] context_named_goes [OF assms(2) that]]
    by (simp split: option.split)
  show ?thesis
    using after [OF goes_refl [OF assms(1)]] completes_fail [OF assms] goes_refl [OF assms(1)]
      completes_trans [OF goes_register [OF assms(1)] after [OF goes_register [OF assms(1)]]]
    by (auto simp: complete_provider_result_def Let_def completes_def [of db "(Inl _, _)"]
        split: option.split sum.split error.split)
qed

lemma completes_context:
  assumes "pipeline_ok db" and "context_named db c"
  shows "completes db (apply_to_context env db c result now)"
  using completes_result [OF assms] goes_refl [OF assms(1)] goes_reconcile [OF assms(1), of c]
  by (simp add: apply_to_context_def completes_def)

text \<open>Contexts read from the rows name an attempt with its job.\<close>

lemma context_for_fields:
  "context_for job attempt = Inr (Some c) \<Longrightarrow> ac_job_id c = job_id job \<and> ac_attempt_id c = at_id attempt"
  by (auto simp: context_for_def split: option.splits if_splits)

lemma named_row:
  assumes "distinct (map at_id (t_attempts db))" and "a \<in> set (t_attempts db)"
    and "get_job db (at_job_id a) = Some job" and "context_for job a = Inr (Some c)"
  shows "context_named db c"
proof -
  note f = context_for_fields [OF assms(4)]
  have "get_attempt db (ac_attempt_id c) = Some a"
    unfolding get_attempt_def by (rule first_where_key_eq [where k = at_id, OF assms(1,2)]) (use f in simp)
  moreover have "job_id job = at_job_id a"
    using first_where_Some [OF assms(3) [unfolded get_job_def]] by simp
  ultimately show ?thesis using f by (auto simp: context_named_def)
qed

lemma latest_attempt_mem: "latest_attempt db job = Some a \<Longrightarrow> a \<in> set (t_attempts db) \<and> at_job_id a = job"
proof -
  assume l: "latest_attempt db job = Some a"
  then have "a \<in> set (sort_key (\<lambda>a. - at_attempt_no a) (select_where (\<lambda>a. at_job_id a = job) (t_attempts db)))"
    by (cases "sort_key (\<lambda>a. - at_attempt_no a) (select_where (\<lambda>a. at_job_id a = job) (t_attempts db))")
      (simp_all add: latest_attempt_def del: set_sort)
  then show ?thesis by (simp add: select_where_def)
qed

lemma load_active_named:
  assumes "pipeline_ok db" and "load_active_attempt db job = Inr (Some c)"
  shows "context_named db c"
  using assms(2) named_row [OF pipeline_ids [OF assms(1)]]
  by (auto simp: load_active_attempt_def split: option.splits if_splits dest!: latest_attempt_mem)

lemma load_cancellable_named:
  assumes "pipeline_ok db" and "load_cancellable_attempt db job i = Inr (Some c)"
  shows "context_named db c"
  using assms(2) named_row [OF pipeline_ids [OF assms(1)]]
  by (auto simp: load_cancellable_attempt_def get_attempt_def split: option.splits if_splits
      dest: first_where_Some)

lemma load_by_provider_job_named:
  assumes "pipeline_ok db" and "load_attempt_by_provider_job db code p = Inr (Some c)"
  shows "context_named db c"
  using assms(2) named_row [OF pipeline_ids [OF assms(1)]]
  by (auto simp: load_attempt_by_provider_job_def split: option.splits dest: first_where_Some)

lemma completes_apply:
  assumes ok: "pipeline_ok db" and named: "context_named db c"
  shows "completes db (apply_provider_result env db c result now)"
proof (cases "pl_provider_job_id result = None \<or> pl_provider_job_id result = Some [] \<or> ac_provider_job_id c \<noteq> None")
  case True
  then have "apply_provider_result env db c result now = apply_to_context env db c result now"
    by (auto simp: apply_provider_result_def split: option.splits list.splits)
  with completes_context [OF ok named] show ?thesis by simp
next
  case False
  then obtain x xs where p: "pl_provider_job_id result = Some (x # xs)" "ac_provider_job_id c = None"
    by (auto simp: neq_Nil_conv)
  show ?thesis
  proof (cases "record_submit_accepted db c (x # xs) True now")
    case (Inl e)
    with p goes_refl [OF ok] show ?thesis by (simp add: apply_provider_result_def completes_def)
  next
    case (Inr db1)
    note g = goes_accepted [OF ok Inr]
    have "completes db1 (case load_attempt_by_provider_job db1 (ac_provider_code c) (x # xs) of
        Inl e \<Rightarrow> (Inl e, db1, []) | Inr None \<Rightarrow> (Inr ACT_WAIT, db1, [])
      | Inr (Some refreshed) \<Rightarrow> apply_to_context env db1 refreshed result now)"
      using completes_context [OF goes_ok [OF g] load_by_provider_job_named [OF goes_ok [OF g]]]
        goes_refl [OF goes_ok [OF g]]
      by (auto simp: completes_def [of _ "(_, _, [])"] split: sum.split option.split)
    from completes_trans [OF g this] show ?thesis using p Inr by (simp add: apply_provider_result_def)
  qed
qed

section \<open>Rounds\<close>

text \<open>A round goes, and goes on only after a new attempt was made.\<close>

definition rounds :: "database \<Rightarrow> round_end \<times> database \<Rightarrow> bool" where
  "rounds db r \<longleftrightarrow> goes db (snd r) \<and>
     (fst r = Again \<longrightarrow> length (t_attempts db) < length (t_attempts (snd r)))"

lemma rounds_trans: "goes a b \<Longrightarrow> rounds b r \<Longrightarrow> rounds a r"
  by (auto simp: rounds_def goes_def intro: attempts_follow_trans)

lemma rounds_here: "pipeline_ok db \<Longrightarrow> e \<noteq> Again \<Longrightarrow> rounds db (e, db)"
  by (simp add: rounds_def goes_refl)

lemma step_not_again [simp]: "step b n \<noteq> Again" "wait_step p n \<noteq> Again"
  "step b n \<noteq> Go_on" "wait_step p n \<noteq> Go_on"
  by (auto simp: step_def wait_step_def split: sum.split)

lemma rounds_failure:
  assumes "pipeline_ok db" and "context_named db c" and "target \<in> {None, Some ATT_TIMED_OUT}"
  shows "rounds db (after_failure (fail_attempt db c failure target result now) db n)"
  using fail_attempt_goes [OF assms] goes_refl [OF assms(1)]
  by (auto simp: after_failure_def rounds_def split: sum.splits)

lemma rounds_answer:
  assumes "pipeline_ok db" and "context_named db c"
  shows "rounds db (record_answer db c answer now)"
  using rounds_failure [OF assms, of None] goes_unknown [OF assms(1), of c] goes_refl [OF assms(1)]
    goes_accepted [OF assms(1)]
  by (auto simp: record_answer_def rounds_def split: submit_answer.split option.split sum.split)

lemma goes_uuid4: "pipeline_ok db \<Longrightarrow> uuid4 db = (i, db') \<Longrightarrow> goes db db'"
  by (rule goes_rows_kept) (auto simp: uuid4_def rows_kept_def)

lemma goes_submit_request:
  assumes "pipeline_ok db" and "submit_request_for env db c now = (r, db')"
  shows "goes db db'"
proof -
  obtain fresh db1 where u: "uuid4 db = (fresh, db1)" by fastforce
  note g = goes_uuid4 [OF assms(1) u]
  have "db' = db \<or> db' = db1 \<or> (\<exists>key expires. register_artifact (se_claim_retention env) db1 (ac_job_id c)
      (ac_attempt_id c) key ''SOURCE'' expires now = Inr db')"
    using assms(2) u
    by (auto simp: submit_request_for_def Let_def split: option.splits sum.splits if_splits)
  then show ?thesis
    using goes_refl [OF assms(1)] g goes_trans [OF g goes_register [OF goes_ok [OF g]]] by auto
qed

lemma rounds_submit:
  assumes ok: "pipeline_ok db" and "submit_phase env tick provider db job_i context = r"
  shows "rounds db r"
proof (cases "ac_status context = ATT_CREATED")
  case False
  with assms rounds_here show ?thesis by (auto simp: submit_phase_def)
next
  case True
  obtain started db1 where st: "start_submit db context = (started, db1)" by fastforce
  note g = goes_start_submit [OF ok st]
  note ok1 = goes_ok [OF g]
  have "rounds db1 (case load_active_attempt db1 job_i of
      Inl e \<Rightarrow> (Raise e, db1) | Inr None \<Rightarrow> (step True 0, db1)
    | Inr (Some context) \<Rightarrow>
        (case submit_request_for (ge_submission env) db1 context (ge_clock env tick) of
           (Inl e, db) \<Rightarrow> record_answer db context (Submit_raised e) (ge_clock env tick)
         | (Inr request, db) \<Rightarrow> record_answer db context (vp_submit provider request) (ge_clock env tick)))"
  proof (cases "\<exists>c. load_active_attempt db1 job_i = Inr (Some c)")
    case True
    then obtain c where c: "load_active_attempt db1 job_i = Inr (Some c)" by blast
    obtain answer db2 where s: "submit_request_for (ge_submission env) db1 c (ge_clock env tick) = (answer, db2)"
      by fastforce
    note g2 = goes_submit_request [OF ok1 s]
    note a = rounds_answer [OF goes_ok [OF g2] context_named_goes [OF load_active_named [OF ok1 c] g2]]
    show ?thesis using rounds_trans [OF g2 a] c s by (cases answer) simp_all
  next
    case False
    with rounds_here [OF ok1] show ?thesis by (auto split: sum.split option.split)
  qed
  from rounds_trans [OF g this] rounds_trans [OF g rounds_here [OF ok1]] show ?thesis
    using True st assms(2) by (auto simp: submit_phase_def Let_def)
qed

lemma rounds_poll:
  assumes ok: "pipeline_ok db" and named: "context_named db context"
    and "poll_phase env tick provider db context = (e, db', deleted)"
  shows "rounds db (e, db')"
proof -
  let ?now = "ge_clock env tick"
  obtain r db1 where rp: "reserve_poll (ge_isoformat env) (ge_polling env) db (ac_attempt_id context) ?now = (r, db1)"
    by fastforce
  note g = goes_reserve [OF ok rp]
  note ok1 = goes_ok [OF g] and named1 = context_named_goes [OF named g]
  have "rounds db1 (e, db')"
  proof (cases "pv_exhausted r")
    case True
    then have "after_failure (fail_attempt db1 context exhausted_failure (Some ATT_TIMED_OUT) None ?now)
        db1 (pv_poll_count r) = (e, db')"
      using assms(3) rp by (simp add: poll_phase_def Let_def split: prod.splits)
    with rounds_failure [OF ok1 named1, of "Some ATT_TIMED_OUT" exhausted_failure None ?now "pv_poll_count r"]
    show ?thesis by simp
  next
    case False
    show ?thesis
    proof (cases "pv_acquired r")
      case False
      with \<open>\<not> pv_exhausted r\<close> assms(3) rp rounds_here [OF ok1] show ?thesis
        by (auto simp: poll_phase_def Let_def)
    next
      case True
      show ?thesis
      proof (cases "vp_poll provider (context_provider_attempt context)")
        case (Inl x)
        then have "e = wait_step (ge_polling env) (pv_poll_count r)" "db' = record_reconcile_pending db1 context"
          using \<open>\<not> pv_exhausted r\<close> True assms(3) rp by (auto simp: poll_phase_def Let_def)
        with goes_reconcile [OF ok1] show ?thesis by (simp add: rounds_def)
      next
        case (Inr result)
        let ?res = "with_terminal_cost (vp_read_cost provider) context result"
        obtain answer db2 ks where ap: "apply_provider_result (ge_execution env) db1 context ?res ?now = (answer, db2, ks)"
          by (metis prod_cases3)
        from completes_apply [OF ok1 named1, of "ge_execution env" ?res ?now]
        have cm: "goes db1 db2 \<and> (answer = Inr ACT_RETRY \<longrightarrow> length (t_attempts db1) < length (t_attempts db2))"
          by (simp add: completes_def ap)
        have "db' = db2 \<and> (e = Again \<longrightarrow> answer = Inr ACT_RETRY)"
          using \<open>\<not> pv_exhausted r\<close> True Inr assms(3) rp ap
          by (auto simp: poll_phase_def Let_def split: sum.splits provider_result_action.splits)
        with cm show ?thesis by (simp add: rounds_def)
      qed
    qed
  qed
  with g show ?thesis by (rule rounds_trans)
qed

lemma after_failure_not_go_on: "after_failure r db n \<noteq> (Go_on, db')"
  by (auto simp: after_failure_def split: sum.split)

lemma poll_phase_not_go_on: "fst (poll_phase env tick provider db context) \<noteq> Go_on"
  using after_failure_not_go_on
  by (auto simp: poll_phase_def Let_def split: prod.splits sum.splits provider_result_action.splits)

lemma rounds_execute:
  assumes ok: "pipeline_ok db" and "execute_round env tick db job_i = (e, db', deleted)"
  shows "rounds db (e, db') \<and> e \<noteq> Go_on"
proof (cases "\<exists>c provider. load_active_attempt db job_i = Inr (Some c) \<and>
    ge_provider env tick (ac_provider_code c) = Inr provider")
  case False
  with assms(2) rounds_here [OF ok] show ?thesis
    by (auto simp: execute_round_def split: sum.splits option.splits)
next
  case True
  then obtain c provider where c: "load_active_attempt db job_i = Inr (Some c)"
    "ge_provider env tick (ac_provider_code c) = Inr provider" by blast
  obtain e1 db1 where s: "submit_phase env tick provider db job_i c = (e1, db1)" by fastforce
  note r = rounds_submit [OF ok s]
  show ?thesis
  proof (cases "e1 = Go_on")
    case False
    with assms(2) c s have "(e, db') = (e1, db1)" by (auto simp: execute_round_def split: round_end.splits)
    with r False show ?thesis by simp
  next
    case True
    from r have g: "goes db db1" by (simp add: rounds_def)
    note ok1 = goes_ok [OF g]
    have "rounds db1 (e, db') \<and> e \<noteq> Go_on"
    proof (cases "\<exists>c1. load_active_attempt db1 job_i = Inr (Some c1) \<and>
        ac_status c1 \<in> {ATT_SUBMITTING, ATT_SUBMITTED, ATT_RUNNING}")
      case True
      then obtain c1 where c1: "load_active_attempt db1 job_i = Inr (Some c1)"
        "ac_status c1 \<in> {ATT_SUBMITTING, ATT_SUBMITTED, ATT_RUNNING}" by blast
      then have "poll_phase env tick provider db1 c1 = (e, db', deleted)"
        using assms(2) c s \<open>e1 = Go_on\<close> by (auto simp: execute_round_def)
      with rounds_poll [OF ok1 load_active_named [OF ok1 c1(1)]] poll_phase_not_go_on show ?thesis
        by (metis fst_conv)
    next
      case False
      with assms(2) c s \<open>e1 = Go_on\<close> rounds_here [OF ok1] show ?thesis
        by (auto simp: execute_round_def split: sum.splits option.splits if_splits)
    qed
    with rounds_trans [OF g] show ?thesis by blast
  qed
qed

section \<open>The loop ends\<close>

lemma attempts_total:
  assumes "attempts_ok db"
  shows "length (t_attempts db) \<le> 2 * card (attempted_jobs db)"
proof -
  have count: "count_list (map at_job_id xs) j = length (filter (\<lambda>a. at_job_id a = j) xs)" for xs j
    by (induction xs) auto
  have "length (t_attempts db) = sum (count_list (map at_job_id (t_attempts db))) (attempted_jobs db)"
    using sum_count_set [of "map at_job_id (t_attempts db)" "attempted_jobs db"]
    by (simp add: attempted_jobs_def)
  also have "\<dots> \<le> sum (\<lambda>_. 2) (attempted_jobs db)"
    using assms by (intro sum_mono)
      (simp add: count attempts_ok_def attempts_of_def MAX_ATTEMPTS_PER_CANDIDATE_def)
  finally show ?thesis by simp
qed

text \<open>
  C30. \<open>execute\<close> returns: from a sound state its loop ends after finitely many rounds, whatever
  the provider answers in each of them, and leaves a sound state, in which no attempt was lost
  and no attempt was made for a job that had none.
\<close>

theorem execute_returns:
  assumes "jobs_ok db" and "attempts_ok db"
  shows "\<exists>answer db' ks. execute env tick db job_i deleted = Some (answer, db', ks) \<and>
    jobs_ok db' \<and> attempts_ok db' \<and> attempts_follow db db' \<and>
    attempted_jobs db' = attempted_jobs db"
proof -
  have "\<exists>answer db' ks. execute env tick db job_i deleted = Some (answer, db', ks) \<and> goes db db'"
    if "pipeline_ok db" for db deleted tick
    using that
  proof (induction "2 * card (attempted_jobs db) - length (t_attempts db)"
      arbitrary: db deleted tick rule: less_induct)
    case less
    obtain e db1 ks where r: "execute_round env tick db job_i = (e, db1, ks)" by (metis prod_cases3)
    from rounds_execute [OF less.prems r] have g: "goes db db1"
      and more: "e = Again \<Longrightarrow> length (t_attempts db) < length (t_attempts db1)" and "e \<noteq> Go_on"
      by (simp_all add: rounds_def)
    show ?case
    proof (cases "e = Again")
      case False
      with r g \<open>e \<noteq> Go_on\<close> show ?thesis by (subst execute.simps) (cases e; simp)
    next
      case True
      have "attempted_jobs db1 = attempted_jobs db" using g by (simp add: goes_def)
      moreover have "length (t_attempts db1) \<le> 2 * card (attempted_jobs db1)"
        using attempts_total goes_ok [OF g] by (simp add: pipeline_ok_def)
      ultimately have "2 * card (attempted_jobs db1) - length (t_attempts db1) <
          2 * card (attempted_jobs db) - length (t_attempts db)"
        using more [OF True] by simp
      from less.hyps [OF this goes_ok [OF g], of "Suc tick" "deleted @ ks"]
      obtain answer db' ks' where "execute env (Suc tick) db1 job_i (deleted @ ks) = Some (answer, db', ks')"
        "goes db1 db'" by blast
      moreover have "execute env tick db job_i deleted = execute env (Suc tick) db1 job_i (deleted @ ks)"
        using r True by (subst execute.simps) simp
      ultimately show ?thesis using goes_trans [OF g] by auto
    qed
  qed
  from this [of db tick deleted] assms show ?thesis by (auto simp: goes_def pipeline_ok_def)
qed

text \<open>A provider that accepts a submission and then fails every poll.\<close>

definition sample_provider :: video_provider where
  "sample_provider = \<lparr>vp_submit = (\<lambda>_. Submitted \<lparr>sb_disposition = SUBMIT_ACCEPTED,
       sb_provider_job_id = Some ''pj-1''\<rparr>),
     vp_poll = (\<lambda>_. Inl (RuntimeError ''unreachable'')), vp_read_cost = (\<lambda>_. Inr None),
     vp_cancel = (\<lambda>_. Inr mock_cancel),
     vp_verify_webhook = (\<lambda>_ _. Inr sample_event)\<rparr>"

definition sample_environment :: generation_env where
  "sample_environment =
     (let codec = \<lparr>cc_secret = replicate 32 CHR ''k'', cc_mac = (\<lambda>_ text. text), cc_loads = (\<lambda>_. None)\<rparr> in
      \<lparr>ge_execution = \<lparr>ee_retention = minutes 60,
          ee_storage = \<lparr>os_stat = (\<lambda>_. Inl (Storage_os ''down'')), os_open = (\<lambda>_. Inl (Storage_os ''down'')),
            os_write_claim = (\<lambda>_. Inl (Storage_os ''down'')), os_put = (\<lambda>_ _ _. Inl (Storage_os ''down''))\<rparr>\<rparr>,
       ge_submission = \<lparr>se_uuid5 = (\<lambda>_. 0), se_routes = \<lparr>rr_routes = [MOCK_ROUTE],
            rr_enabled = (\<lambda>_. True), rr_active_key = ''mock_video_v1''\<rparr>,
          se_storage_claims = codec, se_callback_claims = codec, se_claim_ttl = minutes 5,
          se_claim_retention = minutes 60, se_store = Map.empty\<rparr>,
       ge_polling = default_polling_policy, ge_isoformat = int_str, ge_sha256 = (\<lambda>b. b),
       ge_clock = (\<lambda>n. seconds (int n)), ge_provider = (\<lambda>_ _. Inr sample_provider)\<rparr>)"

theorem execute_returns_witness:
  "\<exists>answer db' ks. execute sample_environment 0 pipeline_bank 1 [] = Some (answer, db', ks) \<and>
     jobs_ok db' \<and> attempted_jobs db' = {1}"
proof -
  have "jobs_ok pipeline_bank" by code_simp
  moreover have "attempted_jobs pipeline_bank = {1}"
    by (simp add: attempted_jobs_def pipeline_bank_def sample_attempt_def)
  ultimately show ?thesis
    using execute_returns [OF _ attempts_ok_sample, of sample_environment 0 1 "[]"] by auto
qed

section \<open>Cancelling and webhooks\<close>

lemma goes_request_cancel:
  assumes ok: "pipeline_ok db" and "request_cancel env tick db job_i attempt_i key = (r, db', ks)"
  shows "goes db db'"
proof (cases "\<exists>c provider. (case attempt_i of None \<Rightarrow> load_active_attempt db job_i
      | Some a \<Rightarrow> load_cancellable_attempt db job_i a) = Inr (Some c) \<and>
    ge_provider env tick (ac_provider_code c) = Inr provider")
  case False
  with assms(2) goes_refl [OF ok] show ?thesis
    by (auto simp: request_cancel_def split: sum.splits option.splits)
next
  case True
  then obtain c provider where c: "(case attempt_i of None \<Rightarrow> load_active_attempt db job_i
      | Some a \<Rightarrow> load_cancellable_attempt db job_i a) = Inr (Some c)"
    "ge_provider env tick (ac_provider_code c) = Inr provider" by blast
  have named: "context_named db c"
    using c(1) load_active_named [OF ok] load_cancellable_named [OF ok] by (auto split: option.splits)
  let ?t = "with_terminal_cost (vp_read_cost provider) c (poll_result_of PS_CANCELLED (ac_provider_job_id c))"
  obtain answer db2 deleted where a: "apply_provider_result (ge_execution env) db c ?t (ge_clock env tick) =
      (answer, db2, deleted)"
    by (metis prod_cases3)
  have "goes db db2"
    using completes_apply [OF ok named, of "ge_execution env" ?t "ge_clock env tick"] by (simp add: a completes_def)
  moreover have "db' = db \<or> db' = db2"
    using assms(2) c a by (auto simp: request_cancel_def Let_def split: sum.splits if_splits)
  ultimately show ?thesis using goes_refl [OF ok] by auto
qed

lemma goes_reset: "pipeline_ok db \<Longrightarrow> goes db (reset_provider_event db i t)"
  by (rule goes_rows_kept) (simp_all add: reset_provider_event_def rows_kept_def)

lemma goes_finish: "pipeline_ok db \<Longrightarrow> goes db (finish_provider_event db i t c now)"
  by (rule goes_rows_kept) (simp_all add: finish_provider_event_def rows_kept_def)

lemma goes_apply_webhook:
  assumes ok: "pipeline_ok db"
    and "apply_webhook env tick provider code db event event_i tok = (r, db', ks)"
  shows "goes db db'"
proof (cases "\<exists>c result. load_attempt_by_provider_job db code (pe_provider_job_id event) = Inr (Some c) \<and>
    result_for_event (vp_poll provider) c event = Inr result")
  case False
  with assms(2) goes_refl [OF ok] goes_reset [OF ok] show ?thesis
    by (auto simp: apply_webhook_def Let_def split: sum.splits option.splits)
next
  case True
  then obtain c result where c: "load_attempt_by_provider_job db code (pe_provider_job_id event) = Inr (Some c)"
    "result_for_event (vp_poll provider) c event = Inr result" by blast
  let ?t = "with_terminal_cost (vp_read_cost provider) c result"
  obtain answer db2 deleted where a: "apply_provider_result (ge_execution env) db c ?t (ge_clock env tick) =
      (answer, db2, deleted)"
    by (metis prod_cases3)
  have g: "goes db db2"
    using completes_apply [OF ok load_by_provider_job_named [OF ok c(1)], of "ge_execution env" ?t "ge_clock env tick"]
    by (simp add: a completes_def)
  have "db' = db2 \<or> db' = reset_provider_event db2 event_i tok \<or>
      db' = finish_provider_event db2 event_i tok c (ge_clock env tick)"
    using assms(2) c a by (auto simp: apply_webhook_def Let_def split: sum.splits if_splits)
  then show ?thesis
    using g goes_trans [OF g goes_reset [OF goes_ok [OF g]]] goes_trans [OF g goes_finish [OF goes_ok [OF g]]]
    by auto
qed

lemma rows_kept_receive:
  assumes "receive_provider_event sha256 db0 db code body event now = Inr (x, db')"
  shows "rows_kept db db'"
  using assms
  by (auto simp: receive_provider_event_def inbox_row_def uuid4_def Let_def and_then_Inr_iff rows_kept_def
      split: option.splits if_splits)

lemma goes_webhook:
  assumes ok: "pipeline_ok db" and "handle_webhook env tick db0 db code headers body = (r, db', ks)"
  shows "goes db db'"
proof (cases "\<exists>provider event event_i tok db1. ge_provider env tick code = Inr provider \<and>
    vp_verify_webhook provider headers body = Inr event \<and>
    receive_provider_event (ge_sha256 env) db0 db code body event (ge_clock env tick) = Inr ((event_i, tok), db1)")
  case False
  with assms(2) goes_refl [OF ok] show ?thesis
    by (auto simp: handle_webhook_def split: sum.splits)
next
  case True
  then obtain provider event event_i tok db1 where p: "ge_provider env tick code = Inr provider"
    "vp_verify_webhook provider headers body = Inr event"
    "receive_provider_event (ge_sha256 env) db0 db code body event (ge_clock env tick) = Inr ((event_i, tok), db1)"
    by blast
  have g: "goes db db1" by (rule goes_rows_kept [OF ok rows_kept_receive [OF p(3)]])
  have "goes db1 db'"
  proof (cases tok)
    case None
    with assms(2) p goes_refl [OF goes_ok [OF g]] show ?thesis by (simp add: handle_webhook_def)
  next
    case (Some t)
    obtain r2 db2 ks2 where w: "apply_webhook env tick provider code db1 event event_i t = (r2, db2, ks2)"
      by (metis prod_cases3)
    from goes_apply_webhook [OF goes_ok [OF g] w] assms(2) p Some w show ?thesis
      by (auto simp: handle_webhook_def split: sum.splits)
  qed
  with g show ?thesis by (rule goes_trans)
qed

text \<open>
  C31. The other entry points are sound too: a cancellation and a webhook, whatever the
  provider answers and whether they return or raise, leave jobs whose money and log follow
  their status, and no attempt loses its history.
\<close>

theorem entry_points_sound:
  assumes "jobs_ok db" and "attempts_ok db"
    and "db' \<in> {fst (snd (request_cancel env tick db job_i attempt_i key)),
      fst (snd (handle_webhook env tick db0 db code headers body))}"
  shows "jobs_ok db' \<and> attempts_ok db' \<and> attempts_follow db db'"
proof -
  have ok: "pipeline_ok db" using assms(1,2) by (simp add: pipeline_ok_def)
  have "goes db db'"
    using assms(3) goes_request_cancel [OF ok] goes_webhook [OF ok] by (metis insertE prod.collapse singletonD)
  then show ?thesis by (simp add: goes_def pipeline_ok_def)
qed

theorem entry_points_sound_witness:
  "\<exists>r db' ks. handle_webhook sample_environment 0 pipeline_bank pipeline_bank ''mock'' Map.empty ''body'' =
     (r, db', ks) \<and> jobs_ok db' \<and> attempts_follow pipeline_bank db'"
proof -
  have "jobs_ok pipeline_bank" by code_simp
  from entry_points_sound [OF this attempts_ok_sample insertI2, OF singletonI,
      of sample_environment 0 pipeline_bank "''mock''" Map.empty "''body''"]
  show ?thesis by (metis prod.collapse)
qed

end
