(* ===== verification/RequestInv.thy ===== *)
theory RequestInv
  imports ExecutionInv
begin

text \<open>
  The request a submission sends fits the contract the worker checks: composition of the
  claim issuers, the routes and the fixed worker contract of provider.py.
\<close>

lemma claim_char_alphabet: "c \<in> set b64_alphabet \<Longrightarrow> claim_char c"
proof -
  have "list_all claim_char b64_alphabet" by code_simp
  then show "c \<in> set b64_alphabet \<Longrightarrow> claim_char c" by (simp add: list_all_iff)
qed

lemma claim_chars: "list_all claim_char (b64_encode s)"
  using b64_encode_alphabet claim_char_alphabet by (auto simp: list_all_iff)

lemma b64_encode_Nil: "b64_encode s = [] \<longleftrightarrow> s = []"
  by (cases s rule: b64_encode.cases) (auto simp: Let_def)

lemma signed_claim_token:
  assumes "a \<noteq> []" and "b \<noteq> []"
  shows "signed_claim (b64_encode a @ CHR ''.'' # b64_encode b)"
proof -
  have dot: "\<forall>c \<in> set (b64_encode a). c \<noteq> CHR ''.''" using b64_no_dot [of a] by blast
  then have "takeWhile (\<lambda>c. c \<noteq> CHR ''.'') (b64_encode a @ CHR ''.'' # b64_encode b) = b64_encode a"
    "dropWhile (\<lambda>c. c \<noteq> CHR ''.'') (b64_encode a @ CHR ''.'' # b64_encode b) = CHR ''.'' # b64_encode b"
    by (simp_all add: takeWhile_append2 dropWhile_append2)
  then show ?thesis using assms by (simp add: signed_claim_def claim_chars b64_encode_Nil)
qed

lemma contains_chars: "contains p s \<Longrightarrow> set p \<subseteq> set s"
proof (induction s)
  case (Cons c s)
  show ?case
  proof (cases "take (length p) (c # s) = p")
    case True
    then show ?thesis using set_take_subset [of "length p" "c # s"] by simp
  qed (use Cons in auto)
qed simp

lemma no_scheme: "\<not> contains ''://'' (b64_encode a @ CHR ''.'' # b64_encode b)"
proof
  assume "contains ''://'' (b64_encode a @ CHR ''.'' # b64_encode b)"
  from contains_chars [OF this] have "CHR '':'' \<in> set (b64_encode a) \<or> CHR '':'' \<in> set (b64_encode b)"
    by auto
  then have "CHR '':'' \<in> set b64_alphabet" using b64_encode_alphabet by blast
  then show False by (simp add: b64_alphabet_def)
qed

text \<open>A claim the worker accepts.\<close>

definition worker_claim :: "string \<Rightarrow> bool" where
  "worker_claim c \<longleftrightarrow> \<not> contains ''://'' c \<and> signed_claim c"

lemma canonical_body: "canonical (JObj ms) \<noteq> []"
  by simp

lemma worker_claim_issued:
  assumes "issue_claim codec operation key ttl mime_type max_bytes now = Inr claim"
    and "\<And>s t. cc_mac codec s t \<noteq> []"
  shows "worker_claim (sc_token claim)"
proof -
  obtain ms where t: "sc_token claim = signed_text codec (b64_encode (canonical (JObj ms)))"
    using assms(1) by (auto simp: issue_claim_def and_then_Inr_iff Let_def claim_body_def
        simp del: canonical.simps split: if_splits)
  show ?thesis
    unfolding worker_claim_def t signed_text_def
    using no_scheme signed_claim_token [OF canonical_body assms(2)] by blast
qed

lemma worker_claim_callback:
  assumes "callback_issue codec job attempt route ttl now = Inr token"
    and "\<And>s t. cc_mac codec s t \<noteq> []"
  shows "worker_claim token"
proof -
  obtain ms where t: "token = callback_token codec (canonical (JObj ms))"
    using assms(1) by (auto simp: callback_issue_def callback_body_def simp del: canonical.simps split: if_splits)
  show ?thesis
    unfolding worker_claim_def t callback_token_def
    using no_scheme signed_claim_token [OF canonical_body assms(2)] by blast
qed

lemma worker_claim_input:
  assumes "input_claim_of env context now = Inr (Some token)"
    and "\<And>s t. cc_mac (se_storage_claims env) s t \<noteq> []"
  shows "worker_claim token"
  using assms(1) worker_claim_issued [OF _ assms(2)]
  by (auto simp: input_claim_of_def read_claim_def and_then_Inr_iff split: option.splits)


text \<open>A job with a reference on the simulated route.\<close>

definition request_codec :: claim_codec where
  "request_codec = \<lparr>cc_secret = replicate 32 CHR ''k'', cc_mac = (\<lambda>_ _. ''m''), cc_loads = (\<lambda>_. None)\<rparr>"

definition request_env :: submission_env where
  "request_env = \<lparr>se_uuid5 = (\<lambda>_. 5), se_routes = \<lparr>rr_routes = [SIMULATED_RUNPOD_ROUTE],
       rr_enabled = (\<lambda>_. True), rr_active_key = ''runpod_simulated_v1''\<rparr>,
     se_storage_claims = request_codec, se_callback_claims = request_codec,
     se_claim_ttl = minutes 5, se_claim_retention = minutes 60, se_store = [''a/b'' \<mapsto> ''image'']\<rparr>"

definition request_context :: attempt_context where
  "request_context = sample_context\<lparr>ac_provider_code := ''runpod-simulator'',
     ac_workflow_version := ''fast_wan_i2v_720_v1'', ac_route_candidate_id := Some 5,
     ac_reference_object_key := Some ''a/b''\<rparr>"

definition request_db :: database where
  "request_db = sample_db [sample_job 1 JOB_ROUTING] [sample_attempt 7 1 ATT_SUBMITTING]"

lemma valid_key_ok: "is_ok (valid_object_key k) \<Longrightarrow> valid_object_key k = Inr k"
  by (auto simp: valid_object_key_def split: if_splits)

lemma request_sample: "is_ok (fst (submit_request_for request_env request_db request_context 0))"
proof -
  let ?c = request_context
  obtain tok where i: "input_claim_of request_env ?c 0 = Inr (Some tok)"
  proof -
    have "valid_object_key ''a/b'' = Inr ''a/b''" by (rule valid_key_ok) code_simp
    with that show ?thesis
      by (simp add: input_claim_of_def read_claim_def storage_stat_def issue_claim_def Let_def
          request_env_def request_context_def minutes_def seconds_def MAX_CLAIM_TTL_def)
  qed
  obtain fresh db1 where u: "uuid4 request_db = (fresh, db1)" by fastforce
  let ?ns = "''provider-outputs/'' @ uuid_str (ac_job_id ?c) @ ''/'' @ uuid_str (ac_attempt_id ?c)"
  let ?key = "?ns @ ''/'' @ uuid_hex (fst (uuid4 request_db)) @ ''.mp4''"
  have "valid_namespace ?ns = Inr ?ns" by code_simp
  moreover have "valid_object_key ?key = Inr ?key" by (rule valid_key_ok) code_simp
  ultimately obtain w where w: "write_claim (se_storage_claims request_env) ?ns ''video/mp4'' MAX_PROVIDER_OUTPUT_BYTES
      (se_claim_ttl request_env) fresh 0 = Inr w" "sc_object_key w = ?key" "sc_expires_at w = minutes 5"
    using u by (simp add: write_claim_def ALLOWED_TYPES_def issue_claim_def Let_def request_env_def minutes_def
        seconds_def MAX_CLAIM_TTL_def MAX_PROVIDER_OUTPUT_BYTES_def)
  have "is_ok (register_artifact (minutes 60) (snd (uuid4 request_db)) 1 7 ?key ''SOURCE'' (Some (minutes 5)) 0)"
    by code_simp
  then obtain db2 where r: "register_artifact (se_claim_retention request_env) db1 (ac_job_id ?c)
      (ac_attempt_id ?c) (sc_object_key w) ''SOURCE'' (Some (sc_expires_at w)) 0 = Inr db2"
    using u w by (cases "register_artifact (minutes 60) (snd (uuid4 request_db)) 1 7 ?key ''SOURCE'' (Some (minutes 5)) 0")
      (auto simp: request_env_def request_context_def sample_context_def)
  have b: "by_candidate_id (se_uuid5 request_env) (se_routes request_env) 5 = Inr SIMULATED_RUNPOD_ROUTE"
    by (simp add: by_candidate_id_def candidate_id_def request_env_def first_where_Cons)
  obtain cb where cb: "callback_issue (se_callback_claims request_env) (ac_job_id ?c) (ac_attempt_id ?c)
      SIMULATED_RUNPOD_ROUTE (se_claim_ttl request_env) 0 = Inr cb"
    by (simp add: callback_issue_def request_env_def minutes_def seconds_def)
  have cf: "ac_route_candidate_id ?c = Some 5" "ac_provider_code ?c = ''runpod-simulator''"
    "ac_workflow_version ?c = ''fast_wan_i2v_720_v1''"
    by (simp_all add: request_context_def)
  have rf: "rt_provider_code SIMULATED_RUNPOD_ROUTE = ''runpod-simulator''"
    "rt_workflow_id SIMULATED_RUNPOD_ROUTE = ''fast_wan_i2v_720_v1''"
    by (simp_all add: SIMULATED_RUNPOD_ROUTE_def)
  show ?thesis
    using w(1) by (simp add: submit_request_for_def cf rf b i u r cb)
qed


end
