(* ===== verification/Queries.thy ===== *)
theory Queries
  imports ProviderContext Routing Ledger Base64 Artifacts
begin

text \<open>
  What the application services read (apps/api/app/application_queries.py, accepted_input.py,
  generation_options.py): rows of one owner, the reference image of a shot, the input snapshot
  of a job, the route a shot may take, and the cursors of paged lists. \<open>isoformat\<close>,
  \<open>fromisoformat\<close> and the parser of \<open>uuid.UUID\<close> are parameters.
\<close>

section \<open>Accepted input\<close>

definition FIRST_FRAME :: string where "FIRST_FRAME = ''FIRST_FRAME''"

text \<open>The join of references and assets, and the checks of each row.\<close>

definition first_frames :: "database \<Rightarrow> uuid \<Rightarrow> (shot_reference \<times> project_asset) list" where
  "first_frames db shot_i =
     concat (map (\<lambda>r. map (\<lambda>a. (r, a)) (select_where (\<lambda>a. as_id a = sr_asset_id r) (t_assets db)))
       (select_where (\<lambda>r. sr_shot_id r = shot_i \<and> sr_reference_role r = FIRST_FRAME)
         (t_shot_references db)))"

fun check_frames :: "shot \<Rightarrow> (shot_reference \<times> project_asset) list \<Rightarrow> error + unit" where
  "check_frames shot [] = Inr ()"
| "check_frames shot ((_, asset) # rows) =
     (if as_project_id asset \<noteq> sh_project_id shot \<or> as_status asset \<noteq> ASSET_READY
      then Inl (ApiError 422 ''REFERENCE_UNAVAILABLE'')
      else if \<not> startswith (as_media_type asset) ''image/''
      then Inl (ApiError 422 ''REFERENCE_TYPE_INVALID'')
      else check_frames shot rows)"

definition frame_reference :: "shot_reference \<times> project_asset \<Rightarrow> input_reference" where
  "frame_reference = (\<lambda>(_, asset). \<lparr>ir_asset_id = as_id asset, ir_object_key = as_object_key asset,
     ir_reference_role = FIRST_FRAME\<rparr>)"

definition selected_references :: "database \<Rightarrow> shot \<Rightarrow> error + input_reference list" where
  "selected_references db shot =
     (let rows = first_frames db (sh_id shot) in
      if length rows > 1 then Inl (ApiError 422 ''REFERENCE_AMBIGUOUS'')
      else and_then (check_frames shot rows) (\<lambda>_.
        let references = map frame_reference rows in
        if list_all input_reference_check references then Inr references
        else Inl (ValueError ''ValidationError'')))"

definition capture_input :: "database \<Rightarrow> shot \<Rightarrow> generation_job \<Rightarrow> error + job_input_snapshot" where
  "capture_input db shot job =
     and_then (selected_references db shot) (\<lambda>references.
       let snapshot = \<lparr>js_version = 1, js_prompt = sh_prompt shot, js_negative_prompt = None,
             js_references = references, js_duration_ms = job_duration_ms job,
             js_resolution = job_resolution job, js_aspect_ratio = job_aspect_ratio job,
             js_mode = job_mock_mode job\<rparr>
       in if input_snapshot_check snapshot then Inr snapshot
          else Inl (ValueError ''ValidationError''))"

text \<open>\<open>InternalGenerationOptions\<close>: the modes of the first jobs, success for the others.\<close>

definition internal_generation_options :: "string list \<Rightarrow> error + string list" where
  "internal_generation_options modes =
     (if set modes \<subseteq> generation_modes then Inr modes
      else Inl (ValueError ''unsupported internal generation modes''))"

definition mode_for :: "string list \<Rightarrow> nat \<Rightarrow> string" where
  "mode_for modes index = (if index < length modes then modes ! index else ''success'')"

section \<open>Routes\<close>

definition active_generation_route :: "route_registry \<Rightarrow> error + route_version" where
  "active_generation_route reg =
     (case active reg of
        Inr r \<Rightarrow> Inr r
      | Inl (Route_disabled _) \<Rightarrow> Inl (ApiError 503 ''ROUTE_DISABLED'')
      | Inl (Route_unavailable k) \<Rightarrow> Inl (RuntimeError k))"

definition route_for_shot ::
  "(string \<Rightarrow> uuid) \<Rightarrow> route_registry \<Rightarrow> database \<Rightarrow> shot \<Rightarrow> string \<Rightarrow> int \<Rightarrow> route_version option \<Rightarrow>
   error + (route_version \<times> database)" where
  "route_for_shot uuid5 reg db shot resolution duration_ms route =
     and_then (case route of Some r \<Rightarrow> Inr (r, db)
        | None \<Rightarrow> project_route uuid5 reg db (sh_project_id shot)) (\<lambda>(selected, db).
     and_then (selected_references db shot) (\<lambda>references.
       case require_supported selected resolution duration_ms (sh_aspect_ratio shot)
           (references \<noteq> []) of
         Inl _ \<Rightarrow> Inl (ApiError 422 ''NO_ROUTE'')
       | Inr _ \<Rightarrow> Inr (selected, db)))"

section \<open>Cursors\<close>

text \<open>
  \<^verbatim>\<open>base64.urlsafe_b64encode\<close> pads its text. \<^verbatim>\<open>urlsafe_b64decode\<close> takes both alphabets, skips
  every other character, and stops at the padding that completes a group.
\<close>

definition urlsafe_b64encode :: "string \<Rightarrow> string" where
  "urlsafe_b64encode s = (let v = b64_encode s in v @ replicate ((4 - length v mod 4) mod 4) (CHR ''=''))"

fun lenient_digits :: "nat \<Rightarrow> nat \<Rightarrow> string \<Rightarrow> nat list option" where
  "lenient_digits q pads [] = (if q = 0 then Some [] else None)"
| "lenient_digits q pads (c # s) =
     (if c = CHR ''='' then
        (if q < 2 then lenient_digits q pads s
         else if q + pads + 1 \<ge> 4 then Some []
         else lenient_digits q (pads + 1) s)
      else case b64_digit c of
          None \<Rightarrow> lenient_digits q pads s
        | Some d \<Rightarrow> map_option ((#) d) (lenient_digits ((q + 1) mod 4) 0 s))"

definition urlsafe_b64decode :: "string \<Rightarrow> string option" where
  "urlsafe_b64decode s = Option.bind (lenient_digits 0 0 s) b64_digits"

text \<open>\<^verbatim>\<open>bytes.decode()\<close>: the bytes are UTF-8 (a text is the list of its bytes).\<close>

definition continues :: "char \<Rightarrow> bool" where
  "continues c \<longleftrightarrow> 128 \<le> byte_val c \<and> byte_val c < 192"

fun utf8_ok :: "string \<Rightarrow> bool" where
  "utf8_ok [] = True"
| "utf8_ok (a # s) =
     (let n = byte_val a in
      if n < 128 then utf8_ok s
      else if 194 \<le> n \<and> n < 224 then (case s of b # s' \<Rightarrow> continues b \<and> utf8_ok s' | _ \<Rightarrow> False)
      else if 224 \<le> n \<and> n < 240 then
        (case s of b # c # s' \<Rightarrow> continues b \<and> continues c \<and> (n = 224 \<longrightarrow> 160 \<le> byte_val b) \<and>
            (n = 237 \<longrightarrow> byte_val b < 160) \<and> utf8_ok s' | _ \<Rightarrow> False)
      else if 240 \<le> n \<and> n < 245 then
        (case s of b # c # d # s' \<Rightarrow> continues b \<and> continues c \<and> continues d \<and>
            (n = 240 \<longrightarrow> 144 \<le> byte_val b) \<and> (n = 244 \<longrightarrow> byte_val b < 144) \<and> utf8_ok s' | _ \<Rightarrow> False)
      else False)"

text \<open>\<^verbatim>\<open>rsplit("|", 1)\<close>: the text before and after the last bar.\<close>

definition rsplit_bar :: "string \<Rightarrow> (string \<times> string) option" where
  "rsplit_bar s =
     (let after = takeWhile (\<lambda>c. c \<noteq> CHR ''|'') (rev s) in
      if length after = length s then None
      else Some (rev (drop (Suc (length after)) (rev s)), rev after))"

record text_codec =
  tc_isoformat :: "time \<Rightarrow> string"
  tc_fromisoformat :: "string \<Rightarrow> time option"
  tc_uuid :: "string \<Rightarrow> uuid option"

text \<open>The documented behaviour of the three: ASCII texts, which the parsers read back.\<close>

definition text_codec_ok :: "text_codec \<Rightarrow> bool" where
  "text_codec_ok cd \<longleftrightarrow> (\<forall>t. tc_fromisoformat cd (tc_isoformat cd t) = Some t \<and>
     (\<forall>c \<in> set (tc_isoformat cd t). byte_val c < 128)) \<and> (\<forall>u. tc_uuid cd (uuid_str u) = Some u)"

definition encode_cursor :: "string \<Rightarrow> uuid \<Rightarrow> string" where
  "encode_cursor created_at item_id = urlsafe_b64encode (created_at @ CHR ''|'' # uuid_str item_id)"

definition parse_cursor :: "text_codec \<Rightarrow> string option \<Rightarrow> error + (time \<times> uuid) option" where
  "parse_cursor cd cursor =
     (case cursor of
        None \<Rightarrow> Inr None
      | Some cursor \<Rightarrow>
          (case urlsafe_b64decode cursor of
             None \<Rightarrow> Inl (ApiError 400 ''CURSOR_INVALID'')
           | Some raw \<Rightarrow>
               if \<not> utf8_ok raw then Inl (ApiError 400 ''CURSOR_INVALID'')
               else case rsplit_bar raw of
                   None \<Rightarrow> Inl (ApiError 400 ''CURSOR_INVALID'')
                 | Some (created_at, item_id) \<Rightarrow>
                     (case (tc_fromisoformat cd created_at, tc_uuid cd item_id) of
                        (Some t, Some i) \<Rightarrow> Inr (Some (t, i))
                      | _ \<Rightarrow> Inl (ApiError 400 ''CURSOR_INVALID''))))"

section \<open>Rows of one owner\<close>

definition owned_project :: "database \<Rightarrow> uuid \<Rightarrow> uuid \<Rightarrow> bool \<Rightarrow> error + project" where
  "owned_project db project_id owner_id include_deleted =
     (case first_where (\<lambda>p. pr_id p = project_id \<and> pr_owner_id p = owner_id \<and>
          (include_deleted \<or> pr_status p = PROJECT_ACTIVE)) (t_projects db) of
        None \<Rightarrow> Inl (not_found ''PROJECT'') | Some p \<Rightarrow> Inr p)"

text \<open>The shot joined with its project; \<open>for_update\<close> first locks the project it belongs to.\<close>

definition owned_shot :: "database \<Rightarrow> uuid \<Rightarrow> uuid \<Rightarrow> bool \<Rightarrow> error + shot" where
  "owned_shot db shot_id owner_id for_update =
     and_then (if \<not> for_update then Inr ()
        else case get_shot db shot_id of
            None \<Rightarrow> Inl (not_found ''SHOT'')
          | Some s \<Rightarrow> and_then (owned_project db (sh_project_id s) owner_id False) (\<lambda>_. Inr ()))
       (\<lambda>_. case first_where (\<lambda>s. sh_id s = shot_id \<and> exists_where (\<lambda>p. pr_id p = sh_project_id s \<and>
              pr_owner_id p = owner_id \<and> pr_status p = PROJECT_ACTIVE) (t_projects db)) (t_shots db) of
            None \<Rightarrow> Inl (not_found ''SHOT'') | Some s \<Rightarrow> Inr s)"

definition load_job :: "database \<Rightarrow> uuid \<Rightarrow> uuid \<Rightarrow> error + generation_job" where
  "load_job db i owner_id =
     (case first_where (\<lambda>j. job_id j = i \<and> job_user_id j = owner_id) (t_jobs db) of
        None \<Rightarrow> Inl (not_found ''JOB'') | Some j \<Rightarrow> Inr j)"

definition load_batch :: "database \<Rightarrow> uuid \<Rightarrow> uuid \<Rightarrow> error + generation_batch" where
  "load_batch db i owner_id =
     (case first_where (\<lambda>b. gb_id b = i \<and> gb_user_id b = owner_id) (t_batches db) of
        None \<Rightarrow> Inl (not_found ''BATCH'') | Some b \<Rightarrow> Inr b)"

definition load_quote :: "database \<Rightarrow> uuid \<Rightarrow> uuid \<Rightarrow> error + quote" where
  "load_quote db i owner_id =
     (case first_where (\<lambda>q. qu_id q = i \<and> qu_user_id q = owner_id) (t_quotes db) of
        None \<Rightarrow> Inl (ApiError 500 ''IDEMPOTENCY_RESULT_INVALID'') | Some q \<Rightarrow> Inr q)"

text \<open>A transaction of which one posting is on an account of the owner.\<close>

definition touches :: "database \<Rightarrow> uuid \<Rightarrow> ledger_transaction \<Rightarrow> bool" where
  "touches db owner_id t \<longleftrightarrow> exists_where (\<lambda>p. lp_transaction_id p = lt_id t \<and>
     exists_where (\<lambda>a. la_id a = lp_account_id p \<and> la_owner_id a = Some owner_id) (t_accounts db))
     (t_postings db)"

definition load_ledger_transaction ::
  "database \<Rightarrow> uuid \<Rightarrow> uuid \<Rightarrow> error + ledger_transaction" where
  "load_ledger_transaction db i owner_id =
     (case first_where (\<lambda>t. lt_id t = i \<and> touches db owner_id t) (t_transactions db) of
        None \<Rightarrow> Inl (ApiError 500 ''IDEMPOTENCY_RESULT_INVALID'') | Some t \<Rightarrow> Inr t)"

end
