(* ===== verification/Generations.thy ===== *)
theory Generations
  imports Queries Idempotency CancelOutbox Reservations
begin

text \<open>
  The generation services (apps/api/app/application_generations.py): accepting one job or a
  batch against quotes, cancelling a job, and reading them. Each is one transaction that an
  exception rolls back; the answer is the row the caller gets. The trusted runtime wiring is
  a parameter: SHA-256, \<open>uuid5\<close>, the route registry, and the internal generation modes.
\<close>

record service_env =
  sv_sha256 :: "string \<Rightarrow> string"
  sv_uuid5 :: "string \<Rightarrow> uuid"
  sv_routes :: route_registry
  sv_modes :: "string list"

text \<open>The rows of a new job and of its first attempt, with the defaults of the columns.\<close>

definition new_job ::
  "uuid \<Rightarrow> time \<Rightarrow> uuid \<Rightarrow> shot \<Rightarrow> string \<Rightarrow> int \<Rightarrow> string \<Rightarrow> string \<Rightarrow> string \<Rightarrow> uuid \<Rightarrow> generation_job"
where
  "new_job i now user shot tier_code duration_ms resolution aspect_ratio mode candidate =
     \<lparr>job_id = i, job_user_id = user, job_project_id = sh_project_id shot,
      job_shot_id = sh_id shot, job_batch_id = None, job_tier_code = tier_code,
      job_duration_ms = duration_ms, job_resolution = resolution,
      job_aspect_ratio = aspect_ratio, job_variant_index = 0, job_quote_id = None,
      job_quote_snapshot = None, job_input_snapshot = None, job_status = JOB_CREATED,
      job_ledger_unit = None, job_reserved_amount_ms = None, job_settlement_status = None,
      job_reserved_tx_id = None, job_selected_route_candidate_id = Some candidate,
      job_final_output_id = None, job_failure_code = None, job_error_message = None,
      job_mock_mode = mode, job_started_at = None, job_finished_at = None,
      job_created_at = now, job_updated_at = now\<rparr>"

definition new_attempt :: "(string \<Rightarrow> uuid) \<Rightarrow> uuid \<Rightarrow> time \<Rightarrow> uuid \<Rightarrow> route_version \<Rightarrow> generation_attempt"
where
  "new_attempt uuid5 i now job_i route =
     \<lparr>at_id = i, at_job_id = job_i, at_attempt_no = 1,
      at_provider_endpoint_id = Some (provider_endpoint_id uuid5 route),
      at_provider_code = rt_provider_code route, at_provider_job_id = None,
      at_workflow_version = rt_workflow_id route, at_worker_version = None,
      at_image_digest = None, at_worker_commit = None, at_comfyui_version = None,
      at_comfyui_commit = None, at_workflow_hash = None, at_model_hashes = None,
      at_gpu_type = None, at_queue_ms = None, at_cold_start_ms = None, at_runtime_ms = None,
      at_billable_ms = None, at_status = ATT_CREATED, at_failure_code = None,
      at_started_at = None, at_finished_at = None, at_cost_minor = None,
      at_cost_currency = None, at_cost_source = None, at_raw_metrics = None,
      at_created_at = now, at_updated_at = now\<rparr>"

text \<open>The constraints an inserted job meets; an attempt's are its id and its number.\<close>

definition insert_job :: "database \<Rightarrow> generation_job \<Rightarrow> error + database" where
  "insert_job db j =
     (if exists_where (\<lambda>x. job_id x = job_id j) (t_jobs db)
      then Inl (IntegrityError ''generation_jobs_pkey'')
      else if job_quote_id j \<noteq> None \<and> exists_where (\<lambda>x. job_quote_id x = job_quote_id j) (t_jobs db)
      then Inl (IntegrityError ''uq_generation_jobs_quote_id'')
      else if \<not> job_checks j then Inl (IntegrityError ''generation_jobs'')
      else Inr (db\<lparr>t_jobs := t_jobs db @ [j]\<rparr>))"

definition add_first_attempt ::
  "(string \<Rightarrow> uuid) \<Rightarrow> database \<Rightarrow> uuid \<Rightarrow> route_version \<Rightarrow> error + database" where
  "add_first_attempt uuid5 db job_i route =
     (let (i, db) = uuid4 db;
          a = new_attempt uuid5 i (db_now db) job_i route in
      if exists_where (\<lambda>x. at_id x = i) (t_attempts db)
      then Inl (IntegrityError ''generation_attempts_pkey'')
      else if exists_where (\<lambda>x. at_job_id x = job_i \<and> at_attempt_no x = 1) (t_attempts db)
      then Inl (IntegrityError ''uq_generation_attempt_job_no'')
      else Inr (db\<lparr>t_attempts := t_attempts db @ [a]\<rparr>))"

text \<open>The last steps of an accepted job: its attempt, the queue, the outbox.\<close>

definition queue_job :: "service_env \<Rightarrow> database \<Rightarrow> generation_job \<Rightarrow> route_version \<Rightarrow> error + database"
where
  "queue_job env db job route =
     and_then (add_first_attempt (sv_uuid5 env) db (job_id job) route) (\<lambda>db.
     case transition_job db job JOB_QUEUED ''job.queued'' (job_key (job_id job) ''queued'') (JObj []) of
       (False, _, _) \<Rightarrow> Inl (ApiError 409 ''JOB_STATE_CONFLICT'')
     | (True, db, job) \<Rightarrow> enqueue_generation_workflow db job)"

section \<open>One job\<close>

definition generate_scope :: string where "generate_scope = ''POST:/v1/generations''"

definition generate_payload :: "uuid \<Rightarrow> uuid \<Rightarrow> json" where
  "generate_payload shot_i quote_i =
     JObj [(''shot_id'', JStr (uuid_str shot_i)), (''quote_id'', JStr (uuid_str quote_i))]"

definition accept_generation ::
  "service_env \<Rightarrow> database \<Rightarrow> app_user \<Rightarrow> uuid \<Rightarrow> uuid \<Rightarrow> time \<Rightarrow> error + (uuid \<times> database)" where
  "accept_generation env db user shot_i quote_i now =
     and_then (owned_shot db shot_i (user_id user) True) (\<lambda>shot.
     and_then (route_for_shot (sv_uuid5 env) (sv_routes env) db shot ''720P''
         (sh_duration_seconds shot * 1000) None) (\<lambda>(route, db).
     let (i, db) = uuid4 db;
         job = new_job i (db_now db) (user_id user) shot ''FAST'' (sh_duration_seconds shot * 1000)
           ''720P'' (sh_aspect_ratio shot) (mode_for (sv_modes env) 0)
           (candidate_id (sv_uuid5 env) route)
     in and_then (capture_input db shot job) (\<lambda>snapshot.
        let job = job\<lparr>job_input_snapshot := Some snapshot\<rparr> in
        and_then (insert_job db job) (\<lambda>db.
        and_then (reserve_quote_for_job db user shot quote_i job now) (\<lambda>(job, db).
        and_then (queue_job env db job route) (\<lambda>db. Inr (i, db)))))))"

definition generate ::
  "service_env \<Rightarrow> database \<Rightarrow> app_user \<Rightarrow> uuid \<Rightarrow> uuid \<Rightarrow> string option \<Rightarrow> time \<Rightarrow>
   error + (generation_job \<times> database)" where
  "generate env db user shot_i quote_i key now =
     and_then (acquire (sv_sha256 env) db (user_id user) generate_scope key
         (generate_payload shot_i quote_i)) (\<lambda>(decision, db).
     and_then (replay_result_id decision ''generation_job'') (\<lambda>replay_id.
     case replay_id of
       Some i \<Rightarrow> and_then (load_job db i (user_id user)) (\<lambda>j. Inr (j, db))
     | None \<Rightarrow>
         and_then (accept_generation env db user shot_i quote_i now) (\<lambda>(i, db).
         let db = complete db (de_record decision) ''generation_job'' i 202 in
         and_then (load_job db i (user_id user)) (\<lambda>j. Inr (j, db)))))"

section \<open>A batch\<close>

text \<open>The job of one quote of a batch, its reservation already made with the batch's.\<close>

definition batch_job ::
  "uuid \<Rightarrow> time \<Rightarrow> app_user \<Rightarrow> generation_batch \<Rightarrow> quote \<Rightarrow> shot \<Rightarrow> quote_snapshot \<Rightarrow> string \<Rightarrow> uuid \<Rightarrow>
   generation_job" where
  "batch_job i now user batch q shot snapshot mode candidate =
     (new_job i now (user_id user) shot (qu_tier_code q) (qu_duration_ms q) (qu_resolution q)
        (qu_aspect_ratio q) mode candidate)
     \<lparr>job_batch_id := Some (gb_id batch), job_quote_id := Some (qu_id q),
      job_quote_snapshot := Some snapshot, job_ledger_unit := Some (qu_billing_unit q),
      job_reserved_amount_ms := Some (qu_reserved_ms q),
      job_settlement_status := Some SET_RESERVED,
      job_reserved_tx_id := Some (gb_reserved_tx_id batch)\<rparr>"

definition accept_batch_item ::
  "service_env \<Rightarrow> database \<Rightarrow> app_user \<Rightarrow> generation_batch \<Rightarrow> route_version \<Rightarrow> nat \<Rightarrow>
   quote \<times> shot \<times> quote_snapshot \<Rightarrow> error + database" where
  "accept_batch_item env db user batch route index =
     (\<lambda>(q, shot, snapshot).
     and_then (route_for_shot (sv_uuid5 env) (sv_routes env) db shot (qu_resolution q)
         (qu_duration_ms q) (Some route)) (\<lambda>(_, db).
     let (i, db) = uuid4 db;
         job = batch_job i (db_now db) user batch q shot snapshot (mode_for (sv_modes env) index)
           (candidate_id (sv_uuid5 env) route)
     in and_then (capture_input db shot job) (\<lambda>input.
        let job = job\<lparr>job_input_snapshot := Some input\<rparr> in
        and_then (insert_job db job) (\<lambda>db.
        case transition_job db job JOB_RESERVED ''job.reserved'' (job_key i ''reserved'')
            (JObj [(''ledger_transaction_id'', JStr (uuid_str (gb_reserved_tx_id batch))),
                   (''batch_id'', JStr (uuid_str (gb_id batch)))]) of
          (False, _, _) \<Rightarrow> Inl (ApiError 409 ''JOB_STATE_CONFLICT'')
        | (True, db, job) \<Rightarrow> queue_job env db job route))))"

fun accept_batch_items ::
  "service_env \<Rightarrow> app_user \<Rightarrow> generation_batch \<Rightarrow> route_version \<Rightarrow> nat \<Rightarrow>
   (quote \<times> shot \<times> quote_snapshot) list \<Rightarrow> database \<Rightarrow> error + database" where
  "accept_batch_items env user batch route index [] db = Inr db"
| "accept_batch_items env user batch route index (item # items) db =
     and_then (accept_batch_item env db user batch route index item)
       (accept_batch_items env user batch route (Suc index) items)"

definition batch_scope :: string where "batch_scope = ''POST:/v1/batches''"

definition batch_payload :: "uuid list \<Rightarrow> json" where
  "batch_payload quote_ids =
     JObj [(''items'', JList (map (\<lambda>q. JObj [(''quote_id'', JStr (uuid_str q))]) quote_ids))]"

definition accept_batch ::
  "service_env \<Rightarrow> database \<Rightarrow> app_user \<Rightarrow> uuid list \<Rightarrow> time \<Rightarrow> error + (uuid \<times> database)" where
  "accept_batch env db user quote_ids now =
     (let (i, db) = uuid4 db in
      and_then (reserve_quotes_for_batch db user
          \<lparr>bd_id = i, bd_user_id = user_id user, bd_status = BATCH_QUEUED\<rparr> quote_ids now)
        (\<lambda>(claimed, batch, db).
      and_then (project_route (sv_uuid5 env) (sv_routes env) db (gb_project_id batch))
        (\<lambda>(route, db).
      and_then (accept_batch_items env user batch route 0 claimed db) (\<lambda>db. Inr (i, db)))))"

definition create_batch ::
  "service_env \<Rightarrow> database \<Rightarrow> app_user \<Rightarrow> uuid list \<Rightarrow> string option \<Rightarrow> time \<Rightarrow>
   error + (generation_batch \<times> database)" where
  "create_batch env db user quote_ids key now =
     and_then (acquire (sv_sha256 env) db (user_id user) batch_scope key (batch_payload quote_ids))
       (\<lambda>(decision, db).
     and_then (replay_result_id decision ''generation_batch'') (\<lambda>replay_id.
     case replay_id of
       Some i \<Rightarrow> and_then (load_batch db i (user_id user)) (\<lambda>b. Inr (b, db))
     | None \<Rightarrow>
         and_then (accept_batch env db user quote_ids now) (\<lambda>(i, db).
         let db = complete db (de_record decision) ''generation_batch'' i 202 in
         and_then (load_batch db i (user_id user)) (\<lambda>b. Inr (b, db)))))"

section \<open>Cancelling\<close>

definition not_cancellable :: "job_status \<Rightarrow> bool" where
  "not_cancellable s \<longleftrightarrow> s \<in> {JOB_SUCCEEDED, JOB_FAILED_FINAL, JOB_CANCELLED, JOB_EXPIRED,
     JOB_REJECTED_POLICY, JOB_POSTPROCESSING, JOB_VALIDATING}"

definition submitted :: "job_status \<Rightarrow> bool" where
  "submitted s \<longleftrightarrow> s \<in> {JOB_ROUTING, JOB_SUBMITTED, JOB_RUNNING, JOB_CANCEL_REQUESTED}"

text \<open>\<open>job.attempts\<close>, ordered by their number.\<close>

definition job_attempts :: "database \<Rightarrow> uuid \<Rightarrow> generation_attempt list" where
  "job_attempts db i = sort_key at_attempt_no (select_where (\<lambda>a. at_job_id a = i) (t_attempts db))"

text \<open>A job the provider has, or may have: ask it to stop.\<close>

definition request_provider_cancel ::
  "database \<Rightarrow> generation_job \<Rightarrow> generation_attempt list \<Rightarrow> error + database" where
  "request_provider_cancel db job attempts =
     and_then
       (if job_status job = JOB_CANCEL_REQUESTED then Inr (db, job)
        else case transition_job db job JOB_CANCEL_REQUESTED ''job.cancel_requested''
              (job_key (job_id job) ''cancel-requested'') (JObj []) of
            (True, db, job) \<Rightarrow> Inr (db, job)
          | (False, db, job) \<Rightarrow>
              let job = expire_job_status db job in
              if job_status job \<noteq> JOB_CANCEL_REQUESTED
              then Inl (ApiError 409 ''JOB_STATE_CONFLICT'') else Inr (db, job))
       (\<lambda>(db, job).
          if attempts = [] then Inl (ApiError 409 ''ATTEMPT_STATE_CONFLICT'')
          else and_then (enqueue_provider_cancel db job (last attempts)) (\<lambda>(_, db). Inr db))"

fun cancel_attempts :: "generation_attempt list \<Rightarrow> database \<Rightarrow> error + database" where
  "cancel_attempts [] db = Inr db"
| "cancel_attempts (a # attempts) db =
     (if at_status a \<in> {ATT_SUCCEEDED, ATT_FAILED_RETRYABLE, ATT_FAILED_FINAL, ATT_CANCELLED,
          ATT_TIMED_OUT} then cancel_attempts attempts db
      else case transition_attempt db a ATT_CANCELLED ''attempt.cancelled''
            (''attempt:'' @ uuid_str (at_id a) @ '':cancelled:v1'') (JObj []) of
          (False, _, _) \<Rightarrow> Inl (ApiError 409 ''ATTEMPT_STATE_CONFLICT'')
        | (True, db, _) \<Rightarrow> cancel_attempts attempts db)"

text \<open>A job that has not left the queue: end it and give the money back.\<close>

definition cancel_queued ::
  "database \<Rightarrow> generation_job \<Rightarrow> generation_attempt list \<Rightarrow> time \<Rightarrow> error + database" where
  "cancel_queued db job attempts now =
     (case transition_job db job JOB_CANCELLED ''job.cancelled''
         (job_key (job_id job) ''cancelled'') (JObj []) of
        (False, _, _) \<Rightarrow> Inl (ApiError 409 ''JOB_STATE_CONFLICT'')
      | (True, db, job) \<Rightarrow>
          and_then (cancel_attempts attempts
            (assign_job db (job_id job) (\<lambda>r. r\<lparr>job_finished_at := Some now\<rparr>))) (\<lambda>db.
          if job_settlement_status job = Some SET_RESERVED
          then and_then (finish_reservation db job False now) (\<lambda>(_, db). Inr db)
          else Inr db))"

definition cancel_scope :: string where
  "cancel_scope = ''POST:/v1/generations/{job_id}/cancel''"

definition cancel_payload :: "uuid \<Rightarrow> json" where
  "cancel_payload i = JObj [(''job_id'', JStr (uuid_str i))]"

text \<open>
  The job and its attempts are read before its row is locked and its status read again;
  \<open>meanwhile\<close> is what other transactions commit in between.
\<close>

definition cancel_job ::
  "(database \<Rightarrow> database) \<Rightarrow> database \<Rightarrow> app_user \<Rightarrow> uuid \<Rightarrow> time \<Rightarrow> error + database" where
  "cancel_job meanwhile db user i now =
     and_then (load_job db i (user_id user)) (\<lambda>job.
     let attempts = job_attempts db (job_id job); db = meanwhile db in
     case get_job db (job_id job) of
       None \<Rightarrow> Inl (LookupError ''NoResultFound'')
     | Some row \<Rightarrow>
         let job = job\<lparr>job_status := job_status row\<rparr> in
         if not_cancellable (job_status job) then Inl (ApiError 409 ''JOB_NOT_CANCELLABLE'')
         else if submitted (job_status job) then request_provider_cancel db job attempts
         else cancel_queued db job attempts now)"

definition cancel_generation ::
  "service_env \<Rightarrow> (database \<Rightarrow> database) \<Rightarrow> database \<Rightarrow> app_user \<Rightarrow> uuid \<Rightarrow> string option \<Rightarrow> time \<Rightarrow>
   error + (generation_job \<times> database)" where
  "cancel_generation env meanwhile db user i key now =
     and_then (acquire (sv_sha256 env) db (user_id user) cancel_scope key (cancel_payload i))
       (\<lambda>(decision, db).
     and_then (replay_result_id decision ''generation_job'') (\<lambda>replay_id.
     case replay_id of
       Some r \<Rightarrow> and_then (load_job db r (user_id user)) (\<lambda>j. Inr (j, db))
     | None \<Rightarrow>
         and_then (cancel_job meanwhile db user i now) (\<lambda>db.
         let db = complete db (de_record decision) ''generation_job'' i 200 in
         and_then (load_job db i (user_id user)) (\<lambda>j. Inr (j, db)))))"

section \<open>Reading\<close>

definition get_batch :: "database \<Rightarrow> app_user \<Rightarrow> uuid \<Rightarrow> error + generation_batch" where
  "get_batch db user i = load_batch db i (user_id user)"

definition get_generation :: "database \<Rightarrow> app_user \<Rightarrow> uuid \<Rightarrow> error + generation_job" where
  "get_generation db user i = load_job db i (user_id user)"

text \<open>The newest hundred, by \<open>created_at\<close> and id, both descending.\<close>

definition list_jobs :: "database \<Rightarrow> app_user \<Rightarrow> generation_job list" where
  "list_jobs db user = take 100 (rev (sort_key (\<lambda>j. (job_created_at j, job_id j))
     (select_where (\<lambda>j. job_user_id j = user_id user) (t_jobs db))))"

end
