(* ===== verification/History.thy ===== *)
theory History
  imports Pipeline Generations "HOL-Library.Sublist"
begin

text \<open>
  The log only grows and no job disappears or changes hands: the relation \<open>history\<close> between
  the states before and after a step, a transaction, a run. With the agreement of log and
  rows it bounds what can have happened to a job since it was read.
\<close>

section \<open>The relation\<close>

text \<open>
  What a job is accepted with and never changes: whose it is, its batch, its route, its terms
  and its input. A job can be accepted only with a checked snapshot of these terms.
\<close>

definition input_terms :: "generation_job \<Rightarrow> int \<times> string \<times> string \<times> string" where
  "input_terms j = (job_duration_ms j, job_resolution j, job_aspect_ratio j, job_mock_mode j)"

definition job_fixed where
  "job_fixed j = (job_id j, job_user_id j, job_project_id j, job_shot_id j, job_batch_id j,
     job_selected_route_candidate_id j, input_terms j, job_input_snapshot j)"

definition input_captured :: "generation_job \<Rightarrow> bool" where
  "input_captured j \<longleftrightarrow> (case job_input_snapshot j of None \<Rightarrow> False
     | Some s \<Rightarrow> input_snapshot_check s \<and>
         input_terms j = (js_duration_ms s, js_resolution s, js_aspect_ratio s, js_mode s))"

lemma job_fixed_captured: "job_fixed j = job_fixed j' \<Longrightarrow> input_captured j = input_captured j'"
  by (auto simp: job_fixed_def input_captured_def split: option.split)

lemma capture_input_captured:
  assumes "capture_input db shot job = Inr s"
  shows "input_captured (job\<lparr>job_input_snapshot := Some s\<rparr>)"
  using assms by (auto simp: capture_input_def and_then_Inr_iff Let_def input_captured_def
      input_terms_def split: if_splits)

definition history :: "database \<Rightarrow> database \<Rightarrow> bool" where
  "history db db' \<longleftrightarrow> prefix (t_events db) (t_events db') \<and>
     map job_fixed (t_jobs db') = map job_fixed (t_jobs db)"

text \<open>The same when jobs may have been accepted as well, with their input captured.\<close>

definition extends :: "database \<Rightarrow> database \<Rightarrow> bool" where
  "extends db db' \<longleftrightarrow> prefix (t_events db) (t_events db') \<and>
     (\<exists>new. map job_fixed (t_jobs db') = map job_fixed (t_jobs db @ new) \<and> list_all input_captured new)"

named_theorems history_steps \<open>steps that only add to the history\<close>

lemma history_refl [simp, intro]: "history db db"
  by (simp add: history_def)

lemma history_trans: "history a b \<Longrightarrow> history b c \<Longrightarrow> history a c"
  unfolding history_def by (metis prefix_order.order_trans)

lemma history_extends: "history db db' \<Longrightarrow> extends db db'"
  unfolding history_def extends_def by (intro conjI exI [of _ "[]"]) auto

lemma extends_refl [simp, intro]: "extends db db"
  by (simp add: history_extends)

lemma extends_trans: "extends a b \<Longrightarrow> extends b c \<Longrightarrow> extends a c"
  unfolding extends_def
proof (elim conjE exE, intro conjI)
  fix m n
  assume "map job_fixed (t_jobs b) = map job_fixed (t_jobs a @ m)"
    and "map job_fixed (t_jobs c) = map job_fixed (t_jobs b @ n)"
    and "list_all input_captured m" "list_all input_captured n"
  then show "\<exists>new. map job_fixed (t_jobs c) = map job_fixed (t_jobs a @ new) \<and> list_all input_captured new"
    by (intro exI [of _ "m @ n"]) simp
qed (blast intro: prefix_order.order_trans)

lemma history_tables: "t_jobs db' = t_jobs db \<Longrightarrow> t_events db' = t_events db \<Longrightarrow> history db db'"
  by (simp add: history_def)

lemma history_rows_kept: "rows_kept db db' \<Longrightarrow> history db db'"
  by (simp add: history_def rows_kept_def)

section \<open>Steps\<close>

lemma job_fixed_update [simp]:
  "job_fixed (j\<lparr>job_status := s\<rparr>) = job_fixed j"
  "job_fixed (j\<lparr>job_updated_at := t\<rparr>) = job_fixed j"
  "job_fixed (j\<lparr>job_settlement_status := x\<rparr>) = job_fixed j"
  "job_fixed (j\<lparr>job_final_output_id := y\<rparr>) = job_fixed j"
  "job_fixed (j\<lparr>job_finished_at := z\<rparr>) = job_fixed j"
  "job_fixed (j\<lparr>job_started_at := z\<rparr>) = job_fixed j"
  "job_fixed (end_job c m now j) = job_fixed j"
  by (simp_all add: job_fixed_def input_terms_def end_job_def)

lemma history_update:
  assumes "\<And>r. job_fixed (f r) = job_fixed r" and "t_jobs db' = update_where p f (t_jobs db)"
    and "t_events db' = t_events db @ es"
  shows "history db db'"
proof -
  have "map job_fixed (t_jobs db') = map job_fixed (t_jobs db)"
    unfolding assms(2) by (rule map_update_where_cong) (rule assms(1))
  then show ?thesis by (simp add: history_def assms(3))
qed

lemma history_assign_job:
  "(\<And>r. job_fixed (f r) = job_fixed r) \<Longrightarrow> history db (assign_job db i f)"
  by (rule history_update [where es = "[]"], rule _ assign_job_simps(1)) simp_all

text \<open>An update of one row, of which more is known.\<close>

lemma history_assign_row:
  assumes ids: "distinct (map job_id (t_jobs db))" and j: "j \<in> set (t_jobs db)" "job_id j = i"
    and same: "\<And>t. job_fixed ((f j)\<lparr>job_updated_at := t\<rparr>) = job_fixed j"
  shows "history db (assign_job db i f)"
proof -
  have "r = j" if "r \<in> set (t_jobs db)" "job_id r = i" for r
    by (rule key_unique [OF ids that(1) j(1)]) (simp add: that(2) j(2))
  then have "map job_fixed (t_jobs (assign_job db i f)) = map job_fixed (t_jobs db)"
    unfolding assign_job_simps(1) by (intro map_update_where_cong) (use same in simp)
  then show ?thesis by (simp add: history_def)
qed

lemma history_assign_attempt: "history db (assign_attempt db i f)"
  by (rule history_tables) simp_all

lemma history_transition_job [history_steps]:
  assumes "transition_job db job t et k pl = (b, db', job')"
  shows "history db db'"
proof (cases b)
  case True
  with assms have "transition_job db job t et k pl = (True, db', job')" by simp
  note T = transition_job_True(4) [OF this]
  show ?thesis
    by (rule history_update [where es = "[job_event_for job t et k pl]"])
      (simp_all add: T job_event_for_def)
next
  case False
  with assms transition_job_False(1) have "db' = db" by simp
  then show ?thesis by simp
qed

lemma history_transition_attempt [history_steps]:
  assumes "transition_attempt db a t et k pl = (b, db', a')"
  shows "history db db'"
  using assms by (auto simp: transition_attempt_def history_def Let_def split: if_splits)

lemma history_uuid4 [history_steps]: "uuid4 db = (i, db') \<Longrightarrow> history db db'"
  by (auto simp: uuid4_def history_def)

lemma history_finish [history_steps]:
  assumes "finish_reservation db job settle now = Inr (b, db')"
  shows "history db db'"
proof -
  have "t_events db' = t_events db" using finish_reservation_events [OF assms] by simp
  moreover have "map job_fixed (t_jobs db') = map job_fixed (t_jobs db)"
    using assms
    by (auto simp: finish_reservation_def Let_def and_then_Inr_iff split: if_splits option.splits
        dest!: ensure_account_jobs post_transfer_jobs refresh_batch_status_jobs
        intro!: map_update_where_cong)
  ultimately show ?thesis by (simp add: history_def)
qed

lemma history_settle_released [history_steps]:
  "settle_released db job now = Inr db' \<Longrightarrow> history db db'"
  by (auto simp: settle_released_def and_then_Inr_iff intro: history_finish)

lemma history_solidify [history_steps]: "solidify_project_route db job now = Inr db' \<Longrightarrow> history db db'"
  by (auto simp: solidify_project_route_def assign_project_def history_def split: option.splits if_splits)

lemma history_settle_succeeded [history_steps]:
  "settle_succeeded db job now = Inr db' \<Longrightarrow> history db db'"
  by (auto simp: settle_succeeded_def and_then_Inr_iff intro: history_trans history_solidify history_finish)

lemma history_save_snapshot [history_steps]:
  "save_snapshot db a r = Inr (db', a') \<Longrightarrow> history db db'"
  by (auto simp: save_snapshot_def and_then_Inr_iff history_assign_attempt split: if_splits)

lemma history_insert_output [history_steps]: "insert_output db x = Inr db' \<Longrightarrow> history db db'"
  by (auto simp: insert_output_def history_def split: if_splits)

lemma history_create_retry [history_steps]: "create_retry db job a c = Inr db' \<Longrightarrow> history db db'"
  by (auto simp: create_retry_def uuid4_def insert_attempt_def insert_event_def history_def
      and_then_Inr_iff Let_def split: if_splits)

lemma history_same_state [history_steps]: "history db (add_same_state_event db a et k)"
  by (simp add: add_same_state_event_def history_def)

section \<open>The transactions of the pipeline\<close>

lemma history_cancel_terminal:
  assumes "history db0 db" and "cancel_terminal db0 db job attempt now = Inr db'"
  shows "history db0 db'"
proof -
  obtain b1 db1 job1 where t1: "transition_job db job JOB_CANCELLED ''provider.cancelled''
      (job_key (job_id job) ''terminal-cancelled'') (JObj []) = (b1, db1, job1)"
    by (metis prod_cases3)
  obtain b2 db2 a2 where t2: "transition_attempt db1 attempt ATT_CANCELLED ''attempt.cancelled''
      (attempt_key (at_id attempt) ''terminal-cancelled'') (failure_payload USER_CANCELLED) = (b2, db2, a2)"
    by (metis prod_cases3)
  let ?db3 = "assign_job (assign_attempt db2 (at_id attempt) (end_attempt USER_CANCELLED now))
      (job_id job1) (end_job USER_CANCELLED None now)"
  have "history db0 db2"
    using assms(1) history_transition_job [OF t1] history_transition_attempt [OF t2] history_trans by metis
  then have 3: "history db0 ?db3"
    by (meson history_trans history_assign_attempt history_assign_job job_fixed_update(7))
  show ?thesis
  proof (cases "b1 \<and> b2")
    case True
    then have "settle_released ?db3 job1 now = Inr db'" using assms(2) t1 t2 by (simp add: cancel_terminal_def)
    from history_trans [OF 3 history_settle_released [OF this]] show ?thesis .
  qed (use assms t1 t2 in \<open>auto simp: cancel_terminal_def split: bool.splits\<close>)
qed

lemma history_snapshot: "snapshot_taken db0 a0 result db a \<Longrightarrow> history db0 db"
  by (auto simp: snapshot_taken_def split: option.splits intro: history_save_snapshot)

lemma history_attempt_failed: "attempt_failed db a failure t now db2 a1 \<Longrightarrow> history db db2"
  by (auto simp: attempt_failed_def intro: history_trans history_transition_attempt history_assign_attempt)

lemma history_fail_attempt:
  assumes "fail_attempt db0 context failure target result now = Inr (b, db')"
  shows "history db0 db'"
  using assms
proof (cases rule: fail_attemptE)
  case nothing
  then show ?thesis by simp
next
  case (cancelled job attempt0 db attempt)
  show ?thesis by (rule history_cancel_terminal [OF history_snapshot [OF cancelled(3)] cancelled(5)])
next
  case (retried job attempt0 db attempt db2 attempt1)
  from history_snapshot [OF retried(3)] history_attempt_failed [OF retried(4)]
    history_create_retry [OF retried(7)] show ?thesis by (meson history_trans)
next
  case (final job attempt0 db attempt db2 attempt1 db3 job3)
  note steps = history_snapshot [OF final(3)] history_attempt_failed [OF final(4)]
    history_transition_job [OF final(5)] history_settle_released [OF final(6)]
  have "history db3 (assign_job db3 (job_id job3) (end_job (fl_code failure) (Some (fl_message failure)) now))"
    by (rule history_assign_job) simp
  with steps show ?thesis by (meson history_trans)
qed

lemma history_commit_valid:
  assumes "commit_valid db job attempt i now = Inr (Some db')"
  shows "history db db'"
proof -
  let ?db1 = "assign_job db (job_id job) (\<lambda>r. r\<lparr>job_final_output_id := Some i\<rparr>)"
  obtain db2 job2 db3 a3 where
    t2: "transition_job ?db1 job JOB_SUCCEEDED ''provider.completed''
         (job_key (job_id job) ''terminal-succeeded'') (output_payload i) = (True, db2, job2)" and
    t3: "transition_attempt db2 attempt ATT_SUCCEEDED ''attempt.succeeded''
              (attempt_key (at_id attempt) ''terminal-succeeded'') (output_payload i) = (True, db3, a3)" and
    s: "settle_succeeded (assign_attempt (assign_job db3 (job_id job2) (\<lambda>r. r\<lparr>job_finished_at := Some now\<rparr>))
                   (at_id attempt) (\<lambda>r. r\<lparr>at_finished_at := Some now\<rparr>)) job2 now = Inr db'"
    using assms by (auto simp: commit_valid_def Let_def and_then_Inr_iff split: prod.splits bool.splits)
  have "history db ?db1" by (rule history_assign_job) simp
  then have "history db db3"
    using history_transition_job [OF t2] history_transition_attempt [OF t3] by (meson history_trans)
  then have "history db (assign_job db3 (job_id job2) (\<lambda>r. r\<lparr>job_finished_at := Some now\<rparr>))"
    by (rule history_trans) (rule history_assign_job, simp)
  with history_settle_succeeded [OF s] history_assign_attempt show ?thesis by (meson history_trans)
qed

lemma history_commit_invalid:
  assumes "commit_invalid db job attempt now = Inr (Some db')"
  shows "history db db'"
proof -
  obtain db2 a2 db3 job3 where
    t2: "transition_attempt db attempt ATT_FAILED_FINAL ''attempt.failed''
         (attempt_key (at_id attempt) ''terminal-invalid-output'')
         (failure_payload OUTPUT_INVALID_MEDIA) = (True, db2, a2)" and
    t3: "transition_job db2 job JOB_FAILED_FINAL ''output.invalid''
              (job_key (job_id job) ''terminal-invalid-output'')
              (failure_payload OUTPUT_INVALID_MEDIA) = (True, db3, job3)" and
    s: "settle_released (assign_job
           (assign_attempt db3 (at_id attempt) (end_attempt OUTPUT_INVALID_MEDIA now)) (job_id job3)
           (end_job OUTPUT_INVALID_MEDIA (Some ''provider output is not a valid MP4'') now)) job3 now = Inr db'"
    using assms by (auto simp: commit_invalid_def and_then_Inr_iff split: prod.splits bool.splits)
  have "history db (assign_attempt db3 (at_id attempt) (end_attempt OUTPUT_INVALID_MEDIA now))"
    using history_transition_attempt [OF t2] history_transition_job [OF t3] history_assign_attempt
    by (meson history_trans)
  then have "history db (assign_job
           (assign_attempt db3 (at_id attempt) (end_attempt OUTPUT_INVALID_MEDIA now)) (job_id job3)
           (end_job OUTPUT_INVALID_MEDIA (Some ''provider output is not a valid MP4'') now))"
    by (rule history_trans) (rule history_assign_job, simp)
  with history_settle_released [OF s] show ?thesis by (meson history_trans)
qed

lemma history_commit_output:
  assumes "commit_output db0 context published result valid now = Inr (c, db')"
  shows "history db0 db'"
  using assms
proof (cases rule: commit_outputE)
  case discarded
  then show ?thesis by simp
next
  case (kept job attempt0 db attempt db1 job1 i db2 db3 db4 job2)
  have "history db4 db'"
    using kept(11) by (cases valid) (auto intro: history_commit_valid history_commit_invalid)
  with history_save_snapshot [OF kept(6)] history_transition_job [OF kept(7)] history_uuid4 [OF kept(8)]
    history_insert_output [OF kept(9)] history_transition_job [OF kept(10)]
  show ?thesis by (meson history_trans)
qed

lemma history_finish_cancelled:
  assumes "finish_cancelled db0 context result now = Inr db'"
  shows "history db0 db'"
  using assms
  by (auto simp: finish_cancelled_def and_then_Inr_iff split: option.splits if_splits
      intro: history_cancel_terminal [OF history_save_snapshot])

lemma history_start_submit:
  assumes "start_submit db context = (b, db')"
  shows "history db db'"
proof -
  have "db' = db \<or> (\<exists>job attempt b1 db1 j1 b2 a2. (b1, db1, j1) =
        (if job_status job = JOB_QUEUED
         then transition_job db job JOB_ROUTING ''job.routing'' (job_key (job_id job) ''routing'') (JObj [])
         else (True, db, job)) \<and>
      transition_attempt db1 attempt ATT_SUBMITTING ''attempt.submitting''
        (attempt_key (at_id attempt) ''submitting'') (JObj []) = (b2, db', a2))"
    using assms unfolding start_submit_def Let_def
    by (auto split: option.splits prod.splits if_splits) metis+
  then show ?thesis
    by (auto split: if_splits intro: history_trans history_transition_job history_transition_attempt dest: sym)
qed

lemma history_start_job: "history db (start_job db job i now)"
proof (cases "transition_job db job JOB_RUNNING ''provider.started'' (attempt_key i ''job-running'') (JObj [])")
  case (fields b db1 job1)
  have "history db1 (assign_job db1 (job_id job1)
      (\<lambda>r. r\<lparr>job_started_at := first_time (job_started_at job1) now\<rparr>))"
    by (rule history_assign_job) simp
  with history_transition_job [OF fields] show ?thesis
    by (auto simp: start_job_def fields intro: history_trans)
qed

lemma history_start_attempt: "history db (start_attempt db attempt now)"
proof (cases "transition_attempt db attempt ATT_RUNNING ''attempt.running''
    (attempt_key (at_id attempt) ''running'') (JObj [])")
  case (fields b db1 a1)
  with history_transition_attempt [OF fields] history_assign_attempt show ?thesis
    by (auto simp: start_attempt_def intro: history_trans)
qed

lemma history_accept_job: "history db (fst (accept_job db job i p r))"
proof (cases "transition_job db job JOB_SUBMITTED
    (if r then ''provider.reconciled'' else ''provider.submitted'')
    (attempt_key i ''job-submitted'') (JObj [(''provider_job_id'', JStr p)])")
  case (fields b db1 job1)
  with history_transition_job [OF fields] show ?thesis by (simp add: accept_job_def)
qed

lemma history_accept_attempt: "history db (fst (accept_attempt db a p r))"
proof (cases "transition_attempt db a ATT_SUBMITTED
    (if r then ''attempt.reconciled'' else ''attempt.submitted'')
    (attempt_key (at_id a) ''submitted'') (JObj [(''provider_job_id'', JStr p)])")
  case (fields b db1 a1)
  with history_transition_attempt [OF fields] show ?thesis by (simp add: accept_attempt_def)
qed

lemma history_submit_accepted:
  assumes "record_submit_accepted db context p reconciled now = Inr db'"
  shows "history db db'"
proof -
  have steps: "history db (start_attempt (start_job db3 job2 i' now) a3 now)"
    if "accept_job (assign_attempt db j f) job i p reconciled = (db2, job2)"
      "accept_attempt db2 a2 p reconciled = (db3, a3)" for j f job i i' db2 job2 a2 db3 a3
  proof -
    have "history db (assign_attempt db j f)" by (rule history_assign_attempt)
    moreover have "history (assign_attempt db j f) db2" using history_accept_job that(1) by (metis fst_conv)
    moreover have "history db2 db3" using history_accept_attempt that(2) by (metis fst_conv)
    ultimately show ?thesis using history_start_job history_start_attempt by (meson history_trans)
  qed
  show ?thesis
    using assms unfolding record_submit_accepted_def Let_def
    by (auto split: option.splits prod.splits if_splits intro: steps)
qed

lemma history_provider_tx:
  assumes "provider_tx db op = Inr db'"
  shows "history db db'"
proof (cases op)
  case (Op_start_submit c)
  with assms history_start_submit show ?thesis by (cases "start_submit db c") auto
next
  case (Op_poll p db0 c now)
  with assms show ?thesis
    by (auto simp: reserve_poll_at_def Let_def history_def split: option.splits)
next
  case (Op_register retention c key kind now)
  with assms show ?thesis by (auto intro: history_rows_kept register_artifact_quiet)
next
  case (Op_submit_unknown c)
  with assms show ?thesis by (auto simp: record_submit_unknown_def history_same_state split: option.splits)
next
  case (Op_reconcile_pending c)
  with assms show ?thesis by (auto simp: record_reconcile_pending_def history_same_state split: option.splits)
qed (use assms in \<open>auto intro: history_submit_accepted history_fail_attempt history_commit_output
    history_finish_cancelled\<close>)

section \<open>What history says of a job\<close>

text \<open>The log of a job is extended, so its status is reachable from the status it had.\<close>

lemma extends_job_log:
  assumes "extends db db'"
  obtains es where "job_log db' i = job_log db i @ es"
proof -
  obtain es where "t_events db' = t_events db @ es" using assms by (auto simp: extends_def prefix_def)
  then have "job_log db' i = job_log db i @ filter (\<lambda>e. ev_job_id e = i \<and> ev_attempt_id e = None) es"
    by (simp add: job_log_def)
  then show ?thesis by (rule that)
qed

lemma replay_reaches:
  assumes "replay s (es @ fs) = Some t" and "replay s es = Some u"
  shows "\<exists>ts. path JOB_TRANSITIONS u ts \<and> last (u # ts) = t"
proof -
  have "replay u fs = Some t" using assms by (simp add: replay_append)
  from replay_path [OF this] show ?thesis by blast
qed

lemma extends_row:
  assumes "extends db db'" and "j \<in> set (t_jobs db)"
  obtains j' where "j' \<in> set (t_jobs db')" and "job_fixed j' = job_fixed j"
proof -
  obtain new where "map job_fixed (t_jobs db') = map job_fixed (t_jobs db @ new)"
    using assms(1) by (auto simp: extends_def)
  then have "job_fixed j \<in> set (map job_fixed (t_jobs db'))" using assms(2) by simp
  then obtain j' where "j' \<in> set (t_jobs db')" "job_fixed j' = job_fixed j"
    unfolding set_map by (metis imageE)
  then show ?thesis by (rule that)
qed

lemma extends_path:
  assumes hist: "extends db db'" and ok: "log_agrees db" "log_agrees db'" and j: "j \<in> set (t_jobs db)"
  obtains j' ts where "j' \<in> set (t_jobs db')" and "job_fixed j' = job_fixed j"
    and "path JOB_TRANSITIONS (job_status j) ts" and "last (job_status j # ts) = job_status j'"
proof -
  obtain j' where j': "j' \<in> set (t_jobs db')" "job_fixed j' = job_fixed j"
    by (rule extends_row [OF hist j])
  then have i: "job_id j' = job_id j" by (simp add: job_fixed_def)
  obtain es where es: "job_log db' (job_id j) = job_log db (job_id j) @ es"
    by (rule extends_job_log [OF hist])
  have "replay JOB_CREATED (job_log db (job_id j) @ es) = Some (job_status j')"
    using log_agreesD [OF ok(2) j'(1)] by (simp add: i es)
  from replay_reaches [OF this log_agreesD [OF ok(1) j]] j' show ?thesis by (blast intro: that)
qed

end
