(* ===== verification/Schemas.thy ===== *)
theory Schemas
  imports Models
begin

text \<open>
  The request and response schemas (apps/api/app/schemas.py): what a body must satisfy before
  an operation sees it (anything else is answered 422 VALIDATION_FAILED by main.py), the
  normalisation of two fields, and what a job's owner is shown of its failure. Texts are
  ASCII; a field that may be left out is an option.
\<close>

section \<open>Texts\<close>

definition length_between :: "nat \<Rightarrow> nat \<Rightarrow> string \<Rightarrow> bool" where
  "length_between lo hi s \<longleftrightarrow> lo \<le> length s \<and> length s \<le> hi"

text \<open>The pattern \<^verbatim>\<open>^[A-Z][A-Z0-9_]*$\<close>.\<close>

definition code_initial :: "char \<Rightarrow> bool" where
  "code_initial c \<longleftrightarrow> CHR ''A'' \<le> c \<and> c \<le> CHR ''Z''"

definition code_char :: "char \<Rightarrow> bool" where
  "code_char c \<longleftrightarrow> code_initial c \<or> CHR ''0'' \<le> c \<and> c \<le> CHR ''9'' \<or> c = CHR ''_''"

fun code_pattern :: "string \<Rightarrow> bool" where
  "code_pattern [] = False"
| "code_pattern (c # s) = (code_initial c \<and> list_all code_char s)"

definition optionally :: "('a \<Rightarrow> bool) \<Rightarrow> 'a option \<Rightarrow> bool" where
  "optionally p x = (case x of None \<Rightarrow> True | Some v \<Rightarrow> p v)"

definition invalid :: "error" where "invalid = ApiError 422 ''VALIDATION_FAILED''"

definition validated :: "('a \<Rightarrow> bool) \<Rightarrow> 'a \<Rightarrow> error + 'a" where
  "validated ok x = (if ok x then Inr x else Inl invalid)"

section \<open>Projects and shots\<close>

record project_create =
  pc_name :: string
  pc_description :: "string option"

definition project_create_ok :: "project_create \<Rightarrow> bool" where
  "project_create_ok p \<longleftrightarrow> length_between 1 120 (pc_name p) \<and>
     optionally (length_between 0 2000) (pc_description p)"

text \<open>\<open>exclude_unset\<close>: a field left out is None; the description may be set to null.\<close>

record project_update =
  pu_name :: "string option"
  pu_description :: "string option option"

definition project_update_ok :: "project_update \<Rightarrow> bool" where
  "project_update_ok p \<longleftrightarrow> optionally (length_between 1 120) (pu_name p) \<and>
     optionally (optionally (length_between 0 2000)) (pu_description p)"

definition seconds_ok :: "int \<Rightarrow> bool" where
  "seconds_ok n \<longleftrightarrow> 1 \<le> n \<and> n \<le> 10"

record shot_create =
  hc_title :: string
  hc_prompt :: string
  hc_duration_seconds :: int
  hc_aspect_ratio :: string

definition shot_create_ok :: "shot_create \<Rightarrow> bool" where
  "shot_create_ok s \<longleftrightarrow> length_between 1 120 (hc_title s) \<and> length_between 1 4000 (hc_prompt s) \<and>
     seconds_ok (hc_duration_seconds s) \<and> aspect_ratio_ok (hc_aspect_ratio s)"

record shot_update =
  hu_title :: "string option"
  hu_prompt :: "string option"
  hu_duration_seconds :: "int option"
  hu_aspect_ratio :: "string option"

definition shot_update_ok :: "shot_update \<Rightarrow> bool" where
  "shot_update_ok s \<longleftrightarrow> optionally (length_between 1 120) (hu_title s) \<and>
     optionally (length_between 1 4000) (hu_prompt s) \<and>
     optionally seconds_ok (hu_duration_seconds s) \<and> optionally aspect_ratio_ok (hu_aspect_ratio s)"

record shot_reference_create =
  rc_asset_id :: uuid
  rc_reference_role :: string

definition shot_reference_create_ok :: "shot_reference_create \<Rightarrow> bool" where
  "shot_reference_create_ok r \<longleftrightarrow> length_between 1 32 (rc_reference_role r) \<and>
     code_pattern (rc_reference_role r)"

section \<open>Quotes, grants, batches\<close>

record quote_create =
  qc_shot_id :: uuid
  qc_tier :: string
  qc_resolution :: string
  qc_variant_count :: int

text \<open>\<open>normalize_tier\<close> and \<open>normalize_resolution\<close> run before the checks.\<close>

definition quote_create_of :: "quote_create \<Rightarrow> error + quote_create" where
  "quote_create_of q =
     (let q = q\<lparr>qc_tier := upper_text (qc_tier q), qc_resolution := upper_text (qc_resolution q)\<rparr> in
      validated (\<lambda>q. resolution_ok (qc_resolution q) \<and> length_between 1 24 (qc_tier q) \<and>
        code_pattern (qc_tier q) \<and> qc_variant_count q = 1) q)"

record test_grant_create =
  tg_tier :: string
  tg_amount_ms :: int
  tg_idempotency_key :: string
  tg_reason :: string

definition test_grant_create_of :: "test_grant_create \<Rightarrow> error + test_grant_create" where
  "test_grant_create_of g =
     validated (\<lambda>g. length_between 1 24 (tg_tier g) \<and> code_pattern (tg_tier g) \<and>
       0 < tg_amount_ms g \<and> tg_amount_ms g \<le> 86400000 \<and>
       length_between 1 255 (tg_idempotency_key g) \<and> length_between 1 500 (tg_reason g))
     (g\<lparr>tg_tier := upper_text (tg_tier g)\<rparr>)"

definition batch_create_ok :: "uuid list \<Rightarrow> bool" where
  "batch_create_ok quote_ids \<longleftrightarrow> 1 \<le> length quote_ids \<and> length quote_ids \<le> 100 \<and>
     distinct quote_ids"

section \<open>What the owner of a job sees of its failure\<close>

definition PUBLIC_FAILURE_CODES :: "string set" where
  "PUBLIC_FAILURE_CODES = {''INVALID_INPUT'', ''POLICY_REJECTED'', ''USER_CANCELLED'',
     ''UNSUPPORTED_PARAMETER'', ''NO_ROUTE'', ''OUTPUT_MISSING'', ''OUTPUT_CORRUPTED'',
     ''OUTPUT_INVALID_MEDIA''}"

definition public_failure_code :: "string option \<Rightarrow> string option" where
  "public_failure_code value =
     (case value of
        None \<Rightarrow> None
      | Some c \<Rightarrow> if c \<in> PUBLIC_FAILURE_CODES then Some c else Some ''GENERATION_FAILED'')"

text \<open>\<open>GenerationJobOut\<close> and \<open>GenerationAttemptOut\<close>, their failure fields.\<close>

definition hidden_message :: string where
  "hidden_message = ''generation failed, please try again later''"

definition hide_internal_failure_details :: "generation_job \<Rightarrow> string option \<times> string option" where
  "hide_internal_failure_details j =
     (let public_code = public_failure_code (job_failure_code j) in
      if public_code \<noteq> job_failure_code j then (public_code, Some hidden_message)
      else (job_failure_code j, job_error_message j))"

definition hide_internal_failure_code :: "generation_attempt \<Rightarrow> string option" where
  "hide_internal_failure_code a = public_failure_code (at_failure_code a)"

end
