(* ===== verification/Projects.thy ===== *)
theory Projects
  imports Queries Schemas Cleanup
begin

text \<open>
  Projects, shots and references (apps/api/app/application_projects.py). Every operation is
  one transaction of the user's session. A page of a list is read by keyset: the rows after
  the cursor, one more than asked for, and a cursor if there is more.
\<close>

section \<open>Projects\<close>

definition create_project ::
  "database \<Rightarrow> app_user \<Rightarrow> project_create \<Rightarrow> error + (project \<times> database)" where
  "create_project db user payload =
     (let (i, db) = uuid4 db;
          p = \<lparr>pr_id = i, pr_owner_id = user_id user, pr_name = pc_name payload,
            pr_description = pc_description payload, pr_status = PROJECT_ACTIVE,
            pr_deleted_at = None, pr_route_binding_status = ''UNBOUND'',
            pr_route_candidate_id = None, pr_route_binding_source = None,
            pr_route_bound_at = None, pr_created_at = db_now db\<rparr>
      in if exists_where (\<lambda>x. pr_id x = i) (t_projects db)
         then Inl (IntegrityError ''projects_pkey'')
         else Inr (p, db\<lparr>t_projects := t_projects db @ [p]\<rparr>))"

text \<open>The rows after a cursor in the order of a list, the page, and the next cursor.\<close>

definition after_in :: "('k::linorder \<Rightarrow> 'k \<Rightarrow> bool) \<Rightarrow> ('r \<Rightarrow> 'k) \<Rightarrow> 'k option \<Rightarrow> 'r \<Rightarrow> bool" where
  "after_in before k cursor r = (case cursor of None \<Rightarrow> True | Some c \<Rightarrow> before c (k r))"

definition page_of :: "('r \<Rightarrow> string) \<Rightarrow> nat \<Rightarrow> 'r list \<Rightarrow> 'r list \<times> string option" where
  "page_of cursor_of limit rows =
     (let items = take (limit + 1) rows in
      if length items > limit then (take limit items, Some (cursor_of (items ! (limit - 1))))
      else (items, None))"

definition project_key :: "project \<Rightarrow> time \<times> uuid" where
  "project_key p = (pr_created_at p, pr_id p)"

definition list_projects ::
  "text_codec \<Rightarrow> database \<Rightarrow> app_user \<Rightarrow> nat \<Rightarrow> string option \<Rightarrow> error + (project list \<times> string option)"
where
  "list_projects cd db user limit cursor =
     and_then (parse_cursor cd cursor) (\<lambda>parsed.
       Inr (page_of (\<lambda>p. encode_cursor (tc_isoformat cd (pr_created_at p)) (pr_id p)) limit
         (rev (sort_key project_key (select_where (\<lambda>p. pr_owner_id p = user_id user \<and>
            pr_status p = PROJECT_ACTIVE \<and> after_in (>) project_key parsed p) (t_projects db))))))"

definition get_project_of :: "database \<Rightarrow> app_user \<Rightarrow> uuid \<Rightarrow> error + project" where
  "get_project_of db user i = owned_project db i (user_id user) False"

definition update_project ::
  "database \<Rightarrow> app_user \<Rightarrow> uuid \<Rightarrow> project_update \<Rightarrow> error + database" where
  "update_project db user i payload =
     and_then (owned_project db i (user_id user) False) (\<lambda>p.
       Inr (assign_project db (pr_id p) (\<lambda>p. p\<lparr>
         pr_name := (case pu_name payload of None \<Rightarrow> pr_name p | Some n \<Rightarrow> n),
         pr_description := (case pu_description payload of
             None \<Rightarrow> pr_description p | Some d \<Rightarrow> d)\<rparr>)))"

definition delete_project ::
  "timedelta \<Rightarrow> database \<Rightarrow> app_user \<Rightarrow> uuid \<Rightarrow> time \<Rightarrow> error + database" where
  "delete_project retention db user i now =
     and_then (owned_project db i (user_id user) True) (\<lambda>p.
     and_then (request_project_deletion retention db p now) (\<lambda>(_, db). Inr db))"

section \<open>Shots\<close>

definition create_shot ::
  "database \<Rightarrow> app_user \<Rightarrow> uuid \<Rightarrow> shot_create \<Rightarrow> error + (shot \<times> database)" where
  "create_shot db user project_i payload =
     and_then (owned_project db project_i (user_id user) False) (\<lambda>_.
     let (i, db) = uuid4 db;
         s = \<lparr>sh_id = i, sh_project_id = project_i, sh_title = hc_title payload,
           sh_prompt = hc_prompt payload, sh_duration_seconds = hc_duration_seconds payload,
           sh_aspect_ratio = hc_aspect_ratio payload, sh_created_at = db_now db\<rparr>
     in if exists_where (\<lambda>x. sh_id x = i) (t_shots db) then Inl (IntegrityError ''shots_pkey'')
        else if \<not> shot_checks s then Inl (IntegrityError ''shots'')
        else Inr (s, db\<lparr>t_shots := t_shots db @ [s]\<rparr>))"

definition list_shots :: "database \<Rightarrow> app_user \<Rightarrow> uuid \<Rightarrow> error + shot list" where
  "list_shots db user project_i =
     and_then (owned_project db project_i (user_id user) False) (\<lambda>_.
       Inr (sort_key (\<lambda>s. (sh_created_at s, sh_id s))
         (select_where (\<lambda>s. sh_project_id s = project_i) (t_shots db))))"

definition get_shot_of :: "database \<Rightarrow> app_user \<Rightarrow> uuid \<Rightarrow> error + shot" where
  "get_shot_of db user i = owned_shot db i (user_id user) False"

definition apply_shot_update :: "shot_update \<Rightarrow> shot \<Rightarrow> shot" where
  "apply_shot_update payload s = s\<lparr>
     sh_title := (case hu_title payload of None \<Rightarrow> sh_title s | Some v \<Rightarrow> v),
     sh_prompt := (case hu_prompt payload of None \<Rightarrow> sh_prompt s | Some v \<Rightarrow> v),
     sh_duration_seconds := (case hu_duration_seconds payload of
         None \<Rightarrow> sh_duration_seconds s | Some v \<Rightarrow> v),
     sh_aspect_ratio := (case hu_aspect_ratio payload of None \<Rightarrow> sh_aspect_ratio s | Some v \<Rightarrow> v)\<rparr>"

definition update_shot ::
  "database \<Rightarrow> app_user \<Rightarrow> uuid \<Rightarrow> shot_update \<Rightarrow> error + (shot \<times> database)" where
  "update_shot db user i payload =
     and_then (owned_shot db i (user_id user) True) (\<lambda>s.
     let s' = apply_shot_update payload s in
     if \<not> shot_checks s' then Inl (IntegrityError ''shots'')
     else Inr (s', db\<lparr>t_shots := update_where (\<lambda>x. sh_id x = sh_id s)
       (apply_shot_update payload) (t_shots db)\<rparr>))"

section \<open>References\<close>

definition usable_asset :: "database \<Rightarrow> app_user \<Rightarrow> shot \<Rightarrow> uuid \<Rightarrow> error + project_asset" where
  "usable_asset db user s asset_i =
     (case first_where (\<lambda>a. as_id a = asset_i \<and> as_project_id a = sh_project_id s \<and>
          as_owner_id a = user_id user \<and> as_status a = ASSET_READY) (t_assets db) of
        None \<Rightarrow> Inl (not_found ''ASSET'') | Some a \<Rightarrow> Inr a)"

definition insert_reference :: "database \<Rightarrow> shot_reference \<Rightarrow> error + database" where
  "insert_reference db r =
     (if exists_where (\<lambda>x. sr_id x = sr_id r \<or> sr_shot_id x = sr_shot_id r \<and>
           sr_asset_id x = sr_asset_id r \<and> sr_reference_role x = sr_reference_role r)
         (t_shot_references db)
      then Inl (IntegrityError ''uq_shot_reference_role'')
      else Inr (db\<lparr>t_shot_references := t_shot_references db @ [r]\<rparr>))"

definition create_shot_reference ::
  "database \<Rightarrow> app_user \<Rightarrow> uuid \<Rightarrow> shot_reference_create \<Rightarrow> error + (shot_reference \<times> database)" where
  "create_shot_reference db user shot_i payload =
     and_then (owned_shot db shot_i (user_id user) True) (\<lambda>s.
     and_then (usable_asset db user s (rc_asset_id payload)) (\<lambda>asset.
     let (i, db) = uuid4 db;
         r = \<lparr>sr_id = i, sr_project_id = sh_project_id s, sr_shot_id = sh_id s,
           sr_asset_id = as_id asset, sr_reference_role = rc_reference_role payload\<rparr>
     in case insert_reference db r of
          Inl _ \<Rightarrow> Inl (ApiError 409 ''SHOT_REFERENCE_EXISTS'')
        | Inr db \<Rightarrow> Inr (r, db)))"

text \<open>The one first frame of a shot is replaced, or taken away.\<close>

definition set_shot_input ::
  "database \<Rightarrow> app_user \<Rightarrow> uuid \<Rightarrow> uuid option \<Rightarrow> error + (shot \<times> database)" where
  "set_shot_input db user shot_i asset_id =
     and_then (owned_shot db shot_i (user_id user) True) (\<lambda>s.
     and_then (case asset_id of
         None \<Rightarrow> Inr ()
       | Some a \<Rightarrow> and_then (usable_asset db user s a) (\<lambda>asset.
           if \<not> startswith (as_media_type asset) ''image/''
           then Inl (ApiError 422 ''REFERENCE_TYPE_INVALID'') else Inr ())) (\<lambda>_.
     let db = db\<lparr>t_shot_references := filter (\<lambda>r. \<not> (sr_shot_id r = sh_id s \<and>
           sr_reference_role r = FIRST_FRAME)) (t_shot_references db)\<rparr> in
     and_then (case asset_id of
         None \<Rightarrow> Inr db
       | Some a \<Rightarrow> let (i, db) = uuid4 db in insert_reference db
           \<lparr>sr_id = i, sr_project_id = sh_project_id s, sr_shot_id = sh_id s, sr_asset_id = a,
            sr_reference_role = FIRST_FRAME\<rparr>) (\<lambda>db.
     and_then (owned_shot db (sh_id s) (user_id user) False) (\<lambda>s. Inr (s, db)))))"

definition delete_shot_reference ::
  "database \<Rightarrow> app_user \<Rightarrow> uuid \<Rightarrow> uuid \<Rightarrow> error + database" where
  "delete_shot_reference db user shot_i reference_i =
     and_then (owned_shot db shot_i (user_id user) True) (\<lambda>_.
     let matching = (\<lambda>r. sr_id r = reference_i \<and> sr_shot_id r = shot_i) in
     if \<not> exists_where matching (t_shot_references db) then Inl (not_found ''SHOT_REFERENCE'')
     else Inr (db\<lparr>t_shot_references :=
       filter (\<lambda>r. sr_id r \<noteq> reference_i) (t_shot_references db)\<rparr>))"

section \<open>What a project can be generated with\<close>

record generation_options =
  op_requires_reference_image :: bool
  op_duration_seconds :: "int list"
  op_resolutions :: "string list"

definition project_generation_options ::
  "(string \<Rightarrow> uuid) \<Rightarrow> route_registry \<Rightarrow> database \<Rightarrow> app_user \<Rightarrow> uuid \<Rightarrow> error + generation_options" where
  "project_generation_options uuid5 reg db user i =
     and_then (owned_project db i (user_id user) False) (\<lambda>p.
     if pr_route_binding_status p = ''REVIEW''
     then Inl (ApiError 409 ''PROJECT_ROUTE_REVIEW_REQUIRED'')
     else case (case pr_route_candidate_id p of
           Some c \<Rightarrow> by_candidate_id uuid5 reg c | None \<Rightarrow> registry_get reg (rr_active_key reg)) of
         Inl (Route_unavailable k) \<Rightarrow> Inl (RuntimeError k)
       | Inl (Route_disabled k) \<Rightarrow> Inl (RuntimeError k)
       | Inr route \<Rightarrow> Inr
           \<lparr>op_requires_reference_image = rt_requires_input_claim route,
            op_duration_seconds = map (\<lambda>d. d div 1000) (sorted_list_of_set (rt_durations_ms route)),
            op_resolutions = sorted_list_of_set (rt_resolutions route)\<rparr>)"

end
