(* ===== verification/Assets.thy ===== *)
theory Assets
  imports Projects Claims
begin

text \<open>
  Assets and downloads (apps/api/app/application_assets.py) and the response that streams a
  stored object (http_dependencies.py). An upload uses two transactions around the transfer:
  \<open>db0\<close> is the database of the first, \<open>db\<close> of the second. The object store is a map of bytes.
\<close>

section \<open>Lists\<close>

definition asset_key :: "project_asset \<Rightarrow> time \<times> uuid" where
  "asset_key a = (as_created_at a, as_id a)"

definition list_project_assets ::
  "text_codec \<Rightarrow> database \<Rightarrow> app_user \<Rightarrow> uuid \<Rightarrow> nat \<Rightarrow> string option \<Rightarrow>
   error + (project_asset list \<times> string option)" where
  "list_project_assets cd db user project_i limit cursor =
     and_then (owned_project db project_i (user_id user) False) (\<lambda>_.
     and_then (parse_cursor cd cursor) (\<lambda>parsed.
       Inr (page_of (\<lambda>a. encode_cursor (tc_isoformat cd (as_created_at a)) (as_id a)) limit
         (sort_key asset_key (select_where (\<lambda>a. as_project_id a = project_i \<and>
            as_owner_id a = user_id user \<and> as_status a = ASSET_READY \<and>
            after_in (<) asset_key parsed a) (t_assets db))))))"

section \<open>Uploads\<close>

record upload_env =
  up_claims :: claim_codec
  up_claim_ttl :: timedelta
  up_max_bytes :: int

definition insert_asset :: "database \<Rightarrow> project_asset \<Rightarrow> error + database" where
  "insert_asset db a =
     (if exists_where (\<lambda>x. as_id x = as_id a) (t_assets db)
      then Inl (IntegrityError ''project_assets_pkey'')
      else if exists_where (\<lambda>x. as_object_key x = as_object_key a) (t_assets db)
      then Inl (IntegrityError ''project_assets_object_key'')
      else Inr (db\<lparr>t_assets := t_assets db @ [a]\<rparr>))"

definition upload_name :: "string option \<Rightarrow> string" where
  "upload_name filename =
     take 255 (case filename of None \<Rightarrow> ''upload'' | Some [] \<Rightarrow> ''upload'' | Some n \<Rightarrow> n)"

text \<open>The second transaction: the project may have been deleted during the transfer.\<close>

definition record_asset ::
  "database \<Rightarrow> uuid \<Rightarrow> uuid \<Rightarrow> string option \<Rightarrow> stored_object \<Rightarrow> error + (project_asset \<times> database)" where
  "record_asset db project_i user_i filename stored =
     and_then (owned_project db project_i user_i False) (\<lambda>_.
     let (i, db) = uuid4 db;
         asset = \<lparr>as_id = i, as_project_id = project_i, as_owner_id = user_i,
           as_object_key = so_key stored, as_original_filename = upload_name filename,
           as_media_type = so_mime_type stored, as_size_bytes = so_size_bytes stored,
           as_sha256 = so_sha256 stored, as_status = ASSET_READY, as_created_at = db_now db\<rparr>
     in and_then (insert_asset db asset) (\<lambda>db. Inr (asset, db)))"

text \<open>\<open>fresh\<close> is the \<open>uuid4\<close> of the object's key. An exception of the second transaction deletes
  the object that was stored; the state an operation leaves is the database and the store.\<close>

definition save_asset ::
  "upload_env \<Rightarrow> database \<Rightarrow> database \<Rightarrow> object_store \<Rightarrow> uuid \<Rightarrow> string \<Rightarrow> uuid \<Rightarrow> string option \<Rightarrow>
   string \<Rightarrow> uuid \<Rightarrow> time \<Rightarrow> (error + project_asset) \<times> database \<times> object_store" where
  "save_asset env db0 db store project_i content user_i filename mime_type fresh now =
     (case and_then (owned_project db0 project_i user_i False) (\<lambda>_.
           and_then (validate_media_header mime_type (take 16 content)) (\<lambda>_.
           and_then (write_claim (up_claims env) ''assets'' mime_type (up_max_bytes env)
               (up_claim_ttl env) fresh now) (\<lambda>claim.
           storage_put (up_claims env) store claim content mime_type now))) of
        Inl e \<Rightarrow> (Inl e, db, store)
      | Inr (stored, store') \<Rightarrow>
          (case record_asset db project_i user_i filename stored of
             Inr (asset, db') \<Rightarrow> (Inr asset, db', store')
           | Inl e \<Rightarrow>
               (case storage_delete store' (so_key stored) of
                  Inl e' \<Rightarrow> (Inl e', db, store') | Inr store'' \<Rightarrow> (Inl e, db, store''))))"

section \<open>Downloads\<close>

definition download_asset :: "database \<Rightarrow> uuid \<Rightarrow> uuid \<Rightarrow> error + (string \<times> string)" where
  "download_asset db asset_i user_i =
     (case first_where (\<lambda>a. as_id a = asset_i \<and> as_owner_id a = user_i \<and>
          as_status a = ASSET_READY) (t_assets db) of
        None \<Rightarrow> Inl (not_found ''ASSET'') | Some a \<Rightarrow> Inr (as_object_key a, as_media_type a))"

definition download_output :: "database \<Rightarrow> uuid \<Rightarrow> uuid \<Rightarrow> error + (string \<times> string)" where
  "download_output db output_i user_i =
     (case first_where (\<lambda>x. go_id x = output_i \<and> exists_where (\<lambda>j. job_id j = go_job_id x \<and>
          job_user_id j = user_i \<and> job_final_output_id j = Some output_i) (t_jobs db)) (t_outputs db) of
        None \<Rightarrow> Inl (not_found ''OUTPUT'')
      | Some x \<Rightarrow>
          if go_validation_status x \<noteq> OUT_VALID then Inl (ApiError 422 ''OUTPUT_INVALID'')
          else Inr (go_object_key x, go_media_type x))"

text \<open>\<open>storage_response\<close>: the size and the bytes that are streamed.\<close>

definition storage_response ::
  "upload_env \<Rightarrow> object_store \<Rightarrow> string \<Rightarrow> time \<Rightarrow> error + (int \<times> string)" where
  "storage_response env store key now =
     and_then (storage_stat store key) (\<lambda>stat.
     and_then (read_claim (up_claims env) store key (up_claim_ttl env) now) (\<lambda>claim.
     and_then (storage_open (up_claims env) store claim now) (\<lambda>bytes.
       Inr (ot_size_bytes stat, bytes))))"

end
