(* ===== verification/Billing.thy ===== *)
theory Billing
  imports Queries Idempotency Schemas
begin

text \<open>
  Quotes, test grants and balances of a user (apps/api/app/application_billing.py), each an
  idempotent operation in one transaction.
\<close>

definition quote_scope :: string where "quote_scope = ''POST:/v1/quotes''"

definition quote_payload :: "quote_create \<Rightarrow> json" where
  "quote_payload q = JObj [(''shot_id'', JStr (uuid_str (qc_shot_id q))), (''tier'', JStr (qc_tier q)),
     (''resolution'', JStr (qc_resolution q)), (''variant_count'', JInt (qc_variant_count q))]"

definition create_generation_quote ::
  "(string \<Rightarrow> string) \<Rightarrow> database \<Rightarrow> app_user \<Rightarrow> quote_create \<Rightarrow> string option \<Rightarrow> time \<Rightarrow>
   error + (quote \<times> database)" where
  "create_generation_quote sha256 db user payload key now =
     and_then (acquire sha256 db (user_id user) quote_scope key (quote_payload payload))
       (\<lambda>(decision, db).
     and_then (replay_result_id decision ''generation_quote'') (\<lambda>replay_id.
     case replay_id of
       Some i \<Rightarrow> and_then (load_quote db i (user_id user)) (\<lambda>q. Inr (q, db))
     | None \<Rightarrow>
         and_then (owned_shot db (qc_shot_id payload) (user_id user) True) (\<lambda>s.
         and_then (create_quote db user s (qc_tier payload) (qc_resolution payload)
             (qc_variant_count payload) now) (\<lambda>(q, db).
           Inr (q, complete db (de_record decision) ''generation_quote'' (qu_id q) 201)))))"

definition grant_scope :: string where "grant_scope = ''POST:/v1/wallet/test-grants''"

definition grant_payload :: "test_grant_create \<Rightarrow> json" where
  "grant_payload g = JObj [(''tier'', JStr (tg_tier g)), (''amount_ms'', JInt (tg_amount_ms g)),
     (''idempotency_key'', JStr (tg_idempotency_key g)), (''reason'', JStr (tg_reason g))]"

definition create_test_grant ::
  "string \<Rightarrow> (string \<Rightarrow> string) \<Rightarrow> database \<Rightarrow> app_user \<Rightarrow> test_grant_create \<Rightarrow> string option \<Rightarrow> time \<Rightarrow>
   error + (ledger_transaction \<times> database)" where
  "create_test_grant environment sha256 db user payload key now =
     (if environment = ''production'' then Inl (not_found ''ENDPOINT'')
      else
       and_then (acquire sha256 db (user_id user) grant_scope key (grant_payload payload))
         (\<lambda>(decision, db).
       and_then (replay_result_id decision ''ledger_transaction'') (\<lambda>replay_id.
       case replay_id of
         Some i \<Rightarrow> and_then (load_ledger_transaction db i (user_id user)) (\<lambda>t. Inr (t, db))
       | None \<Rightarrow>
           and_then (grant_seconds db user (tg_tier payload) (tg_amount_ms payload)
               (tg_idempotency_key payload) (tg_reason payload) now) (\<lambda>(t, db).
           let db = complete db (de_record decision) ''ledger_transaction'' (lt_id t) 201 in
           and_then (load_ledger_transaction db (lt_id t) (user_id user)) (\<lambda>t. Inr (t, db))))))"

definition get_wallet :: "database \<Rightarrow> app_user \<Rightarrow> string \<rightharpoonup> (string \<rightharpoonup> int)" where
  "get_wallet db user = wallet_balances db (user_id user)"

definition list_ledger_transactions :: "database \<Rightarrow> app_user \<Rightarrow> nat \<Rightarrow> ledger_transaction list" where
  "list_ledger_transactions db user limit = take limit (rev (sort_key (\<lambda>t. (lt_created_at t, lt_id t))
     (select_where (touches db (user_id user)) (t_transactions db))))"

end
