(* ===== verification/Accounts.thy ===== *)
theory Accounts
  imports DeadLetters
begin

text \<open>
  Who is calling (apps/api/app/auth.py) and what an administrator may do (admin_api.py). The
  verification of a token by the JWT library is the parameter \<open>decode\<close>: the subject, or None.
  A user row is made at the first request of a subject; \<open>db0\<close> is the database of the lookup,
  \<open>db\<close> the one the insert meets.
\<close>

section \<open>Identity\<close>

text \<open>The scheme and the credentials of the Authorization header.\<close>

definition get_identity ::
  "(string \<Rightarrow> string option) \<Rightarrow> (string \<times> string) option \<Rightarrow> error + string" where
  "get_identity decode credentials =
     (case credentials of
        None \<Rightarrow> Inl (ApiError 401 ''AUTH_REQUIRED'')
      | Some (scheme, token) \<Rightarrow>
          if lower_text scheme \<noteq> ''bearer''
          then Inl (ApiError 401 ''AUTH_REQUIRED'')
          else case decode token of
              None \<Rightarrow> Inl (ApiError 401 ''AUTH_INVALID_TOKEN'') | Some subject \<Rightarrow> Inr subject)"

definition find_user :: "database \<Rightarrow> string \<Rightarrow> app_user option" where
  "find_user db subject = first_where (\<lambda>u. user_auth_subject u = subject) (t_users db)"

definition get_current_user_at ::
  "database \<Rightarrow> database \<Rightarrow> string \<Rightarrow> error + (app_user \<times> database)" where
  "get_current_user_at db0 db subject =
     (case find_user db0 subject of
        Some u \<Rightarrow> Inr (u, db)
      | None \<Rightarrow>
          let (i, db') = uuid4 db; u = \<lparr>user_id = i, user_auth_subject = subject\<rparr> in
          if \<not> exists_where (\<lambda>x. user_id x = i \<or> user_auth_subject x = subject) (t_users db)
          then Inr (u, db'\<lparr>t_users := t_users db' @ [u]\<rparr>)
          else case find_user db subject of
              None \<Rightarrow> Inl (IntegrityError ''app_users'') | Some u \<Rightarrow> Inr (u, db))"

definition get_current_user :: "database \<Rightarrow> string \<Rightarrow> error + (app_user \<times> database)" where
  "get_current_user db = get_current_user_at db db"

definition get_admin_user :: "string list \<Rightarrow> app_user \<Rightarrow> error + app_user" where
  "get_admin_user admin_auth_subjects user =
     (if user_auth_subject user \<notin> set admin_auth_subjects then Inl (ApiError 403 ''ADMIN_REQUIRED'')
      else Inr user)"

section \<open>Administration\<close>

definition get_admin_generation_diagnostics :: "database \<Rightarrow> uuid \<Rightarrow> error + generation_job" where
  "get_admin_generation_diagnostics db i =
     (case get_job db i of None \<Rightarrow> Inl (not_found ''JOB'') | Some j \<Rightarrow> Inr j)"

text \<open>\<open>ORDER BY created_at DESC\<close>; the order of rows of one instant is not fixed by the code.\<close>

definition list_admin_dead_letters ::
  "database \<Rightarrow> dead_letter_status option \<Rightarrow> nat \<Rightarrow> dead_letter_event list" where
  "list_admin_dead_letters db status limit = take limit (sort_key (\<lambda>d. - dl_created_at d)
     (select_where (\<lambda>d. case status of None \<Rightarrow> True | Some s \<Rightarrow> dl_status d = s) (t_dead_letters db)))"

definition replay_admin_dead_letter ::
  "database \<Rightarrow> uuid \<Rightarrow> app_user \<Rightarrow> time \<Rightarrow> error + (dead_letter_event \<times> database)" where
  "replay_admin_dead_letter db i admin now =
     (case replay_dead_letter db i admin now of
        Inl (RuntimeError _) \<Rightarrow> Inl (ApiError 409 ''DEAD_LETTER_NOT_REPLAYABLE'')
      | Inl e \<Rightarrow> Inl e
      | Inr (None, _) \<Rightarrow> Inl (not_found ''DEAD LETTER'')
      | Inr (Some d, db) \<Rightarrow> Inr (d, db))"

definition list_admin_operation_audits ::
  "database \<Rightarrow> uuid option \<Rightarrow> nat \<Rightarrow> admin_operation_audit list" where
  "list_admin_operation_audits db target_id limit = take limit (sort_key (\<lambda>a. - aa_created_at a)
     (select_where (\<lambda>a. case target_id of None \<Rightarrow> True | Some t \<Rightarrow> aa_target_id a = t) (t_audits db)))"

end
