(* ===== verification/Service.thy ===== *)
theory Service
  imports History Assets Billing Accounts
begin

text \<open>
  The whole service as a system of transactions: every operation of the HTTP surface that
  writes, next to the sessions of the provider pipeline, issued by any number of callers in
  any order. A cancellation reads its job before it has locked it, so it carries the
  operations that others commit in between.
\<close>

section \<open>The operations\<close>

datatype service_op =
    Op_provider provider_op
  | Op_clock time
  | Op_user string
  | Op_create_project app_user project_create
  | Op_update_project app_user uuid project_update
  | Op_delete_project timedelta app_user uuid time
  | Op_create_shot app_user uuid shot_create
  | Op_update_shot app_user uuid shot_update
  | Op_create_reference app_user uuid shot_reference_create
  | Op_set_input app_user uuid "uuid option"
  | Op_delete_reference app_user uuid uuid
  | Op_record_asset uuid uuid "string option" stored_object
  | Op_quote service_env app_user quote_create "string option" time
  | Op_grant string service_env app_user test_grant_create "string option" time
  | Op_generate service_env app_user uuid uuid "string option" time
  | Op_batch service_env app_user "uuid list" "string option" time
  | Op_cancel service_env "service_op list" app_user uuid "string option" time
  | Op_replay uuid app_user time

abbreviation written :: "error + ('a \<times> database) \<Rightarrow> error + database" where
  "written \<equiv> map_sum id snd"

function (sequential) service_exec :: "database \<Rightarrow> service_op \<Rightarrow> error + database" where
  "service_exec db (Op_provider op) = provider_exec db op"
| "service_exec db (Op_clock now) = Inr (db\<lparr>db_now := now\<rparr>)"
| "service_exec db (Op_user subject) = written (get_current_user db subject)"
| "service_exec db (Op_create_project user p) = written (create_project db user p)"
| "service_exec db (Op_update_project user i p) = update_project db user i p"
| "service_exec db (Op_delete_project retention user i now) = delete_project retention db user i now"
| "service_exec db (Op_create_shot user i p) = written (create_shot db user i p)"
| "service_exec db (Op_update_shot user i p) = written (update_shot db user i p)"
| "service_exec db (Op_create_reference user i p) = written (create_shot_reference db user i p)"
| "service_exec db (Op_set_input user i a) = written (set_shot_input db user i a)"
| "service_exec db (Op_delete_reference user i r) = delete_shot_reference db user i r"
| "service_exec db (Op_record_asset p u name stored) = written (record_asset db p u name stored)"
| "service_exec db (Op_quote env user q key now) =
     written (create_generation_quote (sv_sha256 env) db user q key now)"
| "service_exec db (Op_grant environment env user g key now) =
     written (create_test_grant environment (sv_sha256 env) db user g key now)"
| "service_exec db (Op_generate env user s q key now) = written (generate env db user s q key now)"
| "service_exec db (Op_batch env user qs key now) = written (create_batch env db user qs key now)"
| "service_exec db (Op_cancel env others user i key now) =
     written (cancel_generation env (\<lambda>db. run_tx service_exec db others) db user i key now)"
| "service_exec db (Op_replay i admin now) = written (replay_admin_dead_letter db i admin now)"
  by pat_completeness auto

termination
  by (relation "measure (size \<circ> snd)") (auto simp: less_Suc_eq_le size_list_estimation')

end
