(* ===== verification/ServiceInv.thy ===== *)
theory ServiceInv
  imports Service
begin

text \<open>
  The invariants of the whole service: those of the provider pipeline hold when jobs are
  accepted, batched and cancelled next to it, by the rule that every operation keeps them
  and only extends the history.
\<close>

section \<open>Committed states\<close>

text \<open>A committed job has been reserved and queued: the two first statuses never outlive the
  transaction that makes the job.\<close>

definition accepted :: "database \<Rightarrow> bool" where
  "accepted db \<longleftrightarrow> (\<forall>j \<in> set (t_jobs db). job_status j \<notin> {JOB_CREATED, JOB_RESERVED})"

definition service_ok :: "database \<Rightarrow> bool" where
  "service_ok db \<longleftrightarrow> jobs_ok db \<and> attempts_ok db \<and> accepted db"

definition service_follows :: "database \<Rightarrow> database \<Rightarrow> bool" where
  "service_follows db db' \<longleftrightarrow> extends db db' \<and> attempts_follow db db'"

lemma service_follows_refl: "service_follows db db"
  by (simp add: service_follows_def attempts_follow_refl)

lemma service_follows_trans:
  "service_follows a b \<Longrightarrow> service_follows b c \<Longrightarrow> service_follows a c"
  unfolding service_follows_def using extends_trans attempts_follow_trans by blast

lemma jobs_ok_log: "jobs_ok db \<Longrightarrow> log_agrees db"
  by (simp add: jobs_ok_def)

text \<open>No path leads back to the first statuses, and only they lead to QUEUED.\<close>

lemma path_later:
  assumes "path JOB_TRANSITIONS s ts" and "s \<notin> {JOB_CREATED, JOB_RESERVED}"
  shows "last (s # ts) \<notin> {JOB_CREATED, JOB_RESERVED} \<and> (last (s # ts) = JOB_QUEUED \<longrightarrow> s = JOB_QUEUED)"
  using assms
proof (induction ts arbitrary: s)
  case (Cons t ts)
  have step: "t \<notin> {JOB_CREATED, JOB_RESERVED, JOB_QUEUED}"
    using Cons.prems by (cases s) auto
  with Cons.IH [of t] Cons.prems(1) show ?case by auto
qed simp

lemma accepted_history:
  assumes "history db db'" and "log_agrees db" "log_agrees db'" and "accepted db"
  shows "accepted db'"
  unfolding accepted_def
proof
  fix j' assume j': "j' \<in> set (t_jobs db')"
  have same: "map job_fixed (t_jobs db') = map job_fixed (t_jobs db)"
    using assms(1) by (simp add: history_def)
  have "job_fixed j' \<in> set (map job_fixed (t_jobs db'))" using j' by simp
  then obtain j where j: "j \<in> set (t_jobs db)" "job_fixed j = job_fixed j'" unfolding same by auto
  obtain j2 ts where j2: "j2 \<in> set (t_jobs db')" "job_fixed j2 = job_fixed j"
    and p: "path JOB_TRANSITIONS (job_status j) ts" "last (job_status j # ts) = job_status j2"
    by (rule extends_path [OF history_extends [OF assms(1)] assms(2,3) j(1)])
  have "j2 = j'"
    by (rule key_unique [where k = job_id, OF _ j2(1) j'])
      (use assms(3) j2(2) j(2) in \<open>auto simp: log_agrees_def job_fixed_def\<close>)
  with path_later [OF p(1)] p(2) assms(4) j(1) show "job_status j' \<notin> {JOB_CREATED, JOB_RESERVED}"
    by (auto simp: accepted_def)
qed

text \<open>Operations that leave jobs, log and attempts alone.\<close>

lemma service_quiet:
  assumes "service_ok db" and "rows_kept db db'"
  shows "service_ok db' \<and> service_follows db db'"
proof -
  have "jobs_ok db'"
    using assms by (auto simp: service_ok_def rows_kept_def intro: same_jobs_ok [OF same_jobs_tables])
  moreover have "attempts_ok db'"
    using assms unfolding service_ok_def rows_kept_def by (auto intro: attempts_grow_ok)
  moreover have "service_follows db db'"
    using assms(2) history_extends [OF history_rows_kept]
    by (auto simp: service_follows_def rows_kept_def intro: attempts_grow_follow)
  ultimately show ?thesis
    using assms by (simp add: service_ok_def accepted_def rows_kept_def)
qed

lemma service_pipeline:
  assumes ok: "service_ok db" and "provider_exec db op = Inr db'"
  shows "service_ok db' \<and> service_follows db db'"
proof -
  have own: "context_owned db (op_context op)" and tx: "provider_tx db op = Inr db'"
    using assms(2) by (auto simp: provider_exec_def split: if_splits)
  have jobs: "jobs_ok db'" by (rule provider_tx_jobs_ok [OF _ tx]) (use ok in \<open>simp add: service_ok_def\<close>)
  have "attempts_ok db' \<and> attempts_follow db db'"
    by (rule provider_tx_attempts [OF _ own tx]) (use ok in \<open>simp add: service_ok_def\<close>)
  moreover have hist: "history db db'" by (rule history_provider_tx [OF tx])
  moreover have "accepted db'"
    by (rule accepted_history [OF hist]) (use ok jobs in \<open>simp_all add: service_ok_def jobs_ok_log\<close>)
  ultimately show ?thesis
    using jobs history_extends [OF hist] by (simp add: service_ok_def service_follows_def)
qed

section \<open>Quiet operations\<close>

lemma rows_kept_refl [simp]: "rows_kept db db"
  by (simp add: rows_kept_def)

lemma rows_kept_trans: "rows_kept a b \<Longrightarrow> rows_kept b c \<Longrightarrow> rows_kept a c"
  by (simp add: rows_kept_def)

named_theorems quiet \<open>operations that leave jobs, log and attempts alone\<close>

lemma quiet_uuid4 [quiet]: "uuid4 db = (i, db') \<Longrightarrow> rows_kept db db'"
  by (auto simp: uuid4_def rows_kept_def)

lemma quiet_acquire [quiet]: "acquire sha db u s k p = Inr (d, db') \<Longrightarrow> rows_kept db db'"
  by (auto simp: acquire_def acquire_at_def and_then_Inr_iff uuid4_def Let_def rows_kept_def
      split: option.splits)

lemma quiet_complete: "rows_kept db (complete db r t i s)"
  by (simp add: complete_def rows_kept_def split: option.split)

lemma quiet_user [quiet]: "get_current_user db s = Inr (u, db') \<Longrightarrow> rows_kept db db'"
  by (auto simp: get_current_user_def get_current_user_at_def uuid4_def Let_def rows_kept_def
      split: option.splits if_splits)

lemma quiet_create_project [quiet]: "create_project db u p = Inr (x, db') \<Longrightarrow> rows_kept db db'"
  by (auto simp: create_project_def uuid4_def Let_def rows_kept_def split: if_splits)

lemma quiet_update_project [quiet]: "update_project db u i p = Inr db' \<Longrightarrow> rows_kept db db'"
  by (auto simp: update_project_def and_then_Inr_iff assign_project_def rows_kept_def)

lemma add_cleanup_rows: "rows_kept db (fold (add_cleanup_object e nb) xs db)"
proof (induction xs arbitrary: db)
  case (Cons x xs)
  have "rows_kept db (add_cleanup_object e nb x db)"
    by (cases x) (simp add: add_cleanup_object_def uuid4_def rows_kept_def)
  with Cons show ?case by (auto intro: rows_kept_trans)
qed simp

lemma quiet_request_deletion [quiet]:
  "request_project_deletion r db p now = Inr (e, db') \<Longrightarrow> rows_kept db db'"
  by (auto simp: request_project_deletion_def uuid4_def Let_def rows_kept_def
      add_cleanup_rows [unfolded rows_kept_def] split: option.splits if_splits)

lemma quiet_delete_project [quiet]: "delete_project r db u i now = Inr db' \<Longrightarrow> rows_kept db db'"
  by (auto simp: delete_project_def and_then_Inr_iff intro: quiet_request_deletion)

lemma quiet_create_shot [quiet]: "create_shot db u i p = Inr (x, db') \<Longrightarrow> rows_kept db db'"
  by (auto simp: create_shot_def and_then_Inr_iff uuid4_def Let_def rows_kept_def split: if_splits)

lemma quiet_update_shot [quiet]: "update_shot db u i p = Inr (x, db') \<Longrightarrow> rows_kept db db'"
  by (auto simp: update_shot_def and_then_Inr_iff Let_def rows_kept_def split: if_splits)

lemma quiet_create_reference [quiet]: "create_shot_reference db u i p = Inr (x, db') \<Longrightarrow> rows_kept db db'"
  by (auto simp: create_shot_reference_def insert_reference_def and_then_Inr_iff uuid4_def Let_def
      rows_kept_def split: if_splits)

lemma quiet_set_input [quiet]: "set_shot_input db u i a = Inr (x, db') \<Longrightarrow> rows_kept db db'"
  by (auto simp: set_shot_input_def insert_reference_def and_then_Inr_iff uuid4_def Let_def
      rows_kept_def split: if_splits option.splits)

lemma quiet_delete_reference [quiet]: "delete_shot_reference db u i r = Inr db' \<Longrightarrow> rows_kept db db'"
  by (auto simp: delete_shot_reference_def and_then_Inr_iff Let_def rows_kept_def split: if_splits)

lemma quiet_record_asset [quiet]: "record_asset db p u n s = Inr (x, db') \<Longrightarrow> rows_kept db db'"
  by (auto simp: record_asset_def insert_asset_def and_then_Inr_iff uuid4_def Let_def rows_kept_def
      split: if_splits)

lemma quiet_post_transfer [quiet]: "post_transfer db tr now = Inr (t, b, db') \<Longrightarrow> rows_kept db db'"
  using post_transfer_events post_transfer_jobs by (simp add: rows_kept_def)

lemma quiet_ensure_account [quiet]: "ensure_account db ow ty u = Inr (a, db') \<Longrightarrow> rows_kept db db'"
  using ensure_account_events ensure_account_jobs by (simp add: rows_kept_def)

lemma quiet_catalog: "rows_kept db (ensure_default_catalog db)"
proof -
  have "rows_kept db (add_tier x db)" for x db
    by (cases x) (simp add: add_tier_def rows_kept_def)
  then have 1: "rows_kept db (fold add_tier xs db)" for xs db
    by (induction xs arbitrary: db) (simp_all, meson rows_kept_trans)
  have "rows_kept db (add_price x db)" for x db
    by (cases x) (simp add: add_price_def uuid4_def rows_kept_def)
  then have 2: "rows_kept db (fold add_price xs db)" for xs db
    by (induction xs arbitrary: db) (simp_all, meson rows_kept_trans)
  show ?thesis unfolding ensure_default_catalog_def by (rule rows_kept_trans [OF 1 2])
qed

lemma quiet_create_quote [quiet]: "create_quote db u s t r v now = Inr (q, db') \<Longrightarrow> rows_kept db db'"
  using quiet_catalog [of db]
  by (auto simp: create_quote_def uuid4_def Let_def rows_kept_def split: option.splits if_splits)

lemma quiet_grant [quiet]: "grant_seconds db u t a k r now = Inr (x, db') \<Longrightarrow> rows_kept db db'"
  using quiet_catalog [of db]
  by (auto simp: grant_seconds_def and_then_Inr_iff Let_def split: option.splits if_splits
      dest!: quiet_ensure_account quiet_post_transfer) (meson rows_kept_trans)

lemma quiet_quote [quiet]:
  "create_generation_quote sha db u p k now = Inr (q, db') \<Longrightarrow> rows_kept db db'"
  by (auto simp: create_generation_quote_def and_then_Inr_iff split: option.splits
      dest!: quiet_acquire quiet_create_quote intro: rows_kept_trans quiet_complete)

lemma quiet_test_grant [quiet]:
  "create_test_grant e sha db u p k now = Inr (t, db') \<Longrightarrow> rows_kept db db'"
  by (auto simp: create_test_grant_def and_then_Inr_iff Let_def split: option.splits if_splits
      dest!: quiet_acquire quiet_grant intro: rows_kept_trans quiet_complete)

lemma quiet_replay [quiet]: "replay_dead_letter db i a now = Inr (x, db') \<Longrightarrow> rows_kept db db'"
  by (auto simp: replay_dead_letter_def requeue_source_def Let_def rows_kept_def
      split: option.splits if_splits dead_letter_source.splits)

lemma quiet_admin_replay [quiet]:
  "replay_admin_dead_letter db i a now = Inr (x, db') \<Longrightarrow> rows_kept db db'"
  by (auto simp: replay_admin_dead_letter_def split: sum.splits error.splits option.splits
      dest: quiet_replay)

lemma quiet_use_quotes: "rows_kept db (use_quotes db p now)"
  by (simp add: use_quotes_def rows_kept_def)

lemma quiet_outbox [quiet]: "insert_outbox db e = Inr db' \<Longrightarrow> rows_kept db db'"
  by (auto simp: insert_outbox_def rows_kept_def split: if_splits)

lemma quiet_enqueue [quiet]: "enqueue_generation_workflow db j = Inr db' \<Longrightarrow> rows_kept db db'"
  by (auto simp: enqueue_generation_workflow_def uuid4_def insert_outbox_def rows_kept_def
      split: if_splits)

lemma quiet_enqueue_cancel [quiet]: "enqueue_provider_cancel db j a = Inr (e, db') \<Longrightarrow> rows_kept db db'"
  by (auto simp: enqueue_provider_cancel_def uuid4_def insert_outbox_def and_then_Inr_iff Let_def
      rows_kept_def split: option.splits if_splits)

lemma quiet_project_route [quiet]: "project_route f reg db i = Inr (r, db') \<Longrightarrow> rows_kept db db'"
  by (auto simp: project_route_def and_then_def Let_def assign_project_def rows_kept_def
      split: option.split_asm if_split_asm sum.split_asm)

lemma quiet_route_for_shot [quiet]:
  "route_for_shot f reg db s r d ro = Inr (x, db') \<Longrightarrow> rows_kept db db'"
  by (auto simp: route_for_shot_def and_then_def split: option.split_asm sum.split_asm
      dest: quiet_project_route)

lemma quiet_reserve_batch [quiet]:
  "reserve_quotes_for_batch db u b qs now = Inr (c, g, db') \<Longrightarrow> rows_kept db db'"
  by (auto simp: reserve_quotes_for_batch_def and_then_Inr_iff Let_def split: option.splits if_splits
      dest!: quiet_ensure_account quiet_post_transfer
      simp: use_quotes_def rows_kept_def)

section \<open>Making a job\<close>

text \<open>\<open>holds db r\<close>: the row \<open>r\<close> is in the hands of the transaction that makes it, everything
  else is in order.\<close>

definition holds :: "database \<Rightarrow> generation_job \<Rightarrow> bool" where
  "holds db r \<longleftrightarrow> log_agrees db \<and> get_job db (job_id r) = Some r \<and>
     (\<forall>j \<in> set (t_jobs db). job_id j \<noteq> job_id r \<longrightarrow> settlement_fits j \<and> job_status j \<notin> {JOB_CREATED, JOB_RESERVED})"

lemma holds_quiet: "holds db r \<Longrightarrow> rows_kept db db' \<Longrightarrow> holds db' r"
  by (simp add: holds_def rows_kept_def get_job_def log_agrees_def job_log_def)

lemma insert_job_Inr:
  assumes "insert_job db j = Inr db'"
  shows "db' = db\<lparr>t_jobs := t_jobs db @ [j]\<rparr>" and "job_id j \<notin> job_id ` set (t_jobs db)"
  using assms by (auto simp: insert_job_def split: if_splits)

lemma insert_job_holds:
  assumes ok: "service_ok db" and ins: "insert_job db j = Inr db'" and st: "job_status j = JOB_CREATED"
    and cap: "input_captured j"
  shows "holds db' j" and "extends db db'" and "t_attempts db' = t_attempts db"
proof -
  note I = insert_job_Inr [OF ins]
  have log: "log_agrees db" and fits: "\<forall>j \<in> set (t_jobs db). settlement_fits j"
    using ok by (simp_all add: service_ok_def jobs_ok_def)
  have none: "job_log db (job_id j) = []" using log I(2) by (simp add: log_agrees_iff)
  have "job_log db' i = job_log db i" for i by (simp add: I(1) job_log_def)
  then have "log_agrees db'"
    using log none I(2) st by (auto simp: log_agrees_iff I(1))
  moreover have "get_job db' (job_id j) = Some j"
    unfolding get_job_def
    by (rule first_where_key_eq [where k = job_id]) (use calculation in \<open>auto simp: log_agrees_def I(1)\<close>)
  ultimately show "holds db' j"
    using fits ok by (auto simp: holds_def I(1) service_ok_def accepted_def)
  show "extends db db'" unfolding extends_def I(1)
    by (intro conjI exI [of _ "[j]"]) (simp_all add: cap)
  show "t_attempts db' = t_attempts db" by (simp add: I(1))
qed

lemma holds_in_hand: "holds db r \<Longrightarrow> job_settlement_status r = Some SET_RESERVED \<Longrightarrow>
    in_hand db (job_id r) (job_status r)"
  by (auto simp: holds_def in_hand_def)

lemma holds_assign:
  assumes "holds db r" and "\<And>j. job_id (f j) = job_id j" and "\<And>j. job_status (f j) = job_status j"
  shows "holds (assign_job db (job_id r) f) ((f r)\<lparr>job_updated_at := db_now db\<rparr>)"
proof -
  let ?g = "\<lambda>j. (f j)\<lparr>job_updated_at := db_now db\<rparr>"
  let ?db = "assign_job db (job_id r) f"
  have log: "log_agrees db" and get: "get_job db (job_id r) = Some r"
    using assms(1) by (simp_all add: holds_def)
  have "log_agrees ?db"
    by (rule log_agrees_cong [OF log]) (simp_all add: assms(2,3) map_update_where_cong job_log_def)
  moreover have "get_job ?db (job_id r) = Some (?g r)"
    using get by (simp add: get_job_def first_where_update_same assms(2))
  ultimately show ?thesis
    using assms(1) by (auto simp: holds_def assms(2) set_update_where split: if_splits)
qed

lemma holds_transition:
  assumes h: "holds db r" and job: "job_id job = job_id r" "job_status job = job_status r"
    and T: "transition_job db job t et k pl = (True, db', job')"
  shows "holds db' (r\<lparr>job_status := t, job_updated_at := db_now db\<rparr>)"
proof -
  have log: "log_agrees db" and get: "get_job db (job_id job) = Some r"
    using h job by (simp_all add: holds_def)
  have dist: "distinct (map job_id (t_jobs db))" using log by (simp add: log_agrees_def)
  obtain x where x: "get_job db (job_id job) = Some x"
    "get_job db' (job_id job) = Some (x\<lparr>job_status := t, job_updated_at := db_now db\<rparr>)"
    by (rule transition_job_row [OF T dist])
  moreover have "log_agrees db'" by (rule log_agrees_transition_job [OF log T])
  ultimately show ?thesis
    using h get job(1)
    by (auto simp: holds_def transition_job_True(4) [OF T] set_update_where split: if_splits)
qed

lemma holds_done:
  assumes "holds db r" and "settlement_fits r" and "job_status r \<notin> {JOB_CREATED, JOB_RESERVED}"
  shows "jobs_ok db" and "accepted db"
proof -
  have "j = r" if "j \<in> set (t_jobs db)" "job_id j = job_id r" for j
  proof -
    have "get_job db (job_id r) = Some j"
      unfolding get_job_def
      by (rule first_where_key_eq [where k = job_id, OF _ that])
        (use assms(1) in \<open>simp add: holds_def log_agrees_def\<close>)
    with assms(1) show ?thesis by (simp add: holds_def)
  qed
  with assms show "jobs_ok db" and "accepted db"
    unfolding jobs_ok_def accepted_def holds_def by metis+
qed

text \<open>The reservation of a quote for the job that is being made.\<close>

lemma reserve_quote_holds:
  assumes h: "holds db job" and st: "job_status job = JOB_CREATED"
    and terms: "input_terms job = (sh_duration_seconds shot * 1000, ''720P'', sh_aspect_ratio shot, m)"
    and res: "reserve_quote_for_job db user shot q job now = Inr (job', db')"
  obtains r where "holds db' r" and "job_id r = job_id job" and "job_status r = JOB_RESERVED"
    and "job_settlement_status r = Some SET_RESERVED" and "job_id job' = job_id job"
    and "job_status job' = JOB_RESERVED" and "history db db'" and "t_attempts db' = t_attempts db"
proof -
  from res have "\<exists>qq snapshot t db3 k pl. transition_job
        (assign_job db3 (job_id job) (reserved_terms qq snapshot t))
        (reserved_terms qq snapshot t job) JOB_RESERVED ''job.reserved'' k pl = (True, db', job') \<and>
      rows_kept db db3 \<and> validate_quote_terms db user shot qq now = Inr ()"
    by (clarsimp simp: reserve_quote_for_job_def and_then_Inr_iff Let_def case3_Inr_iff
        split: option.split_asm if_split_asm)
      (intro exI conjI, assumption,
        meson rows_kept_trans quiet_use_quotes quiet_ensure_account quiet_post_transfer, assumption)
  then obtain qq snapshot t db3 k pl where e4: "transition_job
        (assign_job db3 (job_id job) (reserved_terms qq snapshot t))
        (reserved_terms qq snapshot t job) JOB_RESERVED ''job.reserved'' k pl = (True, db', job')"
    and q: "rows_kept db db3" and valid: "validate_quote_terms db user shot qq now = Inr ()" by blast
  have same: "job_fixed ((reserved_terms qq snapshot t job)\<lparr>job_updated_at := w\<rparr>) = job_fixed job" for w
    using valid terms by (auto simp: validate_quote_terms_def job_fixed_def input_terms_def
        reserved_terms_def split: if_splits option.splits)
  let ?db4 = "assign_job db3 (job_id job) (reserved_terms qq snapshot t)"
  have h3: "holds db3 job" by (rule holds_quiet [OF h q])
  have h4: "holds ?db4 ((reserved_terms qq snapshot t job)\<lparr>job_updated_at := db_now db3\<rparr>)"
    by (rule holds_assign [OF h3]) (simp_all add: reserved_terms_def)
  note h5 = holds_transition [OF h4 _ _ e4]
  have "history db3 ?db4"
    by (rule history_assign_row [where j = job])
      (use h3 same in \<open>auto simp: holds_def log_agrees_def get_job_def dest: first_where_Some\<close>)
  then have "history db db'"
    using history_rows_kept [OF q] history_transition_job [OF e4] by (meson history_trans)
  moreover have "t_attempts db' = t_attempts db"
    using attempts_transition_job [OF e4] q by (simp add: rows_kept_def)
  ultimately show ?thesis
    using h5 transition_job_object [OF e4] st by (intro that [of "(reserved_terms qq snapshot t job)
      \<lparr>job_updated_at := db_now db3, job_status := JOB_RESERVED, job_updated_at := db_now ?db4\<rparr>"])
      (simp_all add: reserved_terms_def)
qed

text \<open>The first attempt of a job is its only one.\<close>

lemma first_attempt_ok:
  assumes ok: "attempts_ok db" and add: "add_first_attempt f db i route = Inr db'"
  shows "attempts_ok db' \<and> attempts_follow db db' \<and> t_jobs db' = t_jobs db \<and> t_events db' = t_events db"
proof -
  let ?a = "new_attempt f (uuid_supply db (uuid_next db)) (db_now db) i route"
  have rows: "t_attempts db' = t_attempts db @ [?a]"
    and fresh: "\<forall>r \<in> set (t_attempts db). at_id r \<noteq> at_id ?a"
    and none1: "\<forall>r \<in> set (t_attempts db). \<not> (at_job_id r = i \<and> at_attempt_no r = 1)"
    and same: "t_jobs db' = t_jobs db" "t_events db' = t_events db"
    using add by (auto simp: add_first_attempt_def uuid4_def Let_def new_attempt_def split: if_splits)
  have none: "at_job_id r \<noteq> i" if "r \<in> set (t_attempts db)" for r
    using ok none1 that unfolding attempts_ok_def by metis
  then have "attempts_of db i = []" by (simp add: attempts_of_def filter_empty_conv)
  then have "attempts_ok db'"
    using none fresh
    by (intro attempts_ok_snoc [OF ok rows]) (auto simp: new_attempt_def MAX_ATTEMPTS_PER_CANDIDATE_def)
  moreover have "attempts_follow db db'"
    by (auto simp: attempts_follow_def rows intro: attempt_grows_refl)
  ultimately show ?thesis using same by simp
qed

lemma queue_job_ok:
  assumes h: "holds db r" and r: "job_status r = JOB_RESERVED" "job_settlement_status r = Some SET_RESERVED"
    and job: "job_id job = job_id r" "job_status job = JOB_RESERVED" and ok: "attempts_ok db"
    and q: "queue_job env db job route = Inr db'"
  shows "service_ok db' \<and> history db db' \<and> attempts_follow db db'"
proof -
  obtain db1 db2 job2 where a: "add_first_attempt (sv_uuid5 env) db (job_id job) route = Inr db1"
    and T: "transition_job db1 job JOB_QUEUED ''job.queued'' (job_key (job_id job) ''queued'') (JObj []) =
      (True, db2, job2)"
    and e: "enqueue_generation_workflow db2 job2 = Inr db'"
    using q by (auto simp: queue_job_def and_then_Inr_iff changed_Inr_iff)
  note A = first_attempt_ok [OF ok a]
  have "log_agrees db1 \<longleftrightarrow> log_agrees db" using A by (simp add: log_agrees_def job_log_def)
  with A h have h1: "holds db1 r" by (simp add: holds_def get_job_def)
  have h2: "holds db2 (r\<lparr>job_status := JOB_QUEUED, job_updated_at := db_now db1\<rparr>)"
    by (rule holds_transition [OF h1 job(1) _ T]) (simp add: job(2) r(1))
  note Q = quiet_enqueue [OF e]
  note h3 = holds_quiet [OF h2 Q]
  have "jobs_ok db'" "accepted db'" by (rule holds_done [OF h3]; simp add: settlement_fits_def r)+
  moreover have "t_attempts db' = t_attempts db1"
    using attempts_transition_job [OF T] Q by (simp add: rows_kept_def)
  then have "attempts_ok db'" "attempts_follow db1 db'"
    using A by (auto intro: attempts_grow_ok attempts_grow_follow)
  moreover have "history db db1" using A by (intro history_tables) simp_all
  then have "history db db'"
    using history_transition_job [OF T] history_rows_kept [OF Q] by (meson history_trans)
  ultimately show ?thesis
    using A attempts_follow_trans by (auto simp: service_ok_def)
qed

text \<open>A job that was inserted and reserved is queued.\<close>

lemma made_job_ok:
  assumes ok: "service_ok db" and ins: "insert_job db job = Inr db1" and st: "job_status job = JOB_CREATED"
    and cap: "input_captured job"
    and h: "holds db2 r" and r: "job_status r = JOB_RESERVED" "job_settlement_status r = Some SET_RESERVED"
    and job': "job_id job' = job_id r" "job_status job' = JOB_RESERVED"
    and hist: "history db1 db2" and same: "t_attempts db2 = t_attempts db1"
    and q: "queue_job env db2 job' route = Inr db'"
  shows "service_ok db' \<and> service_follows db db'"
proof -
  note I = insert_job_holds [OF ok ins st cap]
  have rows: "t_attempts db2 = t_attempts db" using I(3) same by simp
  have "attempts_ok db2"
    using ok rows by (auto simp: service_ok_def intro: attempts_grow_ok)
  from queue_job_ok [OF h r job' this q] have Q: "service_ok db'" "history db2 db'"
    "attempts_follow db2 db'" by simp_all
  have "extends db db'"
    using I(2) history_extends [OF hist] history_extends [OF Q(2)] by (meson extends_trans)
  with Q rows show ?thesis by (simp add: service_follows_def attempts_follow_def)
qed

lemma service_quiet_trans:
  assumes "service_ok db" and "rows_kept db db1"
    and "service_ok db1 \<Longrightarrow> service_ok db2 \<and> service_follows db1 db2"
  shows "service_ok db2 \<and> service_follows db db2"
  using service_quiet [OF assms(1,2)] assms(3) service_follows_trans by blast

lemma service_trans_quiet:
  assumes "service_ok db1 \<and> service_follows db db1" and "rows_kept db1 db2"
  shows "service_ok db2 \<and> service_follows db db2"
  using service_quiet [OF _ assms(2)] assms(1) service_follows_trans by blast

lemma accept_generation_ok:
  assumes ok: "service_ok db" and acc: "accept_generation env db user s q now = Inr (i, db')"
  shows "service_ok db' \<and> service_follows db db'"
proof -
  obtain shot route db1 j db2 snapshot job db3 job' db4 where
    route: "route_for_shot (sv_uuid5 env) (sv_routes env) db shot ''720P''
      (sh_duration_seconds shot * 1000) None = Inr (route, db1)"
    and new: "uuid4 db1 = (j, db2)"
    and job: "job = (new_job j (db_now db2) (user_id user) shot ''FAST'' (sh_duration_seconds shot * 1000)
           ''720P'' (sh_aspect_ratio shot) (mode_for (sv_modes env) 0)
           (candidate_id (sv_uuid5 env) route))\<lparr>job_input_snapshot := Some snapshot\<rparr>"
    and input: "capture_input db2 shot (new_job j (db_now db2) (user_id user) shot ''FAST''
      (sh_duration_seconds shot * 1000) ''720P'' (sh_aspect_ratio shot) (mode_for (sv_modes env) 0)
      (candidate_id (sv_uuid5 env) route)) = Inr snapshot"
    and ins: "insert_job db2 job = Inr db3"
    and res: "reserve_quote_for_job db3 user shot q job now = Inr (job', db4)"
    and queue: "queue_job env db4 job' route = Inr db'"
    using acc by (auto simp: accept_generation_def and_then_Inr_iff Let_def case2_Inr_iff)
  have st: "job_status job = JOB_CREATED" by (simp add: job new_job_def)
  have cap: "input_captured job" unfolding job by (rule capture_input_captured [OF input])
  have terms: "input_terms job = (sh_duration_seconds shot * 1000, ''720P'', sh_aspect_ratio shot,
      mode_for (sv_modes env) 0)"
    by (simp add: job new_job_def input_terms_def)
  show ?thesis
  proof (rule service_quiet_trans [OF ok rows_kept_trans [OF quiet_route_for_shot [OF route] quiet_uuid4 [OF new]]])
    assume ok2: "service_ok db2"
    obtain r where r: "holds db4 r" "job_id r = job_id job" "job_status r = JOB_RESERVED"
      "job_settlement_status r = Some SET_RESERVED" "job_id job' = job_id job" "job_status job' = JOB_RESERVED"
      "history db3 db4" "t_attempts db4 = t_attempts db3"
      by (rule reserve_quote_holds [OF insert_job_holds(1) [OF ok2 ins st cap] st terms res])
    show "service_ok db' \<and> service_follows db2 db'"
      by (rule made_job_ok [OF ok2 ins st cap r(1,3,4) _ r(6,7,8) queue]) (simp add: r(2,5))
  qed
qed

text \<open>The frame of the idempotent operations: the key, the work, the completion.\<close>

lemma idempotent_ok:
  assumes ok: "service_ok db" and acq: "acquire sha db u scope key p = Inr (d, db1)"
    and work: "prior = None \<Longrightarrow> service_ok db1 \<Longrightarrow>
      \<exists>db2 t i n. service_ok db2 \<and> service_follows db1 db2 \<and> db' = complete db2 (de_record d) t i n"
    and same: "prior \<noteq> None \<Longrightarrow> db' = db1"
  shows "service_ok db' \<and> service_follows db db'"
proof (rule service_quiet_trans [OF ok quiet_acquire [OF acq]])
  assume ok1: "service_ok db1"
  show "service_ok db' \<and> service_follows db1 db'"
  proof (cases "prior = None")
    case True
    from work [OF True ok1] obtain db2 t i n where W: "service_ok db2 \<and> service_follows db1 db2"
      and db': "db' = complete db2 (de_record d) t i n" by blast
    show ?thesis unfolding db' by (rule service_trans_quiet [OF W quiet_complete])
  qed (use ok1 same service_follows_refl in simp)
qed

lemma generate_ok:
  assumes ok: "service_ok db" and gen: "generate env db user s q key now = Inr (x, db')"
  shows "service_ok db' \<and> service_follows db db'"
proof -
  obtain d db1 replay where acq: "acquire (sv_sha256 env) db (user_id user) generate_scope key
      (generate_payload s q) = Inr (d, db1)"
    and rest: "(case replay of
       Some i \<Rightarrow> and_then (load_job db1 i (user_id user)) (\<lambda>j. Inr (j, db1))
     | None \<Rightarrow>
         and_then (accept_generation env db1 user s q now) (\<lambda>(i, db).
         let db = complete db (de_record d) ''generation_job'' i 202 in
         and_then (load_job db i (user_id user)) (\<lambda>j. Inr (j, db)))) = Inr (x, db')"
    using gen by (auto simp: generate_def and_then_Inr_iff)
  show ?thesis
    by (rule idempotent_ok [where prior = replay, OF ok acq])
      (use rest accept_generation_ok in \<open>fastforce simp: and_then_Inr_iff Let_def\<close>)+
qed
section \<open>A batch\<close>

lemma accept_batch_item_ok:
  assumes ok: "service_ok db" and acc: "accept_batch_item env db user batch route n item = Inr db'"
  shows "service_ok db' \<and> service_follows db db'"
proof -
  obtain q shot terms rt db1 i db2 input job db3 where
    route: "route_for_shot (sv_uuid5 env) (sv_routes env) db shot (qu_resolution q)
         (qu_duration_ms q) (Some route) = Inr (rt, db1)"
    and new: "uuid4 db1 = (i, db2)"
    and job: "job = (batch_job i (db_now db2) user batch q shot terms (mode_for (sv_modes env) n)
           (candidate_id (sv_uuid5 env) route))\<lparr>job_input_snapshot := Some input\<rparr>"
    and capture: "capture_input db2 shot (batch_job i (db_now db2) user batch q shot terms
      (mode_for (sv_modes env) n) (candidate_id (sv_uuid5 env) route)) = Inr input"
    and ins: "insert_job db2 job = Inr db3"
    and rest: "(case transition_job db3 job JOB_RESERVED ''job.reserved'' (job_key i ''reserved'')
            (JObj [(''ledger_transaction_id'', JStr (uuid_str (gb_reserved_tx_id batch))),
                   (''batch_id'', JStr (uuid_str (gb_id batch)))]) of
          (False, _, _) \<Rightarrow> Inl (ApiError 409 ''JOB_STATE_CONFLICT'')
        | (True, db, job) \<Rightarrow> queue_job env db job route) = Inr db'"
    using acc by (cases item) (auto simp: accept_batch_item_def and_then_Inr_iff Let_def case2_Inr_iff)
  obtain db4 job' where
    T: "transition_job db3 job JOB_RESERVED ''job.reserved'' (job_key i ''reserved'')
            (JObj [(''ledger_transaction_id'', JStr (uuid_str (gb_reserved_tx_id batch))),
                   (''batch_id'', JStr (uuid_str (gb_id batch)))]) = (True, db4, job')"
    and queue: "queue_job env db4 job' route = Inr db'"
    using rest by (auto simp: changed_Inr_iff)
  have st: "job_status job = JOB_CREATED" "job_settlement_status job = Some SET_RESERVED"
    by (simp_all add: job batch_job_def new_job_def)
  have cap: "input_captured job" unfolding job by (rule capture_input_captured [OF capture])
  show ?thesis
  proof (rule service_quiet_trans [OF ok rows_kept_trans [OF quiet_route_for_shot [OF route] quiet_uuid4 [OF new]]])
    assume ok2: "service_ok db2"
    note h = holds_transition [OF insert_job_holds(1) [OF ok2 ins st(1) cap] refl refl T]
    show "service_ok db' \<and> service_follows db2 db'"
      by (rule made_job_ok [OF ok2 ins st(1) cap h _ _ _ _ history_transition_job [OF T]
            attempts_transition_job [OF T] queue])
        (use transition_job_object [OF T] st in simp_all)
  qed
qed

lemma accept_batch_items_ok:
  "service_ok db \<Longrightarrow> accept_batch_items env user batch route n items db = Inr db' \<Longrightarrow>
   service_ok db' \<and> service_follows db db'"
proof (induction items arbitrary: n db)
  case (Cons item items)
  from Cons.prems(2) obtain db1 where
    item: "accept_batch_item env db user batch route n item = Inr db1"
    and rest: "accept_batch_items env user batch route (Suc n) items db1 = Inr db'"
    by (auto simp: and_then_Inr_iff)
  from accept_batch_item_ok [OF Cons.prems(1) item] have "service_ok db1" "service_follows db db1"
    by simp_all
  with Cons.IH [OF _ rest] service_follows_trans show ?case by blast
qed (simp add: service_follows_refl)

lemma accept_batch_ok:
  assumes ok: "service_ok db" and acc: "accept_batch env db user qs now = Inr (i, db')"
  shows "service_ok db' \<and> service_follows db db'"
proof -
  obtain db1 claimed batch db2 route db3 where new: "uuid4 db = (i, db1)"
    and res: "reserve_quotes_for_batch db1 user
          \<lparr>bd_id = i, bd_user_id = user_id user, bd_status = BATCH_QUEUED\<rparr> qs now = Inr (claimed, batch, db2)"
    and route: "project_route (sv_uuid5 env) (sv_routes env) db2 (gb_project_id batch) = Inr (route, db3)"
    and items: "accept_batch_items env user batch route 0 claimed db3 = Inr db'"
    using acc by (auto simp: accept_batch_def and_then_Inr_iff case2_Inr_iff)
  have "rows_kept db db3"
    using quiet_uuid4 [OF new] quiet_reserve_batch [OF res] quiet_project_route [OF route]
    by (meson rows_kept_trans)
  then show ?thesis
    by (rule service_quiet_trans [OF ok]) (rule accept_batch_items_ok [OF _ items])
qed

lemma create_batch_ok:
  assumes ok: "service_ok db" and gen: "create_batch env db user qs key now = Inr (x, db')"
  shows "service_ok db' \<and> service_follows db db'"
proof -
  obtain d db1 replay where acq: "acquire (sv_sha256 env) db (user_id user) batch_scope key
      (batch_payload qs) = Inr (d, db1)"
    and rest: "(case replay of
       Some i \<Rightarrow> and_then (load_batch db1 i (user_id user)) (\<lambda>b. Inr (b, db1))
     | None \<Rightarrow>
         and_then (accept_batch env db1 user qs now) (\<lambda>(i, db).
         let db = complete db (de_record d) ''generation_batch'' i 202 in
         and_then (load_batch db i (user_id user)) (\<lambda>b. Inr (b, db)))) = Inr (x, db')"
    using gen by (auto simp: create_batch_def and_then_Inr_iff)
  show ?thesis
    by (rule idempotent_ok [where prior = replay, OF ok acq])
      (use rest accept_batch_ok in \<open>fastforce simp: and_then_Inr_iff Let_def\<close>)+
qed

section \<open>Cancelling\<close>

lemma service_from_history:
  assumes ok: "service_ok db" and "jobs_ok db'" and hist: "history db db'" and grow: "attempts_grow db db'"
  shows "service_ok db' \<and> service_follows db db'"
proof -
  have "accepted db'"
    by (rule accepted_history [OF hist]) (use ok assms(2) in \<open>simp_all add: service_ok_def jobs_ok_log\<close>)
  moreover have "attempts_ok db'"
    using ok grow by (auto simp: service_ok_def intro: attempts_grow_ok)
  ultimately show ?thesis
    using assms(2) history_extends [OF hist] attempts_grow_follow [OF grow]
    by (simp add: service_ok_def service_follows_def)
qed

lemma request_provider_cancel_ok:
  assumes ok: "service_ok db" and fresh: "fresh_object db job" and sub: "submitted (job_status job)"
    and res: "request_provider_cancel db job attempts = Inr db'"
  shows "service_ok db' \<and> service_follows db db'"
proof -
  obtain b db1 job1 where T: "transition_job db job JOB_CANCEL_REQUESTED ''job.cancel_requested''
        (job_key (job_id job) ''cancel-requested'') (JObj []) = (b, db1, job1)"
    by (metis prod_cases3)
  obtain db2 job2 e where cases: "db2 = db \<or> db2 = db1"
    and enq: "enqueue_provider_cancel db2 job2 (last attempts) = Inr (e, db')"
    using res unfolding request_provider_cancel_def T
    by (auto simp: and_then_Inr_iff Let_def split: if_split_asm bool.split_asm)
  have open1: "expected_settlement (job_status job) = Some SET_RESERVED"
    using sub by (auto simp: submitted_def)
  have "service_ok db1 \<and> service_follows db db1"
  proof (cases b)
    case True
    note T' = T [unfolded True]
    have "jobs_ok db1"
      using quiet_transition [OF _ fresh T open1] ok by (simp add: service_ok_def)
    then show ?thesis
      by (rule service_from_history [OF ok _ history_transition_job [OF T']])
        (use attempts_transition_job [OF T'] in auto)
  next
    case False
    with T have "db1 = db" by (simp add: transition_job_False)
    with ok service_follows_refl show ?thesis by simp
  qed
  then have "service_ok db2 \<and> service_follows db db2"
    using cases ok service_follows_refl by auto
  then show ?thesis by (rule service_trans_quiet) (rule quiet_enqueue_cancel [OF enq])
qed

lemma cancel_attempts_ok:
  "cancel_attempts attempts db = Inr db' \<Longrightarrow> same_jobs db db' \<and> history db db' \<and> attempts_grow db db'"
proof (induction attempts arbitrary: db)
  case (Cons a attempts)
  show ?case
  proof (cases "at_status a \<in> {ATT_SUCCEEDED, ATT_FAILED_RETRYABLE, ATT_FAILED_FINAL, ATT_CANCELLED,
          ATT_TIMED_OUT}")
    case True
    with Cons show ?thesis by simp
  next
    case False
    with Cons.prems obtain db1 a1 where T: "transition_attempt db a ATT_CANCELLED ''attempt.cancelled''
            (''attempt:'' @ uuid_str (at_id a) @ '':cancelled:v1'') (JObj []) = (True, db1, a1)"
      and rest: "cancel_attempts attempts db1 = Inr db'"
      by (auto simp: changed_Inr_iff)
    from Cons.IH [OF rest] same_jobs_transition_attempt [OF T] history_transition_attempt [OF T]
      attempts_grow_transition [OF T]
    show ?thesis using same_jobs_trans history_trans attempts_grow_trans by blast
  qed
qed (auto simp: attempts_grow_same)

lemma cancel_queued_ok:
  assumes ok: "service_ok db" and fresh: "fresh_object db job" and queued: "job_status job = JOB_QUEUED"
    and res: "job_settlement_status job = Some SET_RESERVED"
    and can: "cancel_queued db job attempts now = Inr db'"
  shows "service_ok db' \<and> service_follows db db'"
proof -
  obtain db1 job1 db2 b where T: "transition_job db job JOB_CANCELLED ''job.cancelled''
         (job_key (job_id job) ''cancelled'') (JObj []) = (True, db1, job1)"
    and att: "cancel_attempts attempts
            (assign_job db1 (job_id job1) (\<lambda>r. r\<lparr>job_finished_at := Some now\<rparr>)) = Inr db2"
    and fin: "finish_reservation db2 job1 False now = Inr (b, db')"
  proof -
    obtain db1 job1 where T: "transition_job db job JOB_CANCELLED ''job.cancelled''
         (job_key (job_id job) ''cancelled'') (JObj []) = (True, db1, job1)"
      using can by (auto simp: cancel_queued_def changed_Inr_iff)
    moreover have "job_settlement_status job1 = Some SET_RESERVED"
      using transition_job_object [OF T] res by simp
    ultimately show ?thesis
      using can that by (auto simp: cancel_queued_def and_then_Inr_iff)
  qed
  note obj = transition_job_object [OF T]
  let ?f = "\<lambda>r. r\<lparr>job_finished_at := Some now\<rparr>"
  let ?db1 = "assign_job db1 (job_id job1) ?f"
  note A = cancel_attempts_ok [OF att]
  obtain r where r: "r \<in> set (t_jobs db)" "job_id r = job_id job" "job_status r = job_status job"
    using fresh by (auto simp: fresh_object_def)
  have "get_job db (job_id job) = Some r"
    unfolding get_job_def
    by (rule first_where_key_eq [where k = job_id, OF _ r(1,2)])
      (use ok in \<open>simp add: service_ok_def jobs_ok_def log_agrees_def\<close>)
  from in_hand_enter [OF _ this] ok r(3) queued have "in_hand db (job_id job) (job_status job)"
    by (simp add: service_ok_def)
  from in_hand_transition [OF this T] have "in_hand db1 (job_id job1) JOB_CANCELLED" using obj by simp
  moreover have "same_jobs db1 ?db1" by (rule same_jobs_assign_job) (simp add: job_face_def)
  ultimately have "in_hand db2 (job_id job1) JOB_CANCELLED"
    using A by (meson same_jobs_in_hand same_jobs_trans)
  then have jobs: "jobs_ok db'"
    by (rule in_hand_finish [OF _ _ _ fin]) (use obj res in \<open>simp_all add: finished_status_def\<close>)
  have "history db1 ?db1" by (rule history_assign_job) (simp add: job_fixed_def input_terms_def)
  then have hist: "history db db'"
    using history_transition_job [OF T] A history_finish [OF fin] by (meson history_trans)
  have "attempts_grow db ?db1" using attempts_transition_job [OF T] by (auto simp: assign_job_simps)
  moreover have "attempts_grow db2 db'" using finish_reservation_events [OF fin] by auto
  ultimately have "attempts_grow db db'" using A by (meson attempts_grow_trans)
  then show ?thesis by (rule service_from_history [OF ok jobs hist])
qed

text \<open>The stale copy of a job that still is queued had its reservation when it was read.\<close>

lemma queued_was_reserved:
  assumes ok: "service_ok db" "service_ok db'" and ext: "extends db db'"
    and job: "job \<in> set (t_jobs db)" and row: "get_job db' (job_id job) = Some r" "job_status r = JOB_QUEUED"
  shows "job_settlement_status job = Some SET_RESERVED"
proof -
  obtain j ts where j: "j \<in> set (t_jobs db')" "job_fixed j = job_fixed job"
    and p: "path JOB_TRANSITIONS (job_status job) ts" "last (job_status job # ts) = job_status j"
    by (rule extends_path [OF ext _ _ job]) (use ok in \<open>auto simp: service_ok_def jobs_ok_def\<close>)
  have "get_job db' (job_id job) = Some j"
    unfolding get_job_def
    by (rule first_where_key_eq [where k = job_id, OF _ j(1)])
      (use ok(2) j(2) in \<open>simp_all add: service_ok_def jobs_ok_def log_agrees_def job_fixed_def\<close>)
  with row have "job_status j = JOB_QUEUED" by simp
  moreover have "job_status job \<notin> {JOB_CREATED, JOB_RESERVED}"
    using ok(1) job by (auto simp: service_ok_def accepted_def)
  ultimately have "job_status job = JOB_QUEUED" using path_later [OF p(1)] p(2) by auto
  then show ?thesis using ok(1) job by (auto simp: service_ok_def jobs_ok_def settlement_fits_def)
qed

lemma cancel_job_ok:
  assumes ok: "service_ok db" and mid: "service_ok (m db) \<and> service_follows db (m db)"
    and can: "cancel_job m db user i now = Inr db'"
  shows "service_ok db' \<and> service_follows db db'"
proof -
  obtain job r where load: "load_job db i (user_id user) = Inr job"
    and row: "get_job (m db) (job_id job) = Some r" and nc: "\<not> not_cancellable (job_status r)"
    and rest: "if submitted (job_status r)
      then request_provider_cancel (m db) (job\<lparr>job_status := job_status r\<rparr>) (job_attempts db (job_id job)) = Inr db'
      else cancel_queued (m db) (job\<lparr>job_status := job_status r\<rparr>) (job_attempts db (job_id job)) now = Inr db'"
    using can by (auto simp: cancel_job_def and_then_Inr_iff Let_def split: option.split_asm if_split_asm)
  have job: "job \<in> set (t_jobs db)"
    using load by (auto simp: load_job_def split: option.split_asm dest: first_where_Some)
  have r: "r \<in> set (t_jobs (m db))" "job_id r = job_id job"
    using first_where_Some [OF row [unfolded get_job_def]] by simp_all
  have fresh: "fresh_object (m db) (job\<lparr>job_status := job_status r\<rparr>)"
    using r by (auto simp: fresh_object_def)
  have "service_ok db' \<and> service_follows (m db) db'"
  proof (cases "submitted (job_status r)")
    case True
    with rest request_provider_cancel_ok [OF _ fresh] mid show ?thesis by simp
  next
    case False
    have "job_status r \<notin> {JOB_CREATED, JOB_RESERVED}"
      using mid r(1) by (auto simp: service_ok_def accepted_def)
    with False nc have queued: "job_status r = JOB_QUEUED"
      by (cases "job_status r") (simp_all add: submitted_def not_cancellable_def)
    have "job_settlement_status job = Some SET_RESERVED"
      by (rule queued_was_reserved [OF ok _ _ job row queued])
        (use mid in \<open>simp_all add: service_follows_def\<close>)
    with False rest cancel_queued_ok [OF _ fresh] mid queued show ?thesis by simp
  qed
  with mid service_follows_trans show ?thesis by blast
qed

lemma cancel_generation_ok:
  assumes ok: "service_ok db"
    and mid: "\<And>db. service_ok db \<Longrightarrow> service_ok (m db) \<and> service_follows db (m db)"
    and gen: "cancel_generation env m db user i key now = Inr (x, db')"
  shows "service_ok db' \<and> service_follows db db'"
proof -
  obtain d db1 replay where acq: "acquire (sv_sha256 env) db (user_id user) cancel_scope key
      (cancel_payload i) = Inr (d, db1)"
    and rest: "(case replay of
       Some r \<Rightarrow> and_then (load_job db1 r (user_id user)) (\<lambda>j. Inr (j, db1))
     | None \<Rightarrow>
         and_then (cancel_job m db1 user i now) (\<lambda>db.
         let db = complete db (de_record d) ''generation_job'' i 200 in
         and_then (load_job db i (user_id user)) (\<lambda>j. Inr (j, db)))) = Inr (x, db')"
    using gen by (auto simp: cancel_generation_def and_then_Inr_iff)
  have cj: "service_ok db \<Longrightarrow> cancel_job m db user i now = Inr db2 \<Longrightarrow> service_ok db2 \<and> service_follows db db2"
    for db db2
    by (rule cancel_job_ok [where m = m]) (use mid in simp_all)
  show ?thesis
    by (rule idempotent_ok [where prior = replay, OF ok acq])
      (use rest cj in \<open>fastforce simp: and_then_Inr_iff Let_def\<close>)+
qed

section \<open>Every operation of the service\<close>

lemma written_Inr: "written r = Inr db' \<longleftrightarrow> (\<exists>x. r = Inr (x, db'))"
  by (cases r) auto

lemma service_exec_ok:
  "service_ok db \<Longrightarrow> service_exec db op = Inr db' \<Longrightarrow> service_ok db' \<and> service_follows db db'"
proof (induction op arbitrary: db db')
  case (Op_cancel env others user i key now)
  from Op_cancel.prems(2) obtain x where
    gen: "cancel_generation env (\<lambda>db. run_tx service_exec db others) db user i key now = Inr (x, db')"
    by (auto simp: written_Inr)
  show ?case
  proof (rule cancel_generation_ok [OF Op_cancel.prems(1) _ gen])
    fix db assume "service_ok db"
    then show "service_ok (run_tx service_exec db others) \<and>
        service_follows db (run_tx service_exec db others)"
      by (rule run_tx_follows [OF _ service_follows_refl service_follows_trans])
        (use Op_cancel.IH in \<open>auto\<close>)
  qed
next
  case (Op_clock now)
  then show ?case by (intro service_quiet) (auto simp: rows_kept_def)
qed ((simp only: service_exec.simps written_Inr, (erule exE)?,
    (erule (1) service_pipeline generate_ok create_batch_ok | (erule service_quiet, erule quiet)))+)

end
