(* ===== verification/ServiceRuns.thy ===== *)
theory ServiceRuns
  imports ServiceInv
begin

text \<open>
  Runs of the whole service: any number of requests and workers, in any order. The rule for
  systems of transactions turns what each operation keeps into the properties of every run.
\<close>

interpretation service: transactional_follow service_exec service_ok service_follows
  by unfold_locales
    (use service_exec_ok service_follows_refl service_follows_trans in \<open>blast+\<close>)

text \<open>
  C33. The whole service is sound: start from a state in which every job's log replays to its
  row, its reservation fits its status, and its attempts are in order. Then, whatever requests
  users and administrators issue, interleaved with the transactions of the provider pipeline
  and with operations that slip in while a cancellation waits for its lock, every job that is
  there at the end, old or new, has been queued, its reservation is settled exactly when it
  succeeded, released exactly when it ended otherwise and reserved while it is under way, its
  log replays to its row, and it has at most two attempts.
\<close>

theorem service_sound:
  assumes "service_ok db" and "j \<in> set (t_jobs (run_tx service_exec db ops))"
  shows "job_status j \<notin> {JOB_CREATED, JOB_RESERVED} \<and>
    (job_settlement_status j = Some SET_SETTLED \<longleftrightarrow> job_status j = JOB_SUCCEEDED) \<and>
    (job_settlement_status j = Some SET_RELEASED \<longleftrightarrow>
       job_status j \<in> JOB_TERMINAL_STATUSES - {JOB_SUCCEEDED}) \<and>
    (job_settlement_status j = Some SET_RESERVED \<longleftrightarrow> job_status j \<notin> JOB_TERMINAL_STATUSES) \<and>
    replay JOB_CREATED (job_log (run_tx service_exec db ops) (job_id j)) = Some (job_status j) \<and>
    length (attempts_of (run_tx service_exec db ops) (job_id j)) \<le> 2"
proof -
  have ok: "service_ok (run_tx service_exec db ops)" by (rule service.run_good [OF assms(1)])
  then have "job_status j \<notin> {JOB_CREATED, JOB_RESERVED}"
    and "job_settlement_status j = expected_settlement (job_status j)"
    and "replay JOB_CREATED (job_log (run_tx service_exec db ops) (job_id j)) = Some (job_status j)"
    and "length (attempts_of (run_tx service_exec db ops) (job_id j)) \<le> 2"
    using assms(2) log_agreesD
    by (auto simp: service_ok_def accepted_def jobs_ok_def settlement_fits_def attempts_ok_def
        MAX_ATTEMPTS_PER_CANDIDATE_def)
  then show ?thesis by (cases "job_status j") (simp_all add: JOB_TERMINAL_STATUSES_def)
qed

text \<open>
  C34. Nobody's job is lost: after any run every job of the start is still there, under the same
  id, user, project, shot and batch, and its status has been reached from the one it had along
  the transition table; a job that had ended has not moved.
\<close>

theorem jobs_keep_course:
  assumes "service_ok db" and "j \<in> set (t_jobs db)"
  shows "\<exists>j' \<in> set (t_jobs (run_tx service_exec db ops)). job_fixed j' = job_fixed j \<and>
    (\<exists>ts. path JOB_TRANSITIONS (job_status j) ts \<and> last (job_status j # ts) = job_status j') \<and>
    (job_status j \<in> JOB_TERMINAL_STATUSES \<longrightarrow> job_status j' = job_status j)"
proof -
  let ?db = "run_tx service_exec db ops"
  have ok: "service_ok ?db" and ext: "extends db ?db"
    using service.run_good [OF assms(1)] service.run_follows [OF assms(1)]
    by (simp_all add: service_follows_def)
  obtain j' ts where j': "j' \<in> set (t_jobs ?db)" "job_fixed j' = job_fixed j"
    and p: "path JOB_TRANSITIONS (job_status j) ts" "last (job_status j # ts) = job_status j'"
    by (rule extends_path [OF ext _ _ assms(2)]) (use ok assms(1) in \<open>auto simp: service_ok_def jobs_ok_def\<close>)
  moreover have "job_status j' = job_status j" if "job_status j \<in> JOB_TERMINAL_STATUSES"
    using job_sm.path_from_terminal [OF p(1) that] p(2) by simp
  ultimately show ?thesis by blast
qed

text \<open>A cancellation that reads a queued job which a worker submits before the lock is taken.\<close>

definition sample_service :: service_env where
  "sample_service = \<lparr>sv_sha256 = (\<lambda>s. s), sv_uuid5 = (\<lambda>_. 0),
     
     sv_routes = \<lparr>rr_routes = [MOCK_ROUTE], rr_enabled = (\<lambda>_. True), rr_active_key = rt_key MOCK_ROUTE\<rparr>,
     sv_modes = []\<rparr>"

definition sample_submission :: provider_op where
  "sample_submission = Op_start_submit (sample_context\<lparr>ac_provider_job_id := None\<rparr>)"

definition service_run :: "service_op list" where
  "service_run = [Op_cancel sample_service [Op_provider sample_submission] sample_user 1 None 5]"

lemma service_ok_sample: "service_ok pipeline_bank"
proof -
  have "jobs_ok pipeline_bank" by code_simp
  then show ?thesis
    using attempts_ok_sample
    by (simp add: service_ok_def accepted_def pipeline_bank_def sample_job_def)
qed

lemma map_single: "map f xs = [y] \<Longrightarrow> x \<in> set xs \<Longrightarrow> f x = y"
  by auto

lemma pair_okE: "is_ok r \<Longrightarrow> (\<And>a b. r = Inr (a, b) \<Longrightarrow> thesis) \<Longrightarrow> thesis"
  by (cases r) auto

lemma changedE: "fst p \<Longrightarrow> (\<And>a b. p = (True, a, b) \<Longrightarrow> thesis) \<Longrightarrow> thesis"
  by (cases p) auto

lemma service_run_sample:
  "map job_status (t_jobs (run_tx service_exec pipeline_bank service_run)) = [JOB_CANCEL_REQUESTED]"
proof -
  let ?m = "\<lambda>db. run_tx provider_exec db [sample_submission]"
  let ?t = "transition_job (run_tx provider_exec pipeline_bank [sample_submission])
      (sample_job 1 JOB_ROUTING) JOB_CANCEL_REQUESTED ''job.cancel_requested''
              (job_key 1 ''cancel-requested'') (JObj [])"
  let ?e = "enqueue_provider_cancel (fst (snd ?t)) (snd (snd ?t)) (sample_attempt 7 1 ATT_CREATED)"
  let ?row = "get_job (run_tx provider_exec pipeline_bank [sample_submission]) 1"
  have "fst ?t" by code_simp
  then obtain db1 job1 where t: "?t = (True, db1, job1)" by (rule changedE)
  have "is_ok ?e" by code_simp
  then obtain e db2 where e: "?e = Inr (e, db2)" by (rule pair_okE)
  note e = e [unfolded t snd_conv fst_conv]
  have jobs: "t_jobs db2 = t_jobs db1"
    using quiet_enqueue_cancel [OF e] by (simp add: rows_kept_def)
  have "map job_status (t_jobs (fst (snd ?t))) = [JOB_CANCEL_REQUESTED]" by code_simp
  then have st: "map job_status (t_jobs db2) = [JOB_CANCEL_REQUESTED]"
    unfolding t jobs fst_conv snd_conv .
  have "is_ok (load_job (fst (snd ?t)) 1 101)" by code_simp
  then have "is_ok (load_job db1 1 101)" unfolding t fst_conv snd_conv .
  then obtain j where j: "load_job db2 1 101 = Inr j"
    by (cases "load_job db1 1 101") (simp_all add: jobs load_job_def)
  have "map_option job_status ?row = Some JOB_ROUTING" by code_simp
  then obtain r where r: "?row = Some r" "job_status r = JOB_ROUTING" by auto
  have own: "load_job pipeline_bank 1 101 = Inr (sample_job 1 JOB_QUEUED)"
    by (simp add: load_job_def pipeline_bank_def first_where_Cons sample_job_def)
  have att: "job_attempts pipeline_bank 1 = [sample_attempt 7 1 ATT_CREATED]"
    by (simp add: job_attempts_def pipeline_bank_def select_where_def sample_attempt_def)
  have job: "sample_job 1 JOB_QUEUED\<lparr>job_status := JOB_ROUTING\<rparr> = sample_job 1 JOB_ROUTING"
    and i: "job_id (sample_job 1 s) = 1" and st1: "job_status (sample_job 1 s) = s" for s
    by (simp_all add: sample_job_def)
  have "cancel_job ?m pipeline_bank sample_user 1 5 = Inr db2"
    using t e by (simp add: cancel_job_def own att r job i st1 sample_user_def not_cancellable_def
        submitted_def request_provider_cancel_def del: run_tx.simps)
  then have "cancel_generation sample_service ?m pipeline_bank sample_user 1 None 5 = Inr (j, db2)"
    using j by (simp add: cancel_generation_def acquire_def acquire_at_def replay_result_id_def
        complete_def sample_user_def)
  with st show ?thesis by (simp add: service_run_def)
qed

theorem service_sound_witness:
  "\<exists>j \<in> set (t_jobs (run_tx service_exec pipeline_bank service_run)).
     job_status j = JOB_CANCEL_REQUESTED \<and> job_settlement_status j = Some SET_RESERVED"
proof -
  let ?db = "run_tx service_exec pipeline_bank service_run"
  obtain j where j: "j \<in> set (t_jobs ?db)" using service_run_sample by (cases "t_jobs ?db") auto
  have "job_status j = JOB_CANCEL_REQUESTED" by (rule map_single [OF service_run_sample j])
  with service_sound [OF service_ok_sample j] j show ?thesis
    by (auto simp: JOB_TERMINAL_STATUSES_def)
qed

theorem jobs_keep_course_witness:
  "\<exists>ts. path JOB_TRANSITIONS JOB_QUEUED ts \<and> last (JOB_QUEUED # ts) = JOB_CANCEL_REQUESTED"
proof -
  let ?db = "run_tx service_exec pipeline_bank service_run"
  have "sample_job 1 JOB_QUEUED \<in> set (t_jobs pipeline_bank)" by (simp add: pipeline_bank_def)
  from jobs_keep_course [OF service_ok_sample this, of service_run]
  obtain j' where j': "j' \<in> set (t_jobs ?db)" and p: "\<exists>ts. path JOB_TRANSITIONS JOB_QUEUED ts \<and>
    last (JOB_QUEUED # ts) = job_status j'" by (auto simp: sample_job_def)
  from p show ?thesis unfolding map_single [OF service_run_sample j'] .
qed

end
