(* ===== verification/ControlPlane.thy ===== *)
theory ControlPlane
  imports Outbox Provider
begin

text \<open>
  The control plane (apps/api/app/control_plane.py): one pass of the reconciler, the metrics
  and the readiness checks. The dispatchers and the executor of a job are parameters that act
  on the database and may raise; the two readings of the clock are arguments. Log lines are
  not modelled.
\<close>

section \<open>The reconciler\<close>

definition ACTIVE_JOB_STATUSES :: "job_status set" where
  "ACTIVE_JOB_STATUSES = {JOB_QUEUED, JOB_ROUTING, JOB_SUBMITTED, JOB_RUNNING}"

definition ACTIVE_ATTEMPT_STATUSES :: "attempt_status set" where
  "ACTIVE_ATTEMPT_STATUSES = {ATT_CREATED, ATT_SUBMITTING, ATT_SUBMITTED, ATT_RUNNING}"

record reconcile_result =
  rc_dispatch_results :: "dispatch_result list"
  rc_provider_leases_released :: nat
  rc_jobs_reconciled :: nat

record reconciler =
  rl_dispatchers :: "(database \<Rightarrow> (error + dispatch_result) \<times> database) list"
  rl_execute_job :: "uuid \<Rightarrow> database \<Rightarrow> (error + unit) \<times> database"
  rl_stuck_after :: timedelta
  rl_provider_lease :: timedelta
  rl_batch_size :: nat

definition reconciler_of ::
  "(database \<Rightarrow> (error + dispatch_result) \<times> database) list \<Rightarrow>
   (uuid \<Rightarrow> database \<Rightarrow> (error + unit) \<times> database) \<Rightarrow> reconciler" where
  "reconciler_of dispatchers execute_job = \<lparr>rl_dispatchers = dispatchers,
     rl_execute_job = execute_job, rl_stuck_after = minutes 5, rl_provider_lease = minutes 5,
     rl_batch_size = 20\<rparr>"

text \<open>The dispatchers run in turn; one that raises ends the pass.\<close>

fun dispatch_all ::
  "(database \<Rightarrow> (error + dispatch_result) \<times> database) list \<Rightarrow> database \<Rightarrow>
   (error + dispatch_result list) \<times> database" where
  "dispatch_all [] db = (Inr [], db)"
| "dispatch_all (d # ds) db =
     (case d db of
        (Inl e, db) \<Rightarrow> (Inl e, db)
      | (Inr r, db) \<Rightarrow>
          (case dispatch_all ds db of
             (Inl e, db) \<Rightarrow> (Inl e, db) | (Inr rs, db) \<Rightarrow> (Inr (r # rs), db)))"

definition lease_expired :: "time \<Rightarrow> provider_event_inbox \<Rightarrow> bool" where
  "lease_expired stale_before e \<longleftrightarrow> pi_status e = IN_PROCESSING \<and>
     (case pi_locked_at e of None \<Rightarrow> False | Some t \<Rightarrow> t \<le> stale_before)"

definition release_expired_provider_leases ::
  "timedelta \<Rightarrow> database \<Rightarrow> time \<Rightarrow> nat \<times> database" where
  "release_expired_provider_leases provider_lease db now =
     (let expired = lease_expired (now - provider_lease) in
      (row_count expired (t_inbox db),
       db\<lparr>t_inbox := update_where expired
         (\<lambda>e. e\<lparr>pi_status := IN_RECEIVED, pi_locked_at := None, pi_lock_token := None\<rparr>)
         (t_inbox db)\<rparr>))"

definition stuck_job :: "database \<Rightarrow> time \<Rightarrow> generation_job \<Rightarrow> bool" where
  "stuck_job db stale_before j \<longleftrightarrow> job_status j \<in> ACTIVE_JOB_STATUSES \<and>
     job_updated_at j \<le> stale_before \<and>
     exists_where (\<lambda>a. at_job_id a = job_id j \<and> at_status a \<in> ACTIVE_ATTEMPT_STATUSES \<and>
       at_updated_at a \<le> stale_before) (t_attempts db)"

definition stuck_job_ids :: "timedelta \<Rightarrow> nat \<Rightarrow> database \<Rightarrow> time \<Rightarrow> uuid list" where
  "stuck_job_ids stuck_after batch_size db now =
     take batch_size (map job_id (sort_key (\<lambda>j. (job_updated_at j, job_id j))
       (select_where (stuck_job db (now - stuck_after)) (t_jobs db))))"

text \<open>A job whose execution raises is logged and left for the next pass.\<close>

fun reenter ::
  "(uuid \<Rightarrow> database \<Rightarrow> (error + unit) \<times> database) \<Rightarrow> uuid list \<Rightarrow> database \<Rightarrow> nat \<times> database" where
  "reenter execute_job [] db = (0, db)"
| "reenter execute_job (i # is) db =
     (case execute_job i db of
        (Inl _, db) \<Rightarrow> reenter execute_job is db
      | (Inr _, db) \<Rightarrow> (case reenter execute_job is db of (n, db) \<Rightarrow> (Suc n, db)))"

definition reconcile_once ::
  "reconciler \<Rightarrow> database \<Rightarrow> time \<Rightarrow> time \<Rightarrow> (error + reconcile_result) \<times> database" where
  "reconcile_once r db now now' =
     (case dispatch_all (rl_dispatchers r) db of
        (Inl e, db) \<Rightarrow> (Inl e, db)
      | (Inr results, db) \<Rightarrow>
          (case release_expired_provider_leases (rl_provider_lease r) db now of
             (released, db) \<Rightarrow>
               (case reenter (rl_execute_job r)
                   (stuck_job_ids (rl_stuck_after r) (rl_batch_size r) db now') db of
                  (reconciled, db) \<Rightarrow>
                    (Inr \<lparr>rc_dispatch_results = results, rc_provider_leases_released = released,
                       rc_jobs_reconciled = reconciled\<rparr>, db))))"

section \<open>Metrics\<close>

definition pending :: "outbox_status \<Rightarrow> bool" where
  "pending s \<longleftrightarrow> s \<in> {OB_PENDING, OB_PROCESSING}"

record operational_metrics =
  om_pending_count :: nat
  om_oldest_pending_age_seconds :: "rat option"
  om_retry_count :: int
  om_dead_letter_count :: nat
  om_stuck_job_count :: nat

definition oldest :: "time list \<Rightarrow> time option" where
  "oldest ts = (if ts = [] then None else Some (Min (set ts)))"

text \<open>The age is in seconds; a float is the rational number it stands for.\<close>

definition operational_metrics :: "timedelta \<Rightarrow> database \<Rightarrow> time \<Rightarrow> operational_metrics" where
  "operational_metrics stuck_after db now =
     (let outbox = select_where (\<lambda>e. pending (ob_status e)) (t_outbox db);
          cleanup = select_where (\<lambda>e. pending (ce_status e)) (t_cleanup_events db);
          oldest_at = oldest (List.map_filter id
            [oldest (map ob_created_at outbox), oldest (map ce_created_at cleanup)])
      in \<lparr>om_pending_count = length outbox + length cleanup,
          om_oldest_pending_age_seconds = map_option
            (\<lambda>t. max 0 (of_int (now - t) / 1000000)) oldest_at,
          om_retry_count = sum_list (map ob_attempt_count (t_outbox db)) +
            sum_list (map ce_attempt_count (t_cleanup_events db)),
          om_dead_letter_count = row_count (\<lambda>d. dl_status d = DL_OPEN) (t_dead_letters db),
          om_stuck_job_count = row_count (\<lambda>j. job_status j \<in> ACTIVE_JOB_STATUSES \<and>
            job_updated_at j \<le> now - stuck_after) (t_jobs db)\<rparr>)"

section \<open>Readiness\<close>

text \<open>A check that raises is a check that failed.\<close>

definition safe_check :: "error + bool \<Rightarrow> bool" where
  "safe_check r = (case r of Inl _ \<Rightarrow> False | Inr b \<Rightarrow> b)"

definition expected_revision :: string where "expected_revision = ''0015_provider_artifacts''"

text \<open>\<open>select_1\<close> and \<open>version_num\<close> are the answers of the database to the two queries.\<close>

definition readiness_checks ::
  "string \<Rightarrow> error + unit \<Rightarrow> error + string option \<Rightarrow> error + bool \<Rightarrow> error + bool \<Rightarrow> (string \<times> bool) list"
where
  "readiness_checks revision select_1 version_num storage_check workflow_check =
     [(''database'', is_ok select_1),
      (''migrations'', (case version_num of Inl _ \<Rightarrow> False | Inr v \<Rightarrow> v = Some revision)),
      (''storage'', safe_check storage_check), (''workflow'', safe_check workflow_check)]"

definition readiness ::
  "string \<Rightarrow> error + unit \<Rightarrow> error + string option \<Rightarrow> error + bool \<Rightarrow> error + bool \<Rightarrow>
   bool \<times> (string \<times> bool) list" where
  "readiness revision select_1 version_num storage_check workflow_check =
     (let checks = readiness_checks revision select_1 version_num storage_check workflow_check in
      (list_all snd checks, checks))"

end
