(* ===== verification/Simulators.thy ===== *)
theory Simulators
  imports Provider Claims
begin

text \<open>
  The offline simulators (apps/api/app/simulators.py): a fault injector, the in-memory remote
  object store, and the stateful RunPod simulator that the simulated route runs on. The clock
  is an argument; \<open>uuid5_hex\<close> is the hex form of the name-based UUID, \<open>fixture\<close> the bundled
  video. The mutable objects are values that are returned updated.
\<close>

section \<open>The manual clock\<close>

definition advance :: "time \<Rightarrow> timedelta \<Rightarrow> error + time" where
  "advance now delta =
     (if delta < 0 then Inl (ValueError ''manual clock cannot move backwards'') else Inr (now + delta))"

section \<open>Faults\<close>

datatype fault_point =
    FAULT_RUNPOD_SUBMIT | FAULT_RUNPOD_POLL | FAULT_RUNPOD_CANCEL | FAULT_RUNPOD_COST
  | FAULT_STORAGE_PUT | FAULT_STORAGE_OPEN | FAULT_STORAGE_STAT | FAULT_STORAGE_DELETE

text \<open>The errors that wait at each point, first in first out.\<close>

type_synonym faults = "fault_point \<Rightarrow> error list"

definition no_faults :: faults where "no_faults = (\<lambda>_. [])"

definition fail_next :: "faults \<Rightarrow> fault_point \<Rightarrow> error \<Rightarrow> faults" where
  "fail_next fs p e = fs(p := fs p @ [e])"

definition trigger :: "faults \<Rightarrow> fault_point \<Rightarrow> error option \<times> faults" where
  "trigger fs p = (case fs p of [] \<Rightarrow> (None, fs) | e # es \<Rightarrow> (Some e, fs(p := es)))"

definition pending_faults :: "faults \<Rightarrow> fault_point \<Rightarrow> nat" where
  "pending_faults fs p = length (fs p)"

section \<open>The RunPod simulator\<close>

datatype simulated_outcome = SIM_SUCCESS | SIM_FAILURE | SIM_TIMEOUT

definition simulated_outcome_of :: "string \<Rightarrow> simulated_outcome option" where
  "simulated_outcome_of v =
     (if v = ''SUCCESS'' then Some SIM_SUCCESS else if v = ''FAILURE'' then Some SIM_FAILURE
      else if v = ''TIMEOUT'' then Some SIM_TIMEOUT else None)"

record simulated_metrics =
  sm_queue_ms :: int
  sm_cold_start_ms :: int
  sm_runtime_ms :: int
  sm_billable_ms :: int
  sm_cost_minor :: int
  sm_currency :: string
  sm_cost_source :: cost_source

definition default_metrics :: simulated_metrics where
  "default_metrics = \<lparr>sm_queue_ms = 2000, sm_cold_start_ms = 500, sm_runtime_ms = 3000,
     sm_billable_ms = 3500, sm_cost_minor = 7, sm_currency = ''USD'',
     sm_cost_source = COST_SIMULATED\<rparr>"

definition simulated_provider_metrics :: "simulated_metrics \<Rightarrow> string \<Rightarrow> provider_metrics" where
  "simulated_provider_metrics m gpu = \<lparr>mt_gpu_type = gpu, mt_queue_ms = sm_queue_ms m,
     mt_cold_start_ms = sm_cold_start_ms m, mt_runtime_ms = sm_runtime_ms m,
     mt_billable_ms = sm_billable_ms m, mt_cost_minor = None, mt_currency = None,
     mt_cost_source = None\<rparr>"

record simulated_job =
  sj_request :: submit_request
  sj_provider_job_id :: string
  sj_outcome :: simulated_outcome
  sj_status :: provider_status
  sj_submitted_at :: time
  sj_started_at :: "time option"
  sj_finished_at :: "time option"
  sj_failure :: "provider_failure option"

text \<open>The jobs by id and the ids by idempotency key, in the order they were entered.\<close>

record runpod_simulator =
  rs_gpu_type :: string
  rs_versions :: provider_versions
  rs_metrics :: simulated_metrics
  rs_timeout_after :: timedelta
  rs_faults :: faults
  rs_jobs :: "string \<rightharpoonup> simulated_job"
  rs_ids :: "string \<rightharpoonup> string"

definition milliseconds :: "int \<Rightarrow> timedelta" where "milliseconds n = n * 1000"

definition runpod_simulator ::
  "string \<Rightarrow> provider_versions \<Rightarrow> simulated_metrics \<Rightarrow> timedelta \<Rightarrow> error + runpod_simulator" where
  "runpod_simulator gpu versions metrics timeout_after =
     (if timeout_after \<le> 0 then Inl (ValueError ''timeout_after must be positive'')
      else Inr \<lparr>rs_gpu_type = gpu, rs_versions = versions, rs_metrics = metrics,
        rs_timeout_after = timeout_after, rs_faults = no_faults, rs_jobs = Map.empty,
        rs_ids = Map.empty\<rparr>)"

definition TERMINAL :: "provider_status set" where
  "TERMINAL = {PS_SUCCEEDED, PS_FAILED, PS_CANCELLED}"

definition simulated_job_id :: "(string \<Rightarrow> string) \<Rightarrow> string \<Rightarrow> string" where
  "simulated_job_id uuid5_hex key = ''runpod-sim-'' @ uuid5_hex (''video-maker:runpod-simulator:'' @ key)"

definition sim_submit ::
  "(string \<Rightarrow> string) \<Rightarrow> runpod_simulator \<Rightarrow> submit_request \<Rightarrow> time \<Rightarrow>
   (error + submit_result) \<times> runpod_simulator" where
  "sim_submit uuid5_hex s request now =
     (case validate_fixed_worker_request request (vr_workflow_version (rs_versions s)) of
        Inl e \<Rightarrow> (Inl e, s)
      | Inr _ \<Rightarrow>
          (case trigger (rs_faults s) FAULT_RUNPOD_SUBMIT of
             (Some e, fs) \<Rightarrow> (Inl e, s\<lparr>rs_faults := fs\<rparr>)
           | (None, _) \<Rightarrow>
               (case rs_ids s (rq_idempotency_key request) of
                  Some i \<Rightarrow>
                    (case rs_jobs s i of
                       None \<Rightarrow> (Inl (LookupError ''KeyError''), s)
                     | Some existing \<Rightarrow>
                         if rq_attempt_id (sj_request existing) \<noteq> rq_attempt_id request
                         then (Inl (ValueError ''idempotency key belongs to another attempt''), s)
                         else (Inr \<lparr>sb_disposition = SUBMIT_ACCEPTED, sb_provider_job_id = Some i\<rparr>, s))
                | None \<Rightarrow>
                    (case simulated_outcome_of (upper_text (rq_mode request)) of
                       None \<Rightarrow> (Inl (ValueError ''simulator mode must be success, failure, or timeout''), s)
                     | Some outcome \<Rightarrow>
                         let i = simulated_job_id uuid5_hex (rq_idempotency_key request);
                             job = \<lparr>sj_request = request, sj_provider_job_id = i,
                               sj_outcome = outcome, sj_status = PS_PENDING, sj_submitted_at = now,
                               sj_started_at = None, sj_finished_at = None, sj_failure = None\<rparr>
                         in (Inr \<lparr>sb_disposition = SUBMIT_ACCEPTED, sb_provider_job_id = Some i\<rparr>,
                             s\<lparr>rs_jobs := (rs_jobs s)(i \<mapsto> job),
                               rs_ids := (rs_ids s)(rq_idempotency_key request \<mapsto> i)\<rparr>)))))"

text \<open>What time has done to a job since it was submitted.\<close>

definition queue_duration :: "runpod_simulator \<Rightarrow> timedelta" where
  "queue_duration s = milliseconds (sm_queue_ms (rs_metrics s))"

definition runtime_duration :: "runpod_simulator \<Rightarrow> timedelta" where
  "runtime_duration s = milliseconds (sm_runtime_ms (rs_metrics s))"

definition started_or :: "simulated_job \<Rightarrow> time \<Rightarrow> time" where
  "started_or j t = (case sj_started_at j of None \<Rightarrow> t | Some t' \<Rightarrow> t')"

definition refreshed :: "runpod_simulator \<Rightarrow> time \<Rightarrow> simulated_job \<Rightarrow> simulated_job" where
  "refreshed s now j =
     (if sj_status j \<in> TERMINAL then j
      else
        let elapsed = now - sj_submitted_at j; queued = queue_duration s; run = runtime_duration s in
        if sj_outcome j = SIM_TIMEOUT \<and> elapsed \<ge> rs_timeout_after s
        then j\<lparr>sj_status := PS_FAILED,
            sj_started_at := Some (started_or j (sj_submitted_at j + queued)),
            sj_finished_at := Some (sj_submitted_at j + rs_timeout_after s),
            sj_failure := Some \<lparr>fl_code = QUEUE_TIMEOUT, fl_message = ''simulated RunPod timeout''\<rparr>\<rparr>
        else if elapsed \<ge> queued + run
        then let j = j\<lparr>sj_started_at := Some (started_or j (sj_submitted_at j + queued)),
                 sj_finished_at := Some (sj_submitted_at j + queued + run)\<rparr> in
             if sj_outcome j = SIM_FAILURE
             then j\<lparr>sj_status := PS_FAILED, sj_failure := Some \<lparr>fl_code = WORKFLOW_FAILED,
               fl_message = ''simulated workflow failure''\<rparr>\<rparr>
             else j\<lparr>sj_status := PS_SUCCEEDED\<rparr>
        else if elapsed \<ge> queued
        then j\<lparr>sj_status := PS_RUNNING, sj_started_at := Some (sj_submitted_at j + queued)\<rparr>
        else j)"

definition find_id :: "runpod_simulator \<Rightarrow> provider_attempt \<Rightarrow> string option" where
  "find_id s attempt =
     (case pq_provider_job_id attempt of
        Some (c # cs) \<Rightarrow> Some (c # cs) | _ \<Rightarrow> rs_ids s (pq_idempotency_key attempt))"

text \<open>The job of an attempt, if the simulator knows it and it is the attempt's.\<close>

definition find_job :: "runpod_simulator \<Rightarrow> provider_attempt \<Rightarrow> (string \<times> simulated_job) option" where
  "find_job s attempt =
     (case find_id s attempt of
        None \<Rightarrow> None
      | Some i \<Rightarrow>
          (case rs_jobs s i of
             None \<Rightarrow> None
           | Some j \<Rightarrow> if rq_attempt_id (sj_request j) \<noteq> pq_attempt_id attempt then None else Some (i, j)))"

definition refresh :: "runpod_simulator \<Rightarrow> time \<Rightarrow> string \<Rightarrow> simulated_job \<Rightarrow> runpod_simulator" where
  "refresh s now i j = s\<lparr>rs_jobs := (rs_jobs s)(i \<mapsto> refreshed s now j)\<rparr>"

definition simulated_output :: "string \<Rightarrow> submit_request \<Rightarrow> provider_output" where
  "simulated_output fixture request =
     (let (width, height) = if rq_aspect_ratio request = ''9:16'' then (720, 1280) else (1280, 720) in
      \<lparr>po_content = Some fixture, po_media_type = ''video/mp4'',
       po_duration_ms = Some (rq_duration_ms request), po_width = Some width,
       po_height = Some height, po_fps = Some 16, po_codec = Some ''h264'',
       po_object_key = None, po_size_bytes = None, po_sha256 = None, po_metrics = None,
       po_versions = None\<rparr>)"

definition sim_poll_result :: "string \<Rightarrow> runpod_simulator \<Rightarrow> simulated_job \<Rightarrow> poll_result" where
  "sim_poll_result fixture s j =
     (let metrics = simulated_provider_metrics (rs_metrics s) (rs_gpu_type s);
          base = poll_result_of (sj_status j) (Some (sj_provider_job_id j)) in
      if sj_status j = PS_SUCCEEDED
      then base\<lparr>pl_output := Some (simulated_output fixture (sj_request j)),
        pl_metrics := Some metrics, pl_versions := Some (rs_versions s)\<rparr>
      else base\<lparr>pl_failure := sj_failure j,
        pl_metrics := (if sj_status j \<in> TERMINAL then Some metrics else None),
        pl_versions := (if sj_status j \<in> TERMINAL then Some (rs_versions s) else None)\<rparr>)"

definition sim_poll ::
  "string \<Rightarrow> runpod_simulator \<Rightarrow> provider_attempt \<Rightarrow> time \<Rightarrow> (error + poll_result) \<times> runpod_simulator"
where
  "sim_poll fixture s attempt now =
     (case trigger (rs_faults s) FAULT_RUNPOD_POLL of
        (Some e, fs) \<Rightarrow> (Inl e, s\<lparr>rs_faults := fs\<rparr>)
      | (None, _) \<Rightarrow>
          (case find_job s attempt of
             None \<Rightarrow> (Inr (poll_result_of PS_UNKNOWN (pq_provider_job_id attempt)), s)
           | Some (i, j) \<Rightarrow>
               (Inr (sim_poll_result fixture s (refreshed s now j)), refresh s now i j)))"

definition sim_cancel ::
  "runpod_simulator \<Rightarrow> provider_attempt \<Rightarrow> time \<Rightarrow> (error + cancel_result) \<times> runpod_simulator" where
  "sim_cancel s attempt now =
     (case trigger (rs_faults s) FAULT_RUNPOD_CANCEL of
        (Some e, fs) \<Rightarrow> (Inl e, s\<lparr>rs_faults := fs\<rparr>)
      | (None, _) \<Rightarrow>
          (case find_job s attempt of
             None \<Rightarrow> (Inr \<lparr>cn_accepted = False, cn_status = PS_UNKNOWN\<rparr>, s)
           | Some (i, j) \<Rightarrow>
               let j = refreshed s now j in
               if sj_status j \<in> TERMINAL
               then (Inr \<lparr>cn_accepted = False, cn_status = sj_status j\<rparr>,
                     s\<lparr>rs_jobs := (rs_jobs s)(i \<mapsto> j)\<rparr>)
               else (Inr \<lparr>cn_accepted = True, cn_status = PS_CANCELLED\<rparr>,
                     s\<lparr>rs_jobs := (rs_jobs s)(i \<mapsto> j\<lparr>sj_status := PS_CANCELLED,
                       sj_finished_at := Some now, sj_failure := Some
                         \<lparr>fl_code = USER_CANCELLED, fl_message = ''simulated job cancelled''\<rparr>\<rparr>)\<rparr>)))"

definition sim_verify_webhook :: "error + provider_event" where
  "sim_verify_webhook = Inl (ValueError ''RunPod simulator webhooks are disabled; use polling'')"

definition sim_read_cost ::
  "runpod_simulator \<Rightarrow> provider_attempt \<Rightarrow> (error + cost_result option) \<times> runpod_simulator" where
  "sim_read_cost s attempt =
     (case trigger (rs_faults s) FAULT_RUNPOD_COST of
        (Some e, fs) \<Rightarrow> (Inl e, s\<lparr>rs_faults := fs\<rparr>)
      | (None, _) \<Rightarrow>
          (Inr (case find_job s attempt of
             None \<Rightarrow> None
           | Some _ \<Rightarrow> Some \<lparr>cr_amount_minor = sm_cost_minor (rs_metrics s),
               cr_currency = sm_currency (rs_metrics s), cr_source = sm_cost_source (rs_metrics s)\<rparr>), s))"

text \<open>Inspection: \<open>job\<close> refreshes the job it shows, \<open>submission\<close> does not.\<close>

definition sim_job :: "runpod_simulator \<Rightarrow> string \<Rightarrow> time \<Rightarrow> (error + simulated_job) \<times> runpod_simulator"
where
  "sim_job s i now =
     (case rs_jobs s i of
        None \<Rightarrow> (Inl (LookupError ''KeyError''), s)
      | Some j \<Rightarrow> (Inr (refreshed s now j), refresh s now i j))"

definition sim_submission :: "runpod_simulator \<Rightarrow> string \<Rightarrow> error + submit_request" where
  "sim_submission s i =
     (case rs_jobs s i of None \<Rightarrow> Inl (LookupError ''KeyError'') | Some j \<Rightarrow> Inr (sj_request j))"

end
