(* ===== verification/RunPod.thy ===== *)
theory RunPod
  imports Provider "HOL-Library.List_Lexorder"
begin

text \<open>
  The adapter of the RunPod route (apps/api/app/runpod.py): its locked configuration, the
  strict models of what RunPod and the worker answer, and submit, poll, cancel. The HTTP
  client is a parameter: a request is answered by a response (its status code, the length of
  its content and its JSON), by a time-out or by another transport error. Pydantic's reading
  of a scalar is a parameter too, the constraints of the fields are in the model.
\<close>

section \<open>Answers\<close>

text \<open>A JSON value as the client reads it, floats included.\<close>

datatype reply =
    RNull | RBool bool | RInt int | RFloat rat | RStr string | RList "reply list"
  | RObj "(string \<times> reply) list"

datatype http_answer =
    Response nat nat "reply option"
  | Timed_out
  | Transport_error

record scalars =
  sc_int :: "reply \<Rightarrow> int option"
  sc_float :: "reply \<Rightarrow> rat option"
  sc_uuid :: "reply \<Rightarrow> uuid option"

text \<open>What the adapter's functions raise; \<open>Bad_status\<close> is \<^verbatim>\<open>httpx.HTTPStatusError\<close>, \<open>Invalid\<close>
  stands for \<^verbatim>\<open>ValidationError\<close>, \<^verbatim>\<open>ValueError\<close> and \<^verbatim>\<open>TypeError\<close>.\<close>

datatype adapter_error =
    Adapter_error string | Bad_status nat | Http_timeout | Http_error | Invalid

definition then_try :: "adapter_error + 'a \<Rightarrow> ('a \<Rightarrow> adapter_error + 'b) \<Rightarrow> adapter_error + 'b" where
  "then_try m f = (case m of Inl e \<Rightarrow> Inl e | Inr x \<Rightarrow> f x)"

section \<open>Patterns\<close>

definition id_pattern :: "nat \<Rightarrow> nat \<Rightarrow> string \<Rightarrow> bool" where
  "id_pattern lo hi s \<longleftrightarrow> lo \<le> length s \<and> length s \<le> hi \<and> list_all claim_char s"

definition RUNPOD_ENDPOINT_PATTERN :: "string \<Rightarrow> bool" where
  "RUNPOD_ENDPOINT_PATTERN = id_pattern 3 100"

definition RUNPOD_JOB_PATTERN :: "string \<Rightarrow> bool" where "RUNPOD_JOB_PATTERN = id_pattern 3 255"

definition DIGEST_PATTERN :: "string \<Rightarrow> bool" where
  "DIGEST_PATTERN s \<longleftrightarrow> take 7 s = ''sha256:'' \<and> hex_digest 64 (drop 7 s)"

definition MAX_RESPONSE_BYTES :: nat where "MAX_RESPONSE_BYTES = 1048576"

section \<open>Configuration\<close>

record runpod_config =
  cf_endpoint_id :: string
  cf_api_key :: string
  cf_image_digest :: string
  cf_workflow_id :: string
  cf_workflow_sha256 :: string
  cf_model_sha256 :: "(string \<times> string) list"
  cf_worker_version :: string
  cf_worker_commit :: string
  cf_comfyui_version :: string
  cf_comfyui_commit :: string
  cf_comfy_cli_version :: string
  cf_execution_timeout_ms :: int
  cf_ttl_ms :: int
  cf_request_timeout_seconds :: rat

text \<open>\<open>stripped\<close>: the key has no white space around it.\<close>

definition space :: "char \<Rightarrow> bool" where
  "space c \<longleftrightarrow> c = CHR '' '' \<or> (9 \<le> (of_char c :: nat) \<and> (of_char c :: nat) \<le> 13) \<or>
     (28 \<le> (of_char c :: nat) \<and> (of_char c :: nat) \<le> 31)"

definition stripped :: "string \<Rightarrow> bool" where
  "stripped s \<longleftrightarrow> s \<noteq> [] \<and> \<not> space (hd s) \<and> \<not> space (last s)"

text \<open>The dict of the models is the list of its items, sorted by name.\<close>

definition runpod_config_check :: "runpod_config \<Rightarrow> adapter_error + runpod_config" where
  "runpod_config_check c =
     (if \<not> RUNPOD_ENDPOINT_PATTERN (cf_endpoint_id c) then Inl (Adapter_error ''invalid RunPod endpoint id'')
      else if \<not> stripped (cf_api_key c) then Inl (Adapter_error ''RunPod API key is not configured'')
      else if \<not> DIGEST_PATTERN (cf_image_digest c)
      then Inl (Adapter_error ''worker image must be locked by sha256 digest'')
      else if cf_workflow_id c \<noteq> ''fast_wan_i2v_720_v1'' then Inl (Adapter_error ''unsupported workflow id'')
      else if \<not> hex_digest 64 (cf_workflow_sha256 c)
      then Inl (Adapter_error ''workflow must be locked by sha256'')
      else if cf_model_sha256 c = [] \<or>
              \<not> list_all (\<lambda>(name, digest). name \<noteq> [] \<and> hex_digest 64 digest) (cf_model_sha256 c)
      then Inl (Adapter_error ''every model must be locked by sha256'')
      else if cf_worker_version c \<noteq> ''5.8.7'' \<or>
              cf_worker_commit c \<noteq> ''a1981e99b1f5a7201f387653420ad1f275b97d0a'' \<or>
              cf_comfyui_version c \<noteq> ''0.29.0'' \<or>
              cf_comfyui_commit c \<noteq> ''a8c44f9b2a0678ac4082e3529a3f43db7472acfe'' \<or>
              cf_comfy_cli_version c \<noteq> ''1.18.0''
      then Inl (Adapter_error ''worker runtime versions do not match the locked release'')
      else if \<not> (5000 \<le> cf_execution_timeout_ms c \<and> cf_execution_timeout_ms c \<le> 604800000)
      then Inl (Adapter_error ''execution timeout is outside RunPod limits'')
      else if \<not> (10000 \<le> cf_ttl_ms c \<and> cf_ttl_ms c \<le> 604800000)
      then Inl (Adapter_error ''job ttl is outside RunPod limits'')
      else if cf_ttl_ms c \<le> cf_execution_timeout_ms c
      then Inl (Adapter_error ''job ttl must exceed execution timeout'')
      else if \<not> (0 < cf_request_timeout_seconds c \<and> cf_request_timeout_seconds c \<le> 60)
      then Inl (Adapter_error ''request timeout must be between 0 and 60 seconds'')
      else Inr (c\<lparr>cf_model_sha256 := sort_key fst (cf_model_sha256 c)\<rparr>))"

section \<open>The strict models\<close>

text \<open>\<open>extra="forbid"\<close>: an object with these fields only; a name given twice counts last.\<close>

definition members :: "string list \<Rightarrow> reply \<Rightarrow> (string \<rightharpoonup> reply) option" where
  "members names r =
     (case r of
        RObj ms \<Rightarrow> if set (map fst ms) \<subseteq> set names then Some (map_of (rev ms)) else None
      | _ \<Rightarrow> None)"

definition text_field :: "nat \<Rightarrow> nat \<Rightarrow> reply option \<Rightarrow> string option" where
  "text_field lo hi r =
     (case r of
        Some (RStr s) \<Rightarrow> if lo \<le> length s \<and> length s \<le> hi then Some s else None
      | _ \<Rightarrow> None)"

definition any_text :: "(string \<Rightarrow> bool) \<Rightarrow> reply option \<Rightarrow> string option" where
  "any_text p r = (case r of Some (RStr s) \<Rightarrow> if p s then Some s else None | _ \<Rightarrow> None)"

definition int_field :: "scalars \<Rightarrow> int \<Rightarrow> reply option \<Rightarrow> int option" where
  "int_field sc lo r =
     (case Option.bind r (sc_int sc) of Some n \<Rightarrow> if lo \<le> n then Some n else None | None \<Rightarrow> None)"

text \<open>A field that may be left out or null.\<close>

definition optional_field :: "(reply \<Rightarrow> 'a option) \<Rightarrow> reply option \<Rightarrow> 'a option option" where
  "optional_field p r =
     (case r of None \<Rightarrow> Some None | Some RNull \<Rightarrow> Some None | Some v \<Rightarrow> map_option Some (p v))"

text \<open>A field that may be null but not be left out.\<close>

definition nullable_field :: "(reply \<Rightarrow> 'a option) \<Rightarrow> reply option \<Rightarrow> 'a option option" where
  "nullable_field p r = (case r of None \<Rightarrow> None | v \<Rightarrow> optional_field p v)"

definition str_value :: "reply \<Rightarrow> string option" where
  "str_value r = (case r of RStr s \<Rightarrow> Some s | _ \<Rightarrow> None)"

record worker_artifact =
  wa_claim :: string
  wa_object_key :: string
  wa_media_type :: string
  wa_duration_ms :: int
  wa_width :: int
  wa_height :: int
  wa_fps :: rat
  wa_codec :: string
  wa_size_bytes :: "int option"
  wa_sha256 :: "string option"

definition key_char :: "char \<Rightarrow> bool" where
  "key_char c \<longleftrightarrow> claim_char c \<or> c = CHR ''.'' \<or> c = CHR ''/''"

text \<open>\<open>reject_unsafe_object_key\<close>: no absolute key, no empty or dotted segment.\<close>

fun safe_segments :: "string \<Rightarrow> string \<Rightarrow> bool" where
  "safe_segments seg [] \<longleftrightarrow> seg \<notin> {[], ''.'', ''..''}"
| "safe_segments seg (c # s) \<longleftrightarrow>
     (if c = CHR ''/'' then seg \<notin> {[], ''.'', ''..''} \<and> safe_segments [] s
      else safe_segments (seg @ [c]) s)"

definition safe_object_key :: "string \<Rightarrow> bool" where
  "safe_object_key key \<longleftrightarrow> take 1 key \<noteq> ''/'' \<and> safe_segments [] key"

definition worker_artifact_of :: "scalars \<Rightarrow> reply \<Rightarrow> worker_artifact option" where
  "worker_artifact_of sc r =
     Option.bind (members [''claim'', ''object_key'', ''media_type'', ''duration_ms'', ''width'',
         ''height'', ''fps'', ''codec'', ''size_bytes'', ''sha256''] r) (\<lambda>m.
     Option.bind (any_text signed_claim (m ''claim'')) (\<lambda>claim.
     Option.bind (any_text (\<lambda>s. 1 \<le> length s \<and> length s \<le> 255 \<and> list_all key_char s) (m ''object_key''))
       (\<lambda>key.
     Option.bind (any_text (\<lambda>s. s = ''video/mp4'') (m ''media_type'')) (\<lambda>media.
     Option.bind (int_field sc 1 (m ''duration_ms'')) (\<lambda>duration.
     Option.bind (int_field sc 1 (m ''width'')) (\<lambda>width.
     Option.bind (int_field sc 1 (m ''height'')) (\<lambda>height.
     Option.bind (Option.bind (m ''fps'') (sc_float sc)) (\<lambda>fps.
     Option.bind (text_field 1 32 (m ''codec'')) (\<lambda>codec.
     Option.bind (optional_field (sc_int sc) (m ''size_bytes'')) (\<lambda>size_bytes.
     Option.bind (optional_field str_value (m ''sha256'')) (\<lambda>sha256.
       if 0 < fps \<and> fps \<le> 240 \<and> safe_object_key key
       then Some \<lparr>wa_claim = claim, wa_object_key = key, wa_media_type = media,
         wa_duration_ms = duration, wa_width = width, wa_height = height, wa_fps = fps,
         wa_codec = codec, wa_size_bytes = size_bytes, wa_sha256 = sha256\<rparr>
       else None)))))))))))"

record worker_metrics =
  wm_gpu :: string
  wm_queue_ms :: int
  wm_cold_start_ms :: int
  wm_runtime_ms :: int
  wm_billable_ms :: int
  wm_cost_minor :: int
  wm_currency :: string
  wm_cost_source :: string

definition worker_metrics_of :: "scalars \<Rightarrow> reply \<Rightarrow> worker_metrics option" where
  "worker_metrics_of sc r =
     Option.bind (members [''gpu'', ''queue_ms'', ''cold_start_ms'', ''runtime_ms'', ''billable_ms'',
         ''cost_minor'', ''currency'', ''cost_source''] r) (\<lambda>m.
     Option.bind (text_field 1 200 (m ''gpu'')) (\<lambda>gpu.
     Option.bind (int_field sc 0 (m ''queue_ms'')) (\<lambda>queue.
     Option.bind (int_field sc 0 (m ''cold_start_ms'')) (\<lambda>cold.
     Option.bind (int_field sc 0 (m ''runtime_ms'')) (\<lambda>runtime.
     Option.bind (int_field sc 0 (m ''billable_ms'')) (\<lambda>billable.
     Option.bind (int_field sc 0 (m ''cost_minor'')) (\<lambda>cost.
     Option.bind (any_text currency_code (m ''currency'')) (\<lambda>currency.
     Option.bind (any_text (\<lambda>s. s \<in> {''ACTUAL'', ''ESTIMATE''}) (m ''cost_source'')) (\<lambda>source.
       Some \<lparr>wm_gpu = gpu, wm_queue_ms = queue, wm_cold_start_ms = cold, wm_runtime_ms = runtime,
         wm_billable_ms = billable, wm_cost_minor = cost, wm_currency = currency,
         wm_cost_source = source\<rparr>)))))))))"

record worker_versions =
  wv_worker_comfyui :: string
  wv_worker_commit :: string
  wv_comfyui_commit :: string
  wv_comfy_cli :: string
  wv_image_digest :: string
  wv_workflow_id :: string
  wv_workflow_sha256 :: string
  wv_model_sha256 :: "(string \<times> string) list"

text \<open>\<open>dict[str, str]\<close> and \<open>validate_model_hashes\<close>.\<close>

fun text_members :: "(string \<times> reply) list \<Rightarrow> (string \<times> string) list option" where
  "text_members [] = Some []"
| "text_members ((name, RStr s) # ms) = map_option ((#) (name, s)) (text_members ms)"
| "text_members (_ # ms) = None"

definition dict_of :: "(string \<times> 'a) list \<Rightarrow> (string \<times> 'a) list" where
  "dict_of ms = map (\<lambda>n. (n, the (map_of (rev ms) n))) (remdups (map fst ms))"

definition model_hashes :: "reply option \<Rightarrow> (string \<times> string) list option" where
  "model_hashes r =
     (case r of
        Some (RObj ms) \<Rightarrow>
          (case text_members (dict_of ms) of
             None \<Rightarrow> None
           | Some hs \<Rightarrow>
               if 1 \<le> length hs \<and> length hs \<le> 32 \<and>
                  list_all (\<lambda>(name, digest). 1 \<le> length name \<and> length name \<le> 255 \<and> hex_digest 64 digest) hs
               then Some hs else None)
      | _ \<Rightarrow> None)"

definition worker_versions_of :: "reply \<Rightarrow> worker_versions option" where
  "worker_versions_of r =
     Option.bind (members [''worker_comfyui'', ''worker_commit'', ''comfyui_commit'', ''comfy_cli'',
         ''image_digest'', ''workflow_id'', ''workflow_sha256'', ''model_sha256''] r) (\<lambda>m.
     Option.bind (any_text (\<lambda>_. True) (m ''worker_comfyui'')) (\<lambda>worker.
     Option.bind (any_text (hex_digest 40) (m ''worker_commit'')) (\<lambda>worker_commit.
     Option.bind (any_text (hex_digest 40) (m ''comfyui_commit'')) (\<lambda>comfyui_commit.
     Option.bind (any_text (\<lambda>_. True) (m ''comfy_cli'')) (\<lambda>cli.
     Option.bind (any_text DIGEST_PATTERN (m ''image_digest'')) (\<lambda>image.
     Option.bind (any_text (\<lambda>_. True) (m ''workflow_id'')) (\<lambda>workflow.
     Option.bind (any_text (hex_digest 64) (m ''workflow_sha256'')) (\<lambda>workflow_sha.
     Option.bind (model_hashes (m ''model_sha256'')) (\<lambda>models.
       Some \<lparr>wv_worker_comfyui = worker, wv_worker_commit = worker_commit,
         wv_comfyui_commit = comfyui_commit, wv_comfy_cli = cli, wv_image_digest = image,
         wv_workflow_id = workflow, wv_workflow_sha256 = workflow_sha,
         wv_model_sha256 = models\<rparr>)))))))))"

record worker_error =
  we_code :: string
  we_message :: string

definition worker_error_of :: "reply \<Rightarrow> worker_error option" where
  "worker_error_of r =
     Option.bind (members [''code'', ''message''] r) (\<lambda>m.
     Option.bind (text_field 1 64 (m ''code'')) (\<lambda>c.
     Option.bind (text_field 1 1000 (m ''message'')) (\<lambda>t. Some \<lparr>we_code = c, we_message = t\<rparr>)))"

record worker_response =
  wk_attempt_id :: uuid
  wk_status :: string
  wk_output :: "worker_artifact option"
  wk_metrics :: worker_metrics
  wk_versions :: worker_versions
  wk_error :: "worker_error option"

definition worker_response_of :: "scalars \<Rightarrow> reply \<Rightarrow> worker_response option" where
  "worker_response_of sc r =
     Option.bind (members [''attempt_id'', ''status'', ''output'', ''metrics'', ''versions'', ''error''] r)
       (\<lambda>m.
     Option.bind (Option.bind (m ''attempt_id'') (sc_uuid sc)) (\<lambda>attempt_id.
     Option.bind (any_text (\<lambda>s. s \<in> {''SUCCEEDED'', ''FAILED''}) (m ''status'')) (\<lambda>status.
     Option.bind (nullable_field (worker_artifact_of sc) (m ''output'')) (\<lambda>artifact.
     Option.bind (Option.bind (m ''metrics'') (worker_metrics_of sc)) (\<lambda>metrics.
     Option.bind (Option.bind (m ''versions'') worker_versions_of) (\<lambda>versions.
     Option.bind (nullable_field worker_error_of (m ''error'')) (\<lambda>err.
       if status = ''SUCCEEDED'' \<and> (artifact = None \<or> err \<noteq> None) then None
       else if status = ''FAILED'' \<and> (artifact \<noteq> None \<or> err = None) then None
       else Some \<lparr>wk_attempt_id = attempt_id, wk_status = status, wk_output = artifact,
         wk_metrics = metrics, wk_versions = versions, wk_error = err\<rparr>)))))))"

record runpod_envelope =
  en_id :: string
  en_status :: string
  en_output :: "reply option"

definition envelope_statuses :: "string set" where
  "envelope_statuses =
     {''IN_QUEUE'', ''IN_PROGRESS'', ''COMPLETED'', ''FAILED'', ''TIMED_OUT'', ''CANCELLED''}"

definition object_value :: "reply \<Rightarrow> reply option" where
  "object_value r = (case r of RObj _ \<Rightarrow> Some r | _ \<Rightarrow> None)"

definition text_or_object :: "reply \<Rightarrow> reply option" where
  "text_or_object r = (case r of RStr _ \<Rightarrow> Some r | RObj _ \<Rightarrow> Some r | _ \<Rightarrow> None)"

definition count_value :: "scalars \<Rightarrow> reply \<Rightarrow> int option" where
  "count_value sc r = int_field sc 0 (Some r)"

definition envelope_of :: "scalars \<Rightarrow> reply \<Rightarrow> runpod_envelope option" where
  "envelope_of sc r =
     Option.bind (members [''id'', ''status'', ''output'', ''error'', ''delayTime'', ''executionTime''] r)
       (\<lambda>m.
     Option.bind (any_text RUNPOD_JOB_PATTERN (m ''id'')) (\<lambda>i.
     Option.bind (any_text (\<lambda>s. s \<in> envelope_statuses) (m ''status'')) (\<lambda>status.
     Option.bind (optional_field object_value (m ''output'')) (\<lambda>result.
     Option.bind (optional_field text_or_object (m ''error'')) (\<lambda>_.
     Option.bind (optional_field (count_value sc) (m ''delayTime'')) (\<lambda>_.
     Option.bind (optional_field (count_value sc) (m ''executionTime'')) (\<lambda>_.
       Some \<lparr>en_id = i, en_status = status, en_output = result\<rparr>)))))))"

end
