(* ===== verification/RunPodAdapter.thy ===== *)
theory RunPodAdapter
  imports RunPod Execution
begin

text \<open>
  The operations of the RunPod adapter (apps/api/app/runpod.py) over the answers of its HTTP
  client: \<open>post\<close> and \<open>get\<close> of a path. A try block of the code is the case over what its body
  raises; \<^verbatim>\<open>ProviderSubmissionError\<close> is the answer \<open>Refused\<close>.
\<close>

record http_client =
  hc_post :: "string \<Rightarrow> reply option \<Rightarrow> http_answer"
  hc_get :: "string \<Rightarrow> http_answer"

record runpod_provider =
  rp_config :: runpod_config
  rp_client :: http_client
  rp_scalars :: scalars

section \<open>The worker's input\<close>

text \<open>A request always has a job id, so the first check of \<open>_worker_input\<close> has no counterpart.\<close>

definition long_claim :: "string \<Rightarrow> bool" where
  "long_claim s \<longleftrightarrow> 3 \<le> length s \<and> length s \<le> 4096 \<and> signed_claim s"

definition worker_input :: "runpod_config \<Rightarrow> submit_request \<Rightarrow> adapter_error + reply" where
  "worker_input config request =
     (if rq_idempotency_key request \<noteq> submit_key (rq_attempt_id request)
      then Inl (Adapter_error ''idempotency key is not bound to attempt id'')
      else if rq_workflow_id request \<noteq> cf_workflow_id config
      then Inl (Adapter_error ''workflow id does not match the locked release'')
      else if rq_duration_ms request \<noteq> 5000 \<or> rq_resolution request \<noteq> ''720p''
      then Inl (Adapter_error ''only the fixed 5-second 720p route is allowed'')
      else if rq_aspect_ratio request \<notin> {''16:9'', ''9:16''}
      then Inl (Adapter_error ''unsupported aspect ratio'')
      else if \<not> (1 \<le> length (rq_prompt request) \<and> length (rq_prompt request) \<le> 2000)
      then Inl (Adapter_error ''prompt length is outside the worker contract'')
      else if rq_negative_prompt request \<noteq> None
      then Inl (Adapter_error ''negative prompt is not enabled for this release'')
      else case rq_input_claim request of
          None \<Rightarrow> Inl (Adapter_error ''all storage access must use signed claims'')
        | Some input_claim \<Rightarrow>
            if \<not> list_all long_claim
                 [input_claim, rq_output_claim request, rq_callback_claim request]
            then Inl (Adapter_error ''all storage access must use signed claims'')
            else Inr (RObj
              [(''job_id'', RStr (uuid_str (rq_job_id request))),
               (''attempt_id'', RStr (uuid_str (rq_attempt_id request))),
               (''workflow_id'', RStr (cf_workflow_id config)),
               (''prompt'', RStr (rq_prompt request)),
               (''duration_ms'', RInt (rq_duration_ms request)),
               (''aspect_ratio'', RStr (rq_aspect_ratio request)),
               (''resolution'', RStr ''720p''),
               (''input_claim'', RStr input_claim),
               (''output_claim'', RStr (rq_output_claim request)),
               (''callback_claim'', RStr (rq_callback_claim request))]))"

section \<open>Requests\<close>

text \<open>\<^verbatim>\<open>raise_for_status\<close> accepts the codes 200 to 299.\<close>

definition raise_for_status :: "http_answer \<Rightarrow> adapter_error + (nat \<times> reply option)" where
  "raise_for_status answer =
     (case answer of
        Timed_out \<Rightarrow> Inl Http_timeout
      | Transport_error \<Rightarrow> Inl Http_error
      | Response status_code size_bytes json \<Rightarrow>
          if 200 \<le> status_code \<and> status_code < 300 then Inr (size_bytes, json)
          else Inl (Bad_status status_code))"

definition response_json :: "nat \<times> reply option \<Rightarrow> adapter_error + reply" where
  "response_json = (\<lambda>(size_bytes, json).
     if size_bytes > MAX_RESPONSE_BYTES
     then Inl (Adapter_error ''RunPod response exceeded the adapter limit'')
     else case json of None \<Rightarrow> Inl Invalid | Some r \<Rightarrow> Inr r)"

definition envelope_in :: "scalars \<Rightarrow> http_answer \<Rightarrow> adapter_error + runpod_envelope" where
  "envelope_in sc answer =
     then_try (raise_for_status answer) (\<lambda>response.
     then_try (response_json response) (\<lambda>r.
       case envelope_of sc r of None \<Rightarrow> Inl Invalid | Some e \<Rightarrow> Inr e))"

definition endpoint_path :: "runpod_config \<Rightarrow> string" where
  "endpoint_path config = ''/v2/'' @ cf_endpoint_id config"

definition run_request :: "runpod_config \<Rightarrow> reply \<Rightarrow> reply" where
  "run_request config input = RObj [(''input'', input), (''policy'', RObj
     [(''executionTimeout'', RInt (cf_execution_timeout_ms config)),
      (''ttl'', RInt (cf_ttl_ms config))])]"

section \<open>Submit\<close>

definition submit_http_failure_code :: "nat \<Rightarrow> failure_code option" where
  "submit_http_failure_code status_code =
     (if status_code \<in> {400, 422} then Some INVALID_INPUT
      else if status_code \<in> {401, 403} then Some PROVIDER_AUTHENTICATION
      else if status_code = 404 then Some NO_ROUTE
      else if status_code = 409 then Some STATE_CONFLICT
      else if status_code = 429 then Some PROVIDER_CAPACITY
      else None)"

definition submitted_envelope :: "runpod_provider \<Rightarrow> submit_request \<Rightarrow> adapter_error + runpod_envelope"
where
  "submitted_envelope p request =
     then_try (worker_input (rp_config p) request) (\<lambda>input.
     then_try (envelope_in (rp_scalars p) (hc_post (rp_client p)
         (endpoint_path (rp_config p) @ ''/run'') (Some (run_request (rp_config p) input))))
       (\<lambda>envelope.
       if en_status envelope \<notin> {''IN_QUEUE'', ''IN_PROGRESS''}
       then Inl (Adapter_error ''RunPod returned an invalid submit status'')
       else Inr envelope))"

definition unknown_submit :: submit_answer where
  "unknown_submit = Submitted \<lparr>sb_disposition = SUBMIT_UNKNOWN, sb_provider_job_id = None\<rparr>"

definition runpod_submit :: "runpod_provider \<Rightarrow> submit_request \<Rightarrow> submit_answer" where
  "runpod_submit p request =
     (case submitted_envelope p request of
        Inr envelope \<Rightarrow>
          Submitted \<lparr>sb_disposition = SUBMIT_ACCEPTED, sb_provider_job_id = Some (en_id envelope)\<rparr>
      | Inl (Adapter_error message) \<Rightarrow> Refused \<lparr>fl_code = INVALID_INPUT, fl_message = message\<rparr>
      | Inl (Bad_status status_code) \<Rightarrow>
          (case submit_http_failure_code status_code of
             Some failure \<Rightarrow>
               Refused \<lparr>fl_code = failure, fl_message = ''RunPod rejected the submit request''\<rparr>
           | None \<Rightarrow> unknown_submit)
      | Inl _ \<Rightarrow> unknown_submit)"

section \<open>Poll\<close>

definition failed :: "string \<Rightarrow> failure_code \<Rightarrow> string \<Rightarrow> poll_result" where
  "failed provider_job_id failure message =
     (poll_result_of PS_FAILED (Some provider_job_id))
       \<lparr>pl_failure := Some \<lparr>fl_code = failure, fl_message = message\<rparr>\<rparr>"

definition http_failure_code :: "nat \<Rightarrow> failure_code" where
  "http_failure_code status_code =
     (if status_code \<in> {401, 403} then PROVIDER_AUTHENTICATION
      else if status_code = 429 then PROVIDER_CAPACITY
      else if status_code \<ge> 500 then PROVIDER_5XX
      else if status_code = 404 then OUTPUT_MISSING
      else INTERNAL_ERROR)"

definition http_failure :: "string \<Rightarrow> nat \<Rightarrow> poll_result" where
  "http_failure provider_job_id status_code = failed provider_job_id (http_failure_code status_code)
     (''RunPod status request failed with HTTP '' @ nat_str status_code)"

definition status_of :: "runpod_provider \<Rightarrow> string \<Rightarrow> adapter_error + runpod_envelope" where
  "status_of p provider_job_id =
     (if \<not> RUNPOD_JOB_PATTERN provider_job_id then Inl (Adapter_error ''invalid RunPod job id'')
      else
        then_try (envelope_in (rp_scalars p) (hc_get (rp_client p)
            (endpoint_path (rp_config p) @ ''/status/'' @ provider_job_id))) (\<lambda>envelope.
          if en_id envelope \<noteq> provider_job_id
          then Inl (Adapter_error ''RunPod status job id mismatch'') else Inr envelope))"

definition provenance_matches :: "runpod_config \<Rightarrow> worker_versions \<Rightarrow> bool" where
  "provenance_matches c v \<longleftrightarrow>
     wv_worker_comfyui v = cf_worker_version c \<and> wv_worker_commit v = cf_worker_commit c \<and>
     wv_comfyui_commit v = cf_comfyui_commit c \<and> wv_comfy_cli v = cf_comfy_cli_version c \<and>
     wv_image_digest v = cf_image_digest c \<and> wv_workflow_id v = cf_workflow_id c \<and>
     wv_workflow_sha256 v = cf_workflow_sha256 c \<and> set (wv_model_sha256 v) = set (cf_model_sha256 c)"

definition validated_worker_response ::
  "runpod_provider \<Rightarrow> runpod_envelope \<Rightarrow> uuid \<Rightarrow> adapter_error + worker_response" where
  "validated_worker_response p envelope attempt_id =
     (case Option.bind (en_output envelope) (worker_response_of (rp_scalars p)) of
        None \<Rightarrow> Inl Invalid
      | Some worker \<Rightarrow>
          if wk_attempt_id worker \<noteq> attempt_id
          then Inl (Adapter_error ''worker attempt id mismatch'')
          else if \<not> provenance_matches (rp_config p) (wk_versions worker)
          then Inl (Adapter_error ''worker release provenance mismatch'')
          else Inr worker)"

text \<open>The snapshots of a report; the constructors of the snapshots check them again.\<close>

definition runpod_metrics :: "worker_metrics \<Rightarrow> provider_metrics" where
  "runpod_metrics m = \<lparr>mt_gpu_type = wm_gpu m, mt_queue_ms = wm_queue_ms m,
     mt_cold_start_ms = wm_cold_start_ms m, mt_runtime_ms = wm_runtime_ms m,
     mt_billable_ms = wm_billable_ms m, mt_cost_minor = Some (wm_cost_minor m),
     mt_currency = Some (wm_currency m), mt_cost_source = Some
       (if wm_cost_source m = ''ESTIMATE'' then COST_ESTIMATE else COST_ACTUAL)\<rparr>"

definition runpod_versions :: "runpod_config \<Rightarrow> worker_versions \<Rightarrow> provider_versions" where
  "runpod_versions c v = \<lparr>vr_image_digest = wv_image_digest v,
     vr_worker_version = wv_worker_comfyui v, vr_worker_commit = wv_worker_commit v,
     vr_comfyui_version = cf_comfyui_version c, vr_comfyui_commit = wv_comfyui_commit v,
     vr_workflow_version = wv_workflow_id v, vr_workflow_hash = wv_workflow_sha256 v,
     vr_model_hashes = wv_model_sha256 v\<rparr>"

definition runpod_cost :: "provider_metrics \<Rightarrow> cost_result" where
  "runpod_cost m = \<lparr>cr_amount_minor = (case mt_cost_minor m of None \<Rightarrow> 0 | Some n \<Rightarrow> n),
     cr_currency = (case mt_currency m of None \<Rightarrow> ''USD'' | Some c \<Rightarrow> c),
     cr_source = (case mt_cost_source m of None \<Rightarrow> COST_ESTIMATE | Some s \<Rightarrow> s)\<rparr>"

definition snapshots ::
  "runpod_config \<Rightarrow> worker_response \<Rightarrow> adapter_error + (provider_metrics \<times> provider_versions \<times> cost_result)"
where
  "snapshots config worker =
     (let metrics = runpod_metrics (wk_metrics worker);
          versions = runpod_versions config (wk_versions worker); cost = runpod_cost metrics in
      if \<not> provider_metrics_check metrics \<or> \<not> provider_versions_check versions \<or>
         \<not> cost_result_check cost
      then Inl Invalid else Inr (metrics, versions, cost))"

definition WORKER_FAILURE_CODES :: "failure_code set" where
  "WORKER_FAILURE_CODES = {INVALID_INPUT, POLICY_REJECTED, WORKER_INTERRUPTED, MODEL_LOAD_FAILED,
     OUT_OF_MEMORY, WORKFLOW_FAILED, ASSET_DOWNLOAD_FAILED, OUTPUT_UPLOAD_FAILED, OUTPUT_MISSING,
     OUTPUT_CORRUPTED, INTERNAL_ERROR}"

definition parsed_worker_failure ::
  "runpod_provider \<Rightarrow> string \<Rightarrow> worker_response \<Rightarrow> adapter_error + poll_result" where
  "parsed_worker_failure p provider_job_id worker =
     (case wk_error worker of
        None \<Rightarrow> Inl (Adapter_error ''missing worker error'')
      | Some err \<Rightarrow>
          if wk_status worker \<noteq> ''FAILED'' then Inl (Adapter_error ''missing worker error'')
          else case failure_code_of_value (we_code err) of
              None \<Rightarrow> Inr (failed provider_job_id WORKFLOW_FAILED
                ''RunPod worker returned an invalid structured error'')
            | Some failure \<Rightarrow>
                if failure \<notin> WORKER_FAILURE_CODES
                then Inr (failed provider_job_id WORKFLOW_FAILED
                  ''RunPod worker returned a forbidden error code'')
                else then_try (snapshots (rp_config p) worker) (\<lambda>(metrics, versions, cost).
                  Inr ((failed provider_job_id failure (we_message err))
                    \<lparr>pl_metrics := Some metrics, pl_versions := Some versions, pl_cost := Some cost\<rparr>)))"

definition artifact_output ::
  "worker_artifact \<Rightarrow> provider_metrics \<Rightarrow> provider_versions \<Rightarrow> provider_output" where
  "artifact_output artifact metrics versions = \<lparr>po_content = None,
     po_media_type = wa_media_type artifact, po_duration_ms = Some (wa_duration_ms artifact),
     po_width = Some (wa_width artifact), po_height = Some (wa_height artifact),
     po_fps = Some (wa_fps artifact), po_codec = Some (wa_codec artifact),
     po_object_key = Some (wa_object_key artifact), po_size_bytes = wa_size_bytes artifact,
     po_sha256 = None, po_metrics = Some metrics, po_versions = Some versions\<rparr>"

text \<open>Only the validation is inside the try block of \<open>_worker_success\<close>.\<close>

definition worker_success ::
  "runpod_provider \<Rightarrow> runpod_envelope \<Rightarrow> uuid \<Rightarrow> adapter_error + poll_result" where
  "worker_success p envelope attempt_id =
     (case validated_worker_response p envelope attempt_id of
        Inl _ \<Rightarrow> Inr (failed (en_id envelope) POLICY_REJECTED
          ''RunPod worker output violated the locked release contract'')
      | Inr worker \<Rightarrow>
          if wk_status worker = ''FAILED'' then parsed_worker_failure p (en_id envelope) worker
          else case wk_output worker of
              None \<Rightarrow> Inr (failed (en_id envelope) WORKFLOW_FAILED
                ''RunPod completed without a successful worker output'')
            | Some artifact \<Rightarrow>
                then_try (snapshots (rp_config p) worker) (\<lambda>(metrics, versions, cost).
                  Inr ((poll_result_of PS_SUCCEEDED (Some (en_id envelope)))
                    \<lparr>pl_output := Some (artifact_output artifact metrics versions),
                     pl_metrics := Some metrics, pl_versions := Some versions,
                     pl_cost := Some cost\<rparr>)))"

definition worker_failure :: "runpod_provider \<Rightarrow> runpod_envelope \<Rightarrow> uuid \<Rightarrow> poll_result" where
  "worker_failure p envelope attempt_id =
     (case then_try (validated_worker_response p envelope attempt_id)
         (parsed_worker_failure p (en_id envelope)) of
        Inr r \<Rightarrow> r
      | Inl _ \<Rightarrow> failed (en_id envelope) WORKFLOW_FAILED
          ''RunPod worker failed without a valid structured error'')"

definition poll_envelope ::
  "runpod_provider \<Rightarrow> runpod_envelope \<Rightarrow> uuid \<Rightarrow> adapter_error + poll_result" where
  "poll_envelope p envelope attempt_id =
     (if en_status envelope = ''IN_QUEUE''
      then Inr (poll_result_of PS_PENDING (Some (en_id envelope)))
      else if en_status envelope = ''IN_PROGRESS''
      then Inr (poll_result_of PS_RUNNING (Some (en_id envelope)))
      else if en_status envelope = ''CANCELLED''
      then Inr (poll_result_of PS_CANCELLED (Some (en_id envelope)))
      else if en_status envelope = ''TIMED_OUT''
      then Inr (failed (en_id envelope) QUEUE_TIMEOUT ''RunPod job timed out'')
      else if en_status envelope = ''FAILED'' then Inr (worker_failure p envelope attempt_id)
      else worker_success p envelope attempt_id)"

definition runpod_poll :: "runpod_provider \<Rightarrow> provider_attempt \<Rightarrow> adapter_error + poll_result" where
  "runpod_poll p attempt =
     (case pq_provider_job_id attempt of
        None \<Rightarrow> Inr ((poll_result_of PS_UNKNOWN None)\<lparr>pl_failure := Some
          \<lparr>fl_code = NETWORK_TIMEOUT,
           fl_message = ''RunPod submit outcome is unknown and has no provider job id''\<rparr>\<rparr>)
      | Some i \<Rightarrow>
          (case status_of p i of
             Inl Http_timeout \<Rightarrow> Inr (failed i NETWORK_TIMEOUT ''RunPod status request timed out'')
           | Inl (Bad_status status_code) \<Rightarrow> Inr (http_failure i status_code)
           | Inl _ \<Rightarrow> Inr (failed i INTERNAL_ERROR ''RunPod returned an invalid status response'')
           | Inr envelope \<Rightarrow> poll_envelope p envelope (pq_attempt_id attempt)))"

section \<open>Cancel, webhooks, cost\<close>

definition runpod_status :: "string \<Rightarrow> provider_status" where
  "runpod_status status =
     (case map_of [(''IN_QUEUE'', PS_PENDING), (''IN_PROGRESS'', PS_RUNNING),
         (''COMPLETED'', PS_SUCCEEDED), (''FAILED'', PS_FAILED), (''TIMED_OUT'', PS_FAILED),
         (''CANCELLED'', PS_CANCELLED)] status of
        None \<Rightarrow> PS_UNKNOWN | Some s \<Rightarrow> s)"

definition runpod_cancel :: "runpod_provider \<Rightarrow> provider_attempt \<Rightarrow> cancel_result" where
  "runpod_cancel p attempt =
     (case pq_provider_job_id attempt of
        None \<Rightarrow> \<lparr>cn_accepted = False, cn_status = PS_UNKNOWN\<rparr>
      | Some i \<Rightarrow>
          (case envelope_in (rp_scalars p)
              (hc_post (rp_client p) (endpoint_path (rp_config p) @ ''/cancel/'' @ i) None) of
             Inl _ \<Rightarrow> \<lparr>cn_accepted = False, cn_status = PS_UNKNOWN\<rparr>
           | Inr envelope \<Rightarrow>
               if en_id envelope \<noteq> i then \<lparr>cn_accepted = False, cn_status = PS_UNKNOWN\<rparr>
               else let status = runpod_status (en_status envelope) in
                 \<lparr>cn_accepted = (status = PS_CANCELLED), cn_status = status\<rparr>))"

definition runpod_verify_webhook :: "error + provider_event" where
  "runpod_verify_webhook = Inl (ValueError ''unsigned RunPod webhooks are disabled'')"

text \<open>The cost of a report is read with the metrics of its output, whose amounts are set.\<close>

definition runpod_read_cost ::
  "runpod_provider \<Rightarrow> provider_attempt \<Rightarrow> adapter_error + cost_result option" where
  "runpod_read_cost p attempt =
     then_try (runpod_poll p attempt) (\<lambda>result.
       case Option.bind (pl_output result) po_metrics of
         None \<Rightarrow> Inr None
       | Some m \<Rightarrow>
           (case (mt_cost_minor m, mt_currency m, mt_cost_source m) of
              (Some amount, Some currency, Some source) \<Rightarrow>
                let cost = \<lparr>cr_amount_minor = amount, cr_currency = currency, cr_source = source\<rparr> in
                if cost_result_check cost then Inr (Some cost) else Inl Invalid
            | _ \<Rightarrow> Inl Invalid))"

text \<open>The adapter as the provider of the coordinator.\<close>

definition raised :: "adapter_error + 'a \<Rightarrow> error + 'a" where
  "raised r = (case r of Inr x \<Rightarrow> Inr x | Inl _ \<Rightarrow> Inl (ValueError ''RunPod''))"

definition runpod_video_provider :: "runpod_provider \<Rightarrow> video_provider" where
  "runpod_video_provider p = \<lparr>vp_submit = runpod_submit p,
     vp_poll = (\<lambda>a. raised (runpod_poll p a)), vp_read_cost = (\<lambda>a. raised (runpod_read_cost p a)),
     vp_cancel = (\<lambda>a. Inr (runpod_cancel p a)), vp_verify_webhook = (\<lambda>_ _. runpod_verify_webhook)\<rparr>"

end
