(* ===== verification/RunPodInv.thy ===== *)
theory RunPodInv
  imports RunPodAdapter
begin

text \<open>
  The RunPod adapter fails closed: what it takes for a success is a complete report of the
  locked release for this very attempt. A poll answers whatever the network does; the one way
  it raises is found here.
\<close>

section \<open>Reading a report\<close>

lemma bind_Some: "Option.bind x f = Some y \<longleftrightarrow> (\<exists>z. x = Some z \<and> f z = Some y)"
  by (cases x) auto

lemma then_try_Inr_iff: "then_try m f = Inr y \<longleftrightarrow> (\<exists>x. m = Inr x \<and> f x = Inr y)"
  by (cases m) (simp_all add: then_try_def)

lemma then_try_Inl_iff: "then_try m f = Inl e \<longleftrightarrow> m = Inl e \<or> (\<exists>x. m = Inr x \<and> f x = Inl e)"
  by (cases m) (auto simp: then_try_def)

named_theorems reading \<open>what a field that was read satisfies\<close>

lemma any_text_Some [reading]: "any_text p r = Some s \<longleftrightarrow> r = Some (RStr s) \<and> p s"
  by (auto simp: any_text_def split: option.splits reply.splits)

lemma text_field_Some [reading]:
  "text_field lo hi r = Some s \<longleftrightarrow> r = Some (RStr s) \<and> lo \<le> length s \<and> length s \<le> hi"
  by (auto simp: text_field_def split: option.splits reply.splits)

lemma int_field_Some [reading]: "int_field sc lo r = Some n \<longleftrightarrow> Option.bind r (sc_int sc) = Some n \<and> lo \<le> n"
  by (auto simp: int_field_def split: option.splits if_splits)

lemma nullable_field_Some [reading]:
  "nullable_field p r = Some (Some x) \<longleftrightarrow> (\<exists>v. r = Some v \<and> v \<noteq> RNull \<and> p v = Some x)"
  by (auto simp: nullable_field_def optional_field_def split: option.splits reply.splits)

lemma worker_metrics_ok:
  assumes "worker_metrics_of sc r = Some m"
  shows "provider_metrics_check (runpod_metrics m) \<longleftrightarrow> length (wm_gpu m) \<le> 100"
    and "cost_result_check (runpod_cost (runpod_metrics m))"
  using assms
  by (auto simp: worker_metrics_of_def bind_Some reading provider_metrics_check_def runpod_metrics_def
      short_name_def cost_result_check_def runpod_cost_def)

lemma dict_of_keys: "distinct (map fst (dict_of ms))"
  by (simp add: dict_of_def comp_def)

lemma text_members_keys: "text_members ms = Some hs \<Longrightarrow> map fst hs = map fst ms"
  by (induction ms arbitrary: hs rule: text_members.induct) auto

lemma model_hashes_ok:
  assumes "model_hashes r = Some hs"
  shows "hs \<noteq> []" and "distinct (map fst hs)"
    and "list_all (\<lambda>(name, digest). name \<noteq> [] \<and> hex_digest 64 digest) hs"
  using assms dict_of_keys text_members_keys
  by (auto simp: model_hashes_def list_all_iff split: option.splits reply.splits if_splits)

lemma worker_versions_ok:
  assumes "worker_versions_of r = Some v" and "provenance_matches config v"
    and "runpod_config_check c = Inr config"
  shows "provider_versions_check (runpod_versions config v)"
proof -
  have cfg: "cf_worker_version config = ''5.8.7''" "cf_comfyui_version config = ''0.29.0''"
    "cf_workflow_id config = ''fast_wan_i2v_720_v1''"
    using assms(3) by (auto simp: runpod_config_check_def split: if_splits)
  have v: "hex_digest 40 (wv_worker_commit v)" "hex_digest 40 (wv_comfyui_commit v)"
    "DIGEST_PATTERN (wv_image_digest v)" "hex_digest 64 (wv_workflow_sha256 v)"
    "\<exists>r. model_hashes r = Some (wv_model_sha256 v)"
    using assms(1) by (auto simp: worker_versions_of_def bind_Some reading)
  then obtain r where "model_hashes r = Some (wv_model_sha256 v)" by blast
  from model_hashes_ok [OF this] v assms(2) show ?thesis
    by (simp add: provider_versions_check_def runpod_versions_def provenance_matches_def cfg
        short_name_def DIGEST_PATTERN_def)
qed

text \<open>Of a valid report the snapshots raise exactly for a long GPU name.\<close>

lemma validated_worker:
  assumes "validated_worker_response p envelope attempt_id = Inr worker"
  shows "\<exists>r. worker_response_of (rp_scalars p) r = Some worker \<and> en_output envelope = Some r"
    and "wk_attempt_id worker = attempt_id" and "provenance_matches (rp_config p) (wk_versions worker)"
  using assms
  by (auto simp: validated_worker_response_def bind_Some split: option.splits if_splits)

lemma worker_response_ok:
  assumes "worker_response_of sc r = Some worker"
  shows "\<exists>r. worker_metrics_of sc r = Some (wk_metrics worker)"
    and "\<exists>r. worker_versions_of r = Some (wk_versions worker)"
    and "wk_status worker = ''SUCCEEDED'' \<and> wk_output worker \<noteq> None \<and> wk_error worker = None \<or>
      wk_status worker = ''FAILED'' \<and> wk_output worker = None \<and> wk_error worker \<noteq> None"
  using assms by (auto simp: worker_response_of_def bind_Some reading split: if_splits)

lemma snapshots_raise:
  assumes "validated_worker_response p envelope attempt_id = Inr worker"
    and "runpod_config_check c = Inr (rp_config p)"
  shows "(\<exists>e. snapshots (rp_config p) worker = Inl e) \<longleftrightarrow> length (wm_gpu (wk_metrics worker)) > 100"
proof -
  obtain r where r: "worker_response_of (rp_scalars p) r = Some worker"
    using validated_worker(1) [OF assms(1)] by blast
  obtain rm rv where "worker_metrics_of (rp_scalars p) rm = Some (wk_metrics worker)"
    and "worker_versions_of rv = Some (wk_versions worker)"
    using worker_response_ok(1,2) [OF r] by blast
  from worker_metrics_ok [OF this(1)] worker_versions_ok [OF this(2) validated_worker(3) [OF assms(1)] assms(2)]
  show ?thesis by (auto simp: snapshots_def Let_def)
qed

section \<open>Polling\<close>

text \<open>A report with a known failure code, or a success.\<close>

definition reportable :: "worker_response \<Rightarrow> bool" where
  "reportable worker \<longleftrightarrow> wk_status worker = ''SUCCEEDED'' \<or>
     (\<exists>err failure. wk_error worker = Some err \<and> failure_code_of_value (we_code err) = Some failure \<and>
        failure \<in> WORKER_FAILURE_CODES)"

lemma worker_success_raises:
  assumes cfg: "runpod_config_check c = Inr (rp_config p)"
  shows "(\<exists>e. worker_success p envelope attempt_id = Inl e) \<longleftrightarrow>
    (\<exists>worker. validated_worker_response p envelope attempt_id = Inr worker \<and> reportable worker \<and>
       length (wm_gpu (wk_metrics worker)) > 100)"
proof (cases "validated_worker_response p envelope attempt_id")
  case (Inr worker)
  note snap = snapshots_raise [OF Inr cfg]
  obtain r where "worker_response_of (rp_scalars p) r = Some worker"
    using validated_worker(1) [OF Inr] by blast
  from worker_response_ok(3) [OF this] show ?thesis
    by (elim disjE) (auto simp: worker_success_def Inr parsed_worker_failure_def then_try_Inl_iff snap
        reportable_def split: option.splits if_splits)
qed (simp add: worker_success_def)

lemma status_of_envelope:
  assumes "status_of p i = Inr envelope"
  shows "en_id envelope = i" and "en_status envelope \<in> envelope_statuses"
  using assms
  by (auto simp: status_of_def then_try_Inr_iff envelope_in_def envelope_of_def bind_Some reading
      split: if_splits option.splits)

lemma poll_envelope_Inl:
  assumes "en_status envelope \<in> envelope_statuses"
  shows "poll_envelope p envelope attempt_id = Inl e \<longleftrightarrow>
    en_status envelope = ''COMPLETED'' \<and> worker_success p envelope attempt_id = Inl e"
  using assms by (auto simp: poll_envelope_def envelope_statuses_def)

lemma runpod_poll_Inl:
  "runpod_poll p attempt = Inl e \<longleftrightarrow>
    (\<exists>i envelope. pq_provider_job_id attempt = Some i \<and> status_of p i = Inr envelope \<and>
       en_status envelope = ''COMPLETED'' \<and> worker_success p envelope (pq_attempt_id attempt) = Inl e)"
  using status_of_envelope(2) poll_envelope_Inl
  by (auto simp: runpod_poll_def split: option.splits sum.splits adapter_error.splits)

text \<open>
  C35. Polling RunPod answers whatever happens on the network: a time-out, any HTTP status, an
  answer of the wrong shape become a failure or an unknown state. It raises in one case only:
  a completed report of this attempt and of the locked release, a success or a failure with a
  code the worker may give, whose GPU name is longer than a hundred characters, which the
  strict model of the answer lets pass (up to two hundred) and the snapshot refuses.
\<close>

theorem runpod_poll_raises_iff:
  assumes "runpod_config_check c = Inr (rp_config p)"
  shows "(\<exists>e. runpod_poll p attempt = Inl e) \<longleftrightarrow>
    (\<exists>i envelope worker. pq_provider_job_id attempt = Some i \<and> status_of p i = Inr envelope \<and>
       en_status envelope = ''COMPLETED'' \<and>
       validated_worker_response p envelope (pq_attempt_id attempt) = Inr worker \<and>
       reportable worker \<and> length (wm_gpu (wk_metrics worker)) > 100)"
  unfolding runpod_poll_Inl using worker_success_raises [OF assms] by metis

section \<open>What counts as a success\<close>

lemma failed_status_ps [simp]: "pl_status (failed i c m) = PS_FAILED"
  by (simp add: failed_def poll_result_of_def)

lemma parsed_failure_status:
  "parsed_worker_failure p i worker = Inr r \<Longrightarrow> pl_status r = PS_FAILED"
  by (auto simp: parsed_worker_failure_def then_try_Inr_iff split: option.splits if_splits)

lemma worker_success_status:
  assumes "worker_success p envelope attempt_id = Inr r" and "pl_status r = PS_SUCCEEDED"
  shows "\<exists>worker artifact m v cost. validated_worker_response p envelope attempt_id = Inr worker \<and>
    wk_output worker = Some artifact \<and> snapshots (rp_config p) worker = Inr (m, v, cost) \<and>
    r = (poll_result_of PS_SUCCEEDED (Some (en_id envelope)))\<lparr>
      pl_output := Some (artifact_output artifact m v), pl_metrics := Some m, pl_versions := Some v,
      pl_cost := Some cost\<rparr>"
  using assms
  by (fastforce simp: worker_success_def then_try_Inr_iff dest: parsed_failure_status
      split: sum.splits option.splits if_splits)

text \<open>
  C36. Only a complete report makes a success: if polling answers SUCCEEDED, the envelope is the
  attempt's own provider job, completed, and its report names this attempt and exactly the
  locked image, commits, workflow and models; the output is a key in canonical form with
  positive duration and size, and no bytes of the answer are taken for the video.
\<close>

theorem runpod_success_locked:
  assumes "runpod_poll p attempt = Inr r" and "pl_status r = PS_SUCCEEDED"
  shows "\<exists>i envelope worker artifact. pq_provider_job_id attempt = Some i \<and>
    status_of p i = Inr envelope \<and> en_id envelope = i \<and> en_status envelope = ''COMPLETED'' \<and>
    pl_provider_job_id r = Some i \<and>
    validated_worker_response p envelope (pq_attempt_id attempt) = Inr worker \<and>
    wk_attempt_id worker = pq_attempt_id attempt \<and>
    provenance_matches (rp_config p) (wk_versions worker) \<and> wk_output worker = Some artifact \<and>
    safe_object_key (wa_object_key artifact) \<and> 0 < wa_duration_ms artifact \<and>
    map_option po_object_key (pl_output r) = Some (Some (wa_object_key artifact)) \<and>
    map_option po_content (pl_output r) = Some None"
proof -
  obtain i envelope where i: "pq_provider_job_id attempt = Some i" "status_of p i = Inr envelope"
    and e: "poll_envelope p envelope (pq_attempt_id attempt) = Inr r"
    using assms
    by (auto simp: runpod_poll_def poll_result_of_def http_failure_def
        split: option.splits sum.splits adapter_error.splits)
  have s: "en_status envelope = ''COMPLETED''" "worker_success p envelope (pq_attempt_id attempt) = Inr r"
    using e assms(2) status_of_envelope(2) [OF i(2)]
    by (auto simp: poll_envelope_def poll_result_of_def worker_failure_def then_try_def
        envelope_statuses_def dest: parsed_failure_status split: if_splits sum.splits)
  obtain worker artifact m v cost where w: "validated_worker_response p envelope (pq_attempt_id attempt) = Inr worker"
    "wk_output worker = Some artifact" and r: "r = (poll_result_of PS_SUCCEEDED (Some (en_id envelope)))\<lparr>
      pl_output := Some (artifact_output artifact m v), pl_metrics := Some m, pl_versions := Some v,
      pl_cost := Some cost\<rparr>"
    using worker_success_status [OF s(2) assms(2)] by blast
  obtain x where "worker_response_of (rp_scalars p) x = Some worker"
    using validated_worker(1) [OF w(1)] by blast
  then obtain y where "worker_artifact_of (rp_scalars p) y = Some artifact"
    using w(2) by (auto simp: worker_response_of_def bind_Some reading split: if_split_asm)
  then have "safe_object_key (wa_object_key artifact)" "0 < wa_duration_ms artifact"
    by (auto simp: worker_artifact_of_def bind_Some reading split: if_splits)
  with i s(1) w validated_worker(2,3) [OF w(1)] status_of_envelope(1) [OF i(2)] show ?thesis
    by (simp add: r poll_result_of_def artifact_output_def)
qed

section \<open>A report\<close>

definition sample_digest :: "nat \<Rightarrow> string" where "sample_digest n = replicate n (CHR ''0'')"

definition sample_config :: runpod_config where
  "sample_config = \<lparr>cf_endpoint_id = ''endpoint-1'', cf_api_key = ''secret'',
     cf_image_digest = ''sha256:'' @ sample_digest 64, cf_workflow_id = ''fast_wan_i2v_720_v1'',
     cf_workflow_sha256 = sample_digest 64, cf_model_sha256 = [(''model'', sample_digest 64)],
     cf_worker_version = ''5.8.7'', cf_worker_commit = ''a1981e99b1f5a7201f387653420ad1f275b97d0a'',
     cf_comfyui_version = ''0.29.0'', cf_comfyui_commit = ''a8c44f9b2a0678ac4082e3529a3f43db7472acfe'',
     cf_comfy_cli_version = ''1.18.0'', cf_execution_timeout_ms = 900000, cf_ttl_ms = 3600000,
     cf_request_timeout_seconds = 10\<rparr>"

definition sample_report :: "string \<Rightarrow> reply" where
  "sample_report gpu = RObj [(''attempt_id'', RInt 7), (''status'', RStr ''SUCCEEDED''),
     (''output'', RObj [(''claim'', RStr ''a.b''), (''object_key'', RStr ''out/v.mp4''),
        (''media_type'', RStr ''video/mp4''), (''duration_ms'', RInt 5000), (''width'', RInt 1280),
        (''height'', RInt 720), (''fps'', RInt 16), (''codec'', RStr ''h264'')]),
     (''metrics'', RObj [(''gpu'', RStr gpu), (''queue_ms'', RInt 1), (''cold_start_ms'', RInt 1),
        (''runtime_ms'', RInt 1), (''billable_ms'', RInt 1), (''cost_minor'', RInt 1),
        (''currency'', RStr ''USD''), (''cost_source'', RStr ''ACTUAL'')]),
     (''versions'', RObj [(''worker_comfyui'', RStr ''5.8.7''),
        (''worker_commit'', RStr ''a1981e99b1f5a7201f387653420ad1f275b97d0a''),
        (''comfyui_commit'', RStr ''a8c44f9b2a0678ac4082e3529a3f43db7472acfe''),
        (''comfy_cli'', RStr ''1.18.0''), (''image_digest'', RStr (''sha256:'' @ sample_digest 64)),
        (''workflow_id'', RStr ''fast_wan_i2v_720_v1''), (''workflow_sha256'', RStr (sample_digest 64)),
        (''model_sha256'', RObj [(''model'', RStr (sample_digest 64))])]),
     (''error'', RNull)]"

fun reply_int :: "reply \<Rightarrow> int option" where
  "reply_int (RInt n) = Some n"
| "reply_int _ = None"

definition sample_scalars :: scalars where
  "sample_scalars = \<lparr>sc_int = reply_int, sc_float = (\<lambda>r. map_option of_int (reply_int r)),
     sc_uuid = (\<lambda>r. map_option of_int (reply_int r))\<rparr>"

definition sample_runpod :: "string \<Rightarrow> runpod_provider" where
  "sample_runpod gpu = \<lparr>rp_config = sample_config, rp_client = \<lparr>hc_post = (\<lambda>_ _. Timed_out),
     hc_get = (\<lambda>_. Response 200 2000 (Some (RObj [(''id'', RStr ''rp-1''),
       (''status'', RStr ''COMPLETED''), (''output'', sample_report gpu)])))\<rparr>,
     rp_scalars = sample_scalars\<rparr>"

definition sample_runpod_attempt :: provider_attempt where
  "sample_runpod_attempt = \<lparr>pq_attempt_id = 7, pq_idempotency_key = ''k'',
     pq_provider_job_id = Some ''rp-1'', pq_mode = ''success''\<rparr>"

lemma sample_digest_hex: "hex_digest n (sample_digest n)" "length (sample_digest n) = n"
  by (simp_all add: hex_digest_def sample_digest_def list_all_iff hex_char_def)

lemma sample_commits:
  "hex_digest 40 ''a1981e99b1f5a7201f387653420ad1f275b97d0a''"
  "hex_digest 40 ''a8c44f9b2a0678ac4082e3529a3f43db7472acfe''" by code_simp+

lemmas report_eval = bind_Some members_def any_text_def text_field_def int_field_def optional_field_def
  nullable_field_def sample_scalars_def

definition sample_artifact :: worker_artifact where
  "sample_artifact = \<lparr>wa_claim = ''a.b'', wa_object_key = ''out/v.mp4'', wa_media_type = ''video/mp4'',
     wa_duration_ms = 5000, wa_width = 1280, wa_height = 720, wa_fps = 16, wa_codec = ''h264'',
     wa_size_bytes = None, wa_sha256 = None\<rparr>"

definition sample_worker_metrics :: "string \<Rightarrow> worker_metrics" where
  "sample_worker_metrics gpu = \<lparr>wm_gpu = gpu, wm_queue_ms = 1, wm_cold_start_ms = 1,
     wm_runtime_ms = 1, wm_billable_ms = 1, wm_cost_minor = 1, wm_currency = ''USD'',
     wm_cost_source = ''ACTUAL''\<rparr>"

definition sample_worker_versions :: worker_versions where
  "sample_worker_versions = \<lparr>wv_worker_comfyui = ''5.8.7'',
     wv_worker_commit = ''a1981e99b1f5a7201f387653420ad1f275b97d0a'',
     wv_comfyui_commit = ''a8c44f9b2a0678ac4082e3529a3f43db7472acfe'', wv_comfy_cli = ''1.18.0'',
     wv_image_digest = ''sha256:'' @ sample_digest 64, wv_workflow_id = ''fast_wan_i2v_720_v1'',
     wv_workflow_sha256 = sample_digest 64, wv_model_sha256 = [(''model'', sample_digest 64)]\<rparr>"

lemma sample_reads:
  "signed_claim ''a.b''" "list_all key_char ''out/v.mp4''" "safe_object_key ''out/v.mp4''"
  "currency_code ''USD''" "RUNPOD_JOB_PATTERN ''rp-1''"
  by code_simp+

lemma sample_report_of:
  assumes "1 \<le> length gpu" "length gpu \<le> 200"
  shows "worker_response_of sample_scalars (sample_report gpu) = Some \<lparr>wk_attempt_id = 7,
    wk_status = ''SUCCEEDED'', wk_output = Some sample_artifact,
    wk_metrics = sample_worker_metrics gpu, wk_versions = sample_worker_versions, wk_error = None\<rparr>"
proof -
  have 1: "worker_artifact_of sample_scalars (RObj [(''claim'', RStr ''a.b''), (''object_key'', RStr ''out/v.mp4''),
        (''media_type'', RStr ''video/mp4''), (''duration_ms'', RInt 5000), (''width'', RInt 1280),
        (''height'', RInt 720), (''fps'', RInt 16), (''codec'', RStr ''h264'')]) = Some sample_artifact"
    using sample_reads by (simp add: worker_artifact_of_def report_eval sample_artifact_def)
  have 2: "worker_metrics_of sample_scalars (RObj [(''gpu'', RStr gpu), (''queue_ms'', RInt 1), (''cold_start_ms'', RInt 1),
        (''runtime_ms'', RInt 1), (''billable_ms'', RInt 1), (''cost_minor'', RInt 1),
        (''currency'', RStr ''USD''), (''cost_source'', RStr ''ACTUAL'')]) = Some (sample_worker_metrics gpu)"
    using sample_reads assms by (simp add: worker_metrics_of_def report_eval sample_worker_metrics_def)
  have 3: "worker_versions_of (RObj [(''worker_comfyui'', RStr ''5.8.7''),
        (''worker_commit'', RStr ''a1981e99b1f5a7201f387653420ad1f275b97d0a''),
        (''comfyui_commit'', RStr ''a8c44f9b2a0678ac4082e3529a3f43db7472acfe''),
        (''comfy_cli'', RStr ''1.18.0''), (''image_digest'', RStr (''sha256:'' @ sample_digest 64)),
        (''workflow_id'', RStr ''fast_wan_i2v_720_v1''), (''workflow_sha256'', RStr (sample_digest 64)),
        (''model_sha256'', RObj [(''model'', RStr (sample_digest 64))])]) = Some sample_worker_versions"
    using sample_commits sample_digest_hex [of 64]
    by (simp add: worker_versions_of_def report_eval sample_worker_versions_def DIGEST_PATTERN_def
        model_hashes_def dict_of_def)
  show ?thesis
    using 1 2 3 by (simp add: worker_response_of_def report_eval sample_report_def)
qed

lemma sample_validated:
  assumes "1 \<le> length gpu" "length gpu \<le> 200"
  shows "status_of (sample_runpod gpu) ''rp-1'' = Inr \<lparr>en_id = ''rp-1'', en_status = ''COMPLETED'',
      en_output = Some (sample_report gpu)\<rparr>"
    and "validated_worker_response (sample_runpod gpu) \<lparr>en_id = ''rp-1'', en_status = ''COMPLETED'',
      en_output = Some (sample_report gpu)\<rparr> 7 = Inr \<lparr>wk_attempt_id = 7,
    wk_status = ''SUCCEEDED'', wk_output = Some sample_artifact,
    wk_metrics = sample_worker_metrics gpu, wk_versions = sample_worker_versions, wk_error = None\<rparr>"
proof -
  have "\<exists>ms. sample_report gpu = RObj ms" by (simp add: sample_report_def)
  then show "status_of (sample_runpod gpu) ''rp-1'' = Inr \<lparr>en_id = ''rp-1'', en_status = ''COMPLETED'',
      en_output = Some (sample_report gpu)\<rparr>"
    using sample_reads
    by (auto simp: status_of_def sample_runpod_def envelope_in_def raise_for_status_def then_try_def
        response_json_def MAX_RESPONSE_BYTES_def envelope_of_def report_eval object_value_def
        envelope_statuses_def)
  show "validated_worker_response (sample_runpod gpu) \<lparr>en_id = ''rp-1'', en_status = ''COMPLETED'',
      en_output = Some (sample_report gpu)\<rparr> 7 = Inr \<lparr>wk_attempt_id = 7,
    wk_status = ''SUCCEEDED'', wk_output = Some sample_artifact,
    wk_metrics = sample_worker_metrics gpu, wk_versions = sample_worker_versions, wk_error = None\<rparr>"
    using sample_report_of [OF assms]
    by (simp add: validated_worker_response_def sample_runpod_def provenance_matches_def
        sample_worker_versions_def sample_config_def)
qed

lemma sample_config_ok: "runpod_config_check sample_config = Inr sample_config"
proof -
  have "RUNPOD_ENDPOINT_PATTERN ''endpoint-1''" "stripped ''secret''" by code_simp+
  then show ?thesis
    using sample_digest_hex [of 64]
    by (simp add: runpod_config_check_def sample_config_def DIGEST_PATTERN_def)
qed

theorem runpod_poll_raises_iff_witness:
  "\<exists>e. runpod_poll (sample_runpod (replicate 101 (CHR ''x''))) sample_runpod_attempt = Inl e"
proof -
  let ?gpu = "replicate 101 (CHR ''x'')"
  have cfg: "rp_config (sample_runpod ?gpu) = sample_config" by (simp add: sample_runpod_def)
  have len: "1 \<le> length ?gpu" "length ?gpu \<le> 200" by simp_all
  show ?thesis
    unfolding runpod_poll_raises_iff [of sample_config "sample_runpod ?gpu", unfolded cfg, OF sample_config_ok]
    using sample_validated [OF len]
    by (auto simp: sample_runpod_attempt_def reportable_def sample_worker_metrics_def)
qed

theorem runpod_success_locked_witness:
  "\<exists>r. runpod_poll (sample_runpod ''L40S'') sample_runpod_attempt = Inr r \<and>
     pl_provider_job_id r = Some ''rp-1'' \<and> map_option po_object_key (pl_output r) = Some (Some ''out/v.mp4'')"
proof -
  let ?p = "sample_runpod ''L40S''"
  have cfg: "rp_config ?p = sample_config" by (simp add: sample_runpod_def)
  have len: "1 \<le> length ''L40S''" "length ''L40S'' \<le> 200" by simp_all
  note v = sample_validated [OF len]
  have snap: "\<not> (\<exists>e. snapshots (rp_config ?p) \<lparr>wk_attempt_id = 7, wk_status = ''SUCCEEDED'',
      wk_output = Some sample_artifact, wk_metrics = sample_worker_metrics ''L40S'',
      wk_versions = sample_worker_versions, wk_error = None\<rparr> = Inl e)"
    using snapshots_raise [OF v(2), of sample_config] sample_config_ok cfg
    by (simp add: sample_worker_metrics_def)
  then obtain m ver cost where "snapshots (rp_config ?p) \<lparr>wk_attempt_id = 7, wk_status = ''SUCCEEDED'',
      wk_output = Some sample_artifact, wk_metrics = sample_worker_metrics ''L40S'',
      wk_versions = sample_worker_versions, wk_error = None\<rparr> = Inr (m, ver, cost)"
    by (metis old.sum.exhaust prod_cases3)
  with v obtain r where r: "runpod_poll ?p sample_runpod_attempt = Inr r" "pl_status r = PS_SUCCEEDED"
    by (simp add: runpod_poll_def sample_runpod_attempt_def poll_envelope_def worker_success_def
        then_try_def poll_result_of_def)
  from runpod_success_locked [OF r] v r show ?thesis
    by (auto simp: sample_runpod_attempt_def sample_artifact_def)
qed

end
