(* ===== verification/Wallet.thy ===== *)
theory Wallet
  imports Reservations Transactions
begin

text \<open>
  The wallet: what the double-entry ledger promises, without accounts, transactions and
  postings. A wallet maps an owner (a user or the platform), an account type and a unit to an
  amount, and knows four moves. The ledger operations of the service refine it: each one that
  succeeds makes the one move it stands for, or is a replay and makes none.
\<close>

section \<open>The abstract wallet\<close>

type_synonym holder = "uuid option \<times> string \<times> string"
type_synonym wallet = "holder \<Rightarrow> int"

datatype move =
    Grant uuid string int
  | Reserve uuid string int
  | Settle uuid string int
  | Release uuid string int

fun move_ends :: "move \<Rightarrow> holder \<times> holder \<times> int" where
  "move_ends (Grant u x n) = ((None, PLATFORM_ISSUED, x), (Some u, USER_AVAILABLE, x), n)"
| "move_ends (Reserve u x n) = ((Some u, USER_AVAILABLE, x), (Some u, USER_RESERVED, x), n)"
| "move_ends (Settle u x n) = ((Some u, USER_RESERVED, x), (None, PLATFORM_CONSUMED, x), n)"
| "move_ends (Release u x n) = ((Some u, USER_RESERVED, x), (Some u, USER_AVAILABLE, x), n)"

text \<open>A user cannot give what is not there; the platform issues as much as it wants.\<close>

definition wallet_step :: "move \<Rightarrow> wallet \<Rightarrow> wallet option" where
  "wallet_step m w =
     (let (src, dst, n) = move_ends m in
      if 0 < n \<and> (fst src = None \<or> n \<le> w src)
      then Some ((w(src := w src - n))(dst := w dst + n)) else None)"

fun run_moves :: "('m \<Rightarrow> 'a \<Rightarrow> 'a option) \<Rightarrow> 'm list \<Rightarrow> 'a \<Rightarrow> 'a option" where
  "run_moves step [] w = Some w"
| "run_moves step (m # ms) w =
     (case step m w of None \<Rightarrow> None | Some w' \<Rightarrow> run_moves step ms w')"

lemma move_ends_distinct: "move_ends m = (src, dst, n) \<Longrightarrow> src \<noteq> dst"
  by (cases m) auto

lemma wallet_step_nonneg:
  assumes "wallet_step m w = Some w'" and "\<And>u t x. 0 \<le> w (Some u, t, x)"
  shows "0 \<le> w' (Some u, t, x)"
proof -
  obtain src dst n where e: "move_ends m = (src, dst, n)" by (cases "move_ends m") auto
  from assms(1) e have n: "0 < n" "fst src = None \<or> n \<le> w src"
    and w': "w' = (w(src := w src - n))(dst := w dst + n)"
    by (auto simp: wallet_step_def split: if_splits)
  show ?thesis
    using n assms(2) [of u t x] by (cases "(Some u, t, x) = src"; cases "(Some u, t, x) = dst")
      (auto simp: w')
qed

lemma run_moves_nonneg:
  assumes "run_moves wallet_step ms w = Some w'" and "\<And>u t x. 0 \<le> w (Some u, t, x)"
  shows "0 \<le> w' (Some u, t, x)"
  using assms
proof (induction ms arbitrary: w)
  case (Cons m ms)
  then obtain v where v: "wallet_step m w = Some v" "run_moves wallet_step ms v = Some w'"
    by (auto split: option.splits)
  show ?case by (rule Cons.IH [OF v(2)]) (rule wallet_step_nonneg [OF v(1) Cons.prems(2)])
qed simp

text \<open>What the moves of a user add to her wealth: grants, less settlements.\<close>

definition wealth :: "wallet \<Rightarrow> uuid \<Rightarrow> string \<Rightarrow> int" where
  "wealth w u x = w (Some u, USER_AVAILABLE, x) + w (Some u, USER_RESERVED, x)"

fun earned :: "uuid \<Rightarrow> string \<Rightarrow> move \<Rightarrow> int" where
  "earned u x (Grant v y n) = (if v = u \<and> y = x then n else 0)"
| "earned u x (Settle v y n) = (if v = u \<and> y = x then - n else 0)"
| "earned u x (Reserve v y n) = 0"
| "earned u x (Release v y n) = 0"

lemma wallet_step_wealth:
  "wallet_step m w = Some w' \<Longrightarrow> wealth w' u x = wealth w u x + earned u x m"
  by (cases m) (auto simp: wallet_step_def wealth_def split: if_splits)

lemma run_moves_wealth:
  "run_moves wallet_step ms w = Some w' \<Longrightarrow>
     wealth w' u x = wealth w u x + sum_list (map (earned u x) ms)"
  by (induction ms arbitrary: w) (auto simp: wallet_step_wealth split: option.splits)

section \<open>Refinement of an abstract step\<close>

text \<open>
  A system of transactions refines an abstract step when each successful operation makes the
  one abstract step it stands for, or leaves the abstraction as it is. \<open>good n\<close> is the
  invariant with room for \<open>n\<close> more operations (new identifiers are a finite supply).
\<close>

locale refinement =
  fixes exec :: "'s \<Rightarrow> 'op \<Rightarrow> error + 's"
    and good :: "nat \<Rightarrow> 's \<Rightarrow> bool"
    and step :: "'m \<Rightarrow> 'a \<Rightarrow> 'a option"
    and abs :: "'s \<Rightarrow> 'a"
    and stands_for :: "'s \<Rightarrow> 'op \<Rightarrow> 'm \<Rightarrow> bool"
  assumes good_less: "good (Suc n) s \<Longrightarrow> good n s"
    and exec_good: "good (Suc n) s \<Longrightarrow> exec s op = Inr s' \<Longrightarrow> good n s'"
    and exec_refines: "good (Suc n) s \<Longrightarrow> exec s op = Inr s' \<Longrightarrow> abs s' \<noteq> abs s \<Longrightarrow>
      \<exists>m. stands_for s op m \<and> step m (abs s) = Some (abs s')"
begin

lemma run_refines:
  "good (n + length ops) s \<Longrightarrow> good n (run_tx exec s ops) \<and>
     (\<exists>ms. length ms \<le> length ops \<and> run_moves step ms (abs s) = Some (abs (run_tx exec s ops)))"
proof (induction ops arbitrary: s)
  case Nil
  then show ?case by (auto intro: exI [of _ "[]"])
next
  case (Cons op ops)
  then have g: "good (Suc (n + length ops)) s" by simp
  show ?case
  proof (cases "exec s op")
    case (Inl e)
    with Cons.IH [OF good_less [OF g]] show ?thesis by (auto intro: le_SucI)
  next
    case (Inr s')
    obtain ms where good': "good n (run_tx exec s' ops)" and ms: "length ms \<le> length ops"
      "run_moves step ms (abs s') = Some (abs (run_tx exec s' ops))"
      using Cons.IH [OF exec_good [OF g Inr]] by blast
    show ?thesis
    proof (cases "abs s' = abs s")
      case True
      with ms good' Inr show ?thesis by (intro conjI exI [of _ ms]) simp_all
    next
      case False
      with exec_refines [OF g Inr] obtain m where "step m (abs s) = Some (abs s')" by blast
      with ms good' Inr show ?thesis by (intro conjI exI [of _ "m # ms"]) simp_all
    qed
  qed
qed

end

section \<open>The ledger as a wallet\<close>

definition wallet_of :: "database \<Rightarrow> wallet" where
  "wallet_of db = (\<lambda>(ow, ty, x). account_balance db ow ty x)"

text \<open>The books are in order, the next \<open>n\<close> ids are new, and an account under a user's key is
  the user's.\<close>

definition books :: "nat \<Rightarrow> database \<Rightarrow> bool" where
  "books n db \<longleftrightarrow> ledger_ok db \<and> uuids_fresh n db \<and>
     (\<forall>a \<in> set (t_accounts db). \<forall>u. la_scope_key a = fst (scope_of (Some u)) \<longrightarrow>
        la_owner_type a = ''USER'')"

lemma books_mono: "books n db \<Longrightarrow> m \<le> n \<Longrightarrow> books m db"
  by (auto simp: books_def intro: uuids_fresh_mono)

text \<open>Nothing has moved, and the books are in order for \<open>n\<close> more ids.\<close>

definition calm :: "nat \<Rightarrow> database \<Rightarrow> database \<Rightarrow> bool" where
  "calm n db db' \<longleftrightarrow> books n db' \<and> wallet_of db' = wallet_of db \<and>
     t_transactions db' = t_transactions db"

lemma calm_refl: "books n db \<Longrightarrow> calm n db db"
  by (simp add: calm_def)

lemma calm_books: "calm n db db' \<Longrightarrow> books n db'"
  by (simp add: calm_def)

lemma calm_trans: "calm m a b \<Longrightarrow> calm n b c \<Longrightarrow> calm n a c"
  by (simp add: calm_def)

lemma calm_cong:
  assumes "books n db" and "t_accounts db' = t_accounts db" and "t_balances db' = t_balances db"
    and "t_postings db' = t_postings db" and "t_transactions db' = t_transactions db"
    and "uuid_supply db' = uuid_supply db" and "uuid_next db' = uuid_next db"
  shows "calm n db db'"
  using assms(1) book_cong [OF assms(2-4)] uuids_fresh_cong [OF assms(6,7,2)]
  by (simp add: calm_def books_def wallet_of_def assms(2,5))

lemma scope_of_owner: "snd (scope_of (Some u)) = ''USER''"
  by simp

lemma ensure_account_owner:
  assumes "ensure_account db ow ty x = Inr (a, db')" and "b \<in> set (t_accounts db')"
  shows "b \<in> set (t_accounts db) \<or> la_owner_type b = snd (scope_of ow) \<and>
    la_scope_key b = fst (scope_of ow)"
  using assms
  by (auto simp: ensure_account_def ensure_account_at_def uuid4_def Let_def split_beta
      split: option.splits if_splits)

lemma calm_ensure:
  assumes ok: "books (Suc n) db" and e: "ensure_account db ow ty x = Inr (a, db')"
  shows "calm n db db'"
proof -
  from ok have L: "ledger_ok db" and F: "uuids_fresh (Suc n) db" by (simp_all add: books_def)
  have F1: "uuids_fresh 1 db" by (rule uuids_fresh_mono [OF F]) simp
  have "la_owner_type b = ''USER''" if "b \<in> set (t_accounts db')"
      "la_scope_key b = fst (scope_of (Some u))" for b u
    using ensure_account_owner [OF e that(1)] that ok scope_of_inj [of "Some u" ow]
    by (auto simp: books_def simp del: scope_of_inj scope_of.simps dest: sym [of "fst (scope_of ow)"])
      (metis scope_of_inj scope_of_owner)
  moreover have "t_transactions db' = t_transactions db"
    using ensure_account_Inr(1) [OF e] by auto
  ultimately show ?thesis
    using ledger_ok_ensure_account(1) [OF L F1 e] uuids_fresh_ensure_account [OF F e]
      account_balance_ensure [OF L F1 e]
    by (simp add: calm_def books_def wallet_of_def)
qed

lemma calm_uuid4:
  assumes "books (Suc n) db" and "uuid4 db = (i, db')"
  shows "calm n db db'"
proof -
  have t: "t_accounts db' = t_accounts db" "t_balances db' = t_balances db"
    "t_postings db' = t_postings db" "t_transactions db' = t_transactions db"
    "uuid_supply db' = uuid_supply db" "uuid_next db' = Suc (uuid_next db)"
    using assms(2) by (auto simp: uuid4_def)
  have "uuids_fresh n db'"
    by (rule uuids_fresh_step [where db = db]) (use assms(1) t in \<open>simp_all add: books_def\<close>)
  with assms(1) book_cong [OF t(1-3)] show ?thesis
    by (simp add: calm_def books_def wallet_of_def t)
qed

lemma calm_catalog:
  assumes "books (4 + n) db"
  shows "calm n db (ensure_default_catalog db)"
proof -
  have tier: "calm m d (add_tier y d)" if "books m d" for m y d
    by (cases y, rule calm_cong [OF that]) (auto simp: add_tier_def)
  have price: "calm m d (add_price y d)" if "books (Suc m) d" for m y d
  proof (cases "add_price y d = d")
    case False
    then obtain ps where "add_price y d = (snd (uuid4 d))\<lparr>t_prices := ps\<rparr>"
      by (cases y) (auto simp: add_price_def uuid4_def Let_def split: if_splits)
    moreover have c: "calm m d (snd (uuid4 d))"
      by (rule calm_uuid4 [OF that]) (simp add: uuid4_def)
    moreover have "calm m (snd (uuid4 d)) ((snd (uuid4 d))\<lparr>t_prices := ps\<rparr>)" for ps
      by (rule calm_cong [OF calm_books [OF c]]) simp_all
    ultimately show ?thesis by (metis calm_trans)
  qed (use that in \<open>simp add: calm_def books_mono\<close>)
  have tiers: "books m d \<Longrightarrow> calm m d (fold add_tier ys d)" for m ys d
    by (induction ys arbitrary: d) (simp add: calm_def, simp, metis calm_books calm_trans tier)
  have prices: "books (length ys + m) d \<Longrightarrow> calm m d (fold add_price ys d)" for m ys d
    by (induction ys arbitrary: d) (simp add: calm_def, simp, metis calm_books calm_trans price)
  let ?tiers = "[(''FAST'', ''FAST_MS'', True), (''STUDIO'', ''STUDIO_MS'', True),
        (''CINEMA'', ''CINEMA_MS'', False)]"
  have c: "calm (4 + n) db (fold add_tier ?tiers db)" by (rule tiers [OF assms])
  show ?thesis
    unfolding ensure_default_catalog_def
    by (rule calm_trans [OF c prices]) (use calm_books [OF c] in \<open>simp add: eval_nat_numeral del: fold_simps\<close>)
qed

section \<open>One transfer is one move\<close>

definition moved :: "nat \<Rightarrow> move \<Rightarrow> database \<Rightarrow> database \<Rightarrow> bool" where
  "moved n m db db' \<longleftrightarrow> books n db' \<and> wallet_step m (wallet_of db) = Some (wallet_of db') \<and>
     t_transactions db' \<noteq> t_transactions db"

lemma moved_calm: "moved k m db db' \<Longrightarrow> calm n db' db'' \<Longrightarrow> moved n m db db''"
  by (simp add: moved_def calm_def)

lemma calm_moved: "calm k db db' \<Longrightarrow> moved n m db' db'' \<Longrightarrow> moved n m db db''"
  by (simp add: moved_def calm_def)

text \<open>\<open>steps m\<close>: idle, or the move \<open>m\<close>.\<close>

definition steps :: "nat \<Rightarrow> move \<Rightarrow> database \<Rightarrow> database \<Rightarrow> bool" where
  "steps n m db db' \<longleftrightarrow> calm n db db' \<or> moved n m db db'"

lemma steps_calm: "steps k m db db' \<Longrightarrow> calm n db' db'' \<Longrightarrow> steps n m db db''"
  by (auto simp: steps_def intro: moved_calm calm_trans)

lemma calm_steps: "calm k db db' \<Longrightarrow> steps n m db' db'' \<Longrightarrow> steps n m db db''"

  by (auto simp: steps_def intro: calm_moved calm_trans)

lemma steps_books: "steps n m db db' \<Longrightarrow> books n db'"
  by (auto simp: steps_def calm_def moved_def)

lemma post_transfer_steps:
  assumes ok: "books (Suc n) db" and P: "post_transfer db tr now = Inr (t, b, db')"
    and ends: "move_ends m = ((o1, ty1, u1), (o2, ty2, u2), tr_amount_ms tr)"
    and d: "find_account db (fst (scope_of o1)) ty1 u1 = Some (tr_debit tr)"
    and c: "find_account db (fst (scope_of o2)) ty2 u2 = Some (tr_credit tr)"
  shows "steps n m db db'"
proof (cases b)
  case False
  with P have "db' = db" by (simp add: post_transfer_def post_transfer_at_replay)
  with ok show ?thesis by (simp add: steps_def calm_def books_mono)
next
  case True
  from ok have L: "ledger_ok db" and F: "uuids_fresh (Suc n) db" by (simp_all add: books_def)
  from P True have P': "post_transfer_at db db tr now = Inr (t, True, db')"
    and P1: "post_transfer db tr now = Inr (t, True, db')" by (simp_all add: post_transfer_def)
  note N = post_transfer_at_new [OF P' ledger_okD(4) [OF L]]
  note D = find_accountD [OF d] and C = find_accountD [OF c]
  have "ledger_ok db'" by (rule ledger_ok_transfer [OF L P' D(1) C(1)])
  moreover have "uuids_fresh n db'"
    by (rule uuids_fresh_transfer [OF F P' ledger_okD(4) [OF L]])
  moreover have "t_accounts db' = t_accounts db"
    by (rule post_transfer_frame(2) [OF P' ledger_okD(4) [OF L]])
  ultimately have "books n db'" using ok by (simp add: books_def)
  moreover have "t_transactions db' \<noteq> t_transactions db" using N(8) by auto
  moreover have "wallet_step m (wallet_of db) = Some (wallet_of db')"
  proof -
    have bal: "tr_amount_ms tr \<le> account_balance db o1 ty1 u1" if "o1 = Some u" for u
    proof -
      have "la_owner_type (tr_debit tr) = ''USER''"
        using ok D that by (auto simp: books_def account_key_def)
      with N(6) have "tr_amount_ms tr \<le> balance_of db (la_id (tr_debit tr))" by simp
      then show ?thesis by (simp add: account_balance_def d)
    qed
    have "wallet_of db' = ((wallet_of db)((o1, ty1, u1) := wallet_of db (o1, ty1, u1) - tr_amount_ms tr))
        ((o2, ty2, u2) := wallet_of db (o2, ty2, u2) + tr_amount_ms tr)"
      using move_ends_distinct [OF ends]
      by (auto simp: fun_eq_iff wallet_of_def account_balance_transfer [OF L P1 d c])
    then show ?thesis
      using N(1) bal by (cases o1) (simp_all add: wallet_step_def ends wallet_of_def)
  qed
  ultimately show ?thesis by (simp add: steps_def moved_def)
qed

text \<open>The shape all operations share: find or make the two accounts, then transfer.\<close>

lemma transfer_between_steps:
  assumes ok: "books (3 + n) db" and e1: "ensure_account db o1 ty1 x = Inr (a1, db1)"
    and e2: "ensure_account db1 o2 ty2 x = Inr (a2, db2)"
    and P: "post_transfer db2 tr now = Inr (t, b, db')"
    and ends: "move_ends m = ((o1, ty1, x), (o2, ty2, x), tr_amount_ms tr)"
    and tr: "tr_debit tr = a1" "tr_credit tr = a2"
  shows "steps n m db db'"
proof -
  have c1: "calm (2 + n) db db1" by (rule calm_ensure [OF _ e1]) (use ok in \<open>simp add: eval_nat_numeral\<close>)
  have c2: "calm (1 + n) db1 db2" by (rule calm_ensure [OF _ e2])
    (use calm_books [OF c1] in \<open>simp add: eval_nat_numeral\<close>)
  have "find_account db2 (fst (scope_of o1)) ty1 x = Some (tr_debit tr)"
    unfolding tr by (rule ensure_account_find(3) [OF e2 ensure_account_find(1) [OF e1]])
  moreover have "find_account db2 (fst (scope_of o2)) ty2 x = Some (tr_credit tr)"
    unfolding tr by (rule ensure_account_find(1) [OF e2])
  moreover have "books (Suc n) db2" using calm_books [OF c2] by simp
  ultimately have "steps n m db2 db'" by (intro post_transfer_steps [OF _ P ends])
  with calm_trans [OF c1 c2] show ?thesis by (rule calm_steps)
qed

section \<open>The operations\<close>

datatype ledger_op =
    Grant_seconds app_user string int string string time
  | Reserve_job app_user shot uuid generation_job time
  | Reserve_batch app_user batch_draft "uuid list" time
  | Finish generation_job bool time

fun exec_ledger :: "database \<Rightarrow> ledger_op \<Rightarrow> error + database" where
  "exec_ledger db (Grant_seconds user tier n key reason now) =
     and_then (grant_seconds db user tier n key reason now) (\<lambda>(_, db). Inr db)"
| "exec_ledger db (Reserve_job user shot q job now) =
     and_then (reserve_quote_for_job db user shot q job now) (\<lambda>(_, db). Inr db)"
| "exec_ledger db (Reserve_batch user batch qs now) =
     and_then (reserve_quotes_for_batch db user batch qs now) (\<lambda>(_, _, db). Inr db)"
| "exec_ledger db (Finish job settle now) =
     and_then (finish_reservation db job settle now) (\<lambda>(_, db). Inr db)"

text \<open>The move an operation stands for: the amounts come from the request, from the quotes
  it names and from the job.\<close>

fun op_move :: "database \<Rightarrow> ledger_op \<Rightarrow> move \<Rightarrow> bool" where
  "op_move db (Grant_seconds user tier n _ _ _) m \<longleftrightarrow>
     (\<exists>t \<in> set (t_tiers (ensure_default_catalog db)). qt_code t = tier \<and> qt_enabled t \<and>
        m = Grant (user_id user) (qt_billing_unit t) n)"
| "op_move db (Reserve_job user shot i job now) m \<longleftrightarrow>
     (\<exists>q \<in> set (t_quotes db). qu_id q = i \<and> qu_user_id q = user_id user \<and>
        qu_status q = QUOTE_OPEN \<and> now < qu_expires_at q \<and>
        m = Reserve (user_id user) (qu_billing_unit q) (qu_reserved_ms q))"
| "op_move db (Reserve_batch user batch is now) m \<longleftrightarrow>
     (\<exists>qs x. map qu_id qs = is \<and>
        (\<forall>q \<in> set qs. q \<in> set (t_quotes db) \<and> qu_user_id q = user_id user \<and>
           qu_status q = QUOTE_OPEN \<and> now < qu_expires_at q \<and> qu_billing_unit q = x) \<and>
        m = Reserve (user_id user) x (sum_list (map qu_reserved_ms qs)))"
| "op_move db (Finish job settle now) m \<longleftrightarrow>
     (\<exists>x n. job_settlement_status job = Some SET_RESERVED \<and> job_ledger_unit job = Some x \<and>
        job_reserved_amount_ms job = Some n \<and>
        m = (if settle then Settle else Release) (job_user_id job) x n)"

lemma grant_refines:
  assumes ok: "books (8 + n) db" and g: "grant_seconds db user tier amt key reason now = Inr (t, db')"
  shows "\<exists>m. op_move db (Grant_seconds user tier amt key reason now) m \<and> steps n m db db'"
proof -
  let ?db0 = "ensure_default_catalog db"
  have c0: "calm (4 + n) db ?db0" by (rule calm_catalog) (use ok in simp)
  from g obtain ti a1 d1 a2 d2 a3 d3 tr b where ti: "get_tier ?db0 tier = Some ti" "qt_enabled ti"
    and e1: "ensure_account ?db0 None PLATFORM_ISSUED (qt_billing_unit ti) = Inr (a1, d1)"
    and e2: "ensure_account d1 (Some (user_id user)) USER_AVAILABLE (qt_billing_unit ti) = Inr (a2, d2)"
    and e3: "ensure_account d2 (Some (user_id user)) USER_RESERVED (qt_billing_unit ti) = Inr (a3, d3)"
    and P: "post_transfer d3 tr now = Inr (t, b, db')"
    and tr: "tr_debit tr = a1" "tr_credit tr = a2" "tr_amount_ms tr = amt"
    by (auto simp: grant_seconds_def Let_def and_then_Inr_iff split: option.splits if_splits)
  have c1: "calm (3 + n) ?db0 d1" by (rule calm_ensure [OF _ e1])
    (use calm_books [OF c0] in \<open>simp add: eval_nat_numeral\<close>)
  have c2: "calm (2 + n) d1 d2" by (rule calm_ensure [OF _ e2])
    (use calm_books [OF c1] in \<open>simp add: eval_nat_numeral\<close>)
  have c3: "calm (1 + n) d2 d3" by (rule calm_ensure [OF _ e3])
    (use calm_books [OF c2] in \<open>simp add: eval_nat_numeral\<close>)
  let ?m = "Grant (user_id user) (qt_billing_unit ti) amt"
  have f1: "find_account d3 (fst (scope_of None)) PLATFORM_ISSUED (qt_billing_unit ti) = Some (tr_debit tr)"
    unfolding tr
    by (rule ensure_account_find(3) [OF e3 ensure_account_find(3) [OF e2 ensure_account_find(1) [OF e1]]])
  have f2: "find_account d3 (fst (scope_of (Some (user_id user)))) USER_AVAILABLE
      (qt_billing_unit ti) = Some (tr_credit tr)"
    unfolding tr by (rule ensure_account_find(3) [OF e3 ensure_account_find(1) [OF e2]])
  have "move_ends ?m = ((None, PLATFORM_ISSUED, qt_billing_unit ti),
      (Some (user_id user), USER_AVAILABLE, qt_billing_unit ti), tr_amount_ms tr)"
    by (simp add: tr)
  moreover have "books (Suc n) d3" using calm_books [OF c3] by simp
  ultimately have "steps n ?m d3 db'" using P f1 f2 by (intro post_transfer_steps)
  then have "steps n ?m db db'"
    using c0 c1 c2 c3 by (meson calm_steps calm_trans)
  moreover have "op_move db (Grant_seconds user tier amt key reason now) ?m"
    using ti first_where_Some [of _ "t_tiers ?db0" ti] by (auto simp: get_tier_def)
  ultimately show ?thesis by blast
qed

lemma reserve_job_refines:
  assumes ok: "books (8 + n) db"
    and r: "reserve_quote_for_job db user shot i job now = Inr (job', db')"
  shows "\<exists>m. op_move db (Reserve_job user shot i job now) m \<and> steps n m db db'"
proof -
  from r have "\<exists>q p a1 d1 a2 d2 tr t b d3 snap.
      first_where (\<lambda>q. qu_id q = i \<and> qu_user_id q = user_id user \<and>
        qu_project_id q = sh_project_id shot \<and> qu_shot_id q = sh_id shot) (t_quotes db) = Some q \<and>
      validate_quote_terms db user shot q now = Inr () \<and>
      ensure_account (use_quotes db p now) (Some (user_id user)) USER_AVAILABLE
        (qu_billing_unit q) = Inr (a1, d1) \<and>
      ensure_account d1 (Some (user_id user)) USER_RESERVED (qu_billing_unit q) = Inr (a2, d2) \<and>
      post_transfer d2 tr now = Inr (t, b, d3) \<and>
      transition_job (assign_job d3 (job_id job) (reserved_terms q snap t))
        (reserved_terms q snap t job) JOB_RESERVED ''job.reserved''
        (''job:'' @ uuid_str (job_id job) @ '':reserved:v1'')
        (JObj [(''ledger_transaction_id'', JStr (uuid_str (lt_id t)))]) = (True, db', job') \<and>
      tr_debit tr = a1 \<and> tr_credit tr = a2 \<and> tr_amount_ms tr = qu_reserved_ms q"
    by (clarsimp simp: reserve_quote_for_job_def and_then_Inr_iff Let_def case2_Inr_iff case3_Inr_iff
        split: option.split_asm if_split_asm)
      (intro exI conjI, assumption+, simp_all)
  then obtain q p a1 d1 a2 d2 tr t b d3 snap where
    q: "first_where (\<lambda>q. qu_id q = i \<and> qu_user_id q = user_id user \<and>
        qu_project_id q = sh_project_id shot \<and> qu_shot_id q = sh_id shot) (t_quotes db) = Some q"
    and v: "validate_quote_terms db user shot q now = Inr ()"
    and e1: "ensure_account (use_quotes db p now) (Some (user_id user)) USER_AVAILABLE
        (qu_billing_unit q) = Inr (a1, d1)"
    and e2: "ensure_account d1 (Some (user_id user)) USER_RESERVED (qu_billing_unit q) = Inr (a2, d2)"
    and P: "post_transfer d2 tr now = Inr (t, b, d3)"
    and fin: "transition_job (assign_job d3 (job_id job) (reserved_terms q snap t))
        (reserved_terms q snap t job) JOB_RESERVED ''job.reserved''
        (''job:'' @ uuid_str (job_id job) @ '':reserved:v1'')
        (JObj [(''ledger_transaction_id'', JStr (uuid_str (lt_id t)))]) = (True, db', job')"
    and tr: "tr_debit tr = a1" "tr_credit tr = a2" "tr_amount_ms tr = qu_reserved_ms q"
    by blast
  let ?m = "Reserve (user_id user) (qu_billing_unit q) (qu_reserved_ms q)"
  have c0: "calm (3 + n) db (use_quotes db p now)"
    by (rule calm_cong [OF books_mono [OF ok]]) (simp_all add: use_quotes_def)
  have "steps n ?m (use_quotes db p now) d3"
    by (rule transfer_between_steps [OF calm_books [OF c0] e1 e2 P _ tr(1,2)]) (simp_all add: tr)
  then have s3: "steps n ?m db d3" by (rule calm_steps [OF c0])
  then have "books n d3" by (rule steps_books)
  then have "calm n d3 db'"
    by (rule calm_cong) (use fin in \<open>auto simp: transition_job_def assign_job_def Let_def
      split: if_splits\<close>)
  with s3 have "steps n ?m db db'" by (rule steps_calm)
  moreover have "op_move db (Reserve_job user shot i job now) ?m"
    using first_where_Some [OF q] v
    by (auto simp: validate_quote_terms_def split: if_splits)
  ultimately show ?thesis by blast
qed

lemma claim_quotes_Inr:
  assumes "claim_quotes db user now by_id p x is = Inr (cl, p', x')"
    and "\<And>i q. by_id i = Some q \<Longrightarrow> q \<in> set (t_quotes db) \<and> qu_id q = i"
  shows "map (\<lambda>(q, _, _). qu_id q) cl = is \<and> (x \<noteq> None \<longrightarrow> x' = x) \<and>
    (\<forall>(q, _, _) \<in> set cl. q \<in> set (t_quotes db) \<and> qu_user_id q = user_id user \<and>
      qu_status q = QUOTE_OPEN \<and> now < qu_expires_at q \<and> x' = Some (qu_billing_unit q))"
  using assms(1)
proof (induction "is" arbitrary: p x cl)
  case (Cons i "is")
  from Cons.prems obtain q shot snap rest where
    q: "by_id i = Some q" and v: "validate_quote_terms db user shot q now = Inr ()"
    and x: "x = None \<or> x = Some (qu_billing_unit q)"
    and rest: "claim_quotes db user now by_id (Some (qu_project_id q)) (Some (qu_billing_unit q)) is
      = Inr (rest, p', x')"
    and cl: "cl = (q, shot, snap) # rest"
    by (clarsimp simp: and_then_Inr_iff case3_Inr_iff split: option.split_asm if_split_asm)
  from v have "qu_user_id q = user_id user \<and> qu_status q = QUOTE_OPEN \<and> now < qu_expires_at q"
    by (auto simp: validate_quote_terms_def split: if_splits)
  with Cons.IH [OF rest] assms(2) [OF q] x show ?case by (auto simp: cl)
qed simp

lemma reserve_batch_refines:
  assumes ok: "books (8 + n) db"
    and r: "reserve_quotes_for_batch db user batch is now = Inr (cl, row, db')"
  shows "\<exists>m. op_move db (Reserve_batch user batch is now) m \<and> steps n m db db'"
proof -
  let ?qs = "select_where (\<lambda>q. qu_id q \<in> set is \<and> qu_user_id q = user_id user) (t_quotes db)"
  let ?by_id = "\<lambda>i. first_where (\<lambda>q. qu_id q = i) ?qs"
  from r have "\<exists>pid x p a1 d1 a2 d2 tr t b d3.
      claim_quotes db user now ?by_id None None is = Inr (cl, pid, Some x) \<and>
      ensure_account (use_quotes db p now) (Some (user_id user)) USER_AVAILABLE x = Inr (a1, d1) \<and>
      ensure_account d1 (Some (user_id user)) USER_RESERVED x = Inr (a2, d2) \<and>
      post_transfer d2 tr now = Inr (t, b, d3) \<and> db' = d3\<lparr>t_batches := t_batches d3 @ [row]\<rparr> \<and>
      tr_debit tr = a1 \<and> tr_credit tr = a2 \<and>
      tr_amount_ms tr = sum_list (map (\<lambda>(q, _, _). qu_reserved_ms q) cl)"
    by (clarsimp simp: reserve_quotes_for_batch_def and_then_Inr_iff Let_def case2_Inr_iff
        case3_Inr_iff split: option.split_asm if_split_asm)
      (intro exI conjI, assumption+, simp_all)
  then obtain pid x p a1 d1 a2 d2 tr t b d3 where
    cq: "claim_quotes db user now ?by_id None None is = Inr (cl, pid, Some x)"
    and e1: "ensure_account (use_quotes db p now) (Some (user_id user)) USER_AVAILABLE x = Inr (a1, d1)"
    and e2: "ensure_account d1 (Some (user_id user)) USER_RESERVED x = Inr (a2, d2)"
    and P: "post_transfer d2 tr now = Inr (t, b, d3)"
    and db': "db' = d3\<lparr>t_batches := t_batches d3 @ [row]\<rparr>"
    and tr: "tr_debit tr = a1" "tr_credit tr = a2"
      "tr_amount_ms tr = sum_list (map (\<lambda>(q, _, _). qu_reserved_ms q) cl)" by blast
  let ?m = "Reserve (user_id user) x (sum_list (map (\<lambda>(q, _, _). qu_reserved_ms q) cl))"
  have c0: "calm (3 + n) db (use_quotes db p now)"
    by (rule calm_cong [OF books_mono [OF ok]]) (simp_all add: use_quotes_def)
  have "steps n ?m (use_quotes db p now) d3"
    by (rule transfer_between_steps [OF calm_books [OF c0] e1 e2 P _ tr(1,2)]) (simp_all add: tr)
  then have s3: "steps n ?m db d3" by (rule calm_steps [OF c0])
  then have "books n d3" by (rule steps_books)
  then have "calm n d3 db'" by (rule calm_cong) (simp_all add: db')
  with s3 have "steps n ?m db db'" by (rule steps_calm)
  moreover have "op_move db (Reserve_batch user batch is now) ?m"
  proof -
    have "q \<in> set (t_quotes db) \<and> qu_id q = i" if "?by_id i = Some q" for i q
      using first_where_Some [OF that] by (auto simp: select_where_def)
    from claim_quotes_Inr [OF cq this] show ?thesis
      by (auto intro!: exI [of _ "map fst cl"] simp: case_prod_unfold comp_def)
  qed
  ultimately show ?thesis by blast
qed

lemma finish_refines:
  assumes ok: "books (8 + n) db" and r: "finish_reservation db job settle now = Inr (v, db')"
  shows "calm n db db' \<or> (\<exists>m. op_move db (Finish job settle now) m \<and> steps n m db db')"
proof (cases v)
  case False
  with r have "db' = db"
    by (clarsimp simp: finish_reservation_def and_then_Inr_iff Let_def case2_Inr_iff case3_Inr_iff
        split: option.split_asm if_split_asm)
  with ok show ?thesis by (simp add: calm_def books_mono)
next
  case True
  let ?to = "if settle then None else Some (job_user_id job)"
  let ?ty = "if settle then PLATFORM_CONSUMED else USER_AVAILABLE"
  from r True have "\<exists>x y d0 a1 d1 a2 d2 t b d3. job_settlement_status job = Some SET_RESERVED \<and>
      job_ledger_unit job = Some x \<and> job_reserved_amount_ms job = Some y \<and>
      d0 = mark_finished db (job_id job) (finished_status settle) \<and>
      ensure_account d0 (Some (job_user_id job)) USER_RESERVED x = Inr (a1, d1) \<and>
      ensure_account d1 ?to ?ty x = Inr (a2, d2) \<and>
      post_transfer d2 (finish_transfer job x y settle a1 a2) now = Inr (t, b, d3) \<and>
      (db' = d3 \<or> (\<exists>i st. refresh_batch_status d3 i = Inr (st, db')))"
    by (clarsimp simp: finish_reservation_def and_then_Inr_iff Let_def case2_Inr_iff case3_Inr_iff
        mark_finished_def finished_status_def
        split: option.split_asm if_split_asm) blast+
  then obtain x y d0 a1 d1 a2 d2 t b d3 where
    j: "job_settlement_status job = Some SET_RESERVED" "job_ledger_unit job = Some x"
      "job_reserved_amount_ms job = Some y"
    and d0: "d0 = mark_finished db (job_id job) (finished_status settle)"
    and e1: "ensure_account d0 (Some (job_user_id job)) USER_RESERVED x = Inr (a1, d1)"
    and e2: "ensure_account d1 ?to ?ty x = Inr (a2, d2)"
    and P: "post_transfer d2 (finish_transfer job x y settle a1 a2) now = Inr (t, b, d3)"
    and db': "db' = d3 \<or> (\<exists>i st. refresh_batch_status d3 i = Inr (st, db'))" by blast
  let ?m = "(if settle then Settle else Release) (job_user_id job) x y"
  have c0: "calm (3 + n) db d0" by (rule calm_cong [OF books_mono [OF ok]]) (simp_all add: d0 mark_finished_def)
  have "steps n ?m d0 d3"
    by (rule transfer_between_steps [OF calm_books [OF c0] e1 e2 P]) (simp_all add: finish_transfer_def)
  then have s3: "steps n ?m db d3" by (rule calm_steps [OF c0])
  then have "books n d3" by (rule steps_books)
  then have "calm n d3 db'"
    by (rule calm_cong) (use db' in \<open>auto simp: refresh_batch_status_def Let_def split: option.splits\<close>)
  with s3 have "steps n ?m db db'" by (rule steps_calm)
  with j show ?thesis by auto
qed

lemma exec_ledger_refines:
  assumes ok: "books (8 + n) db" and e: "exec_ledger db op = Inr db'"
  shows "calm n db db' \<or> (\<exists>m. op_move db op m \<and> moved n m db db')"
proof -
  have "calm n db db' \<or> (\<exists>m. op_move db op m \<and> steps n m db db')"
    using e by (cases op)
      (auto simp: and_then_Inr_iff simp del: op_move.simps
        dest: grant_refines [OF ok] reserve_job_refines [OF ok] reserve_batch_refines [OF ok]
          finish_refines [OF ok])
  then show ?thesis by (auto simp: steps_def)
qed

interpretation ledger: refinement exec_ledger "\<lambda>n. books (8 * n)" wallet_step wallet_of op_move
proof
  fix db db' :: database and op n
  show "books (8 * n) db" if "books (8 * Suc n) db" by (rule books_mono [OF that]) simp
  assume "books (8 * Suc n) db" and e: "exec_ledger db op = Inr db'"
  then have ok: "books (8 + 8 * n) db" by simp
  show "books (8 * n) db'" using exec_ledger_refines [OF ok e] by (auto simp: calm_def moved_def)
  show "\<exists>m. op_move db op m \<and> wallet_step m (wallet_of db) = Some (wallet_of db')"
    if "wallet_of db' \<noteq> wallet_of db"
    using exec_ledger_refines [OF ok e] that by (auto simp: calm_def moved_def)
qed

text \<open>
  C37. The ledger refines the wallet. An operation of the service that succeeds either wrote
  no transaction and moved nothing, or made exactly the one move it stands for, with the
  amount the request, the quotes or the job name, and under the wallet's guard that a user
  cannot give what is not there. Any sequence of operations, the failed ones rolled back, is
  a sequence of at most as many moves, so a user's wealth is what it was, plus grants, less
  settlements.
\<close>

theorem ledger_refines_wallet:
  assumes "books (8 * length ops) db" and "ops \<noteq> []"
  shows "(\<forall>op db'. exec_ledger db op = Inr db' \<longrightarrow>
      (if t_transactions db' = t_transactions db then wallet_of db' = wallet_of db
       else \<exists>m. op_move db op m \<and> wallet_step m (wallet_of db) = Some (wallet_of db'))) \<and>
    (\<exists>ms. length ms \<le> length ops \<and>
       run_moves wallet_step ms (wallet_of db) = Some (wallet_of (run_tx exec_ledger db ops)) \<and>
       (\<forall>u x. wealth (wallet_of (run_tx exec_ledger db ops)) u x =
          wealth (wallet_of db) u x + sum_list (map (earned u x) ms)))"
proof
  have ok: "books (8 + 0) db"
    by (rule books_mono [OF assms(1)]) (use assms(2) in \<open>cases ops, simp_all\<close>)
  show "\<forall>op db'. exec_ledger db op = Inr db' \<longrightarrow>
      (if t_transactions db' = t_transactions db then wallet_of db' = wallet_of db
       else \<exists>m. op_move db op m \<and> wallet_step m (wallet_of db) = Some (wallet_of db'))"
  proof (intro allI impI)
    fix op db' assume "exec_ledger db op = Inr db'"
    from exec_ledger_refines [OF ok this]
    show "if t_transactions db' = t_transactions db then wallet_of db' = wallet_of db
       else \<exists>m. op_move db op m \<and> wallet_step m (wallet_of db) = Some (wallet_of db')"
      by (auto simp: calm_def moved_def)
  qed
  have "books (8 * (0 + length ops)) db" using assms(1) by simp
  from ledger.run_refines [OF this] run_moves_wealth
  show "\<exists>ms. length ms \<le> length ops \<and>
       run_moves wallet_step ms (wallet_of db) = Some (wallet_of (run_tx exec_ledger db ops)) \<and>
       (\<forall>u x. wealth (wallet_of (run_tx exec_ledger db ops)) u x =
          wealth (wallet_of db) u x + sum_list (map (earned u x) ms))" by blast
qed

text \<open>A grant of 7000, on the bank in which 5000 are reserved.\<close>

lemma books_funded_bank: "books 8 funded_bank"
proof -
  have "ledger_ok funded_bank" using funds_ok_funded_bank by (simp add: funds_ok_def)
  moreover have "uuids_fresh 8 funded_bank" by code_simp
  moreover have "\<forall>a \<in> set sample_accounts. \<forall>u. la_scope_key a = fst (scope_of (Some u)) \<longrightarrow>
      la_owner_type a = ''USER''"
    by (simp add: sample_accounts_def sample_account_def)
  ultimately show ?thesis unfolding books_def by (simp add: funded_bank_tables)
qed

theorem ledger_refines_wallet_witness:
  "\<exists>ms. length ms \<le> 1 \<and>
     wealth (wallet_of (run_tx exec_ledger funded_bank
       [Grant_seconds sample_user ''FAST'' 7000 ''k'' ''beta'' 9])) 101 ''FAST_MS'' =
     5000 + sum_list (map (earned 101 ''FAST_MS'') ms)"
proof -
  have "wealth (wallet_of funded_bank) 101 ''FAST_MS'' = 5000"
    by (simp add: wealth_def wallet_of_def) code_simp
  with ledger_refines_wallet [of "[Grant_seconds sample_user ''FAST'' 7000 ''k'' ''beta'' 9]" funded_bank]
    books_funded_bank show ?thesis by auto
qed

end
