(* ===== verification/UuidText.thy ===== *)
theory UuidText
  imports Prelude
begin

text \<open>Reading a UUID back from its text, for the concrete codecs of the witnesses.\<close>

definition hex_value :: "char \<Rightarrow> nat" where
  "hex_value c = length (takeWhile (\<lambda>d. d \<noteq> c) ''0123456789abcdef'')"

definition unhex :: "string \<Rightarrow> nat" where
  "unhex = foldl (\<lambda>n c. 16 * n + hex_value c) 0"

definition uuid_value :: "string \<Rightarrow> uuid" where
  "uuid_value s = of_nat (unhex (uuid_undash s))"

lemma hex_value_digit: "d < 16 \<Longrightarrow> hex_value (hex_digit d) = d"
proof -
  have "list_all (\<lambda>d. hex_value (hex_digit d) = d) [0..<16]" by code_simp
  then show "d < 16 \<Longrightarrow> ?thesis" by (simp add: list_all_iff)
qed

lemma unhex_pad: "n < 16 ^ k \<Longrightarrow> unhex (hex_pad k n) = n"
proof (induction k arbitrary: n)
  case (Suc k)
  then have "n div 16 < 16 ^ k" by (simp add: less_mult_imp_div_less mult.commute)
  from Suc.IH [OF this] show ?case
    by (simp add: unhex_def hex_value_digit)
qed (simp add: unhex_def)

lemma uuid_of_text: "uuid_value (uuid_str u) = u"
proof -
  have "unat u < 16 ^ 32" using unsigned_less [of u, where 'a = nat] by simp
  then show ?thesis unfolding uuid_value_def uuid_undash_str uuid_hex_def by (simp add: unhex_pad)
qed

end
