(* ===== verification/Paging.thy ===== *)
theory Paging
  imports Assets UuidText
begin

text \<open>
  Keyset pages: a cursor is read back as the key it was made from, and the pages of a list,
  followed from cursor to cursor, are the list: no row twice, none left out, in order.
\<close>

section \<open>Cursors read back\<close>

lemma lenient_digits_append:
  "digits_of s = Some ds \<Longrightarrow> CHR ''='' \<notin> set s \<Longrightarrow> s \<noteq> [] \<Longrightarrow>
    lenient_digits q pads (s @ t) = map_option ((@) ds) (lenient_digits ((q + length s) mod 4) 0 t)"
proof (induction s arbitrary: q pads ds)
  case (Cons c s)
  then obtain d ds' where d: "b64_digit c = Some d" "digits_of s = Some ds'" "ds = d # ds'"
    by (auto split: option.splits)
  have ne: "c \<noteq> CHR ''=''" using Cons.prems(2) by auto
  show ?case
  proof (cases "s = []")
    case True
    with d ne show ?thesis by auto
  next
    case False
    have "((q + 1) mod 4 + length s) mod 4 = (q + length (c # s)) mod 4" by (simp add: mod_simps)
    with Cons.IH [OF d(2) _ False, of "(q + 1) mod 4" 0] Cons.prems(2) d(1,3) ne show ?thesis
      by (simp add: option.map_comp comp_def)
  qed
qed simp

lemma length_b64_encode: "length (b64_encode s) mod 4 \<noteq> 1"
  by (induction s rule: b64_encode.induct) (simp_all add: Let_def)

lemma lenient_pads:
  "n = 0 \<or> n = 2 \<or> n = 3 \<Longrightarrow> lenient_digits n 0 (replicate ((4 - n) mod 4) (CHR ''='')) = Some []"
proof (elim disjE)
  show "n = 2 \<Longrightarrow> ?thesis" by (simp, code_simp)
  show "n = 3 \<Longrightarrow> ?thesis" by simp
qed simp

lemma urlsafe_round_trip: "urlsafe_b64decode (urlsafe_b64encode s) = Some s"
proof (cases "b64_encode s = []")
  case True
  then have "s = []" by (cases s rule: b64_encode.cases) (simp_all add: Let_def)
  then show ?thesis by (simp add: urlsafe_b64decode_def urlsafe_b64encode_def)
next
  case False
  obtain ds where ds: "digits_of (b64_encode s) = Some ds" "b64_digits ds = Some s"
    using digits_of_encode by blast
  have eq: "CHR ''='' \<notin> set (b64_encode s)"
    using b64_encode_alphabet [of s] by (auto simp: b64_alphabet_def)
  let ?n = "length (b64_encode s) mod 4"
  have "?n = 0 \<or> ?n = 2 \<or> ?n = 3"
    using length_b64_encode [of s] by arith
  then have "lenient_digits ?n 0 (replicate ((4 - ?n) mod 4) (CHR ''='')) = Some []"
    by (rule lenient_pads)
  then show ?thesis
    by (simp add: urlsafe_b64decode_def urlsafe_b64encode_def Let_def ds
        lenient_digits_append [OF ds(1) eq False])
qed

definition uuid_char :: "char \<Rightarrow> bool" where
  "uuid_char c \<longleftrightarrow> c \<in> set ''0123456789abcdef-''"

lemma hex_pad_chars: "c \<in> set (hex_pad k n) \<Longrightarrow> uuid_char c"
proof (induction k arbitrary: n)
  case (Suc k)
  have "hex_digit (n mod 16) \<in> set ''0123456789abcdef''"
    unfolding hex_digit_def by (rule nth_mem) simp
  then have "uuid_char (hex_digit (n mod 16))" unfolding uuid_char_def by (simp only: list.set) blast
  with Suc show ?case by auto
qed simp

lemma uuid_char_ascii: "uuid_char c \<Longrightarrow> byte_val c < 128 \<and> c \<noteq> CHR ''|''"
  unfolding uuid_char_def byte_val_def by (simp only: list.set insert_iff empty_iff) (elim disjE; simp)

lemma uuid_str_chars: "c \<in> set (uuid_str u) \<Longrightarrow> uuid_char c"
proof -
  assume "c \<in> set (uuid_str u)"
  then have "c \<in> set (uuid_hex u) \<or> c = CHR ''-''"
    by (auto simp: uuid_str_def Let_def dest!: in_set_takeD in_set_dropD)
  moreover have "uuid_char (CHR ''-'')" by (simp add: uuid_char_def)
  ultimately show ?thesis by (auto simp: uuid_hex_def dest: hex_pad_chars)
qed

lemma utf8_ascii: "\<forall>c \<in> set s. byte_val c < 128 \<Longrightarrow> utf8_ok s"
  by (induction s) simp_all

lemma rsplit_bar_last: "CHR ''|'' \<notin> set t \<Longrightarrow> rsplit_bar (s @ CHR ''|'' # t) = Some (s, t)"
proof -
  assume "CHR ''|'' \<notin> set t"
  then have "takeWhile (\<lambda>c. c \<noteq> CHR ''|'') (rev t @ CHR ''|'' # rev s) = rev t"
    by (subst takeWhile_append2) auto
  then show ?thesis by (simp add: rsplit_bar_def Let_def)
qed

lemma parse_encode_cursor:
  assumes "text_codec_ok cd"
  shows "parse_cursor cd (Some (encode_cursor (tc_isoformat cd t) u)) = Inr (Some (t, u))"
proof -
  have bar: "CHR ''|'' \<notin> set (uuid_str u)"
    using uuid_str_chars [of "CHR ''|''" u] uuid_char_ascii by blast
  have "\<forall>c \<in> set (uuid_str u). byte_val c < 128"
    using uuid_str_chars [of _ u] uuid_char_ascii by blast
  moreover have "byte_val (CHR ''|'') < 128" by (simp add: byte_val_def)
  ultimately have "utf8_ok (tc_isoformat cd t @ CHR ''|'' # uuid_str u)"
    using assms by (intro utf8_ascii) (auto simp: text_codec_ok_def)
  with bar assms show ?thesis
    by (simp add: parse_cursor_def encode_cursor_def urlsafe_round_trip rsplit_bar_last text_codec_ok_def)
qed

section \<open>Following the cursors\<close>

text \<open>A client that follows the next cursor until there is none, for at most \<open>n\<close> pages.\<close>

fun follow_pages ::
  "('c option \<Rightarrow> error + ('r list \<times> 'c option)) \<Rightarrow> nat \<Rightarrow> 'c option \<Rightarrow> 'r list list option" where
  "follow_pages fetch 0 cursor = None"
| "follow_pages fetch (Suc n) cursor =
     (case fetch cursor of
        Inl _ \<Rightarrow> None
      | Inr (items, None) \<Rightarrow> Some [items]
      | Inr (items, Some c) \<Rightarrow> map_option ((#) items) (follow_pages fetch n (Some c)))"

text \<open>
  A keyset: the list is in the order \<open>before\<close> of its keys, and the cursor of a row is parsed
  as the row's key, where the codec of texts behaves.
\<close>

locale keyset =
  fixes before :: "'k::linorder \<Rightarrow> 'k \<Rightarrow> bool"
    and key :: "'r \<Rightarrow> 'k"
    and codec_ok :: "'p \<Rightarrow> bool"
    and cursor_of :: "'p \<Rightarrow> 'r \<Rightarrow> string"
    and parse :: "'p \<Rightarrow> string option \<Rightarrow> error + 'k option"
  assumes before_asym: "before a b \<Longrightarrow> \<not> before b a"
    and parse_None: "parse p None = Inr None"
    and parse_cursor: "codec_ok p \<Longrightarrow> parse p (Some (cursor_of p r)) = Inr (Some (key r))"
begin

definition fetch :: "'p \<Rightarrow> 'r list \<Rightarrow> nat \<Rightarrow> string option \<Rightarrow> error + ('r list \<times> string option)" where
  "fetch p rows limit cursor = and_then (parse p cursor)
     (\<lambda>parsed. Inr (page_of (cursor_of p) limit (filter (after_in before key parsed) rows)))"

lemma before_irrefl: "\<not> before a a"
  using before_asym by blast

lemma filter_after:
  assumes "sorted_wrt (\<lambda>a b. before (key a) (key b)) (xs @ y # ys)"
  shows "filter (after_in before key (Some (key y))) (xs @ y # ys) = ys"
proof -
  have "\<not> before (key y) (key x)" if "x \<in> set xs" for x
    using assms that before_asym by (auto simp: sorted_wrt_append)
  moreover have "before (key y) (key z)" if "z \<in> set ys" for z
    using assms that by (auto simp: sorted_wrt_append)
  ultimately show ?thesis by (simp add: after_in_def filter_empty_conv before_irrefl)
qed

lemma follow_from:
  assumes sorted: "sorted_wrt (\<lambda>a b. before (key a) (key b)) rows" and ok: "codec_ok p"
    and limit: "0 < limit" and c: "parse p cursor = Inr k"
    and rest: "rows = seen @ rest" "filter (after_in before key k) rows = rest"
  shows "\<exists>pages. follow_pages (fetch p rows limit) (Suc (length rest div limit)) cursor = Some pages \<and>
    concat pages = rest \<and> (\<forall>page \<in> set pages. length page \<le> limit)"
  using c rest
proof (induction "length rest" arbitrary: cursor k seen rest rule: less_induct)
  case less
  have f: "fetch p rows limit cursor = Inr (page_of (cursor_of p) limit rest)"
    using less.prems(1,3) by (simp add: fetch_def)
  show ?case
  proof (cases "length rest \<le> limit")
    case True
    then have "page_of (cursor_of p) limit rest = (rest, None)"
      by (simp add: page_of_def Let_def)
    with f True show ?thesis by simp
  next
    case False
    let ?page = "take limit rest" and ?rest = "drop limit rest"
    let ?last = "rest ! (limit - 1)"
    have page: "page_of (cursor_of p) limit rest = (?page, Some (cursor_of p ?last))"
      using False limit by (simp add: page_of_def Let_def min_def)
    have split: "rest = take (limit - 1) rest @ ?last # ?rest"
      using id_take_nth_drop [of "limit - 1" rest] False limit by simp
    then have rows: "rows = (seen @ take (limit - 1) rest) @ ?last # ?rest"
      using less.prems(2) by simp
    have filt: "filter (after_in before key (Some (key ?last))) rows = ?rest"
      using filter_after [of "seen @ take (limit - 1) rest" ?last ?rest] sorted rows by metis
    have "length ?rest < length rest" using False limit by simp
    moreover have "parse p (Some (cursor_of p ?last)) = Inr (Some (key ?last))"
      by (rule parse_cursor [OF ok])
    moreover have "rows = (seen @ ?page) @ ?rest" using less.prems(2) by simp
    ultimately obtain pages where pages:
      "follow_pages (fetch p rows limit) (Suc (length ?rest div limit)) (Some (cursor_of p ?last)) = Some pages"
      "concat pages = ?rest" "\<forall>page \<in> set pages. length page \<le> limit"
      using less.hyps filt by blast
    have "length rest div limit = Suc (length ?rest div limit)"
      using False limit le_div_geq [of limit "length rest"] by simp
    with f page pages show ?thesis by (intro exI [of _ "?page # pages"]) simp
  qed
qed

lemma follow_all:
  assumes "sorted_wrt (\<lambda>a b. before (key a) (key b)) rows" and "codec_ok p" and "0 < limit"
  shows "\<exists>pages. follow_pages (fetch p rows limit) (Suc (length rows div limit)) None = Some pages \<and>
    concat pages = rows \<and> (\<forall>page \<in> set pages. length page \<le> limit)"
  by (rule follow_from [OF assms parse_None, where seen = "[]"])
    (simp_all add: after_in_def)

end

lemma sort_key_filter: "sort_key k (filter P (filter Q xs)) = filter Q (sort_key k (filter P xs))"
  by (simp add: filter_sort conj_commute)

lemma sorted_distinct_strict:
  fixes k :: "'r \<Rightarrow> 'k::linorder"
  assumes "distinct (map k xs)"
  shows "sorted_wrt (\<lambda>a b. k a < k b) (sort_key k xs)"
    and "sorted_wrt (\<lambda>a b. k b < k a) (rev (sort_key k xs))"
proof -
  have "distinct (map k (sort_key k xs))" using assms
    by (metis distinct_map distinct_sort set_sort)
  then have "sorted_wrt (<) (map k (sort_key k xs))"
    by (simp add: strict_sorted_iff)
  then show "sorted_wrt (\<lambda>a b. k a < k b) (sort_key k xs)" by (simp add: sorted_wrt_map)
  then show "sorted_wrt (\<lambda>a b. k b < k a) (rev (sort_key k xs))" by (simp add: sorted_wrt_rev)
qed

section \<open>The lists of the service\<close>

definition project_cursor :: "text_codec \<Rightarrow> project \<Rightarrow> string" where
  "project_cursor cd p = encode_cursor (tc_isoformat cd (pr_created_at p)) (pr_id p)"

definition asset_cursor :: "text_codec \<Rightarrow> project_asset \<Rightarrow> string" where
  "asset_cursor cd a = encode_cursor (tc_isoformat cd (as_created_at a)) (as_id a)"

interpretation projects: keyset "(>)" project_key text_codec_ok project_cursor parse_cursor
  by unfold_locales (simp_all add: parse_cursor_def [of _ None] project_cursor_def project_key_def
      parse_encode_cursor)

interpretation assets: keyset "(<)" asset_key text_codec_ok asset_cursor parse_cursor
  by unfold_locales (simp_all add: parse_cursor_def [of _ None] asset_cursor_def asset_key_def
      parse_encode_cursor)

text \<open>What a caller may see, newest project first, oldest asset first.\<close>

definition own_projects :: "database \<Rightarrow> app_user \<Rightarrow> project list" where
  "own_projects db user = rev (sort_key project_key (select_where (\<lambda>p.
     pr_owner_id p = user_id user \<and> pr_status p = PROJECT_ACTIVE) (t_projects db)))"

definition own_assets :: "database \<Rightarrow> app_user \<Rightarrow> uuid \<Rightarrow> project_asset list" where
  "own_assets db user i = sort_key asset_key (select_where (\<lambda>a. as_project_id a = i \<and>
     as_owner_id a = user_id user \<and> as_status a = ASSET_READY) (t_assets db))"

lemma list_projects_fetch:
  "list_projects cd db user limit = projects.fetch cd (own_projects db user) limit"
proof (rule ext)
  fix cursor
  have "rev (sort_key project_key (select_where (\<lambda>p. pr_owner_id p = user_id user \<and>
      pr_status p = PROJECT_ACTIVE \<and> after_in (>) project_key k p) (t_projects db))) =
    filter (after_in (>) project_key k) (own_projects db user)" for k
    by (simp add: own_projects_def select_where_def filter_sort conj_ac flip: rev_filter)
  then show "list_projects cd db user limit cursor = projects.fetch cd (own_projects db user) limit cursor"
    by (simp add: list_projects_def projects.fetch_def flip: project_cursor_def)
qed

lemma list_assets_fetch:
  assumes "owned_project db i (user_id user) False = Inr p"
  shows "list_project_assets cd db user i limit = assets.fetch cd (own_assets db user i) limit"
proof (rule ext)
  fix cursor
  have "sort_key asset_key (select_where (\<lambda>a. as_project_id a = i \<and> as_owner_id a = user_id user \<and>
      as_status a = ASSET_READY \<and> after_in (<) asset_key k a) (t_assets db)) =
    filter (after_in (<) asset_key k) (own_assets db user i)" for k
    by (simp add: own_assets_def select_where_def filter_sort conj_ac)
  then show "list_project_assets cd db user i limit cursor = assets.fetch cd (own_assets db user i) limit cursor"
    by (simp add: list_project_assets_def assets.fetch_def assms flip: asset_cursor_def)
qed

lemma key_distinct: "distinct (map f xs) \<Longrightarrow> distinct (map (\<lambda>x. (g x, f x)) (filter P xs))"
  by (auto simp: distinct_map inj_on_def)

text \<open>
  C38. Following the cursors of a paged list visits every row of the caller exactly once, in
  order: with any positive page size, on a database that does not change in between, the
  pages of the projects concatenate to the caller's active projects, newest first, and those
  of a project's assets to its ready assets, oldest first; no page is longer than the limit
  and one page more than the whole ones is enough.
\<close>

theorem pages_visit_all:
  assumes "text_codec_ok cd" and "0 < limit"
    and "distinct (map pr_id (t_projects db))" and "distinct (map as_id (t_assets db))"
    and "owned_project db i (user_id user) False = Inr p"
  shows "(\<exists>pages. follow_pages (list_projects cd db user limit)
        (Suc (length (own_projects db user) div limit)) None = Some pages \<and>
      concat pages = own_projects db user \<and> list_all (\<lambda>page. length page \<le> limit) pages) \<and>
    (\<exists>pages. follow_pages (list_project_assets cd db user i limit)
        (Suc (length (own_assets db user i) div limit)) None = Some pages \<and>
      concat pages = own_assets db user i \<and> list_all (\<lambda>page. length page \<le> limit) pages)"
proof -
  have "distinct (map project_key (select_where (\<lambda>p. pr_owner_id p = user_id user \<and>
      pr_status p = PROJECT_ACTIVE) (t_projects db)))"
    unfolding select_where_def project_key_def [abs_def] by (rule key_distinct [OF assms(3)])
  then have "sorted_wrt (\<lambda>a b. project_key b < project_key a) (own_projects db user)"
    unfolding own_projects_def by (rule sorted_distinct_strict(2))
  moreover have "distinct (map asset_key (select_where (\<lambda>a. as_project_id a = i \<and>
      as_owner_id a = user_id user \<and> as_status a = ASSET_READY) (t_assets db)))"
    unfolding select_where_def asset_key_def [abs_def] by (rule key_distinct [OF assms(4)])
  then have "sorted_wrt (\<lambda>a b. asset_key a < asset_key b) (own_assets db user i)"
    unfolding own_assets_def by (rule sorted_distinct_strict(1))
  ultimately show ?thesis
    unfolding list_projects_fetch list_assets_fetch [OF assms(5)] list_all_iff
    using projects.follow_all [OF _ assms(1,2)] assets.follow_all [OF _ assms(1,2)] by blast
qed

text \<open>A text codec that reads back: seconds in unary with a sign, uuids by their digits.\<close>

definition sample_codec :: text_codec where
  "sample_codec = \<lparr>tc_isoformat = (\<lambda>t. if 0 \<le> t then replicate (nat t) (CHR ''1'')
       else CHR ''-'' # replicate (nat (- t)) (CHR ''1'')),
     tc_fromisoformat = (\<lambda>s. Some (if take 1 s = ''-'' then - int (length s - 1)
       else int (length s))),
     tc_uuid = (\<lambda>s. Some (uuid_value s))\<rparr>"

lemma sample_codec_ok: "text_codec_ok sample_codec"
proof -
  have "replicate n (CHR ''1'') \<noteq> ''-''" for n by (cases n) simp_all
  then show ?thesis
    by (auto simp: text_codec_ok_def sample_codec_def uuid_of_text byte_val_def take_Suc
        One_nat_def hd_replicate split: if_splits)
qed

text \<open>Three projects of the sample user, made at different times, two to a page.\<close>

definition sample_projects :: database where
  "sample_projects = (sample_db [] [])\<lparr>t_projects := [sample_project,
     sample_project\<lparr>pr_id := 202, pr_created_at := 5\<rparr>, sample_project\<lparr>pr_id := 203, pr_created_at := 3\<rparr>]\<rparr>"

theorem pages_visit_all_witness:
  "\<exists>pages. follow_pages (list_projects sample_codec sample_projects sample_user 2) 2 None = Some pages \<and>
     map pr_id (concat pages) = [202, 203, 102]"
proof -
  have rows: "map pr_id (own_projects sample_projects sample_user) = [202, 203, 102]"
    by code_simp
  then have len: "length (own_projects sample_projects sample_user) = 3"
    by (metis length_map list.size(3,4) One_nat_def add.commute numeral_3_eq_3 plus_1_eq_Suc)
  have own: "owned_project sample_projects 102 (user_id sample_user) False = Inr sample_project"
    by (simp add: sample_projects_def owned_project_def sample_defs first_where_Cons)
  have ids: "distinct (map pr_id (t_projects sample_projects))"
    "distinct (map as_id (t_assets sample_projects))" and two: "(0::nat) < 2"
    by (simp_all add: sample_projects_def sample_defs)
  from conjunct1 [OF pages_visit_all [OF sample_codec_ok two ids own]]
  obtain pages where "follow_pages (list_projects sample_codec sample_projects sample_user 2)
      (Suc (length (own_projects sample_projects sample_user) div 2)) None = Some pages"
    "concat pages = own_projects sample_projects sample_user" by blast
  moreover have "Suc (length (own_projects sample_projects sample_user) div 2) = 2"
    by (simp add: len)
  ultimately show ?thesis using rows by metis
qed

end
