(* ===== verification/Workflow.thy ===== *)
theory Workflow
  imports Execution Outbox Transactions
begin

text \<open>
  The workflows around the execute step (apps/api/app/workflow.py, hatchet_workflows.py): the
  input and the child result with their checks, the durable loop of Hatchet and the starter.
  Hatchet itself is a parameter: what running a child under a key answers, what sleeping does
  to the world, and what starting a workflow answers.
\<close>

section \<open>Inputs and results\<close>

record generation_workflow_input =
  wi_job_id :: uuid
  wi_idempotency_key :: string
  wi_payload :: json

text \<open>\<open>min_length=1, max_length=255\<close>; \<^verbatim>\<open>ValidationError\<close> is a \<^verbatim>\<open>ValueError\<close>.\<close>

definition generation_workflow_input_of ::
  "uuid \<Rightarrow> string \<Rightarrow> json \<Rightarrow> error + generation_workflow_input" where
  "generation_workflow_input_of i key payload =
     (if 1 \<le> length key \<and> length key \<le> 255
      then Inr \<lparr>wi_job_id = i, wi_idempotency_key = key, wi_payload = payload\<rparr>
      else Inl (ValueError ''idempotency_key''))"

record generation_step_result =
  gs_is_complete :: bool
  gs_poll_count :: int
  gs_retry_after_ms :: int

definition step_result_check :: "generation_step_result \<Rightarrow> error + generation_step_result" where
  "step_result_check r =
     (if 0 \<le> gs_poll_count r \<and> 0 \<le> gs_retry_after_ms r \<and> gs_retry_after_ms r \<le> 300000
      then Inr r else Inl (ValueError ''GenerationStepResult''))"

text \<open>What the child task makes of the step: \<open>int(total_seconds() * 1000)\<close> of the delay.\<close>

definition provider_step_result :: "execution_step \<Rightarrow> generation_step_result" where
  "provider_step_result s =
     \<lparr>gs_is_complete = es_is_complete s, gs_poll_count = es_poll_count s,
      gs_retry_after_ms = (case es_retry_after s of None \<Rightarrow> 0 | Some t \<Rightarrow> t div 1000)\<rparr>"

section \<open>The durable loop\<close>

text \<open>The child task: one call of execute. None would be a child that never answers.\<close>

definition generation_provider_step ::
  "generation_env \<Rightarrow> nat \<Rightarrow> database \<Rightarrow> uuid \<Rightarrow>
   ((error + generation_step_result) \<times> database \<times> string list) option" where
  "generation_provider_step env tick db job_i =
     (case execute env tick db job_i [] of
        None \<Rightarrow> None
      | Some (Inl e, db, ks) \<Rightarrow> Some (Inl e, db, ks)
      | Some (Inr s, db, ks) \<Rightarrow> Some (Inr (provider_step_result s), db, ks))"

definition child_key :: "uuid \<Rightarrow> nat \<Rightarrow> string" where
  "child_key i n = ''job:'' @ uuid_str i @ '':provider-step:'' @ nat_str n @ '':v1''"

definition sleep_label :: "int \<Rightarrow> string" where
  "sleep_label n = ''provider-poll-'' @ int_str n"

text \<open>From step \<open>n\<close> on; None would be a loop that never ends.\<close>

partial_function (option) durable_from ::
  "(string \<Rightarrow> 'w \<Rightarrow> (error + generation_step_result) \<times> 'w) \<Rightarrow> (int \<Rightarrow> string \<Rightarrow> 'w \<Rightarrow> 'w) \<Rightarrow> uuid \<Rightarrow>
   nat \<Rightarrow> 'w \<Rightarrow> ((error + uuid) \<times> 'w) option" where
  "durable_from run sleep i n w =
     (case run (child_key i n) w of
        (Inl e, w) \<Rightarrow> Some (Inl e, w)
      | (Inr raw, w) \<Rightarrow>
          (case step_result_check raw of
             Inl e \<Rightarrow> Some (Inl e, w)
           | Inr r \<Rightarrow>
               if gs_is_complete r then Some (Inr i, w)
               else durable_from run sleep i (Suc n)
                 (if gs_retry_after_ms r \<noteq> 0
                  then sleep (gs_retry_after_ms r) (sleep_label (gs_poll_count r)) w else w)))"

definition run_durable_generation ::
  "(string \<Rightarrow> 'w \<Rightarrow> (error + generation_step_result) \<times> 'w) \<Rightarrow> (int \<Rightarrow> string \<Rightarrow> 'w \<Rightarrow> 'w) \<Rightarrow>
   generation_workflow_input \<Rightarrow> 'w \<Rightarrow> ((error + uuid) \<times> 'w) option" where
  "run_durable_generation run sleep input = durable_from run sleep (wi_job_id input) 1"

section \<open>The starter\<close>

text \<open>
  \<open>Accepted\<close> is a reference with its \<^verbatim>\<open>workflow_run_id\<close> (None when it is not a text), and
  \<open>Collision\<close> \<^verbatim>\<open>IdempotencyCollisionError\<close> with the existing run.
\<close>

datatype run_answer = Accepted "string option" | Collision "string option" | Run_raised error

definition hatchet_start ::
  "(generation_workflow_input \<Rightarrow> run_answer) \<Rightarrow> uuid \<Rightarrow> string \<Rightarrow> json \<Rightarrow> error + string" where
  "hatchet_start aio_run i key payload =
     and_then (generation_workflow_input_of i key payload) (\<lambda>input.
       let workflow_id = (\<lambda>r. case r of
             None \<Rightarrow> Inl (RuntimeError ''Hatchet returned an invalid workflow run reference'')
           | Some s \<Rightarrow> if s = [] then Inl (RuntimeError ''Hatchet returned an invalid workflow run reference'')
               else Inr s) in
       case aio_run input of
         Run_raised e \<Rightarrow> Inl e | Accepted r \<Rightarrow> workflow_id r | Collision r \<Rightarrow> workflow_id r)"

section \<open>Replaying the loop\<close>

lemma child_key_inj: "child_key i n = child_key i m \<longleftrightarrow> n = m"
proof
  assume "child_key i n = child_key i m"
  then have "nat_str n @ '':v1'' = nat_str m @ '':v1''" by (simp add: child_key_def)
  then show "n = m" by (simp add: key_simps)
qed simp

text \<open>
  What the loop relies on: the engine records the result of a child under its key, answers a
  recorded key from the record without running anything, and keeps its records while it
  sleeps. From it, a run that is cut off and started again goes on where it was.
\<close>

locale durable_engine =
  fixes run :: "string \<Rightarrow> 'w \<Rightarrow> (error + generation_step_result) \<times> 'w"
    and sleep :: "int \<Rightarrow> string \<Rightarrow> 'w \<Rightarrow> 'w"
    and recorded :: "'w \<Rightarrow> string \<rightharpoonup> generation_step_result"
    and content :: "'w \<Rightarrow> 'd"
  assumes run_recorded: "recorded w k = Some r \<Longrightarrow> run k w = (Inr r, w)"
    and run_records: "recorded w k = None \<Longrightarrow> run k w = (Inr r, w') \<Longrightarrow>
      recorded w' = (recorded w)(k \<mapsto> r)"
    and run_fails: "run k w = (Inl e, w') \<Longrightarrow> recorded w' = recorded w"
    and sleep_records: "recorded (sleep ms label w) = recorded w"
    and sleep_content: "content (sleep ms label w) = content w"
begin

definition unfinished :: "(string \<rightharpoonup> generation_step_result) \<Rightarrow> string \<Rightarrow> bool" where
  "unfinished m k \<longleftrightarrow> (\<exists>r. m k = Some r \<and> step_result_check r = Inr r \<and> \<not> gs_is_complete r)"

definition finished :: "(string \<rightharpoonup> generation_step_result) \<Rightarrow> string \<Rightarrow> bool" where
  "finished m k \<longleftrightarrow> (\<exists>r. m k = Some r \<and> step_result_check r = Inr r \<and> gs_is_complete r)"

lemma check_same: "step_result_check r = Inr r' \<Longrightarrow> r' = r"
  by (simp add: step_result_check_def split: if_splits)

lemma run_Inr: "run k w = (Inr r, w') \<Longrightarrow> recorded w' k = Some r \<and> recorded w \<subseteq>\<^sub>m recorded w'"
  using run_recorded [of w k] run_records [of w k r w']
  by (cases "recorded w k") (auto simp: map_le_def)

lemma resume:
  assumes "\<forall>j \<in> {n..<n + d}. unfinished (recorded w) (child_key i j)"
  shows "\<exists>w'. recorded w' = recorded w \<and> content w' = content w \<and>
    durable_from run sleep i n w = durable_from run sleep i (n + d) w'"
  using assms
proof (induction d arbitrary: n w)
  case 0
  then show ?case by auto
next
  case (Suc d)
  from Suc.prems obtain r where r: "recorded w (child_key i n) = Some r"
    "step_result_check r = Inr r" "\<not> gs_is_complete r"
    by (force simp: unfinished_def)
  let ?w = "if gs_retry_after_ms r \<noteq> 0
    then sleep (gs_retry_after_ms r) (sleep_label (gs_poll_count r)) w else w"
  have same: "recorded ?w = recorded w" "content ?w = content w"
    by (simp_all add: sleep_records sleep_content)
  have "durable_from run sleep i n w = durable_from run sleep i (Suc n) ?w"
    using r by (subst durable_from.simps) (simp add: run_recorded)
  moreover have "\<forall>j \<in> {Suc n..<Suc n + d}. unfinished (recorded ?w) (child_key i j)"
    using Suc.prems by (simp add: same)
  from Suc.IH [OF this] obtain w' where "recorded w' = recorded w" "content w' = content w"
    "durable_from run sleep i (Suc n) ?w = durable_from run sleep i (Suc n + d) w'"
    unfolding same by blast
  ultimately show ?case by auto
qed

text \<open>A run that returned has recorded an unbroken row of unfinished steps and a last one.\<close>

definition steps_row :: "(string \<rightharpoonup> generation_step_result) \<Rightarrow> uuid \<Rightarrow> nat \<Rightarrow> nat \<Rightarrow> bool" where
  "steps_row m i n d \<longleftrightarrow> finished m (child_key i (n + d)) \<and> (\<forall>k \<in> {n..<n + d}. unfinished m (child_key i k))"

lemma steps_row_Suc: "unfinished m (child_key i n) \<Longrightarrow> steps_row m i (Suc n) d \<Longrightarrow> steps_row m i n (Suc d)"
proof -
  assume p: "unfinished m (child_key i n)" and r: "steps_row m i (Suc n) d"
  have "unfinished m (child_key i k)" if "n \<le> k" "k < n + Suc d" for k
    using p r that by (cases "k = n") (auto simp: steps_row_def)
  with r show ?thesis by (auto simp: steps_row_def)
qed

lemma returned:
  assumes "durable_from run sleep i n w = Some y"
  shows "fst y = Inr j \<longrightarrow> j = i \<and> recorded w \<subseteq>\<^sub>m recorded (snd y) \<and> (\<exists>d. steps_row (recorded (snd y)) i n d)"
proof -
  have "run = run \<and> sleep = sleep \<longrightarrow> (fst y = Inr j \<longrightarrow> j = i \<and>
      recorded w \<subseteq>\<^sub>m recorded (snd y) \<and> (\<exists>d. steps_row (recorded (snd y)) i n d))"
  proof (rule durable_from.raw_induct [where P = "\<lambda>run' sleep' i n w y. run' = run \<and> sleep' = sleep \<longrightarrow>
      (fst y = Inr j \<longrightarrow> j = i \<and> recorded w \<subseteq>\<^sub>m recorded (snd y) \<and> (\<exists>d. steps_row (recorded (snd y)) i n d))",
      OF _ assms], intro impI, elim conjE)
    fix self run' sleep' i n w y
    assume IH: "\<And>run' sleep' i n w y. self run' sleep' i n w = Some y \<Longrightarrow>
        run' = run \<and> sleep' = sleep \<longrightarrow> fst y = Inr j \<longrightarrow> j = i \<and>
        recorded w \<subseteq>\<^sub>m recorded (snd y) \<and> (\<exists>d. steps_row (recorded (snd y)) i n d)"
      and body: "(case run' (child_key i n) w of (Inl e, w) \<Rightarrow> Some (Inl e, w)
        | (Inr raw, w) \<Rightarrow> (case step_result_check raw of Inl e \<Rightarrow> Some (Inl e, w)
           | Inr r \<Rightarrow> if gs_is_complete r then Some (Inr i, w)
               else self run' sleep' i (Suc n) (if gs_retry_after_ms r \<noteq> 0
                  then sleep' (gs_retry_after_ms r) (sleep_label (gs_poll_count r)) w else w))) = Some y"
      and eq: "run' = run" "sleep' = sleep" and ans: "fst y = Inr j"
    from body ans obtain r w1 where r: "run (child_key i n) w = (Inr r, w1)" "step_result_check r = Inr r"
      by (auto simp: eq dest: check_same split: prod.splits sum.splits)
    note rec = run_Inr [OF r(1)]
    let ?w = "if gs_retry_after_ms r \<noteq> 0
      then sleep (gs_retry_after_ms r) (sleep_label (gs_poll_count r)) w1 else w1"
    have same: "recorded ?w = recorded w1" by (simp add: sleep_records)
    show "j = i \<and> recorded w \<subseteq>\<^sub>m recorded (snd y) \<and> (\<exists>d. steps_row (recorded (snd y)) i n d)"
    proof (cases "gs_is_complete r")
      case True
      with body ans r have "j = i" "y = (Inr i, w1)" by (auto simp: eq)
      with rec r(2) True show ?thesis by (auto simp: steps_row_def finished_def intro: exI [of _ 0])
    next
      case False
      with body r have "self run sleep i (Suc n) ?w = Some y" unfolding eq by simp
      from IH [OF this] ans obtain d where d: "j = i" "recorded w1 \<subseteq>\<^sub>m recorded (snd y)"
        "steps_row (recorded (snd y)) i (Suc n) d" by (auto simp: same)
      from rec d(2) have "recorded (snd y) (child_key i n) = Some r"
        by (auto simp: map_le_def dom_def)
      with r(2) False have "unfinished (recorded (snd y)) (child_key i n)" by (auto simp: unfinished_def)
      from steps_row_Suc [OF this d(3)] d(1,2) rec show ?thesis by (auto intro: map_le_trans)
    qed
  qed
  then show ?thesis by blast
qed

text \<open>A finished run, started again, answers the same from the records and runs no child.\<close>

lemma replay:
  assumes "durable_from run sleep i 1 w = Some (Inr j, w')" and "recorded v = recorded w'"
  shows "\<exists>v'. durable_from run sleep i 1 v = Some (Inr j, v') \<and> recorded v' = recorded v \<and>
    content v' = content v"
proof -
  from returned [OF assms(1), of j] obtain d where j: "j = i" and d: "steps_row (recorded w') i 1 d" by auto
  then have "\<forall>k \<in> {1..<1 + d}. unfinished (recorded v) (child_key i k)" by (simp add: steps_row_def assms(2))
  from resume [OF this] obtain v' where v': "recorded v' = recorded v"
    "content v' = content v" "durable_from run sleep i 1 v = durable_from run sleep i (1 + d) v'" by blast
  from d obtain r where "recorded v' (child_key i (1 + d)) = Some r" "step_result_check r = Inr r"
    "gs_is_complete r"
    by (auto simp: steps_row_def finished_def v'(1) assms(2))
  then have "durable_from run sleep i (1 + d) v' = Some (Inr i, v')"
    by (subst durable_from.simps) (simp add: run_recorded)
  with v' j show ?thesis by auto
qed

end

section \<open>The engine over the execute step\<close>

text \<open>
  An engine that behaves as documented, over the program's step: the results recorded by key,
  the provider's clock ticks and the database. A child that never answers would stay without
  a record.
\<close>

record durable_world =
  dw_records :: "string \<rightharpoonup> generation_step_result"
  dw_tick :: nat
  dw_db :: database

definition engine_child ::
  "generation_env \<Rightarrow> uuid \<Rightarrow> string \<Rightarrow> durable_world \<Rightarrow>
   (error + generation_step_result) \<times> durable_world" where
  "engine_child env i key w =
     (case dw_records w key of
        Some r \<Rightarrow> (Inr r, w)
      | None \<Rightarrow>
          (case generation_provider_step env (dw_tick w) (dw_db w) i of
             None \<Rightarrow> (Inl (RuntimeError ''no answer''), w)
           | Some (Inl e, db, _) \<Rightarrow> (Inl e, w\<lparr>dw_tick := Suc (dw_tick w), dw_db := db\<rparr>)
           | Some (Inr r, db, _) \<Rightarrow> (Inr r, w\<lparr>dw_records := (dw_records w)(key \<mapsto> r),
               dw_tick := Suc (dw_tick w), dw_db := db\<rparr>)))"

definition engine_sleep :: "int \<Rightarrow> string \<Rightarrow> durable_world \<Rightarrow> durable_world" where
  "engine_sleep ms label w = w\<lparr>dw_tick := Suc (dw_tick w)\<rparr>"

interpretation hatchet: durable_engine "engine_child env i" engine_sleep dw_records dw_db for env i
proof
  fix w w' :: durable_world and k r e ms label
  show "engine_child env i k w = (Inr r, w)" if "dw_records w k = Some r"
    using that by (simp add: engine_child_def)
  show "dw_records w' = (dw_records w)(k \<mapsto> r)"
    if "dw_records w k = None" "engine_child env i k w = (Inr r, w')"
    using that by (auto simp: engine_child_def split: option.splits sum.splits prod.splits)
  show "dw_records w' = dw_records w" if "engine_child env i k w = (Inl e, w')"
    using that by (auto simp: engine_child_def split: option.splits sum.splits prod.splits)
  show "dw_records (engine_sleep ms label w) = dw_records w" "dw_db (engine_sleep ms label w) = dw_db w"
    by (simp_all add: engine_sleep_def)
qed

section \<open>A finished run does nothing again\<close>


text \<open>A run over recorded results: one unfinished step, then the last.\<close>

definition recorded_world :: "database \<Rightarrow> durable_world" where
  "recorded_world db = \<lparr>dw_records =
     [child_key 7 1 \<mapsto> \<lparr>gs_is_complete = False, gs_poll_count = 1, gs_retry_after_ms = 2000\<rparr>,
      child_key 7 2 \<mapsto> \<lparr>gs_is_complete = True, gs_poll_count = 1, gs_retry_after_ms = 0\<rparr>],
     dw_tick = 0, dw_db = db\<rparr>"

lemma recorded_world_returns:
  "run_durable_generation (engine_child env 7) engine_sleep
     \<lparr>wi_job_id = 7, wi_idempotency_key = ''key'', wi_payload = JNull\<rparr> (recorded_world db) =
   Some (Inr 7, (recorded_world db)\<lparr>dw_tick := 1\<rparr>)"
proof -
  have "engine_child env 7 (child_key 7 1) (recorded_world db) =
      (Inr \<lparr>gs_is_complete = False, gs_poll_count = 1, gs_retry_after_ms = 2000\<rparr>, recorded_world db)"
    and "engine_child env 7 (child_key 7 (Suc 1)) ((recorded_world db)\<lparr>dw_tick := 1\<rparr>) =
      (Inr \<lparr>gs_is_complete = True, gs_poll_count = 1, gs_retry_after_ms = 0\<rparr>,
       (recorded_world db)\<lparr>dw_tick := 1\<rparr>)"
    by (simp_all add: engine_child_def recorded_world_def child_key_inj numeral_2_eq_2)
  moreover have "engine_sleep 2000 l (recorded_world db) = (recorded_world db)\<lparr>dw_tick := 1\<rparr>" for l
    by (simp add: engine_sleep_def recorded_world_def)
  ultimately show ?thesis
    unfolding run_durable_generation_def
    by (subst durable_from.simps) (simp add: step_result_check_def durable_from.simps [of _ _ _ "Suc (Suc 0)"])
qed


end
