(* ===== verification/LocalWorkflow.thy ===== *)
theory LocalWorkflow
  imports Workflow
begin

text \<open>
  The development runner (apps/api/app/local_workflow.py): one event loop, a dictionary of runs
  by idempotency key, and one task per run. Tasks end on their own; the runner only looks at
  how they ended. \<open>here\<close> is the loop the caller runs on, \<open>alive\<close> says which loops run.
\<close>

section \<open>State\<close>

datatype task_state = TASK_RUNNING | TASK_SUCCEEDED | TASK_FAILED | TASK_CANCELLED

record local_task =
  tk_key :: string
  tk_job_id :: uuid
  tk_state :: task_state

record local_run =
  lc_job_id :: uuid
  lc_task :: nat

record local_runner =
  lw_production :: bool
  lw_loop :: "nat option"
  lw_accepting :: bool
  lw_runs :: "string \<rightharpoonup> local_run"
  lw_tasks :: "local_task list"

section \<open>Operations\<close>

definition require_development :: "bool \<Rightarrow> error + unit" where
  "require_development production =
     (if production then Inl (ValueError ''Local workflow runner is development-only'') else Inr ())"

definition local_starter :: "bool \<Rightarrow> error + local_runner" where
  "local_starter production =
     and_then (require_development production) (\<lambda>_.
       Inr \<lparr>lw_production = production, lw_loop = None, lw_accepting = False, lw_runs = Map.empty,
         lw_tasks = []\<rparr>)"

definition local_ready :: "(nat \<Rightarrow> bool) \<Rightarrow> local_runner \<Rightarrow> bool" where
  "local_ready alive r \<longleftrightarrow> lw_accepting r \<and> (case lw_loop r of None \<Rightarrow> False | Some l \<Rightarrow> alive l)"

definition require_loop :: "nat \<Rightarrow> local_runner \<Rightarrow> error + unit" where
  "require_loop here r =
     (if lw_loop r = Some here then Inr ()
      else Inl (RuntimeError ''Local workflow runner must be used on its lifespan event loop''))"

definition local_startup :: "nat \<Rightarrow> local_runner \<Rightarrow> error + local_runner" where
  "local_startup here r =
     and_then (require_development (lw_production r)) (\<lambda>_.
       if lw_loop r \<noteq> None
       then and_then (require_loop here r) (\<lambda>_.
         if \<not> lw_accepting r then Inl (RuntimeError ''Local workflow runner is shutting down'')
         else Inr r)
       else Inr (r\<lparr>lw_loop := Some here, lw_accepting := True\<rparr>))"

definition local_workflow_id :: "(string \<Rightarrow> string) \<Rightarrow> string \<Rightarrow> string" where
  "local_workflow_id uuid5 key = ''local:'' @ uuid5 (''video-maker:local:'' @ key)"

text \<open>A run that is going on or has succeeded is not started again.\<close>

definition settled_run :: "local_runner \<Rightarrow> local_run \<Rightarrow> bool" where
  "settled_run r run \<longleftrightarrow> tk_state (lw_tasks r ! lc_task run) \<in> {TASK_RUNNING, TASK_SUCCEEDED}"

definition create_run :: "local_runner \<Rightarrow> string \<Rightarrow> uuid \<Rightarrow> local_runner" where
  "create_run r key job_i = r\<lparr>
     lw_runs := (lw_runs r)(key \<mapsto> \<lparr>lc_job_id = job_i, lc_task = length (lw_tasks r)\<rparr>),
     lw_tasks := lw_tasks r @ [\<lparr>tk_key = key, tk_job_id = job_i, tk_state = TASK_RUNNING\<rparr>]\<rparr>"

definition local_start ::
  "(string \<Rightarrow> string) \<Rightarrow> (nat \<Rightarrow> bool) \<Rightarrow> nat \<Rightarrow> local_runner \<Rightarrow> uuid \<Rightarrow> string \<Rightarrow> json \<Rightarrow>
   error + (string \<times> local_runner)" where
  "local_start uuid5 alive here r job_i key payload =
     (if \<not> local_ready alive r
      then Inl (RuntimeError ''Local workflow runner is not running; start the API lifespan first'')
      else
        and_then (require_loop here r) (\<lambda>_.
        and_then (generation_workflow_input_of job_i key payload) (\<lambda>validated.
          let key = wi_idempotency_key validated; workflow_id = local_workflow_id uuid5 key in
          case lw_runs r key of
            None \<Rightarrow> Inr (workflow_id, create_run r key job_i)
          | Some previous \<Rightarrow>
              if lc_job_id previous \<noteq> job_i
              then Inl (ValueError ''Local workflow idempotency key belongs to another job'')
              else if settled_run r previous then Inr (workflow_id, r)
              else Inr (workflow_id, create_run r key job_i))))"

text \<open>A running task ends.\<close>

definition end_task :: "nat \<Rightarrow> task_state \<Rightarrow> local_runner \<Rightarrow> local_runner" where
  "end_task i outcome r =
     (if i < length (lw_tasks r) \<and> tk_state (lw_tasks r ! i) = TASK_RUNNING
      then r\<lparr>lw_tasks := (lw_tasks r)[i := (lw_tasks r ! i)\<lparr>tk_state := outcome\<rparr>]\<rparr> else r)"

text \<open>
  Shutting down: nothing is accepted from then on and the tasks of the runs are cancelled
  (a cancelled task ends in its own time, as any other); when all of them have ended the runs
  are dropped and the loop is given up.
\<close>

definition local_shutdown :: "nat \<Rightarrow> local_runner \<Rightarrow> error + local_runner" where
  "local_shutdown here r =
     (if lw_loop r = None then Inr r
      else and_then (require_loop here r) (\<lambda>_. Inr (r\<lparr>lw_accepting := False\<rparr>)))"

definition all_ended :: "local_runner \<Rightarrow> bool" where
  "all_ended r \<longleftrightarrow>
     (\<forall>run \<in> ran (lw_runs r). tk_state (lw_tasks r ! lc_task run) \<noteq> TASK_RUNNING)"

definition local_stopped :: "local_runner \<Rightarrow> local_runner" where
  "local_stopped r = r\<lparr>lw_runs := Map.empty, lw_loop := None\<rparr>"

section \<open>The loop of a task\<close>

text \<open>
  \<open>max(delay, 0.01)\<close> seconds between two steps; \<open>rest\<close> is what the sleep does to the clock and
  the database. The factory of the executor does not touch the state that is modelled. None
  would be a loop that never ends.
\<close>

definition local_delay :: "execution_step \<Rightarrow> timedelta" where
  "local_delay s = max (case es_retry_after s of None \<Rightarrow> 0 | Some t \<Rightarrow> t) 10000"

partial_function (option) local_execute ::
  "generation_env \<Rightarrow> (timedelta \<Rightarrow> nat \<times> database \<Rightarrow> nat \<times> database) \<Rightarrow> uuid \<Rightarrow> nat \<times> database \<Rightarrow>
   ((error + unit) \<times> database) option" where
  "local_execute env rest job_i w =
     (case execute env (fst w) (snd w) job_i [] of
        None \<Rightarrow> None
      | Some (Inl e, db, _) \<Rightarrow> Some (Inl e, db)
      | Some (Inr s, db, _) \<Rightarrow>
          if es_is_complete s then Some (Inr (), db)
          else local_execute env rest job_i (rest (local_delay s) (Suc (fst w), db)))"

section \<open>Steps\<close>

inductive local_step :: "(string \<Rightarrow> string) \<Rightarrow> (nat \<Rightarrow> bool) \<Rightarrow> local_runner \<Rightarrow> local_runner \<Rightarrow> bool"
  for uuid5 alive where
  startup: "local_startup here r = Inr r' \<Longrightarrow> local_step uuid5 alive r r'"
| start: "local_start uuid5 alive here r job_i key payload = Inr (w, r') \<Longrightarrow> local_step uuid5 alive r r'"
| ended: "outcome \<noteq> TASK_RUNNING \<Longrightarrow> local_step uuid5 alive r (end_task i outcome r)"
| shutdown: "local_shutdown here r = Inr r' \<Longrightarrow> local_step uuid5 alive r r'"
| stopped: "\<not> lw_accepting r \<Longrightarrow> all_ended r \<Longrightarrow> local_step uuid5 alive r (local_stopped r)"

inductive local_reachable :: "(string \<Rightarrow> string) \<Rightarrow> (nat \<Rightarrow> bool) \<Rightarrow> local_runner \<Rightarrow> bool"
  for uuid5 alive where
  initial: "local_starter production = Inr r \<Longrightarrow> local_reachable uuid5 alive r"
| step: "local_reachable uuid5 alive r \<Longrightarrow> local_step uuid5 alive r r' \<Longrightarrow> local_reachable uuid5 alive r'"

section \<open>The invariant\<close>

definition running :: "local_runner \<Rightarrow> nat \<Rightarrow> bool" where
  "running r i \<longleftrightarrow> i < length (lw_tasks r) \<and> tk_state (lw_tasks r ! i) = TASK_RUNNING"

text \<open>Every run is that of a task of its key and job, and every running task is that of a run.\<close>

definition runner_ok :: "local_runner \<Rightarrow> bool" where
  "runner_ok r \<longleftrightarrow> \<not> lw_production r \<and>
     (\<forall>key run. lw_runs r key = Some run \<longrightarrow> lc_task run < length (lw_tasks r) \<and>
        tk_key (lw_tasks r ! lc_task run) = key \<and>
        tk_job_id (lw_tasks r ! lc_task run) = lc_job_id run) \<and>
     (\<forall>i. running r i \<longrightarrow> (\<exists>run. lw_runs r (tk_key (lw_tasks r ! i)) = Some run \<and> lc_task run = i)) \<and>
     (lw_loop r = None \<longrightarrow> lw_runs r = Map.empty \<and> \<not> lw_accepting r)"

lemma runner_okD:
  assumes "runner_ok r"
  shows "lw_runs r key = Some run \<Longrightarrow> lc_task run < length (lw_tasks r) \<and>
      tk_key (lw_tasks r ! lc_task run) = key \<and> tk_job_id (lw_tasks r ! lc_task run) = lc_job_id run"
    and "running r i \<Longrightarrow> \<exists>run. lw_runs r (tk_key (lw_tasks r ! i)) = Some run \<and> lc_task run = i"
    and "lw_loop r = None \<Longrightarrow> lw_runs r = Map.empty \<and> \<not> lw_accepting r" and "\<not> lw_production r"
  using assms unfolding runner_ok_def by blast+

lemma runner_ok_create:
  assumes ok: "runner_ok r" and "lw_loop r \<noteq> None"
    and free: "\<And>run. lw_runs r key = Some run \<Longrightarrow> \<not> running r (lc_task run)"
  shows "runner_ok (create_run r key job_i)"
proof -
  have "\<exists>run. lw_runs (create_run r key job_i) (tk_key (lw_tasks (create_run r key job_i) ! i)) = Some run \<and>
      lc_task run = i" if "running (create_run r key job_i) i" for i
  proof (cases "i = length (lw_tasks r)")
    case True
    then show ?thesis by (simp add: create_run_def)
  next
    case False
    with that have i: "i < length (lw_tasks r)" and "running r i"
      by (simp_all add: running_def create_run_def nth_append split: if_splits)
    from runner_okD(2) [OF ok this(2)]
    obtain run where run: "lw_runs r (tk_key (lw_tasks r ! i)) = Some run" "lc_task run = i" by blast
    with free \<open>running r i\<close> have "tk_key (lw_tasks r ! i) \<noteq> key" by auto
    with run i show ?thesis by (simp add: create_run_def nth_append)
  qed
  moreover have "lc_task run < length (lw_tasks (create_run r key job_i)) \<and>
      tk_key (lw_tasks (create_run r key job_i) ! lc_task run) = k \<and>
      tk_job_id (lw_tasks (create_run r key job_i) ! lc_task run) = lc_job_id run"
    if "lw_runs (create_run r key job_i) k = Some run" for k run
  proof (cases "k = key")
    case True
    with that show ?thesis by (auto simp: create_run_def)
  next
    case False
    with that have "lw_runs r k = Some run" by (simp add: create_run_def)
    from runner_okD(1) [OF ok this] show ?thesis by (simp add: create_run_def nth_append less_SucI)
  qed
  moreover have "lw_loop (create_run r key job_i) \<noteq> None" "\<not> lw_production (create_run r key job_i)"
    using assms(2) runner_okD(4) [OF ok] by (simp_all add: create_run_def)
  ultimately show ?thesis unfolding runner_ok_def by blast
qed

lemma runner_ok_end_task:
  assumes ok: "runner_ok r" and "outcome \<noteq> TASK_RUNNING"
  shows "runner_ok (end_task i outcome r)"
proof -
  have t: "tk_key (lw_tasks (end_task i outcome r) ! j) = tk_key (lw_tasks r ! j)"
    "tk_job_id (lw_tasks (end_task i outcome r) ! j) = tk_job_id (lw_tasks r ! j)"
    "length (lw_tasks (end_task i outcome r)) = length (lw_tasks r)"
    "running (end_task i outcome r) j \<Longrightarrow> running r j"
    if "j < length (lw_tasks r)" for j
    using that assms(2) by (auto simp: end_task_def running_def nth_list_update split: if_splits)
  have frame: "lw_runs (end_task i outcome r) = lw_runs r" "lw_loop (end_task i outcome r) = lw_loop r"
    "lw_accepting (end_task i outcome r) = lw_accepting r"
    "lw_production (end_task i outcome r) = lw_production r"
    "length (lw_tasks (end_task i outcome r)) = length (lw_tasks r)"
    by (simp_all add: end_task_def)
  have "\<exists>run. lw_runs r (tk_key (lw_tasks (end_task i outcome r) ! j)) = Some run \<and> lc_task run = j"
    if "running (end_task i outcome r) j" for j
  proof -
    from that have j: "j < length (lw_tasks r)" by (simp add: running_def frame)
    from runner_okD(2) [OF ok t(4) [OF j that]] show ?thesis by (simp add: t [OF j])
  qed
  with runner_okD [OF ok] t show ?thesis unfolding runner_ok_def frame by simp
qed

lemma runner_ok_stopped:
  assumes ok: "runner_ok r" and "\<not> lw_accepting r" and ended: "all_ended r"
  shows "runner_ok (local_stopped r)"
proof -
  have "\<not> running (local_stopped r) i" for i
  proof
    assume "running (local_stopped r) i"
    then have i: "running r i" by (simp add: running_def local_stopped_def)
    from runner_okD(2) [OF ok i] obtain run where
      run: "lw_runs r (tk_key (lw_tasks r ! i)) = Some run" "lc_task run = i" by blast
    with ended have "tk_state (lw_tasks r ! i) \<noteq> TASK_RUNNING" by (auto simp: all_ended_def ran_def)
    with i show False by (simp add: running_def)
  qed
  with assms(2) runner_okD(4) [OF ok] show ?thesis by (simp add: runner_ok_def local_stopped_def)
qed

lemma local_start_cases:
  assumes "local_start uuid5 alive here r job_i key payload = Inr (w, r')"
  obtains (same) run where "lw_loop r = Some here" "w = local_workflow_id uuid5 key" "r' = r"
      "lw_runs r key = Some run" "lc_job_id run = job_i" "settled_run r run"
    | (created) "lw_loop r = Some here" "w = local_workflow_id uuid5 key" "r' = create_run r key job_i"
      "\<And>run. lw_runs r key = Some run \<Longrightarrow> lc_job_id run = job_i \<and> \<not> settled_run r run"
proof (cases "lw_runs r key")
  case None
  with assms show thesis
    by (intro created)
      (simp_all add: local_start_def require_loop_def generation_workflow_input_of_def Let_def split: if_splits)
next
  case (Some run)
  show thesis
  proof (cases "settled_run r run")
    case True
    with assms Some show thesis
      by (intro same [of run])
        (simp_all add: local_start_def require_loop_def generation_workflow_input_of_def Let_def split: if_splits)
  next
    case False
    with assms Some show thesis
      by (intro created)
        (simp_all add: local_start_def require_loop_def generation_workflow_input_of_def Let_def split: if_splits)
  qed
qed

lemma runner_ok_step: "local_step uuid5 alive r r' \<Longrightarrow> runner_ok r \<Longrightarrow> runner_ok r'"
proof (induction rule: local_step.induct)
  case (startup here r r')
  then have "r' = r \<or> lw_loop r = None \<and> r' = r\<lparr>lw_loop := Some here, lw_accepting := True\<rparr>"
    by (auto simp: local_startup_def and_then_Inr_iff split: if_splits)
  with startup(2) show ?case by (auto simp: runner_ok_def running_def)
next
  case (start here r job_i key payload w r')
  from start(1) show ?case
  proof (cases rule: local_start_cases)
    case created
    with runner_ok_create [OF start(2)] show ?thesis by (simp add: settled_run_def running_def)
  qed (use start(2) in simp)
next
  case (ended outcome r i)
  then show ?case by (simp add: runner_ok_end_task)
next
  case (shutdown here r r')
  then have "r' = r \<or> lw_loop r = Some here \<and> r' = r\<lparr>lw_accepting := False\<rparr>"
    by (auto simp: local_shutdown_def require_loop_def split: if_splits)
  with shutdown(2) show ?case by (auto simp: runner_ok_def running_def)
next
  case (stopped r)
  then show ?case by (simp add: runner_ok_stopped)
qed

lemma runner_ok_reachable: "local_reachable uuid5 alive r \<Longrightarrow> runner_ok r"
proof (induction rule: local_reachable.induct)
  case (initial production r)
  then show ?case
    by (auto simp: local_starter_def require_development_def runner_ok_def running_def split: if_splits)
qed (rule runner_ok_step)

section \<open>One task at a time\<close>


text \<open>A runner that was started up and given one job, which is asked for again.\<close>

definition one_run :: local_runner where
  "one_run = create_run \<lparr>lw_production = False, lw_loop = Some 0, lw_accepting = True,
     lw_runs = Map.empty, lw_tasks = []\<rparr> ''key'' 7"

lemma one_run_reachable: "local_reachable (\<lambda>s. s) (\<lambda>l. True) one_run"
proof (rule local_reachable.step [OF local_reachable.step [OF local_reachable.initial]])
  show "local_starter False = Inr \<lparr>lw_production = False, lw_loop = None, lw_accepting = False,
      lw_runs = Map.empty, lw_tasks = []\<rparr>"
    by (simp add: local_starter_def require_development_def)
  show "local_step (\<lambda>s. s) (\<lambda>l. True)
      \<lparr>lw_production = False, lw_loop = None, lw_accepting = False, lw_runs = Map.empty, lw_tasks = []\<rparr>
      \<lparr>lw_production = False, lw_loop = Some 0, lw_accepting = True, lw_runs = Map.empty, lw_tasks = []\<rparr>"
    by (rule local_step.startup [of 0]) (simp add: local_startup_def require_development_def)
  show "local_step (\<lambda>s. s) (\<lambda>l. True)
      \<lparr>lw_production = False, lw_loop = Some 0, lw_accepting = True, lw_runs = Map.empty, lw_tasks = []\<rparr>
      one_run"
    by (rule local_step.start [of _ _ 0 _ 7 "''key''" JNull])
      (simp add: local_start_def local_ready_def require_loop_def generation_workflow_input_of_def
        Let_def one_run_def)
qed


end
