(* ===== verification/BlockingIO.thy ===== *)
theory BlockingIO
  imports Prelude
begin

text \<open>
  The bounded off-loading of synchronous work (apps/api/app/blocking_io.py): a pool of slots,
  one thread per caller that holds one. A caller that is cancelled keeps its slot until its
  thread has ended. Each operation is one step of the event loop or of a thread; \<open>i\<close> is the
  number of the call.
\<close>

section \<open>State\<close>

datatype call_state =
  CALL_WAITING | CALL_SHIELDED | CALL_DRAINING | CALL_RETURNED | CALL_CANCELLED

record blocking_call =
  bc_state :: call_state
  bc_thread :: bool

record blocking_io =
  bk_concurrency :: nat
  bk_slots :: nat
  bk_calls :: "blocking_call list"

definition MAX_BLOCKING_IO :: int where "MAX_BLOCKING_IO = 4"

definition blocking_io_of :: "int \<Rightarrow> error + blocking_io" where
  "blocking_io_of concurrency =
     (if concurrency < 1 then Inl (ValueError ''blocking IO concurrency must be positive'')
      else Inr \<lparr>bk_concurrency = nat concurrency, bk_slots = nat concurrency, bk_calls = []\<rparr>)"

section \<open>Steps\<close>

text \<open>
  \<open>Call\<close>: a caller arrives and waits for a slot. \<open>Acquire i\<close>: it gets one and its thread starts.
  \<open>Cancel i\<close>: it is cancelled, while it waits, at work (it then drains its thread) or while it
  drains already (which changes nothing). \<open>Thread_ends i\<close>: the thread is through. \<open>Resume i\<close>:
  the caller sees that and leaves, giving its slot back.
\<close>

datatype blocking_op = Call | Acquire nat | Cancel nat | Thread_ends nat | Resume nat

definition in_state :: "blocking_io \<Rightarrow> nat \<Rightarrow> call_state set \<Rightarrow> bool" where
  "in_state p i states \<longleftrightarrow> i < length (bk_calls p) \<and> bc_state (bk_calls p ! i) \<in> states"

definition set_call :: "blocking_io \<Rightarrow> nat \<Rightarrow> call_state \<Rightarrow> bool \<Rightarrow> blocking_io" where
  "set_call p i state thread =
     p\<lparr>bk_calls := (bk_calls p)[i := \<lparr>bc_state = state, bc_thread = thread\<rparr>]\<rparr>"

definition thread_running :: "blocking_io \<Rightarrow> nat \<Rightarrow> bool" where
  "thread_running p i \<longleftrightarrow> i < length (bk_calls p) \<and> bc_thread (bk_calls p ! i)"

fun blocking_step :: "blocking_io \<Rightarrow> blocking_op \<Rightarrow> blocking_io" where
  "blocking_step p Call =
     p\<lparr>bk_calls := bk_calls p @ [\<lparr>bc_state = CALL_WAITING, bc_thread = False\<rparr>]\<rparr>"
| "blocking_step p (Acquire i) =
     (if in_state p i {CALL_WAITING} \<and> 0 < bk_slots p
      then set_call (p\<lparr>bk_slots := bk_slots p - 1\<rparr>) i CALL_SHIELDED True else p)"
| "blocking_step p (Cancel i) =
     (if in_state p i {CALL_WAITING} then set_call p i CALL_CANCELLED False
      else if in_state p i {CALL_SHIELDED} then set_call p i CALL_DRAINING (thread_running p i)
      else p)"
| "blocking_step p (Thread_ends i) =
     (if thread_running p i then set_call p i (bc_state (bk_calls p ! i)) False else p)"
| "blocking_step p (Resume i) =
     (if in_state p i {CALL_SHIELDED, CALL_DRAINING} \<and> \<not> thread_running p i
      then set_call (p\<lparr>bk_slots := bk_slots p + 1\<rparr>) i
        (if in_state p i {CALL_SHIELDED} then CALL_RETURNED else CALL_CANCELLED) False
      else p)"

definition blocking_run :: "blocking_io \<Rightarrow> blocking_op list \<Rightarrow> blocking_io" where
  "blocking_run p ops = foldl blocking_step p ops"

section \<open>The invariant\<close>

definition holds_slot :: "blocking_call \<Rightarrow> bool" where
  "holds_slot c \<longleftrightarrow> bc_state c \<in> {CALL_SHIELDED, CALL_DRAINING}"

text \<open>The slots that are not free are held, and only a holder of one has a thread.\<close>

definition pool_ok :: "blocking_io \<Rightarrow> bool" where
  "pool_ok p \<longleftrightarrow> bk_slots p + length (filter holds_slot (bk_calls p)) = bk_concurrency p \<and>
     (\<forall>c \<in> set (bk_calls p). bc_thread c \<longrightarrow> holds_slot c)"

lemma filter_update:
  assumes "i < length xs"
  shows "length (filter P (xs[i := x])) + (if P (xs ! i) then 1 else 0) =
    length (filter P xs) + (if P x then 1 else 0)"
  using assms
proof (induction xs arbitrary: i)
  case (Cons a xs)
  then show ?case by (cases i) auto
qed simp

lemma pool_ok_set_call:
  assumes "pool_ok p" and "i < length (bk_calls p)"
    and slots: "slots + (if state \<in> {CALL_SHIELDED, CALL_DRAINING} then 1 else 0) =
      bk_slots p + (if holds_slot (bk_calls p ! i) then 1 else 0)"
    and thread: "thread \<longrightarrow> state \<in> {CALL_SHIELDED, CALL_DRAINING}"
  shows "pool_ok (set_call (p\<lparr>bk_slots := slots\<rparr>) i state thread)"
proof -
  have "length (filter holds_slot ((bk_calls p)[i := \<lparr>bc_state = state, bc_thread = thread\<rparr>])) +
      (if holds_slot (bk_calls p ! i) then 1 else 0) = length (filter holds_slot (bk_calls p)) +
      (if state \<in> {CALL_SHIELDED, CALL_DRAINING} then 1 else 0)"
    using filter_update [OF assms(2), of holds_slot "\<lparr>bc_state = state, bc_thread = thread\<rparr>"]
    by (simp add: holds_slot_def)
  with assms(1) slots have "slots + length (filter holds_slot
      ((bk_calls p)[i := \<lparr>bc_state = state, bc_thread = thread\<rparr>])) = bk_concurrency p"
    by (simp add: pool_ok_def)
  moreover have "bc_thread c \<longrightarrow> holds_slot c"
    if "c \<in> set ((bk_calls p)[i := \<lparr>bc_state = state, bc_thread = thread\<rparr>])" for c
  proof -
    from that set_update_subset_insert have
      "c \<in> insert \<lparr>bc_state = state, bc_thread = thread\<rparr> (set (bk_calls p))" by fast
    with assms(1) thread show ?thesis by (auto simp: pool_ok_def holds_slot_def)
  qed
  ultimately show ?thesis by (simp add: pool_ok_def set_call_def)
qed

lemma pool_ok_step: "pool_ok p \<Longrightarrow> pool_ok (blocking_step p op)"
proof (cases op)
  case Call
  assume "pool_ok p"
  then show ?thesis by (auto simp: Call pool_ok_def holds_slot_def)
next
  case (Acquire i)
  assume "pool_ok p"
  then show ?thesis
    by (auto simp: Acquire in_state_def holds_slot_def intro!: pool_ok_set_call)
next
  case (Cancel i)
  assume ok: "pool_ok p"
  have same: "p\<lparr>bk_slots := bk_slots p\<rparr> = p" by simp
  from ok pool_ok_set_call [OF ok, where slots = "bk_slots p", unfolded same] show ?thesis
    by (auto simp: Cancel in_state_def holds_slot_def)
next
  case (Thread_ends i)
  assume ok: "pool_ok p"
  have same: "p\<lparr>bk_slots := bk_slots p\<rparr> = p" by simp
  from ok pool_ok_set_call [OF ok, where slots = "bk_slots p", unfolded same] show ?thesis
    by (auto simp: Thread_ends thread_running_def holds_slot_def)
next
  case (Resume i)
  assume "pool_ok p"
  then show ?thesis
    by (auto simp: Resume in_state_def holds_slot_def intro!: pool_ok_set_call)
qed

lemma pool_ok_run: "pool_ok p \<Longrightarrow> pool_ok (blocking_run p ops)"
  unfolding blocking_run_def by (induction ops arbitrary: p) (simp_all add: pool_ok_step)

lemma pool_ok_new: "blocking_io_of concurrency = Inr p \<Longrightarrow> pool_ok p"
  by (auto simp: blocking_io_of_def pool_ok_def split: if_splits)

lemma concurrency_run: "bk_concurrency (blocking_run p ops) = bk_concurrency p"
proof -
  have "bk_concurrency (blocking_step p op) = bk_concurrency p" for p op
    by (cases op) (simp_all add: set_call_def)
  then show ?thesis unfolding blocking_run_def by (induction ops arbitrary: p) simp_all
qed

text \<open>
  However calls arrive, are cancelled and end: no more threads than slots, and a caller that has
  been answered, with its result or with the cancellation, has no thread behind it any more.
\<close>

lemma blocking_io_bounded:
  assumes "blocking_io_of concurrency = Inr p0"
  shows "length (filter bc_thread (bk_calls (blocking_run p0 ops))) \<le> nat concurrency"
    and "in_state (blocking_run p0 ops) i {CALL_RETURNED, CALL_CANCELLED} \<Longrightarrow>
      \<not> thread_running (blocking_run p0 ops) i"
proof -
  have ok: "pool_ok (blocking_run p0 ops)" by (rule pool_ok_run [OF pool_ok_new [OF assms]])
  have "bk_concurrency p0 = nat concurrency"
    using assms by (auto simp: blocking_io_of_def split: if_splits)
  moreover have "length (filter bc_thread cs) \<le> length (filter holds_slot cs)"
    if "\<forall>c \<in> set cs. bc_thread c \<longrightarrow> holds_slot c" for cs
    using that by (induction cs) auto
  ultimately show "length (filter bc_thread (bk_calls (blocking_run p0 ops))) \<le> nat concurrency"
    using ok by (fastforce simp: pool_ok_def concurrency_run)
  show "\<not> thread_running (blocking_run p0 ops) i"
    if "in_state (blocking_run p0 ops) i {CALL_RETURNED, CALL_CANCELLED}"
    using that ok by (auto simp: pool_ok_def in_state_def thread_running_def holds_slot_def)
qed

end
