(* ===== verification/Bootstrap.thy ===== *)
theory Bootstrap
  imports Config ControlPlane Cleanup CancelOutbox Artifacts Claims BlockingIO
begin

text \<open>
  How the service is put together (apps/api/app/bootstrap.py), its background loops, start and
  stop and its error answers (main.py), the registries made from the settings (routing.py) and
  the webhook endpoint (provider_api.py). The workflow starter is the value of Config; what
  others commit between two sessions of a dispatcher stays the argument it has there.
\<close>

section \<open>Registries from the settings\<close>

text \<open>\<open>mock\<close> and \<open>simulator\<close> are the two constructed providers.\<close>

definition get_provider_registry ::
  "(string option \<Rightarrow> 'p) \<Rightarrow> 'p \<Rightarrow> settings \<Rightarrow> error + (string \<rightharpoonup> 'p)" where
  "get_provider_registry mock simulator s = provider_registry
     ((''mock'', mock (cg_mock_provider_webhook_secret s)) #
      (if cg_runpod_simulator_enabled s then [(''runpod-simulator'', simulator)] else []))"

definition get_route_registry :: "settings \<Rightarrow> (string \<rightharpoonup> 'p) \<Rightarrow> error + route_registry" where
  "get_route_registry s providers =
     (let routes = MOCK_ROUTE # (if cg_runpod_simulator_enabled s then [SIMULATED_RUNPOD_ROUTE] else []) in
      and_then (route_registry routes (cg_generation_route_version s) (cg_generation_route_enabled s))
        (\<lambda>reg. if list_ex (\<lambda>r. providers (rt_provider_code r) = None) routes
           then Inl (ValueError ''routes reference unconfigured providers'') else Inr reg))"

definition get_callback_claim_issuer :: "claim_codec \<Rightarrow> settings \<Rightarrow> error + claim_codec" where
  "get_callback_claim_issuer codec s =
     callback_issuer_check (codec\<lparr>cc_secret := cg_provider_callback_claim_secret s\<rparr>)"

lemma provider_registry_of_settings:
  "get_provider_registry mock simulator s = Inr
     (if cg_runpod_simulator_enabled s
      then [''mock'' \<mapsto> mock (cg_mock_provider_webhook_secret s), ''runpod-simulator'' \<mapsto> simulator]
      else [''mock'' \<mapsto> mock (cg_mock_provider_webhook_secret s)])"
proof -
  have "provider_code_ok ''mock''" "provider_code_ok ''runpod-simulator''" by code_simp+
  then show ?thesis by (simp add: get_provider_registry_def provider_registry_def fun_upd_twist)
qed

text \<open>
  The settings accept a simulated active route without the simulator; the registry then refuses
  to be made, at the first request that needs it.
\<close>

lemma route_registry_of_settings:
  assumes "field_bounds s" and "get_provider_registry mock simulator s = Inr providers"
  shows "is_ok (get_route_registry s providers) \<longleftrightarrow>
    cg_generation_route_version s = ''mock_video_v1'' \<or> cg_runpod_simulator_enabled s"
proof -
  have "cg_generation_route_version s = ''mock_video_v1'' \<or> cg_generation_route_version s = ''runpod_simulated_v1''"
    using assms(1) by (simp add: field_bounds_def)
  with assms(2) show ?thesis
    by (auto simp: provider_registry_of_settings get_route_registry_def route_registry_def Let_def
        MOCK_ROUTE_def SIMULATED_RUNPOD_ROUTE_def)
qed

section \<open>Dispatchers and executors\<close>

definition storage_claim_ttl :: "settings \<Rightarrow> timedelta" where
  "storage_claim_ttl s = seconds (cg_storage_claim_ttl_seconds s)"

definition provider_executor ::
  "(string \<rightharpoonup> 'p) \<Rightarrow> settings \<Rightarrow> string \<Rightarrow> bool \<Rightarrow> error + (string \<rightharpoonup> 'p)" where
  "provider_executor providers s provider_code require_webhook_secret =
     (case provider_get providers provider_code of
        Inl _ \<Rightarrow> Inl (not_found ''PROVIDER'')
      | Inr _ \<Rightarrow>
          if require_webhook_secret \<and> provider_code = ''mock'' \<and> cg_mock_provider_webhook_secret s = None
          then Inl (ApiError 503 ''PROVIDER_WEBHOOK_DISABLED'') else Inr providers)"

definition dispatch_generation_outbox ::
  "settings \<Rightarrow> (claimed_outbox_event \<Rightarrow> (string \<times> string) + string) \<Rightarrow> (database \<Rightarrow> database) \<Rightarrow>
   database \<Rightarrow> time \<Rightarrow> time \<Rightarrow> (error + dispatch_result) \<times> database" where
  "dispatch_generation_outbox s start meanwhile db now now' =
     (case outbox_dispatcher (seconds 30) (seconds 1) (cg_outbox_max_attempts s) of
        Inl e \<Rightarrow> (Inl e, db)
      | Inr cfg \<Rightarrow> dispatch_once cfg start meanwhile db now now')"

definition execute_provider_cancel ::
  "generation_env \<Rightarrow> nat \<Rightarrow> (string \<rightharpoonup> 'p) \<Rightarrow> settings \<Rightarrow> database \<Rightarrow> provider_cancel_request \<Rightarrow>
   (error + unit) \<times> database \<times> string list" where
  "execute_provider_cancel env tick providers s db request =
     (case provider_executor providers s (pc_provider_code request) False of
        Inl e \<Rightarrow> (Inl e, db, [])
      | Inr _ \<Rightarrow> request_cancel env tick db (pc_job_id request) (Some (pc_attempt_id request))
          (Some (pc_idempotency_key request)))"

definition dispatch_provider_cancel_outbox ::
  "settings \<Rightarrow> (provider_cancel_request \<Rightarrow> (string \<times> string) option) \<Rightarrow>
   (database \<Rightarrow> database) \<times> time \<Rightarrow> ((database \<Rightarrow> database) \<times> time) list \<Rightarrow> database \<Rightarrow>
   time \<Rightarrow> time \<Rightarrow> (error + dispatch_result) \<times> database" where
  "dispatch_provider_cancel_outbox s worker first ticks db now now' =
     (case cancel_dispatcher (seconds 30) (seconds 1) (cg_outbox_max_attempts s) None of
        Inl e \<Rightarrow> (Inl e, db)
      | Inr (cfg, _) \<Rightarrow> cancel_dispatch_once cfg worker first ticks db now now')"

text \<open>An artifact that is due comes first; a deleted project only when there is none. \<open>delete\<close> and
  \<open>delete'\<close> are the store as the two passes find it.\<close>

definition dispatch_storage_cleanup_outbox ::
  "settings \<Rightarrow> (string \<Rightarrow> delete_result) \<Rightarrow> (string \<Rightarrow> delete_result) \<Rightarrow> (database \<Rightarrow> database) \<Rightarrow>
   database \<Rightarrow> time \<Rightarrow> (nat \<Rightarrow> time) \<Rightarrow> (error + dispatch_result) \<times> database" where
  "dispatch_storage_cleanup_outbox s delete delete' meanwhile db now clock =
     (case artifact_dispatch_once (seconds (cg_provider_artifact_retention_seconds s)) (seconds 30) 5
         delete meanwhile db now of
        (Inl e, db) \<Rightarrow> (Inl e, db)
      | (Inr r, db) \<Rightarrow>
          if r \<noteq> DISPATCH_IDLE then (Inr r, db)
          else (case cleanup_dispatcher (seconds 30) (seconds 1) (cg_outbox_max_attempts s) of
              Inl e \<Rightarrow> (Inl e, db)
            | Inr cfg \<Rightarrow> cleanup_dispatch_once cfg delete' clock db))"

text \<open>None would be an execution that never returns.\<close>

definition reconcile_generation_job ::
  "(string \<Rightarrow> string) \<Rightarrow> (nat \<Rightarrow> bool) \<Rightarrow> nat \<Rightarrow> generation_env \<Rightarrow> nat \<Rightarrow> uuid \<Rightarrow>
   workflow_starter \<times> database \<Rightarrow> ((error + unit) \<times> workflow_starter \<times> database) option" where
  "reconcile_generation_job uuid5 alive here env tick job_i w =
     (case w of
        (Local_workflow_starter r, db) \<Rightarrow>
          Some (case local_start uuid5 alive here r job_i (generation_workflow_key job_i)
              (JObj [(''job_id'', JStr (uuid_str job_i))]) of
            Inl e \<Rightarrow> (Inl e, Local_workflow_starter r, db)
          | Inr (_, r') \<Rightarrow> (Inr (), Local_workflow_starter r', db))
      | (Hatchet_workflow_starter s, db) \<Rightarrow>
          (case execute env tick db job_i [] of
             None \<Rightarrow> None
           | Some (Inl e, db, _) \<Rightarrow> Some (Inl e, Hatchet_workflow_starter s, db)
           | Some (Inr _, db, _) \<Rightarrow> Some (Inr (), Hatchet_workflow_starter s, db)))"

section \<open>Background loops\<close>

text \<open>
  The three dispatcher loops have one shape. A published event is followed by the next pass at
  once; anything else, an exception included, by a wait for the stop or the poll interval.
  None is a loop that is never stopped.
\<close>

partial_function (option) dispatcher_loop ::
  "('w \<Rightarrow> (error + dispatch_result) \<times> 'w) \<Rightarrow> ('w \<Rightarrow> bool) \<Rightarrow> ('w \<Rightarrow> 'w) \<Rightarrow> 'w \<Rightarrow> 'w option" where
  "dispatcher_loop dispatch stopped wait w =
     (if stopped w then Some w
      else case dispatch w of (result, w) \<Rightarrow>
        dispatcher_loop dispatch stopped wait (if result = Inr DISPATCH_PUBLISHED then w else wait w))"

text \<open>\<open>wait\<close> says whether the interval ran out before the stop; an exception of the pass is logged.\<close>

partial_function (option) control_plane_reconciler_loop ::
  "('w \<Rightarrow> (error + reconcile_result) \<times> 'w) \<Rightarrow> ('w \<Rightarrow> bool) \<Rightarrow> ('w \<Rightarrow> bool \<times> 'w) \<Rightarrow> 'w \<Rightarrow> 'w option" where
  "control_plane_reconciler_loop once stopped wait w =
     (if stopped w then Some w
      else case wait w of (timed_out, w) \<Rightarrow>
        control_plane_reconciler_loop once stopped wait (if timed_out then snd (once w) else w))"

text \<open>
  The loops over their dispatchers. \<open>k\<close> counts the passes; what the starter, the provider, the
  store, the clock and other sessions do in a pass depends on it.
\<close>

definition outbox_dispatcher_loop ::
  "settings \<Rightarrow> (nat \<Rightarrow> claimed_outbox_event \<Rightarrow> (string \<times> string) + string) \<Rightarrow>
   (nat \<Rightarrow> database \<Rightarrow> database) \<Rightarrow> (nat \<Rightarrow> time \<times> time) \<Rightarrow> (nat \<times> database \<Rightarrow> bool) \<Rightarrow>
   (nat \<times> database \<Rightarrow> nat \<times> database) \<Rightarrow> nat \<times> database \<Rightarrow> (nat \<times> database) option" where
  "outbox_dispatcher_loop s start meanwhile clock = dispatcher_loop (\<lambda>(k, db).
     case dispatch_generation_outbox s (start k) (meanwhile k) db (fst (clock k)) (snd (clock k)) of
       (r, db) \<Rightarrow> (r, Suc k, db))"

definition provider_cancel_dispatcher_loop ::
  "settings \<Rightarrow> (nat \<Rightarrow> provider_cancel_request \<Rightarrow> (string \<times> string) option) \<Rightarrow>
   (nat \<Rightarrow> ((database \<Rightarrow> database) \<times> time) \<times> ((database \<Rightarrow> database) \<times> time) list) \<Rightarrow>
   (nat \<Rightarrow> time \<times> time) \<Rightarrow> (nat \<times> database \<Rightarrow> bool) \<Rightarrow>
   (nat \<times> database \<Rightarrow> nat \<times> database) \<Rightarrow> nat \<times> database \<Rightarrow> (nat \<times> database) option" where
  "provider_cancel_dispatcher_loop s worker renewing clock = dispatcher_loop (\<lambda>(k, db).
     case dispatch_provider_cancel_outbox s (worker k) (fst (renewing k)) (snd (renewing k)) db
         (fst (clock k)) (snd (clock k)) of
       (r, db) \<Rightarrow> (r, Suc k, db))"

definition storage_cleanup_dispatcher_loop ::
  "settings \<Rightarrow> (nat \<Rightarrow> (string \<Rightarrow> delete_result) \<times> (string \<Rightarrow> delete_result)) \<Rightarrow>
   (nat \<Rightarrow> database \<Rightarrow> database) \<Rightarrow> (nat \<Rightarrow> time \<times> (nat \<Rightarrow> time)) \<Rightarrow> (nat \<times> database \<Rightarrow> bool) \<Rightarrow>
   (nat \<times> database \<Rightarrow> nat \<times> database) \<Rightarrow> nat \<times> database \<Rightarrow> (nat \<times> database) option" where
  "storage_cleanup_dispatcher_loop s delete meanwhile clock = dispatcher_loop (\<lambda>(k, db).
     case dispatch_storage_cleanup_outbox s (fst (delete k)) (snd (delete k)) (meanwhile k) db
         (fst (clock k)) (snd (clock k)) of
       (r, db) \<Rightarrow> (r, Suc k, db))"

text \<open>The reconciler of the loop: the three dispatchers in this order, and the configured age.\<close>

definition control_plane_reconciler ::
  "settings \<Rightarrow> (database \<Rightarrow> (error + dispatch_result) \<times> database) \<Rightarrow>
   (database \<Rightarrow> (error + dispatch_result) \<times> database) \<Rightarrow>
   (database \<Rightarrow> (error + dispatch_result) \<times> database) \<Rightarrow>
   (uuid \<Rightarrow> database \<Rightarrow> (error + unit) \<times> database) \<Rightarrow> reconciler" where
  "control_plane_reconciler s generation cancel cleanup reconcile =
     (reconciler_of [generation, cancel, cleanup] reconcile)
       \<lparr>rl_stuck_after := seconds (cg_reconciler_stuck_after_seconds s)\<rparr>"

text \<open>A backlog is worked off without a wait: \<open>published\<close> passes in a row run back to back.\<close>

lemma dispatcher_loop_drains:
  assumes "\<And>k. k < n \<Longrightarrow> \<not> stopped (pass k)"
    and "\<And>k. k < n \<Longrightarrow> dispatch (pass k) = (Inr DISPATCH_PUBLISHED, pass (Suc k))"
  shows "dispatcher_loop dispatch stopped wait (pass 0) = dispatcher_loop dispatch stopped wait (pass n)"
  using assms
proof (induction n)
  case (Suc n)
  then have "dispatcher_loop dispatch stopped wait (pass 0) = dispatcher_loop dispatch stopped wait (pass n)"
    by simp
  also have "\<dots> = dispatcher_loop dispatch stopped wait (pass (Suc n))"
    using Suc.prems(1) [of n] Suc.prems(2) [of n] by (subst dispatcher_loop.simps) simp
  finally show ?case .
qed simp

section \<open>Start and stop\<close>

datatype background_task =
  Outbox_dispatcher | Provider_cancel_dispatcher | Storage_cleanup_dispatcher | Reconciler_task

definition background_tasks :: "settings \<Rightarrow> background_task list" where
  "background_tasks s =
     (if cg_outbox_dispatcher_enabled s
      then [Outbox_dispatcher, Provider_cancel_dispatcher, Storage_cleanup_dispatcher] else []) @
     (if cg_reconciler_enabled s then [Reconciler_task] else [])"

definition starter_ready :: "(nat \<Rightarrow> bool) \<Rightarrow> (settings \<Rightarrow> error + bool) \<Rightarrow> workflow_starter \<Rightarrow> error + bool" where
  "starter_ready alive hatchet_ready starter =
     (case starter of
        Local_workflow_starter r \<Rightarrow> Inr (local_ready alive r)
      | Hatchet_workflow_starter s \<Rightarrow> hatchet_ready s)"

text \<open>
  The first half of \<open>lifespan\<close>, up to its yield: the tasks that were created, and the starter.
  The second half runs in every case.
\<close>

definition lifespan_startup ::
  "(nat \<Rightarrow> bool) \<Rightarrow> (settings \<Rightarrow> error + bool) \<Rightarrow> nat \<Rightarrow> settings \<Rightarrow> workflow_starter \<Rightarrow>
   (error + background_task list) \<times> workflow_starter" where
  "lifespan_startup alive hatchet_ready here s starter =
     (case (case starter of
          Local_workflow_starter r \<Rightarrow> and_then (local_startup here r) (\<lambda>r. Inr (Local_workflow_starter r))
        | Hatchet_workflow_starter _ \<Rightarrow> Inr starter) of
        Inl e \<Rightarrow> (Inl e, starter)
      | Inr starter \<Rightarrow>
          (if cg_outbox_dispatcher_enabled s \<or> cg_reconciler_enabled s
           then (case starter_ready alive hatchet_ready starter of
               Inl e \<Rightarrow> Inl e
             | Inr False \<Rightarrow> Inl (RuntimeError ''WORKFLOW_BACKEND is not ready'')
             | Inr True \<Rightarrow> Inr (background_tasks s))
           else Inr (background_tasks s), starter))"

definition lifespan_shutdown :: "nat \<Rightarrow> workflow_starter \<Rightarrow> error + workflow_starter" where
  "lifespan_shutdown here starter =
     (case starter of
        Local_workflow_starter r \<Rightarrow>
          and_then (local_shutdown here r) (\<lambda>r. Inr (Local_workflow_starter r))
      | Hatchet_workflow_starter _ \<Rightarrow> Inr starter)"

text \<open>With a local starter that is not shutting down, starting up creates every task.\<close>

lemma local_lifespan_starts:
  assumes "local_starter (cg_environment s = ''production'') = Inr r" and "alive here"
  shows "fst (lifespan_startup alive hatchet_ready here s (Local_workflow_starter r)) = Inr (background_tasks s)"
  using assms by (auto simp: local_starter_def require_development_def lifespan_startup_def
      local_startup_def starter_ready_def local_ready_def split: if_splits)

section \<open>HTTP answers\<close>

text \<open>
  The status and body of an error. \<open>message\<close> is the display text; \<open>request_id\<close> is the one
  \<open>request_context\<close> put into the request, if it ran.
\<close>

definition request_id_of :: "string option \<Rightarrow> uuid \<Rightarrow> string" where
  "request_id_of header fresh = or_else header (uuid_str fresh)"

definition error_body :: "string \<Rightarrow> string \<Rightarrow> string option \<Rightarrow> json option \<Rightarrow> json" where
  "error_body error_code message request_id details =
     JObj [(''error'', JObj ([(''code'', JStr error_code), (''message'', JStr message),
       (''request_id'', JStr (case request_id of None \<Rightarrow> ''unknown'' | Some i \<Rightarrow> i))] @
       (case details of None \<Rightarrow> [] | Some d \<Rightarrow> [(''details'', d)])))]"

definition api_error_handler ::
  "string option \<Rightarrow> nat \<Rightarrow> string \<Rightarrow> string \<Rightarrow> json option \<Rightarrow> nat \<times> json" where
  "api_error_handler request_id status error_code message details =
     (status, error_body error_code message request_id details)"

definition validation_error_handler :: "string option \<Rightarrow> json \<Rightarrow> nat \<times> json" where
  "validation_error_handler request_id errors =
     (422, error_body ''VALIDATION_FAILED'' ''invalid request parameters'' request_id (Some errors))"

definition healthz :: json where "healthz = JObj [(''status'', JStr ''ok'')]"

definition readyz :: "bool \<times> (string \<times> bool) list \<Rightarrow> nat \<times> json" where
  "readyz result =
     (if fst result then 200 else 503,
      JObj [(''status'', JStr (if fst result then ''ready'' else ''not_ready'')),
        (''checks'', JObj (map (\<lambda>(name, ok). (name, JBool ok)) (snd result)))])"

section \<open>The webhook endpoint\<close>

text \<open>The body is read chunk by chunk and given up as soon as it is too large.\<close>

fun read_body :: "int \<Rightarrow> int \<Rightarrow> string list \<Rightarrow> error + string" where
  "read_body max_bytes received [] = Inr []"
| "read_body max_bytes received (chunk # rest) =
     (if max_bytes < received + int (length chunk) then Inl (ApiError 413 ''PROVIDER_WEBHOOK_TOO_LARGE'')
      else and_then (read_body max_bytes (received + int (length chunk)) rest)
        (\<lambda>body. Inr (chunk @ body)))"

text \<open>
  \<^verbatim>\<open>WebhookVerificationError\<close> is the \<^verbatim>\<open>ValueError\<close> of the provider's verification; it is answered
  401. Any other exception of the service goes through.
\<close>

definition verification_fails ::
  "generation_env \<Rightarrow> nat \<Rightarrow> string \<Rightarrow> (string \<rightharpoonup> string) \<Rightarrow> string \<Rightarrow> bool" where
  "verification_fails env tick provider_code headers body \<longleftrightarrow>
     (case ge_provider env tick provider_code of
        Inl _ \<Rightarrow> False
      | Inr provider \<Rightarrow>
          (case vp_verify_webhook provider headers body of Inl (ValueError _) \<Rightarrow> True | _ \<Rightarrow> False))"

definition receive_provider_webhook ::
  "generation_env \<Rightarrow> nat \<Rightarrow> (string \<rightharpoonup> 'p) \<Rightarrow> settings \<Rightarrow> database \<Rightarrow> database \<Rightarrow> string \<Rightarrow>
   (string \<rightharpoonup> string) \<Rightarrow> string list \<Rightarrow> (error + webhook_result) \<times> database \<times> string list" where
  "receive_provider_webhook env tick providers s db0 db provider_code headers chunks =
     (case and_then (read_body (cg_provider_webhook_max_bytes s) 0 chunks) (\<lambda>body.
         and_then (provider_executor providers s provider_code True) (\<lambda>_. Inr body)) of
        Inl e \<Rightarrow> (Inl e, db, [])
      | Inr body \<Rightarrow>
          if verification_fails env tick provider_code headers body
          then (Inl (ApiError 401 ''PROVIDER_WEBHOOK_INVALID''), db, [])
          else handle_webhook env tick db0 db provider_code headers body)"

lemma read_body_Inr:
  "read_body max_bytes received chunks = Inr body \<longleftrightarrow> body = concat chunks \<and>
   (\<forall>k \<le> length chunks. k = 0 \<or> received + int (length (concat (take k chunks))) \<le> max_bytes)"
proof (induction max_bytes received chunks arbitrary: body rule: read_body.induct)
  case (2 max_bytes received chunk rest)
  let ?r = "received + int (length chunk)"
  show ?case
  proof (cases "max_bytes < ?r")
    case True
    then show ?thesis by (auto intro!: exI [of _ 1])
  next
    case False
    have "(\<forall>k \<le> Suc (length rest). k = 0 \<or>
        received + int (length (concat (take k (chunk # rest)))) \<le> max_bytes) \<longleftrightarrow>
        (\<forall>k \<le> length rest. k = 0 \<or> ?r + int (length (concat (take k rest))) \<le> max_bytes)"
      (is "?L \<longleftrightarrow> ?R")
    proof
      assume L: ?L
      show ?R
      proof (intro allI impI)
        fix k assume "k \<le> length rest"
        with L [rule_format, of "Suc k"] show "k = 0 \<or> ?r + int (length (concat (take k rest))) \<le> max_bytes"
          by (simp add: add.assoc)
      qed
    next
      assume R: ?R
      show ?L
      proof (intro allI impI)
        fix k assume "k \<le> Suc (length rest)"
        with R [rule_format, of "k - 1"] False show "k = 0 \<or>
            received + int (length (concat (take k (chunk # rest)))) \<le> max_bytes"
          by (cases k) (auto simp: add.assoc)
      qed
    qed
    with False "2.IH" show ?thesis by (auto simp: and_then_Inr_iff)
  qed
qed auto

end
