(* ===== verification/Contract.thy ===== *)
theory Contract
  imports RunPodAdapter
begin

text \<open>
  The worker's side of the RunPod contract (workers/runpod-comfyui/contract/validate.py): the
  request and the response a worker image accepts, and the check of the repository's contract
  files. A JSON text is read as in the adapter; an object with a repeated name counts the last
  one. What is outside the file is a parameter: whether \<^verbatim>\<open>uuid.UUID(str(value))\<close> parses, the
  files, their sha256 and the text \<^verbatim>\<open>json.dumps\<close> gives.
\<close>

section \<open>Errors and sequencing\<close>

text \<open>\<open>ContractError\<close> with its message, what Python raises for a value of an unexpected shape, and
  a file that cannot be read.\<close>

datatype contract_error =
    Contract_error string | Type_error | Key_error | Attribute_error | File_error

definition check_then ::
  "contract_error + 'a \<Rightarrow> ('a \<Rightarrow> contract_error + 'b) \<Rightarrow> contract_error + 'b" where
  "check_then m f = (case m of Inl e \<Rightarrow> Inl e | Inr x \<Rightarrow> f x)"

definition ensure :: "bool \<Rightarrow> string \<Rightarrow> contract_error + unit" where
  "ensure ok message = (if ok then Inr () else Inl (Contract_error message))"

fun check_all :: "(contract_error + unit) list \<Rightarrow> contract_error + unit" where
  "check_all [] = Inr ()"
| "check_all (c # cs) = check_then c (\<lambda>_. check_all cs)"

lemma check_then_Inr_iff: "check_then m f = Inr y \<longleftrightarrow> (\<exists>x. m = Inr x \<and> f x = Inr y)"
  by (cases m) (simp_all add: check_then_def)

lemma check_then_simps [simp]: "check_then (Inr x) f = f x" "check_then (Inl e) f = Inl e"
  by (simp_all add: check_then_def)

lemma ensure_Inr_iff [simp]: "ensure ok message = Inr u \<longleftrightarrow> ok"
  by (simp add: ensure_def)

lemma check_all_Inr_iff: "check_all cs = Inr u \<longleftrightarrow> (\<forall>c \<in> set cs. c = Inr ())"
  by (induction cs) (simp_all add: check_then_Inr_iff)

lemma check_all_Cons_iff: "check_all (c # cs) = Inr u \<longleftrightarrow> c = Inr () \<and> check_all cs = Inr ()"
  by (simp add: check_then_Inr_iff)

section \<open>Values\<close>

definition WORKER_COMFYUI_VERSION :: string where "WORKER_COMFYUI_VERSION = ''5.8.7''"
definition WORKER_COMFYUI_COMMIT :: string where
  "WORKER_COMFYUI_COMMIT = ''a1981e99b1f5a7201f387653420ad1f275b97d0a''"
definition COMFYUI_COMMIT :: string where
  "COMFYUI_COMMIT = ''a8c44f9b2a0678ac4082e3529a3f43db7472acfe''"
definition COMFY_CLI_VERSION :: string where "COMFY_CLI_VERSION = ''1.18.0''"
definition WORKFLOW_ID :: string where "WORKFLOW_ID = ''fast_wan_i2v_720_v1''"

definition REQUEST_FIELDS :: "string list" where
  "REQUEST_FIELDS = [''job_id'', ''attempt_id'', ''workflow_id'', ''prompt'', ''duration_ms'',
     ''aspect_ratio'', ''resolution'', ''input_claim'', ''output_claim'', ''callback_claim'']"

definition RESPONSE_FIELDS :: "string list" where
  "RESPONSE_FIELDS = [''attempt_id'', ''status'', ''output'', ''metrics'', ''versions'', ''error'']"

type_synonym dict = "(string \<times> reply) list"

text \<open>\<open>value.get(name)\<close>, and \<open>value[name]\<close> for a name that is there.\<close>

definition get_item :: "dict \<Rightarrow> string \<Rightarrow> reply option" where
  "get_item ms name = map_of (rev ms) name"

definition item :: "dict \<Rightarrow> string \<Rightarrow> reply" where
  "item ms name = (case get_item ms name of None \<Rightarrow> RNull | Some r \<Rightarrow> r)"

text \<open>The values of a dict in the order of its first insertions.\<close>

definition dict_items :: "dict \<Rightarrow> dict" where
  "dict_items ms = map (\<lambda>n. (n, item ms n)) (rev (remdups (rev (map fst ms))))"

definition is_object :: "reply \<Rightarrow> bool" where
  "is_object r = (case r of RObj _ \<Rightarrow> True | _ \<Rightarrow> False)"

text \<open>Numbers compare by value, and so does a bool with a number.\<close>

definition number :: "reply \<Rightarrow> rat option" where
  "number r = (case r of RInt n \<Rightarrow> Some (of_int n) | RFloat q \<Rightarrow> Some q
     | RBool b \<Rightarrow> Some (if b then 1 else 0) | _ \<Rightarrow> None)"

definition hashable :: "reply \<Rightarrow> bool" where
  "hashable r = (case r of RList _ \<Rightarrow> False | RObj _ \<Rightarrow> False | _ \<Rightarrow> True)"

text \<open>\<open>value in {...}\<close>, of a set of texts.\<close>

definition one_of :: "string list \<Rightarrow> string \<Rightarrow> reply \<Rightarrow> contract_error + unit" where
  "one_of options message r =
     (if \<not> hashable r then Inl Type_error else ensure (r \<in> RStr ` set options) message)"

definition is_text :: "nat \<Rightarrow> nat \<Rightarrow> reply \<Rightarrow> bool" where
  "is_text lo hi r = (case r of RStr s \<Rightarrow> lo \<le> length s \<and> length s \<le> hi | _ \<Rightarrow> False)"

text \<open>\<open>re.fullmatch(pattern, value)\<close>.\<close>

definition full_match :: "(string \<Rightarrow> bool) \<Rightarrow> string \<Rightarrow> reply \<Rightarrow> contract_error + unit" where
  "full_match p message r =
     (case r of RStr s \<Rightarrow> ensure (p s) message | _ \<Rightarrow> Inl Type_error)"

text \<open>\<open>for x in value\<close> and \<open>frozenset(value)\<close>: a list has its elements, a text its characters and
  a dict its keys.\<close>

definition elements :: "reply \<Rightarrow> contract_error + reply list" where
  "elements value =
     (case value of
        RObj ms \<Rightarrow> Inr (map (RStr \<circ> fst) (dict_items ms))
      | RStr s \<Rightarrow> Inr (map (\<lambda>c. RStr [c]) s)
      | RList rs \<Rightarrow> Inr rs
      | _ \<Rightarrow> Inl Type_error)"

definition name_set :: "reply \<Rightarrow> contract_error + reply set" where
  "name_set value =
     check_then (elements value) (\<lambda>rs. if list_all hashable rs then Inr (set rs) else Inl Type_error)"

text \<open>
  The names in excess are sorted for the message, which fails when they do not compare. A list
  with exactly the expected names passes here, and its first subscript with a text raises.
\<close>

definition sortable :: "reply set \<Rightarrow> bool" where
  "sortable rs \<longleftrightarrow> (\<forall>r \<in> rs. str_value r \<noteq> None) \<or> (\<forall>r \<in> rs. number r \<noteq> None) \<or>
     (\<forall>r \<in> rs. \<forall>t \<in> rs. r = t)"

definition require_exact_fields :: "reply \<Rightarrow> string list \<Rightarrow> string \<Rightarrow> contract_error + dict" where
  "require_exact_fields value expected label =
     check_then (name_set value) (\<lambda>actual.
       if actual \<noteq> RStr ` set expected
       then (if sortable (actual - RStr ` set expected)
             then Inl (Contract_error (label @ '' fields differ'')) else Inl Type_error)
       else case value of RObj ms \<Rightarrow> Inr ms | _ \<Rightarrow> Inl Type_error)"

definition require_uuid :: "(reply \<Rightarrow> bool) \<Rightarrow> reply \<Rightarrow> string \<Rightarrow> contract_error + unit" where
  "require_uuid parses value label = ensure (parses value) (label @ '' must be a UUID'')"

definition require_claim :: "reply \<Rightarrow> string \<Rightarrow> contract_error + unit" where
  "require_claim value label =
     (case value of
        RStr s \<Rightarrow>
          if \<not> signed_claim s then ensure False (label @ '' must be an opaque signed claim'')
          else ensure (\<not> contains ''://'' s) (label @ '' must not be a URL'')
      | _ \<Rightarrow> ensure False (label @ '' must be an opaque signed claim''))"

definition require_nonnegative_int :: "reply \<Rightarrow> string \<Rightarrow> contract_error + unit" where
  "require_nonnegative_int value label =
     ensure (case value of RInt n \<Rightarrow> 0 \<le> n | _ \<Rightarrow> False) (label @ '' must be a non-negative integer'')"

section \<open>Requests\<close>

definition validate_request :: "(reply \<Rightarrow> bool) \<Rightarrow> dict \<Rightarrow> contract_error + unit" where
  "validate_request parses value =
     check_then (require_exact_fields (RObj value) REQUEST_FIELDS ''request'') (\<lambda>v. check_all
       [require_uuid parses (item v ''job_id'') ''job_id'',
        require_uuid parses (item v ''attempt_id'') ''attempt_id'',
        ensure (item v ''workflow_id'' = RStr WORKFLOW_ID) ''workflow_id is not the fixed system workflow'',
        ensure (is_text 1 2000 (item v ''prompt''))
          ''prompt length must be between 1 and 2000 characters'',
        ensure (item v ''duration_ms'' \<in> {RInt 5000, RFloat 5000})
          ''only five-second generation is allowed'',
        one_of [''16:9'', ''9:16''] ''only 16:9 and 9:16 are allowed'' (item v ''aspect_ratio''),
        ensure (item v ''resolution'' = RStr ''720p'') ''only 720p is allowed'',
        require_claim (item v ''input_claim'') ''input_claim'',
        require_claim (item v ''output_claim'') ''output_claim'',
        require_claim (item v ''callback_claim'') ''callback_claim''])"

section \<open>Responses\<close>

definition ALLOWED_ERROR_CODES :: "string list" where
  "ALLOWED_ERROR_CODES = [''INVALID_INPUT'', ''POLICY_REJECTED'', ''WORKER_INTERRUPTED'',
     ''MODEL_LOAD_FAILED'', ''OUT_OF_MEMORY'', ''WORKFLOW_FAILED'', ''ASSET_DOWNLOAD_FAILED'',
     ''OUTPUT_UPLOAD_FAILED'', ''OUTPUT_MISSING'', ''OUTPUT_CORRUPTED'', ''INTERNAL_ERROR'']"

definition require_positive :: "dict \<Rightarrow> string \<Rightarrow> contract_error + unit" where
  "require_positive v field =
     check_then (require_nonnegative_int (item v field) (''output.'' @ field)) (\<lambda>_.
       ensure (item v field \<noteq> RInt 0) (''output.'' @ field @ '' must be positive''))"

definition validate_output :: "reply \<Rightarrow> contract_error + unit" where
  "validate_output output =
     (let names = (case output of RObj ms \<Rightarrow> map fst ms | _ \<Rightarrow> []) in
      check_then (require_exact_fields output
          ([''claim'', ''object_key'', ''media_type'', ''duration_ms'', ''width'', ''height'',
            ''fps'', ''codec''] @ filter (\<lambda>n. n \<in> set names) [''size_bytes'', ''sha256'']) ''output'')
        (\<lambda>v. check_all
         [ensure (case get_item v ''size_bytes'' of None \<Rightarrow> True | Some RNull \<Rightarrow> True
             | Some (RInt _) \<Rightarrow> True | _ \<Rightarrow> False) ''output.size_bytes must be an integer or null'',
          ensure (case get_item v ''sha256'' of None \<Rightarrow> True | Some RNull \<Rightarrow> True
             | Some (RStr _) \<Rightarrow> True | _ \<Rightarrow> False) ''output.sha256 must be a string or null'',
          require_positive v ''duration_ms'', require_positive v ''width'',
          require_positive v ''height'',
          ensure (case item v ''fps'' of RInt n \<Rightarrow> 0 < n \<and> n \<le> 240 | RFloat q \<Rightarrow> 0 < q \<and> q \<le> 240
             | _ \<Rightarrow> False) ''output.fps is invalid'',
          ensure (is_text 1 32 (item v ''codec'')) ''output.codec is invalid'',
          require_claim (item v ''claim'') ''output.claim'',
          ensure (case item v ''object_key'' of
              RStr key \<Rightarrow> 1 \<le> length key \<and> length key \<le> 255 \<and> safe_object_key key
            | _ \<Rightarrow> False) ''output.object_key is invalid'',
          ensure (item v ''media_type'' = RStr ''video/mp4'') ''output must be video/mp4'']))"

definition validate_error :: "reply \<Rightarrow> contract_error + unit" where
  "validate_error err =
     check_then (require_exact_fields err [''code'', ''message''] ''error'') (\<lambda>v. check_all
       [one_of ALLOWED_ERROR_CODES ''worker error code is outside the closed contract'' (item v ''code''),
        ensure (is_text 1 1000 (item v ''message'')) ''worker error message is invalid''])"

definition METRIC_FIELDS :: "string list" where
  "METRIC_FIELDS = [''gpu'', ''queue_ms'', ''cold_start_ms'', ''runtime_ms'', ''billable_ms'',
     ''cost_minor'', ''currency'', ''cost_source'']"

definition validate_metrics :: "reply \<Rightarrow> contract_error + unit" where
  "validate_metrics metrics =
     check_then (require_exact_fields metrics METRIC_FIELDS ''metrics'') (\<lambda>v. check_all (
       ensure (is_text 1 200 (item v ''gpu'')) ''metrics.gpu must identify the provider GPU'' #
       map (\<lambda>field. require_nonnegative_int (item v field) (''metrics.'' @ field))
         [''queue_ms'', ''cold_start_ms'', ''runtime_ms'', ''billable_ms'', ''cost_minor''] @
       [full_match currency_code ''metrics.currency must be an ISO-style currency code''
          (item v ''currency''),
        one_of [''ACTUAL'', ''ESTIMATE''] ''metrics.cost_source is invalid'' (item v ''cost_source'')]))"

definition VERSION_FIELDS :: "string list" where
  "VERSION_FIELDS = [''worker_comfyui'', ''worker_commit'', ''comfyui_commit'', ''comfy_cli'',
     ''image_digest'', ''workflow_id'', ''workflow_sha256'', ''model_sha256'']"

definition expected_versions :: "string \<Rightarrow> (string \<times> string) list" where
  "expected_versions workflow_sha256 =
     [(''worker_comfyui'', WORKER_COMFYUI_VERSION), (''worker_commit'', WORKER_COMFYUI_COMMIT),
      (''comfyui_commit'', COMFYUI_COMMIT), (''comfy_cli'', COMFY_CLI_VERSION),
      (''workflow_id'', WORKFLOW_ID), (''workflow_sha256'', workflow_sha256)]"

text \<open>\<open>any(...)\<close> stops at the first digest that is not one.\<close>

definition validate_models :: "reply \<Rightarrow> contract_error + unit" where
  "validate_models hashes =
     (case hashes of
        RObj ms \<Rightarrow>
          if ms = [] then ensure False ''at least one model SHA-256 is required in a success response''
          else check_all (map (\<lambda>(_, digest). full_match (hex_digest 64)
            ''model_sha256 contains an invalid digest'' digest) (dict_items ms))
      | _ \<Rightarrow> ensure False ''at least one model SHA-256 is required in a success response'')"

definition validate_versions :: "string \<Rightarrow> reply \<Rightarrow> contract_error + unit" where
  "validate_versions workflow_sha256 versions =
     check_then (require_exact_fields versions VERSION_FIELDS ''versions'') (\<lambda>v. check_all (
       map (\<lambda>(field, expected). ensure (item v field = RStr expected)
           (''versions.'' @ field @ '' is not pinned to '' @ expected))
         (expected_versions workflow_sha256) @
       [validate_models (item v ''model_sha256''),
        full_match DIGEST_PATTERN ''versions.image_digest is invalid'' (item v ''image_digest'')]))"

definition validate_response ::
  "(reply \<Rightarrow> bool) \<Rightarrow> dict \<Rightarrow> string \<Rightarrow> contract_error + unit" where
  "validate_response parses value workflow_sha256 =
     check_then (require_exact_fields (RObj value) RESPONSE_FIELDS ''response'') (\<lambda>v. check_all
       [require_uuid parses (item v ''attempt_id'') ''attempt_id'',
        one_of [''SUCCEEDED'', ''FAILED''] ''response status is invalid'' (item v ''status''),
        (if item v ''status'' = RStr ''SUCCEEDED''
         then check_then (ensure (item v ''error'' = RNull \<and> is_object (item v ''output''))
             ''successful response must contain only output'') (\<lambda>_. validate_output (item v ''output''))
         else check_then (ensure (item v ''output'' = RNull \<and> is_object (item v ''error''))
             ''failed response must contain only error'') (\<lambda>_. validate_error (item v ''error''))),
        validate_metrics (item v ''metrics''),
        validate_versions workflow_sha256 (item v ''versions'')])"

section \<open>The repository\<close>

text \<open>
  The files under the root: whether the package has its own contract directory, the JSON and
  the bytes of a file (None when it cannot be read), and the request fixtures in their order.
\<close>

record repository =
  rf_packaged :: bool
  rf_json :: "string \<Rightarrow> reply option"
  rf_bytes :: "string \<Rightarrow> string option"
  rf_request_fixtures :: "string \<Rightarrow> string list"

definition repository_paths :: "repository \<Rightarrow> string \<times> string \<times> string option" where
  "repository_paths repo =
     (if rf_packaged repo then (''contract'', ''workflow'', None)
      else (''workers/runpod-comfyui/contract'', ''workflows/manifests/'' @ WORKFLOW_ID,
        Some ''workers/runpod-comfyui/''))"

definition load_json :: "repository \<Rightarrow> string \<Rightarrow> contract_error + dict" where
  "load_json repo file =
     (case rf_json repo file of
        None \<Rightarrow> Inl File_error
      | Some (RObj ms) \<Rightarrow> Inr ms
      | Some _ \<Rightarrow> Inl (Contract_error (file @ '' must contain a JSON object'')))"

text \<open>\<open>value[name]\<close>, \<open>value.get(name)\<close> and the truth of a value.\<close>

definition sub :: "reply \<Rightarrow> string \<Rightarrow> contract_error + reply" where
  "sub r name =
     (case r of
        RObj ms \<Rightarrow> (case get_item ms name of None \<Rightarrow> Inl Key_error | Some v \<Rightarrow> Inr v)
      | _ \<Rightarrow> Inl Type_error)"

definition get_from :: "reply \<Rightarrow> string \<Rightarrow> reply \<Rightarrow> contract_error + reply" where
  "get_from r name otherwise =
     (case r of
        RObj ms \<Rightarrow> Inr (case get_item ms name of None \<Rightarrow> otherwise | Some v \<Rightarrow> v)
      | _ \<Rightarrow> Inl Attribute_error)"

definition truthy :: "reply \<Rightarrow> bool" where
  "truthy r = (case r of RNull \<Rightarrow> False | RBool b \<Rightarrow> b | RInt n \<Rightarrow> n \<noteq> 0 | RFloat q \<Rightarrow> q \<noteq> 0
     | RStr s \<Rightarrow> s \<noteq> [] | RList rs \<Rightarrow> rs \<noteq> [] | RObj ms \<Rightarrow> ms \<noteq> [])"

definition require_sub :: "reply \<Rightarrow> string \<Rightarrow> (reply \<Rightarrow> bool) \<Rightarrow> string \<Rightarrow> contract_error + unit" where
  "require_sub r name ok message = check_then (sub r name) (\<lambda>v. ensure (ok v) message)"

fun count_from :: "string \<Rightarrow> nat \<Rightarrow> string \<Rightarrow> nat" where
  "count_from p skip [] = 0"
| "count_from p (Suc k) (c # s) = count_from p k s"
| "count_from p 0 (c # s) =
     (if take (length p) (c # s) = p then Suc (count_from p (length p - 1) s) else count_from p 0 s)"

definition count_text :: "string \<Rightarrow> string \<Rightarrow> nat" where
  "count_text p s = count_from p 0 s"

fun unix_lines :: "string \<Rightarrow> string" where
  "unix_lines [] = []"
| "unix_lines [c] = [c]"
| "unix_lines (c # d # s) =
     (if c = CHR 0x0D \<and> d = CHR 0x0A then d # unix_lines s else c # unix_lines (d # s))"

definition validate_schema :: "dict \<Rightarrow> string list \<Rightarrow> string \<Rightarrow> contract_error + unit" where
  "validate_schema schema expected message =
     check_then (ensure (get_item schema ''additionalProperties'' = Some (RBool False)) message) (\<lambda>_.
     check_then (name_set (case get_item schema ''properties'' of None \<Rightarrow> RObj [] | Some p \<Rightarrow> p)) (\<lambda>names.
       ensure (names = RStr ` set expected) message))"

definition dimensions_are :: "int \<Rightarrow> int \<Rightarrow> reply \<Rightarrow> bool" where
  "dimensions_are width height r =
     (case r of
        RObj ms \<Rightarrow> set (map fst ms) = {''width'', ''height''} \<and>
          number (item ms ''width'') = Some (of_int width) \<and>
          number (item ms ''height'') = Some (of_int height)
      | _ \<Rightarrow> False)"

definition approved_dimensions :: "reply \<Rightarrow> bool" where
  "approved_dimensions r =
     (case r of
        RObj ms \<Rightarrow> set (map fst ms) = {''16:9'', ''9:16''} \<and>
          dimensions_are 1280 720 (item ms ''16:9'') \<and> dimensions_are 720 1280 (item ms ''9:16'')
      | _ \<Rightarrow> False)"

definition FIXED_MODEL_FILES :: "string list" where
  "FIXED_MODEL_FILES = [''wan2.1_i2v_14B_fp8_e4m3fn.safetensors'',
     ''umt5_xxl_fp8_e4m3fn_scaled.safetensors'', ''wan_2.1_vae.safetensors'']"

definition ends_with :: "string \<Rightarrow> string \<Rightarrow> bool" where
  "ends_with p s \<longleftrightarrow> length p \<le> length s \<and> drop (length s - length p) s = p"

text \<open>The model files the nodes of the workflow name in their inputs.\<close>

definition node_files :: "reply \<Rightarrow> contract_error + string list" where
  "node_files node =
     check_then (get_from node ''inputs'' (RObj [])) (\<lambda>inputs.
       case inputs of
         RObj ms \<Rightarrow> Inr (filter (ends_with ''.safetensors'')
           (List.map_filter str_value (map snd (dict_items ms))))
       | _ \<Rightarrow> Inl Attribute_error)"

fun workflow_files :: "reply list \<Rightarrow> contract_error + string list" where
  "workflow_files [] = Inr []"
| "workflow_files (node # nodes) =
     check_then (node_files node) (\<lambda>fs. check_then (workflow_files nodes) (\<lambda>gs. Inr (fs @ gs)))"

definition validate_workflow ::
  "(string \<Rightarrow> string) \<Rightarrow> (reply \<Rightarrow> string) \<Rightarrow> repository \<Rightarrow> string \<Rightarrow> contract_error + string" where
  "validate_workflow sha256 dumps repo directory =
     check_then (load_json repo (directory @ ''/manifest.json'')) (\<lambda>manifest.
     check_then (load_json repo (directory @ ''/workflow_api.json'')) (\<lambda>workflow.
     case rf_bytes repo (directory @ ''/workflow_api.json'') of
       None \<Rightarrow> Inl File_error
     | Some bytes \<Rightarrow>
       let workflow_sha256 = sha256 (unix_lines bytes); text = dumps (RObj workflow);
           m = RObj manifest in
       check_then (check_all
         [require_sub m ''workflow_id'' (\<lambda>v. v = RStr WORKFLOW_ID)
            ''workflow manifest does not match the immutable workflow file'',
          require_sub m ''workflow_sha256'' (\<lambda>v. v = RStr workflow_sha256)
            ''workflow manifest does not match the immutable workflow file'',
          require_sub m ''dimensions'' approved_dimensions
            ''workflow dimensions are not the approved 720p pair'',
          ensure (\<not> contains ''://'' text) ''workflow must not contain a URL'',
          check_then (sub m ''fixed_model_files'') (\<lambda>files. check_then (name_set files) (\<lambda>names.
            ensure (names = RStr ` set FIXED_MODEL_FILES) ''workflow model selection is not fixed'')),
          check_then (workflow_files (map snd (dict_items workflow))) (\<lambda>files.
            ensure (set files = set FIXED_MODEL_FILES)
              ''workflow model files differ from the immutable manifest''),
          ensure (count_text ''__SYSTEM_INPUT_FILENAME__'' text = 1 \<and>
              count_text ''__SYSTEM_PROMPT__'' text = 1)
            ''workflow contains an unexpected system binding surface''])
        (\<lambda>_. Inr workflow_sha256)))"

definition validate_upstream :: "reply \<Rightarrow> string \<times> string \<times> string \<Rightarrow> contract_error + unit" where
  "validate_upstream upstream = (\<lambda>(component, version, commit).
     let message = component @ '' baseline does not match the official tag commit'' in
     check_then (sub upstream component) (\<lambda>c. check_all
       [require_sub c ''version'' (\<lambda>v. v = RStr version) message,
        require_sub c ''commit'' (\<lambda>v. v = RStr commit) message]))"

definition validate_skip :: "dict \<Rightarrow> reply \<Rightarrow> reply \<Rightarrow> contract_error + unit" where
  "validate_skip baseline real_poc authorization =
     (let unvalidated = ''skipped POC must remain explicitly unvalidated'';
          supply_chain = ''skipped POC cannot contain fabricated supply-chain evidence'' in
      check_then (get_from (RObj baseline) ''skip_record'' (RObj [])) (\<lambda>skip_record. check_all (
       [require_sub real_poc ''decision'' (\<lambda>v. v = RStr ''SKIPPED_UNVALIDATED'') unvalidated,
        check_then (get_from skip_record ''real_runpod_poc_executed'' RNull)
          (\<lambda>v. ensure (v = RBool False) unvalidated),
        check_then (get_from skip_record ''reason'' RNull)
          (\<lambda>v. ensure (v = RStr ''MISSING_CREDENTIALS_AND_COST_AUTHORIZATION'') unvalidated),
        check_then (get_from authorization ''user_selected_skip'' RNull)
          (\<lambda>v. ensure (v = RBool True) unvalidated)] @
       map (\<lambda>field. require_sub real_poc field (\<lambda>v. v = RNull)
           ''skipped POC cannot contain fabricated runtime evidence'')
         [''image_digest'', ''cold_start_ms'', ''runtime_ms'', ''cost_minor'', ''currency''] @
       [require_sub real_poc ''source_build_verified'' (\<lambda>v. \<not> truthy v) supply_chain,
        require_sub real_poc ''model_sha256'' (\<lambda>v. \<not> truthy v) supply_chain])))"

definition SKIPPED_STATUS :: string where "SKIPPED_STATUS = ''SKIPPED_BY_USER_UNVALIDATED''"
definition BLOCKED_STATUS :: string where
  "BLOCKED_STATUS = ''BLOCKED_PENDING_CREDENTIAL_AND_COST_AUTHORIZATION''"

definition validate_authorization :: "dict \<Rightarrow> contract_error + unit" where
  "validate_authorization baseline =
     check_then (sub (RObj baseline) ''authorization'') (\<lambda>authorization.
     check_then (sub (RObj baseline) ''real_poc'') (\<lambda>real_poc.
     check_then (sub authorization ''credentials_provided'') (\<lambda>credentials.
     check_then (if truthy credentials then sub authorization ''cost_approved'' else Inr credentials)
       (\<lambda>approved.
       if truthy approved then Inr ()
       else
         check_then (sub (RObj baseline) ''poc_status'') (\<lambda>status. check_all
           [one_of [BLOCKED_STATUS, SKIPPED_STATUS] ''unauthorized real POC cannot be marked as passed''
              status,
            require_sub real_poc ''runs'' (\<lambda>v. \<not> truthy v)
              ''real POC results cannot be claimed without authorization'',
            (if status = RStr SKIPPED_STATUS then validate_skip baseline real_poc authorization
             else require_sub real_poc ''decision'' (\<lambda>v. v = RNull)
               ''blocked POC cannot contain a decision'')])))))"

fun aspect_ratios :: "reply list \<Rightarrow> contract_error + reply list" where
  "aspect_ratios [] = Inr []"
| "aspect_ratios (r # rs) =
     check_then (get_from r ''aspect_ratio'' RNull) (\<lambda>v.
       check_then (aspect_ratios rs) (\<lambda>vs. Inr (v # vs)))"

definition validate_evidence :: "(reply \<Rightarrow> string) \<Rightarrow> dict \<Rightarrow> contract_error + unit" where
  "validate_evidence dumps template = check_all
     [require_sub (RObj template) ''status'' (\<lambda>v. v = RStr BLOCKED_STATUS)
        ''evidence template must remain blocked before the paid POC'',
      check_then (sub (RObj template) ''runs'') (\<lambda>runs. check_then (elements runs) (\<lambda>rs.
        check_then (aspect_ratios rs) (\<lambda>vs. ensure (vs = [RStr ''16:9'', RStr ''9:16''])
          ''evidence template must cover both approved aspect ratios''))),
      ensure (\<not> list_ex (\<lambda>field. contains field (dumps (RObj template)))
          [''input_claim'', ''output_claim'', ''callback_claim''])
        ''evidence template must never include storage claims'']"

definition validate_baseline ::
  "(reply \<Rightarrow> string) \<Rightarrow> repository \<Rightarrow> string \<Rightarrow> contract_error + unit" where
  "validate_baseline dumps repo directory =
     check_then (load_json repo (directory @ ''poc-baseline.json'')) (\<lambda>baseline.
     check_then (sub (RObj baseline) ''upstream'') (\<lambda>upstream.
     check_then (check_all (
       map (validate_upstream upstream)
         [(''worker_comfyui'', WORKER_COMFYUI_VERSION, WORKER_COMFYUI_COMMIT),
          (''comfyui'', ''0.29.0'', COMFYUI_COMMIT),
          (''comfy_cli'', COMFY_CLI_VERSION, ''6a5e9d772453f27b0778b14e8a4b1e25ac5f949e'')] @
       [require_sub (RObj baseline) ''adoption_status'' (\<lambda>v. v = RStr ''CONDITIONAL'')
          ''worker-comfyui must remain conditional before the real POC'',
        validate_authorization baseline])) (\<lambda>_.
     check_then (load_json repo (directory @ ''evidence-template.json'')) (validate_evidence dumps))))"

definition validate_repository ::
  "(reply \<Rightarrow> bool) \<Rightarrow> (string \<Rightarrow> string) \<Rightarrow> (reply \<Rightarrow> string) \<Rightarrow> repository \<Rightarrow> string \<Rightarrow> string \<Rightarrow>
   contract_error + unit" where
  "validate_repository parses sha256 dumps repo worker_commit comfyui_commit =
     (let (contract_root, workflow_root, baseline) = repository_paths repo;
          fixture = (\<lambda>name. contract_root @ ''/fixtures/'' @ name) in
      check_then (ensure (worker_commit = WORKER_COMFYUI_COMMIT \<and> comfyui_commit = COMFYUI_COMMIT)
          ''build arguments do not match the accepted upstream commits'') (\<lambda>_.
      check_then (load_json repo (contract_root @ ''/request.schema.json'')) (\<lambda>request_schema.
      check_then (load_json repo (contract_root @ ''/response.schema.json'')) (\<lambda>response_schema.
      check_then (validate_schema request_schema REQUEST_FIELDS
          ''request schema does not match the fail-closed request contract'') (\<lambda>_.
      check_then (validate_schema response_schema RESPONSE_FIELDS
          ''response schema does not match the fail-closed response contract'') (\<lambda>_.
      check_then (validate_workflow sha256 dumps repo workflow_root) (\<lambda>workflow_sha256.
      check_then (check_all (map (\<lambda>file. check_then (load_json repo file) (validate_request parses))
          (rf_request_fixtures repo contract_root))) (\<lambda>_.
      check_then (check_all (map (\<lambda>name. check_then (load_json repo (fixture name))
            (\<lambda>v. validate_response parses v workflow_sha256))
          [''response-success.json'', ''response-failure.json''])) (\<lambda>_.
        case baseline of None \<Rightarrow> Inr ()
        | Some directory \<Rightarrow> validate_baseline dumps repo directory)))))))))"

end
