(* ===== verification/Poc.thy ===== *)
theory Poc
  imports Contract "HOL-Library.List_Lexorder"
begin

text \<open>
  The paid proof of concept (scripts/run_worker_comfyui_poc.py): its configuration, the budget
  of a case, the RunPod client, the run over the two cases with its roll-back, and the clean-up
  from recorded evidence. A \<^verbatim>\<open>Decimal\<close> and a float are rationals (28 digits of precision and NaN
  are not modelled). The file system, the parsers of numbers, HTTP, the clock and what the
  provider answers are parameters; a pass counts its readings of the clock and of the
  provider's status.
\<close>

section \<open>Errors\<close>

datatype poc_error =
    Configuration_error string | Cost_limit_error string | Provider_error string
  | Poc_error string | Contract_raised contract_error | Python_error string

definition poc_then :: "poc_error + 'a \<Rightarrow> ('a \<Rightarrow> poc_error + 'b) \<Rightarrow> poc_error + 'b" where
  "poc_then m f = (case m of Inl e \<Rightarrow> Inl e | Inr x \<Rightarrow> f x)"

lemma poc_then_simps [simp]: "poc_then (Inl e) f = Inl e" "poc_then (Inr x) f = f x"
  by (simp_all add: poc_then_def)

lemma poc_then_Inr_iff: "poc_then m f = Inr y \<longleftrightarrow> (\<exists>x. m = Inr x \<and> f x = Inr y)"
  by (cases m) simp_all

definition demand :: "bool \<Rightarrow> poc_error \<Rightarrow> poc_error + unit" where
  "demand ok e = (if ok then Inr () else Inl e)"

lemma demand_Inr_iff [simp]: "demand ok e = Inr u \<longleftrightarrow> ok"
  by (simp add: demand_def)

section \<open>The world\<close>

text \<open>
  Paths are texts. \<open>fs_resolve\<close> expands and resolves one, \<open>fs_inside\<close> says whether a resolved one
  lies in the repository, \<open>fs_fixture\<close> whether it is a checked-in fixture; \<open>fs_json\<close> is the JSON of
  a file and \<open>fs_docker\<close> that of the docker configuration (None when there is none to read);
  \<open>fs_str\<close> is \<^verbatim>\<open>str\<close> of a JSON value. \<open>Decimal\<close>, \<open>int\<close> and \<open>float\<close> of a text are the last three.
\<close>

datatype decimal = Finite rat | Not_finite

record poc_world =
  fs_resolve :: "string \<Rightarrow> string"
  fs_is_file :: "string \<Rightarrow> bool"
  fs_is_dir :: "string \<Rightarrow> bool"
  fs_is_symlink :: "string \<Rightarrow> bool"
  fs_size :: "string \<Rightarrow> int"
  fs_inside :: "string \<Rightarrow> bool"
  fs_fixture :: "string \<Rightarrow> bool"
  fs_json :: "string \<Rightarrow> reply option"
  fs_docker :: "reply option"
  fs_str :: "reply \<Rightarrow> string"
  fs_uuid :: "reply \<Rightarrow> bool"
  fs_decimal :: "string \<Rightarrow> decimal option"
  fs_int :: "string \<Rightarrow> int option"
  fs_float :: "string \<Rightarrow> rat option"

type_synonym environment = "string \<rightharpoonup> string"

definition env_get :: "environment \<Rightarrow> string \<Rightarrow> string \<Rightarrow> string" where
  "env_get env name otherwise = (case env name of None \<Rightarrow> otherwise | Some v \<Rightarrow> v)"

section \<open>Reading the environment\<close>

definition MAX_COST_LIMIT_USD :: rat where "MAX_COST_LIMIT_USD = 25"
definition MIN_EXECUTION_SECONDS :: int where "MIN_EXECUTION_SECONDS = 30"
definition MAX_CONFIG_BYTES :: int where "MAX_CONFIG_BYTES = 1000000"
definition MAX_HTTP_BYTES :: nat where "MAX_HTTP_BYTES = 1000000"
definition MAX_MEDIA_BYTES :: int where "MAX_MEDIA_BYTES = 512 * 1024 * 1024"

definition parse_decimal ::
  "poc_world \<Rightarrow> string \<Rightarrow> string option \<Rightarrow> rat option \<Rightarrow> poc_error + rat" where
  "parse_decimal fs name raw maximum =
     (case raw of
        None \<Rightarrow> Inl (Configuration_error (name @ '' is required''))
      | Some text \<Rightarrow>
          if list_all space text then Inl (Configuration_error (name @ '' is required''))
          else case fs_decimal fs text of
              None \<Rightarrow> Inl (Configuration_error (name @ '' must be a decimal number''))
            | Some Not_finite \<Rightarrow> Inl (Configuration_error (name @ '' must be positive''))
            | Some (Finite value) \<Rightarrow>
                if value \<le> 0 then Inl (Configuration_error (name @ '' must be positive''))
                else if (case maximum of None \<Rightarrow> False | Some m \<Rightarrow> m < value)
                then Inl (Configuration_error (name @ '' exceeds the safety maximum''))
                else Inr value)"

text \<open>A value that is not a text makes the match raise.\<close>

definition require_id :: "string \<Rightarrow> reply option \<Rightarrow> poc_error + string" where
  "require_id name value =
     (case value of
        Some (RStr s) \<Rightarrow> if id_pattern 1 128 s then Inr s
          else Inl (Configuration_error (name @ '' is missing or invalid''))
      | None \<Rightarrow> Inl (Configuration_error (name @ '' is missing or invalid''))
      | Some RNull \<Rightarrow> Inl (Configuration_error (name @ '' is missing or invalid''))
      | _ \<Rightarrow> Inl (Python_error ''TypeError''))"

definition require_file :: "poc_world \<Rightarrow> string \<Rightarrow> string option \<Rightarrow> poc_error + string" where
  "require_file fs name value =
     (case value of
        None \<Rightarrow> Inl (Configuration_error (name @ '' is required''))
      | Some v \<Rightarrow>
          let p = fs_resolve fs v in
          if \<not> fs_is_file fs p then Inl (Configuration_error (name @ '' does not reference a file''))
          else if MAX_CONFIG_BYTES < fs_size fs p
          then Inl (Configuration_error (name @ '' exceeds the safety size limit''))
          else Inr p)"

definition require_outside_repository :: "poc_world \<Rightarrow> string \<Rightarrow> string \<Rightarrow> poc_error + string" where
  "require_outside_repository fs name p =
     (if fs_inside fs p
      then Inl (Configuration_error (name @ '' must remain outside the repository'')) else Inr p)"

definition registry_host :: "string \<Rightarrow> string" where
  "registry_host img =
     (let first = takeWhile (\<lambda>c. c \<noteq> CHR ''/'') img in
      if CHR ''.'' \<in> set first \<or> CHR '':'' \<in> set first \<or> first = ''localhost'' then first
      else ''docker.io'')"

text \<open>\<open>alias in auths and bool(auths[alias])\<close>, for whatever the member \<open>auths\<close> is.\<close>

definition auths_name :: "reply \<Rightarrow> string list \<Rightarrow> poc_error + bool" where
  "auths_name auths aliases =
     (case auths of
        RObj ms \<Rightarrow> Inr (list_ex (\<lambda>a. case get_item ms a of None \<Rightarrow> False | Some v \<Rightarrow> truthy v) aliases)
      | RList rs \<Rightarrow> if list_ex (\<lambda>a. RStr a \<in> set rs) aliases then Inl (Python_error ''TypeError'')
          else Inr False
      | RStr s \<Rightarrow> if list_ex (\<lambda>a. contains a s) aliases then Inl (Python_error ''TypeError'') else Inr False
      | _ \<Rightarrow> Inl (Python_error ''TypeError''))"

definition docker_config_has_auth :: "poc_world \<Rightarrow> string \<Rightarrow> poc_error + bool" where
  "docker_config_has_auth fs img =
     (case fs_docker fs of
        Some (RObj ms) \<Rightarrow>
          let host = registry_host img in
          auths_name (case get_item ms ''auths'' of None \<Rightarrow> RObj [] | Some a \<Rightarrow> a)
            [host, ''https://'' @ host, ''https://'' @ host @ ''/v1/'']
      | _ \<Rightarrow> Inr False)"

definition present :: "environment \<Rightarrow> string \<Rightarrow> bool" where
  "present env name \<longleftrightarrow> env_get env name [] \<noteq> []"

definition environment_presence :: "poc_world \<Rightarrow> environment \<Rightarrow> poc_error + (string \<times> bool) list" where
  "environment_presence fs env =
     (let img = env_get env ''POC_REGISTRY_IMAGE'' [];
          env_auth = present env ''POC_REGISTRY_USERNAME'' \<and> present env ''POC_REGISTRY_TOKEN'' in
      poc_then (if img = [] then Inr False else docker_config_has_auth fs img) (\<lambda>config_auth. Inr
        [(''runpod_api_key'', present env ''RUNPOD_API_KEY''),
         (''runpod_endpoint_id'', present env ''RUNPOD_ENDPOINT_ID''),
         (''cost_limit'', present env ''POC_COST_LIMIT_USD''),
         (''cost_rate'', present env ''POC_COST_PER_SECOND_USD''),
         (''registry_image'', img \<noteq> []), (''registry_auth'', env_auth \<or> config_auth),
         (''image_digest'', present env ''POC_IMAGE_DIGEST''),
         (''request_16x9'', present env ''POC_REQUEST_16X9''),
         (''request_9x16'', present env ''POC_REQUEST_9X16''),
         (''media_dir'', present env ''POC_MEDIA_DIR''),
         (''model_hashes'', present env ''POC_MODEL_SHA256_JSON'')]))"

definition image_name_char :: "char \<Rightarrow> bool" where
  "image_name_char c \<longleftrightarrow> CHR ''a'' \<le> c \<and> c \<le> CHR ''z'' \<or> CHR ''0'' \<le> c \<and> c \<le> CHR ''9''"

definition image_tag_char :: "char \<Rightarrow> bool" where
  "image_tag_char c \<longleftrightarrow> image_name_char c \<or> CHR ''A'' \<le> c \<and> c \<le> CHR ''Z''"

definition IMAGE_PATTERN :: "string \<Rightarrow> bool" where
  "IMAGE_PATTERN s \<longleftrightarrow>
     (let name = takeWhile (\<lambda>c. c \<noteq> CHR '':'') s; tag = drop (length name + 1) s in
      CHR '':'' \<in> set s \<and> name \<noteq> [] \<and> image_name_char (hd name) \<and>
      list_all (\<lambda>c. image_name_char c \<or> c \<in> set ''._/-'') name \<and>
      tag \<noteq> [] \<and> length tag \<le> 128 \<and> image_tag_char (hd tag) \<and>
      list_all (\<lambda>c. image_tag_char c \<or> c \<in> set ''._-'') tag)"

record poc_config =
  pf_api_key :: string
  pf_endpoint_id :: string
  pf_registry_image :: string
  pf_image_digest :: string
  pf_cost_limit_usd :: rat
  pf_cost_per_second_usd :: rat
  pf_cancellation_reserve_seconds :: int
  pf_poll_seconds :: rat
  pf_request_paths :: "string \<times> string"
  pf_media_dir :: string
  pf_model_hashes :: dict

text \<open>\<open>json.loads\<close> of the model file raises on anything that is not JSON.\<close>

definition model_hashes_of :: "reply option \<Rightarrow> poc_error + dict" where
  "model_hashes_of value =
     (case value of
        None \<Rightarrow> Inl (Python_error ''JSONDecodeError'')
      | Some (RObj ms) \<Rightarrow>
          if ms = [] then Inl (Configuration_error ''POC_MODEL_SHA256_JSON must contain a non-empty object'')
          else if list_ex (\<lambda>(_, v). case v of RStr d \<Rightarrow> \<not> hex_digest 64 d | _ \<Rightarrow> True) (dict_items ms)
          then Inl (Configuration_error ''POC_MODEL_SHA256_JSON contains an invalid digest'')
          else Inr (dict_items ms)
      | Some _ \<Rightarrow> Inl (Configuration_error ''POC_MODEL_SHA256_JSON must contain a non-empty object''))"

definition reserve_seconds_of :: "poc_world \<Rightarrow> environment \<Rightarrow> poc_error + int" where
  "reserve_seconds_of fs env =
     (case fs_int fs (env_get env ''POC_CANCEL_RESERVE_SECONDS'' ''15'') of
        None \<Rightarrow> Inl (Configuration_error ''POC_CANCEL_RESERVE_SECONDS must be an integer'')
      | Some n \<Rightarrow> if 5 \<le> n \<and> n \<le> 60 then Inr n
          else Inl (Configuration_error ''POC_CANCEL_RESERVE_SECONDS must be between 5 and 60''))"

definition poll_seconds_of :: "poc_world \<Rightarrow> environment \<Rightarrow> poc_error + rat" where
  "poll_seconds_of fs env =
     (case fs_float fs (env_get env ''POC_POLL_SECONDS'' ''5'') of
        None \<Rightarrow> Inl (Configuration_error ''POC_POLL_SECONDS must be numeric'')
      | Some q \<Rightarrow> if 1 \<le> q \<and> q \<le> 30 then Inr q
          else Inl (Configuration_error ''POC_POLL_SECONDS must be between 1 and 30''))"

definition outside_file :: "poc_world \<Rightarrow> environment \<Rightarrow> string \<Rightarrow> poc_error + string" where
  "outside_file fs env name =
     poc_then (require_file fs name (env name)) (require_outside_repository fs name)"

definition media_dir_of :: "poc_world \<Rightarrow> environment \<Rightarrow> poc_error + string" where
  "media_dir_of fs env =
     (if \<not> present env ''POC_MEDIA_DIR'' then Inl (Configuration_error ''POC_MEDIA_DIR is required'')
      else
        let media_dir = fs_resolve fs (env_get env ''POC_MEDIA_DIR'' []) in
        if \<not> fs_is_dir fs media_dir
        then Inl (Configuration_error ''POC_MEDIA_DIR must be an existing private directory'')
        else require_outside_repository fs ''POC_MEDIA_DIR'' media_dir)"

definition poc_config_from_env :: "poc_world \<Rightarrow> environment \<Rightarrow> poc_error + poc_config" where
  "poc_config_from_env fs env =
     poc_then (demand (present env ''RUNPOD_API_KEY'') (Configuration_error ''RUNPOD_API_KEY is required'')) (\<lambda>_.
     poc_then (require_id ''RUNPOD_ENDPOINT_ID'' (map_option RStr (env ''RUNPOD_ENDPOINT_ID''))) (\<lambda>endpoint_id.
     let img = env_get env ''POC_REGISTRY_IMAGE'' [];
         env_auth = present env ''POC_REGISTRY_USERNAME'' \<and> present env ''POC_REGISTRY_TOKEN'' in
     poc_then (demand (IMAGE_PATTERN img \<and> \<not> ends_with '':latest'' img)
       (Configuration_error ''POC_REGISTRY_IMAGE must be a non-latest tagged image'')) (\<lambda>_.
     poc_then (if env_auth then Inr True else docker_config_has_auth fs img) (\<lambda>auth.
     poc_then (demand auth (Configuration_error ''isolated registry authentication is required'')) (\<lambda>_.
     let digest = env_get env ''POC_IMAGE_DIGEST'' [] in
     poc_then (demand (DIGEST_PATTERN digest)
       (Configuration_error ''POC_IMAGE_DIGEST must be an immutable sha256 digest'')) (\<lambda>_.
     poc_then (parse_decimal fs ''POC_COST_LIMIT_USD'' (env ''POC_COST_LIMIT_USD'')
       (Some MAX_COST_LIMIT_USD)) (\<lambda>limit.
     poc_then (parse_decimal fs ''POC_COST_PER_SECOND_USD'' (env ''POC_COST_PER_SECOND_USD'') None) (\<lambda>rate.
     poc_then (reserve_seconds_of fs env) (\<lambda>reserve.
     poc_then (poll_seconds_of fs env) (\<lambda>poll_seconds.
     poc_then (outside_file fs env ''POC_REQUEST_16X9'') (\<lambda>first.
     poc_then (outside_file fs env ''POC_REQUEST_9X16'') (\<lambda>second.
     poc_then (media_dir_of fs env) (\<lambda>media_dir.
     poc_then (outside_file fs env ''POC_MODEL_SHA256_JSON'') (\<lambda>models.
     poc_then (model_hashes_of (fs_json fs models)) (\<lambda>model_hashes.
       Inr \<lparr>pf_api_key = env_get env ''RUNPOD_API_KEY'' [], pf_endpoint_id = endpoint_id,
         pf_registry_image = img, pf_image_digest = digest, pf_cost_limit_usd = limit,
         pf_cost_per_second_usd = rate, pf_cancellation_reserve_seconds = reserve,
         pf_poll_seconds = poll_seconds, pf_request_paths = (first, second),
         pf_media_dir = media_dir, pf_model_hashes = model_hashes\<rparr>)))))))))))))))"

definition cleanup_config_from_env :: "environment \<Rightarrow> poc_error + (string \<times> string)" where
  "cleanup_config_from_env env =
     poc_then (demand (present env ''RUNPOD_API_KEY'') (Configuration_error ''RUNPOD_API_KEY is required'')) (\<lambda>_.
     poc_then (require_id ''RUNPOD_ENDPOINT_ID'' (map_option RStr (env ''RUNPOD_ENDPOINT_ID''))) (\<lambda>endpoint_id.
       Inr (env_get env ''RUNPOD_API_KEY'' [], endpoint_id)))"

section \<open>The budget of a case\<close>

definition execution_timeout_ms :: "poc_config \<Rightarrow> nat \<Rightarrow> rat \<Rightarrow> poc_error + int" where
  "execution_timeout_ms config remaining_cases spent_usd =
     (let remaining = pf_cost_limit_usd config - spent_usd in
      if remaining \<le> 0 then Inl (Cost_limit_error ''POC cost limit exhausted'')
      else
        let per_case = remaining / of_nat remaining_cases;
            execution_seconds = \<lfloor>per_case / pf_cost_per_second_usd config\<rfloor> -
              pf_cancellation_reserve_seconds config in
        if execution_seconds < MIN_EXECUTION_SECONDS
        then Inl (Cost_limit_error
          ''remaining cost budget cannot fund the minimum safe execution window'')
        else Inr (execution_seconds * 1000))"

section \<open>The RunPod client\<close>

text \<open>An answer: its length and its JSON (None when it is none), a redirect, or any other failure.\<close>

datatype poc_answer = Answer nat "reply option" | Redirected | No_answer

definition poc_request ::
  "(string \<Rightarrow> string \<Rightarrow> reply option \<Rightarrow> poc_answer) \<Rightarrow> string \<Rightarrow> string \<Rightarrow> string \<Rightarrow> reply option \<Rightarrow>
   poc_error + dict" where
  "poc_request http endpoint_id verb suffix payload =
     (case http verb (''https://api.runpod.ai/v2/'' @ endpoint_id @ ''/'' @ suffix) payload of
        Redirected \<Rightarrow> Inl (Provider_error ''RunPod API redirect was rejected'')
      | No_answer \<Rightarrow> Inl (Provider_error ''RunPod API request failed'')
      | Answer len value \<Rightarrow>
          if MAX_HTTP_BYTES < len
          then Inl (Provider_error ''RunPod API response exceeded the safety limit'')
          else case value of
              None \<Rightarrow> Inl (Provider_error ''RunPod API returned invalid JSON'')
            | Some (RObj ms) \<Rightarrow> Inr ms
            | Some _ \<Rightarrow> Inl (Provider_error ''RunPod API returned an invalid object''))"

definition poc_submit ::
  "(string \<Rightarrow> string \<Rightarrow> reply option \<Rightarrow> poc_answer) \<Rightarrow> string \<Rightarrow> dict \<Rightarrow> int \<Rightarrow> poc_error + string" where
  "poc_submit http endpoint_id request timeout_ms =
     poc_then (poc_request http endpoint_id ''POST'' ''run'' (Some (RObj [(''input'', RObj request),
         (''policy'', RObj [(''executionTimeout'', RInt timeout_ms)])]))) (\<lambda>result.
       require_id ''provider job id'' (get_item result ''id''))"

definition poc_status ::
  "(string \<Rightarrow> string \<Rightarrow> reply option \<Rightarrow> poc_answer) \<Rightarrow> string \<Rightarrow> string \<Rightarrow> poc_error + dict" where
  "poc_status http endpoint_id job_i =
     poc_then (require_id ''provider job id'' (Some (RStr job_i))) (\<lambda>i.
       poc_request http endpoint_id ''GET'' (''status/'' @ i) None)"

definition poc_cancel ::
  "(string \<Rightarrow> string \<Rightarrow> reply option \<Rightarrow> poc_answer) \<Rightarrow> string \<Rightarrow> string \<Rightarrow> poc_error + unit" where
  "poc_cancel http endpoint_id job_i =
     poc_then (require_id ''provider job id'' (Some (RStr job_i))) (\<lambda>i.
     poc_then (poc_request http endpoint_id ''POST'' (''cancel/'' @ i) (Some (RObj []))) (\<lambda>_. Inr ()))"

section \<open>The output of a case\<close>

record media_summary =
  my_codec :: reply
  my_duration_seconds :: rat
  my_width :: int
  my_height :: int
  my_fps :: reply

definition int_value :: "reply option \<Rightarrow> int option" where
  "int_value r = (case r of Some (RInt n) \<Rightarrow> Some n | _ \<Rightarrow> None)"

definition validate_media :: "poc_world \<Rightarrow> string \<Rightarrow> string \<Rightarrow> reply \<Rightarrow> poc_error + media_summary" where
  "validate_media fs file aspect_ratio metadata =
     (let expected = (if aspect_ratio = ''16:9'' then (1280, 720) else (720, 1280)) in
      if \<not> (0 < fs_size fs file \<and> fs_size fs file \<le> MAX_MEDIA_BYTES)
      then Inl (Poc_error ''POC output is empty or exceeds the size limit'')
      else case metadata of
          RObj ms \<Rightarrow>
            (case (int_value (get_item ms ''width''), int_value (get_item ms ''height'')) of
               (Some width, Some height) \<Rightarrow>
                 if get_item ms ''media_type'' \<noteq> Some (RStr ''video/mp4'') \<or>
                    get_item ms ''codec'' \<noteq> Some (RStr ''h264'') \<or> (width, height) \<noteq> expected
                 then Inl (Poc_error ''POC output violates the fixed 720p metadata policy'')
                 else
                   (case int_value (get_item ms ''duration_ms'') of
                      None \<Rightarrow> Inl (Poc_error ''POC output duration is outside the five-second tolerance'')
                    | Some duration \<Rightarrow>
                        if \<not> (4750 \<le> duration \<and> duration \<le> 5250)
                        then Inl (Poc_error ''POC output duration is outside the five-second tolerance'')
                        else if (case get_item ms ''fps'' of
                            Some (RInt n) \<Rightarrow> \<not> (0 < n \<and> n \<le> 240)
                          | Some (RFloat q) \<Rightarrow> \<not> (0 < q \<and> q \<le> 240) | _ \<Rightarrow> True)
                        then Inl (Poc_error ''POC output frame rate is invalid'')
                        else Inr \<lparr>my_codec = item ms ''codec'', my_duration_seconds = of_int duration / 1000,
                          my_width = width, my_height = height, my_fps = item ms ''fps''\<rparr>)
             | _ \<Rightarrow> Inl (Poc_error ''POC output violates the fixed 720p metadata policy''))
        | _ \<Rightarrow> Inl (Python_error ''AttributeError''))"

definition load_request :: "poc_world \<Rightarrow> string \<Rightarrow> string \<Rightarrow> poc_error + dict" where
  "load_request fs file expected_aspect =
     (case fs_json fs file of
        None \<Rightarrow> Inl (Python_error ''JSONDecodeError'')
      | Some (RObj ms) \<Rightarrow>
          (case validate_request (fs_uuid fs) ms of
             Inl e \<Rightarrow> Inl (Contract_raised e)
           | Inr _ \<Rightarrow>
               if item ms ''aspect_ratio'' \<noteq> RStr expected_aspect
               then Inl (Configuration_error ''POC request aspect ratio does not match its assigned case'')
               else if fs_fixture fs (fs_resolve fs file)
               then Inl (Configuration_error ''checked-in synthetic claims cannot be used for a paid POC'')
               else Inr ms)
      | Some _ \<Rightarrow> Inl (Configuration_error ''POC request fixture must contain an object''))"

section \<open>Evidence\<close>

record poc_run =
  pn_attempt_id :: reply
  pn_aspect_ratio :: string
  pn_execution_timeout_ms :: int
  pn_provider_job_id :: "string option"
  pn_status :: string
  pn_gpu :: "reply option"
  pn_queue_ms :: "int option"
  pn_cold_start_ms :: "reply option"
  pn_runtime_ms :: "int option"
  pn_billable_ms :: "int option"
  pn_estimated_cost_usd :: "rat option"
  pn_media_validation :: "media_summary option"

text \<open>
  The fixed parts of the evidence (authorization and supply chain) are the configuration and the
  digest of the workflow; an action is its result. \<open>pe_finished\<close> stands for \<open>finished_at\<close>.
\<close>

record poc_evidence =
  pe_status :: string
  pe_finished :: bool
  pe_config :: poc_config
  pe_workflow_sha256 :: string
  pe_runs :: "poc_run list"
  pe_failures :: "poc_error list"
  pe_estimated_usd :: rat
  pe_cancel_attempts :: nat
  pe_cancel_failures :: nat
  pe_active_jobs_remaining :: nat
  pe_rollback_triggered :: bool
  pe_rollback_status :: string
  pe_rollback_actions :: "bool list"
  pe_decision :: "string option"

definition new_evidence :: "poc_config \<Rightarrow> string \<Rightarrow> poc_evidence" where
  "new_evidence config workflow_sha256 = \<lparr>pe_status = ''RUNNING'', pe_finished = False,
     pe_config = config, pe_workflow_sha256 = workflow_sha256, pe_runs = [], pe_failures = [],
     pe_estimated_usd = 0, pe_cancel_attempts = 0, pe_cancel_failures = 0,
     pe_active_jobs_remaining = 0, pe_rollback_triggered = False,
     pe_rollback_status = ''NOT_REQUIRED'', pe_rollback_actions = [], pe_decision = None\<rparr>"

definition TERMINAL_STATUSES :: "string list" where
  "TERMINAL_STATUSES = [''COMPLETED'', ''FAILED'', ''CANCELLED'', ''TIMED_OUT'']"

definition new_run :: "reply \<Rightarrow> string \<Rightarrow> int \<Rightarrow> poc_run" where
  "new_run attempt_i aspect timeout_ms = \<lparr>pn_attempt_id = attempt_i, pn_aspect_ratio = aspect,
     pn_execution_timeout_ms = timeout_ms, pn_provider_job_id = None, pn_status = ''SUBMITTING'',
     pn_gpu = None, pn_queue_ms = None, pn_cold_start_ms = None, pn_runtime_ms = None,
     pn_billable_ms = None, pn_estimated_cost_usd = None, pn_media_validation = None\<rparr>"

section \<open>Polling\<close>

text \<open>\<open>int\<close> of a float.\<close>

definition truncate_rat :: "rat \<Rightarrow> int" where
  "truncate_rat q = (if 0 \<le> q then \<lfloor>q\<rfloor> else \<lceil>q\<rceil>)"

definition int_of :: "poc_world \<Rightarrow> reply \<Rightarrow> poc_error + int" where
  "int_of fs r =
     (case r of
        RInt n \<Rightarrow> Inr n
      | RBool b \<Rightarrow> Inr (if b then 1 else 0)
      | RFloat q \<Rightarrow> Inr (truncate_rat q)
      | RStr s \<Rightarrow> (case fs_int fs s of None \<Rightarrow> Inl (Python_error ''ValueError'') | Some n \<Rightarrow> Inr n)
      | _ \<Rightarrow> Inl (Python_error ''TypeError''))"

definition known_status :: "dict \<Rightarrow> poc_error + string" where
  "known_status result =
     (case get_item result ''status'' of
        Some (RStr s) \<Rightarrow>
          if s \<in> set (TERMINAL_STATUSES @ [''IN_QUEUE'', ''IN_PROGRESS'']) then Inr s
          else Inl (Provider_error ''RunPod returned an unknown status'')
      | Some (RList _) \<Rightarrow> Inl (Python_error ''TypeError'')
      | Some (RObj _) \<Rightarrow> Inl (Python_error ''TypeError'')
      | _ \<Rightarrow> Inl (Provider_error ''RunPod returned an unknown status''))"

text \<open>
  The loop of a case: \<open>k\<close> is the number of the reading of status and clock, \<open>current\<close> the status
  of the run so far. None would be a loop that never ends.
\<close>

partial_function (option) poc_poll ::
  "(nat \<Rightarrow> poc_error + dict) \<Rightarrow> (nat \<Rightarrow> rat) \<Rightarrow> rat \<Rightarrow> int \<Rightarrow> nat \<Rightarrow> string \<Rightarrow>
   ((poc_error + dict \<times> string \<times> int) \<times> string \<times> nat) option" where
  "poc_poll status clock started timeout_ms k current =
     (case status k of
        Inl e \<Rightarrow> Some (Inl e, current, Suc k)
      | Inr result \<Rightarrow>
          (case known_status result of
             Inl e \<Rightarrow> Some (Inl e, current, Suc k)
           | Inr s \<Rightarrow>
               let elapsed_ms = truncate_rat ((clock k - started) * 1000) in
               if s \<in> set TERMINAL_STATUSES then Some (Inr (result, s, elapsed_ms), s, Suc k)
               else if timeout_ms \<le> elapsed_ms
               then Some (Inl (Cost_limit_error
                 ''provider job exceeded its cost-bounded execution window''), s, Suc k)
               else poc_poll status clock started timeout_ms (Suc k) s))"

section \<open>The run\<close>

record poc_client =
  pv_submit :: "nat \<Rightarrow> dict \<Rightarrow> int \<Rightarrow> poc_error + string"
  pv_status :: "nat \<Rightarrow> string \<Rightarrow> poc_error + dict"
  pv_cancel :: "string \<Rightarrow> poc_error + unit"
  pv_clock :: "nat \<Rightarrow> rat"

text \<open>
  What the function keeps: the evidence, the evidence file, the set of active jobs, the money
  spent and the number of readings so far.
\<close>

record poc_state =
  ps_evidence :: poc_evidence
  ps_file :: "poc_evidence option"
  ps_active :: "string list"
  ps_spent :: rat
  ps_tick :: nat

definition write_evidence :: "poc_state \<Rightarrow> poc_state" where
  "write_evidence st = st\<lparr>ps_file := Some (ps_evidence st)\<rparr>"

definition change_evidence :: "(poc_evidence \<Rightarrow> poc_evidence) \<Rightarrow> poc_state \<Rightarrow> poc_state" where
  "change_evidence f st = st\<lparr>ps_evidence := f (ps_evidence st)\<rparr>"

text \<open>The run in hand is the last one of the evidence.\<close>

definition change_run :: "(poc_run \<Rightarrow> poc_run) \<Rightarrow> poc_state \<Rightarrow> poc_state" where
  "change_run f = change_evidence (\<lambda>e.
     e\<lparr>pe_runs := butlast (pe_runs e) @ [f (last (pe_runs e))]\<rparr>)"

definition begin_case :: "reply \<Rightarrow> string \<Rightarrow> int \<Rightarrow> poc_state \<Rightarrow> poc_state" where
  "begin_case attempt_i aspect timeout_ms st = write_evidence (change_evidence (\<lambda>e.
     e\<lparr>pe_runs := pe_runs e @ [new_run attempt_i aspect timeout_ms]\<rparr>) st)"

definition case_submitted :: "string \<Rightarrow> poc_state \<Rightarrow> poc_state" where
  "case_submitted job_i st =
     change_run (\<lambda>r. r\<lparr>pn_provider_job_id := Some job_i, pn_status := ''SUBMITTED''\<rparr>)
       (st\<lparr>ps_active := List.insert job_i (ps_active st)\<rparr>)"

text \<open>The candidate file of the output: a private MP4 directly in the media directory.\<close>

definition parent_of :: "string \<Rightarrow> string" where
  "parent_of p = (let d = rev (drop 1 (dropWhile (\<lambda>c. c \<noteq> CHR ''/'') (rev p))) in
     if d = [] then ''/'' else d)"

definition media_path_of :: "poc_world \<Rightarrow> string \<Rightarrow> dict \<Rightarrow> poc_error + string" where
  "media_path_of fs media_dir request =
     (let name = (case item request ''attempt_id'' of RStr s \<Rightarrow> s | r \<Rightarrow> fs_str fs r);
          candidate = media_dir @ ''/'' @ name @ ''.mp4'' in
      if \<not> fs_is_file fs candidate \<or> fs_is_symlink fs candidate
      then Inl (Poc_error ''claim collector did not materialize the expected private MP4'')
      else if parent_of (fs_resolve fs candidate) \<noteq> media_dir
      then Inl (Poc_error ''claim collector output escaped the private media directory'')
      else Inr (fs_resolve fs candidate))"

text \<open>The report of a completed job, checked against the worker contract.\<close>

definition completed_output :: "poc_world \<Rightarrow> string \<Rightarrow> dict \<Rightarrow> string \<Rightarrow> poc_error + dict" where
  "completed_output fs workflow_sha256 result status =
     (if status \<noteq> ''COMPLETED'' then Inl (Provider_error (''RunPod job ended with '' @ status))
      else case get_item result ''output'' of
          Some (RObj ms) \<Rightarrow>
            (case validate_response (fs_uuid fs) ms workflow_sha256 of
               Inl e \<Rightarrow> Inl (Contract_raised e) | Inr _ \<Rightarrow> Inr ms)
        | _ \<Rightarrow> Inl (Provider_error ''RunPod completion did not contain a Worker Contract response''))"

definition metric :: "dict \<Rightarrow> string \<Rightarrow> reply" where
  "metric output name = (case item output ''metrics'' of RObj ms \<Rightarrow> item ms name | _ \<Rightarrow> RNull)"

text \<open>\<open>x or y\<close> of a member.\<close>

definition member_or :: "dict \<Rightarrow> string \<Rightarrow> int \<Rightarrow> reply" where
  "member_or result name otherwise =
     (case get_item result name of
        Some v \<Rightarrow> if truthy v then v else RInt otherwise | None \<Rightarrow> RInt otherwise)"

text \<open>The cost of a terminal job and what its report is checked for.\<close>

definition account_case ::
  "poc_world \<Rightarrow> poc_config \<Rightarrow> dict \<Rightarrow> int \<Rightarrow> poc_state \<Rightarrow> (poc_error + unit) \<times> poc_state" where
  "account_case fs config result elapsed_ms st =
     (case poc_then (int_of fs (member_or result ''executionTime'' elapsed_ms)) (\<lambda>billable_ms.
         poc_then (int_of fs (member_or result ''delayTime'' 0)) (\<lambda>queue_ms. Inr (billable_ms, queue_ms))) of
        Inl e \<Rightarrow> (Inl e, st)
      | Inr (billable_ms, queue_ms) \<Rightarrow>
          let cost = of_int billable_ms / 1000 * pf_cost_per_second_usd config;
              spent = ps_spent st + cost;
              st = change_evidence (\<lambda>e. e\<lparr>pe_estimated_usd := spent\<rparr>)
                (change_run (\<lambda>r. r\<lparr>pn_queue_ms := Some queue_ms, pn_runtime_ms := Some billable_ms,
                   pn_billable_ms := Some billable_ms, pn_estimated_cost_usd := Some cost\<rparr>)
                 (st\<lparr>ps_spent := spent\<rparr>))
          in if pf_cost_limit_usd config < spent
             then (Inl (Cost_limit_error ''provider timing exceeded the approved cost limit''), st)
             else (Inr (), st))"

definition validate_case ::
  "poc_world \<Rightarrow> poc_config \<Rightarrow> string \<Rightarrow> dict \<Rightarrow> dict \<Rightarrow> string \<Rightarrow> poc_state \<Rightarrow>
   (poc_error + unit) \<times> poc_state" where
  "validate_case fs config aspect request result status st =
     (case completed_output fs (pe_workflow_sha256 (ps_evidence st)) result status of
        Inl e \<Rightarrow> (Inl e, st)
      | Inr output \<Rightarrow>
          let st = change_run (\<lambda>r. r\<lparr>pn_gpu := Some (metric output ''gpu''),
                pn_cold_start_ms := Some (metric output ''cold_start_ms'')\<rparr>) st
          in (case poc_then (media_path_of fs (pf_media_dir config) request) (\<lambda>file.
                  validate_media fs file aspect (item output ''output'')) of
                Inl e \<Rightarrow> (Inl e, st)
              | Inr summary \<Rightarrow> (Inr (), write_evidence (change_run (\<lambda>r.
                  r\<lparr>pn_media_validation := Some summary, pn_status := ''VALIDATED''\<rparr>) st))))"

definition run_case ::
  "poc_world \<Rightarrow> poc_client \<Rightarrow> poc_config \<Rightarrow> nat \<Rightarrow> string \<Rightarrow> string \<Rightarrow> poc_state \<Rightarrow>
   ((poc_error + unit) \<times> poc_state) option" where
  "run_case fs client config remaining_cases aspect file st =
     (case load_request fs file aspect of
        Inl e \<Rightarrow> Some (Inl e, st)
      | Inr request \<Rightarrow>
          (case execution_timeout_ms config remaining_cases (ps_spent st) of
             Inl e \<Rightarrow> Some (Inl e, st)
           | Inr timeout_ms \<Rightarrow>
               let st = begin_case (item request ''attempt_id'') aspect timeout_ms st; k = ps_tick st in
               (case pv_submit client k request timeout_ms of
                  Inl e \<Rightarrow> Some (Inl e, st)
                | Inr job_i \<Rightarrow>
                    let st = case_submitted job_i st in
                    (case poc_poll (\<lambda>k. pv_status client k job_i) (pv_clock client) (pv_clock client k)
                        timeout_ms (Suc k) ''SUBMITTED'' of
                       None \<Rightarrow> None
                     | Some (answer, status, k') \<Rightarrow>
                         let st = (change_run (\<lambda>r. r\<lparr>pn_status := status\<rparr>) st)\<lparr>ps_tick := k'\<rparr> in
                         (case answer of
                            Inl e \<Rightarrow> Some (Inl e, st)
                          | Inr (result, s, elapsed_ms) \<Rightarrow>
                              let st = st\<lparr>ps_active := filter (\<lambda>j. j \<noteq> job_i) (ps_active st)\<rparr> in
                              (case account_case fs config result elapsed_ms st of
                                 (Inl e, st) \<Rightarrow> Some (Inl e, st)
                               | (Inr _, st) \<Rightarrow>
                                   Some (validate_case fs config aspect request result s st)))))))"

fun run_cases ::
  "poc_world \<Rightarrow> poc_client \<Rightarrow> poc_config \<Rightarrow> (string \<times> string) list \<Rightarrow> poc_state \<Rightarrow>
   ((poc_error + unit) \<times> poc_state) option" where
  "run_cases fs client config [] st = Some (Inr (), st)"
| "run_cases fs client config ((aspect, file) # rest) st =
     (case run_case fs client config (Suc (length rest)) aspect file st of
        None \<Rightarrow> None
      | Some (Inl e, st) \<Rightarrow> Some (Inl e, st)
      | Some (Inr _, st) \<Rightarrow> run_cases fs client config rest st)"

text \<open>The roll-back: every job that is still active is cancelled, in the order of their names.\<close>

fun cancel_active :: "poc_client \<Rightarrow> string list \<Rightarrow> poc_evidence \<Rightarrow> poc_evidence" where
  "cancel_active client [] e = e"
| "cancel_active client (j # js) e =
     (let ok = (case pv_cancel client j of Inl _ \<Rightarrow> False | Inr _ \<Rightarrow> True) in
      cancel_active client js
        (e\<lparr>pe_cancel_attempts := pe_cancel_attempts e + 1,
           pe_cancel_failures := pe_cancel_failures e + (if ok then 0 else 1),
           pe_rollback_actions := pe_rollback_actions e @ [ok]\<rparr>))"

definition mark_outcome :: "poc_error + unit \<Rightarrow> poc_evidence \<Rightarrow> poc_evidence" where
  "mark_outcome outcome e =
     (case outcome of
        Inr _ \<Rightarrow> e\<lparr>pe_status := ''SUCCEEDED'', pe_decision := Some ''PENDING_HUMAN_REVIEW''\<rparr>
      | Inl err \<Rightarrow> e\<lparr>pe_status := ''FAILED'', pe_rollback_triggered := True,
          pe_rollback_status := ''RUNNING'', pe_failures := pe_failures e @ [err]\<rparr>)"

definition finish_evidence :: "poc_client \<Rightarrow> string list \<Rightarrow> poc_evidence \<Rightarrow> poc_evidence" where
  "finish_evidence client jobs e =
     (let e = cancel_active client (sort jobs) e;
          e = e\<lparr>pe_active_jobs_remaining := pe_cancel_failures e\<rparr> in
      e\<lparr>pe_rollback_status := (if pe_rollback_triggered e
          then (if pe_active_jobs_remaining e = 0 then ''COMPLETED'' else ''INCOMPLETE'')
          else pe_rollback_status e), pe_finished := True\<rparr>)"

text \<open>
  \<open>workflow_sha256\<close> is what the manifest of the workflow holds, None when it cannot be read;
  the exception of a failed run is raised again after the roll-back.
\<close>

definition run_paid_poc ::
  "poc_world \<Rightarrow> poc_client \<Rightarrow> poc_config \<Rightarrow> string option \<Rightarrow>
   ((poc_error + poc_evidence) \<times> poc_state option) option" where
  "run_paid_poc fs client config workflow_sha256 =
     (case workflow_sha256 of
        None \<Rightarrow> Some (Inl (Python_error ''manifest''), None)
      | Some sha \<Rightarrow>
          let e = new_evidence config sha;
              st = \<lparr>ps_evidence = e, ps_file = Some e, ps_active = [], ps_spent = 0, ps_tick = 0\<rparr> in
          (case run_cases fs client config [(''16:9'', fst (pf_request_paths config)),
               (''9:16'', snd (pf_request_paths config))] st of
             None \<Rightarrow> None
           | Some (outcome, st) \<Rightarrow>
               let st = write_evidence (change_evidence (\<lambda>e.
                     finish_evidence client (ps_active st) (mark_outcome outcome e)) st)
               in Some (case outcome of Inl err \<Rightarrow> Inl err | Inr _ \<Rightarrow> Inr (ps_evidence st), Some st)))"

section \<open>Cleaning up from the evidence file\<close>

definition unfinished_run :: "poc_run \<Rightarrow> bool" where
  "unfinished_run r \<longleftrightarrow> (case pn_provider_job_id r of None \<Rightarrow> False | Some j \<Rightarrow> j \<noteq> []) \<and>
     pn_status r \<notin> set (TERMINAL_STATUSES @ [''VALIDATED''])"

fun cleanup_runs :: "poc_client \<Rightarrow> poc_run list \<Rightarrow> poc_evidence \<Rightarrow> nat \<times> nat \<times> poc_run list \<times> poc_evidence" where
  "cleanup_runs client [] e = (0, 0, [], e)"
| "cleanup_runs client (r # rs) e =
     (if \<not> unfinished_run r
      then (case cleanup_runs client rs e of (ok, failures, rs, e) \<Rightarrow> (ok, failures, r # rs, e))
      else
        (case poc_then (require_id ''provider job id'' (map_option RStr (pn_provider_job_id r)))
             (pv_cancel client) of
           Inr _ \<Rightarrow>
             (case cleanup_runs client rs (e\<lparr>pe_cancel_attempts := pe_cancel_attempts e + 1,
                  pe_rollback_actions := pe_rollback_actions e @ [True]\<rparr>) of
                (ok, failures, rs, e) \<Rightarrow>
                  (Suc ok, failures, r\<lparr>pn_status := ''CANCELLED_BY_CLEANUP''\<rparr> # rs, e))
         | Inl _ \<Rightarrow>
             (case cleanup_runs client rs (e\<lparr>pe_cancel_attempts := pe_cancel_attempts e + 1,
                  pe_cancel_failures := pe_cancel_failures e + 1,
                  pe_rollback_actions := pe_rollback_actions e @ [False]\<rparr>) of
                (ok, failures, rs, e) \<Rightarrow> (ok, Suc failures, r # rs, e))))"

definition cleanup_from_evidence ::
  "poc_client \<Rightarrow> poc_evidence \<Rightarrow> (poc_error + nat) \<times> poc_evidence" where
  "cleanup_from_evidence client e =
     (case cleanup_runs client (pe_runs e)
         (e\<lparr>pe_rollback_triggered := True, pe_rollback_status := ''RUNNING''\<rparr>) of
        (cancelled, failures, runs, e) \<Rightarrow>
          (if failures \<noteq> 0
           then Inl (Provider_error ''one or more recorded provider jobs could not be cancelled'')
           else Inr cancelled,
           e\<lparr>pe_runs := runs, pe_active_jobs_remaining := failures,
             pe_rollback_status := (if failures = 0 then ''COMPLETED'' else ''INCOMPLETE''),
             pe_finished := True\<rparr>))"

end
