(* ===== verification/PocInv.thy ===== *)
theory PocInv
  imports Poc
begin

text \<open>
  What the paid proof of concept promises: a window is only opened when the money for it is
  there, every run ends with its evidence written and its active jobs cancelled, and what an
  interruption leaves behind.
\<close>

section \<open>The money\<close>


definition sample_poc :: poc_config where
  "sample_poc = \<lparr>pf_api_key = ''key'', pf_endpoint_id = ''endpoint'', pf_registry_image = ''registry/img:1'',
     pf_image_digest = ''sha256:0'', pf_cost_limit_usd = 1, pf_cost_per_second_usd = 1 / 1000,
     pf_cancellation_reserve_seconds = 15, pf_poll_seconds = 5,
     pf_request_paths = (''/a.json'', ''/b.json''), pf_media_dir = ''/media'',
     pf_model_hashes = [(''m'', RStr [])]\<rparr>"

lemma sample_poc_window: "execution_timeout_ms sample_poc 2 0 = Inr 485000"
  by (simp add: execution_timeout_ms_def sample_poc_def MIN_EXECUTION_SECONDS_def)


section \<open>Polling ends\<close>

lemma poc_poll_returns:
  assumes "timeout_ms \<le> truncate_rat ((clock (k + n) - started) * 1000)"
  shows "\<exists>y. poc_poll status clock started timeout_ms k current = Some y"
  using assms
proof (induction n arbitrary: k current)
  case 0
  then show ?case by (subst poc_poll.simps) (auto simp: Let_def split: sum.splits)
next
  case (Suc n)
  from Suc.IH [of "Suc k"] Suc.prems have "\<exists>y. poc_poll status clock started timeout_ms (Suc k) c = Some y" for c
    by simp
  then show ?case by (subst poc_poll.simps) (auto simp: Let_def split: sum.splits)
qed

lemma poc_poll_result:
  assumes "poc_poll status clock started timeout_ms k current = Some (answer, s, k')"
    and "current \<notin> set TERMINAL_STATUSES" "current \<noteq> ''VALIDATED''"
  shows "k < k' \<and> (case answer of Inl _ \<Rightarrow> s \<notin> set TERMINAL_STATUSES \<and> s \<noteq> ''VALIDATED''
    | Inr (result, s', _) \<Rightarrow> s' = s \<and> s \<in> set TERMINAL_STATUSES)"
proof -
  have known: "s \<in> set TERMINAL_STATUSES \<or> s = ''IN_QUEUE'' \<or> s = ''IN_PROGRESS''"
    if "known_status r = Inr s" for r s
    using that by (auto simp: known_status_def split: option.splits reply.splits if_splits)
  have "current \<notin> set TERMINAL_STATUSES \<and> current \<noteq> ''VALIDATED'' \<longrightarrow>
      k < snd (snd (answer, s, k')) \<and> (case fst (answer, s, k') of
        Inl _ \<Rightarrow> fst (snd (answer, s, k')) \<notin> set TERMINAL_STATUSES \<and> fst (snd (answer, s, k')) \<noteq> ''VALIDATED''
      | Inr (result, s', _) \<Rightarrow> s' = fst (snd (answer, s, k')) \<and> s' \<in> set TERMINAL_STATUSES)"
  proof (rule poc_poll.raw_induct [where P = "\<lambda>status clock started timeout_ms k current y.
      current \<notin> set TERMINAL_STATUSES \<and> current \<noteq> ''VALIDATED'' \<longrightarrow>
      k < snd (snd y) \<and> (case fst y of
        Inl _ \<Rightarrow> fst (snd y) \<notin> set TERMINAL_STATUSES \<and> fst (snd y) \<noteq> ''VALIDATED''
      | Inr (result, s', _) \<Rightarrow> s' = fst (snd y) \<and> s' \<in> set TERMINAL_STATUSES)", OF _ assms(1)],
      intro impI, elim conjE)
    fix self status clock started timeout_ms k current y
    assume IH: "\<And>status clock started timeout_ms k current y.
        self status clock started timeout_ms k current = Some y \<Longrightarrow>
        current \<notin> set TERMINAL_STATUSES \<and> current \<noteq> ''VALIDATED'' \<longrightarrow>
        k < snd (snd y) \<and> (case fst y of
          Inl _ \<Rightarrow> fst (snd y) \<notin> set TERMINAL_STATUSES \<and> fst (snd y) \<noteq> ''VALIDATED''
        | Inr (result, s', _) \<Rightarrow> s' = fst (snd y) \<and> s' \<in> set TERMINAL_STATUSES)"
      and body: "(case status k of Inl e \<Rightarrow> Some (Inl e, current, Suc k)
      | Inr result \<Rightarrow>
          (case known_status result of
             Inl e \<Rightarrow> Some (Inl e, current, Suc k)
           | Inr s \<Rightarrow>
               let elapsed_ms = truncate_rat ((clock k - started) * 1000) in
               if s \<in> set TERMINAL_STATUSES then Some (Inr (result, s, elapsed_ms), s, Suc k)
               else if timeout_ms \<le> elapsed_ms
               then Some (Inl (Cost_limit_error
                 ''provider job exceeded its cost-bounded execution window''), s, Suc k)
               else self status clock started timeout_ms (Suc k) s)) = Some y"
      and current: "current \<notin> set TERMINAL_STATUSES" "current \<noteq> ''VALIDATED''"
    show "k < snd (snd y) \<and> (case fst y of
        Inl _ \<Rightarrow> fst (snd y) \<notin> set TERMINAL_STATUSES \<and> fst (snd y) \<noteq> ''VALIDATED''
      | Inr (result, s', _) \<Rightarrow> s' = fst (snd y) \<and> s' \<in> set TERMINAL_STATUSES)"
    proof (cases "status k")
      case (Inl e)
      with body current show ?thesis by auto
    next
      case (Inr result)
      note r = this
      show ?thesis
      proof (cases "known_status result")
        case (Inl e)
        with body current r show ?thesis by auto
      next
        case (Inr s)
        from known [OF this] have s: "s \<noteq> ''VALIDATED''" by (auto simp: TERMINAL_STATUSES_def)
        consider (ended) "s \<in> set TERMINAL_STATUSES"
          | (late) "s \<notin> set TERMINAL_STATUSES" "timeout_ms \<le> truncate_rat ((clock k - started) * 1000)"
          | (again) "s \<notin> set TERMINAL_STATUSES" "self status clock started timeout_ms (Suc k) s = Some y"
          using body r Inr by (auto simp: Let_def split: if_splits)
        then show ?thesis
        proof cases
          case again
          from IH [OF again(2)] again(1) s show ?thesis by simp
        qed (use body r Inr s in \<open>auto simp: Let_def\<close>)
      qed
    qed
  qed
  with assms(2,3) show ?thesis by (cases answer) auto
qed

section \<open>A case\<close>

text \<open>What a run says to the roll-back: its status, its job and its aspect ratio.\<close>

definition outline :: "poc_state \<Rightarrow> (string \<times> string option \<times> string) list" where
  "outline st = map (\<lambda>r. (pn_status r, pn_provider_job_id r, pn_aspect_ratio r))
     (pe_runs (ps_evidence st))"

text \<open>Nothing was rolled back or failed yet.\<close>

definition fresh :: "poc_state \<Rightarrow> bool" where
  "fresh st \<longleftrightarrow> pe_cancel_attempts (ps_evidence st) = 0 \<and> pe_cancel_failures (ps_evidence st) = 0 \<and>
     \<not> pe_rollback_triggered (ps_evidence st) \<and> pe_rollback_actions (ps_evidence st) = [] \<and>
     pe_rollback_status (ps_evidence st) = ''NOT_REQUIRED'' \<and> pe_failures (ps_evidence st) = []"

text \<open>Every job that is not known to have ended is among the active ones.\<close>

definition tracked :: "poc_state \<Rightarrow> bool" where
  "tracked st \<longleftrightarrow> (\<forall>(s, j, _) \<in> set (outline st). j = None \<or> s \<in> set (TERMINAL_STATUSES @ [''VALIDATED'']) \<or>
     j \<in> Some ` set (ps_active st))"

definition all_validated :: "poc_state \<Rightarrow> bool" where
  "all_validated st \<longleftrightarrow> (\<forall>(s, _) \<in> set (outline st). s = ''VALIDATED'') \<and> ps_active st = []"

lemma outline_write [simp]:
  "outline (write_evidence st) = outline st" "fresh (write_evidence st) = fresh st"
  "ps_active (write_evidence st) = ps_active st" "ps_spent (write_evidence st) = ps_spent st"
  "ps_evidence (write_evidence st) = ps_evidence st"
  by (simp_all add: outline_def fresh_def write_evidence_def)

lemma change_run_frame [simp]:
  "fresh (change_run f st) = fresh st" "ps_active (change_run f st) = ps_active st"
  "ps_spent (change_run f st) = ps_spent st" "ps_tick (change_run f st) = ps_tick st"
  "pe_estimated_usd (ps_evidence (change_run f st)) = pe_estimated_usd (ps_evidence st)"
  by (simp_all add: fresh_def change_run_def change_evidence_def)

lemma outline_change_run:
  "outline (change_run f st) = butlast (outline st) @
     [case f (last (pe_runs (ps_evidence st))) of r \<Rightarrow>
        (pn_status r, pn_provider_job_id r, pn_aspect_ratio r)]"
  by (simp add: outline_def change_run_def change_evidence_def map_butlast)

lemma last_outline:
  assumes "outline st = xs @ [(s, j, a)]"
  shows "pn_status (last (pe_runs (ps_evidence st))) = s"
    "pn_provider_job_id (last (pe_runs (ps_evidence st))) = j"
    "pn_aspect_ratio (last (pe_runs (ps_evidence st))) = a"
  using assms by (cases "pe_runs (ps_evidence st)" rule: rev_cases; simp add: outline_def)+

text \<open>A change of the run in hand that leaves, or sets, what the outline shows.\<close>

lemma outline_keep:
  assumes "outline st = xs @ [(s, j, a)]"
    and "\<And>r. pn_provider_job_id (f r) = pn_provider_job_id r" "\<And>r. pn_aspect_ratio (f r) = pn_aspect_ratio r"
    and "\<And>r. pn_status (f r) = g (pn_status r)"
  shows "outline (change_run f st) = xs @ [(g s, j, a)]"
  using assms(2-4) last_outline [OF assms(1)] by (simp add: outline_change_run assms(1))

lemma outline_more [simp]:
  "outline (st\<lparr>ps_tick := k\<rparr>) = outline st" "outline (st\<lparr>ps_active := js\<rparr>) = outline st"
  "outline (st\<lparr>ps_spent := q\<rparr>) = outline st"
  "fresh (st\<lparr>ps_tick := k\<rparr>) = fresh st" "fresh (st\<lparr>ps_active := js\<rparr>) = fresh st"
  "fresh (st\<lparr>ps_spent := q\<rparr>) = fresh st"
  by (simp_all add: outline_def fresh_def)

lemma account_case_result:
  assumes "account_case fs config result elapsed_ms st = (out, st')"
    and "outline st = xs @ [(s, j, a)]"
  shows "outline st' = xs @ [(s, j, a)] \<and> ps_active st' = ps_active st \<and> fresh st' = fresh st \<and>
    (out = Inr () \<longrightarrow> ps_spent st' \<le> pf_cost_limit_usd config)"
proof -
  have "outline (change_evidence (\<lambda>e. e\<lparr>pe_estimated_usd := q\<rparr>) t) = outline t"
    "fresh (change_evidence (\<lambda>e. e\<lparr>pe_estimated_usd := q\<rparr>) t) = fresh t"
    "ps_active (change_evidence g t) = ps_active t" "ps_spent (change_evidence g t) = ps_spent t" for q t g
    by (simp_all add: outline_def fresh_def change_evidence_def)
  moreover have "outline (change_run (\<lambda>r. r\<lparr>pn_queue_ms := x, pn_runtime_ms := y, pn_billable_ms := z,
      pn_estimated_cost_usd := c\<rparr>) (st\<lparr>ps_spent := q\<rparr>)) = xs @ [(s, j, a)]" for x y z c q
    by (rule outline_keep [where g = "\<lambda>s. s"]) (simp_all add: assms(2))
  ultimately show ?thesis
    using assms by (auto simp: account_case_def Let_def split: sum.splits prod.splits if_splits)
qed

lemma validate_case_result:
  assumes "validate_case fs config aspect request result status st = (out, st')"
    and "outline st = xs @ [(s, j, a)]"
  shows "ps_active st' = ps_active st \<and> fresh st' = fresh st \<and> ps_spent st' = ps_spent st \<and>
    outline st' = xs @ [(if out = Inr () then ''VALIDATED'' else s, j, a)]"
proof -
  let ?gpu = "\<lambda>rep. change_run (\<lambda>r. r\<lparr>pn_gpu := Some (metric rep ''gpu''),
    pn_cold_start_ms := Some (metric rep ''cold_start_ms'')\<rparr>) st"
  have gpu: "outline (?gpu rep) = xs @ [(s, j, a)]" for rep
    by (rule outline_keep [where g = "\<lambda>s. s"]) (simp_all add: assms(2))
  have "outline (change_run (\<lambda>r. r\<lparr>pn_media_validation := m, pn_status := ''VALIDATED''\<rparr>) (?gpu rep)) =
      xs @ [(''VALIDATED'', j, a)]" for m rep
    by (rule outline_keep [OF gpu, where g = "\<lambda>_. ''VALIDATED''"]) simp_all
  with assms gpu show ?thesis
    by (auto simp: validate_case_def Let_def split: sum.splits prod.splits)
qed

lemma run_case_result:
  assumes "run_case fs client config n aspect file st = Some (out, st')"
    and "all_validated st" "fresh st"
  shows "fresh st' \<and> (case out of
      Inl _ \<Rightarrow> tracked st'
    | Inr _ \<Rightarrow> all_validated st' \<and> map (snd \<circ> snd) (outline st') = map (snd \<circ> snd) (outline st) @ [aspect] \<and>
        ps_spent st' \<le> pf_cost_limit_usd config)"
proof -
  have start: "tracked t" if "outline t = outline st" for t
    using assms(2) by (auto simp: all_validated_def tracked_def that)
  consider (stopped) e where "out = Inl e" "st' = st"
    | (opened) request timeout_ms where "load_request fs file aspect = Inr request"
        "execution_timeout_ms config n (ps_spent st) = Inr timeout_ms"
    using assms(1) by (auto simp: run_case_def split: sum.splits)
  then show ?thesis
  proof cases
    case stopped
    with start assms(3) show ?thesis by simp
  next
    case opened
    define st1 where "st1 = begin_case (item request ''attempt_id'') aspect timeout_ms st"
    have o1: "outline st1 = outline st @ [(''SUBMITTING'', None, aspect)]" "fresh st1" "ps_active st1 = []"
      using assms(2,3) by (auto simp: st1_def begin_case_def outline_def change_evidence_def fresh_def
          new_run_def write_evidence_def all_validated_def)
    show ?thesis
    proof (cases "pv_submit client (ps_tick st1) request timeout_ms")
      case (Inl e)
      with assms(1) opened have "out = Inl e" "st' = st1"
        by (simp_all add: run_case_def st1_def Let_def)
      with o1 assms(2) show ?thesis by (auto simp: tracked_def all_validated_def)
    next
      case (Inr job_i)
      define st2 where "st2 = case_submitted job_i st1"
      have o2: "outline st2 = outline st @ [(''SUBMITTED'', Some job_i, aspect)]" "fresh st2"
        "ps_active st2 = [job_i]"
        using o1 last_outline [OF o1(1)] by (simp_all add: st2_def case_submitted_def outline_change_run)
      from assms(1) opened Inr obtain answer status k' where
        poll: "poc_poll (\<lambda>k. pv_status client k job_i) (pv_clock client) (pv_clock client (ps_tick st1))
          timeout_ms (Suc (ps_tick st1)) ''SUBMITTED'' = Some (answer, status, k')"
        by (auto simp: run_case_def st1_def Let_def split: option.splits)
      note polled = poc_poll_result [OF poll]
      define st3 where "st3 = (change_run (\<lambda>r. r\<lparr>pn_status := status\<rparr>) st2)\<lparr>ps_tick := k'\<rparr>"
      have o3: "outline st3 = outline st @ [(status, Some job_i, aspect)]" "fresh st3" "ps_active st3 = [job_i]"
        using o2 outline_keep [OF o2(1), of "\<lambda>r. r\<lparr>pn_status := status\<rparr>" "\<lambda>_. status"]
        by (simp_all add: st3_def)
      show ?thesis
      proof (cases answer)
        case (Inl e)
        with assms(1) opened Inr poll have "out = Inl e" "st' = st3"
          by (simp_all add: run_case_def st1_def st2_def st3_def Let_def)
        with o3 assms(2) show ?thesis by (auto simp: tracked_def all_validated_def)
      next
        case (Inr x)
        note answer = this
        obtain result s elapsed_ms where x: "x = (result, s, elapsed_ms)" by (cases x)
        with polled answer have s: "s = status" "status \<in> set TERMINAL_STATUSES"
          by (simp_all add: TERMINAL_STATUSES_def)
        define st4 where "st4 = st3\<lparr>ps_active := filter (\<lambda>j. j \<noteq> job_i) (ps_active st3)\<rparr>"
        have o4: "outline st4 = outline st @ [(status, Some job_i, aspect)]" "fresh st4" "ps_active st4 = []"
          using o3 by (simp_all add: st4_def)
        obtain out5 st5 where five: "account_case fs config result elapsed_ms st4 = (out5, st5)"
          by (cases "account_case fs config result elapsed_ms st4")
        note o5 = account_case_result [OF five o4(1)]
        show ?thesis
        proof (cases out5)
          case (Inl e)
          with assms(1) opened \<open>pv_submit _ _ _ _ = Inr job_i\<close> poll answer x five
          have "out = Inl e" "st' = st5"
            by (simp_all add: run_case_def st1_def st2_def st3_def st4_def Let_def)
          with o5 o4 s(2) assms(2) show ?thesis by (auto simp: tracked_def all_validated_def)
        next
          case (Inr u)
          with assms(1) opened \<open>pv_submit _ _ _ _ = Inr job_i\<close> poll answer x five
          have six: "validate_case fs config aspect request result s st5 = (out, st')"
            by (simp add: run_case_def st1_def st2_def st3_def st4_def Let_def)
          note o6 = validate_case_result [OF six, of "outline st" status "Some job_i" aspect]
          show ?thesis
          proof (cases out)
            case (Inl e)
            with o6 o5 o4 s(2) assms(2) show ?thesis by (auto simp: tracked_def all_validated_def)
          next
            case (Inr u')
            with o6 o5 o4 \<open>out5 = Inr u\<close> assms(2) show ?thesis
              by (auto simp: all_validated_def)
          qed
        qed
      qed
    qed
  qed
qed

section \<open>The whole run\<close>

lemma run_cases_result:
  assumes "run_cases fs client config cases st = Some (out, st')"
    and "all_validated st" "fresh st" and "cases = [] \<longrightarrow> ps_spent st \<le> pf_cost_limit_usd config"
  shows "fresh st' \<and> (case out of
      Inl _ \<Rightarrow> tracked st'
    | Inr _ \<Rightarrow> all_validated st' \<and> map (snd \<circ> snd) (outline st') = map (snd \<circ> snd) (outline st) @ map fst cases \<and>
        ps_spent st' \<le> pf_cost_limit_usd config)"
  using assms
proof (induction cases arbitrary: st)
  case Nil
  then show ?case by auto
next
  case (Cons c rest)
  obtain aspect input where c: "c = (aspect, input)" by (cases c)
  from Cons.prems(1) obtain out1 st1 where
    one: "run_case fs client config (Suc (length rest)) aspect input st = Some (out1, st1)"
    by (auto simp: c split: option.splits)
  note r1 = run_case_result [OF one Cons.prems(2,3)]
  show ?case
  proof (cases out1)
    case (Inl e)
    with Cons.prems(1) one have "out = Inl e" "st' = st1" by (simp_all add: c)
    with r1 Inl show ?thesis by simp
  next
    case (Inr u)
    with Cons.prems(1) one have "run_cases fs client config rest st1 = Some (out, st')" by (simp add: c)
    from Cons.IH [OF this] r1 Inr show ?thesis by (cases out) (simp_all add: c)
  qed
qed

lemma run_case_returns:
  assumes "\<forall>b k. \<exists>n \<ge> k. b \<le> pv_clock client n"
  shows "\<exists>y. run_case fs client config n aspect file st = Some y"
proof -
  have poll: "\<exists>y. poc_poll (\<lambda>k. pv_status client k job_i) (pv_clock client) started timeout_ms k current = Some y"
    for job_i started timeout_ms k current
  proof -
    from assms obtain n where "k \<le> n" "started + of_int (max 0 timeout_ms) / 1000 \<le> pv_clock client n" by blast
    then have "of_int (max 0 timeout_ms) \<le> (pv_clock client (k + (n - k)) - started) * 1000"
      by (simp add: field_simps)
    then have "timeout_ms \<le> truncate_rat ((pv_clock client (k + (n - k)) - started) * 1000)"
      by (simp add: truncate_rat_def le_floor_iff) linarith
    then show ?thesis by (rule poc_poll_returns)
  qed
  show ?thesis
    unfolding run_case_def Let_def
    using poll by (auto split: sum.splits option.splits prod.splits) (metis option.distinct(1))+
qed

lemma run_cases_returns:
  assumes "\<forall>b k. \<exists>n \<ge> k. b \<le> pv_clock client n"
  shows "\<exists>y. run_cases fs client config cases st = Some y"
proof (induction cases arbitrary: st)
  case (Cons c rest)
  obtain aspect input where c: "c = (aspect, input)" by (cases c)
  from run_case_returns [OF assms] obtain out st1 where
    "run_case fs client config (Suc (length rest)) aspect input st = Some (out, st1)" by fast
  with Cons.IH [of st1] show ?case by (cases out) (simp_all add: c)
qed simp

definition cancel_ok :: "poc_client \<Rightarrow> string \<Rightarrow> bool" where
  "cancel_ok client j \<longleftrightarrow> (case pv_cancel client j of Inl _ \<Rightarrow> False | Inr _ \<Rightarrow> True)"

lemma cancel_active_result:
  "pe_cancel_attempts (cancel_active client js e) = pe_cancel_attempts e + length js"
  "pe_cancel_failures (cancel_active client js e) =
    pe_cancel_failures e + length (filter (\<lambda>j. \<not> cancel_ok client j) js)"
  "pe_runs (cancel_active client js e) = pe_runs e"
  "pe_status (cancel_active client js e) = pe_status e"
  "pe_rollback_triggered (cancel_active client js e) = pe_rollback_triggered e"
  by (induction client js e rule: cancel_active.induct) (simp_all add: Let_def cancel_ok_def)

lemma length_filter_sort: "length (filter P (sort xs)) = length (filter P xs)"
  by (simp add: filter_sort)

lemma finish_evidence_result:
  assumes "pe_cancel_attempts e = 0" "pe_cancel_failures e = 0"
  shows "pe_cancel_attempts (finish_evidence client js e) = length js \<and>
    pe_active_jobs_remaining (finish_evidence client js e) = length (filter (\<lambda>j. \<not> cancel_ok client j) js) \<and>
    pe_runs (finish_evidence client js e) = pe_runs e \<and> pe_status (finish_evidence client js e) = pe_status e \<and>
    pe_rollback_triggered (finish_evidence client js e) = pe_rollback_triggered e \<and>
    pe_finished (finish_evidence client js e) \<and>
    (pe_rollback_triggered e \<longrightarrow> (pe_rollback_status (finish_evidence client js e) = ''COMPLETED'' \<longleftrightarrow>
       pe_active_jobs_remaining (finish_evidence client js e) = 0))"
  using assms by (simp add: finish_evidence_def Let_def cancel_active_result length_filter_sort)

text \<open>
  C27. The paid proof of concept ends clean: with a clock that goes on it always returns, and
  however it ends, the finished evidence is in the file, every recorded job that is not known to
  have ended was among those it tried to cancel, and the jobs that may still be active are
  exactly those whose cancellation failed. It succeeds only with both aspect ratios validated,
  within the cost limit and with nothing left to cancel; otherwise it is rolled back, completely
  exactly when every cancellation went through.
\<close>

theorem paid_poc_ends_clean:
  assumes "\<forall>b k. \<exists>n \<ge> k. b \<le> pv_clock client n"
  shows "\<exists>answer st e. run_paid_poc fs client config (Some sha) = Some (answer, Some st) \<and>
    e = ps_evidence st \<and> ps_file st = Some e \<and> pe_finished e \<and>
    (\<forall>r \<in> set (pe_runs e). unfinished_run r \<longrightarrow> pn_provider_job_id r \<in> Some ` set (ps_active st)) \<and>
    pe_cancel_attempts e = length (ps_active st) \<and>
    pe_active_jobs_remaining e = length (filter (\<lambda>j. \<not> cancel_ok client j) (ps_active st)) \<and>
    (case answer of
       Inr e' \<Rightarrow> e' = e \<and> pe_status e = ''SUCCEEDED'' \<and> ps_active st = [] \<and>
         ps_spent st \<le> pf_cost_limit_usd config \<and>
         map (\<lambda>r. (pn_status r, pn_aspect_ratio r)) (pe_runs e) =
           [(''VALIDATED'', ''16:9''), (''VALIDATED'', ''9:16'')]
     | Inl _ \<Rightarrow> pe_status e = ''FAILED'' \<and>
         (pe_rollback_status e = ''COMPLETED'' \<longleftrightarrow> pe_active_jobs_remaining e = 0))"
proof -
  let ?e0 = "new_evidence config sha"
  let ?st0 = "\<lparr>ps_evidence = ?e0, ps_file = Some ?e0, ps_active = [], ps_spent = 0, ps_tick = 0\<rparr>"
  let ?cases = "[(''16:9'', fst (pf_request_paths config)), (''9:16'', snd (pf_request_paths config))]"
  from run_cases_returns [OF assms] obtain out st where
    run: "run_cases fs client config ?cases ?st0 = Some (out, st)" by fast
  have start: "outline ?st0 = []" "all_validated ?st0" "fresh ?st0"
    by (simp_all add: outline_def all_validated_def fresh_def new_evidence_def)
  from run_cases_result [OF run start(2,3)] start(1) have res: "fresh st" "case out of Inl _ \<Rightarrow> tracked st
    | Inr _ \<Rightarrow> all_validated st \<and> map (snd \<circ> snd) (outline st) = [''16:9'', ''9:16''] \<and>
        ps_spent st \<le> pf_cost_limit_usd config" by (cases out; simp)+
  define e where "e = finish_evidence client (ps_active st) (mark_outcome out (ps_evidence st))"
  let ?st = "write_evidence (change_evidence (\<lambda>e. finish_evidence client (ps_active st) (mark_outcome out e)) st)"
  have st: "ps_evidence ?st = e" "ps_file ?st = Some e" "ps_active ?st = ps_active st" "ps_spent ?st = ps_spent st"
    by (simp_all add: e_def change_evidence_def write_evidence_def)
  have counters: "pe_cancel_attempts (mark_outcome out (ps_evidence st)) = 0"
    "pe_cancel_failures (mark_outcome out (ps_evidence st)) = 0"
    "pe_runs (mark_outcome out (ps_evidence st)) = pe_runs (ps_evidence st)"
    using res(1) by (simp_all add: fresh_def mark_outcome_def split: sum.split)
  note fin = finish_evidence_result [OF counters(1,2), of client "ps_active st", folded e_def]
  have "tracked st" using res(2) by (cases out) (auto simp: all_validated_def tracked_def)
  then have tracked: "\<forall>r \<in> set (pe_runs e). unfinished_run r \<longrightarrow> pn_provider_job_id r \<in> Some ` set (ps_active st)"
    using fin counters(3) by (force simp: tracked_def outline_def unfinished_run_def split: option.splits)
  have validated: "map (\<lambda>r. (pn_status r, pn_aspect_ratio r)) (pe_runs e) =
      [(''VALIDATED'', ''16:9''), (''VALIDATED'', ''9:16'')]" if "out = Inr u" for u
    using res(2) fin counters(3) that
    by (auto simp: all_validated_def outline_def map_eq_Cons_conv)
  have "run_paid_poc fs client config (Some sha) =
      Some (case out of Inl err \<Rightarrow> Inl err | Inr _ \<Rightarrow> Inr (ps_evidence ?st), Some ?st)"
    using run by (simp add: run_paid_poc_def Let_def)
  moreover have "case out of Inl _ \<Rightarrow> pe_status e = ''FAILED'' \<and>
        (pe_rollback_status e = ''COMPLETED'' \<longleftrightarrow> pe_active_jobs_remaining e = 0)
      | Inr _ \<Rightarrow> pe_status e = ''SUCCEEDED'' \<and> ps_active st = [] \<and> ps_spent st \<le> pf_cost_limit_usd config"
    using fin res(2) by (cases out) (simp_all add: mark_outcome_def all_validated_def)
  ultimately show ?thesis
    using st tracked fin validated by (cases out) (auto intro!: exI [of _ ?st])
qed

text \<open>A provider that never gets a job off its queue, under a clock of 1000 seconds a reading.\<close>

definition sample_request :: dict where
  "sample_request = [(''job_id'', RStr ''j''), (''attempt_id'', RStr ''a''),
     (''workflow_id'', RStr ''fast_wan_i2v_720_v1''), (''prompt'', RStr ''a boat''),
     (''duration_ms'', RInt 5000), (''aspect_ratio'', RStr ''16:9''), (''resolution'', RStr ''720p''),
     (''input_claim'', RStr ''a.b''), (''output_claim'', RStr ''a.b''), (''callback_claim'', RStr ''a.b'')]"

definition sample_world :: poc_world where
  "sample_world = \<lparr>fs_resolve = (\<lambda>p. p), fs_is_file = (\<lambda>_. True), fs_is_dir = (\<lambda>_. True),
     fs_is_symlink = (\<lambda>_. False), fs_size = (\<lambda>_. 1), fs_inside = (\<lambda>_. False), fs_fixture = (\<lambda>_. False),
     fs_json = (\<lambda>_. Some (RObj sample_request)), fs_docker = None, fs_str = (\<lambda>_. []), fs_uuid = (\<lambda>_. True),
     fs_decimal = (\<lambda>_. None), fs_int = (\<lambda>_. None), fs_float = (\<lambda>_. None)\<rparr>"

definition sample_client :: poc_client where
  "sample_client = \<lparr>pv_submit = (\<lambda>_ _ _. Inr ''job-1''),
     pv_status = (\<lambda>_ _. Inr [(''status'', RStr ''IN_QUEUE'')]), pv_cancel = (\<lambda>_. Inr ()),
     pv_clock = (\<lambda>n. 1000 * of_nat n)\<rparr>"

lemma sample_client_clock: "\<forall>b k. \<exists>n \<ge> k. b \<le> pv_clock sample_client n"
proof (intro allI)
  fix b :: rat and k
  obtain n where n: "b \<le> of_nat n" using real_arch_simple by blast
  have "(of_nat n :: rat) \<le> of_nat (max k n)" by simp
  with n have "b \<le> 1000 * of_nat (max k n)" by linarith
  then show "\<exists>n \<ge> k. b \<le> pv_clock sample_client n"
    by (intro exI [of _ "max k n"]) (simp add: sample_client_def)
qed

lemma sample_run:
  "\<exists>st. run_paid_poc sample_world sample_client sample_poc (Some sha) =
     Some (Inl (Cost_limit_error ''provider job exceeded its cost-bounded execution window''), Some st) \<and>
     ps_active st = [''job-1'']"
proof -
  have request: "load_request sample_world f ''16:9'' = Inr sample_request" for f
  proof -
    have "validate_request (\<lambda>_. True) sample_request = Inr ()" by code_simp
    then show ?thesis
      by (simp add: load_request_def sample_world_def) (simp add: item_def get_item_def sample_request_def)
  qed
  have poll: "poc_poll (\<lambda>k. pv_status sample_client k j) (pv_clock sample_client) (pv_clock sample_client 0)
      485000 (Suc 0) c = Some (Inl (Cost_limit_error
        ''provider job exceeded its cost-bounded execution window''), ''IN_QUEUE'', 2)" for j c
    by (subst poc_poll.simps) (simp add: sample_client_def known_status_def get_item_def
        TERMINAL_STATUSES_def truncate_rat_def Let_def numeral_2_eq_2)
  have submit: "pv_submit sample_client k r ms = Inr ''job-1''" for k r ms
    by (simp add: sample_client_def)
  show ?thesis
    using sample_poc_window
    by (simp add: run_paid_poc_def run_case_def request poll submit Let_def begin_case_def write_evidence_def
        change_evidence_def case_submitted_def change_run_def numeral_2_eq_2)
qed

lemma paid_poc_ends_clean_witness:
  "\<exists>answer st e. run_paid_poc sample_world sample_client sample_poc (Some ''sha'') = Some (answer, Some st) \<and>
     ps_file st = Some e \<and> pe_status e = ''FAILED'' \<and> pe_cancel_attempts e = 1 \<and>
     pe_rollback_status e = ''COMPLETED''"
proof -
  obtain st where run: "run_paid_poc sample_world sample_client sample_poc (Some ''sha'') =
      Some (Inl (Cost_limit_error ''provider job exceeded its cost-bounded execution window''), Some st)"
    and jobs: "ps_active st = [''job-1'']" using sample_run by blast
  have "cancel_ok sample_client ''job-1''" by (simp add: cancel_ok_def sample_client_def)
  with paid_poc_ends_clean [OF sample_client_clock, of sample_world sample_poc "''sha''"] jobs
  show ?thesis by (auto simp: run)
qed

section \<open>What an interruption leaves behind\<close>

text \<open>
  The identity of a submitted job is not written to the evidence file before its case is over: a
  process that is killed while it polls leaves a file from which the clean-up cancels nothing,
  although a paid job is active.
\<close>

lemma interrupted_case_not_cancelled:
  assumes "all_validated st"
    and "ps_file (case_submitted job_i (begin_case attempt_i aspect timeout_ms st)) = Some f"
  shows "job_i \<in> set (ps_active (case_submitted job_i (begin_case attempt_i aspect timeout_ms st))) \<and>
    fst (cleanup_from_evidence client f) = Inr 0 \<and> pe_cancel_attempts (snd (cleanup_from_evidence client f)) =
      pe_cancel_attempts f"
proof -
  have "ps_file (case_submitted job_i (begin_case attempt_i aspect timeout_ms st)) =
      Some (ps_evidence (begin_case attempt_i aspect timeout_ms st))"
    by (simp add: case_submitted_def begin_case_def change_run_def change_evidence_def write_evidence_def)
  with assms(2) have f: "f = ps_evidence (begin_case attempt_i aspect timeout_ms st)" by simp
  have none: "\<not> unfinished_run r" if "r \<in> set (pe_runs f)" for r
    using that assms(1) by (auto simp: f begin_case_def change_evidence_def write_evidence_def new_run_def
        unfinished_run_def all_validated_def outline_def)
  have skip: "cleanup_runs client rs e = (0, 0, rs, e)" if "\<forall>r \<in> set rs. \<not> unfinished_run r" for rs e
    using that by (induction rs) simp_all
  from skip [of "pe_runs f"] none show ?thesis
    by (simp add: cleanup_from_evidence_def case_submitted_def)
qed

end
