(* ===== verification/Release.thy ===== *)
theory Release
  imports Contract Config
begin

text \<open>
  The release gate of the worker image (scripts/release_worker.py): what the repository must
  hold before a release, the checks of the registry, the SBOM and the benchmark, and the record
  of an accepted release. The files, the CSV reader, SHA-256 and the docker and syft commands
  are parameters.
\<close>

section \<open>Errors and files\<close>

text \<open>\<open>Gate\<close> is \<^verbatim>\<open>ReleaseGateError\<close>; \<open>Raised\<close> is any other exception.\<close>

datatype release_error = Gate string | Raised string

definition gate_then :: "release_error + 'a \<Rightarrow> ('a \<Rightarrow> release_error + 'b) \<Rightarrow> release_error + 'b" where
  "gate_then m f = (case m of Inl e \<Rightarrow> Inl e | Inr x \<Rightarrow> f x)"

lemma gate_then_simps [simp]: "gate_then (Inl e) f = Inl e" "gate_then (Inr x) f = f x"
  by (simp_all add: gate_then_def)

lemma gate_thenE:
  assumes "gate_then m f = Inr y" obtains x where "m = Inr x" "f x = Inr y"
  using assms by (cases m) simp_all

lemma gate_then_pairE:
  assumes "gate_then m (\<lambda>(a, b). f a b) = Inr y" obtains a b where "m = Inr (a, b)" "f a b = Inr y"
  using assms by (cases m) auto

lemma gate_then_Inr_iff: "gate_then m f = Inr y \<longleftrightarrow> (\<exists>x. m = Inr x \<and> f x = Inr y)"
  by (cases m) simp_all

definition gate :: "bool \<Rightarrow> string \<Rightarrow> release_error + unit" where
  "gate ok message = (if ok then Inr () else Inl (Gate message))"

lemma gate_Inr_iff [simp]: "gate ok message = Inr u \<longleftrightarrow> ok"
  by (simp add: gate_def)

text \<open>
  A file is named by its path under the root; \<open>rw_json\<close> is None when it cannot be read or is not
  JSON, \<open>rw_text\<close> when it cannot be read. A row of a CSV file has a text, or None when the line
  is too short, for each field of the header. \<open>rw_inspect\<close> is the exit code of docker and the
  JSON it printed, None when the command does not run.
\<close>

type_synonym csv_row = "string \<rightharpoonup> string option"

record release_world =
  rw_json :: "string \<Rightarrow> reply option"
  rw_text :: "string \<Rightarrow> string option"
  rw_models :: "csv_row list option"
  rw_nodes :: "(string list \<times> csv_row list) option"
  rw_sha256 :: "string \<Rightarrow> string"
  rw_str :: "reply \<Rightarrow> string"
  rw_inspect :: "string \<Rightarrow> (int \<times> reply option) option"
  rw_syft :: "string \<Rightarrow> string \<Rightarrow> int option"

definition release_json :: "release_world \<Rightarrow> string \<Rightarrow> release_error + dict" where
  "release_json w file =
     (case rw_json w file of
        None \<Rightarrow> Inl (Gate ''cannot read JSON artifact'')
      | Some (RObj ms) \<Rightarrow> Inr ms
      | Some _ \<Rightarrow> Inl (Gate ''JSON artifact must contain an object''))"

definition sha256_file :: "release_world \<Rightarrow> string \<Rightarrow> release_error + string" where
  "sha256_file w file =
     (case rw_text w file of
        None \<Rightarrow> Inl (Gate ''cannot hash artifact'') | Some content \<Rightarrow> Inr (rw_sha256 w content))"

definition sha256_normalized_text :: "release_world \<Rightarrow> string \<Rightarrow> release_error + string" where
  "sha256_normalized_text w file =
     (case rw_text w file of
        None \<Rightarrow> Inl (Gate ''cannot hash text artifact'')
      | Some content \<Rightarrow> Inr (rw_sha256 w (unix_lines content)))"

section \<open>Images\<close>

definition parse_oci_reference :: "string \<Rightarrow> release_error + (string \<times> string)" where
  "parse_oci_reference value =
     (let (name, digest) = split_first (CHR ''@'') value in
      if CHR ''@'' \<in> set value \<and> name \<noteq> [] \<and> \<not> list_ex space name \<and> DIGEST_PATTERN digest \<and>
         \<not> contains '':latest'' (lower_text name)
      then Inr (name, digest)
      else Inl (Gate ''OCI image must use an immutable sha256 digest, never latest''))"

definition text_of :: "release_world \<Rightarrow> dict \<Rightarrow> string \<Rightarrow> string" where
  "text_of w ms name = (case get_item ms name of None \<Rightarrow> [] | Some (RStr s) \<Rightarrow> s | Some r \<Rightarrow> rw_str w r)"

definition validate_spdx_sbom :: "release_world \<Rightarrow> string \<Rightarrow> release_error + unit" where
  "validate_spdx_sbom w file =
     gate_then (release_json w file) (\<lambda>sbom.
     gate_then (gate (startswith (text_of w sbom ''spdxVersion'') ''SPDX-2.'') ''SBOM must use SPDX JSON'') (\<lambda>_.
     gate_then (gate (case get_item sbom ''documentNamespace'' of Some (RStr _) \<Rightarrow> True | _ \<Rightarrow> False)
       ''SBOM document namespace is missing'') (\<lambda>_.
     case get_item sbom ''packages'' of
       Some (RList packages) \<Rightarrow>
         gate_then (gate (packages \<noteq> []) ''SBOM must contain at least one package'') (\<lambda>_.
           gate (list_all (\<lambda>p. case p of RObj ms \<Rightarrow> (case get_item ms ''name'' of
               None \<Rightarrow> False | Some n \<Rightarrow> truthy n) | _ \<Rightarrow> False) packages)
             ''SBOM contains an invalid package entry'')
     | _ \<Rightarrow> gate False ''SBOM must contain at least one package'')))"

definition verify_registry_digest :: "release_world \<Rightarrow> string \<Rightarrow> release_error + string" where
  "verify_registry_digest w image_reference =
     gate_then (parse_oci_reference image_reference) (\<lambda>(_, expected_digest).
       case rw_inspect w image_reference of
         None \<Rightarrow> Inl (Gate ''unable to inspect OCI registry digest'')
       | Some (returncode, observed) \<Rightarrow>
           (case observed of
              None \<Rightarrow> Inl (Gate ''OCI registry returned an invalid digest'')
            | Some digest \<Rightarrow>
                gate_then (gate (returncode = 0 \<and> digest = RStr expected_digest)
                  ''OCI registry did not confirm the requested digest'') (\<lambda>_. Inr expected_digest)))"

definition generate_sbom :: "release_world \<Rightarrow> string \<Rightarrow> string \<Rightarrow> release_error + unit" where
  "generate_sbom w image_reference target =
     gate_then (parse_oci_reference image_reference) (\<lambda>_.
       case rw_syft w image_reference target of
         None \<Rightarrow> Inl (Gate ''unable to generate SPDX SBOM'')
       | Some returncode \<Rightarrow>
           gate_then (gate (returncode = 0) ''SBOM generator failed'') (\<lambda>_. validate_spdx_sbom w target))"

section \<open>Models\<close>

definition FIXED_MODELS :: "string list" where
  "FIXED_MODELS = [''wan2.1_i2v_14B_fp8_e4m3fn.safetensors'', ''umt5_xxl_fp8_e4m3fn_scaled.safetensors'',
     ''wan_2.1_vae.safetensors'']"

text \<open>\<open>row.get(field, "")\<close>: None where the value is missing.\<close>

definition csv_get :: "csv_row \<Rightarrow> string \<Rightarrow> string option" where
  "csv_get row field = (case row field of None \<Rightarrow> Some [] | Some v \<Rightarrow> v)"

text \<open>The registry by name, in the order the names first occur; a later row of a name wins.\<close>

definition named_rows :: "csv_row list \<Rightarrow> (string \<times> csv_row) list" where
  "named_rows rows = List.map_filter (\<lambda>row. case row ''name'' of
     Some (Some name) \<Rightarrow> if name = [] then None else Some (name, row) | _ \<Rightarrow> None) rows"

definition model_registry :: "release_world \<Rightarrow> release_error + (string \<times> csv_row) list" where
  "model_registry w =
     (case rw_models w of
        None \<Rightarrow> Inl (Gate ''model license registry is invalid'')
      | Some rows \<Rightarrow>
          let named = named_rows rows in
          Inr (map (\<lambda>n. (n, the (map_of (rev named) n))) (rev (remdups (rev (map fst named))))))"

definition REQUIRED_MODEL_FIELDS :: "string list" where
  "REQUIRED_MODEL_FIELDS = [''version'', ''source'', ''license'', ''commercial_saas'',
     ''notice_obligations'', ''reviewed_at'', ''owner'']"

text \<open>
  The field set is scanned until one is empty; a missing value raises, unless an empty field
  happens to be seen first, so with one of each either may come out. The model raises.
\<close>

definition model_digest :: "string \<times> csv_row \<Rightarrow> release_error + (string \<times> string)" where
  "model_digest entry =
     (case entry of (name, row) \<Rightarrow>
        case csv_get row ''sha256'' of
          None \<Rightarrow> Inl (Raised ''TypeError'')
        | Some digest \<Rightarrow>
            gate_then (gate (hex_digest 64 digest) ''model digest is not verified'') (\<lambda>_.
            case csv_get row ''status'' of
              None \<Rightarrow> Inl (Raised ''AttributeError'')
            | Some status \<Rightarrow>
                gate_then (gate (upper_text status \<in> {''APPROVED'', ''APPROVED_PRODUCTION''})
                  ''model license is not approved'') (\<lambda>_.
                if list_ex (\<lambda>f. csv_get row f = None) REQUIRED_MODEL_FIELDS
                then Inl (Raised ''AttributeError'')
                else gate_then (gate (list_all (\<lambda>f. case csv_get row f of None \<Rightarrow> False
                    | Some v \<Rightarrow> strip v \<noteq> []) REQUIRED_MODEL_FIELDS)
                  ''model license record is incomplete'') (\<lambda>_. Inr (name, digest)))))"

fun collect :: "('a \<Rightarrow> release_error + 'b) \<Rightarrow> 'a list \<Rightarrow> release_error + 'b list" where
  "collect f [] = Inr []"
| "collect f (x # xs) = gate_then (f x) (\<lambda>y. gate_then (collect f xs) (\<lambda>ys. Inr (y # ys)))"

definition approved_model_hashes :: "release_world \<Rightarrow> release_error + (string \<times> string) list" where
  "approved_model_hashes w =
     gate_then (model_registry w) (\<lambda>rows.
     gate_then (gate (set (map fst rows) = set FIXED_MODELS)
       ''model registry must contain exactly the fixed workflow models'') (\<lambda>_.
     gate_then (collect model_digest rows) (\<lambda>hashes. Inr (sort_key fst hashes))))"

section \<open>Locks and notices\<close>

definition FIXED_COMFY_LOCK_VALUES :: "(string \<times> string) list" where
  "FIXED_COMFY_LOCK_VALUES = [(''worker_comfyui_version'', ''5.8.7''),
     (''worker_comfyui_commit'', ''a1981e99b1f5a7201f387653420ad1f275b97d0a''),
     (''comfyui_version'', ''0.29.0''), (''comfyui_commit'', ''a8c44f9b2a0678ac4082e3529a3f43db7472acfe''),
     (''comfy_cli_version'', ''1.18.0''), (''comfyui'', ''a8c44f9b2a0678ac4082e3529a3f43db7472acfe''),
     (''file_custom_nodes'', ''[]''), (''git_custom_nodes'', ''{}'')]"

text \<open>Every line boundary ends a line; the empty lines this adds are skipped anyway.\<close>

definition line_end :: "char \<Rightarrow> bool" where
  "line_end c \<longleftrightarrow> (of_char c :: nat) \<in> {10, 11, 12, 13, 28, 29, 30}"

fun split_lines :: "string \<Rightarrow> string list" where
  "split_lines [] = [[]]"
| "split_lines (c # s) =
     (if line_end c then [] # split_lines s
      else case split_lines s of [] \<Rightarrow> [[c]] | l # ls \<Rightarrow> (c # l) # ls)"

definition lock_entries :: "string \<Rightarrow> (string \<times> string) list" where
  "lock_entries content = List.map_filter (\<lambda>raw.
     let l = strip raw in
     if l = [] \<or> hd l = CHR ''#'' \<or> CHR '':'' \<notin> set l then None
     else Some (fst (split_first (CHR '':'') l), strip (snd (split_first (CHR '':'') l))))
     (split_lines content)"

definition lock_values :: "string \<Rightarrow> string \<Rightarrow> string list" where
  "lock_values content key = map snd (filter (\<lambda>(k, _). k = key) (lock_entries content))"

definition NODE_FIELDS :: "string list" where
  "NODE_FIELDS = [''name'', ''repository'', ''commit'', ''sha256'', ''license'', ''status'']"

definition COMFY_LOCK :: string where "COMFY_LOCK = ''workers/runpod-comfyui/comfy-lock.yaml''"

definition validate_custom_node_lock :: "release_world \<Rightarrow> release_error + string" where
  "validate_custom_node_lock w =
     (case rw_text w COMFY_LOCK of
        None \<Rightarrow> Inl (Gate ''custom-node lock is missing'')
      | Some content \<Rightarrow>
          gate_then (gate (\<not> contains ''latest'' (lower_text content))
            ''custom-node lock must not contain latest'') (\<lambda>_.
          gate_then (gate (list_all (\<lambda>(key, expected). lock_values content key = [expected])
            FIXED_COMFY_LOCK_VALUES) ''custom-node lock field is not pinned'') (\<lambda>_.
          case rw_nodes w of
            None \<Rightarrow> Inl (Gate ''custom-node license registry is missing'')
          | Some (fieldnames, rows) \<Rightarrow>
              gate_then (gate (set NODE_FIELDS \<subseteq> set fieldnames)
                ''custom-node license registry is invalid'') (\<lambda>_.
              gate_then (gate (rows = []) ''the fixed release does not approve external custom nodes'') (\<lambda>_.
                sha256_normalized_text w COMFY_LOCK)))))"

definition NOTICE_MARKERS :: "string list" where
  "NOTICE_MARKERS = [''a1981e99b1f5a7201f387653420ad1f275b97d0a'',
     ''a8c44f9b2a0678ac4082e3529a3f43db7472acfe'', ''6a5e9d772453f27b0778b14e8a4b1e25ac5f949e'', ''FFmpeg'']"

definition LICENSE_NOTICE :: string where
  "LICENSE_NOTICE = ''workers/runpod-comfyui/THIRD_PARTY_NOTICES.md''"

definition validate_license_notice :: "release_world \<Rightarrow> release_error + string" where
  "validate_license_notice w =
     (case rw_text w LICENSE_NOTICE of
        None \<Rightarrow> Inl (Gate ''worker license notice is missing'')
      | Some notice \<Rightarrow>
          gate_then (gate (list_all (\<lambda>m. contains m notice) NOTICE_MARKERS)
            ''worker license notice does not cover the locked release'') (\<lambda>_.
            sha256_normalized_text w LICENSE_NOTICE))"

section \<open>The benchmark\<close>

definition REQUIRED_CASES :: "string list" where
  "REQUIRED_CASES = [''request-16x9'', ''request-9x16'', ''response-success'', ''response-failure'']"

text \<open>The names of the cases that passed; a name that is not hashable raises.\<close>

definition passed_cases :: "reply list \<Rightarrow> release_error + reply list" where
  "passed_cases items =
     (let names = List.map_filter (\<lambda>i. case i of
            RObj ms \<Rightarrow> if get_item ms ''status'' = Some (RStr ''PASSED'') then Some (item ms ''name'') else None
          | _ \<Rightarrow> None) items in
      if list_all hashable names then Inr names else Inl (Raised ''TypeError''))"

definition validate_benchmark :: "release_world \<Rightarrow> string \<Rightarrow> bool \<Rightarrow> release_error + unit" where
  "validate_benchmark w file require_real_gpu =
     gate_then (release_json w file) (\<lambda>benchmark.
     gate_then (gate (get_item benchmark ''route_id'' = Some (RStr WORKFLOW_ID) \<and>
         get_item benchmark ''status'' = Some (RStr ''PASSED''))
       ''benchmark smoke did not pass for the fixed route'') (\<lambda>_.
     gate_then (case get_item benchmark ''cases'' of
         Some (RList items) \<Rightarrow> gate_then (passed_cases items) (\<lambda>names.
           gate (set names = RStr ` set REQUIRED_CASES) ''benchmark smoke fixtures are incomplete'')
       | _ \<Rightarrow> gate False ''benchmark smoke fixtures are incomplete'') (\<lambda>_.
     gate (\<not> require_real_gpu \<or> (case get_item benchmark ''real_gpu_benchmark'' of
         Some (RObj ms) \<Rightarrow> get_item ms ''executed'' = Some (RBool True) \<and>
           get_item ms ''status'' = Some (RStr ''PASSED'') \<and>
           (case get_item ms ''evidence'' of None \<Rightarrow> False | Some e \<Rightarrow> truthy e)
       | _ \<Rightarrow> False)) ''real GPU benchmark evidence is required for release'')))"

section \<open>The repository\<close>

definition WORKER_ROOT :: string where "WORKER_ROOT = ''workers/runpod-comfyui/''"

text \<open>A check whose \<open>ReleaseGateError\<close> becomes a blocker; anything else goes through.\<close>

definition blocker :: "string \<Rightarrow> release_error + 'a \<Rightarrow> release_error + string list" where
  "blocker name m =
     (case m of Inr _ \<Rightarrow> Inr [] | Inl (Gate _) \<Rightarrow> Inr [name] | Inl (Raised e) \<Rightarrow> Inl (Raised e))"

definition poc_adopted :: "dict \<Rightarrow> reply \<Rightarrow> release_error + bool" where
  "poc_adopted baseline real_poc =
     (if get_item baseline ''adoption_status'' \<noteq> Some (RStr ''ADOPTED'') \<or>
         get_item baseline ''poc_status'' \<noteq> Some (RStr ''PASSED'') then Inr False
      else case real_poc of
          RObj ms \<Rightarrow> if \<not> hashable (item ms ''decision'') then Inl (Raised ''TypeError'')
            else Inr (item ms ''decision'' \<in> {RStr ''DIRECT_CONFIG'', RStr ''THIN_ADAPTER''})
        | _ \<Rightarrow> Inr False)"

text \<open>The text after the first occurrence, or the whole text.\<close>

fun after_first :: "string \<Rightarrow> string \<Rightarrow> string option" where
  "after_first p [] = (if p = [] then Some [] else None)"
| "after_first p (c # s) =
     (if take (length p) (c # s) = p then Some (drop (length p) (c # s)) else after_first p s)"

definition FORBIDDEN_MARKERS :: "string list" where
  "FORBIDDEN_MARKERS = [''EXPOSE 8188'', ''SERVE_API_LOCALLY=true'', ''comfy node install'',
     ''comfy model download'', ''pip install'']"

definition release_text :: "release_world \<Rightarrow> string \<Rightarrow> release_error + string" where
  "release_text w file = (case rw_text w file of None \<Rightarrow> Inl (Raised ''OSError'') | Some s \<Rightarrow> Inr s)"

definition image_blockers :: "string \<Rightarrow> string \<Rightarrow> string list" where
  "image_blockers dockerfile locked_start =
     (let production = (case after_first '' AS production'' dockerfile of None \<Rightarrow> dockerfile | Some s \<Rightarrow> s) in
      (if list_ex (\<lambda>m. contains m production) FORBIDDEN_MARKERS
       then [''PRODUCTION_RUNTIME_OR_PUBLIC_COMFYUI_SURFACE_PRESENT''] else []) @
      (if \<not> contains ''rm -rf'' production \<or> \<not> contains ''ComfyUI-Manager'' production
       then [''COMFYUI_MANAGER_REMOVAL_NOT_ENFORCED''] else []) @
      (if \<not> contains ''unset PUBLIC_KEY'' locked_start \<or>
          \<not> contains ''export SERVE_API_LOCALLY=false'' locked_start \<or> contains ''--listen'' locked_start \<or>
          \<not> contains (''CMD ['' @ [CHR 0x22] @ ''/opt/video-factory/locked-start.sh'' @ [CHR 0x22] @ '']'') production
       then [''PUBLIC_COMFYUI_OR_SSH_STARTUP_NOT_LOCKED''] else []))"

definition repository_preflight :: "release_world \<Rightarrow> release_error + string list" where
  "repository_preflight w =
     gate_then (release_json w (WORKER_ROOT @ ''poc-baseline.json'')) (\<lambda>baseline.
     let real_poc = (case get_item baseline ''real_poc'' of None \<Rightarrow> RObj [] | Some r \<Rightarrow> r) in
     gate_then (poc_adopted baseline real_poc) (\<lambda>adopted.
     let digest_ok = (case real_poc of RObj ms \<Rightarrow> DIGEST_PATTERN (text_of w ms ''image_digest'') | _ \<Rightarrow> False) in
     gate_then (blocker ''MODEL_HASHES_AND_LICENSES_NOT_VERIFIED'' (approved_model_hashes w)) (\<lambda>b1.
     gate_then (blocker ''CUSTOM_NODE_LOCK_NOT_VERIFIED'' (validate_custom_node_lock w)) (\<lambda>b2.
     gate_then (blocker ''LICENSE_NOTICE_NOT_VERIFIED'' (validate_license_notice w)) (\<lambda>b3.
     gate_then (blocker ''FIXTURE_BENCHMARK_SMOKE_NOT_PASSED''
       (validate_benchmark w (WORKER_ROOT @ ''benchmark-smoke.json'') False)) (\<lambda>b4.
     gate_then (release_text w (WORKER_ROOT @ ''Dockerfile'')) (\<lambda>dockerfile.
     gate_then (release_text w (WORKER_ROOT @ ''locked-start.sh'')) (\<lambda>locked_start.
       Inr (sort (remdups ((if adopted then [] else [''REAL_RUNPOD_POC_NOT_PASSED'']) @
         (if digest_ok then [] else [''IMAGE_DIGEST_NOT_VERIFIED'']) @ b1 @ b2 @ b3 @ b4 @
         image_blockers dockerfile locked_start)))))))))))"

section \<open>The record of a release\<close>

text \<open>The parts of the record that are not the same for every release, and its provenance.\<close>

record release_record =
  rel_released_at :: time
  rel_image :: "string \<times> string"
  rel_rollback_image :: "string \<times> string"
  rel_worker_comfyui_version :: string
  rel_worker_comfyui_commit :: string
  rel_comfyui_version :: string
  rel_comfyui_commit :: string
  rel_comfy_cli_version :: string
  rel_workflow_id :: string
  rel_workflow_sha256 :: string
  rel_model_sha256 :: "(string \<times> string) list"
  rel_custom_node_lock_sha256 :: string
  rel_sbom :: "string \<times> string"
  rel_license_notice_sha256 :: string
  rel_benchmark :: "string \<times> string"

definition MANIFEST_ROOT :: string where
  "MANIFEST_ROOT = ''workflows/manifests/'' @ WORKFLOW_ID @ ''/''"

definition released_workflow :: "release_world \<Rightarrow> release_error + string" where
  "released_workflow w =
     gate_then (release_json w (MANIFEST_ROOT @ ''manifest.json'')) (\<lambda>manifest.
       case get_item manifest ''workflow_file'' of
         None \<Rightarrow> Inl (Raised ''KeyError'')
       | Some _ \<Rightarrow>
           gate_then (sha256_normalized_text w (MANIFEST_ROOT @ text_of w manifest ''workflow_file'')) (\<lambda>sha.
           gate_then (gate (get_item manifest ''workflow_sha256'' = Some (RStr sha))
             ''workflow file does not match its immutable manifest'') (\<lambda>_. Inr sha)))"

definition record_release ::
  "release_world \<Rightarrow> string \<Rightarrow> string \<Rightarrow> string \<Rightarrow> string \<Rightarrow> time \<Rightarrow> release_error + release_record" where
  "record_release w image_reference rollback_reference sbom_file benchmark_file now =
     gate_then (repository_preflight w) (\<lambda>blockers.
     gate_then (gate (blockers = []) ''worker release is blocked'') (\<lambda>_.
     gate_then (parse_oci_reference image_reference) (\<lambda>(_, image_digest).
     gate_then (parse_oci_reference rollback_reference) (\<lambda>(_, rollback_digest).
     gate_then (gate (image_digest \<noteq> rollback_digest)
       ''rollback image must be a distinct previously accepted digest'') (\<lambda>_.
     gate_then (verify_registry_digest w image_reference) (\<lambda>_.
     gate_then (verify_registry_digest w rollback_reference) (\<lambda>_.
     gate_then (validate_spdx_sbom w sbom_file) (\<lambda>_.
     gate_then (validate_benchmark w benchmark_file True) (\<lambda>_.
     gate_then (approved_model_hashes w) (\<lambda>model_hashes.
     gate_then (validate_custom_node_lock w) (\<lambda>lock_sha256.
     gate_then (validate_license_notice w) (\<lambda>notice_sha256.
     gate_then (released_workflow w) (\<lambda>workflow_sha256.
     gate_then (sha256_file w sbom_file) (\<lambda>sbom_sha256.
     gate_then (sha256_file w benchmark_file) (\<lambda>benchmark_sha256.
       Inr \<lparr>rel_released_at = now, rel_image = (image_reference, image_digest),
         rel_rollback_image = (rollback_reference, rollback_digest),
         rel_worker_comfyui_version = ''5.8.7'',
         rel_worker_comfyui_commit = ''a1981e99b1f5a7201f387653420ad1f275b97d0a'',
         rel_comfyui_version = ''0.29.0'',
         rel_comfyui_commit = ''a8c44f9b2a0678ac4082e3529a3f43db7472acfe'',
         rel_comfy_cli_version = ''1.18.0'', rel_workflow_id = WORKFLOW_ID,
         rel_workflow_sha256 = workflow_sha256, rel_model_sha256 = model_hashes,
         rel_custom_node_lock_sha256 = lock_sha256, rel_sbom = (sbom_file, sbom_sha256),
         rel_license_notice_sha256 = notice_sha256,
         rel_benchmark = (benchmark_file, benchmark_sha256)\<rparr>)))))))))))))))"

section \<open>A recorded release can be locked\<close>

text \<open>The adapter's configuration for a release, with the credentials and the limits of an endpoint.\<close>

definition config_of_release ::
  "release_record \<Rightarrow> string \<Rightarrow> string \<Rightarrow> int \<Rightarrow> int \<Rightarrow> rat \<Rightarrow> runpod_config" where
  "config_of_release r endpoint_id api_key execution_timeout_ms ttl_ms request_timeout =
     \<lparr>cf_endpoint_id = endpoint_id, cf_api_key = api_key, cf_image_digest = snd (rel_image r),
      cf_workflow_id = rel_workflow_id r, cf_workflow_sha256 = rel_workflow_sha256 r,
      cf_model_sha256 = rel_model_sha256 r, cf_worker_version = rel_worker_comfyui_version r,
      cf_worker_commit = rel_worker_comfyui_commit r, cf_comfyui_version = rel_comfyui_version r,
      cf_comfyui_commit = rel_comfyui_commit r, cf_comfy_cli_version = rel_comfy_cli_version r,
      cf_execution_timeout_ms = execution_timeout_ms, cf_ttl_ms = ttl_ms,
      cf_request_timeout_seconds = request_timeout\<rparr>"

lemma parse_oci_reference_Inr:
  "parse_oci_reference ref = Inr (name, digest) \<Longrightarrow> DIGEST_PATTERN digest \<and> name \<noteq> [] \<and> ref = name @ CHR ''@'' # digest"
proof -
  assume parsed: "parse_oci_reference ref = Inr (name, digest)"
  then have at: "CHR ''@'' \<in> set ref" and n: "name = takeWhile (\<lambda>x. x \<noteq> CHR ''@'') ref"
    and d: "digest = drop 1 (dropWhile (\<lambda>x. x \<noteq> CHR ''@'') ref)" "name \<noteq> []" "DIGEST_PATTERN digest"
    by (auto simp: parse_oci_reference_def split_first_def split: if_splits)
  from at have "dropWhile (\<lambda>x. x \<noteq> CHR ''@'') ref \<noteq> []" by auto
  then have "dropWhile (\<lambda>x. x \<noteq> CHR ''@'') ref = CHR ''@'' # digest"
    using hd_dropWhile [of "\<lambda>x. x \<noteq> CHR ''@''" ref] d(1)
    by (cases "dropWhile (\<lambda>x. x \<noteq> CHR ''@'') ref") auto
  then show ?thesis using takeWhile_dropWhile_id [of "\<lambda>x. x \<noteq> CHR ''@''" ref] n d by simp
qed

lemma collect_Inr: "collect f xs = Inr ys \<longleftrightarrow> list_all2 (\<lambda>x y. f x = Inr y) xs ys"
  by (induction xs arbitrary: ys) (auto simp: gate_then_Inr_iff list_all2_Cons1)

lemma approved_model_hashes_Inr:
  assumes "approved_model_hashes w = Inr hashes"
  shows "set (map fst hashes) = set FIXED_MODELS" "\<forall>(n, d) \<in> set hashes. hex_digest 64 d"
    "sorted (map fst hashes)"
proof -
  from assms obtain rows found where rows: "set (map fst rows) = set FIXED_MODELS"
    and c: "list_all2 (\<lambda>x y. model_digest x = Inr y) rows found" and h: "hashes = sort_key fst found"
    by (auto simp: approved_model_hashes_def gate_then_Inr_iff collect_Inr)
  have one: "fst y = fst x \<and> hex_digest 64 (snd y)" if "model_digest x = Inr y" for x y
    using that by (auto simp: model_digest_def gate_then_Inr_iff split: prod.splits option.splits if_splits)
  have "list_all2 (\<lambda>x y. fst y = fst x \<and> hex_digest 64 (snd y)) rows found"
    by (rule list_all2_mono [OF c]) (rule one)
  then have "map fst found = map fst rows \<and> (\<forall>y \<in> set found. hex_digest 64 (snd y))"
    by (induction rule: list_all2_induct) auto
  then have "map fst found = map fst rows" "\<forall>y \<in> set found. hex_digest 64 (snd y)" by simp_all
  moreover have "set (map fst hashes) = set (map fst found)" by (simp add: h)
  ultimately show "set (map fst hashes) = set FIXED_MODELS" using rows by simp
  show "sorted (map fst hashes)" by (simp add: h)
  show "\<forall>(n, d) \<in> set hashes. hex_digest 64 d"
    using \<open>\<forall>y \<in> set found. hex_digest 64 (snd y)\<close> by (auto simp: h)
qed

lemma released_workflow_Inr:
  assumes "released_workflow w = Inr sha" and "\<And>s. hex_digest 64 (rw_sha256 w s)"
  shows "hex_digest 64 sha"
proof -
  from assms(1) obtain f where "sha256_normalized_text w f = Inr sha"
    by (auto simp: released_workflow_def gate_then_Inr_iff split: option.splits)
  with assms(2) show ?thesis by (auto simp: sha256_normalized_text_def split: option.splits)
qed

lemma record_release_Inr:
  assumes "record_release w image_reference rollback_reference sbom_file benchmark_file now = Inr r"
  shows "(\<exists>name. parse_oci_reference image_reference = Inr (name, snd (rel_image r))) \<and>
    (\<exists>name. parse_oci_reference rollback_reference = Inr (name, snd (rel_rollback_image r))) \<and>
    snd (rel_image r) \<noteq> snd (rel_rollback_image r) \<and>
    (\<exists>d. verify_registry_digest w image_reference = Inr d) \<and>
    (\<exists>d. verify_registry_digest w rollback_reference = Inr d) \<and>
    approved_model_hashes w = Inr (rel_model_sha256 r) \<and>
    released_workflow w = Inr (rel_workflow_sha256 r) \<and>
    rel_worker_comfyui_version r = ''5.8.7'' \<and>
    rel_worker_comfyui_commit r = ''a1981e99b1f5a7201f387653420ad1f275b97d0a'' \<and>
    rel_comfyui_version r = ''0.29.0'' \<and>
    rel_comfyui_commit r = ''a8c44f9b2a0678ac4082e3529a3f43db7472acfe'' \<and>
    rel_comfy_cli_version r = ''1.18.0'' \<and> rel_workflow_id r = WORKFLOW_ID"
  using assms unfolding record_release_def
  apply (elim gate_then_pairE gate_thenE)
  apply (drule Inr_inject)
  apply hypsubst
  apply simp
  done

text \<open>
  C5. The release gate and the adapter agree: whatever release the gate records, the RunPod
  adapter accepts the configuration that is locked to it (with valid credentials and limits of
  the endpoint) as it is, its models in the same order; the image and the rollback image
  are different digests that the registry confirmed.
\<close>

theorem recorded_release_lockable:
  assumes "record_release w image_reference rollback_reference sbom_file benchmark_file now = Inr r"
    and sha: "\<And>s. hex_digest 64 (rw_sha256 w s)"
    and "RUNPOD_ENDPOINT_PATTERN endpoint_id" "stripped api_key"
    and "5000 \<le> timeout_ms" "timeout_ms < ttl_ms" "10000 \<le> ttl_ms" "ttl_ms \<le> 604800000"
    and "0 < request_timeout" "request_timeout \<le> 60"
  shows "runpod_config_check (config_of_release r endpoint_id api_key timeout_ms ttl_ms request_timeout) =
      Inr (config_of_release r endpoint_id api_key timeout_ms ttl_ms request_timeout) \<and>
    snd (rel_image r) \<noteq> snd (rel_rollback_image r) \<and>
    rw_inspect w image_reference = Some (0, Some (RStr (snd (rel_image r)))) \<and>
    rw_inspect w rollback_reference = Some (0, Some (RStr (snd (rel_rollback_image r))))"
proof -
  note r = record_release_Inr [OF assms(1)]
  from r have image_of: "\<exists>d. verify_registry_digest w image_reference = Inr d"
    "\<exists>d. verify_registry_digest w rollback_reference = Inr d"
    and models: "approved_model_hashes w = Inr (rel_model_sha256 r)"
    and workflow: "released_workflow w = Inr (rel_workflow_sha256 r)" by simp_all
  have confirmed: "rw_inspect w ref = Some (0, Some (RStr d))"
    if "parse_oci_reference ref = Inr (n, d)" "\<exists>x. verify_registry_digest w ref = Inr x" for ref n d
    using that by (auto simp: verify_registry_digest_def gate_then_Inr_iff split: option.splits)
  obtain name name' where image: "parse_oci_reference image_reference = Inr (name, snd (rel_image r))"
    and rollback: "parse_oci_reference rollback_reference = Inr (name', snd (rel_rollback_image r))"
    using r by blast
  note m = approved_model_hashes_Inr [OF models]
  have fixed: "set FIXED_MODELS \<noteq> {}" "[] \<notin> set FIXED_MODELS" by (simp_all add: FIXED_MODELS_def)
  from fixed(1) m(1) have "rel_model_sha256 r \<noteq> []" by auto
  moreover from fixed(2) have "[] \<notin> set (map fst (rel_model_sha256 r))" by (simp only: m(1) not_False_eq_True)
  then have "\<forall>(n, d) \<in> set (rel_model_sha256 r). n \<noteq> []" by force
  moreover have "sort_key fst (rel_model_sha256 r) = rel_model_sha256 r"
    using m(3) by (rule sort_key_id_if_sorted)
  moreover have "DIGEST_PATTERN (snd (rel_image r))" using parse_oci_reference_Inr [OF image] by simp
  moreover have "hex_digest 64 (rel_workflow_sha256 r)" by (rule released_workflow_Inr [OF workflow sha])
  moreover have "rel_worker_comfyui_version r = ''5.8.7''"
    "rel_worker_comfyui_commit r = ''a1981e99b1f5a7201f387653420ad1f275b97d0a''"
    "rel_comfyui_version r = ''0.29.0''"
    "rel_comfyui_commit r = ''a8c44f9b2a0678ac4082e3529a3f43db7472acfe''"
    "rel_comfy_cli_version r = ''1.18.0''" "rel_workflow_id r = ''fast_wan_i2v_720_v1''"
    using r by (simp_all only: WORKFLOW_ID_def)
  ultimately have "runpod_config_check (config_of_release r endpoint_id api_key timeout_ms ttl_ms request_timeout) =
      Inr (config_of_release r endpoint_id api_key timeout_ms ttl_ms request_timeout)"
    using assms(3-10) m(2)
    by (simp add: runpod_config_check_def config_of_release_def list_all_iff split_beta)
  with confirmed [OF image image_of(1)] confirmed [OF rollback image_of(2)] r show ?thesis by simp
qed

text \<open>A repository that is ready, with a hash function that gives one digest.\<close>

definition one_digest :: string where "one_digest = replicate 64 (CHR ''a'')"

definition ready_model :: "string \<Rightarrow> csv_row" where
  "ready_model name = map_of [(''name'', Some name), (''sha256'', Some one_digest),
     (''status'', Some ''APPROVED''), (''version'', Some ''1''), (''source'', Some ''s''),
     (''license'', Some ''l''), (''commercial_saas'', Some ''y''), (''notice_obligations'', Some ''n''),
     (''reviewed_at'', Some ''t''), (''owner'', Some ''o'')]"

definition ready_lock :: string where
  "ready_lock = concat (map (\<lambda>(k, v). k @ '': '' @ v @ [CHR 0x0A]) FIXED_COMFY_LOCK_VALUES)"

definition ready_dockerfile :: string where
  "ready_dockerfile = ''FROM base AS production RUN rm -rf ComfyUI-Manager '' @
     ''CMD ['' @ [CHR 0x22] @ ''/opt/video-factory/locked-start.sh'' @ [CHR 0x22] @ '']''"

definition ready_benchmark :: reply where
  "ready_benchmark = RObj [(''route_id'', RStr WORKFLOW_ID), (''status'', RStr ''PASSED''),
     (''cases'', RList (map (\<lambda>n. RObj [(''name'', RStr n), (''status'', RStr ''PASSED'')]) REQUIRED_CASES)),
     (''real_gpu_benchmark'', RObj [(''executed'', RBool True), (''status'', RStr ''PASSED''),
       (''evidence'', RStr ''e'')])]"

definition ready_json :: "(string \<times> reply) list" where
  "ready_json = [(WORKER_ROOT @ ''poc-baseline.json'', RObj [(''adoption_status'', RStr ''ADOPTED''),
       (''poc_status'', RStr ''PASSED''), (''real_poc'', RObj [(''decision'', RStr ''DIRECT_CONFIG''),
         (''image_digest'', RStr (''sha256:'' @ one_digest))])]),
     (WORKER_ROOT @ ''benchmark-smoke.json'', ready_benchmark), (''bench'', ready_benchmark),
     (''sbom'', RObj [(''spdxVersion'', RStr ''SPDX-2.3''), (''documentNamespace'', RStr ''n''),
       (''packages'', RList [RObj [(''name'', RStr ''p'')]])]),
     (MANIFEST_ROOT @ ''manifest.json'', RObj [(''workflow_file'', RStr ''w''),
       (''workflow_sha256'', RStr one_digest)])]"

definition ready_text :: "(string \<times> string) list" where
  "ready_text = [(COMFY_LOCK, ready_lock), (LICENSE_NOTICE, concat NOTICE_MARKERS),
     (WORKER_ROOT @ ''Dockerfile'', ready_dockerfile),
     (WORKER_ROOT @ ''locked-start.sh'', ''unset PUBLIC_KEY export SERVE_API_LOCALLY=false''),
     (MANIFEST_ROOT @ ''w'', ''workflow''), (''sbom'', ''s''), (''bench'', ''b'')]"

definition ready_digest :: "char \<Rightarrow> string" where
  "ready_digest c = ''sha256:'' @ replicate 64 c"

definition ready_world :: release_world where
  "ready_world = \<lparr>rw_json = map_of ready_json, rw_text = map_of ready_text,
     rw_models = Some (map ready_model FIXED_MODELS), rw_nodes = Some (NODE_FIELDS, []),
     rw_sha256 = (\<lambda>_. one_digest), rw_str = (\<lambda>_. []),
     rw_inspect = map_of [(''img@'' @ ready_digest (CHR ''1''), (0, Some (RStr (ready_digest (CHR ''1''))))),
       (''img@'' @ ready_digest (CHR ''2''), (0, Some (RStr (ready_digest (CHR ''2'')))))],
     rw_syft = (\<lambda>_ _. None)\<rparr>"

lemma ready_world_releases:
  "\<exists>r. record_release ready_world (''img@'' @ ready_digest (CHR ''1''))
     (''img@'' @ ready_digest (CHR ''2'')) ''sbom'' ''bench'' 0 = Inr r"
proof -
  have "case record_release ready_world (''img@'' @ ready_digest (CHR ''1''))
     (''img@'' @ ready_digest (CHR ''2'')) ''sbom'' ''bench'' 0 of Inl _ \<Rightarrow> False | Inr _ \<Rightarrow> True"
    by code_simp
  then show ?thesis by (simp split: sum.splits)
qed

lemma recorded_release_lockable_witness:
  "\<exists>r. record_release ready_world (''img@'' @ ready_digest (CHR ''1''))
      (''img@'' @ ready_digest (CHR ''2'')) ''sbom'' ''bench'' 0 = Inr r \<and>
    (\<exists>c. runpod_config_check (config_of_release r ''endpoint'' ''key'' 5000 10000 1) = Inr c)"
proof -
  from ready_world_releases obtain r where r: "record_release ready_world (''img@'' @ ready_digest (CHR ''1''))
      (''img@'' @ ready_digest (CHR ''2'')) ''sbom'' ''bench'' 0 = Inr r" by blast
  have "hex_digest 64 (rw_sha256 ready_world s)" for s
  proof -
    have "hex_digest 64 one_digest" by code_simp
    then show ?thesis by (simp add: ready_world_def)
  qed
  moreover have "RUNPOD_ENDPOINT_PATTERN ''endpoint''" "stripped ''key''" by code_simp+
  ultimately show ?thesis using r recorded_release_lockable [OF r, of "''endpoint''" "''key''" 5000 10000 1] by auto
qed

end
