(* ===== verification/ContractInv.thy ===== *)
theory ContractInv
  imports Contract RunPodInv RequestInv UuidText
begin

text \<open>
  The two sides of the RunPod contract agree: the request the adapter sends is one the worker
  accepts, and the report a conforming worker sends is one the adapter reads.
\<close>

section \<open>Fields\<close>

lemma dict_items_keys: "set (map fst (dict_items ms)) = set (map fst ms)"
  by (simp add: dict_items_def comp_def image_image)

lemma exact_fields_iff:
  "require_exact_fields (RObj ms) names label = Inr v \<longleftrightarrow> v = ms \<and> set (map fst ms) = set names"
proof -
  have "set (map (RStr \<circ> fst) (dict_items ms)) = RStr ` set (map fst ms)"
    using dict_items_keys [of ms] by (metis list.map_comp set_map)
  moreover have "RStr ` A = RStr ` B \<longleftrightarrow> A = B" for A B
    by (rule inj_image_eq_iff) (simp add: inj_def)
  ultimately show ?thesis
    by (auto simp: require_exact_fields_def name_set_def elements_def list_all_iff hashable_def
        check_then_def)
qed

lemma item_present: "n \<in> set (map fst ms) \<Longrightarrow> map_of (rev ms) n = Some (item ms n)"
proof -
  assume "n \<in> set (map fst ms)"
  then have "map_of (rev ms) n \<noteq> None" by (auto simp: map_of_eq_None_iff)
  then show ?thesis by (auto simp: item_def get_item_def)
qed

lemma signed_claim_chars: "signed_claim s \<Longrightarrow> c \<in> set s \<Longrightarrow> claim_char c \<or> c = CHR ''.''"
proof -
  assume s: "signed_claim s" and c: "c \<in> set s"
  let ?p = "\<lambda>c. c \<noteq> CHR ''.''"
  from s obtain d t where dw: "dropWhile ?p s = d # t"
    by (cases "dropWhile ?p s") (simp_all add: signed_claim_def)
  then have d: "d = CHR ''.''" using hd_dropWhile [of ?p s] by simp
  have "set s = set (takeWhile ?p s) \<union> set (d # t)"
    by (metis dw set_append takeWhile_dropWhile_id)
  with c have "c \<in> set (takeWhile ?p s) \<or> c = d \<or> c \<in> set t" by auto
  moreover have "list_all claim_char (takeWhile ?p s)" "list_all claim_char t"
    using s by (simp_all add: signed_claim_def Let_def dw)
  ultimately show ?thesis using d by (auto simp: list_all_iff)
qed

lemma signed_claim_no_scheme: "signed_claim s \<Longrightarrow> \<not> contains ''://'' s"
proof
  assume s: "signed_claim s" and "contains ''://'' s"
  then have "CHR '':'' \<in> set s" using contains_chars by fastforce
  with signed_claim_chars [OF s] have "claim_char (CHR '':'')" by blast
  then show False by (simp add: claim_char_def)
qed

lemma require_claim_iff: "require_claim r label = Inr () \<longleftrightarrow> (\<exists>s. r = RStr s \<and> signed_claim s)"
  using signed_claim_no_scheme by (auto simp: require_claim_def split: reply.splits)

section \<open>Requests\<close>

lemma worker_input_valid:
  assumes "worker_input config request = Inr r" and "cf_workflow_id config = WORKFLOW_ID"
    and "\<And>u. parses (RStr (uuid_str u))"
  shows "\<exists>ms. r = RObj ms \<and> validate_request parses ms = Inr ()"
proof -
  from assms(1) obtain claim where
    r: "r = RObj
       [(''job_id'', RStr (uuid_str (rq_job_id request))),
        (''attempt_id'', RStr (uuid_str (rq_attempt_id request))),
        (''workflow_id'', RStr (cf_workflow_id config)), (''prompt'', RStr (rq_prompt request)),
        (''duration_ms'', RInt 5000), (''aspect_ratio'', RStr (rq_aspect_ratio request)),
        (''resolution'', RStr ''720p''), (''input_claim'', RStr claim),
        (''output_claim'', RStr (rq_output_claim request)),
        (''callback_claim'', RStr (rq_callback_claim request))]"
    and "rq_aspect_ratio request \<in> {''16:9'', ''9:16''}"
    and "1 \<le> length (rq_prompt request)" "length (rq_prompt request) \<le> 2000"
    and "signed_claim claim" "signed_claim (rq_output_claim request)"
      "signed_claim (rq_callback_claim request)"
    by (auto simp: worker_input_def long_claim_def split: if_splits option.splits)
  then show ?thesis
    using assms(2,3)
    by (auto simp: validate_request_def exact_fields_iff check_then_Inr_iff check_all_Inr_iff
        REQUEST_FIELDS_def item_def get_item_def require_uuid_def is_text_def one_of_def
        hashable_def require_claim_iff)
qed

section \<open>Reports\<close>

text \<open>What the contract leaves open and the adapter does not: the characters of an object key,
  and the number and the names of the models.\<close>

definition plain_key :: "reply \<Rightarrow> bool" where
  "plain_key r = (case r of RObj ms \<Rightarrow>
     (case item ms ''object_key'' of RStr key \<Rightarrow> list_all key_char key | _ \<Rightarrow> True) | _ \<Rightarrow> True)"

definition plain_models :: "reply \<Rightarrow> bool" where
  "plain_models r = (case r of RObj ms \<Rightarrow>
     (case item ms ''model_sha256'' of
        RObj hs \<Rightarrow> length (dict_of hs) \<le> 32 \<and>
          list_all (\<lambda>(name, _). 1 \<le> length name \<and> length name \<le> 255) hs
      | _ \<Rightarrow> True) | _ \<Rightarrow> True)"

text \<open>How pydantic reads a JSON number.\<close>

definition scalars_ok :: "scalars \<Rightarrow> bool" where
  "scalars_ok sc \<longleftrightarrow> (\<forall>n. sc_int sc (RInt n) = Some n \<and> sc_float sc (RInt n) = Some (of_int n)) \<and>
     (\<forall>q. sc_float sc (RFloat q) = Some q) \<and> (\<forall>u. sc_uuid sc (RStr (uuid_str u)) = Some u)"

lemma nonnegative_iff: "require_nonnegative_int r label = Inr () \<longleftrightarrow> (\<exists>n. r = RInt n \<and> 0 \<le> n)"
  by (auto simp: require_nonnegative_int_def split: reply.splits)

lemma positive_iff: "require_positive v n = Inr () \<longleftrightarrow> (\<exists>k. item v n = RInt k \<and> 1 \<le> k)"
  by (auto simp: require_positive_def check_then_Inr_iff nonnegative_iff)

lemma is_text_iff: "is_text lo hi r \<longleftrightarrow> (\<exists>s. r = RStr s \<and> lo \<le> length s \<and> length s \<le> hi)"
  by (auto simp: is_text_def split: reply.splits)

lemma one_of_iff: "one_of names message r = Inr () \<longleftrightarrow> (\<exists>s \<in> set names. r = RStr s)"
  by (auto simp: one_of_def hashable_def)

lemma full_match_iff: "full_match p message r = Inr () \<longleftrightarrow> (\<exists>s. r = RStr s \<and> p s)"
  by (auto simp: full_match_def split: reply.splits)

lemmas contract_iff = check_then_Inr_iff check_all_Inr_iff exact_fields_iff nonnegative_iff
  positive_iff is_text_iff one_of_iff full_match_iff require_claim_iff

lemma read_members:
  assumes "set (map fst ms) = set names"
  shows "members names (RObj ms) = Some (map_of (rev ms))"
    and "n \<in> set names \<Longrightarrow> item ms n = r \<Longrightarrow> map_of (rev ms) n = Some r"
  using item_present [of n ms] assms by (auto simp: members_def)

lemma metrics_read:
  assumes "validate_metrics (RObj ms) = Inr ()" and sc: "scalars_ok sc"
  shows "worker_metrics_of sc (RObj ms) \<noteq> None"
proof -
  have keys: "set (map fst ms) = set METRIC_FIELDS"
    using assms(1) by (simp add: validate_metrics_def contract_iff)
  note R = read_members [OF keys]
  from assms(1) obtain gpu q c r b k cur src where f:
    "item ms ''gpu'' = RStr gpu" "1 \<le> length gpu" "length gpu \<le> 200"
    "item ms ''queue_ms'' = RInt q" "item ms ''cold_start_ms'' = RInt c"
    "item ms ''runtime_ms'' = RInt r" "item ms ''billable_ms'' = RInt b"
    "item ms ''cost_minor'' = RInt k" "0 \<le> q" "0 \<le> c" "0 \<le> r" "0 \<le> b" "0 \<le> k"
    "item ms ''currency'' = RStr cur" "currency_code cur"
    "item ms ''cost_source'' = RStr src" "src = ''ACTUAL'' \<or> src = ''ESTIMATE''"
    by (clarsimp simp: validate_metrics_def contract_iff) metis
  have m: "map_of (rev ms) ''gpu'' = Some (RStr gpu)" "map_of (rev ms) ''queue_ms'' = Some (RInt q)"
    "map_of (rev ms) ''cold_start_ms'' = Some (RInt c)" "map_of (rev ms) ''runtime_ms'' = Some (RInt r)"
    "map_of (rev ms) ''billable_ms'' = Some (RInt b)" "map_of (rev ms) ''cost_minor'' = Some (RInt k)"
    "map_of (rev ms) ''currency'' = Some (RStr cur)" "map_of (rev ms) ''cost_source'' = Some (RStr src)"
    by (rule R(2); simp add: f METRIC_FIELDS_def)+
  have "sc_int sc (RInt n) = Some n" for n using sc by (simp add: scalars_ok_def)
  then show ?thesis
    using f unfolding worker_metrics_of_def R(1) [unfolded METRIC_FIELDS_def]
    by (simp add: m text_field_def int_field_def any_text_def)
qed

lemma text_members_Some:
  "list_all (\<lambda>(_, r). \<exists>s. r = RStr s \<and> P s) ms \<Longrightarrow>
     \<exists>hs. text_members ms = Some hs \<and> map fst hs = map fst ms \<and> list_all (\<lambda>(_, s). P s) hs"
  by (induction ms rule: text_members.induct) auto

lemma models_read:
  assumes "validate_models r = Inr ()" and "plain_models (RObj vs)" and "item vs ''model_sha256'' = r"
  shows "model_hashes (Some r) \<noteq> None"
proof -
  from assms(1) obtain ms where r: "r = RObj ms" and ne: "ms \<noteq> []"
    and all: "\<forall>c \<in> set (dict_items ms). (case c of (_, digest) \<Rightarrow> full_match (hex_digest 64)
            ''model_sha256 contains an invalid digest'' digest) = Inr ()"
    by (auto simp: validate_models_def contract_iff split: reply.splits if_splits)
  have d: "\<exists>s. v = RStr s \<and> hex_digest 64 s" if "(n, v) \<in> set (dict_items ms)" for n v
    using bspec [OF all that] by (simp add: full_match_iff)
  have "\<exists>s. v = RStr s \<and> hex_digest 64 s" if "(n, v) \<in> set (dict_of ms)" for n v
  proof (rule d)
    from that have n: "n \<in> set (map fst ms)" and v: "v = the (map_of (rev ms) n)"
      by (auto simp: dict_of_def)
    then have "v = item ms n" using item_present [OF n] by simp
    with n show "(n, v) \<in> set (dict_items ms)" by (auto simp: dict_items_def image_iff)
  qed
  then have "list_all (\<lambda>(_, r). \<exists>s. r = RStr s \<and> hex_digest 64 s) (dict_of ms)"
    by (auto simp: list_all_iff)
  from text_members_Some [OF this] obtain hs where hs: "text_members (dict_of ms) = Some hs"
    "map fst hs = map fst (dict_of ms)" "list_all (\<lambda>(_, s). hex_digest 64 s) hs" by blast
  have len: "length hs = length (dict_of ms)" using hs(2) by (metis length_map)
  have "fst ` set hs = set (map fst (dict_of ms))" by (metis hs(2) set_map)
  also have "\<dots> = fst ` set ms" by (simp add: dict_of_def image_image)
  finally have keys: "fst ` set hs = fst ` set ms" .
  have small: "length (dict_of ms) \<le> 32"
    "\<And>n. n \<in> fst ` set ms \<Longrightarrow> 1 \<le> length n \<and> length n \<le> 255"
    using assms(2,3) r by (auto simp: plain_models_def list_all_iff)
  have "hs \<noteq> []" using keys ne by auto
  moreover have "list_all (\<lambda>(name, digest). 1 \<le> length name \<and> length name \<le> 255 \<and> hex_digest 64 digest) hs"
  proof -
    have "1 \<le> length n \<and> length n \<le> 255 \<and> hex_digest 64 d" if "(n, d) \<in> set hs" for n d
    proof -
      have "n \<in> fst ` set ms" unfolding keys [symmetric] using that by force
      with small(2) hs(3) that show ?thesis by (auto simp: list_all_iff)
    qed
    then show ?thesis by (auto simp: list_all_iff)
  qed
  ultimately show ?thesis
    using small(1) len by (auto simp: model_hashes_def r hs(1) Suc_le_eq)
qed

lemma locked_hashes:
  "hex_digest 40 WORKER_COMFYUI_COMMIT" "hex_digest 40 COMFYUI_COMMIT"
  by code_simp+

text \<open>A conforming report carries the locked versions.\<close>

definition pinned :: "string \<Rightarrow> worker_versions \<Rightarrow> bool" where
  "pinned sha v \<longleftrightarrow> wv_worker_comfyui v = WORKER_COMFYUI_VERSION \<and>
     wv_worker_commit v = WORKER_COMFYUI_COMMIT \<and> wv_comfyui_commit v = COMFYUI_COMMIT \<and>
     wv_comfy_cli v = COMFY_CLI_VERSION \<and> wv_workflow_id v = WORKFLOW_ID \<and>
     wv_workflow_sha256 v = sha"

lemma versions_read:
  assumes "validate_versions sha (RObj ms) = Inr ()" and "plain_models (RObj ms)" and "hex_digest 64 sha"
  shows "\<exists>v. worker_versions_of (RObj ms) = Some v \<and> pinned sha v"
proof -
  have keys: "set (map fst ms) = set VERSION_FIELDS"
    using assms(1) by (simp add: validate_versions_def contract_iff)
  note R = read_members [OF keys]
  from assms(1) obtain image where f:
    "item ms ''worker_comfyui'' = RStr WORKER_COMFYUI_VERSION"
    "item ms ''worker_commit'' = RStr WORKER_COMFYUI_COMMIT"
    "item ms ''comfyui_commit'' = RStr COMFYUI_COMMIT" "item ms ''comfy_cli'' = RStr COMFY_CLI_VERSION"
    "item ms ''workflow_id'' = RStr WORKFLOW_ID" "item ms ''workflow_sha256'' = RStr sha"
    "validate_models (item ms ''model_sha256'') = Inr ()"
    "item ms ''image_digest'' = RStr image" "DIGEST_PATTERN image"
    by (clarsimp simp: validate_versions_def contract_iff expected_versions_def)
  obtain hs where hs: "model_hashes (Some (item ms ''model_sha256'')) = Some hs"
    using models_read [OF f(7) assms(2)] by auto
  have m: "map_of (rev ms) ''worker_comfyui'' = Some (RStr WORKER_COMFYUI_VERSION)"
    "map_of (rev ms) ''worker_commit'' = Some (RStr WORKER_COMFYUI_COMMIT)"
    "map_of (rev ms) ''comfyui_commit'' = Some (RStr COMFYUI_COMMIT)"
    "map_of (rev ms) ''comfy_cli'' = Some (RStr COMFY_CLI_VERSION)"
    "map_of (rev ms) ''image_digest'' = Some (RStr image)"
    "map_of (rev ms) ''workflow_id'' = Some (RStr WORKFLOW_ID)"
    "map_of (rev ms) ''workflow_sha256'' = Some (RStr sha)"
    "map_of (rev ms) ''model_sha256'' = Some (item ms ''model_sha256'')"
    by (rule R(2); simp add: f VERSION_FIELDS_def)+
  show ?thesis
    unfolding worker_versions_of_def R(1) [unfolded VERSION_FIELDS_def]
    by (simp add: m any_text_def locked_hashes assms(3) f(9) hs pinned_def)
qed

lemma error_read:
  assumes "validate_error (RObj ms) = Inr ()"
  shows "worker_error_of (RObj ms) \<noteq> None"
proof -
  have keys: "set (map fst ms) = set [''code'', ''message'']"
    using assms by (simp add: validate_error_def contract_iff)
  note R = read_members [OF keys]
  from assms obtain c t where f: "item ms ''code'' = RStr c" "c \<in> set ALLOWED_ERROR_CODES"
    "item ms ''message'' = RStr t" "1 \<le> length t" "length t \<le> 1000"
    by (clarsimp simp: validate_error_def contract_iff)
  have "list_all (\<lambda>c. 1 \<le> length c \<and> length c \<le> 64) ALLOWED_ERROR_CODES" by code_simp
  with f(2) have "1 \<le> length c \<and> length c \<le> 64" by (simp add: list_all_iff)
  moreover have "map_of (rev ms) ''code'' = Some (RStr c)" "map_of (rev ms) ''message'' = Some (RStr t)"
    by (rule R(2); simp add: f)+
  ultimately show ?thesis
    using f(4,5) unfolding worker_error_of_def R(1) by (simp add: text_field_def)
qed

lemma set_append_filter: "set (xs @ filter P ys) \<subseteq> set (xs @ ys)"
  by auto

lemma optional_read:
  assumes "set (map fst ms) \<subseteq> set names"
  shows "members names (RObj ms) = Some (map_of (rev ms))"
  using assms by (simp add: members_def)

lemma output_read:
  assumes "validate_output (RObj ms) = Inr ()" and "plain_key (RObj ms)" and sc: "scalars_ok sc"
  shows "worker_artifact_of sc (RObj ms) \<noteq> None"
proof -
  let ?base = "[''claim'', ''object_key'', ''media_type'', ''duration_ms'', ''width'', ''height'',
            ''fps'', ''codec'']"
  have keys: "set (map fst ms) = set (?base @ filter (\<lambda>n. n \<in> set (map fst ms)) [''size_bytes'', ''sha256''])"
    using assms(1) unfolding validate_output_def Let_def contract_iff by simp
  have sub: "set (map fst ms) \<subseteq> set (?base @ [''size_bytes'', ''sha256''])"
    by (subst keys) (rule set_append_filter)
  have R: "map_of (rev ms) n = Some r" if "n \<in> set ?base" "item ms n = r" for n r
  proof -
    have "n \<in> set (map fst ms)" by (subst keys, subst set_append, rule UnI1, rule that(1))
    with that(2) item_present show ?thesis by blast
  qed
  from assms(1) have C: "require_positive ms ''duration_ms'' = Inr ()" "require_positive ms ''width'' = Inr ()"
    "require_positive ms ''height'' = Inr ()" "is_text 1 32 (item ms ''codec'')"
    "require_claim (item ms ''claim'') ''output.claim'' = Inr ()"
    "item ms ''media_type'' = RStr ''video/mp4''"
    and okey: "case item ms ''object_key'' of
              RStr key \<Rightarrow> 1 \<le> length key \<and> length key \<le> 255 \<and> safe_object_key key
            | _ \<Rightarrow> False"
    and fps: "case item ms ''fps'' of RInt n \<Rightarrow> 0 < n \<and> n \<le> 240 | RFloat q \<Rightarrow> 0 < q \<and> q \<le> 240
             | _ \<Rightarrow> False"
    and opt: "case get_item ms ''size_bytes'' of None \<Rightarrow> True | Some RNull \<Rightarrow> True
             | Some (RInt _) \<Rightarrow> True | _ \<Rightarrow> False"
      "case get_item ms ''sha256'' of None \<Rightarrow> True | Some RNull \<Rightarrow> True
             | Some (RStr _) \<Rightarrow> True | _ \<Rightarrow> False"
    unfolding validate_output_def Let_def check_then_Inr_iff exact_fields_iff check_all_Cons_iff
      ensure_Inr_iff by blast+
  obtain d w h where dim: "item ms ''duration_ms'' = RInt d" "1 \<le> d" "item ms ''width'' = RInt w"
    "1 \<le> w" "item ms ''height'' = RInt h" "1 \<le> h"
    using C(1-3) unfolding positive_iff by blast
  obtain codec claim where texts: "item ms ''codec'' = RStr codec" "1 \<le> length codec"
    "length codec \<le> 32" "item ms ''claim'' = RStr claim" "signed_claim claim"
    using C(4,5) unfolding is_text_iff require_claim_iff by blast
  obtain key where k: "item ms ''object_key'' = RStr key" "1 \<le> length key" "length key \<le> 255"
    "safe_object_key key"
    using okey by (cases "item ms ''object_key''") auto
  note f = dim texts C(6) k
  have key: "list_all key_char key" using assms(2) f by (simp add: plain_key_def)
  obtain q where q: "sc_float sc (item ms ''fps'') = Some q" "0 < q" "q \<le> 240"
    using fps sc by (auto simp: scalars_ok_def split: reply.splits)
  obtain sz where sz: "optional_field (sc_int sc) (map_of (rev ms) ''size_bytes'') = Some sz"
    using opt(1) sc by (auto simp: optional_field_def get_item_def scalars_ok_def split: option.splits reply.splits)
  obtain sh where sh: "optional_field str_value (map_of (rev ms) ''sha256'') = Some sh"
    using opt(2) by (auto simp: optional_field_def get_item_def str_value_def split: option.splits reply.splits)
  have m: "map_of (rev ms) ''claim'' = Some (RStr claim)" "map_of (rev ms) ''object_key'' = Some (RStr key)"
    "map_of (rev ms) ''media_type'' = Some (RStr ''video/mp4'')"
    "map_of (rev ms) ''duration_ms'' = Some (RInt d)" "map_of (rev ms) ''width'' = Some (RInt w)"
    "map_of (rev ms) ''height'' = Some (RInt h)" "map_of (rev ms) ''codec'' = Some (RStr codec)"
    "map_of (rev ms) ''fps'' = Some (item ms ''fps'')"
    by (rule R; simp add: f)+
  have "sc_int sc (RInt n) = Some n" for n using sc by (simp add: scalars_ok_def)
  then show ?thesis
    using f key q unfolding worker_artifact_of_def optional_read [OF sub, simplified]
    by (simp add: m any_text_def int_field_def text_field_def sz sh)
qed

lemma nullable_read: "p v \<noteq> None \<Longrightarrow> v \<noteq> RNull \<Longrightarrow> \<exists>x. nullable_field p (Some v) = Some (Some x)"
  by (cases v) (auto simp: nullable_field_def optional_field_def)

lemma nullable_null: "nullable_field p (Some RNull) = Some None"
  by (simp add: nullable_field_def optional_field_def)

lemma outcome_read:
  assumes C: "(if RStr st = RStr ''SUCCEEDED''
    then check_then (ensure (item ms ''error'' = RNull \<and> is_object (item ms ''output'')) t)
      (\<lambda>_. validate_output (item ms ''output''))
    else check_then (ensure (item ms ''output'' = RNull \<and> is_object (item ms ''error'')) t')
      (\<lambda>_. validate_error (item ms ''error''))) = Inr ()"
  and sc: "scalars_ok sc" and key: "plain_key (item ms ''output'')"
  shows "\<exists>art err. nullable_field (worker_artifact_of sc) (Some (item ms ''output'')) = Some art \<and>
    nullable_field worker_error_of (Some (item ms ''error'')) = Some err \<and>
    (st = ''SUCCEEDED'' \<longrightarrow> art \<noteq> None \<and> err = None) \<and> (st = ''FAILED'' \<longrightarrow> art = None \<and> err \<noteq> None)"
proof (cases "st = ''SUCCEEDED''")
  case True
  with C have null: "item ms ''error'' = RNull" and obj: "is_object (item ms ''output'')"
    and vo: "validate_output (item ms ''output'') = Inr ()" by (simp_all add: check_then_Inr_iff)
  obtain om where om: "item ms ''output'' = RObj om" using obj by (auto simp: is_object_def split: reply.splits)
  have "worker_artifact_of sc (RObj om) \<noteq> None"
    by (rule output_read [OF _ _ sc]) (use vo key om in simp_all)
  from nullable_read [where p = "worker_artifact_of sc" and v = "RObj om", OF this] True show ?thesis by (auto simp: null om nullable_null)
next
  case False
  with C have null: "item ms ''output'' = RNull" and obj: "is_object (item ms ''error'')"
    and ve: "validate_error (item ms ''error'') = Inr ()" by (simp_all add: check_then_Inr_iff)
  obtain em where em: "item ms ''error'' = RObj em" using obj by (auto simp: is_object_def split: reply.splits)
  have "worker_error_of (RObj em) \<noteq> None" by (rule error_read) (use ve em in simp)
  from nullable_read [where p = worker_error_of and v = "RObj em", OF this] False show ?thesis by (auto simp: null em nullable_null)
qed

lemma report_read:
  assumes v: "validate_response parses ms sha = Inr ()" and sc: "scalars_ok sc" and sha: "hex_digest 64 sha"
    and a: "item ms ''attempt_id'' = RStr (uuid_str a)"
    and plain: "plain_key (item ms ''output'')" "plain_models (item ms ''versions'')"
  shows "\<exists>w. worker_response_of sc (RObj ms) = Some w \<and> wk_attempt_id w = a \<and>
    pinned sha (wk_versions w) \<and> RStr (wk_status w) = item ms ''status''"
proof -
  have keys: "set (map fst ms) = set RESPONSE_FIELDS"
    using v by (simp add: validate_response_def contract_iff)
  note R = read_members [OF keys]
  from v have C: "one_of [''SUCCEEDED'', ''FAILED''] ''response status is invalid'' (item ms ''status'') = Inr ()"
    "(if item ms ''status'' = RStr ''SUCCEEDED''
      then check_then (ensure (item ms ''error'' = RNull \<and> is_object (item ms ''output''))
          ''successful response must contain only output'') (\<lambda>_. validate_output (item ms ''output''))
      else check_then (ensure (item ms ''output'' = RNull \<and> is_object (item ms ''error''))
          ''failed response must contain only error'') (\<lambda>_. validate_error (item ms ''error''))) = Inr ()"
    "validate_metrics (item ms ''metrics'') = Inr ()" "validate_versions sha (item ms ''versions'') = Inr ()"
    unfolding validate_response_def Let_def check_then_Inr_iff exact_fields_iff check_all_Cons_iff by blast+
  obtain st where st: "item ms ''status'' = RStr st" "st = ''SUCCEEDED'' \<or> st = ''FAILED''"
    using C(1) unfolding one_of_iff by auto
  obtain mm where mm: "item ms ''metrics'' = RObj mm"
    using C(3) by (auto simp: validate_metrics_def check_then_Inr_iff require_exact_fields_def
        split: reply.splits if_splits)
  obtain vm where vm: "item ms ''versions'' = RObj vm"
    using C(4) by (auto simp: validate_versions_def check_then_Inr_iff require_exact_fields_def
        split: reply.splits if_splits)
  obtain m where m: "worker_metrics_of sc (RObj mm) = Some m" using metrics_read [OF C(3) [unfolded mm] sc] by auto
  obtain ver where ver: "worker_versions_of (RObj vm) = Some ver" "pinned sha ver"
    using versions_read [OF C(4) [unfolded vm] plain(2) [unfolded vm] sha] by auto
  have "\<exists>art err. nullable_field (worker_artifact_of sc) (Some (item ms ''output'')) = Some art \<and>
      nullable_field worker_error_of (Some (item ms ''error'')) = Some err \<and>
      (st = ''SUCCEEDED'' \<longrightarrow> art \<noteq> None \<and> err = None) \<and> (st = ''FAILED'' \<longrightarrow> art = None \<and> err \<noteq> None)"
    by (rule outcome_read [OF C(2) [unfolded st(1)] sc plain(1)])
  then obtain art err where body:
    "nullable_field (worker_artifact_of sc) (Some (item ms ''output'')) = Some art"
    "nullable_field worker_error_of (Some (item ms ''error'')) = Some err"
    "st = ''SUCCEEDED'' \<Longrightarrow> art \<noteq> None \<and> err = None" "st = ''FAILED'' \<Longrightarrow> art = None \<and> err \<noteq> None" by blast
  have g: "map_of (rev ms) ''attempt_id'' = Some (RStr (uuid_str a))" "map_of (rev ms) ''status'' = Some (RStr st)"
    "map_of (rev ms) ''output'' = Some (item ms ''output'')" "map_of (rev ms) ''metrics'' = Some (RObj mm)"
    "map_of (rev ms) ''versions'' = Some (RObj vm)" "map_of (rev ms) ''error'' = Some (item ms ''error'')"
    by (rule R(2); simp add: a st(1) mm vm RESPONSE_FIELDS_def)+
  have u: "sc_uuid sc (RStr (uuid_str a)) = Some a" using sc by (simp add: scalars_ok_def)
  show ?thesis
    unfolding worker_response_of_def R(1) [unfolded RESPONSE_FIELDS_def]
    using st(2) body(3,4) by (auto simp: g u any_text_def body(1,2) m ver st(1))
qed


text \<open>A report of a failed run in the locked release, and a reader of scalars.\<close>

definition failed_report :: dict where
  "failed_report = [(''attempt_id'', RStr (uuid_str 7)), (''status'', RStr ''FAILED''),
     (''output'', RNull),
     (''metrics'', RObj [(''gpu'', RStr ''L40S''), (''queue_ms'', RInt 1), (''cold_start_ms'', RInt 1),
        (''runtime_ms'', RInt 1), (''billable_ms'', RInt 1), (''cost_minor'', RInt 1),
        (''currency'', RStr ''USD''), (''cost_source'', RStr ''ACTUAL'')]),
     (''versions'', RObj [(''worker_comfyui'', RStr ''5.8.7''),
        (''worker_commit'', RStr ''a1981e99b1f5a7201f387653420ad1f275b97d0a''),
        (''comfyui_commit'', RStr ''a8c44f9b2a0678ac4082e3529a3f43db7472acfe''),
        (''comfy_cli'', RStr ''1.18.0''), (''image_digest'', RStr (''sha256:'' @ sample_digest 64)),
        (''workflow_id'', RStr ''fast_wan_i2v_720_v1''), (''workflow_sha256'', RStr (sample_digest 64)),
        (''model_sha256'', RObj [(''model'', RStr (sample_digest 64))])]),
     (''error'', RObj [(''code'', RStr ''OUT_OF_MEMORY''), (''message'', RStr ''no memory'')])]"

definition text_scalars :: scalars where
  "text_scalars = \<lparr>sc_int = reply_int,
     sc_float = (\<lambda>r. case r of RFloat q \<Rightarrow> Some q | _ \<Rightarrow> map_option of_int (reply_int r)),
     sc_uuid = (\<lambda>r. map_option uuid_value (str_value r))\<rparr>"

lemma text_scalars_ok: "scalars_ok text_scalars"
  by (simp add: scalars_ok_def text_scalars_def str_value_def uuid_of_text)


end
