(* ===== verification/Spec2Isabelle.thy ===== *)
theory Spec2Isabelle
  imports Reservations Idempotency OutboxLeases Storage Artifacts CleanupInv
    Callbacks Polling Pipeline ClaimsInv RequestInv ServiceRuns
    ControlPlane Simulators RunPodInv Wallet Paging Bootstrap PocInv Release ContractInv
begin

text \<open>
  A verification development for the video generation control plane of this repository
  (apps/api/app, with the worker contract under workers/runpod-comfyui).

  \<^bold>\<open>The program.\<close> A user plans a project of shots, asks for a quote in seconds of credit and
  accepts it, which reserves the credit and queues a generation job in one transaction. An
  outbox hands the job to a workflow engine (Hatchet, or a runner inside the API process in
  development), whose steps call the execution service. The service submits the job to a
  provider with signed, claim-only input and output, polls it under a persisted budget or is
  told by a webhook, receives and checks the video, publishes it, and settles or releases the
  reservation. Failed attempts are retried once where the failure allows it. Cancellations and
  the deletion of projects go through outboxes of their own; events that run out of attempts
  become dead letters that an administrator replays; a reconciler re-enters what got stuck.

  \<^bold>\<open>Theories and sources.\<close>
  \<^item> Prelude: errors as values, tables as lists of rows with the SQL statements the code issues,
    UUIDs, decimal texts, JSON. Models: models.py, every table a record and every enumeration a
    datatype, with the check and unique constraints that the operations meet. Transactions: the
    locale of a system of transactions. Leases: the locale of a leased queue. Samples: rows for
    the witnesses. UuidText: reading a UUID's text.
  \<^item> StateMachine: state_machine.py. Ledger, LedgerInv, Reservations, Wallet: ledger.py, its
    invariant, the life of a reservation, and its refinement of an abstract wallet.
    Idempotency: idempotency.py.
  \<^item> Outbox, CancelOutbox, DeadLetters, OutboxLeases: outbox.py, provider_cancel_outbox.py,
    dead_letters.py and the outbox as a leased queue. Cleanup, CleanupInv: project_cleanup.py.
    Artifacts: artifact_lifecycle.py. ControlPlane: control_plane.py.
  \<^item> Provider, Routing, Media, Simulators, RunPod, RunPodAdapter, RunPodInv: provider.py,
    routing.py with provider_registry.py and project_routing.py, media.py, simulators.py,
    runpod.py. Contract, ContractInv: workers/runpod-comfyui/contract/validate.py and its
    agreement with the adapter.
  \<^item> ProviderContext, Submission, Polling, Callbacks, Receipt, Completion, Publishing, Execution:
    provider_execution_context.py, input_snapshot.py, provider_submission.py,
    provider_polling.py, provider_callbacks.py, artifacts.py, provider_completion.py with
    provider_settlement.py, provider_execution.py. ProviderInv, AttemptsInv, Pipeline,
    ExecutionInv, RequestInv: the pipeline as a system of transactions and its invariants.
  \<^item> Storage, Base64, Claims, ClaimsInv: storage.py and the callback claims of routing.py.
  \<^item> Accounts, Schemas, Queries, Projects, Assets, Billing, Generations, Paging: auth.py,
    admin_api.py, schemas.py, application_queries.py, accepted_input.py,
    generation_options.py, application_projects.py, application_assets.py,
    http_dependencies.py, application_billing.py, application_generations.py, and the pages of
    the lists. Service, History, ServiceInv, ServiceRuns: all of them next to the pipeline.
  \<^item> Workflow, LocalWorkflow, Config: workflow.py, hatchet_workflows.py, worker.py,
    local_workflow.py, config.py.
  \<^item> BlockingIO, Bootstrap: blocking_io.py; bootstrap.py, main.py, provider_api.py and the registries
    that routing.py makes from the settings. Poc, PocInv: scripts/run_worker_comfyui_poc.py.
    Release: scripts/release_worker.py.

  \<^bold>\<open>How the code is translated.\<close> A function keeps its name, with a prefix where two modules use
  the same one. One session that ends in one commit is a function from the database to an
  error or a result with the new database: a raise is a rollback, so it leaves no state. A pass
  over several sessions returns the state beside its error or result. Where a session reads
  without a lock and writes later, the two states are two arguments (\<open>db0\<close>, \<open>db\<close>), so the
  lemmas hold for any transaction that commits in between; a worker that comes back late is an
  operation on a row it read long ago. Instants and durations are microseconds; the clock is an
  argument (\<open>now\<close>, or a tick count where a pass reads it often). A float is the rational it
  stands for. Display texts have English glosses or none. Texts are ASCII.

  Parameters, each with the documented behaviour that a lemma uses as a hypothesis: SHA-256,
  HMAC and \<^verbatim>\<open>uuid5\<close>, \<^verbatim>\<open>json.loads\<close> and \<^verbatim>\<open>json.dumps\<close>, ISO dates and the UUID parser, the JWT
  library, the HTTP client, pydantic's reading of scalars, the object store where it is a
  protocol, the answers of a provider by tick, the Hatchet SDK and its durable engine, the
  file system. Fresh UUIDs come from a supply in the database state; 128 bits are finite, so
  the lemmas that need freshness name the budget.

  \<^bold>\<open>What is shown.\<close> Job and attempt transitions are compare-and-set with a faithful log
  (StateMachine). The ledger keeps its books, every transfer is made once, and the whole of it
  refines a wallet with four moves (LedgerInv, Reservations, Wallet). Requests are idempotent
  (Idempotency); outbox events are published once, in order, and can be replayed (OutboxLeases);
  a cleanup deletes everything it lists and nothing before its time (CleanupInv). Keys, claims
  and base64 texts are accepted exactly when they are canonical (Storage, Base64, ClaimsInv).
  Money follows status, attempts are bounded and their history is final under any interleaving
  of the pipeline, and then of the whole service (Pipeline, ExecutionInv, ServiceRuns). The
  execute loop ends (ExecutionInv). The RunPod adapter fails closed and agrees with the worker
  contract (RunPodInv, ContractInv). Pages visit every row once (Paging). A finished durable run
  does nothing again (Workflow); the development runner runs one task per key (LocalWorkflow);
  accepted settings keep secrets and plaintext out of production (Config).
  Blocking calls never use more threads than the pool has slots, and no answered call has a
  thread behind it (BlockingIO). The paid proof of concept opens only windows it can pay for and
  ends clean, except after a kill (PocInv). A recorded release is one the adapter can be locked
  to (Release).

  \<^bold>\<open>Loops.\<close> Loops over rows are structural recursion. The cleanup loop is a \<open>function\<close> whose
  measure is the number of pending objects. The execute loop, the durable loop and the loop of
  the development runner are \<open>partial_function (option)\<close>: None is a loop that never returns, and
  for execute it is proved that it returns. No fuel is used.

  \<^bold>\<open>Not modelled.\<close> Column length limits, foreign keys and indexes that constrain no operation,
  \<^verbatim>\<open>updated_at\<close> of projects and shots; log lines; the temporary files and the directories of the
  local object store; the asyncio and thread machinery beyond what is named above; FastAPI's
  routing and dependency injection, CORS and the request log; the Windows adapter of the
  Hatchet worker; developer commands (scripts/dev.py, scripts/test.py and their like), which
  only run other programs.
\<close>

end
